(* ===== verification/Prelude.thy ===== *)
theory Prelude
  imports Main "HOL-Library.AList"
begin

text \<open>
  Shared vocabulary of the development: Go's \<^verbatim>\<open>time.Time\<close> and
  \<^verbatim>\<open>time.Duration\<close> as integers of nanoseconds, run-time panics as values, Go maps
  as partial functions (when only looked up) or as association lists (when the code
  iterates over them: the order of the list is then the iteration order the run-time
  picked), and the expiry operation that every background clean-up loop performs.
\<close>

section \<open>Hint collections\<close>

named_theorems go_defs \<open>definitions of straight-line code, unfolded by component proofs\<close>
named_theorems inv_intros \<open>an operation keeps an invariant\<close>

section \<open>Time\<close>

type_synonym gotime = int
type_synonym duration = int

abbreviation millisecond :: duration where "millisecond \<equiv> 1000000"
abbreviation second :: duration where "second \<equiv> 1000000000"
abbreviation minute :: duration where "minute \<equiv> 60000000000"
abbreviation hour :: duration where "hour \<equiv> 3600000000000"

text \<open>
  The zero \<^verbatim>\<open>time.Time\<close> is midnight of January 1 of year 1, counted from the Unix epoch.
  \<^verbatim>\<open>Time.Sub\<close> (and \<^verbatim>\<open>time.Since\<close>) saturate at the bounds of a 64-bit duration.
\<close>

definition zero_time :: gotime where
  "zero_time = - 62135596800000000000"

definition max_duration :: duration where
  "max_duration = 9223372036854775807"

definition min_duration :: duration where
  "min_duration = - 9223372036854775808"

definition time_sub :: "gotime \<Rightarrow> gotime \<Rightarrow> duration" where
  "time_sub t u = max min_duration (min max_duration (t - u))"

definition unix_seconds :: "gotime \<Rightarrow> int" where
  "unix_seconds t = t div second"

lemma time_sub_exact:
  "min_duration \<le> t - u \<Longrightarrow> t - u \<le> max_duration \<Longrightarrow> time_sub t u = t - u"
  by (simp add: time_sub_def)

lemma time_sub_gt_iff:
  "min_duration \<le> d \<Longrightarrow> d < max_duration \<Longrightarrow> d < time_sub t u \<longleftrightarrow> d < t - u"
  by (auto simp: time_sub_def max_def min_def min_duration_def max_duration_def)

lemma time_sub_lt_iff:
  "min_duration < d \<Longrightarrow> d \<le> max_duration \<Longrightarrow> time_sub t u < d \<longleftrightarrow> t - u < d"
  by (auto simp: time_sub_def max_def min_def min_duration_def max_duration_def)

lemma time_sub_self [simp]: "time_sub t t = 0"
  by (simp add: time_sub_def min_duration_def max_duration_def)

lemma time_sub_zero_time: "zero_time + max_duration \<le> t \<Longrightarrow> time_sub t zero_time = max_duration"
  by (simp add: time_sub_def zero_time_def min_duration_def max_duration_def)

section \<open>Panics\<close>

datatype go_panic = IndexOutOfRange | SliceBounds | DivideByZero | NilDeref | MakeSliceCap | NilMapWrite | StackOverflow

text \<open>Integer division and remainder of Go truncate towards zero.\<close>

definition go_div :: "int \<Rightarrow> int \<Rightarrow> int" where
  "go_div a b = sgn a * sgn b * (\<bar>a\<bar> div \<bar>b\<bar>)"

definition go_mod :: "int \<Rightarrow> int \<Rightarrow> int" where
  "go_mod a b = a - b * go_div a b"

lemma go_div_nonneg [simp]: "0 \<le> a \<Longrightarrow> 0 < b \<Longrightarrow> go_div a b = a div b"
  by (cases "a = 0") (simp_all add: go_div_def sgn_if)

lemma go_mod_nonneg [simp]: "0 \<le> a \<Longrightarrow> 0 < b \<Longrightarrow> go_mod a b = a mod b"
  by (simp add: go_mod_def minus_mult_div_eq_mod)

text \<open>The value of a 64-bit \<^verbatim>\<open>int\<close> after wrap-around.\<close>

definition int64 :: "int \<Rightarrow> int" where
  "int64 i = (i + 9223372036854775808) mod 18446744073709551616 - 9223372036854775808"

lemma int64_id: "- 9223372036854775808 \<le> i \<Longrightarrow> i < 9223372036854775808 \<Longrightarrow> int64 i = i"
  by (simp add: int64_def)

lemma int64_add_multiple: "int64 (i + 18446744073709551616 * k) = int64 i"
  using mod_mult_self2 [of "i + 9223372036854775808" 18446744073709551616 k] by (simp add: int64_def algebra_simps)

section \<open>Go maps as partial functions\<close>

definition map_get :: "('k \<rightharpoonup> 'v) \<Rightarrow> 'k \<Rightarrow> 'v \<Rightarrow> 'v" where
  "map_get m k d = (case m k of None \<Rightarrow> d | Some v \<Rightarrow> v)"

definition map_del :: "('k \<rightharpoonup> 'v) \<Rightarrow> 'k \<Rightarrow> ('k \<rightharpoonup> 'v)" where
  "map_del m k = m(k := None)"

text \<open>The clean-up loops: \<^verbatim>\<open>for k, v := range m { if dead(v) { delete(m, k) } }\<close>.\<close>

definition map_expire :: "('v \<Rightarrow> bool) \<Rightarrow> ('k \<rightharpoonup> 'v) \<Rightarrow> ('k \<rightharpoonup> 'v)" where
  "map_expire dead m = (\<lambda>k. case m k of None \<Rightarrow> None | Some v \<Rightarrow> if dead v then None else Some v)"

lemma map_get_simps [simp]:
  "map_get (m(k \<mapsto> v)) k d = v"
  "k \<noteq> k' \<Longrightarrow> map_get (m(k \<mapsto> v)) k' d = map_get m k' d"
  "map_get Map.empty k d = d"
  by (simp_all add: map_get_def)

lemma map_del_simps [simp]:
  "map_del m k k = None"
  "k \<noteq> k' \<Longrightarrow> map_del m k k' = m k'"
  by (simp_all add: map_del_def)

lemma map_expire_Some_iff:
  "map_expire dead m k = Some v \<longleftrightarrow> m k = Some v \<and> \<not> dead v"
  by (auto simp: map_expire_def split: option.splits if_splits)

lemma map_expire_None_iff:
  "map_expire dead m k = None \<longleftrightarrow> (\<forall>v. m k = Some v \<longrightarrow> dead v)"
  by (auto simp: map_expire_def split: option.splits if_splits)

lemma map_expire_idem [simp]: "map_expire dead (map_expire dead m) = map_expire dead m"
  by (rule ext) (auto simp: map_expire_def split: option.splits)

lemma map_expire_mono:
  assumes "\<And>v. dead v \<Longrightarrow> dead' v"
  shows "map_expire dead' m \<subseteq>\<^sub>m map_expire dead m"
  using assms by (auto simp: map_le_def map_expire_def split: option.splits if_splits)

section \<open>Association lists\<close>

definition al_get :: "('k \<times> 'v) list \<Rightarrow> 'k \<Rightarrow> 'v \<Rightarrow> 'v" where
  "al_get al k d = (case map_of al k of None \<Rightarrow> d | Some v \<Rightarrow> v)"

lemma al_get_Nil [simp]: "al_get [] k d = d"
  by (simp add: al_get_def)

lemma al_get_Cons [simp]: "al_get ((k', v) # al) k d = (if k = k' then v else al_get al k d)"
  by (simp add: al_get_def)

lemma al_get_update [simp]:
  "al_get (AList.update k v al) k' d = (if k = k' then v else al_get al k' d)"
  by (simp add: al_get_def update_conv)

section \<open>Lists\<close>

text \<open>\<^verbatim>\<open>for _, x := range xs { if d := f(x); d != nil { return d } }; return nil\<close>\<close>

fun first_some :: "('a \<Rightarrow> 'b option) \<Rightarrow> 'a list \<Rightarrow> 'b option" where
  "first_some f [] = None"
| "first_some f (x # xs) = (case f x of None \<Rightarrow> first_some f xs | Some y \<Rightarrow> Some y)"

lemma first_some_None_iff: "first_some f xs = None \<longleftrightarrow> (\<forall>x\<in>set xs. f x = None)"
  by (induction xs) (auto split: option.splits)

lemma first_some_SomeD: "first_some f xs = Some y \<Longrightarrow> \<exists>x\<in>set xs. f x = Some y"
  by (induction xs) (auto split: option.splits)

lemma first_some_append:
  "first_some f (xs @ ys) = (case first_some f xs of None \<Rightarrow> first_some f ys | Some y \<Rightarrow> Some y)"
  by (induction xs) (auto split: option.splits)

text \<open>\<^verbatim>\<open>if d := a(); d != nil { return d }; if d := b(); ...\<close>, for stateless checks.\<close>

fun first_of :: "'b option list \<Rightarrow> 'b option" where
  "first_of [] = None"
| "first_of (None # xs) = first_of xs"
| "first_of (Some y # xs) = Some y"

lemma first_of_None_iff: "first_of xs = None \<longleftrightarrow> (\<forall>x\<in>set xs. x = None)"
  by (induction xs rule: first_of.induct) auto

lemma first_of_SomeD: "first_of xs = Some y \<Longrightarrow> Some y \<in> set xs"
  by (induction xs rule: first_of.induct) auto

lemma sorted_filter_gt_suffix:
  fixes ts :: "'a::linorder list"
  assumes "sorted ts"
  shows "filter (\<lambda>t. c < t) ts = dropWhile (\<lambda>t. t \<le> c) ts"
  using assms
proof (induction ts)
  case (Cons t ts)
  show ?case
  proof (cases "t \<le> c")
    case True
    with Cons show ?thesis by auto
  next
    case False
    with Cons.prems have "filter (\<lambda>u. c < u) ts = ts"
      by (auto intro!: filter_True)
    with False show ?thesis by auto
  qed
qed simp

text \<open>All of the values, unless one is missing.\<close>

fun all_some :: "'a option list \<Rightarrow> 'a list option" where
  "all_some [] = Some []"
| "all_some (None # xs) = None"
| "all_some (Some x # xs) = map_option ((#) x) (all_some xs)"

lemma all_some_Some_iff: "all_some xs = Some ys \<longleftrightarrow> xs = map Some ys"
proof (induction xs arbitrary: ys rule: all_some.induct)
  case (3 x xs)
  show ?case by (cases ys) (auto simp: 3)
qed auto

lemma all_some_map: "(\<And>x. x \<in> set xs \<Longrightarrow> f x = Some (g x)) \<Longrightarrow> all_some (map f xs) = Some (map g xs)"
  by (induction xs) auto

end
