(* ===== verification/WafTypes.thy ===== *)
theory WafTypes
  imports Complex_Main GoStrings
begin

text \<open>
  The data every inspector shares (\<^verbatim>\<open>internal/engine/engine.go\<close>): actions, decisions and the
  request context, and the interface \<^verbatim>\<open>Inspector\<close>. Scores are \<^verbatim>\<open>float64\<close> in the code; every score
  is a small multiple of 1/2, on which floating-point sums are exact, so they are rationals here.
\<close>

section \<open>Formatted text\<close>

text \<open>
  Evidence strings are built by \<^verbatim>\<open>fmt.Sprintf\<close>. A text is a literal or the format with its
  arguments; the rendering of \<^verbatim>\<open>%v\<close>, \<^verbatim>\<open>%q\<close> and \<^verbatim>\<open>%.1f\<close> is not modelled, and what needs the
  rendered string (only its length, in the confidence scorer) takes the renderer as an argument.
\<close>

datatype fmt_arg =
    AStr string | AInt int | ARat rat | ADur duration | ATime gotime | AStrs "string list"

datatype gotext = Lit string | Fmt string "fmt_arg list"

definition text_empty :: "gotext \<Rightarrow> bool" where
  "text_empty t = (t = Lit [])"

section \<open>Actions and decisions\<close>

datatype action = ActionBlock | ActionAllow | ActionChallenge | ActionMonitor | ActionRateLimit

record decision =
  d_action :: action
  d_rule_id :: string
  d_rule_name :: string
  d_severity :: string
  d_score :: rat
  d_evidence :: gotext
  d_blocked :: bool
  d_confidence :: rat
  d_explain :: gotext
  d_inspector :: string

text \<open>A composite literal that sets the fields up to \<^verbatim>\<open>Evidence\<close>; the rest are zero values.\<close>

definition mk_decision ::
  "action \<Rightarrow> string \<Rightarrow> string \<Rightarrow> string \<Rightarrow> rat \<Rightarrow> gotext \<Rightarrow> decision" where
  "mk_decision a rid name sev score ev =
     \<lparr>d_action = a, d_rule_id = rid, d_rule_name = name, d_severity = sev, d_score = score,
      d_evidence = ev, d_blocked = False, d_confidence = 0, d_explain = Lit [], d_inspector = []\<rparr>"

text \<open>\<^verbatim>\<open>&Decision{Action: ActionAllow}\<close>\<close>

definition allow_decision :: decision where
  "allow_decision = mk_decision ActionAllow [] [] [] 0 (Lit [])"

lemma mk_decision_sel [simp]:
  "d_action (mk_decision a rid name sev score ev) = a"
  "d_rule_id (mk_decision a rid name sev score ev) = rid"
  "d_rule_name (mk_decision a rid name sev score ev) = name"
  "d_severity (mk_decision a rid name sev score ev) = sev"
  "d_score (mk_decision a rid name sev score ev) = score"
  "d_evidence (mk_decision a rid name sev score ev) = ev"
  "d_confidence (mk_decision a rid name sev score ev) = 0"
  "d_explain (mk_decision a rid name sev score ev) = Lit []"
  by (simp_all add: mk_decision_def)

lemma allow_decision_sel [simp]:
  "d_action allow_decision = ActionAllow" "d_score allow_decision = 0"
  "d_rule_id allow_decision = []"
  by (simp_all add: allow_decision_def)

section \<open>Requests\<close>

type_synonym header_map = "(string \<times> string) list"
type_synonym param_map = "(string \<times> string list) list"

text \<open>
  The parts of \<^verbatim>\<open>*http.Request\<close> that inspectors read. \<open>rq_header\<close> is \<^verbatim>\<open>http.Header\<close>, keyed by
  canonical names; \<open>rq_tls\<close> is the negotiated version and cipher suite, when the connection is TLS.
\<close>

record http_request =
  rq_header :: param_map
  rq_content_length :: int
  rq_proto :: string
  rq_tls :: "(int \<times> int) option"

definition header_values :: "http_request \<Rightarrow> string \<Rightarrow> string list" where
  "header_values r name = al_get (rq_header r) name []"

definition header_get :: "http_request \<Rightarrow> string \<Rightarrow> string" where
  "header_get r name = (case header_values r name of [] \<Rightarrow> [] | v # _ \<Rightarrow> v)"

text \<open>
  \<^verbatim>\<open>RequestContext\<close>. The maps that inspectors iterate over are association lists; the order of a
  list is the order in which Go's \<^verbatim>\<open>range\<close> happens to visit the map. \<open>c_body = None\<close> is a nil body.
\<close>

record reqctx =
  c_request :: http_request
  c_status :: "int option"
  c_real_ip :: string
  c_user_agent :: string
  c_path :: string
  c_method :: string
  c_headers :: header_map
  c_cookies :: header_map
  c_query :: param_map
  c_form :: param_map
  c_body :: "string option"
  c_content_type :: string
  c_session_id :: string
  c_user_id :: string
  c_bot_score :: rat
  c_threat :: rat
  c_decisions :: "decision list"
  c_is_bot :: bool
  c_known_attack :: bool
  c_host :: string
  c_tls_version :: string
  c_ja3 :: string

definition plain_request :: reqctx where
  "plain_request = \<lparr>c_request = \<lparr>rq_header = [], rq_content_length = 0, rq_proto = ''HTTP/1.1'', rq_tls = None\<rparr>,
     c_status = None, c_real_ip = ''1.2.3.4'', c_user_agent = [], c_path = ''/'', c_method = ''GET'',
     c_headers = [], c_cookies = [], c_query = [], c_form = [], c_body = None, c_content_type = [],
     c_session_id = [], c_user_id = [], c_bot_score = 0, c_threat = 0, c_decisions = [], c_is_bot = False,
     c_known_attack = False, c_host = [], c_tls_version = [], c_ja3 = []\<rparr>"

definition ctx_header :: "reqctx \<Rightarrow> string \<Rightarrow> string" where
  "ctx_header c name = al_get (c_headers c) name []"

definition ctx_query :: "reqctx \<Rightarrow> string \<Rightarrow> string list" where
  "ctx_query c name = al_get (c_query c) name []"

definition ctx_form :: "reqctx \<Rightarrow> string \<Rightarrow> string list" where
  "ctx_form c name = al_get (c_form c) name []"

definition ctx_body :: "reqctx \<Rightarrow> string" where
  "ctx_body c = (case c_body c of None \<Rightarrow> [] | Some b \<Rightarrow> b)"

text \<open>\<^verbatim>\<open>NewRequestContext\<close>, from the parsed parts of the request that the HTTP library provides.\<close>

record raw_request =
  raw_http :: http_request
  raw_remote_addr :: string
  raw_user_agent :: string
  raw_path :: string
  raw_method :: string
  raw_host :: string
  raw_cookies :: "(string \<times> string) list"
  raw_query :: param_map
  raw_body :: "(string option) option"

definition max_body_size :: nat where
  "max_body_size = 10485760"

definition real_ip :: "raw_request \<Rightarrow> string" where
  "real_ip r =
     (let xff = header_get (raw_http r) ''X-Forwarded-For'';
          xri = header_get (raw_http r) ''X-Real-Ip''
      in if xff \<noteq> [] then xff else if xri \<noteq> [] then xri else raw_remote_addr r)"

text \<open>
  \<open>raw_body = None\<close> is a nil \<^verbatim>\<open>r.Body\<close>, \<open>Some None\<close> a read error. A value list of a header is never
  empty in \<^verbatim>\<open>net/http\<close>; the code indexes it with \<^verbatim>\<open>v[0]\<close>. Later cookies of one name win.
\<close>

definition new_request_context :: "raw_request \<Rightarrow> go_panic + reqctx" where
  "new_request_context r =
     (if \<exists>kv\<in>set (rq_header (raw_http r)). snd kv = [] then Inl IndexOutOfRange
      else Inr \<lparr>c_request = raw_http r, c_status = None, c_real_ip = real_ip r,
        c_user_agent = raw_user_agent r, c_path = raw_path r, c_method = raw_method r,
        c_headers = map (\<lambda>(k, v). (k, hd v)) (rq_header (raw_http r)),
        c_cookies = fold (\<lambda>(k, v) al. AList.update k v al) (raw_cookies r) [],
        c_query = raw_query r, c_form = [],
        c_body = (case raw_body r of
                    None \<Rightarrow> None
                  | Some None \<Rightarrow> None
                  | Some (Some b) \<Rightarrow> Some (if max_body_size < length b then take max_body_size b else b)),
        c_content_type = header_get (raw_http r) ''Content-Type'',
        c_session_id = [], c_user_id = [], c_bot_score = 0, c_threat = 0, c_decisions = [],
        c_is_bot = False, c_known_attack = False, c_host = raw_host r, c_tls_version = [],
        c_ja3 = []\<rparr>)"

section \<open>Inspectors\<close>

text \<open>
  \<^verbatim>\<open>Inspect(ctx) (*Decision, error)\<close>: a decision, \<^verbatim>\<open>nil, nil\<close>, an error, or a panic. An inspector
  runs in the state \<open>'s\<close> of its component at a given instant and may write to the context.
\<close>

datatype insp_result = IDec decision | INil | IErr gotext | IPanic go_panic

type_synonym 's inspector = "gotime \<Rightarrow> 's \<times> reqctx \<Rightarrow> ('s \<times> reqctx) \<times> insp_result"

definition result_of :: "decision option \<Rightarrow> insp_result" where
  "result_of d = (case d of None \<Rightarrow> INil | Some x \<Rightarrow> IDec x)"

lemma result_of_simps [simp]: "result_of None = INil" "result_of (Some x) = IDec x"
  by (simp_all add: result_of_def)

text \<open>An inspector without state, from its check of the context.\<close>

definition stateless :: "(reqctx \<Rightarrow> decision option) \<Rightarrow> 's inspector" where
  "stateless f = (\<lambda>now (s, c). ((s, c), result_of (f c)))"

text \<open>
  The contract of the interface that the pipeline relies on: an inspector leaves the running
  threat score and the list of decisions to the engine, and its own scores are between 0 and 100.
\<close>

definition ctx_frame :: "reqctx \<Rightarrow> reqctx \<Rightarrow> bool" where
  "ctx_frame c c' \<longleftrightarrow> c_threat c' = c_threat c \<and> c_decisions c' = c_decisions c"

definition score_ok :: "decision \<Rightarrow> bool" where
  "score_ok d \<longleftrightarrow> 0 \<le> d_score d \<and> d_score d \<le> 100"

locale inspector =
  fixes inspect :: "'s inspector"
  assumes frame: "inspect now (s, c) = ((s', c'), r) \<Longrightarrow> ctx_frame c c'"
    and score: "inspect now (s, c) = ((s', c'), IDec d) \<Longrightarrow> score_ok d"
begin

lemma threat_kept: "inspect now (s, c) = ((s', c'), r) \<Longrightarrow> c_threat c' = c_threat c"
  by (auto dest: frame simp: ctx_frame_def)

lemma decisions_kept: "inspect now (s, c) = ((s', c'), r) \<Longrightarrow> c_decisions c' = c_decisions c"
  by (auto dest: frame simp: ctx_frame_def)

lemma threat_grows:
  "inspect now (s, c) = ((s', c'), IDec d) \<Longrightarrow> c_threat c \<le> c_threat c' + d_score d"
  using threat_kept [of now s c s' c' "IDec d"] score [of now s c s' c' d] by (simp add: score_ok_def)

end

lemma inspector_stateless:
  assumes "\<And>c d. f c = Some d \<Longrightarrow> score_ok d"
  shows "inspector (stateless f)"
  by unfold_locales
    (auto simp: stateless_def ctx_frame_def result_of_def split: option.splits intro: assms)

text \<open>\<^verbatim>\<open>if dec := f(ctx); dec != nil { return dec }; ...\<close> for checks with state.\<close>

fun check_chain :: "('s \<Rightarrow> 's \<times> decision option) list \<Rightarrow> 's \<Rightarrow> 's \<times> decision option" where
  "check_chain [] s = (s, None)"
| "check_chain (f # fs) s = (case f s of (s', Some d) \<Rightarrow> (s', Some d) | (s', None) \<Rightarrow> check_chain fs s')"

definition scores_ok :: "('s \<Rightarrow> 's \<times> decision option) \<Rightarrow> bool" where
  "scores_ok f \<longleftrightarrow> (\<forall>s s' d. f s = (s', Some d) \<longrightarrow> score_ok d)"

lemma scores_okI: "(\<And>s s' d. f s = (s', Some d) \<Longrightarrow> score_ok d) \<Longrightarrow> scores_ok f"
  by (simp add: scores_ok_def)

lemma scores_ok_chain: "\<forall>f\<in>set fs. scores_ok f \<Longrightarrow> scores_ok (check_chain fs)"
proof (induction fs)
  case (Cons f fs)
  then have "scores_ok f" "scores_ok (check_chain fs)" by auto
  then show ?case by (auto simp: scores_ok_def split: prod.splits option.splits)
qed (simp add: scores_ok_def)

lemma check_chain_inv:
  "\<forall>f\<in>set fs. \<forall>s. P s \<longrightarrow> P (fst (f s)) \<Longrightarrow> P s \<Longrightarrow> P (fst (check_chain fs s))"
proof (induction fs arbitrary: s)
  case (Cons f fs)
  then have "P (fst (f s))" by simp
  with Cons show ?case by (cases "f s") (auto split: option.splits)
qed simp

text \<open>An inspector with state, from its check of the context.\<close>

definition stateful :: "(gotime \<Rightarrow> reqctx \<Rightarrow> 's \<Rightarrow> 's \<times> decision option) \<Rightarrow> 's inspector" where
  "stateful f = (\<lambda>now (s, c). case f now c s of (s', d) \<Rightarrow> ((s', c), result_of d))"

lemma inspector_stateful:
  assumes "\<And>now c. scores_ok (f now c)"
  shows "inspector (stateful f)"
proof
  show "ctx_frame c c'" if "stateful f now (s, c) = ((s', c'), r)" for now s c s' c' r
    using that by (auto simp: stateful_def ctx_frame_def split: prod.splits)
  show "score_ok d" if "stateful f now (s, c) = ((s', c'), IDec d)" for now s c s' c' d
    using that assms [of now c]
    by (auto simp: stateful_def scores_ok_def result_of_def split: prod.splits option.splits)
qed

end
