(* ===== verification/Scoring.thy ===== *)
theory Scoring
  imports WafTypes
begin

text \<open>
  The two passive observers of the pipeline: the confidence scorer (\<^verbatim>\<open>internal/engine/confidence.go\<close>) and
  the learning engine (\<^verbatim>\<open>internal/engine/shadow.go\<close>), with the range of the confidence values.
\<close>

section \<open>Confidence scorer\<close>

record rule_confidence =
  rc_total :: int
  rc_bad :: int
  rc_fp :: int
  rc_base :: rat
  rc_updated :: gotime

type_synonym conf_scorer = "string \<rightharpoonup> rule_confidence"

definition severity_weight :: "string \<Rightarrow> rat" where
  "severity_weight sev =
     (if sev = ''critical'' then 1 else if sev = ''high'' then 85/100
      else if sev = ''medium'' then 65/100 else if sev = ''low'' then 40/100
      else if sev = ''info'' then 20/100 else 50/100)"

text \<open>\<^verbatim>\<open>math.Round\<close>: half away from zero.\<close>

definition math_round :: "rat \<Rightarrow> int" where
  "math_round x = (if 0 \<le> x then \<lfloor>x + 1/2\<rfloor> else - \<lfloor>- x + 1/2\<rfloor>)"

definition evidence_quality :: "int \<Rightarrow> rat" where
  "evidence_quality n = (if 10 < n then min 1 (of_int n / 200) else 1/2)"

definition score_decision :: "(gotext \<Rightarrow> string) \<Rightarrow> conf_scorer \<Rightarrow> decision \<Rightarrow> decision" where
  "score_decision render cs d =
     (if 0 < d_confidence d then d
      else
        let base = (case cs (d_rule_id d) of None \<Rightarrow> 85/100 | Some rc \<Rightarrow> rc_base rc);
            raw = base * (40/100) + (d_score d / 100) * (30/100)
                  + severity_weight (d_severity d) * (20/100)
                  + evidence_quality (int (length (render (d_evidence d)))) * (10/100);
            conf = max (1/10) (min 1 raw)
        in d\<lparr>d_confidence := of_int (math_round (conf * 100)) / 100\<rparr>)"

definition conf_get_or_create :: "gotime \<Rightarrow> conf_scorer \<Rightarrow> string \<Rightarrow> rule_confidence" where
  "conf_get_or_create now cs rid =
     (case cs rid of Some rc \<Rightarrow> rc
      | None \<Rightarrow> \<lparr>rc_total = 0, rc_bad = 0, rc_fp = 0, rc_base = 85/100, rc_updated = now\<rparr>)"

definition record_true_positive :: "gotime \<Rightarrow> string \<Rightarrow> conf_scorer \<Rightarrow> conf_scorer" where
  "record_true_positive now rid cs =
     (let rc = conf_get_or_create now cs rid
      in cs(rid \<mapsto> rc\<lparr>rc_total := rc_total rc + 1, rc_bad := rc_bad rc + 1, rc_updated := now,
                     rc_base := min (99/100) (rc_base rc + 1/100)\<rparr>))"

definition record_false_positive :: "gotime \<Rightarrow> string \<Rightarrow> conf_scorer \<Rightarrow> conf_scorer" where
  "record_false_positive now rid cs =
     (let rc = conf_get_or_create now cs rid;
          total = rc_total rc + 1; fp = rc_fp rc + 1;
          penalty = of_int fp / of_int total * (2/10)
      in cs(rid \<mapsto> rc\<lparr>rc_total := total, rc_fp := fp, rc_updated := now,
                     rc_base := max (1/2) (rc_base rc - penalty)\<rparr>))"

definition get_confidence :: "conf_scorer \<Rightarrow> string \<Rightarrow> rat" where
  "get_confidence cs rid =
     (case cs rid of None \<Rightarrow> 85/100
      | Some rc \<Rightarrow>
          rc_base rc * (if 0 < rc_total rc then of_int (rc_bad rc) / of_int (rc_total rc) else 1))"

definition conf_cleanup :: "gotime \<Rightarrow> conf_scorer \<Rightarrow> conf_scorer" where
  "conf_cleanup now = map_expire (\<lambda>rc. rc_updated rc + 24 * hour < now \<and> rc_total rc = 0)"

section \<open>Confidence stays in range\<close>

lemma math_round_bounds:
  assumes "of_int l \<le> x" "x \<le> of_int u" "0 \<le> l"
  shows "l \<le> math_round x \<and> math_round x \<le> u"
proof -
  have "0 \<le> x" using assms(1,3) by (meson of_int_0_le_iff order_trans)
  moreover have "l \<le> \<lfloor>x + 1/2\<rfloor>" using assms(1) by (simp add: le_floor_iff)
  moreover have "\<lfloor>x + 1/2\<rfloor> \<le> u" using assms(2) by (simp add: floor_le_iff)
  ultimately show ?thesis by (simp add: math_round_def)
qed

lemma score_decision_frame [simp]:
  "d_action (score_decision r cs d) = d_action d"
  "d_score (score_decision r cs d) = d_score d"
  "d_inspector (score_decision r cs d) = d_inspector d"
  "d_rule_id (score_decision r cs d) = d_rule_id d"
  "d_explain (score_decision r cs d) = d_explain d"
  by (simp_all add: score_decision_def Let_def)

text \<open>Whatever an inspector reports, the confidence the scorer computes for a decision
  that does not carry one already is between 0.10 and 1.00.\<close>

lemma confidence_in_range:
  assumes "\<not> 0 < d_confidence d"
  shows "1/10 \<le> d_confidence (score_decision r cs d) \<and> d_confidence (score_decision r cs d) \<le> 1"
proof -
  obtain raw where raw: "d_confidence (score_decision r cs d)
      = of_int (math_round (max (1/10) (min 1 raw) * 100)) / 100"
    using assms by (auto simp: score_decision_def Let_def)
  have "10 \<le> math_round (max (1/10) (min 1 raw) * 100) \<and> math_round (max (1/10) (min 1 raw) * 100) \<le> 100"
    by (rule math_round_bounds) (auto simp: max_def min_def)
  then have "(10::rat) \<le> of_int (math_round (max (1/10) (min 1 raw) * 100))"
    and "of_int (math_round (max (1/10) (min 1 raw) * 100)) \<le> (100::rat)"
    by linarith+
  with raw show ?thesis by (simp add: field_simps)
qed

lemma confidence_in_range_witness:
  "(1/10::rat) \<le> d_confidence (score_decision (\<lambda>_. []) Map.empty allow_decision)"
  using confidence_in_range [of allow_decision "\<lambda>_. []" Map.empty]
  by (simp add: allow_decision_def)

datatype conf_event = TruePositive gotime string | FalsePositive gotime string | ConfCleanup gotime

fun conf_step :: "conf_event \<Rightarrow> conf_scorer \<Rightarrow> conf_scorer" where
  "conf_step (TruePositive now rid) cs = record_true_positive now rid cs"
| "conf_step (FalsePositive now rid) cs = record_false_positive now rid cs"
| "conf_step (ConfCleanup now) cs = conf_cleanup now cs"

definition rc_inv :: "rule_confidence \<Rightarrow> bool" where
  "rc_inv rc \<longleftrightarrow> 1/2 \<le> rc_base rc \<and> rc_base rc \<le> 99/100 \<and> 0 \<le> rc_bad rc \<and> 0 \<le> rc_fp rc
     \<and> rc_total rc = rc_bad rc + rc_fp rc"

definition conf_inv :: "conf_scorer \<Rightarrow> bool" where
  "conf_inv cs \<longleftrightarrow> (\<forall>rid rc. cs rid = Some rc \<longrightarrow> rc_inv rc)"

lemma rc_inv_get_or_create: "conf_inv cs \<Longrightarrow> rc_inv (conf_get_or_create now cs rid)"
  by (auto simp: conf_get_or_create_def conf_inv_def rc_inv_def split: option.splits)

lemma rc_inv_false_positive:
  "rc_inv rc \<Longrightarrow> 0 \<le> p \<Longrightarrow>
   rc_inv (rc\<lparr>rc_total := rc_total rc + 1, rc_fp := rc_fp rc + 1, rc_updated := now,
              rc_base := max (1/2) (rc_base rc - p)\<rparr>)"
  by (auto simp: rc_inv_def max_def)

lemma conf_step_inv [inv_intros]: "conf_inv cs \<Longrightarrow> conf_inv (conf_step ev cs)"
proof (cases ev)
  case (TruePositive now rid)
  assume "conf_inv cs"
  then have "rc_inv (conf_get_or_create now cs rid)" by (rule rc_inv_get_or_create)
  with \<open>conf_inv cs\<close> TruePositive show ?thesis
    by (auto simp: conf_inv_def record_true_positive_def Let_def rc_inv_def min_def)
next
  case (FalsePositive now rid)
  assume inv: "conf_inv cs"
  then have rc: "rc_inv (conf_get_or_create now cs rid)" by (rule rc_inv_get_or_create)
  let ?rc = "conf_get_or_create now cs rid"
  let ?p = "of_int (rc_fp ?rc + 1) / of_int (rc_total ?rc + 1) * (2/10) :: rat"
  from rc have "0 \<le> (of_int (rc_fp ?rc + 1) :: rat)" and "0 < (of_int (rc_total ?rc + 1) :: rat)"
    by (auto simp: rc_inv_def)
  then have "0 \<le> ?p" by simp
  from rc_inv_false_positive [OF rc this, of now] inv FalsePositive show ?thesis
    by (simp add: conf_inv_def record_false_positive_def Let_def)
next
  case (ConfCleanup now)
  assume "conf_inv cs"
  with ConfCleanup show ?thesis
    by (auto simp: conf_inv_def conf_cleanup_def map_expire_Some_iff)
qed

lemma conf_run_inv: "conf_inv cs \<Longrightarrow> conf_inv (fold conf_step evs cs)"
  by (induction evs arbitrary: cs) (auto intro: inv_intros)

text \<open>After any history of reported true and false positives and clean-ups, the
  confidence of every rule is a number between 0 and 0.99, or the default 0.85 of an unknown rule.\<close>

lemma get_confidence_bounds:
  "0 \<le> get_confidence (fold conf_step evs Map.empty) rid
   \<and> get_confidence (fold conf_step evs Map.empty) rid \<le> 99/100"
proof -
  let ?cs = "fold conf_step evs Map.empty"
  have inv: "conf_inv ?cs" by (rule conf_run_inv) (simp add: conf_inv_def)
  show ?thesis
  proof (cases "?cs rid")
    case None
    then show ?thesis by (simp add: get_confidence_def)
  next
    case (Some rc)
    with inv have rc: "rc_inv rc" by (auto simp: conf_inv_def)
    define acc where "acc = (if 0 < rc_total rc then of_int (rc_bad rc) / of_int (rc_total rc) else 1 :: rat)"
    have "0 \<le> acc" "acc \<le> 1" using rc by (auto simp: acc_def rc_inv_def)
    moreover have "0 \<le> rc_base rc" "rc_base rc \<le> 99/100" using rc by (auto simp: rc_inv_def)
    ultimately have "0 \<le> rc_base rc * acc" "rc_base rc * acc \<le> 99/100 * 1"
      using mult_mono [of "rc_base rc" "99/100" acc 1] by auto
    with Some show ?thesis by (simp add: get_confidence_def acc_def)
  qed
qed

section \<open>Learning engine\<close>

record path_baseline =
  pb_total :: int
  pb_allowed :: int
  pb_mean :: rat
  pb_std :: rat
  pb_sumsq :: rat
  pb_last_seen :: gotime
  pb_status :: "int \<rightharpoonup> int"
  pb_methods :: "string \<rightharpoonup> int"

record whitelist_entry =
  wl_expires :: gotime
  wl_hits :: int
  wl_created :: gotime

record learner =
  le_baselines :: "string \<rightharpoonup> path_baseline"
  le_whitelist :: "string \<rightharpoonup> whitelist_entry"
  le_evaluation :: bool

definition new_learner :: learner where
  "new_learner = \<lparr>le_baselines = Map.empty, le_whitelist = Map.empty, le_evaluation = True\<rparr>"

definition new_baseline :: "gotime \<Rightarrow> path_baseline" where
  "new_baseline now = \<lparr>pb_total = 0, pb_allowed = 0, pb_mean = 0, pb_std = 0, pb_sumsq = 0,
     pb_last_seen = now, pb_status = Map.empty, pb_methods = Map.empty\<rparr>"

text \<open>
  The rate update divides by \<^verbatim>\<open>max(1, time.Since(bl.lastSeen))\<close>, and \<^verbatim>\<open>lastSeen\<close> has just been set to
  the present, so the divisor is 1. \<open>fsqrt\<close> stands for \<^verbatim>\<open>math.Sqrt\<close>.
\<close>

definition update_rate :: "(rat \<Rightarrow> rat) \<Rightarrow> gotime \<Rightarrow> path_baseline \<Rightarrow> path_baseline" where
  "update_rate fsqrt now bl =
     (let rate = of_int (pb_allowed bl)
                 / max 1 (of_int (time_sub now (pb_last_seen bl)) / of_int second)
      in if 0 < pb_mean bl then
           let old = pb_mean bl;
               mean = old + (rate - old) / of_int (pb_total bl);
               sumsq = pb_sumsq bl + (rate - old) * (rate - mean)
           in bl\<lparr>pb_mean := mean, pb_sumsq := sumsq, pb_std := fsqrt (sumsq / of_int (pb_total bl))\<rparr>
         else bl\<lparr>pb_mean := rate\<rparr>)"

definition auto_whitelist :: "gotime \<Rightarrow> string \<Rightarrow> learner \<Rightarrow> learner" where
  "auto_whitelist now path le =
     (case le_whitelist le path of
        Some _ \<Rightarrow> le
      | None \<Rightarrow> le\<lparr>le_whitelist := (le_whitelist le)(path \<mapsto>
            \<lparr>wl_expires = now + 7 * 24 * hour, wl_hits = 0, wl_created = now\<rparr>)\<rparr>)"

definition learner_record ::
  "(rat \<Rightarrow> rat) \<Rightarrow> gotime \<Rightarrow> reqctx \<Rightarrow> decision \<Rightarrow> learner \<Rightarrow> learner" where
  "learner_record fsqrt now c d le =
     (let path = c_path c;
          bl0 = (case le_baselines le path of None \<Rightarrow> new_baseline now | Some b \<Rightarrow> b);
          bl1 = bl0\<lparr>pb_total := pb_total bl0 + 1, pb_last_seen := now,
                    pb_methods := (pb_methods bl0)(c_method c \<mapsto> map_get (pb_methods bl0) (c_method c) 0 + 1)\<rparr>;
          bl2 = (case c_status c of
                   Some st \<Rightarrow> if 0 < st then bl1\<lparr>pb_status := (pb_status bl1)(st \<mapsto> map_get (pb_status bl1) st 0 + 1)\<rparr>
                              else bl1
                 | None \<Rightarrow> bl1)
      in if d_action d = ActionAllow \<and> \<not> le_evaluation le
         then le\<lparr>le_baselines := (le_baselines le)(path \<mapsto> bl2\<lparr>pb_allowed := pb_allowed bl2 + 1\<rparr>)\<rparr>
         else
           let bl3 = (if d_action d = ActionAllow
                      then update_rate fsqrt now (bl2\<lparr>pb_allowed := pb_allowed bl2 + 1\<rparr>) else bl2);
               le' = le\<lparr>le_baselines := (le_baselines le)(path \<mapsto> bl3)\<rparr>
           in if le_evaluation le \<and> 100 < pb_total bl3 \<and> pb_total bl3 * 90 div 100 < pb_allowed bl3
              then auto_whitelist now path le' else le')"

definition is_whitelisted :: "gotime \<Rightarrow> learner \<Rightarrow> string \<Rightarrow> bool" where
  "is_whitelisted now le path =
     (case le_whitelist le path of None \<Rightarrow> False | Some e \<Rightarrow> \<not> wl_expires e < now)"

definition learner_cleanup :: "gotime \<Rightarrow> learner \<Rightarrow> learner" where
  "learner_cleanup now le =
     le\<lparr>le_whitelist := map_expire (\<lambda>e. wl_expires e < now) (le_whitelist le),
        le_baselines := map_expire (\<lambda>b. pb_last_seen b + 72 * hour < now) (le_baselines le)\<rparr>"

end
