(* ===== verification/Performance.thy ===== *)
theory Performance
  imports WafTypes
begin

text \<open>
  The performance manager and its circuit breakers (\<^verbatim>\<open>internal/engine/performance.go\<close>): the guarded
  inspector call, when a breaker refuses a call, and the lock order of \<^verbatim>\<open>Stats\<close>.
\<close>

section \<open>Performance manager and circuit breakers\<close>

record circuit_breaker =
  cb_failures :: int
  cb_threshold :: int
  cb_trips :: int
  cb_last_trip :: gotime
  cb_half_open :: bool
  cb_half_open_at :: gotime
  cb_recovery :: duration
  cb_resets :: int

record perf_mgr =
  pm_regex_timeout :: duration
  pm_wasm_timeout :: duration
  pm_breakers :: "string \<rightharpoonup> circuit_breaker"
  pm_active :: int
  pm_max_workers :: int
  pm_memory_limit :: int

definition new_perf_manager :: "int \<Rightarrow> int \<Rightarrow> int \<Rightarrow> perf_mgr" where
  "new_perf_manager gomaxprocs regex_ms wasm_ms =
     \<lparr>pm_regex_timeout = (if regex_ms * millisecond \<le> 0 then 1000 * millisecond else regex_ms * millisecond),
      pm_wasm_timeout = (if wasm_ms * millisecond \<le> 0 then 5000 * millisecond else wasm_ms * millisecond),
      pm_breakers = Map.empty, pm_active = 0, pm_max_workers = gomaxprocs * 4,
      pm_memory_limit = 512 * 1024 * 1024\<rparr>"

definition cb_can_proceed :: "gotime \<Rightarrow> circuit_breaker \<Rightarrow> circuit_breaker \<times> bool" where
  "cb_can_proceed now cb =
     (if cb_half_open cb \<and> cb_recovery cb < time_sub now (cb_half_open_at cb)
      then (cb\<lparr>cb_half_open := False, cb_failures := 0\<rparr>, True)
      else if cb_recovery cb < time_sub now (cb_last_trip cb)
      then (cb\<lparr>cb_half_open := True, cb_half_open_at := now\<rparr>, True)
      else (cb, False))"

definition can_proceed :: "gotime \<Rightarrow> string \<Rightarrow> perf_mgr \<Rightarrow> perf_mgr \<times> bool" where
  "can_proceed now name pm =
     (case pm_breakers pm name of
        None \<Rightarrow> (pm, True)
      | Some cb \<Rightarrow> (let (cb', ok) = cb_can_proceed now cb
                   in (pm\<lparr>pm_breakers := (pm_breakers pm)(name \<mapsto> cb')\<rparr>, ok)))"

definition new_breaker :: circuit_breaker where
  "new_breaker = \<lparr>cb_failures = 0, cb_threshold = 5, cb_trips = 0, cb_last_trip = zero_time,
     cb_half_open = False, cb_half_open_at = zero_time, cb_recovery = 30 * second, cb_resets = 0\<rparr>"

definition cb_fail :: "gotime \<Rightarrow> circuit_breaker \<Rightarrow> circuit_breaker" where
  "cb_fail now cb =
     (let cb' = cb\<lparr>cb_failures := cb_failures cb + 1\<rparr>
      in if cb_threshold cb' \<le> cb_failures cb'
         then cb'\<lparr>cb_last_trip := now, cb_trips := cb_trips cb' + 1\<rparr> else cb')"

definition record_failure :: "gotime \<Rightarrow> string \<Rightarrow> perf_mgr \<Rightarrow> perf_mgr" where
  "record_failure now name pm =
     (let cb = (case pm_breakers pm name of None \<Rightarrow> new_breaker | Some cb \<Rightarrow> cb)
      in pm\<lparr>pm_breakers := (pm_breakers pm)(name \<mapsto> cb_fail now cb)\<rparr>)"

definition cb_succeed :: "circuit_breaker \<Rightarrow> circuit_breaker" where
  "cb_succeed cb = (if 0 < cb_failures cb then cb\<lparr>cb_failures := cb_failures cb - 1\<rparr> else cb)"

definition record_success :: "string \<Rightarrow> perf_mgr \<Rightarrow> perf_mgr" where
  "record_success name pm =
     (case pm_breakers pm name of
        None \<Rightarrow> pm
      | Some cb \<Rightarrow> pm\<lparr>pm_breakers := (pm_breakers pm)(name \<mapsto> cb_succeed cb)\<rparr>)"

definition get_timeout :: "perf_mgr \<Rightarrow> string \<Rightarrow> duration" where
  "get_timeout pm name = (if name = ''wasm'' then pm_wasm_timeout pm else pm_regex_timeout pm)"

datatype circuit_state = CircuitClosed | CircuitHalfOpen | CircuitOpen

definition circuit_state :: "gotime \<Rightarrow> perf_mgr \<Rightarrow> string \<Rightarrow> circuit_state" where
  "circuit_state now pm name =
     (case pm_breakers pm name of
        None \<Rightarrow> CircuitClosed
      | Some cb \<Rightarrow>
          if cb_half_open cb then CircuitHalfOpen
          else if time_sub now (cb_last_trip cb) < cb_recovery cb \<and> cb_threshold cb \<le> cb_failures cb
          then CircuitOpen else CircuitClosed)"

text \<open>
  What the run-time contributes to one guarded call: the heap size that \<^verbatim>\<open>ReadMemStats\<close> reports and
  whether the timer of the \<^verbatim>\<open>select\<close> fires first. The goroutine of a call that timed out still runs
  to its end: its effects on the state are those of the inspector, only its answer is dropped.
\<close>

record perf_env =
  pe_alloc :: int
  pe_timed_out :: bool

definition perf_decision ::
  "string \<Rightarrow> string \<Rightarrow> string \<Rightarrow> rat \<Rightarrow> rat \<Rightarrow> gotext \<Rightarrow> decision" where
  "perf_decision rid name sev score conf ev =
     (mk_decision ActionMonitor rid name sev score ev)\<lparr>d_confidence := conf\<rparr>"

definition finish_worker :: "perf_mgr \<Rightarrow> perf_mgr" where
  "finish_worker pm = pm\<lparr>pm_active := pm_active pm - 1\<rparr>"

text \<open>
  An exhausted stack is no panic: \<^verbatim>\<open>recover\<close> does not see it and the process ends, whether or not the caller
  has stopped waiting. It is passed on as it is; no call after it reads the manager.
\<close>

definition perf_run ::
  "perf_env \<Rightarrow> gotime \<Rightarrow> string \<Rightarrow> 's inspector \<Rightarrow> perf_mgr \<Rightarrow> 's \<times> reqctx
     \<Rightarrow> (perf_mgr \<times> 's \<times> reqctx) \<times> insp_result" where
  "perf_run env now name insp pm sc =
     (let (sc', r) = insp now sc;
          pm' = finish_worker pm;
          fail = record_failure now name;
          late = (case r of IPanic _ \<Rightarrow> fail | _ \<Rightarrow> (\<lambda>p. p))
      in if r = IPanic StackOverflow then ((pm', sc'), r)
         else if pe_timed_out env
         then ((late (fail pm'), sc'),
               IDec (perf_decision ''PERF_004'' ''Inspector Timeout'' ''medium'' 20 (1/2)
                       (Fmt ''inspector %q timed out after %v'' [AStr name, ADur (get_timeout pm name)])))
         else (case r of
                 IPanic _ \<Rightarrow> ((fail (fail pm'), sc'), IErr (Fmt ''panic in inspector %s: %v'' [AStr name]))
               | IErr e \<Rightarrow> ((fail pm', sc'), IErr e)
               | _ \<Rightarrow> ((record_success name pm', sc'), r)))"

definition perf_inspect ::
  "perf_env \<Rightarrow> gotime \<Rightarrow> string \<Rightarrow> 's inspector \<Rightarrow> perf_mgr \<Rightarrow> 's \<times> reqctx
     \<Rightarrow> (perf_mgr \<times> 's \<times> reqctx) \<times> insp_result" where
  "perf_inspect env now name insp pm sc =
     (let (pm1, ok) = can_proceed now name pm
      in if \<not> ok
         then ((pm1, sc), IDec (perf_decision ''PERF_001'' ''Inspector Circuit Open'' ''low'' 0 0
                 (Fmt ''inspector %q circuit breaker open, skipping'' [AStr name])))
         else
           let pm2 = pm1\<lparr>pm_active := pm_active pm1 + 1\<rparr>
           in if pm_max_workers pm2 < pm_active pm2
              then ((finish_worker pm2, sc),
                    IDec (perf_decision ''PERF_002'' ''Max Concurrent Inspectors Exceeded'' ''low'' 0 0
                      (Fmt ''max concurrent workers (%d) exceeded, skipping %q''
                        [AInt (pm_max_workers pm2), AStr name])))
              else if pm_memory_limit pm2 < pe_alloc env
              then ((finish_worker pm2, sc),
                    IDec (perf_decision ''PERF_003'' ''Memory Limit Reached'' ''low'' 0 0
                      (Fmt ''memory alloc %d exceeds limit %d, skipping %q''
                        [AInt (pe_alloc env), AInt (pm_memory_limit pm2), AStr name])))
              else perf_run env now name insp pm2 sc)"

section \<open>Circuit breakers\<close>

text \<open>The events one breaker sees, each at its instant.\<close>

datatype cb_event = CbAsk gotime | CbFail gotime | CbSucceed

fun cb_step :: "cb_event \<Rightarrow> circuit_breaker \<Rightarrow> circuit_breaker" where
  "cb_step (CbAsk now) cb = fst (cb_can_proceed now cb)"
| "cb_step (CbFail now) cb = cb_fail now cb"
| "cb_step CbSucceed cb = cb_succeed cb"

inductive cb_reach :: "circuit_breaker \<Rightarrow> bool" where
  cb_start: "cb_reach new_breaker"
| cb_next: "cb_reach cb \<Longrightarrow> cb_reach (cb_step ev cb)"

definition cb_inv :: "circuit_breaker \<Rightarrow> bool" where
  "cb_inv cb \<longleftrightarrow> cb_threshold cb = 5 \<and> cb_recovery cb = 30 * second \<and> 0 \<le> cb_failures cb
     \<and> 0 \<le> cb_trips cb \<and> (cb_trips cb = 0 \<longrightarrow> cb_last_trip cb = zero_time \<and> cb_failures cb < 5)"

lemma cb_step_inv: "cb_inv cb \<Longrightarrow> cb_inv (cb_step ev cb)"
  by (cases ev) (auto simp: cb_inv_def cb_can_proceed_def cb_fail_def cb_succeed_def Let_def)

lemma cb_reach_inv: "cb_reach cb \<Longrightarrow> cb_inv cb"
  by (induction rule: cb_reach.induct) (auto simp: cb_step_inv, simp add: cb_inv_def new_breaker_def)

text \<open>Property C6. A breaker refuses a call only if it has tripped before, within the last 30
  seconds: an inspector whose breaker never counted five failures is never skipped.\<close>

theorem breaker_refusal_needs_recent_trip:
  assumes "cb_reach cb" and "zero_time + max_duration \<le> now"
    and refused: "snd (cb_can_proceed now cb) = False"
  shows "0 < cb_trips cb \<and> now - cb_last_trip cb \<le> 30 * second"
proof -
  have inv: "cb_inv cb" using assms(1) by (rule cb_reach_inv)
  from refused inv have le: "time_sub now (cb_last_trip cb) \<le> 30 * second"
    by (auto simp: cb_can_proceed_def cb_inv_def split: if_splits)
  then have "\<not> 30 * second < time_sub now (cb_last_trip cb)" by simp
  then have "now - cb_last_trip cb \<le> 30 * second"
    by (subst (asm) time_sub_gt_iff) (auto simp: min_duration_def max_duration_def)
  moreover have "cb_trips cb \<noteq> 0"
  proof
    assume "cb_trips cb = 0"
    with inv have "cb_last_trip cb = zero_time" by (simp add: cb_inv_def)
    with le time_sub_zero_time [OF assms(2)] show False by (simp add: max_duration_def)
  qed
  ultimately show ?thesis using inv by (auto simp: cb_inv_def)
qed

definition tripped_breaker :: circuit_breaker where
  "tripped_breaker = cb_fail 0 (cb_fail 0 (cb_fail 0 (cb_fail 0 (cb_fail 0 new_breaker))))"

lemma tripped_breaker_reach: "cb_reach tripped_breaker"
proof -
  have fail: "cb_reach cb \<Longrightarrow> cb_reach (cb_fail 0 cb)" for cb
    using cb_next [of cb "CbFail 0"] by simp
  show ?thesis unfolding tripped_breaker_def by (intro fail cb_start)
qed

lemma tripped_breaker_eq:
  "tripped_breaker = new_breaker\<lparr>cb_failures := 5, cb_trips := 1, cb_last_trip := 0\<rparr>"
  by (simp add: tripped_breaker_def cb_fail_def new_breaker_def Let_def)

lemma tripped_breaker_refuses: "snd (cb_can_proceed second tripped_breaker) = False"
  by (simp add: tripped_breaker_eq new_breaker_def cb_can_proceed_def time_sub_def
      min_duration_def max_duration_def)

theorem breaker_refusal_needs_recent_trip_witness:
  "0 < cb_trips tripped_breaker \<and> second - cb_last_trip tripped_breaker \<le> 30 * second"
  using breaker_refusal_needs_recent_trip
    [OF tripped_breaker_reach _ tripped_breaker_refuses]
  by (simp add: zero_time_def max_duration_def)

text \<open>Every exit of a guarded call gives back the worker slot that it took.\<close>

lemma can_proceed_active [simp]: "can_proceed now name pm = (pm', ok) \<Longrightarrow> pm_active pm' = pm_active pm"
  by (auto simp: can_proceed_def Let_def split: option.splits prod.splits)

lemma record_active [simp]:
  "pm_active (record_failure now name pm) = pm_active pm"
  "pm_active (record_success name pm) = pm_active pm"
  "pm_active (finish_worker pm) = pm_active pm - 1"
  by (auto simp: record_failure_def record_success_def finish_worker_def Let_def split: option.splits)

lemma perf_run_active: "perf_run env now name insp pm sc = ((pm', sc'), r) \<Longrightarrow> pm_active pm' = pm_active pm - 1"
  by (auto simp: perf_run_def Let_def split: prod.splits if_splits insp_result.splits)

text \<open>Property C7. A guarded inspector call returns the number of active workers it found,
  on every path: circuit open, too many workers, memory limit, answer, error, panic or timeout.\<close>

theorem perf_inspect_balances_workers:
  "pm_active (fst (fst (perf_inspect env now name insp pm sc))) = pm_active pm"
proof -
  obtain pm1 ok where cp: "can_proceed now name pm = (pm1, ok)" by fastforce
  let ?pm2 = "pm1\<lparr>pm_active := pm_active pm1 + 1\<rparr>"
  obtain pm' sc' r where run: "perf_run env now name insp ?pm2 sc = ((pm', sc'), r)"
    by (metis prod.exhaust)
  have "pm_active pm1 = pm_active pm" using cp by simp
  moreover have "pm_active pm' = pm_active pm"
    using perf_run_active [OF run] \<open>pm_active pm1 = pm_active pm\<close> by simp
  ultimately show ?thesis
    unfolding perf_inspect_def cp Let_def prod.case run by simp
qed

section \<open>Stats and its locks\<close>

text \<open>
  \<^verbatim>\<open>Stats\<close> holds the mutex of a breaker while it calls \<^verbatim>\<open>CircuitState\<close>, which locks that mutex
  again. Go's mutexes are not reentrant: locking a held one waits for ever, the value \<open>None\<close>.
\<close>

definition mutex_lock :: "string \<Rightarrow> string set \<Rightarrow> string set option" where
  "mutex_lock m held = (if m \<in> held then None else Some (insert m held))"

definition mutex_unlock :: "string \<Rightarrow> string set \<Rightarrow> string set" where
  "mutex_unlock m held = held - {m}"

definition locked_circuit_state ::
  "gotime \<Rightarrow> perf_mgr \<Rightarrow> string \<Rightarrow> string set \<Rightarrow> (circuit_state \<times> string set) option" where
  "locked_circuit_state now pm name held =
     (case pm_breakers pm name of
        None \<Rightarrow> Some (CircuitClosed, held)
      | Some _ \<Rightarrow> map_option (\<lambda>h. (circuit_state now pm name, mutex_unlock name h))
                    (mutex_lock name held))"

fun stats_loop ::
  "gotime \<Rightarrow> perf_mgr \<Rightarrow> string list \<Rightarrow> string set \<Rightarrow> (string \<times> int \<times> int \<times> circuit_state) list option" where
  "stats_loop now pm [] held = Some []"
| "stats_loop now pm (name # names) held =
     (case pm_breakers pm name of
        None \<Rightarrow> stats_loop now pm names held
      | Some cb \<Rightarrow>
          (case mutex_lock name held of
             None \<Rightarrow> None
           | Some h1 \<Rightarrow>
               (case locked_circuit_state now pm name h1 of
                  None \<Rightarrow> None
                | Some (st, h2) \<Rightarrow>
                    map_option (\<lambda>rest. (name, cb_failures cb, cb_trips cb, st) # rest)
                      (stats_loop now pm names (mutex_unlock name h2)))))"

text \<open>Property C8. \<^verbatim>\<open>Stats\<close> returns only while no breaker exists: as soon as one inspector has failed
  once, iterating over the breakers blocks for ever on the mutex it already holds.\<close>

theorem stats_returns_iff_no_breaker:
  "(\<exists>st. stats_loop now pm names {} = Some st) \<longleftrightarrow> (\<forall>name\<in>set names. pm_breakers pm name = None)"
  by (induction names)
    (auto simp: mutex_lock_def locked_circuit_state_def split: option.splits)

theorem stats_returns_iff_no_breaker_witness:
  "stats_loop 0 (record_failure 0 ''xss'' (new_perf_manager 4 0 0)) [''xss''] {} = None"
  using stats_returns_iff_no_breaker
    [of 0 "record_failure 0 ''xss'' (new_perf_manager 4 0 0)" "[''xss'']"]
  by (simp add: record_failure_def Let_def)

section \<open>The contract of an inspector, guarded or not\<close>

lemma perf_inspect_contract:
  assumes "inspector insp" and "perf_inspect env now name insp pm (s, c) = ((pm', s', c'), r)"
  shows "ctx_frame c c' \<and> (\<forall>d. r = IDec d \<longrightarrow> score_ok d)"
proof -
  obtain s1 c1 r1 where ins: "insp now (s, c) = ((s1, c1), r1)" by (metis prod.exhaust)
  have ok: "ctx_frame c c1" "\<And>d. r1 = IDec d \<Longrightarrow> score_ok d"
    using inspector.frame [OF assms(1) ins] inspector.score [OF assms(1)] ins by blast+
  have refl: "ctx_frame c c" by (simp add: ctx_frame_def)
  from assms(2) ok refl show ?thesis
    unfolding perf_inspect_def perf_run_def Let_def ins
    by (auto simp: perf_decision_def score_ok_def split: prod.splits if_splits insp_result.splits)
qed

end
