(* ===== verification/EngineCore.thy ===== *)
theory EngineCore
  imports Scoring Performance
begin

text \<open>
  The decision pipeline: \<^verbatim>\<open>Engine.Inspect\<close>, \<^verbatim>\<open>enrichExplainability\<close>, \<^verbatim>\<open>finalDecision\<close> and
  \<^verbatim>\<open>UpdateInspector\<close> (\<^verbatim>\<open>internal/engine/engine.go\<close>), and what its verdicts mean.
\<close>

section \<open>The pipeline\<close>

type_synonym 's slot = "(string \<times> 's inspector) option"

record 's engine =
  e_shadow :: bool
  e_learning :: bool
  e_perf :: "perf_mgr option"
  e_learner :: learner
  e_conf :: conf_scorer
  e_named :: "string \<rightharpoonup> 's slot"
  e_slots :: "'s slot list"

record rt_env =
  rt_now :: gotime
  rt_render :: "gotext \<Rightarrow> string"
  rt_sqrt :: "rat \<Rightarrow> rat"
  rt_perf :: "string \<Rightarrow> perf_env"

definition explain_action :: "decision \<Rightarrow> string" where
  "explain_action d =
     (case d_action d of
        ActionBlock \<Rightarrow>
          (if 90 \<le> d_score d
           then ''Critical threat detected with high confidence. Immediate blocking required.''
           else ''Request matched blocking rule pattern with sufficient certainty.'')
      | ActionChallenge \<Rightarrow> ''Request exhibits suspicious characteristics requiring additional verification.''
      | ActionMonitor \<Rightarrow> ''Request flagged for observation. No action taken.''
      | ActionRateLimit \<Rightarrow> ''Request rate exceeds configured threshold for this endpoint.''
      | ActionAllow \<Rightarrow> ''No actionable threat detected.'')"

definition enrich_explain :: "bool \<Rightarrow> learner \<Rightarrow> reqctx \<Rightarrow> decision \<Rightarrow> decision" where
  "enrich_explain learning le c d =
     (if \<not> text_empty (d_explain d) then d
      else
        let d' = d\<lparr>d_explain := Lit (explain_action d)\<rparr>
        in if learning \<and> d_action d = ActionAllow
           then (case le_baselines le (c_path c) of
                   None \<Rightarrow> d'
                 | Some b \<Rightarrow> d'\<lparr>d_explain :=
                     Fmt ''Request matches learned baseline for %s (mean=%.2f, std=%.2f)''
                       [AStr (c_path c), ARat (pb_mean b), ARat (pb_std b)]\<rparr>)
           else d')"

definition final_decision :: "reqctx \<Rightarrow> decision" where
  "final_decision c =
     (let score = c_threat c
      in if 90 \<le> score
         then mk_decision ActionBlock [] [] [] score (Lit ''cumulative threat score exceeded threshold'')
         else if 50 \<le> score
         then mk_decision ActionChallenge [] [] [] score (Lit ''elevated threat score requires challenge'')
         else if \<exists>d\<in>set (c_decisions c). d_action d = ActionRateLimit
         then mk_decision ActionRateLimit [] [] [] score (Lit ''rate limit exceeded'')
         else allow_decision)"

text \<open>The bookkeeping under \<^verbatim>\<open>ctx.mu\<close> after a decision.\<close>

definition note_decision :: "reqctx \<Rightarrow> decision \<Rightarrow> reqctx" where
  "note_decision c d =
     (let c' = c\<lparr>c_decisions := c_decisions c @ [d], c_threat := c_threat c + d_score d\<rparr>
      in if d_action d = ActionBlock
         then c'\<lparr>c_known_attack := True, c_bot_score := d_score d\<rparr> else c')"

datatype outcome = Verdict decision | Panicked go_panic

definition call_inspector ::
  "rt_env \<Rightarrow> string \<Rightarrow> 's inspector \<Rightarrow> perf_mgr option \<Rightarrow> 's \<times> reqctx
     \<Rightarrow> (perf_mgr option \<times> 's \<times> reqctx) \<times> insp_result" where
  "call_inspector rt name insp pmo sc =
     (case pmo of
        None \<Rightarrow> (let (sc', r) = insp (rt_now rt) sc in ((None, sc'), r))
      | Some pm \<Rightarrow> (let ((pm', sc'), r) = perf_inspect (rt_perf rt name) (rt_now rt) name insp pm sc
                   in ((Some pm', sc'), r)))"

text \<open>What the loop does with a decision: name, confidence, learning, explanation, bookkeeping.\<close>

definition process_decision ::
  "rt_env \<Rightarrow> string \<Rightarrow> 's engine \<Rightarrow> reqctx \<Rightarrow> decision \<Rightarrow> 's engine \<times> reqctx \<times> decision" where
  "process_decision rt name e c d =
     (let d1 = score_decision (rt_render rt) (e_conf e) (d\<lparr>d_inspector := name\<rparr>);
          e1 = (if e_learning e
                then e\<lparr>e_learner := learner_record (rt_sqrt rt) (rt_now rt) c d1 (e_learner e)\<rparr> else e);
          d2 = enrich_explain (e_learning e) (e_learner e1) c d1
      in (e1, note_decision c d2, d2))"

fun inspect_loop ::
  "rt_env \<Rightarrow> 's slot list \<Rightarrow> 's engine \<Rightarrow> 's \<times> reqctx \<Rightarrow> ('s engine \<times> 's \<times> reqctx) \<times> outcome" where
  "inspect_loop rt [] e (s, c) = ((e, s, c), Verdict (final_decision c))"
| "inspect_loop rt (None # slots) e sc = inspect_loop rt slots e sc"
| "inspect_loop rt (Some (name, insp) # slots) e sc =
     (case call_inspector rt name insp (e_perf e) sc of
        ((pmo, s', c'), r) \<Rightarrow>
          let e' = e\<lparr>e_perf := pmo\<rparr>
          in (case r of
                IPanic p \<Rightarrow> ((e', s', c'), Panicked p)
              | IErr _ \<Rightarrow> inspect_loop rt slots e' (s', c')
              | INil \<Rightarrow> inspect_loop rt slots e' (s', c')
              | IDec d0 \<Rightarrow>
                  (case process_decision rt name e' c' d0 of
                     (e2, c2, d2) \<Rightarrow>
                       if d_action d2 = ActionBlock \<and> \<not> e_shadow e
                       then ((e2, s', c2), Verdict d2)
                       else inspect_loop rt slots e2 (s', c2))))"

definition engine_inspect ::
  "rt_env \<Rightarrow> 's engine \<Rightarrow> 's \<times> reqctx \<Rightarrow> ('s engine \<times> 's \<times> reqctx) \<times> outcome" where
  "engine_inspect rt e sc = inspect_loop rt (e_slots e) e sc"

definition named_slots :: "string list" where
  "named_slots = [''bot'', ''ddos'', ''sqli'', ''xss'', ''api_protect'', ''rce'', ''protocol'',
     ''upload'', ''credential'', ''jwt'', ''oauth'', ''graphql'', ''mtls'', ''websocket'',
     ''captcha'', ''soap'', ''grpc'', ''response_inspect'', ''ja3'', ''behavioral'', ''wasm'',
     ''desync'', ''adaptive'', ''ebpf'', ''parser_hardener'']"

fun replace_slot :: "string \<Rightarrow> 's slot \<Rightarrow> 's slot list \<Rightarrow> 's slot list" where
  "replace_slot name new [] = []"
| "replace_slot name new (None # slots) = None # replace_slot name new slots"
| "replace_slot name new (Some (n, i) # slots) =
     (if n = name then new # slots else Some (n, i) # replace_slot name new slots)"

definition update_inspector :: "string \<Rightarrow> 's slot \<Rightarrow> 's engine \<Rightarrow> 's engine" where
  "update_inspector name new e =
     e\<lparr>e_named := (if name \<in> set named_slots then (e_named e)(name \<mapsto> new) else e_named e),
       e_slots := replace_slot name new (e_slots e)\<rparr>"

section \<open>The contract of a called inspector\<close>

lemma call_inspector_contract:
  assumes "inspector insp" and "call_inspector rt name insp pmo (s, c) = ((pmo', s', c'), r)"
  shows "ctx_frame c c' \<and> (\<forall>d. r = IDec d \<longrightarrow> score_ok d)"
proof (cases pmo)
  case None
  from assms(2) None have "insp (rt_now rt) (s, c) = ((s', c'), r)"
    by (auto simp: call_inspector_def Let_def split: prod.splits)
  then show ?thesis using inspector.frame [OF assms(1)] inspector.score [OF assms(1)] by blast
next
  case (Some pm)
  with assms(2) obtain pm' where
    "perf_inspect (rt_perf rt name) (rt_now rt) name insp pm (s, c) = ((pm', s', c'), r)"
    by (auto simp: call_inspector_def Let_def split: prod.splits)
  with assms(1) show ?thesis by (rule perf_inspect_contract)
qed

section \<open>Correctness of the pipeline\<close>

lemma note_decision_sel [simp]:
  "c_decisions (note_decision c d) = c_decisions c @ [d]"
  "c_threat (note_decision c d) = c_threat c + d_score d"
  by (simp_all add: note_decision_def Let_def)

lemma enrich_explain_frame [simp]:
  "d_action (enrich_explain l le c d) = d_action d"
  "d_score (enrich_explain l le c d) = d_score d"
  "d_inspector (enrich_explain l le c d) = d_inspector d"
  by (auto simp: enrich_explain_def Let_def split: option.splits)

lemma process_decision_frame:
  assumes "process_decision rt name e c d = (e2, c2, d2)"
  shows "d_score d2 = d_score d" "d_action d2 = d_action d" "d_inspector d2 = name"
    "c2 = note_decision c d2" "e_shadow e2 = e_shadow e" "e_perf e2 = e_perf e"
  using assms by (auto simp: process_decision_def Let_def split: if_splits)

lemma final_decision_inspector [simp]: "d_inspector (final_decision c) = []"
  by (simp add: final_decision_def Let_def mk_decision_def allow_decision_def)

definition slots_ok :: "'s slot list \<Rightarrow> bool" where
  "slots_ok slots \<longleftrightarrow> (\<forall>name insp. Some (name, insp) \<in> set slots \<longrightarrow> inspector insp)"

lemma slots_ok_Cons [simp]:
  "slots_ok (None # slots) = slots_ok slots"
  "slots_ok (Some (name, insp) # slots) \<longleftrightarrow> inspector insp \<and> slots_ok slots"
  "slots_ok []"
  by (auto simp: slots_ok_def)

definition accounted :: "reqctx \<Rightarrow> reqctx \<Rightarrow> bool" where
  "accounted c c' \<longleftrightarrow> (\<exists>ds. c_decisions c' = c_decisions c @ ds
     \<and> c_threat c' = c_threat c + sum_list (map d_score ds) \<and> (\<forall>d\<in>set ds. score_ok d))"

lemma accounted_refl: "ctx_frame c c' \<Longrightarrow> accounted c c'"
  by (auto simp: accounted_def ctx_frame_def intro: exI [of _ "[]"])

lemma accounted_note: "score_ok d \<Longrightarrow> ctx_frame c c' \<Longrightarrow> accounted c (note_decision c' d)"
  by (auto simp: accounted_def ctx_frame_def intro: exI [of _ "[d]"])

lemma accounted_trans:
  assumes "accounted a b" "accounted b c"
  shows "accounted a c"
proof -
  obtain d1 d2 where "c_decisions b = c_decisions a @ d1" "c_threat b = c_threat a + sum_list (map d_score d1)"
    "\<forall>d\<in>set d1. score_ok d" "c_decisions c = c_decisions b @ d2"
    "c_threat c = c_threat b + sum_list (map d_score d2)" "\<forall>d\<in>set d2. score_ok d"
    using assms by (auto simp: accounted_def)
  then show ?thesis by (auto simp: accounted_def intro!: exI [of _ "d1 @ d2"])
qed

lemma loop_accounted:
  "slots_ok slots \<Longrightarrow> inspect_loop rt slots e (s, c) = ((e', s', c'), out) \<Longrightarrow> accounted c c'"
proof (induction slots arbitrary: e s c)
  case Nil
  then show ?case by (auto intro: accounted_refl simp: ctx_frame_def)
next
  case (Cons slot slots)
  show ?case
  proof (cases slot)
    case None
    with Cons show ?thesis by auto
  next
    case (Some ni)
    obtain name insp where ni: "ni = (name, insp)" by fastforce
    obtain pmo s1 c1 r where call: "call_inspector rt name insp (e_perf e) (s, c) = ((pmo, s1, c1), r)"
      by (metis prod.exhaust)
    from Cons.prems(1) Some ni have "inspector insp" and ok: "slots_ok slots" by auto
    from call_inspector_contract [OF this(1) call]
    have fr: "ctx_frame c c1" and sc: "\<And>d. r = IDec d \<Longrightarrow> score_ok d" by auto
    let ?e = "e\<lparr>e_perf := pmo\<rparr>"
    show ?thesis
    proof (cases r)
      case (IDec d0)
      obtain e2 c2 d2 where pd: "process_decision rt name ?e c1 d0 = (e2, c2, d2)"
        by (metis prod.exhaust)
      note f = process_decision_frame [OF pd]
      have "score_ok d2" using sc [OF IDec] f(1) by (simp add: score_ok_def)
      then have step: "accounted c c2" using fr f(4) by (auto intro: accounted_note)
      show ?thesis
      proof (cases "d_action d2 = ActionBlock \<and> \<not> e_shadow e")
        case True
        with Cons.prems(2) Some ni call IDec pd step show ?thesis by simp
      next
        case False
        with Cons.prems(2) Some ni call IDec pd
        have "inspect_loop rt slots e2 (s1, c2) = ((e', s', c'), out)" by (auto simp: Let_def)
        from accounted_trans [OF step Cons.IH [OF ok this]] show ?thesis .
      qed
    next
      case INil
      with Cons.prems(2) Some ni call have "inspect_loop rt slots ?e (s1, c1) = ((e', s', c'), out)" by simp
      from accounted_trans [OF accounted_refl [OF fr] Cons.IH [OF ok this]] show ?thesis .
    next
      case (IErr x)
      with Cons.prems(2) Some ni call have "inspect_loop rt slots ?e (s1, c1) = ((e', s', c'), out)" by simp
      from accounted_trans [OF accounted_refl [OF fr] Cons.IH [OF ok this]] show ?thesis .
    next
      case (IPanic p)
      with Cons.prems(2) Some ni call fr show ?thesis by (auto intro: accounted_refl)
    qed
  qed
qed

text \<open>A demonstration pipeline for the witnesses: one check that always answers with a given decision.\<close>

definition demo_rt :: rt_env where
  "demo_rt = \<lparr>rt_now = 0, rt_render = (\<lambda>_. []), rt_sqrt = (\<lambda>x. x),
     rt_perf = (\<lambda>_. \<lparr>pe_alloc = 0, pe_timed_out = False\<rparr>)\<rparr>"

definition demo_ctx :: reqctx where
  "demo_ctx = \<lparr>c_request = \<lparr>rq_header = [], rq_content_length = 0, rq_proto = ''HTTP/1.1'', rq_tls = None\<rparr>,
     c_status = None, c_real_ip = ''203.0.113.7'', c_user_agent = ''ua'', c_path = ''/x'', c_method = ''GET'',
     c_headers = [], c_cookies = [], c_query = [], c_form = [], c_body = None, c_content_type = [],
     c_session_id = [], c_user_id = [], c_bot_score = 0, c_threat = 0, c_decisions = [],
     c_is_bot = False, c_known_attack = False, c_host = [], c_tls_version = [], c_ja3 = []\<rparr>"

definition demo_engine :: "bool \<Rightarrow> 's slot list \<Rightarrow> 's engine" where
  "demo_engine shadow slots = \<lparr>e_shadow = shadow, e_learning = False, e_perf = None,
     e_learner = new_learner, e_conf = Map.empty, e_named = Map.empty, e_slots = slots\<rparr>"

definition demo_slot :: "string \<Rightarrow> decision \<Rightarrow> 's slot" where
  "demo_slot name d = Some (name, stateless (\<lambda>_. Some d))"

definition demo_block :: decision where
  "demo_block = mk_decision ActionBlock ''DSYNC_001'' ''CL.TE Desync'' ''critical'' 95 (Lit ''x'')"

lemma demo_slot_ok [simp]: "slots_ok (demo_slot name d # slots) \<longleftrightarrow> inspector (stateless (\<lambda>_. Some d) :: 's inspector) \<and> slots_ok (slots :: 's slot list)"
  by (simp add: demo_slot_def)

lemma demo_inspector_ok [simp]: "score_ok d \<Longrightarrow> inspector (stateless (\<lambda>_. Some d))"
  by (rule inspector_stateless) simp

definition run_ctx :: "('s engine \<times> 's \<times> reqctx) \<times> outcome \<Rightarrow> reqctx" where
  "run_ctx res = snd (snd (fst res))"

lemma run_accounted:
  assumes "slots_ok (e_slots e)"
  shows "accounted c (run_ctx (engine_inspect rt e (s, c)))"
proof -
  obtain e' s' c' out where "engine_inspect rt e (s, c) = ((e', s', c'), out)" by (metis prod.exhaust)
  with loop_accounted [OF assms, of rt e s c e' s' c' out] show ?thesis
    by (simp add: engine_inspect_def run_ctx_def)
qed

text \<open>Property C2. The engine's bookkeeping is exact: after a run over inspectors that keep their
  contract, the decisions of the request are extended by a list whose scores add up to the
  growth of the threat score.\<close>

theorem threat_accounting:
  assumes "slots_ok (e_slots e)"
  shows "\<exists>ds. c_decisions (run_ctx (engine_inspect rt e (s, c))) = c_decisions c @ ds
    \<and> c_threat (run_ctx (engine_inspect rt e (s, c))) = c_threat c + sum_list (map d_score ds)"
  using run_accounted [OF assms, of c rt s] unfolding accounted_def by blast

theorem threat_accounting_witness:
  "\<exists>ds. c_decisions (run_ctx (engine_inspect demo_rt (demo_engine False [demo_slot ''desync'' demo_block]) ((), demo_ctx)))
     = c_decisions demo_ctx @ ds
   \<and> c_threat (run_ctx (engine_inspect demo_rt (demo_engine False [demo_slot ''desync'' demo_block]) ((), demo_ctx)))
     = c_threat demo_ctx + sum_list (map d_score ds)"
  by (rule threat_accounting) (simp add: demo_engine_def demo_block_def score_ok_def)

section \<open>What it means to run the pipeline\<close>

text \<open>
  A specification of the pipeline that knows no slots, no early return and no verdict. An inspector is asked through
  the performance manager, whose refusals, timeouts and errors are answers like any other; a decision is processed and
  recorded. \<^verbatim>\<open>ask_all\<close> asks a list of inspectors one after the other, to its end, and collects the answers.
\<close>

fun installed :: "'s slot list \<Rightarrow> (string \<times> 's inspector) list" where
  "installed [] = []"
| "installed (None # slots) = installed slots"
| "installed (Some ni # slots) = ni # installed slots"

definition ask ::
  "rt_env \<Rightarrow> string \<times> 's inspector \<Rightarrow> 's engine \<times> 's \<times> reqctx \<Rightarrow> ('s engine \<times> 's \<times> reqctx) \<times> insp_result" where
  "ask rt ni st =
     (case call_inspector rt (fst ni) (snd ni) (e_perf (fst st)) (snd st) of
        ((pmo, s', c'), r) \<Rightarrow>
          let e' = (fst st)\<lparr>e_perf := pmo\<rparr>
          in (case r of
                IDec d \<Rightarrow> (case process_decision rt (fst ni) e' c' d of (e2, c2, d2) \<Rightarrow> ((e2, s', c2), r))
              | _ \<Rightarrow> ((e', s', c'), r)))"

fun ask_all ::
  "rt_env \<Rightarrow> (string \<times> 's inspector) list \<Rightarrow> 's engine \<times> 's \<times> reqctx \<Rightarrow> ('s engine \<times> 's \<times> reqctx) \<times> insp_result list" where
  "ask_all rt [] st = (st, [])"
| "ask_all rt (ni # nis) st =
     (case ask rt ni st of (st1, r) \<Rightarrow> (case ask_all rt nis st1 of (st2, rs) \<Rightarrow> (st2, r # rs)))"

fun decisions_of :: "insp_result list \<Rightarrow> decision list" where
  "decisions_of [] = []"
| "decisions_of (IDec d # rs) = d # decisions_of rs"
| "decisions_of (_ # rs) = decisions_of rs"

text \<open>The answers after which the pipeline does not go on: a panic and, outside shadow mode, a block.\<close>

definition final_answer :: "bool \<Rightarrow> insp_result \<Rightarrow> bool" where
  "final_answer shadow r =
     (case r of IPanic _ \<Rightarrow> True | IDec d \<Rightarrow> d_action d = ActionBlock \<and> \<not> shadow | _ \<Rightarrow> False)"

lemma decisions_of_iff [simp]: "d \<in> set (decisions_of rs) \<longleftrightarrow> IDec d \<in> set rs"
  by (induction rs rule: decisions_of.induct) auto

lemma loop_installed: "inspect_loop rt slots e sc = inspect_loop rt (map Some (installed slots)) e sc"
proof (induction slots arbitrary: e sc)
  case (Cons slot slots)
  show ?case
  proof (cases slot)
    case None
    with Cons show ?thesis by simp
  next
    case (Some ni)
    obtain name insp where ni: "ni = (name, insp)" by (cases ni)
    obtain s c where sc: "sc = (s, c)" by (cases sc)
    with Cons Some ni show ?thesis
      by (auto simp: Let_def split: prod.split insp_result.split)
  qed
qed simp

lemma slots_ok_installed: "slots_ok slots \<longleftrightarrow> (\<forall>(name, insp)\<in>set (installed slots). inspector insp)"
  by (induction slots rule: installed.induct) (auto split: prod.splits)

lemma ask_continues:
  assumes "ask rt ni (e, s, c) = ((e1, s1, c1), r)" and "\<not> final_answer (e_shadow e) r"
  shows "inspect_loop rt (Some ni # slots) e (s, c) = inspect_loop rt slots e1 (s1, c1) \<and> e_shadow e1 = e_shadow e"
proof -
  obtain name insp where ni: "ni = (name, insp)" by (cases ni)
  obtain pmo s' c' r' where call: "call_inspector rt name insp (e_perf e) (s, c) = ((pmo, s', c'), r')"
    by (metis prod.exhaust)
  show ?thesis
  proof (cases r')
    case (IDec d)
    obtain e2 c2 d2 where pd: "process_decision rt name (e\<lparr>e_perf := pmo\<rparr>) c' d = (e2, c2, d2)"
      by (metis prod.exhaust)
    note f = process_decision_frame [OF pd]
    from assms(1) ni call IDec pd have eqs: "r = IDec d" "e1 = e2" "s1 = s'" "c1 = c2" by (simp_all add: ask_def)
    from assms(2) eqs(1) have "\<not> (d_action d = ActionBlock \<and> \<not> e_shadow e)" by (simp add: final_answer_def)
    with ni call IDec pd f eqs show ?thesis by auto
  qed (use assms ni call in \<open>auto simp: ask_def Let_def final_answer_def\<close>)
qed

lemma process_decision_rule:
  "process_decision rt name e c d = (e2, c2, d2) \<Longrightarrow> d_rule_id d2 = d_rule_id d"
  by (auto simp: process_decision_def enrich_explain_def Let_def split: if_splits option.splits)

lemma ask_blocks:
  assumes "ask rt (name, insp) (e, s, c) = ((e1, s1, c1), IDec d)" and "d_action d = ActionBlock" and "\<not> e_shadow e"
  shows "\<exists>d2. inspect_loop rt (Some (name, insp) # slots) e (s, c) = ((e1, s1, c1), Verdict d2) \<and>
    d_action d2 = ActionBlock \<and> d_score d2 = d_score d \<and> d_rule_id d2 = d_rule_id d \<and> d_inspector d2 = name"
proof -
  obtain pmo s' c' r' where call: "call_inspector rt name insp (e_perf e) (s, c) = ((pmo, s', c'), r')"
    by (metis prod.exhaust)
  obtain e2 c2 d2 where pd: "process_decision rt name (e\<lparr>e_perf := pmo\<rparr>) c' d = (e2, c2, d2)"
    by (metis prod.exhaust)
  have r': "r' = IDec d" using assms(1) call by (auto simp: ask_def Let_def split: insp_result.splits prod.splits)
  with assms(1) call pd have "e2 = e1" "s' = s1" "c2 = c1" by (simp_all add: ask_def)
  with assms call pd r' process_decision_frame [OF pd] process_decision_rule [OF pd] show ?thesis by simp
qed

lemma asks_continue:
  assumes "ask_all rt xs (e, s, c) = ((e1, s1, c1), rs)" and "\<forall>r\<in>set rs. \<not> final_answer (e_shadow e) r"
  shows "inspect_loop rt (map Some (xs @ ys)) e (s, c) = inspect_loop rt (map Some ys) e1 (s1, c1) \<and> e_shadow e1 = e_shadow e"
  using assms
proof (induction xs arbitrary: e s c rs)
  case (Cons ni xs)
  obtain e2 s2 c2 r where a: "ask rt ni (e, s, c) = ((e2, s2, c2), r)" by (metis prod.exhaust)
  with Cons.prems(1) obtain rs2 where rest: "ask_all rt xs (e2, s2, c2) = ((e1, s1, c1), rs2)" and rs: "rs = r # rs2"
    by (auto split: prod.splits)
  from Cons.prems(2) rs have r: "\<not> final_answer (e_shadow e) r" by simp
  from ask_continues [OF a r, of "map Some (xs @ ys)"] have sh: "e_shadow e2 = e_shadow e"
    and eq: "inspect_loop rt (map Some ((ni # xs) @ ys)) e (s, c) = inspect_loop rt (map Some (xs @ ys)) e2 (s2, c2)"
    by auto
  from Cons.prems(2) rs sh have "\<forall>r\<in>set rs2. \<not> final_answer (e_shadow e2) r" by simp
  from Cons.IH [OF rest this] eq sh show ?case by simp
qed simp

text \<open>In shadow mode every verdict, and outside it every one but a block, is given after every installed inspector has been asked.\<close>

lemma verdict_after_all:
  assumes "inspect_loop rt (map Some nis) e (s, c) = ((e', s', c'), Verdict d)" and "e_shadow e \<or> d_action d \<noteq> ActionBlock"
  shows "\<exists>rs. ask_all rt nis (e, s, c) = ((e', s', c'), rs) \<and> (\<forall>r\<in>set rs. \<not> final_answer (e_shadow e) r) \<and>
    d = final_decision c'"
  using assms
proof (induction nis arbitrary: e s c)
  case (Cons ni nis)
  obtain name insp where ni: "ni = (name, insp)" by (cases ni)
  obtain e1 s1 c1 r where a: "ask rt ni (e, s, c) = ((e1, s1, c1), r)" by (metis prod.exhaust)
  show ?case
  proof (cases "final_answer (e_shadow e) r")
    case True
    then consider p where "r = IPanic p" | d0 where "r = IDec d0" "d_action d0 = ActionBlock" "\<not> e_shadow e"
      by (auto simp: final_answer_def split: insp_result.splits)
    then show ?thesis
    proof cases
      case 1
      with a ni Cons.prems(1) show ?thesis
        by (auto simp: ask_def Let_def split: prod.splits insp_result.splits)
    next
      case 2
      from ask_blocks [of rt name insp e s c e1 s1 c1 d0 "map Some nis"] a ni 2 Cons.prems show ?thesis by auto
    qed
  next
    case False
    from ask_continues [OF a False, of "map Some nis"] Cons.prems(1)
    have sh: "e_shadow e1 = e_shadow e"
      and rest: "inspect_loop rt (map Some nis) e1 (s1, c1) = ((e', s', c'), Verdict d)" by auto
    have "e_shadow e1 \<or> d_action d \<noteq> ActionBlock" using Cons.prems(2) sh by simp
    from Cons.IH [OF rest this] a False sh show ?thesis by auto
  qed
qed simp

text \<open>What the answers leave in the context.\<close>

lemma ask_accounted:
  assumes "inspector insp" and "ask rt (name, insp) (e, s, c) = ((e1, s1, c1), r)"
  shows "c_threat c1 = c_threat c + sum_list (map d_score (decisions_of [r])) \<and>
    map d_action (c_decisions c1) = map d_action (c_decisions c) @ map d_action (decisions_of [r]) \<and>
    (\<forall>d\<in>set (decisions_of [r]). score_ok d)"
proof -
  obtain pmo s' c' r' where call: "call_inspector rt name insp (e_perf e) (s, c) = ((pmo, s', c'), r')"
    by (metis prod.exhaust)
  from call_inspector_contract [OF assms(1) call] have fr: "ctx_frame c c'" and sc: "\<And>d. r' = IDec d \<Longrightarrow> score_ok d" by auto
  show ?thesis
  proof (cases r')
    case (IDec d)
    obtain e2 c2 d2 where pd: "process_decision rt name (e\<lparr>e_perf := pmo\<rparr>) c' d = (e2, c2, d2)"
      by (metis prod.exhaust)
    from assms(2) call pd IDec have "r = IDec d" "c1 = c2" by (simp_all add: ask_def)
    with process_decision_frame [OF pd] fr sc [OF IDec] show ?thesis by (simp add: ctx_frame_def)
  qed (use assms(2) call fr in \<open>auto simp: ask_def ctx_frame_def\<close>)
qed

lemma asks_accounted:
  assumes "\<forall>(name, insp)\<in>set nis. inspector insp" and "ask_all rt nis (e, s, c) = ((e', s', c'), rs)"
  shows "c_threat c' = c_threat c + sum_list (map d_score (decisions_of rs)) \<and>
    map d_action (c_decisions c') = map d_action (c_decisions c) @ map d_action (decisions_of rs) \<and>
    (\<forall>d\<in>set (decisions_of rs). score_ok d)"
  using assms
proof (induction nis arbitrary: e s c rs)
  case (Cons ni nis)
  obtain name insp where ni: "ni = (name, insp)" by (cases ni)
  obtain e1 s1 c1 r where a: "ask rt ni (e, s, c) = ((e1, s1, c1), r)" by (metis prod.exhaust)
  with Cons.prems(2) obtain rs2 where rest: "ask_all rt nis (e1, s1, c1) = ((e', s', c'), rs2)" and rs: "rs = r # rs2"
    by (auto split: prod.splits)
  have "inspector insp" using Cons.prems(1) ni by auto
  note one = ask_accounted [OF this a [unfolded ni]]
  have "\<forall>(name, insp)\<in>set nis. inspector insp" using Cons.prems(1) by auto
  from Cons.IH [OF this rest] one rs show ?case by (cases r) auto
qed simp

section \<open>Verdicts\<close>

lemma run_simps:
  "engine_inspect rt e sc = inspect_loop rt (e_slots e) e sc"
  by (simp add: engine_inspect_def)

lemma sum_scores_ge:
  assumes "\<forall>d\<in>set ds. score_ok d" "x \<in> set ds"
  shows "d_score x \<le> sum_list (map d_score ds)"
  using assms
proof (induction ds)
  case (Cons y ys)
  have nonneg: "0 \<le> sum_list (map d_score ys)"
    using Cons.prems(1) by (intro sum_list_nonneg) (auto simp: score_ok_def)
  show ?case
  proof (cases "x = y")
    case True
    with nonneg show ?thesis by simp
  next
    case False
    with Cons show ?thesis by (force simp: score_ok_def)
  qed
qed simp

text \<open>Property C20. In shadow mode the engine still blocks: no inspector ends the pipeline, every installed one is asked, but the scores of
  what they answer count, and the verdict on a fresh request is a block exactly if they sum up to 90 or more, a challenge
  exactly if they sum up to 50 or more but not to 90, and a rate limit exactly if they stay below 50 and
  one of the answers is a rate limit.\<close>

theorem shadow_verdict_by_sum:
  assumes "e_shadow e" and "slots_ok (e_slots e)" and "c_threat c = 0" and "c_decisions c = []"
    and "engine_inspect rt e (s, c) = ((e', s', c'), Verdict d)"
  shows "\<exists>rs total. ask_all rt (installed (e_slots e)) (e, s, c) = ((e', s', c'), rs) \<and>
    total = sum_list (map d_score (decisions_of rs)) \<and>
    (d_action d = ActionBlock \<longleftrightarrow> 90 \<le> total) \<and>
    (d_action d = ActionChallenge \<longleftrightarrow> 50 \<le> total \<and> total < 90) \<and>
    (d_action d = ActionRateLimit \<longleftrightarrow> total < 50 \<and> (\<exists>x. IDec x \<in> set rs \<and> d_action x = ActionRateLimit))"
proof -
  from assms(5) loop_installed [of rt "e_slots e" e "(s, c)"]
  have run: "inspect_loop rt (map Some (installed (e_slots e))) e (s, c) = ((e', s', c'), Verdict d)"
    by (simp add: engine_inspect_def)
  from verdict_after_all [OF this] assms(1)
  obtain rs where asks: "ask_all rt (installed (e_slots e)) (e, s, c) = ((e', s', c'), rs)"
    and fin: "d = final_decision c'" by auto
  from asks_accounted [OF _ asks] assms(2-4) slots_ok_installed
  have sum: "c_threat c' = sum_list (map d_score (decisions_of rs))"
    and acts: "map d_action (c_decisions c') = map d_action (decisions_of rs)" by auto
  have "(\<exists>x\<in>set (c_decisions c'). d_action x = ActionRateLimit) \<longleftrightarrow> ActionRateLimit \<in> set (map d_action (c_decisions c'))"
    by force
  then have limited: "(\<exists>x\<in>set (c_decisions c'). d_action x = ActionRateLimit) \<longleftrightarrow>
      (\<exists>x. IDec x \<in> set rs \<and> d_action x = ActionRateLimit)" unfolding acts by force
  have "(d_action d = ActionBlock \<longleftrightarrow> 90 \<le> c_threat c') \<and> (d_action d = ActionChallenge \<longleftrightarrow> 50 \<le> c_threat c' \<and> c_threat c' < 90) \<and>
    (d_action d = ActionRateLimit \<longleftrightarrow> c_threat c' < 50 \<and> (\<exists>x\<in>set (c_decisions c'). d_action x = ActionRateLimit))"
    unfolding fin by (auto simp: final_decision_def Let_def)
  with asks show ?thesis unfolding sum limited by blast
qed

theorem shadow_verdict_by_sum_witness:
  "\<exists>st d. engine_inspect demo_rt (demo_engine True [demo_slot ''desync'' demo_block, demo_slot ''jwt'' allow_decision]) ((), demo_ctx) =
     (st, Verdict d) \<and> d_action d = ActionBlock"
proof -
  let ?a = "stateless (\<lambda>_. Some demo_block) :: unit inspector" and ?b = "stateless (\<lambda>_. Some allow_decision) :: unit inspector"
  let ?e = "demo_engine True [demo_slot ''desync'' demo_block, demo_slot ''jwt'' allow_decision] :: unit engine"
  have ok: "slots_ok (e_slots ?e)" by (simp add: demo_engine_def score_ok_def demo_block_def)
  obtain e' s' c' d where run: "engine_inspect demo_rt ?e ((), demo_ctx) = ((e', s', c'), Verdict d)"
    by (auto simp: engine_inspect_def demo_engine_def demo_slot_def demo_block_def stateless_def
        call_inspector_def process_decision_def Let_def)
  have sh: "e_shadow ?e" by (simp add: demo_engine_def)
  have nis: "installed (e_slots ?e) = [(''desync'', ?a), (''jwt'', ?b)]" by (simp add: demo_engine_def demo_slot_def)
  have "rs = [IDec demo_block, IDec allow_decision]" if "ask_all demo_rt [(''desync'', ?a), (''jwt'', ?b)] (?e, (), demo_ctx) = (st, rs)" for st rs
    using that by (auto simp: ask_def call_inspector_def stateless_def process_decision_def demo_engine_def Let_def)
  then have "d_action d = ActionBlock"
    using shadow_verdict_by_sum [OF sh ok _ _ run, unfolded nis]
    by (fastforce simp: demo_ctx_def demo_block_def mk_decision_def allow_decision_def)
  with run show ?thesis by blast
qed

text \<open>Property C3. Outside shadow mode the first blocking inspector decides: when the inspectors before it are asked in order
  and none panics or blocks, and it answers with a block of whatever score, then the verdict is this block, under its name, with its
  score and rule, and the state is the one after its answer: the inspectors after it are not run.\<close>

theorem first_block_decides:
  assumes "\<not> e_shadow e" and "installed (e_slots e) = before @ (name, insp) # after"
    and "ask_all rt before (e, s, c) = (st1, rs)" and "\<forall>r\<in>set rs. \<not> final_answer False r"
    and "ask rt (name, insp) st1 = (st2, IDec d)" and "d_action d = ActionBlock"
  shows "\<exists>d2. engine_inspect rt e (s, c) = (st2, Verdict d2) \<and> d_action d2 = ActionBlock \<and>
    d_score d2 = d_score d \<and> d_rule_id d2 = d_rule_id d \<and> d_inspector d2 = name"
proof -
  obtain e1 s1 c1 where st1: "st1 = (e1, s1, c1)" by (cases st1)
  obtain e2 s2 c2 where st2: "st2 = (e2, s2, c2)" by (cases st2)
  have "engine_inspect rt e (s, c) = inspect_loop rt (map Some (before @ (name, insp) # after)) e (s, c)"
    using loop_installed [of rt "e_slots e" e "(s, c)"] assms(2) by (simp add: engine_inspect_def)
  moreover from asks_continue [OF assms(3) [unfolded st1], of "(name, insp) # after"] assms(1,4)
  have "inspect_loop rt (map Some (before @ (name, insp) # after)) e (s, c)
      = inspect_loop rt (Some (name, insp) # map Some after) e1 (s1, c1)" and "\<not> e_shadow e1" by auto
  ultimately show ?thesis using ask_blocks [OF assms(5) [unfolded st1 st2] assms(6)] st2 by simp
qed

theorem first_block_decides_witness:
  "\<exists>st d2. engine_inspect demo_rt (demo_engine False [demo_slot ''jwt'' allow_decision, None, demo_slot ''desync'' demo_block,
       demo_slot ''xss'' allow_decision]) ((), demo_ctx) = (st, Verdict d2) \<and>
     d_score d2 = 95 \<and> d_rule_id d2 = ''DSYNC_001'' \<and> d_inspector d2 = ''desync''"
proof -
  let ?a = "stateless (\<lambda>_. Some allow_decision) :: unit inspector" and ?b = "stateless (\<lambda>_. Some demo_block) :: unit inspector"
  let ?e = "demo_engine False [demo_slot ''jwt'' allow_decision, None, demo_slot ''desync'' demo_block,
       demo_slot ''xss'' allow_decision] :: unit engine"
  obtain st1 where first: "ask_all demo_rt [(''jwt'', ?a)] (?e, (), demo_ctx) = (st1, [IDec allow_decision])"
    and perf: "e_perf (fst st1) = None"
    by (auto simp: ask_def call_inspector_def stateless_def process_decision_def demo_engine_def Let_def)
  obtain st2 where block: "ask demo_rt (''desync'', ?b) st1 = (st2, IDec demo_block)"
    using perf by (cases st1) (auto simp: ask_def call_inspector_def stateless_def process_decision_def Let_def)
  have "\<forall>r\<in>set [IDec allow_decision]. \<not> final_answer False r" by (simp add: final_answer_def allow_decision_def)
  from first_block_decides [OF _ _ first this block, of "[(''xss'', ?a)]"]
  have "\<exists>d2. engine_inspect demo_rt ?e ((), demo_ctx) = (st2, Verdict d2) \<and> d_score d2 = d_score demo_block \<and>
      d_rule_id d2 = d_rule_id demo_block \<and> d_inspector d2 = ''desync''"
    by (auto simp: demo_engine_def demo_slot_def demo_block_def mk_decision_def)
  then have "\<exists>d2. engine_inspect demo_rt ?e ((), demo_ctx) = (st2, Verdict d2) \<and> d_score d2 = 95 \<and>
      d_rule_id d2 = ''DSYNC_001'' \<and> d_inspector d2 = ''desync''"
    by (simp add: demo_block_def mk_decision_def)
  then show ?thesis by blast
qed

definition always_fails :: "'s inspector \<Rightarrow> bool" where
  "always_fails insp \<longleftrightarrow> (\<forall>now sc. \<exists>e. insp now sc = (sc, IErr e))"

lemma process_decision_perf:
  "process_decision rt name e c d = (e2, c2, d2) \<Longrightarrow> e_perf e = None \<Longrightarrow> e_perf e2 = None"
  using process_decision_frame(6) by fastforce

lemma loop_drop_failing:
  assumes "always_fails insp"
  shows "e_perf e = None \<Longrightarrow>
    inspect_loop rt (xs @ Some (name, insp) # ys) e (s, c) = inspect_loop rt (xs @ ys) e (s, c)"
proof (induction xs arbitrary: e s c)
  case Nil
  obtain x where "insp (rt_now rt) (s, c) = ((s, c), IErr x)"
    using assms unfolding always_fails_def by blast
  moreover have eq: "e\<lparr>e_perf := None\<rparr> = e" using Nil by (cases e) simp
  ultimately show ?case using Nil by (simp add: call_inspector_def eq)
next
  case (Cons slot slots)
  show ?case
  proof (cases slot)
    case None
    with Cons show ?thesis by simp
  next
    case (Some ni)
    obtain n i where ni: "ni = (n, i)" by fastforce
    obtain s1 c1 r where "i (rt_now rt) (s, c) = ((s1, c1), r)" by (metis prod.exhaust)
    with Cons.prems have call: "call_inspector rt n i (e_perf e) (s, c) = ((None, s1, c1), r)"
      by (simp add: call_inspector_def)
    let ?e = "e\<lparr>e_perf := None\<rparr>"
    show ?thesis
    proof (cases r)
      case (IDec d0)
      obtain e2 c2 d2 where pd: "process_decision rt n ?e c1 d0 = (e2, c2, d2)" by (metis prod.exhaust)
      then have "e_perf e2 = None" using process_decision_perf by fastforce
      with Cons.IH Some ni call IDec pd show ?thesis by (simp add: Let_def)
    qed (use Cons.IH Some ni call in auto)
  qed
qed

text \<open>The engine fails open: an inspector that only returns errors makes no difference,
  the verdict and the state are those of the pipeline without it.\<close>

lemma failing_inspector_ignored:
  assumes "always_fails insp" and "e_perf e = None"
  shows "inspect_loop rt (xs @ Some (name, insp) # ys) e (s, c) = inspect_loop rt (xs @ ys) e (s, c)"
  using loop_drop_failing [OF assms(1)] assms(2) by blast

lemma failing_inspector_ignored_witness:
  "inspect_loop demo_rt ([] @ Some (''captcha'', \<lambda>now sc. (sc, IErr (Lit ''x''))) # []) (demo_engine False []) ((), demo_ctx)
   = inspect_loop demo_rt ([] @ []) (demo_engine False []) ((), demo_ctx)"
  by (rule failing_inspector_ignored) (simp_all add: always_fails_def demo_engine_def)

lemma allow_facts:
  assumes "slots_ok (e_slots e)" and "c_threat c = 0" and "c_decisions c = []"
    and "engine_inspect rt e (s, c) = ((e', s', c'), Verdict d)" and "d_action d = ActionAllow"
  shows "\<exists>rs. ask_all rt (installed (e_slots e)) (e, s, c) = ((e', s', c'), rs) \<and>
    (\<forall>p. IPanic p \<notin> set rs) \<and>
    (\<forall>x. IDec x \<in> set rs \<longrightarrow> (d_action x = ActionBlock \<longrightarrow> e_shadow e) \<and> d_action x \<noteq> ActionRateLimit \<and> d_score x < 50) \<and>
    c_threat c' = sum_list (map d_score (decisions_of rs)) \<and> c_threat c' < 50"
proof -
  from assms(4) loop_installed [of rt "e_slots e" e "(s, c)"]
  have run: "inspect_loop rt (map Some (installed (e_slots e))) e (s, c) = ((e', s', c'), Verdict d)"
    by (simp add: engine_inspect_def)
  from verdict_after_all [OF this] assms(5)
  obtain rs where asks: "ask_all rt (installed (e_slots e)) (e, s, c) = ((e', s', c'), rs)"
    and go: "\<forall>r\<in>set rs. \<not> final_answer (e_shadow e) r" and fin: "d = final_decision c'" by auto
  from asks_accounted [OF _ asks] assms(1) slots_ok_installed assms(2,3)
  have sum: "c_threat c' = sum_list (map d_score (decisions_of rs))"
    and acts: "map d_action (c_decisions c') = map d_action (decisions_of rs)"
    and ok: "\<forall>x\<in>set (decisions_of rs). score_ok x" by auto
  have small: "c_threat c' < 50" and none: "\<forall>x\<in>set (c_decisions c'). d_action x \<noteq> ActionRateLimit"
    using fin assms(5) by (auto simp: final_decision_def Let_def split: if_splits)
  have "d_score x < 50" if "IDec x \<in> set rs" for x
    using sum_scores_ge [OF ok] that sum small by fastforce
  moreover have "d_action x \<noteq> ActionRateLimit" if "IDec x \<in> set rs" for x
  proof -
    from that have "d_action x \<in> set (map d_action (c_decisions c'))" unfolding acts by simp
    with none show ?thesis by auto
  qed
  moreover have "e_shadow e" if "IDec x \<in> set rs" "d_action x = ActionBlock" for x
    using go that by (force simp: final_answer_def)
  moreover have "IPanic p \<notin> set rs" for p using go by (force simp: final_answer_def)
  ultimately show ?thesis using asks sum small by blast
qed

text \<open>Property C1. An allow verdict is sound: when the engine lets a fresh request through, every installed inspector was
  asked, in the order of the slots and to the last (one that the performance manager refuses, cuts off or that fails answers with
  an error), none panicked, none answered with a rate limit or, outside shadow mode, with a block, every score was below
  50, and so is their sum, the threat score of the request. In shadow mode the same holds but for blocks with such
  scores.\<close>

theorem allow_verdict_sound:
  assumes "slots_ok (e_slots e)" and "c_threat c = 0" and "c_decisions c = []"
    and "engine_inspect rt e (s, c) = ((e', s', c'), Verdict d)" and "d_action d = ActionAllow"
  shows "\<exists>rs. ask_all rt (installed (e_slots e)) (e, s, c) = ((e', s', c'), rs) \<and>
    (\<forall>p. IPanic p \<notin> set rs) \<and>
    (\<forall>x. IDec x \<in> set rs \<longrightarrow> (d_action x = ActionBlock \<longrightarrow> e_shadow e) \<and> d_action x \<noteq> ActionRateLimit \<and> d_score x < 50) \<and>
    c_threat c' = sum_list (map d_score (decisions_of rs)) \<and> c_threat c' < 50"
  using assms by (rule allow_facts)

theorem allow_verdict_sound_witness:
  "\<exists>st rs. ask_all demo_rt [(''jwt'', stateless (\<lambda>_. Some allow_decision)), (''xss'', stateless (\<lambda>_. None))]
     (demo_engine False [demo_slot ''jwt'' allow_decision, None, Some (''xss'', stateless (\<lambda>_. None))], (), demo_ctx) = (st, rs) \<and>
     (\<forall>x. IDec x \<in> set rs \<longrightarrow> d_score x < 50)"
proof -
  let ?e = "demo_engine False [demo_slot ''jwt'' allow_decision, None, Some (''xss'', stateless (\<lambda>_. None))] :: unit engine"
  have "inspector (stateless (\<lambda>_. None) :: unit inspector)" by (rule inspector_stateless) simp
  then have ok: "slots_ok (e_slots ?e)" by (simp add: demo_engine_def score_ok_def allow_decision_def)
  obtain e' s' c' where run: "engine_inspect demo_rt ?e ((), demo_ctx) = ((e', s', c'), Verdict allow_decision)"
    by (auto simp: engine_inspect_def demo_engine_def demo_slot_def stateless_def demo_ctx_def
        call_inspector_def process_decision_def final_decision_def Let_def)
  from allow_verdict_sound [OF ok _ _ run] show ?thesis
    by (fastforce simp: demo_engine_def demo_slot_def demo_ctx_def allow_decision_def)
qed

end
