(* ===== verification/WindowCounter.thy ===== *)
theory WindowCounter
  imports Prelude
begin

text \<open>
  The contract of a sliding-window counter, which the rate limiter
  (\<^verbatim>\<open>internal/ratelimit/ratelimit.go\<close>) and the flood detector (\<^verbatim>\<open>internal/engine/ddos.go\<close>) both
  implement: entries older than the window are dropped, and a request is admitted, and entered,
  only while fewer than the limit remain.
\<close>

definition prune :: "gotime \<Rightarrow> gotime list \<Rightarrow> gotime list" where
  "prune cutoff ts = filter (\<lambda>t. cutoff < t) ts"

lemma prune_prune [simp]: "c \<le> c' \<Longrightarrow> prune c' (prune c ts) = prune c' ts"
  by (auto simp: prune_def intro: filter_cong)

lemma prune_append [simp]: "prune c (xs @ ys) = prune c xs @ prune c ys"
  by (simp add: prune_def)

text \<open>The admitted instants of a run of a counter, from its entries and the instants of the requests.\<close>

fun sw_run :: "(gotime \<Rightarrow> gotime list \<Rightarrow> gotime list \<times> bool) \<Rightarrow> gotime list \<Rightarrow> gotime list \<Rightarrow> gotime list" where
  "sw_run admit es [] = []"
| "sw_run admit es (t # ts) =
     (let (es', ok) = admit t es in (if ok then [t] else []) @ sw_run admit es' ts)"

text \<open>How many instants fall into the window \<open>(x - w, x]\<close>.\<close>

definition in_window :: "duration \<Rightarrow> gotime \<Rightarrow> gotime list \<Rightarrow> nat" where
  "in_window w x ts = length (filter (\<lambda>t. x - w < t \<and> t \<le> x) ts)"

lemma in_window_append [simp]: "in_window w x (xs @ ys) = in_window w x xs + in_window w x ys"
  by (simp add: in_window_def)

lemma in_window_le_prune: "y \<le> x \<Longrightarrow> in_window w x ts \<le> length (prune (y - w) ts)"
proof (induction ts)
  case (Cons t ts)
  then show ?case by (auto simp: in_window_def prune_def)
qed (simp add: in_window_def prune_def)

locale sliding_window =
  fixes admit :: "gotime \<Rightarrow> gotime list \<Rightarrow> gotime list \<times> bool"
    and window :: duration
    and limit :: int
  assumes admitted: "admit now es = (es', True) \<Longrightarrow>
      es' = prune (now - window) es @ [now] \<and> int (length (prune (now - window) es)) < limit"
    and refused: "admit now es = (es', False) \<Longrightarrow>
      es' = prune (now - window) es \<and> limit \<le> int (length (prune (now - window) es))"
begin

lemma run_window:
  assumes "\<And>now. upto_now \<le> now \<Longrightarrow> prune (now - window) es = prune (now - window) hist"
    and "\<forall>t\<in>set hist. t \<le> upto_now"
    and "\<forall>x. int (in_window window x hist) \<le> max 0 limit"
    and "sorted (upto_now # ts)" and "0 \<le> window"
  shows "\<forall>x. int (in_window window x (hist @ sw_run admit es ts)) \<le> max 0 limit"
  using assms
proof (induction ts arbitrary: es hist upto_now)
  case Nil
  then show ?case by simp
next
  case (Cons now ts)
  obtain es' ok where adm: "admit now es = (es', ok)" by fastforce
  have le: "upto_now \<le> now" and srt: "sorted (now # ts)" using Cons.prems(4) by auto
  show ?case
  proof (cases ok)
    case False
    with adm have es': "es' = prune (now - window) es" by (simp add: refused)
    have "prune (u - window) es' = prune (u - window) hist" if "now \<le> u" for u
      using that le Cons.prems(1) [of u] by (simp add: es')
    moreover have "\<forall>t\<in>set hist. t \<le> now" using Cons.prems(2) le by auto
    ultimately have "\<forall>x. int (in_window window x (hist @ sw_run admit es' ts)) \<le> max 0 limit"
      using Cons.prems(3,5) srt by (intro Cons.IH [where upto_now = now]) auto
    with adm False show ?thesis by simp
  next
    case True
    with adm have es': "es' = prune (now - window) es @ [now]"
      and few: "int (length (prune (now - window) es)) < limit" by (simp_all add: admitted)
    let ?hist = "hist @ [now]"
    have "prune (u - window) es' = prune (u - window) ?hist" if "now \<le> u" for u
      using that le Cons.prems(1) [of u] by (simp add: es')
    moreover have "\<forall>t\<in>set ?hist. t \<le> now" using Cons.prems(2) le by auto
    moreover have "\<forall>x. int (in_window window x ?hist) \<le> max 0 limit"
    proof
      fix x
      show "int (in_window window x ?hist) \<le> max 0 limit"
      proof (cases "now \<le> x")
        case True
        have "in_window window x hist \<le> length (prune (now - window) hist)"
          using True by (rule in_window_le_prune)
        then have "in_window window x ?hist \<le> Suc (length (prune (now - window) es))"
          using Cons.prems(1) [OF le] by (simp add: in_window_def)
        with few show ?thesis by simp
      next
        case False
        with Cons.prems(3) show ?thesis by (simp add: in_window_def)
      qed
    qed
    ultimately have "\<forall>x. int (in_window window x (?hist @ sw_run admit es' ts)) \<le> max 0 limit"
      using Cons.prems(5) srt by (intro Cons.IH [where upto_now = now]) auto
    with adm True show ?thesis by simp
  qed
qed

text \<open>The promise to the client: no window of the given length ever holds more than the limit.\<close>

lemma never_above_limit:
  assumes "sorted ts" and "0 \<le> window"
  shows "int (in_window window x (sw_run admit [] ts)) \<le> max 0 limit"
proof (cases ts)
  case Nil
  then show ?thesis by (simp add: in_window_def)
next
  case (Cons t rest)
  have "sorted (t # ts)" using assms(1) Cons by auto
  then have "\<forall>x. int (in_window window x ([] @ sw_run admit [] ts)) \<le> max 0 limit"
    using assms(2) by (intro run_window [where upto_now = t]) (auto simp: in_window_def)
  then show ?thesis by simp
qed

end

section \<open>Fixed windows\<close>

text \<open>
  The contract of a counter that starts a window with a request and counts up to a limit until the window is
  over. The counter is the start of its window and the number of requests in it.
\<close>

fun fw_run :: "(gotime \<Rightarrow> 'c option \<Rightarrow> 'c \<times> bool) \<Rightarrow> 'c option \<Rightarrow> gotime list \<Rightarrow> gotime list" where
  "fw_run step s [] = []"
| "fw_run step s (t # ts) = (case step t s of (s', ok) \<Rightarrow> (if ok then [t] else []) @ fw_run step (Some s') ts)"

lemma in_window_le_length: "in_window w x ts \<le> length ts"
  by (simp add: in_window_def)

lemma in_window_zero: "\<forall>t\<in>set ts. t \<le> x - w \<Longrightarrow> in_window w x ts = 0"
  by (induction ts) (auto simp: in_window_def)

lemma in_window_single: "in_window w x [t] = (if x - w < t \<and> t \<le> x then 1 else 0)"
  by (simp add: in_window_def)

locale fixed_window =
  fixes step :: "gotime \<Rightarrow> 'c option \<Rightarrow> 'c \<times> bool"
    and start :: "'c \<Rightarrow> gotime" and number :: "'c \<Rightarrow> int"
    and window :: duration and limit :: int
  assumes opens: "step now None = (c, ok) \<Longrightarrow> ok \<and> start c = now \<and> number c = 1"
    and reopens: "window < now - start c \<Longrightarrow> step now (Some c) = (c', ok) \<Longrightarrow> ok \<and> start c' = now \<and> number c' = 1"
    and counts: "now - start c \<le> window \<Longrightarrow> step now (Some c) = (c', ok) \<Longrightarrow>
        start c' = start c \<and> number c' = number c + 1 \<and> ok = (number c' \<le> limit)"
begin

text \<open>The admitted instants: those of the current window, of the one before it, and older ones.\<close>

definition window_inv :: "'c \<Rightarrow> gotime list \<Rightarrow> gotime list \<Rightarrow> gotime list \<Rightarrow> bool" where
  "window_inv c old prev cur \<longleftrightarrow>
     (\<forall>t\<in>set old. t \<le> start c - window) \<and> (\<forall>t\<in>set prev. t < start c) \<and> (\<forall>t\<in>set cur. t \<le> start c + window)
     \<and> int (length prev) \<le> max 1 limit \<and> int (length cur) \<le> max 1 limit \<and> int (length cur) \<le> number c
     \<and> (\<forall>x. int (in_window window x (old @ prev @ cur)) \<le> 2 * max 1 limit)"

lemma admit_inv:
  assumes inv: "window_inv c old prev cur" and le: "start c \<le> now" "\<forall>t\<in>set (old @ prev @ cur). t \<le> now"
    and step: "step now (Some c) = (c', ok)" and "0 \<le> window"
  shows "\<exists>old' prev' cur'. window_inv c' old' prev' cur'
     \<and> old' @ prev' @ cur' = (old @ prev @ cur) @ (if ok then [now] else []) \<and> start c' \<le> now"
proof (cases "window < now - start c")
  case True
  then have c': "ok" "start c' = now" "number c' = 1" using reopens [OF True step] by auto
  have "int (in_window window x ((old @ prev) @ cur @ [now])) \<le> 2 * max 1 limit" for x
  proof (cases "now \<le> x")
    case True
    have "\<forall>t\<in>set (old @ prev). t \<le> x - window"
      using inv \<open>window < now - start c\<close> True \<open>0 \<le> window\<close> by (fastforce simp: window_inv_def)
    then have "in_window window x (old @ prev) = 0" by (rule in_window_zero)
    moreover have "int (in_window window x cur) \<le> max 1 limit"
      using inv in_window_le_length [of window x cur] by (simp add: window_inv_def)
    moreover have "1 \<le> max 1 limit" by simp
    moreover have "in_window window x [now] \<le> 1" by (simp add: in_window_single)
    ultimately show ?thesis by (simp only: in_window_append)
  next
    case False
    then show ?thesis using inv by (simp add: window_inv_def in_window_single)
  qed
  then have "window_inv c' (old @ prev) cur [now]"
    using inv c' True \<open>0 \<le> window\<close> by (fastforce simp: window_inv_def)
  then show ?thesis using c' by (intro exI [of _ "old @ prev"] exI [of _ cur] exI [of _ "[now]"]) simp
next
  case False
  then have le': "now - start c \<le> window" by simp
  have c': "start c' = start c" "number c' = number c + 1" "ok = (number c' \<le> limit)"
    using counts [OF le' step] by auto
  show ?thesis
  proof (cases ok)
    case False
    then show ?thesis using inv c' le
      by (intro exI [of _ old] exI [of _ prev] exI [of _ cur]) (simp add: window_inv_def)
  next
    case True
    then have few: "int (length cur) + 1 \<le> limit" using inv c' by (simp add: window_inv_def)
    have "int (in_window window x (old @ prev @ cur @ [now])) \<le> 2 * max 1 limit" for x
    proof (cases "now \<le> x")
      case True
      have "\<forall>t\<in>set old. t \<le> x - window" using inv True le(1) by (fastforce simp: window_inv_def)
      then have "in_window window x old = 0" by (rule in_window_zero)
      then show ?thesis
        using inv few in_window_le_length [of window x prev] in_window_le_length [of window x cur]
        by (simp add: window_inv_def in_window_single)
    next
      case False
      then show ?thesis using inv by (simp add: window_inv_def in_window_single)
    qed
    then have "window_inv c' old prev (cur @ [now])" using inv c' few le' by (auto simp: window_inv_def)
    then show ?thesis using c' le True by (intro exI [of _ old] exI [of _ prev] exI [of _ "cur @ [now]"]) simp
  qed
qed

lemma run_inv:
  assumes "window_inv c old prev cur" "start c \<le> u" "\<forall>t\<in>set (old @ prev @ cur). t \<le> u" "sorted (u # ts)" "0 \<le> window"
  shows "int (in_window window x ((old @ prev @ cur) @ fw_run step (Some c) ts)) \<le> 2 * max 1 limit"
  using assms
proof (induction ts arbitrary: c old prev cur u)
  case Nil
  then show ?case by (simp add: window_inv_def)
next
  case (Cons now ts)
  obtain c' ok where step: "step now (Some c) = (c', ok)" by fastforce
  have le: "u \<le> now" "sorted (now # ts)" using Cons.prems(4) by auto
  then obtain old' prev' cur' where inv: "window_inv c' old' prev' cur'" "start c' \<le> now"
    and hist: "old' @ prev' @ cur' = (old @ prev @ cur) @ (if ok then [now] else [])"
    using admit_inv [OF Cons.prems(1) _ _ step Cons.prems(5)] Cons.prems(2,3) by fastforce
  have "\<forall>t\<in>set (old @ prev @ cur). t \<le> now" using Cons.prems(3) le(1) by (meson order_trans)
  then have "\<forall>t\<in>set (old' @ prev' @ cur'). t \<le> now" unfolding hist by auto
  from Cons.IH [OF inv this le(2) Cons.prems(5)] show ?case using step unfolding hist by simp
qed

text \<open>The promise: no interval as long as a window holds more than twice the limit.\<close>

lemma twice_the_limit:
  assumes "sorted ts" and "0 \<le> window"
  shows "int (in_window window x (fw_run step None ts)) \<le> 2 * max 1 limit"
proof (cases ts)
  case Nil
  then show ?thesis by (simp add: in_window_def)
next
  case (Cons now rest)
  obtain c ok where step: "step now None = (c, ok)" by fastforce
  then have c: "ok" "start c = now" "number c = 1" using opens [OF step] by auto
  have "window_inv c [] [] [now]" using c assms(2) by (auto simp: window_inv_def in_window_single)
  from run_inv [OF this, of now rest x] show ?thesis using assms Cons c step by simp
qed

end

end
