(* ===== verification/RateLimit.thy ===== *)
theory RateLimit
  imports WafTypes WindowCounter
begin

text \<open>
  The rate limiter, \<^verbatim>\<open>internal/ratelimit/ratelimit.go\<close>: four algorithms behind \<^verbatim>\<open>Inspect\<close>, the limits
  per granularity and the clean-up. \<^verbatim>\<open>time.Now()\<close> is the argument \<open>now\<close>. \<^verbatim>\<open>float64\<close> operations are
  rounded by \<open>fl\<close>, an argument that stands for the rounding of IEEE 754.
\<close>

datatype algorithm = FixedWindow | SlidingWindow | TokenBucket | LeakyBucket | OtherAlgorithm string

datatype granularity = PerIP | PerUser | PerSession | PerAPIKey | PerEndpoint | PerGeo

record window_entry =
  we_timestamp :: gotime
  we_count :: int

record token_bucket =
  tb_tokens :: rat
  tb_capacity :: rat
  tb_refill_rate :: rat
  tb_last_refill :: gotime

record leaky_bucket =
  lb_queue :: "gotime list"
  lb_capacity :: int
  lb_leak_rate :: duration
  lb_last_leak :: gotime

record rate_limiter =
  rl_algorithm :: algorithm
  rl_default_rate :: int
  rl_default_burst :: int
  rl_window_size :: duration
  rl_cleanup_tick :: duration
  rl_fixed :: "string \<rightharpoonup> window_entry"
  rl_sliding :: "string \<rightharpoonup> gotime list"
  rl_tokens :: "string \<rightharpoonup> token_bucket"
  rl_leaky :: "string \<rightharpoonup> leaky_bucket"
  rl_per_ip :: "string \<rightharpoonup> int"
  rl_per_user :: "string \<rightharpoonup> int"
  rl_per_endpoint :: "string \<rightharpoonup> int"
  rl_per_geo :: "string \<rightharpoonup> int"
  rl_per_api_key :: "string \<rightharpoonup> int"
  rl_priority :: "string \<rightharpoonup> bool"

definition new_rate_limiter :: "algorithm \<Rightarrow> int \<Rightarrow> int \<Rightarrow> rate_limiter" where
  "new_rate_limiter alg rate burst =
     \<lparr>rl_algorithm = alg, rl_default_rate = rate, rl_default_burst = burst, rl_window_size = second,
      rl_cleanup_tick = 5 * minute, rl_fixed = Map.empty, rl_sliding = Map.empty, rl_tokens = Map.empty,
      rl_leaky = Map.empty, rl_per_ip = Map.empty, rl_per_user = Map.empty, rl_per_endpoint = Map.empty,
      rl_per_geo = Map.empty, rl_per_api_key = Map.empty, rl_priority = Map.empty\<rparr>"

record rl_decision =
  rd_allowed :: bool
  rd_retry_after :: int
  rd_remaining :: int
  rd_limit :: int
  rd_reset_at :: gotime

text \<open>A call returns the limiter and a decision, or panics.\<close>

type_synonym rl_result = "rate_limiter \<times> (go_panic + rl_decision)"

definition allow_rl :: "int \<Rightarrow> int \<Rightarrow> gotime \<Rightarrow> rl_decision" where
  "allow_rl remaining limit reset = \<lparr>rd_allowed = True, rd_retry_after = 0, rd_remaining = remaining,
     rd_limit = limit, rd_reset_at = reset\<rparr>"

definition deny_rl :: "int \<Rightarrow> int \<Rightarrow> gotime \<Rightarrow> rl_decision" where
  "deny_rl retry limit reset = \<lparr>rd_allowed = False, rd_retry_after = retry, rd_remaining = 0,
     rd_limit = limit, rd_reset_at = reset\<rparr>"

section \<open>Fixed window\<close>

definition window_key :: "string \<Rightarrow> gotime \<Rightarrow> string" where
  "window_key key now = key @ CHR '':'' # itoa (unix_seconds now)"

definition check_fixed_window ::
  "gotime \<Rightarrow> string \<Rightarrow> int \<Rightarrow> int \<Rightarrow> rate_limiter \<Rightarrow> rl_result" where
  "check_fixed_window now key rate burst rl =
     (let wk = window_key key now;
          fresh = (rl\<lparr>rl_fixed := (rl_fixed rl)(wk \<mapsto> \<lparr>we_timestamp = now, we_count = 1\<rparr>)\<rparr>,
                   Inr (allow_rl (rate + burst - 1) (rate + burst) (now + second)))
      in case rl_fixed rl wk of
           None \<Rightarrow> fresh
         | Some entry \<Rightarrow>
             if second < time_sub now (we_timestamp entry) then fresh
             else
               let count = we_count entry + 1; limit = rate + burst;
                   rl' = rl\<lparr>rl_fixed := (rl_fixed rl)(wk \<mapsto> entry\<lparr>we_count := count\<rparr>)\<rparr>
               in if limit < count then (rl', Inr (deny_rl 1 limit (now + second)))
                  else (rl', Inr (allow_rl (limit - count) limit (now + second))))"

section \<open>Sliding window\<close>

definition check_sliding_window ::
  "gotime \<Rightarrow> string \<Rightarrow> int \<Rightarrow> int \<Rightarrow> rate_limiter \<Rightarrow> rl_result" where
  "check_sliding_window now key rate burst rl =
     (let valid = prune (now - rl_window_size rl) (map_get (rl_sliding rl) key []);
          count = int (length valid);
          limit = rate + burst
      in if limit \<le> count
         then (rl\<lparr>rl_sliding := (rl_sliding rl)(key \<mapsto> valid)\<rparr>,
               case valid of
                 [] \<Rightarrow> Inl IndexOutOfRange
               | oldest # _ \<Rightarrow>
                   let retry = rl_window_size rl - time_sub now oldest
                   in Inr (deny_rl (if retry < 0 then 0 else retry) limit (oldest + rl_window_size rl)))
         else (rl\<lparr>rl_sliding := (rl_sliding rl)(key \<mapsto> valid @ [now])\<rparr>,
               Inr (allow_rl (limit - count - 1) limit (now + rl_window_size rl))))"

section \<open>Token bucket\<close>

definition float_seconds :: "(rat \<Rightarrow> rat) \<Rightarrow> duration \<Rightarrow> rat" where
  "float_seconds fl d =
     fl (fl (of_int (go_div d second)) + fl (of_int (go_mod d second) / of_int second))"

text \<open>Conversion of a float to an integer type truncates towards zero.\<close>

definition float_to_int :: "rat \<Rightarrow> int" where
  "float_to_int x = (if 0 \<le> x then \<lfloor>x\<rfloor> else - \<lfloor>- x\<rfloor>)"

definition tb_refill :: "(rat \<Rightarrow> rat) \<Rightarrow> gotime \<Rightarrow> token_bucket \<Rightarrow> token_bucket" where
  "tb_refill fl now b =
     b\<lparr>tb_tokens := min (tb_capacity b)
         (fl (tb_tokens b + fl (float_seconds fl (time_sub now (tb_last_refill b)) * tb_refill_rate b))),
       tb_last_refill := now\<rparr>"

definition tb_take :: "(rat \<Rightarrow> rat) \<Rightarrow> gotime \<Rightarrow> token_bucket \<Rightarrow> token_bucket \<times> bool" where
  "tb_take fl now b =
     (let b' = tb_refill fl now b
      in if tb_tokens b' < 1 then (b', False)
         else (b'\<lparr>tb_tokens := fl (tb_tokens b' - 1)\<rparr>, True))"

definition new_token_bucket :: "gotime \<Rightarrow> int \<Rightarrow> int \<Rightarrow> token_bucket" where
  "new_token_bucket now rate burst = \<lparr>tb_tokens = of_int burst, tb_capacity = of_int burst,
     tb_refill_rate = of_int rate, tb_last_refill = now\<rparr>"

definition check_token_bucket ::
  "(rat \<Rightarrow> rat) \<Rightarrow> gotime \<Rightarrow> string \<Rightarrow> int \<Rightarrow> int \<Rightarrow> rate_limiter \<Rightarrow> rl_result" where
  "check_token_bucket fl now key rate0 burst rl =
     (let rate = (if rate0 \<le> 0 then 1 else rate0);
          b = (case rl_tokens rl key of None \<Rightarrow> new_token_bucket now rate burst | Some b \<Rightarrow> b);
          (b', ok) = tb_take fl now b;
          rl' = rl\<lparr>rl_tokens := (rl_tokens rl)(key \<mapsto> b')\<rparr>
      in if ok then (rl', Inr (allow_rl (float_to_int (tb_tokens b')) (rate + burst) (now + second)))
         else
           let refill_ms = float_to_int (fl (fl (1 / tb_refill_rate b') * 1000))
           in (rl', Inr (deny_rl refill_ms (rate + burst) (now + refill_ms * millisecond))))"

section \<open>Leaky bucket\<close>

definition lb_leak :: "gotime \<Rightarrow> leaky_bucket \<Rightarrow> leaky_bucket" where
  "lb_leak now b =
     (let n = go_div (time_sub now (lb_last_leak b)) (lb_leak_rate b)
      in if 0 < n
         then b\<lparr>lb_queue := (if int (length (lb_queue b)) \<le> n then [] else drop (nat n) (lb_queue b)),
                lb_last_leak := now\<rparr>
         else b)"

definition check_leaky_bucket ::
  "gotime \<Rightarrow> string \<Rightarrow> int \<Rightarrow> int \<Rightarrow> rate_limiter \<Rightarrow> rl_result" where
  "check_leaky_bucket now key rate0 burst rl =
     (let rate = (if rate0 \<le> 0 then 1 else rate0) in
      if rl_leaky rl key = None \<and> burst < 0 then (rl, Inl MakeSliceCap)
      else
        let b = (case rl_leaky rl key of
                   None \<Rightarrow> \<lparr>lb_queue = [], lb_capacity = burst, lb_leak_rate = go_div second rate,
                            lb_last_leak = now\<rparr>
                 | Some b \<Rightarrow> b);
            put = (\<lambda>b'. rl\<lparr>rl_leaky := (rl_leaky rl)(key \<mapsto> b')\<rparr>)
        in if lb_leak_rate b = 0 then (put b, Inl DivideByZero)
           else
             let b1 = lb_leak now b; len = int (length (lb_queue b1))
             in if lb_capacity b1 \<le> len
                then (put b1,
                      case lb_queue b1 of
                        [] \<Rightarrow> Inl IndexOutOfRange
                      | oldest # _ \<Rightarrow>
                          Inr (deny_rl (go_div (lb_leak_rate b1 * (len - lb_capacity b1 + 1)) millisecond)
                                 burst (oldest + lb_leak_rate b1 * burst)))
                else
                  let b2 = b1\<lparr>lb_queue := lb_queue b1 @ [now]\<rparr>; left = lb_capacity b1 - (len + 1)
                  in (put b2, Inr (allow_rl left burst (now + lb_leak_rate b1 * left))))"

section \<open>The limiter\<close>

definition get_rate :: "rate_limiter \<Rightarrow> string \<Rightarrow> granularity \<Rightarrow> int" where
  "get_rate rl key g =
     (case g of
        PerIP \<Rightarrow> map_get (rl_per_ip rl) key (rl_default_rate rl)
      | PerUser \<Rightarrow> map_get (rl_per_user rl) key (rl_default_rate rl)
      | PerEndpoint \<Rightarrow> map_get (rl_per_endpoint rl) key (rl_default_rate rl)
      | PerGeo \<Rightarrow> map_get (rl_per_geo rl) key (rl_default_rate rl)
      | PerAPIKey \<Rightarrow> map_get (rl_per_api_key rl) key (rl_default_rate rl)
      | PerSession \<Rightarrow> rl_default_rate rl)"

definition get_burst :: "rate_limiter \<Rightarrow> string \<Rightarrow> int" where
  "get_burst rl key =
     (if map_get (rl_priority rl) key False then rl_default_burst rl * 2 else rl_default_burst rl)"

definition rl_inspect ::
  "(rat \<Rightarrow> rat) \<Rightarrow> gotime \<Rightarrow> string \<Rightarrow> granularity \<Rightarrow> rate_limiter \<Rightarrow> rl_result" where
  "rl_inspect fl now key g rl =
     (let rate = get_rate rl key g; burst = get_burst rl key
      in case rl_algorithm rl of
           FixedWindow \<Rightarrow> check_fixed_window now key rate burst rl
         | SlidingWindow \<Rightarrow> check_sliding_window now key rate burst rl
         | TokenBucket \<Rightarrow> check_token_bucket fl now key rate burst rl
         | LeakyBucket \<Rightarrow> check_leaky_bucket now key rate burst rl
         | OtherAlgorithm _ \<Rightarrow> check_fixed_window now key rate burst rl)"

definition set_rate_limit :: "granularity \<Rightarrow> string \<Rightarrow> int \<Rightarrow> rate_limiter \<Rightarrow> rate_limiter" where
  "set_rate_limit g key rate rl =
     (case g of
        PerIP \<Rightarrow> rl\<lparr>rl_per_ip := (rl_per_ip rl)(key \<mapsto> rate)\<rparr>
      | PerUser \<Rightarrow> rl\<lparr>rl_per_user := (rl_per_user rl)(key \<mapsto> rate)\<rparr>
      | PerEndpoint \<Rightarrow> rl\<lparr>rl_per_endpoint := (rl_per_endpoint rl)(key \<mapsto> rate)\<rparr>
      | PerGeo \<Rightarrow> rl\<lparr>rl_per_geo := (rl_per_geo rl)(key \<mapsto> rate)\<rparr>
      | PerAPIKey \<Rightarrow> rl\<lparr>rl_per_api_key := (rl_per_api_key rl)(key \<mapsto> rate)\<rparr>
      | PerSession \<Rightarrow> rl)"

definition set_priority :: "string \<Rightarrow> bool \<Rightarrow> rate_limiter \<Rightarrow> rate_limiter" where
  "set_priority key premium rl = rl\<lparr>rl_priority := (rl_priority rl)(key \<mapsto> premium)\<rparr>"

text \<open>One tick of \<^verbatim>\<open>cleanupLoop\<close>. Old instants of a sliding window are dropped before the emptiness test.\<close>

definition clean_sliding :: "gotime \<Rightarrow> duration \<Rightarrow> (string \<rightharpoonup> gotime list) \<Rightarrow> (string \<rightharpoonup> gotime list)" where
  "clean_sliding now w m =
     (\<lambda>k. case m k of None \<Rightarrow> None
           | Some ts \<Rightarrow> (let valid = prune (now - w * 2) ts in if valid = [] then None else Some valid))"

definition rl_cleanup :: "gotime \<Rightarrow> rate_limiter \<Rightarrow> rate_limiter" where
  "rl_cleanup now rl =
     rl\<lparr>rl_fixed := map_expire (\<lambda>e. rl_window_size rl * 2 < time_sub now (we_timestamp e)) (rl_fixed rl),
        rl_sliding := clean_sliding now (rl_window_size rl) (rl_sliding rl),
        rl_tokens := map_expire (\<lambda>b. rl_cleanup_tick rl * 2 < time_sub now (tb_last_refill b)) (rl_tokens rl),
        rl_leaky := map_expire (\<lambda>b. rl_cleanup_tick rl * 2 < time_sub now (lb_last_leak b) \<and> lb_queue b = [])
                      (rl_leaky rl)\<rparr>"

section \<open>Runs of the limiter\<close>

text \<open>Requests with their instants, keys and granularities; the result is what was admitted, in order.\<close>

fun rl_run ::
  "(rat \<Rightarrow> rat) \<Rightarrow> rate_limiter \<Rightarrow> (gotime \<times> string \<times> granularity) list \<Rightarrow> (gotime \<times> string) list" where
  "rl_run fl rl [] = []"
| "rl_run fl rl ((t, k, g) # rs) =
     (let (rl', r) = rl_inspect fl t k g rl
      in (case r of Inl _ \<Rightarrow> [] | Inr d \<Rightarrow> if rd_allowed d then [(t, k)] else []) @ rl_run fl rl' rs)"

definition admitted_at :: "string \<Rightarrow> (gotime \<times> string) list \<Rightarrow> gotime list" where
  "admitted_at k xs = map fst (filter (\<lambda>(t, k'). k' = k) xs)"

lemma admitted_at_simps [simp]:
  "admitted_at k [] = []"
  "admitted_at k (xs @ ys) = admitted_at k xs @ admitted_at k ys"
  "admitted_at k [(t, k)] = [t]"
  "k' \<noteq> k \<Longrightarrow> admitted_at k [(t, k')] = []"
  by (simp_all add: admitted_at_def)

definition requests_of :: "string \<Rightarrow> (gotime \<times> string \<times> granularity) list \<Rightarrow> gotime list" where
  "requests_of k rs = map fst (filter (\<lambda>(t, k', g). k' = k) rs)"

lemma requests_of_simps [simp]:
  "requests_of k [] = []"
  "requests_of k ((t, k', g) # rs) = (if k' = k then t # requests_of k rs else requests_of k rs)"
  by (simp_all add: requests_of_def)

lemma sorted_requests_of: "sorted (map fst rs) \<Longrightarrow> sorted (requests_of k rs)"
proof (induction rs)
  case (Cons r rs)
  obtain t k' g where "r = (t, k', g)" by (cases r) auto
  with Cons show ?case by (auto simp: requests_of_def)
qed simp

subsection \<open>The sliding window keeps its limit\<close>

definition sliding_admit :: "duration \<Rightarrow> int \<Rightarrow> gotime \<Rightarrow> gotime list \<Rightarrow> gotime list \<times> bool" where
  "sliding_admit w limit now es =
     (let valid = prune (now - w) es
      in if limit \<le> int (length valid) then (valid, False) else (valid @ [now], True))"

interpretation rl_sliding: sliding_window "sliding_admit w limit" w limit for w limit
  by unfold_locales (auto simp: sliding_admit_def Let_def split: if_splits)

lemma check_sliding_admit:
  "check_sliding_window now key rate burst rl = (rl', r) \<Longrightarrow>
   sliding_admit (rl_window_size rl) (rate + burst) now (map_get (rl_sliding rl) key []) = (es, ok) \<Longrightarrow>
   rl' = rl\<lparr>rl_sliding := (rl_sliding rl)(key \<mapsto> es)\<rparr> \<and> (ok \<longleftrightarrow> (\<exists>d. r = Inr d \<and> rd_allowed d))"
  by (auto simp: check_sliding_window_def sliding_admit_def Let_def allow_rl_def deny_rl_def
      split: if_splits list.splits)

definition rl_limit :: "rate_limiter \<Rightarrow> string \<Rightarrow> granularity \<Rightarrow> int" where
  "rl_limit rl key g = get_rate rl key g + get_burst rl key"

lemma rl_config_frame [simp]:
  "get_rate (rl\<lparr>rl_sliding := m\<rparr>) k g = get_rate rl k g"
  "get_burst (rl\<lparr>rl_sliding := m\<rparr>) k = get_burst rl k"
  by (simp_all add: get_rate_def get_burst_def split: granularity.splits)

lemma rl_run_sliding:
  assumes "rl_algorithm rl = SlidingWindow" and "\<forall>(t, k', g')\<in>set rs. k' = k \<longrightarrow> g' = g"
  shows "admitted_at k (rl_run fl rl rs)
    = sw_run (sliding_admit (rl_window_size rl) (rl_limit rl k g)) (map_get (rl_sliding rl) k []) (requests_of k rs)"
  using assms
proof (induction rs arbitrary: rl)
  case (Cons req rs)
  obtain t k' g' where req: "req = (t, k', g')" by (cases req) auto
  obtain rl' r where ins: "check_sliding_window t k' (get_rate rl k' g') (get_burst rl k') rl = (rl', r)"
    by fastforce
  obtain es ok where adm: "sliding_admit (rl_window_size rl) (rl_limit rl k' g') t (map_get (rl_sliding rl) k' []) = (es, ok)"
    by fastforce
  from check_sliding_admit [OF ins adm [unfolded rl_limit_def]]
  have rl': "rl' = rl\<lparr>rl_sliding := (rl_sliding rl)(k' \<mapsto> es)\<rparr>"
    and ok: "ok \<longleftrightarrow> (\<exists>d. r = Inr d \<and> rd_allowed d)" by auto
  have hd: "admitted_at k (case r of Inl _ \<Rightarrow> [] | Inr d \<Rightarrow> if rd_allowed d then [(t, k')] else [])
      = (if k' = k \<and> ok then [t] else [])"
    using ok by (auto split: sum.splits)
  have get: "map_get (rl_sliding rl') k [] = (if k = k' then es else map_get (rl_sliding rl) k [])"
    by (auto simp: rl' map_get_def)
  have IH: "admitted_at k (rl_run fl rl' rs)
    = sw_run (sliding_admit (rl_window_size rl) (rl_limit rl k g))
        (if k = k' then es else map_get (rl_sliding rl) k []) (requests_of k rs)"
    using Cons.IH [of rl'] Cons.prems unfolding get by (simp add: rl' rl_limit_def)
  have "rl_inspect fl t k' g' rl = (rl', r)"
    using ins Cons.prems(1) by (simp add: rl_inspect_def Let_def)
  then show ?case
    using hd IH Cons.prems(2) adm by (cases "k' = k") (auto simp: req Let_def)
qed simp

text \<open>Property C4. Under the sliding-window algorithm no client ever gets more than its limit: of all
  the requests a fresh limiter admits for a key, at most rate plus burst fall into any window of
  the configured length, whatever other keys are served in between.\<close>

theorem sliding_window_limit:
  assumes "rl_algorithm rl = SlidingWindow" and "rl_sliding rl = Map.empty" and "0 \<le> rl_window_size rl"
    and "sorted (map fst rs)" and "\<forall>(t, k', g')\<in>set rs. k' = k \<longrightarrow> g' = g"
  shows "int (in_window (rl_window_size rl) x (admitted_at k (rl_run fl rl rs)))
    \<le> max 0 (get_rate rl k g + get_burst rl k)"
proof -
  have "admitted_at k (rl_run fl rl rs)
    = sw_run (sliding_admit (rl_window_size rl) (rl_limit rl k g)) [] (requests_of k rs)"
    using rl_run_sliding [OF assms(1,5)] assms(2) by simp
  then show ?thesis
    using rl_sliding.never_above_limit [OF sorted_requests_of [OF assms(4)] assms(3)]
    by (simp add: rl_limit_def)
qed

theorem sliding_window_limit_witness:
  "int (in_window second 5 (admitted_at ''a'' (rl_run id (new_rate_limiter SlidingWindow 1 1)
     [(0, ''a'', PerIP), (1, ''b'', PerIP), (2, ''a'', PerIP), (3, ''a'', PerIP)]))) \<le> 2"
  using sliding_window_limit [of "new_rate_limiter SlidingWindow 1 1"
      "[(0, ''a'', PerIP), (1, ''b'', PerIP), (2, ''a'', PerIP), (3, ''a'', PerIP)]" "''a''" PerIP 5 id]
  by (simp add: new_rate_limiter_def get_rate_def get_burst_def map_get_def)

subsection \<open>Token buckets\<close>

text \<open>
  What the proofs use of IEEE 754 rounding: it is monotone and exact on the integers up to 2^53.
\<close>

definition ieee_rounding :: "(rat \<Rightarrow> rat) \<Rightarrow> bool" where
  "ieee_rounding fl \<longleftrightarrow> mono fl \<and> (\<forall>n::int. \<bar>n\<bar> \<le> 9007199254740992 \<longrightarrow> fl (of_int n) = of_int n)"

lemma ieee_rounding_id: "ieee_rounding (\<lambda>x. x)"
  by (simp add: ieee_rounding_def mono_def)

definition tb_inv :: "int \<Rightarrow> token_bucket \<Rightarrow> bool" where
  "tb_inv burst b \<longleftrightarrow> 0 \<le> tb_tokens b \<and> tb_tokens b \<le> tb_capacity b \<and> tb_capacity b = of_int burst
     \<and> 0 \<le> tb_refill_rate b"

fun tb_run :: "(rat \<Rightarrow> rat) \<Rightarrow> token_bucket \<Rightarrow> gotime list \<Rightarrow> token_bucket \<times> nat" where
  "tb_run fl b [] = (b, 0)"
| "tb_run fl b (t # ts) =
     (let (b', ok) = tb_take fl t b; (b'', n) = tb_run fl b' ts in (b'', (if ok then Suc n else n)))"

lemma tb_run_Cons:
  "fst (tb_run fl b (t # ts)) = fst (tb_run fl (fst (tb_take fl t b)) ts)"
  "snd (tb_run fl b (t # ts)) = (if snd (tb_take fl t b) then 1 else 0) + snd (tb_run fl (fst (tb_take fl t b)) ts)"
  by (simp_all add: Let_def case_prod_beta)

lemma sorted_le_last: "sorted ts \<Longrightarrow> (y::int) \<in> set ts \<Longrightarrow> y \<le> last ts"
  by (induction ts) auto

lemma ieee_rounding_int:
  assumes "ieee_rounding fl" "\<bar>n\<bar> \<le> 9007199254740992"
  shows "fl (of_int n) = of_int n"
  using assms unfolding ieee_rounding_def by blast

lemma fl_nonneg:
  assumes "ieee_rounding fl" "0 \<le> x"
  shows "0 \<le> fl x"
proof -
  have "mono fl" using assms(1) unfolding ieee_rounding_def by blast
  then have "fl 0 \<le> fl x" using assms(2) by (rule monoD)
  moreover have "fl (of_int 0) = of_int 0" by (rule ieee_rounding_int [OF assms(1)]) simp
  ultimately show ?thesis by simp
qed

lemma float_seconds_nonneg:
  assumes "ieee_rounding fl" "0 \<le> d"
  shows "0 \<le> float_seconds fl d"
proof -
  have "0 \<le> fl (of_int (go_div d second))" "0 \<le> fl (of_int (go_mod d second) / of_int second)"
    using assms by (simp_all add: fl_nonneg)
  then show ?thesis unfolding float_seconds_def by (simp add: fl_nonneg [OF assms(1)])
qed

lemma time_sub_nonneg: "u \<le> t \<Longrightarrow> 0 \<le> time_sub t u"
  by (simp add: time_sub_def min_duration_def max_duration_def)

lemma tb_take_inv:
  assumes fl: "ieee_rounding fl" and inv: "tb_inv burst b" and burst: "0 \<le> burst" "burst \<le> 9007199254740992"
    and "tb_last_refill b \<le> now"
  shows "tb_inv burst (fst (tb_take fl now b)) \<and> tb_last_refill (fst (tb_take fl now b)) = now"
proof -
  let ?b = "tb_refill fl now b"
  have "0 \<le> float_seconds fl (time_sub now (tb_last_refill b)) * tb_refill_rate b"
    using float_seconds_nonneg [OF fl] time_sub_nonneg [OF assms(5)] inv by (simp add: tb_inv_def)
  then have "0 \<le> fl (tb_tokens b + fl (float_seconds fl (time_sub now (tb_last_refill b)) * tb_refill_rate b))"
    using inv by (intro fl_nonneg [OF fl] add_nonneg_nonneg) (auto simp: tb_inv_def)
  with inv burst have inv1: "tb_inv burst ?b" by (auto simp: tb_inv_def tb_refill_def)
  have "0 \<le> fl (tb_tokens ?b - 1)" if "1 \<le> tb_tokens ?b"
    using that by (intro fl_nonneg [OF fl]) simp
  moreover have "fl (tb_tokens ?b - 1) \<le> of_int burst"
  proof -
    have "fl (tb_tokens ?b - 1) \<le> fl (of_int burst)"
      using fl inv1 by (auto simp: ieee_rounding_def mono_def tb_inv_def)
    also have "fl (of_int burst) = of_int burst" using fl burst by (auto simp: ieee_rounding_def)
    finally show ?thesis .
  qed
  ultimately show ?thesis
    using inv1 by (auto simp: tb_take_def Let_def tb_inv_def) (simp_all add: tb_refill_def)
qed

lemma tb_run_inv:
  assumes "ieee_rounding fl" "0 \<le> burst" "burst \<le> 9007199254740992"
  shows "tb_inv burst b \<Longrightarrow> sorted (tb_last_refill b # ts) \<Longrightarrow> tb_inv burst (fst (tb_run fl b ts))"
proof (induction ts arbitrary: b)
  case (Cons t ts)
  have le: "tb_last_refill b \<le> t" using Cons.prems(2) by simp
  note step = tb_take_inv [OF assms(1) Cons.prems(1) assms(2,3) le]
  have "sorted (tb_last_refill (fst (tb_take fl t b)) # ts)" using step Cons.prems(2) by simp
  with step have "tb_inv burst (fst (tb_run fl (fst (tb_take fl t b)) ts))" by (intro Cons.IH) auto
  then show ?case by (simp only: tb_run_Cons)
qed simp

text \<open>A token bucket never holds a negative number of tokens nor more than its burst,
  however the floating-point operations round, after any run of requests.\<close>

lemma token_bucket_bounds:
  assumes "ieee_rounding fl" "0 \<le> burst" "burst \<le> 9007199254740992" "0 \<le> rate" "sorted (t0 # ts)"
  shows "0 \<le> tb_tokens (fst (tb_run fl (new_token_bucket t0 rate burst) ts))
    \<and> tb_tokens (fst (tb_run fl (new_token_bucket t0 rate burst) ts)) \<le> of_int burst"
proof -
  have "tb_inv burst (new_token_bucket t0 rate burst)"
    using assms by (simp add: tb_inv_def new_token_bucket_def)
  moreover have "sorted (tb_last_refill (new_token_bucket t0 rate burst) # ts)"
    using assms(5) by (simp add: new_token_bucket_def)
  ultimately have "tb_inv burst (fst (tb_run fl (new_token_bucket t0 rate burst) ts))"
    by (rule tb_run_inv [OF assms(1,2,3)])
  then show ?thesis by (auto simp: tb_inv_def)
qed

lemma token_bucket_bounds_witness:
  "0 \<le> tb_tokens (fst (tb_run (\<lambda>x. x) (new_token_bucket 0 1 2) [0, 1, 2]))"
  by (rule token_bucket_bounds [THEN conjunct1]) (simp_all add: ieee_rounding_id)

text \<open>
  The rounding error on the numbers up to \<open>m\<close> is at most \<open>err\<close>. For \<^verbatim>\<open>float64\<close>, which rounds to nearest with 53 bits, \<open>err\<close> is
  \<open>m / 2 ^ 53\<close>.
\<close>

definition rounds_within :: "(rat \<Rightarrow> rat) \<Rightarrow> rat \<Rightarrow> rat \<Rightarrow> bool" where
  "rounds_within fl m err \<longleftrightarrow> (\<forall>x. 0 \<le> x \<longrightarrow> x \<le> m \<longrightarrow> \<bar>fl x - x\<bar> \<le> err)"

lemma rounds_upto: "rounds_within fl m err \<Longrightarrow> 0 \<le> x \<Longrightarrow> x \<le> m \<Longrightarrow> fl x \<le> x + err"
  unfolding rounds_within_def by (metis abs_le_D1 add.commute diff_le_eq)

lemma float_seconds_error:
  assumes fl: "ieee_rounding fl" "rounds_within fl m err" and "0 \<le> d" and m: "of_int d / of_int second + 1 \<le> m" and err: "err \<le> 1/4"
  shows "float_seconds fl d \<le> of_int d / of_int second + 3 * err"
proof -
  define q :: rat where "q = of_int (d div second)"
  define f :: rat where "f = of_int (d mod second) / of_int second"
  have "(of_int d :: rat) = of_int (second * (d div second) + d mod second)" by (simp only: mult_div_mod_eq)
  then have "(of_int d :: rat) = of_int second * of_int (d div second) + of_int (d mod second)"
    by (simp only: of_int_add of_int_mult)
  then have sum: "of_int d / of_int second = q + f" by (simp add: q_def f_def field_simps)
  have nonneg: "0 \<le> q" "0 \<le> f" using \<open>0 \<le> d\<close> by (simp_all add: q_def f_def)
  have qf: "q + f + 1 \<le> m" using m unfolding sum .
  then have "q \<le> m" "f \<le> m" using nonneg by linarith+
  then have "fl q \<le> q + err" "fl f \<le> f + err" using nonneg by (auto intro!: rounds_upto [OF fl(2)])
  moreover from this have "fl (fl q + fl f) \<le> fl q + fl f + err"
    using fl_nonneg [OF fl(1)] nonneg qf err by (intro rounds_upto [OF fl(2)]) (simp, linarith)
  moreover have "float_seconds fl d = fl (fl q + fl f)"
    using \<open>0 \<le> d\<close> by (simp add: float_seconds_def q_def f_def)
  ultimately show ?thesis using sum by linarith
qed

text \<open>What one request can gain.\<close>

lemma tb_take_gain:
  assumes fl: "ieee_rounding fl" "rounds_within fl m err" and err: "0 \<le> err" "err \<le> 1/4"
    and inv: "tb_inv burst b" and take: "tb_take fl t b = (b', ok)"
    and d: "time_sub t (tb_last_refill b) = d" "0 \<le> d"
    and m: "of_int burst + (tb_refill_rate b + 1) * (of_int d / of_int second + 1) + 1 \<le> m"
  shows "tb_tokens b' + (if ok then 1 else 0)
    \<le> tb_tokens b + of_int d / of_int second * tb_refill_rate b + (3 * tb_refill_rate b + 3) * err"
proof -
  define r s e n :: rat where "r = tb_refill_rate b" and "s = of_int d / of_int second" and "e = float_seconds fl d" and "n = of_int burst"
  define p where "p = fl (e * r)"
  define k where "k = fl (tb_tokens b + p)"
  have r: "0 \<le> r" and s: "0 \<le> s" and tok: "0 \<le> tb_tokens b" "tb_tokens b \<le> n"
    using inv d by (simp_all add: tb_inv_def r_def s_def n_def)
  have m': "n + (r * s + r + s + 1) + 1 \<le> m" using m unfolding r_def [symmetric] s_def [symmetric] n_def [symmetric] by (simp add: algebra_simps)
  have rs: "0 \<le> r * s" using r s by simp
  have "s + 1 \<le> m" using m' rs r tok by linarith
  then have e: "e \<le> s + 3 * err" using float_seconds_error [OF fl d(2) _ err(2)] by (simp add: e_def s_def)
  have e0: "0 \<le> e" using float_seconds_nonneg [OF fl(1) d(2)] by (simp add: e_def)
  have er: "e * r \<le> r * s + 3 * (r * err)" using mult_right_mono [OF e r] by (simp add: algebra_simps)
  have rerr: "0 \<le> r * err" "r * err \<le> r * (1/4)" using r err by (simp, intro mult_left_mono) auto
  have "0 \<le> e * r" using e0 r by simp
  moreover have "e * r \<le> m" using er rerr m' r s tok by linarith
  ultimately have p: "p \<le> e * r + err" and p0: "0 \<le> p"
    using rounds_upto [OF fl(2)] fl_nonneg [OF fl(1)] by (simp_all add: p_def)
  have "tb_tokens b + p \<le> m" using p er rerr m' r s tok err by linarith
  then have k: "k \<le> tb_tokens b + p + err" using rounds_upto [OF fl(2)] tok p0 by (simp add: k_def)
  have tk: "tb_tokens (tb_refill fl t b) = min (tb_capacity b) k"
    by (simp add: tb_refill_def d k_def p_def e_def r_def)
  have gain: "tb_tokens (tb_refill fl t b) \<le> tb_tokens b + r * s + 3 * (r * err) + 2 * err"
    using tk k p er by linarith
  have cap: "tb_tokens (tb_refill fl t b) \<le> n" using inv tk by (simp add: tb_inv_def n_def)
  show ?thesis
  proof (cases "tb_tokens (tb_refill fl t b) < 1")
    case True
    with take gain err show ?thesis by (auto simp: tb_take_def Let_def r_def s_def algebra_simps)
  next
    case False
    have "tb_tokens (tb_refill fl t b) - 1 \<le> m" using cap m' r s rs by linarith
    then have "fl (tb_tokens (tb_refill fl t b) - 1) \<le> tb_tokens (tb_refill fl t b) - 1 + err"
      using False by (intro rounds_upto [OF fl(2)]) auto
    with take False gain show ?thesis by (auto simp: tb_take_def Let_def r_def s_def algebra_simps)
  qed
qed

lemma tb_take_frame: "tb_take fl t b = (b', ok) \<Longrightarrow> tb_refill_rate b' = tb_refill_rate b \<and> tb_last_refill b' = t"
  by (auto simp: tb_take_def tb_refill_def Let_def split: if_splits)

text \<open>The accounting behind the throughput bound.\<close>

lemma tb_run_throughput:
  assumes fl: "ieee_rounding fl" "rounds_within fl m err" and err: "0 \<le> err" "err \<le> 1/4"
    and burst: "0 \<le> burst" "burst \<le> 9007199254740992"
  shows "tb_inv burst b \<Longrightarrow> sorted (tb_last_refill b # ts) \<Longrightarrow> last (tb_last_refill b # ts) - tb_last_refill b \<le> el \<Longrightarrow>
    el \<le> max_duration \<Longrightarrow> of_int burst + (tb_refill_rate b + 1) * (of_int el / of_int second + 1) + 1 \<le> m \<Longrightarrow>
    of_nat (snd (tb_run fl b ts))
      \<le> tb_tokens b + (of_int (last (tb_last_refill b # ts) - tb_last_refill b) / of_int second) * tb_refill_rate b
        + of_nat (length ts) * ((3 * tb_refill_rate b + 3) * err) - tb_tokens (fst (tb_run fl b ts))"
proof (induction ts arbitrary: b)
  case (Cons t ts)
  obtain b' ok where take: "tb_take fl t b = (b', ok)" by fastforce
  obtain b'' n where run: "tb_run fl b' ts = (b'', n)" by fastforce
  note fr = tb_take_frame [OF take]
  have le: "tb_last_refill b \<le> t" and srt: "sorted (t # ts)" using Cons.prems(2) by auto
  have "t \<le> last (t # ts)" using sorted_le_last [OF srt, of t] by simp
  then have td: "t - tb_last_refill b \<le> el" and rest: "last (t # ts) - t \<le> el" using Cons.prems(3) le by auto
  have sub: "time_sub t (tb_last_refill b) = t - tb_last_refill b"
    using le td Cons.prems(4) by (intro time_sub_exact) (auto simp: min_duration_def)
  have r: "0 \<le> tb_refill_rate b" using Cons.prems(1) by (simp add: tb_inv_def)
  have "of_int (t - tb_last_refill b) / of_int second \<le> (of_int el / of_int second :: rat)"
    using td by (intro divide_right_mono) simp_all
  then have "(tb_refill_rate b + 1) * (of_int (t - tb_last_refill b) / of_int second + 1)
      \<le> (tb_refill_rate b + 1) * (of_int el / of_int second + 1)" using r by (intro mult_left_mono) auto
  with Cons.prems(5) have m: "of_int burst + (tb_refill_rate b + 1) * (of_int (t - tb_last_refill b) / of_int second + 1) + 1 \<le> m"
    by linarith
  from tb_take_gain [OF fl err Cons.prems(1) take sub _ m] le
  have gain: "tb_tokens b' + (if ok then 1 else 0)
      \<le> tb_tokens b + of_int (t - tb_last_refill b) / of_int second * tb_refill_rate b + (3 * tb_refill_rate b + 3) * err" by simp
  define X where "X = (of_int (last (t # ts) - t) / of_int second) * tb_refill_rate b"
  define Y where "Y = (of_int (t - tb_last_refill b) / of_int second) * tb_refill_rate b"
  define Z where "Z = (3 * tb_refill_rate b + 3) * err"
  have XY: "(of_int (last (tb_last_refill b # t # ts) - tb_last_refill b) / of_int second) * tb_refill_rate b = X + Y"
    by (simp add: X_def Y_def flip: distrib_right add_divide_distrib)
  have inv': "tb_inv burst b'" using tb_take_inv [OF fl(1) Cons.prems(1) burst le] take by simp
  have "of_nat n \<le> tb_tokens b' + X + of_nat (length ts) * Z - tb_tokens b''"
    using Cons.IH [OF inv'] fr srt rest Cons.prems(4,5) run by (simp add: X_def Z_def)
  then have "of_nat n + (if ok then 1 else 0) \<le> tb_tokens b + (X + Y) + (of_nat (length ts) * Z + Z) - tb_tokens b''"
    using gain unfolding Y_def [symmetric] Z_def [symmetric] by linarith
  then show ?case
    unfolding XY tb_run_Cons Z_def [symmetric] by (simp add: take run distrib_right add.commute split: if_splits)
qed simp

text \<open>Property C5. A token bucket bounds the throughput, with the error of floating-point arithmetic accounted for: from its creation
  at \<open>t0\<close> to the last of a run of requests it admits at most burst plus rate times the elapsed seconds, plus for every request
  at most \<open>3 * rate + 3\<close> times the error of one rounding on numbers up to \<open>m\<close>, where \<open>m\<close> is above every number that the
  bucket computes. For \<^verbatim>\<open>float64\<close> that error is \<open>m / 2 ^ 53\<close>.\<close>

theorem token_bucket_throughput:
  assumes "ieee_rounding fl" and "rounds_within fl m err" and "0 \<le> err" "err \<le> 1/4"
    and "0 \<le> rate" "0 \<le> burst" "burst \<le> 9007199254740992" "sorted (t0 # ts)"
    and "last (t0 # ts) - t0 = elapsed" and "elapsed \<le> max_duration"
    and "of_int burst + (of_int rate + 1) * (of_int elapsed / of_int second + 1) + 1 \<le> m"
  shows "of_nat (snd (tb_run fl (new_token_bucket t0 rate burst) ts))
    \<le> of_int burst + of_int rate * (of_int elapsed / of_int second) + of_nat (length ts) * ((3 * of_int rate + 3) * err)"
proof -
  let ?b = "new_token_bucket t0 rate burst"
  have inv: "tb_inv burst ?b" using assms by (simp add: tb_inv_def new_token_bucket_def)
  have srt: "sorted (tb_last_refill ?b # ts)" using assms(8) by (simp add: new_token_bucket_def)
  from tb_run_inv [OF assms(1,6,7) inv srt] have "0 \<le> tb_tokens (fst (tb_run fl ?b ts))" by (simp add: tb_inv_def)
  moreover have sel: "tb_tokens ?b = of_int burst" "tb_refill_rate ?b = of_int rate" "tb_last_refill ?b = t0"
    by (simp_all add: new_token_bucket_def)
  moreover have "of_nat (snd (tb_run fl ?b ts)) \<le> tb_tokens ?b
      + (of_int (last (tb_last_refill ?b # ts) - tb_last_refill ?b) / of_int second) * tb_refill_rate ?b
      + of_nat (length ts) * ((3 * tb_refill_rate ?b + 3) * err) - tb_tokens (fst (tb_run fl ?b ts))"
    by (rule tb_run_throughput [OF assms(1-4,6,7) inv srt _ assms(10)]) (use assms(9,11) sel in simp_all)
  ultimately show ?thesis unfolding sel assms(9) mult.commute [of "of_int rate"] by linarith
qed

text \<open>A rounding with 20 binary places.\<close>

definition demo_rounding :: "rat \<Rightarrow> rat" where
  "demo_rounding x = of_int \<lfloor>x * 1048576\<rfloor> / 1048576"

lemma demo_rounding_ieee: "ieee_rounding demo_rounding"
proof -
  have "mono demo_rounding"
    by (intro monoI) (auto simp: demo_rounding_def intro!: divide_right_mono floor_mono)
  moreover have "demo_rounding (of_int n) = of_int n" for n
  proof -
    have "(of_int n * 1048576 :: rat) = of_int (n * 1048576)" by simp
    then have "\<lfloor>(of_int n * 1048576 :: rat)\<rfloor> = n * 1048576" by (simp only: floor_of_int)
    then show ?thesis by (simp add: demo_rounding_def)
  qed
  ultimately show ?thesis by (simp add: ieee_rounding_def)
qed

lemma demo_rounding_within: "rounds_within demo_rounding m (1 / 1048576)"
proof -
  have "\<bar>demo_rounding x - x\<bar> \<le> 1 / 1048576" for x :: rat
  proof -
    have "of_int \<lfloor>x * 1048576\<rfloor> \<le> x * 1048576" "x * 1048576 < of_int \<lfloor>x * 1048576\<rfloor> + 1" by linarith+
    then show ?thesis by (simp add: demo_rounding_def abs_le_iff field_simps)
  qed
  then show ?thesis by (simp add: rounds_within_def)
qed

theorem token_bucket_throughput_witness:
  "(of_nat (snd (tb_run demo_rounding (new_token_bucket 0 1 2) [0, 1, 1000000000])) :: rat)
    \<le> of_int 2 + of_int 1 * (of_int 1000000000 / of_int second)
      + of_nat (length [0::int, 1, 1000000000]) * ((3 * of_int 1 + 3) * (1 / 1048576))"
  by (rule token_bucket_throughput [OF demo_rounding_ieee demo_rounding_within [of 10]]) (simp_all add: max_duration_def)

end
