(* ===== verification/SessionStore.thy ===== *)
theory SessionStore
  imports WafTypes
begin

text \<open>
  The session store, \<^verbatim>\<open>internal/session/session.go\<close>: sessions by id, with an index by user and one by
  address. \<^verbatim>\<open>*Session\<close> pointers only reach the store's own entries, so an update through a pointer
  is an update of the entry. Free-form metadata is left out: no operation reads it.
\<close>

section \<open>State\<close>

record session_decision =
  sd_rule_id :: string
  sd_action :: string
  sd_score :: rat
  sd_timestamp :: gotime

record session =
  se_id :: string
  se_user :: string
  se_ip :: string
  se_agent :: string
  se_country :: string
  se_asn :: nat
  se_created :: gotime
  se_last_seen :: gotime
  se_requests :: int
  se_risk :: rat
  se_tags :: "string list"
  se_blocked :: bool
  se_decisions :: "session_decision list"
  se_fingerprint :: string

text \<open>\<open>ss_sessions = None\<close> is a nil map, which \<^verbatim>\<open>json.Unmarshal\<close> leaves behind for the document \<^verbatim>\<open>null\<close>.\<close>

record session_store =
  ss_sessions :: "(string \<rightharpoonup> session) option"
  ss_by_user :: "string \<rightharpoonup> string"
  ss_by_ip :: "string \<rightharpoonup> string list"
  ss_ttl :: duration

definition new_session_store :: "duration \<Rightarrow> session_store" where
  "new_session_store ttl = \<lparr>ss_sessions = Some Map.empty, ss_by_user = Map.empty,
     ss_by_ip = Map.empty, ss_ttl = ttl\<rparr>"

definition session_get :: "session_store \<Rightarrow> string \<Rightarrow> session option" where
  "session_get st i = (case ss_sessions st of None \<Rightarrow> None | Some m \<Rightarrow> m i)"

definition put_session :: "string \<Rightarrow> session \<Rightarrow> session_store \<Rightarrow> session_store" where
  "put_session i s st =
     st\<lparr>ss_sessions := map_option (\<lambda>m. m(i \<mapsto> s)) (ss_sessions st)\<rparr>"

section \<open>Operations\<close>

text \<open>\<open>i\<close> is the identifier that \<^verbatim>\<open>generateID\<close> draws at random.\<close>

definition session_create ::
  "gotime \<Rightarrow> string \<Rightarrow> string \<Rightarrow> string \<Rightarrow> session_store \<Rightarrow> go_panic + (session_store \<times> session)" where
  "session_create now i ip ua st =
     (let s = \<lparr>se_id = i, se_user = [], se_ip = ip, se_agent = ua, se_country = [], se_asn = 0,
               se_created = now, se_last_seen = now, se_requests = 0, se_risk = 0, se_tags = [],
               se_blocked = False, se_decisions = [], se_fingerprint = []\<rparr>
      in case ss_sessions st of
           None \<Rightarrow> Inl NilMapWrite
         | Some m \<Rightarrow>
             Inr ((put_session i s st)
                    \<lparr>ss_by_ip := (ss_by_ip st)(ip \<mapsto> map_get (ss_by_ip st) ip [] @ [i])\<rparr>, s))"

definition touch_session :: "gotime \<Rightarrow> session \<Rightarrow> session" where
  "touch_session now s = s\<lparr>se_last_seen := now, se_requests := se_requests s + 1\<rparr>"

definition session_get_or_create ::
  "gotime \<Rightarrow> string \<Rightarrow> string \<Rightarrow> string \<Rightarrow> string \<Rightarrow> session_store \<Rightarrow> go_panic + (session_store \<times> session)" where
  "session_get_or_create now fresh i ip ua st =
     (case (if i \<noteq> [] then session_get st i else None) of
        Some s \<Rightarrow> Inr (put_session i (touch_session now s) st, touch_session now s)
      | None \<Rightarrow> session_create now fresh ip ua st)"

definition session_update ::
  "gotime \<Rightarrow> string \<Rightarrow> (session \<Rightarrow> session) \<Rightarrow> session_store \<Rightarrow> session_store" where
  "session_update now i fn st =
     (case session_get st i of
        None \<Rightarrow> st
      | Some s \<Rightarrow> put_session i ((fn s)\<lparr>se_last_seen := now\<rparr>) st)"

definition drop_user :: "string \<Rightarrow> session \<Rightarrow> session_store \<Rightarrow> session_store" where
  "drop_user i s st =
     (if ss_by_user st (se_user s) = Some i
      then st\<lparr>ss_by_user := map_del (ss_by_user st) (se_user s)\<rparr> else st)"

definition drop_ip :: "string \<Rightarrow> session \<Rightarrow> session_store \<Rightarrow> session_store" where
  "drop_ip i s st =
     (case ss_by_ip st (se_ip s) of
        None \<Rightarrow> st
      | Some ids \<Rightarrow>
          (let filtered = filter (\<lambda>j. j \<noteq> i) ids
           in st\<lparr>ss_by_ip := (if filtered = [] then map_del (ss_by_ip st) (se_ip s)
                             else (ss_by_ip st)(se_ip s \<mapsto> filtered))\<rparr>))"

definition remove_session :: "string \<Rightarrow> session \<Rightarrow> session_store \<Rightarrow> session_store" where
  "remove_session i s st =
     (let st' = drop_ip i s (drop_user i s st)
      in st'\<lparr>ss_sessions := map_option (\<lambda>m. map_del m i) (ss_sessions st')\<rparr>)"

definition session_delete :: "string \<Rightarrow> session_store \<Rightarrow> session_store" where
  "session_delete i st =
     (case session_get st i of None \<Rightarrow> st | Some s \<Rightarrow> remove_session i s st)"

definition get_by_user :: "session_store \<Rightarrow> string \<Rightarrow> session option" where
  "get_by_user st u = (case ss_by_user st u of None \<Rightarrow> None | Some i \<Rightarrow> session_get st i)"

definition get_by_ip :: "session_store \<Rightarrow> string \<Rightarrow> session list" where
  "get_by_ip st ip = List.map_filter (session_get st) (map_get (ss_by_ip st) ip [])"

definition add_risk_score ::
  "gotime \<Rightarrow> string \<Rightarrow> rat \<Rightarrow> string \<Rightarrow> string \<Rightarrow> session_store \<Rightarrow> session_store" where
  "add_risk_score now i score rid act st =
     (case session_get st i of
        None \<Rightarrow> st
      | Some s \<Rightarrow>
          (let risk = se_risk s + score;
               d = \<lparr>sd_rule_id = rid, sd_action = act, sd_score = score, sd_timestamp = now\<rparr>
           in put_session i (s\<lparr>se_decisions := se_decisions s @ [d],
                               se_risk := (if 100 < risk then 100 else risk)\<rparr>) st))"

definition detect_session_fixation :: "gotime \<Rightarrow> string \<Rightarrow> string \<Rightarrow> session_store \<Rightarrow> bool" where
  "detect_session_fixation now new old st =
     (if old \<noteq> [] \<and> new \<noteq> []
      then (case session_get st old of
              None \<Rightarrow> False | Some s \<Rightarrow> time_sub now (se_created s) < minute)
      else False)"

text \<open>
  \<^verbatim>\<open>Deserialize\<close>, from the decoded JSON document: \<open>None\<close> is \<^verbatim>\<open>null\<close>, and the list holds the members in
  the order in which the loop visits them. A member that is \<^verbatim>\<open>null\<close> is a nil \<^verbatim>\<open>*Session\<close>.
\<close>

fun index_sessions :: "(string \<times> session option) list \<Rightarrow> session_store \<Rightarrow> go_panic + session_store" where
  "index_sessions [] st = Inr st"
| "index_sessions ((i, None) # docs) st = Inl NilDeref"
| "index_sessions ((i, Some s) # docs) st =
     index_sessions docs
       (st\<lparr>ss_by_ip := (ss_by_ip st)(se_ip s \<mapsto> map_get (ss_by_ip st) (se_ip s) [] @ [i]),
           ss_by_user := (if se_user s \<noteq> [] then (ss_by_user st)(se_user s \<mapsto> i) else ss_by_user st)\<rparr>)"

definition session_deserialize ::
  "(string \<times> session option) list option \<Rightarrow> session_store \<Rightarrow> go_panic + session_store" where
  "session_deserialize doc st =
     (case doc of
        None \<Rightarrow> Inr (st\<lparr>ss_sessions := None\<rparr>)
      | Some docs \<Rightarrow>
          index_sessions docs (st\<lparr>ss_sessions := Some (\<lambda>i. Option.bind (map_of docs i) (\<lambda>s. s))\<rparr>))"

text \<open>One tick of \<^verbatim>\<open>cleanupLoop\<close>; \<open>order\<close> lists the ids in the order in which the loop visits them.\<close>

definition expired :: "gotime \<Rightarrow> session_store \<Rightarrow> session \<Rightarrow> bool" where
  "expired now st s = (ss_ttl st < time_sub now (se_last_seen s))"

fun session_cleanup :: "gotime \<Rightarrow> string list \<Rightarrow> session_store \<Rightarrow> session_store" where
  "session_cleanup now [] st = st"
| "session_cleanup now (i # order) st =
     session_cleanup now order
       (case session_get st i of
          None \<Rightarrow> st
        | Some s \<Rightarrow> if expired now st s then remove_session i s st else st)"

definition session_count :: "session_store \<Rightarrow> nat" where
  "session_count st = (case ss_sessions st of None \<Rightarrow> 0 | Some m \<Rightarrow> card (dom m))"

definition active_users :: "session_store \<Rightarrow> nat" where
  "active_users st = card (dom (ss_by_user st))"

section \<open>The indexes are exact\<close>

text \<open>
  The calls a server makes. \<open>SCreate\<close> and \<open>STouch\<close> (\<^verbatim>\<open>GetOrCreate\<close>) carry the id that the random
  generator draws, \<open>SRestore\<close> (\<^verbatim>\<open>Deserialize\<close>) the decoded document.
\<close>

datatype session_event =
    SCreate gotime string string string
  | STouch gotime string string string string
  | SUpdate gotime string "session \<Rightarrow> session"
  | SRisk gotime string rat string string
  | SDelete string
  | SCleanup gotime "string list"
  | SRestore "(string \<times> session option) list option"

fun session_step :: "session_event \<Rightarrow> session_store \<Rightarrow> go_panic + session_store" where
  "session_step (SCreate now i ip ua) st = map_sum id fst (session_create now i ip ua st)"
| "session_step (STouch now fresh i ip ua) st = map_sum id fst (session_get_or_create now fresh i ip ua st)"
| "session_step (SUpdate now i fn) st = Inr (session_update now i fn st)"
| "session_step (SRisk now i score rid act) st = Inr (add_risk_score now i score rid act st)"
| "session_step (SDelete i) st = Inr (session_delete i st)"
| "session_step (SCleanup now order) st = Inr (session_cleanup now order st)"
| "session_step (SRestore doc) st = session_deserialize doc st"

definition ip_ids :: "session_store \<Rightarrow> string \<Rightarrow> string list" where
  "ip_ids st ip = map_get (ss_by_ip st) ip []"

definition unknown_id :: "session_store \<Rightarrow> string \<Rightarrow> bool" where
  "unknown_id st i \<longleftrightarrow> session_get st i = None \<and> (\<forall>ip. i \<notin> set (ip_ids st ip))"

text \<open>
  A history is legal when a drawn id is new to the store, a function given to \<^verbatim>\<open>Update\<close> leaves the address alone, which the
  index does not follow, and a document restores only sessions that the store has not indexed: the ids of a
  decoded object are distinct.
\<close>

fun legal_event :: "session_event \<Rightarrow> session_store \<Rightarrow> bool" where
  "legal_event (SCreate now i ip ua) st = unknown_id st i"
| "legal_event (STouch now fresh i ip ua) st = unknown_id st fresh"
| "legal_event (SUpdate now i fn) st = (\<forall>s. se_ip (fn s) = se_ip s)"
| "legal_event (SRestore doc) st =
     (case doc of None \<Rightarrow> True | Some docs \<Rightarrow> distinct (map fst docs) \<and> (\<forall>i\<in>fst ` set docs. unknown_id st i))"
| "legal_event _ st = True"

inductive session_history :: "duration \<Rightarrow> session_event list \<Rightarrow> session_store \<Rightarrow> bool" for ttl where
  history_new: "session_history ttl [] (new_session_store ttl)"
| history_step: "session_history ttl evs st \<Longrightarrow> legal_event ev st \<Longrightarrow> session_step ev st = Inr st' \<Longrightarrow>
    session_history ttl (evs @ [ev]) st'"

definition restored :: "session_event list \<Rightarrow> bool" where
  "restored evs \<longleftrightarrow> (\<exists>doc. SRestore doc \<in> set evs)"

text \<open>
  Every live session is indexed at its address and nowhere else, no address has an id twice. As long as nothing was restored,
  every indexed id is live, and no user is indexed.
\<close>

definition store_ok :: "bool \<Rightarrow> session_store \<Rightarrow> bool" where
  "store_ok again st \<longleftrightarrow>
     (\<forall>i s. session_get st i = Some s \<longrightarrow> (\<forall>ip. i \<in> set (ip_ids st ip) \<longleftrightarrow> se_ip s = ip))
     \<and> (\<forall>ip. distinct (ip_ids st ip))
     \<and> (\<not> again \<longrightarrow> ss_by_user st = Map.empty \<and> (\<forall>ip. \<forall>i\<in>set (ip_ids st ip). session_get st i \<noteq> None))"

lemma store_okI:
  assumes "\<And>i s ip. session_get st i = Some s \<Longrightarrow> i \<in> set (ip_ids st ip) \<longleftrightarrow> se_ip s = ip"
    and "\<And>ip. distinct (ip_ids st ip)"
    and "\<not> again \<Longrightarrow> ss_by_user st = Map.empty"
    and "\<And>ip i. \<not> again \<Longrightarrow> i \<in> set (ip_ids st ip) \<Longrightarrow> session_get st i \<noteq> None"
  shows "store_ok again st"
  using assms unfolding store_ok_def by blast

lemma store_okD:
  assumes "store_ok again st"
  shows "session_get st i = Some s \<Longrightarrow> i \<in> set (ip_ids st ip) \<longleftrightarrow> se_ip s = ip"
    and "distinct (ip_ids st ip)"
    and "\<not> again \<Longrightarrow> ss_by_user st = Map.empty"
    and "\<not> again \<Longrightarrow> i \<in> set (ip_ids st ip) \<Longrightarrow> session_get st i \<noteq> None"
  using assms unfolding store_ok_def by blast+

lemma session_get_put [simp]:
  "ss_sessions st \<noteq> None \<Longrightarrow> session_get (put_session i s st) j = (if j = i then Some s else session_get st j)"
  by (auto simp: session_get_def put_session_def)

lemma put_session_sel [simp]:
  "ss_by_ip (put_session i s st) = ss_by_ip st" "ss_by_user (put_session i s st) = ss_by_user st"
  "ss_ttl (put_session i s st) = ss_ttl st" "ss_sessions (put_session i s st) = None \<longleftrightarrow> ss_sessions st = None"
  "ip_ids (put_session i s st) = ip_ids st"
  by (simp_all add: put_session_def ip_ids_def fun_eq_iff)

lemma session_get_index [simp]:
  "session_get (st\<lparr>ss_by_ip := m\<rparr>) i = session_get st i" "session_get (st\<lparr>ss_by_user := u\<rparr>) i = session_get st i"
  by (simp_all add: session_get_def)

lemma session_get_live: "session_get st i = Some s \<Longrightarrow> ss_sessions st \<noteq> None"
  by (auto simp: session_get_def split: option.splits)

text \<open>Replacing a session by one of the same address keeps the indexes exact.\<close>

lemma store_ok_put:
  assumes "store_ok again st" "session_get st i = Some s" "se_ip s' = se_ip s"
  shows "store_ok again (put_session i s' st)"
proof -
  have live: "ss_sessions st \<noteq> None" using assms(2) by (rule session_get_live)
  show ?thesis
    by (rule store_okI) (use store_okD [OF assms(1)] assms(2,3) live in \<open>auto split: if_splits\<close>)
qed

lemma store_ok_create:
  assumes ok: "store_ok again st" and new: "unknown_id st i" and "session_create now i ip ua st = Inr (st', s)"
  shows "store_ok again st'"
proof -
  from assms(3) have live: "ss_sessions st \<noteq> None" by (auto simp: session_create_def Let_def split: option.splits)
  with assms(3) have st': "st' = (put_session i s st)\<lparr>ss_by_ip := (ss_by_ip st)(ip \<mapsto> map_get (ss_by_ip st) ip [] @ [i])\<rparr>"
    and s: "se_ip s = ip" by (auto simp: session_create_def Let_def)
  have ids: "ip_ids st' ip' = ip_ids st ip' @ (if ip' = ip then [i] else [])" for ip'
    by (auto simp: st' ip_ids_def map_get_def)
  have sess: "session_get st' j = (if j = i then Some s else session_get st j)" for j
    using live by (simp add: st')
  have user: "ss_by_user st' = ss_by_user st" by (simp add: st')
  show ?thesis
    by (rule store_okI)
      (use store_okD [OF ok] new s in \<open>auto simp: ids sess user unknown_id_def split: if_splits\<close>)
qed

lemma session_get_remove:
  "session_get (remove_session i s st) j = (if j = i then None else session_get st j)"
  by (auto simp: remove_session_def drop_user_def drop_ip_def session_get_def Let_def map_del_def split: option.splits)

lemma remove_session_ids:
  assumes "store_ok again st" "session_get st i = Some s"
  shows "ip_ids (remove_session i s st) ip = filter (\<lambda>j. j \<noteq> i) (ip_ids st ip)"
proof (cases "ip = se_ip s")
  case True
  then show ?thesis
    by (auto simp: ip_ids_def remove_session_def drop_user_def drop_ip_def map_get_def Let_def map_del_def split: option.splits)
next
  case False
  then have "i \<notin> set (ip_ids st ip)" using store_okD(1) [OF assms] by simp
  then have "filter (\<lambda>j. j \<noteq> i) (ip_ids st ip) = ip_ids st ip"
    by (intro filter_True) auto
  with False show ?thesis
    by (auto simp: ip_ids_def remove_session_def drop_user_def drop_ip_def map_get_def Let_def map_del_def split: option.splits)
qed

lemma store_ok_remove:
  assumes "store_ok again st" "session_get st i = Some s"
  shows "store_ok again (remove_session i s st)"
proof -
  have user: "ss_by_user (remove_session i s st) = Map.empty" if "ss_by_user st = Map.empty"
    using that by (auto simp: remove_session_def drop_user_def drop_ip_def Let_def split: option.splits)
  show ?thesis
    by (rule store_okI)
      (use store_okD [OF assms(1)] user in \<open>auto simp: remove_session_ids [OF assms] session_get_remove split: if_splits\<close>)
qed

lemma store_ok_cleanup: "store_ok again st \<Longrightarrow> store_ok again (session_cleanup now order st)"
  by (induction now order st rule: session_cleanup.induct) (auto simp: store_ok_remove split: option.splits)

text \<open>A restored document appends its ids to the lists of their addresses.\<close>

fun doc_ids :: "string \<Rightarrow> (string \<times> session option) list \<Rightarrow> string list" where
  "doc_ids ip [] = []"
| "doc_ids ip ((i, so) # docs) = (case so of Some s \<Rightarrow> if se_ip s = ip then [i] else [] | None \<Rightarrow> []) @ doc_ids ip docs"

lemma index_sessions_frame:
  "index_sessions docs st = Inr st' \<Longrightarrow> ss_sessions st' = ss_sessions st \<and> (\<forall>ip. ip_ids st' ip = ip_ids st ip @ doc_ids ip docs)"
proof (induction docs st rule: index_sessions.induct)
  case (3 i s docs st)
  let ?st = "st\<lparr>ss_by_ip := (ss_by_ip st)(se_ip s \<mapsto> map_get (ss_by_ip st) (se_ip s) [] @ [i]),
           ss_by_user := (if se_user s \<noteq> [] then (ss_by_user st)(se_user s \<mapsto> i) else ss_by_user st)\<rparr>"
  have "ip_ids ?st ip = ip_ids st ip @ (if se_ip s = ip then [i] else [])" for ip
    by (simp add: ip_ids_def map_get_def)
  with "3.IH" "3.prems" show ?case by simp
qed simp_all

lemma doc_ids_subset: "set (doc_ids ip docs) \<subseteq> fst ` set docs"
  by (induction ip docs rule: doc_ids.induct) (auto split: option.splits)

lemma doc_ids_distinct: "distinct (map fst docs) \<Longrightarrow> distinct (doc_ids ip docs)"
  using doc_ids_subset by (induction ip docs rule: doc_ids.induct) (auto split: option.splits)

lemma doc_ids_live:
  assumes "distinct (map fst docs)" "Option.bind (map_of docs i) (\<lambda>s. s) = Some s"
  shows "i \<in> set (doc_ids ip docs) \<longleftrightarrow> se_ip s = ip"
  using assms
proof (induction docs)
  case (Cons d docs)
  obtain j so where d: "d = (j, so)" by (cases d)
  show ?case
  proof (cases "j = i")
    case True
    then have "i \<notin> set (doc_ids ip docs)" using Cons.prems(1) d doc_ids_subset by fastforce
    with True Cons.prems(2) d show ?thesis by (auto split: option.splits)
  next
    case False
    with Cons d show ?thesis by (auto split: option.splits)
  qed
qed simp

lemma store_ok_restore:
  assumes ok: "store_ok again st" and legal: "legal_event (SRestore doc) st" and step: "session_deserialize doc st = Inr st'"
  shows "store_ok True st'"
proof (cases doc)
  case None
  with step have "\<And>i. session_get st' i = None" "ip_ids st' = ip_ids st"
    by (auto simp: session_deserialize_def session_get_def ip_ids_def fun_eq_iff)
  with store_okD(2) [OF ok] show ?thesis by (auto intro: store_okI)
next
  case (Some docs)
  let ?live = "\<lambda>i. Option.bind (map_of docs i) (\<lambda>s. s)"
  from step Some have "index_sessions docs (st\<lparr>ss_sessions := Some ?live\<rparr>) = Inr st'" by (simp add: session_deserialize_def)
  from index_sessions_frame [OF this] have get: "session_get st' i = ?live i"
    and ids: "ip_ids st' ip = ip_ids st ip @ doc_ids ip docs" for i ip
    by (simp_all add: session_get_def ip_ids_def)
  have dist: "distinct (map fst docs)" and new: "\<And>i ip. i \<in> fst ` set docs \<Longrightarrow> i \<notin> set (ip_ids st ip)"
    using legal Some by (auto simp: unknown_id_def)
  have known: "i \<in> fst ` set docs" if "?live i = Some s" for i s
    using that by (cases "map_of docs i") (force dest: map_of_SomeD)+
  show ?thesis
  proof (rule store_okI)
    fix i s ip
    assume "session_get st' i = Some s"
    then have "?live i = Some s" by (simp add: get)
    from doc_ids_live [OF dist this] new [OF known [OF this]] show "i \<in> set (ip_ids st' ip) \<longleftrightarrow> se_ip s = ip" by (simp add: ids)
  next
    fix ip
    have "set (ip_ids st ip) \<inter> set (doc_ids ip docs) = {}" using new doc_ids_subset by blast
    then show "distinct (ip_ids st' ip)" using store_okD(2) [OF ok] doc_ids_distinct [OF dist] by (simp add: ids)
  qed simp_all
qed

lemma store_ok_step:
  assumes "store_ok again st" "legal_event ev st" "session_step ev st = Inr st'"
  shows "store_ok (again \<or> (\<exists>doc. ev = SRestore doc)) st'"
proof (cases ev)
  case (SCreate now i ip ua)
  with assms show ?thesis
    by (auto simp: map_sum_def split: sum.splits intro: store_ok_create)
next
  case (STouch now fresh i ip ua)
  show ?thesis
  proof (cases "if i \<noteq> [] then session_get st i else None")
    case None
    with STouch assms show ?thesis
      by (auto simp: session_get_or_create_def map_sum_def split: sum.splits intro: store_ok_create)
  next
    case (Some s)
    then have "session_get st i = Some s" by (auto split: if_splits)
    with STouch assms Some show ?thesis
      by (auto simp: session_get_or_create_def touch_session_def split: if_splits intro!: store_ok_put)
  qed
next
  case (SUpdate now i fn)
  with assms show ?thesis
    by (auto simp: session_update_def split: option.splits intro!: store_ok_put)
next
  case (SRisk now i score rid act)
  with assms show ?thesis
    by (auto simp: add_risk_score_def Let_def split: option.splits intro!: store_ok_put)
next
  case (SDelete i)
  with assms show ?thesis
    by (auto simp: session_delete_def split: option.splits intro!: store_ok_remove)
next
  case (SCleanup now order)
  with assms show ?thesis by (auto intro: store_ok_cleanup)
next
  case (SRestore doc)
  with assms show ?thesis using store_ok_restore [of again st doc st'] by simp
qed

lemma session_history_ok: "session_history ttl evs st \<Longrightarrow> store_ok (restored evs) st"
proof (induction rule: session_history.induct)
  case history_new
  show ?case by (rule store_okI) (simp_all add: new_session_store_def session_get_def ip_ids_def map_get_def)
next
  case (history_step evs st ev st')
  have "restored (evs @ [ev]) \<longleftrightarrow> restored evs \<or> (\<exists>doc. ev = SRestore doc)" by (auto simp: restored_def)
  with store_ok_step [OF history_step.IH history_step.hyps(2,3)] show ?case by simp
qed

lemma set_map_filter: "set (List.map_filter f xs) = {y. \<exists>x\<in>set xs. f x = Some y}"
  by (induction xs) (auto simp: List.map_filter_def)

lemma length_map_filter: "length (List.map_filter f xs) = length (filter (\<lambda>x. f x \<noteq> None) xs)"
  by (induction xs) (auto simp: List.map_filter_simps split: option.splits)

text \<open>Property C9. The index by address answers exactly: after any history of creations, look-ups, updates,
  risk reports, deletions, clean-ups and restored documents, where updates leave the addresses alone and a restored document names no session
  that the store has indexed already, \<^verbatim>\<open>GetByIP\<close> returns the live sessions of an address, all of
  them, each once, and no others. Ids without a session are left in the index only by restoring a document.\<close>

theorem sessions_by_ip_exact:
  assumes "session_history ttl evs st"
  shows "set (get_by_ip st ip) = {s. \<exists>i. session_get st i = Some s \<and> se_ip s = ip}
    \<and> length (get_by_ip st ip) = card {i. \<exists>s. session_get st i = Some s \<and> se_ip s = ip}
    \<and> ((\<exists>i\<in>set (map_get (ss_by_ip st) ip []). session_get st i = None) \<longrightarrow> (\<exists>doc. SRestore doc \<in> set evs))"
proof -
  note ok = store_okD [OF session_history_ok [OF assms]]
  let ?ids = "ip_ids st ip"
  have by_ip: "get_by_ip st ip = List.map_filter (session_get st) ?ids" by (simp add: get_by_ip_def ip_ids_def)
  have live: "i \<in> set (filter (\<lambda>i. session_get st i \<noteq> None) ?ids) \<longleftrightarrow> (\<exists>s. session_get st i = Some s \<and> se_ip s = ip)" for i
    using ok(1) [of i _ ip] by auto
  have "length (get_by_ip st ip) = card (set (filter (\<lambda>i. session_get st i \<noteq> None) ?ids))"
    unfolding by_ip length_map_filter by (rule distinct_card [symmetric]) (simp add: ok(2))
  also have "set (filter (\<lambda>i. session_get st i \<noteq> None) ?ids) = {i. \<exists>s. session_get st i = Some s \<and> se_ip s = ip}"
    using live by blast
  finally have "length (get_by_ip st ip) = card {i. \<exists>s. session_get st i = Some s \<and> se_ip s = ip}" .
  moreover have "set (get_by_ip st ip) = {s. \<exists>i. session_get st i = Some s \<and> se_ip s = ip}"
    unfolding by_ip set_map_filter using ok(1) by blast
  moreover have "(\<exists>i\<in>set ?ids. session_get st i = None) \<longrightarrow> (\<exists>doc. SRestore doc \<in> set evs)"
    using ok(4) unfolding restored_def by blast
  ultimately show ?thesis by (simp add: ip_ids_def)
qed

text \<open>
  The condition on restored documents is needed: restoring the session that a store holds makes \<^verbatim>\<open>GetByIP\<close> return it twice.
\<close>

lemma restored_twice:
  assumes "session_get st i = Some s" "ip_ids st (se_ip s) = [i]" "session_deserialize (Some [(i, Some s)]) st = Inr st'"
  shows "get_by_ip st' (se_ip s) = [s, s]"
proof -
  have "index_sessions [(i, Some s)] (st\<lparr>ss_sessions := Some (\<lambda>j. Option.bind (map_of [(i, Some s)] j) (\<lambda>s. s))\<rparr>) = Inr st'"
    using assms(3) by (simp add: session_deserialize_def)
  from index_sessions_frame [OF this] assms(2) have "session_get st' i = Some s" "ip_ids st' (se_ip s) = [i, i]"
    by (simp_all add: session_get_def ip_ids_def)
  then show ?thesis by (simp add: get_by_ip_def ip_ids_def List.map_filter_simps)
qed

text \<open>Sessions are never found by user in a store that was not restored from a snapshot:
  \<^verbatim>\<open>GetByUser\<close> returns nil for every user and the number of active users is 0, whatever user the
  sessions carry, since only \<^verbatim>\<open>Deserialize\<close> fills that index.\<close>

lemma live_sessions_have_no_user_index:
  assumes "session_history ttl evs st" and "\<not> restored evs"
  shows "get_by_user st u = None \<and> active_users st = 0"
  using store_okD(3) [OF session_history_ok [OF assms(1)] assms(2)] by (simp add: get_by_user_def active_users_def)

text \<open>After a report of risk the accumulated risk of a session is at most 100.\<close>

lemma session_risk_capped:
  assumes "session_get (add_risk_score now i score rid act st) i = Some s"
  shows "se_risk s \<le> 100"
proof (cases "session_get st i")
  case (Some s0)
  with assms session_get_live [OF Some] show ?thesis
    by (auto simp: add_risk_score_def Let_def split: if_splits)
qed (use assms in \<open>simp add: add_risk_score_def\<close>)

definition demo_session :: session where
  "demo_session = \<lparr>se_id = ''1'', se_user = [], se_ip = ''a'', se_agent = [], se_country = [], se_asn = 0,
     se_created = 0, se_last_seen = 0, se_requests = 0, se_risk = 100, se_tags = [], se_blocked = False,
     se_decisions = [\<lparr>sd_rule_id = ''R'', sd_action = ''block'', sd_score = 150, sd_timestamp = 1\<rparr>],
     se_fingerprint = []\<rparr>"

definition demo_store :: session_store where
  "demo_store = put_session ''1'' demo_session ((new_session_store hour)\<lparr>ss_by_ip := [''a'' \<mapsto> [''1'']]\<rparr>)"

lemma demo_store_history: "session_history hour [SCreate 0 ''1'' ''a'' [], SRisk 1 ''1'' 150 ''R'' ''block''] demo_store"
proof -
  let ?st = "fst (projr (session_create 0 ''1'' ''a'' [] (new_session_store hour)))"
  have "session_history hour ([] @ [SCreate 0 ''1'' ''a'' []]) ?st"
    by (rule history_step [OF history_new])
      (simp_all add: unknown_id_def session_create_def new_session_store_def session_get_def ip_ids_def map_get_def Let_def)
  then have "session_history hour (([] @ [SCreate 0 ''1'' ''a'' []]) @ [SRisk 1 ''1'' 150 ''R'' ''block'']) demo_store"
    by (rule history_step)
      (auto simp: new_session_store_def session_create_def session_get_def demo_store_def demo_session_def add_risk_score_def
        put_session_def Let_def map_get_def)
  then show ?thesis by simp
qed

lemma live_sessions_have_no_user_index_witness: "active_users demo_store = 0"
  using live_sessions_have_no_user_index [OF demo_store_history] by (simp add: restored_def)

theorem sessions_by_ip_exact_witness:
  "set (get_by_ip demo_store ''a'') = {s. \<exists>i. session_get demo_store i = Some s \<and> se_ip s = ''a''}"
  by (rule sessions_by_ip_exact [OF demo_store_history, THEN conjunct1])

section \<open>Expiry\<close>

lemma session_cleanup_get:
  "session_get (session_cleanup now order st) i =
     (case session_get st i of
        None \<Rightarrow> None
      | Some s \<Rightarrow> if i \<in> set order \<and> ss_ttl st < time_sub now (se_last_seen s) then None else Some s)"
proof (induction now order st rule: session_cleanup.induct)
  case (2 now j order st)
  have ttl: "ss_ttl (remove_session j s st) = ss_ttl st" for s
    by (auto simp: remove_session_def drop_user_def drop_ip_def Let_def split: option.splits)
  show ?case using 2
    by (auto simp: expired_def session_get_remove ttl split: option.splits)
qed (simp split: option.splits)

text \<open>One clean-up removes exactly the sessions idle for longer than the time to live: all
  others stay as they are, in whatever order the loop visits the map.\<close>

lemma cleanup_removes_exactly_idle:
  assumes "\<And>i s. session_get st i = Some s \<Longrightarrow> i \<in> set order" and "0 \<le> ss_ttl st" "ss_ttl st < max_duration"
  shows "session_get (session_cleanup now order st) i = Some s
    \<longleftrightarrow> session_get st i = Some s \<and> now - se_last_seen s \<le> ss_ttl st"
proof -
  have "ss_ttl st < time_sub now u \<longleftrightarrow> ss_ttl st < now - u" for u
    using assms(2,3) by (intro time_sub_gt_iff) (simp_all add: min_duration_def)
  then show ?thesis
    using assms(1) by (auto simp: session_cleanup_get split: option.splits)
qed

lemma cleanup_removes_exactly_idle_witness:
  "session_get (session_cleanup (2 * hour) [''1''] demo_store) ''1'' \<noteq> Some demo_session"
proof -
  have get: "session_get demo_store i = (if i = ''1'' then Some demo_session else None)" for i
    by (simp add: demo_store_def new_session_store_def session_get_def put_session_def)
  have ttl: "ss_ttl demo_store = hour" by (simp add: demo_store_def new_session_store_def)
  have "session_get (session_cleanup (2 * hour) [''1''] demo_store) ''1'' = Some demo_session
    \<longleftrightarrow> session_get demo_store ''1'' = Some demo_session \<and> 2 * hour - se_last_seen demo_session \<le> ss_ttl demo_store"
    by (rule cleanup_removes_exactly_idle) (simp_all add: get ttl max_duration_def split: if_splits)
  then show ?thesis by (simp add: ttl demo_session_def)
qed

end
