(* ===== verification/NetIP.thy ===== *)
theory NetIP
  imports GoStrings "HOL-Library.Word"
begin

unbundle bit_operations_syntax

text \<open>
  What the program uses of Go's package \<^verbatim>\<open>net\<close>: \<^verbatim>\<open>ParseIP\<close>, \<^verbatim>\<open>IP.String\<close>, \<^verbatim>\<open>IP.To4\<close>, \<^verbatim>\<open>ParseCIDR\<close> and
  \<^verbatim>\<open>IPNet.Contains\<close>, for IPv4 and IPv6. An \<^verbatim>\<open>IP\<close> is its list of 4 or 16 bytes, as in Go, where
  \<^verbatim>\<open>ParseIP\<close> always gives the 16-byte form.
\<close>

type_synonym byte = "8 word"
type_synonym ip_addr = "byte list"

definition v4_prefix :: "byte list" where
  "v4_prefix = [0, 0, 0, 0, 0, 0, 0, 0, 0, 0, 0xFF, 0xFF]"

definition to4 :: "ip_addr \<Rightarrow> byte list option" where
  "to4 ip = (if length ip = 4 then Some ip
             else if length ip = 16 \<and> take 12 ip = v4_prefix then Some (drop 12 ip) else None)"

section \<open>Parsing\<close>

definition parse_octet :: "string \<Rightarrow> byte option" where
  "parse_octet s =
     (case s of
        [] \<Rightarrow> None
      | c # cs \<Rightarrow>
          if c = CHR ''0'' \<and> cs \<noteq> [] then None
          else (case parse_digits 0 s of
                  None \<Rightarrow> None | Some v \<Rightarrow> if v \<le> 255 then Some (of_nat v) else None))"

definition parse_ipv4 :: "string \<Rightarrow> byte list option" where
  "parse_ipv4 s =
     (case map parse_octet (split_char CHR ''.'' s) of
        [Some a, Some b, Some c, Some d] \<Rightarrow> Some [a, b, c, d]
      | _ \<Rightarrow> None)"

definition hex_val :: "char \<Rightarrow> nat option" where
  "hex_val c =
     (if is_digit c then Some (of_char c - 48)
      else if CHR ''a'' \<le> c \<and> c \<le> CHR ''f'' then Some (of_char c - 87)
      else if CHR ''A'' \<le> c \<and> c \<le> CHR ''F'' then Some (of_char c - 55) else None)"

definition hex_run :: "string \<Rightarrow> string" where
  "hex_run s = takeWhile (\<lambda>c. hex_val c \<noteq> None) s"

definition hex_value :: "string \<Rightarrow> nat" where
  "hex_value s = foldl (\<lambda>acc c. 16 * acc + (case hex_val c of None \<Rightarrow> 0 | Some v \<Rightarrow> v)) 0 s"

text \<open>
  The loop of the IPv6 parser: the bytes so far, the position of the ellipsis, and the rest of
  the input. It ends with the bytes and the position of the ellipsis.
\<close>

function ipv6_groups :: "byte list \<Rightarrow> nat option \<Rightarrow> string \<Rightarrow> (byte list \<times> nat option) option" where
  "ipv6_groups bs ell s =
     (if 16 \<le> length bs then (if s = [] then Some (bs, ell) else None)
      else
        let h = hex_run s; rest = drop (length h) s; v = hex_value h
        in if h = [] \<or> 4 < length h then None
           else case rest of
             [] \<Rightarrow> Some (bs @ [of_nat (v div 256), of_nat v], ell)
           | c # cs \<Rightarrow>
               if c = CHR ''.''
               then (if (ell = None \<and> length bs \<noteq> 12) \<or> 16 < length bs + 4 then None
                     else map_option (\<lambda>q. (bs @ q, ell)) (parse_ipv4 s))
               else if c \<noteq> CHR '':'' \<or> cs = [] then None
               else
                 let bs' = bs @ [of_nat (v div 256), of_nat v]
                 in if hd cs = CHR '':''
                    then (if ell \<noteq> None then None
                          else if tl cs = [] then Some (bs', Some (length bs'))
                          else ipv6_groups bs' (Some (length bs')) (tl cs))
                    else ipv6_groups bs' ell cs)"
  by pat_completeness auto
termination
proof (relation "measure (\<lambda>(bs, ell, s). length s)", goal_cases)
  case 1
  show ?case by simp
next
  case (2 bs ell s h rest v c cs)
  then have "length s - length h = Suc (length cs)" by (metis length_Cons length_drop)
  then show ?case by (cases cs) auto
next
  case (3 bs ell s h rest v c cs)
  then have "length s - length h = Suc (length cs)" by (metis length_Cons length_drop)
  then show ?case by auto
qed

declare ipv6_groups.simps [simp del]

definition expand_ellipsis :: "byte list \<times> nat option \<Rightarrow> ip_addr option" where
  "expand_ellipsis g =
     (let (bs, ell) = g
      in case ell of
           None \<Rightarrow> if length bs = 16 then Some bs else None
         | Some e \<Rightarrow> if length bs < 16
                     then Some (take e bs @ replicate (16 - length bs) 0 @ drop e bs) else None)"

definition parse_ipv6 :: "string \<Rightarrow> ip_addr option" where
  "parse_ipv6 s =
     (if has_prefix s ''::''
      then (if drop 2 s = [] then Some (replicate 16 0)
            else Option.bind (ipv6_groups [] (Some 0) (drop 2 s)) expand_ellipsis)
      else Option.bind (ipv6_groups [] None s) expand_ellipsis)"

text \<open>\<^verbatim>\<open>ParseIP\<close>: the first of \<^verbatim>\<open>.\<close>, \<^verbatim>\<open>:\<close> and \<^verbatim>\<open>%\<close> decides the family; zones are refused.\<close>

datatype ip_family = V4 | V6

fun addr_family :: "string \<Rightarrow> ip_family option" where
  "addr_family [] = None"
| "addr_family (c # cs) =
     (if c = CHR ''.'' then Some V4 else if c = CHR '':'' then Some V6
      else if c = CHR ''%'' then None else addr_family cs)"

definition parse_addr :: "string \<Rightarrow> (ip_family \<times> ip_addr) option" where
  "parse_addr s =
     (case addr_family s of
        None \<Rightarrow> None
      | Some V4 \<Rightarrow> map_option (\<lambda>q. (V4, v4_prefix @ q)) (parse_ipv4 s)
      | Some V6 \<Rightarrow> map_option (\<lambda>b. (V6, b)) (parse_ipv6 s))"

definition parse_ip :: "string \<Rightarrow> ip_addr option" where
  "parse_ip s = map_option snd (parse_addr s)"

section \<open>Printing\<close>

definition hex_digit :: "nat \<Rightarrow> char" where
  "hex_digit d = (if d < 10 then char_of (48 + d) else char_of (87 + d))"

fun hex_of :: "nat \<Rightarrow> string" where
  "hex_of n = (if n < 16 then [hex_digit n] else hex_of (n div 16) @ [hex_digit (n mod 16)])"

declare hex_of.simps [simp del]

fun groups_of :: "byte list \<Rightarrow> nat list" where
  "groups_of (a # b # bs) = (256 * unat a + unat b) # groups_of bs"
| "groups_of _ = []"

definition zero_run :: "nat list \<Rightarrow> nat" where
  "zero_run gs = length (takeWhile (\<lambda>g. g = 0) gs)"

text \<open>Start and length of the first longest run of at least two zero groups.\<close>

fun best_run :: "nat \<Rightarrow> nat list \<Rightarrow> (nat \<times> nat) option" where
  "best_run i [] = None"
| "best_run i (g # gs) =
     (let n = zero_run (g # gs); later = best_run (Suc i) gs
      in case later of
           None \<Rightarrow> if 2 \<le> n then Some (i, n) else None
         | Some (j, m) \<Rightarrow> if 2 \<le> n \<and> m \<le> n then Some (i, n) else Some (j, m))"

fun join_str :: "string \<Rightarrow> string list \<Rightarrow> string" where
  "join_str sep [] = []"
| "join_str sep [p] = p"
| "join_str sep (p # q # ps) = p @ sep @ join_str sep (q # ps)"

definition ip_string4 :: "byte list \<Rightarrow> string" where
  "ip_string4 q = join_char CHR ''.'' (map (\<lambda>b. utoa (unat b)) q)"

definition ip_string :: "ip_addr \<Rightarrow> string" where
  "ip_string ip =
     (case to4 ip of
        Some q \<Rightarrow> ip_string4 q
      | None \<Rightarrow>
          (let gs = groups_of ip; colons = (\<lambda>g. join_str '':'' (map hex_of g))
           in case best_run 0 gs of
                None \<Rightarrow> colons gs
              | Some (i, n) \<Rightarrow> colons (take i gs) @ ''::'' @ colons (drop (i + n) gs)))"

section \<open>Networks\<close>

record ip_net =
  net_ip :: "byte list"
  net_mask :: "byte list"

text \<open>\<^verbatim>\<open>CIDRMask(n, 8 * len)\<close>\<close>

fun cidr_mask :: "nat \<Rightarrow> nat \<Rightarrow> byte list" where
  "cidr_mask n 0 = []"
| "cidr_mask n (Suc len) =
     (if 8 \<le> n then 0xFF # cidr_mask (n - 8) len
      else (NOT (drop_bit n 0xFF)) # cidr_mask 0 len)"

definition and_bytes :: "byte list \<Rightarrow> byte list \<Rightarrow> byte list" where
  "and_bytes xs ys = map2 (AND) xs ys"

definition parse_cidr :: "string \<Rightarrow> ip_net option" where
  "parse_cidr s =
     (case split2 CHR ''/'' s of
        None \<Rightarrow> None
      | Some (a, m) \<Rightarrow>
          (case (parse_addr a, parse_uint m) of
             (Some (fam, ip), Some n) \<Rightarrow>
               (case fam of
                  V4 \<Rightarrow> if n \<le> 32 then Some \<lparr>net_ip = and_bytes (drop 12 ip) (cidr_mask n 4), net_mask = cidr_mask n 4\<rparr>
                        else None
                | V6 \<Rightarrow> if n \<le> 128 then Some \<lparr>net_ip = and_bytes ip (cidr_mask n 16), net_mask = cidr_mask n 16\<rparr>
                        else None)
           | _ \<Rightarrow> None))"

definition net_contains :: "ip_net \<Rightarrow> ip_addr \<Rightarrow> bool" where
  "net_contains nt ip =
     (let (nn, m) = (case to4 (net_ip nt) of
                       None \<Rightarrow> (net_ip nt, net_mask nt)
                     | Some q \<Rightarrow> (q, if length (net_mask nt) = 16 then drop 12 (net_mask nt) else net_mask nt));
          x = (case to4 ip of None \<Rightarrow> ip | Some q \<Rightarrow> q)
      in length x = length nn \<and> and_bytes nn m = and_bytes x m)"

end
