(* ===== verification/RulesEngine.thy ===== *)
theory RulesEngine
  imports WafTypes NetIP "HOL-Library.Product_Lexorder"
begin

text \<open>
  The custom rule engine, \<^verbatim>\<open>internal/rules/rules.go\<close>: evaluation of a rule on the fields of a request,
  and the rule table with its operations. Compiled regular expressions and float scanning are
  arguments (\<^verbatim>\<open>regexp.Compile\<close> and \<^verbatim>\<open>fmt.Sscanf\<close> of the text of a rule that an operator writes).
\<close>

section \<open>Rules and fields\<close>

text \<open>\<open>ru_compiled\<close> is the pattern that \<^verbatim>\<open>compiledRE\<close> was compiled from, when it is not nil.\<close>

record rule =
  ru_id :: string
  ru_name :: string
  ru_description :: string
  ru_enabled :: bool
  ru_severity :: string
  ru_action :: string
  ru_phase :: string
  ru_priority :: int
  ru_field :: string
  ru_operator :: string
  ru_value :: string
  ru_transform :: "string list"
  ru_tags :: "string list"
  ru_compiled :: "string option"

record field_value =
  fv_query :: param_map
  fv_form :: param_map
  fv_headers :: header_map
  fv_cookies :: header_map
  fv_body :: "string option"
  fv_path :: string
  fv_method :: string
  fv_real_ip :: string
  fv_user_agent :: string
  fv_content_type :: string
  fv_country :: string
  fv_asn :: nat
  fv_session_id :: string
  fv_user_id :: string
  fv_host :: string

record rule_decision =
  rdec_rule_id :: string
  rdec_rule_name :: string
  rdec_action :: string
  rdec_severity :: string
  rdec_score :: rat
  rdec_evidence :: gotext
  rdec_matched :: bool

record rules_env =
  rv_compile :: "string \<Rightarrow> (string \<Rightarrow> bool) option"
  rv_scan :: "string \<Rightarrow> rat"

section \<open>Evaluation\<close>

definition first_value :: "param_map \<Rightarrow> string \<Rightarrow> string" where
  "first_value m key = (case map_of m key of Some (v # _) \<Rightarrow> v | _ \<Rightarrow> [])"

definition header_field :: "header_map \<Rightarrow> string \<Rightarrow> string" where
  "header_field hs key =
     (case map_of hs key of
        Some v \<Rightarrow> v
      | None \<Rightarrow> (case find (\<lambda>(k, v). equal_fold k key) hs of Some (_, v) \<Rightarrow> v | None \<Rightarrow> []))"

definition extract_field :: "string \<Rightarrow> field_value \<Rightarrow> string" where
  "extract_field name f =
     (case split2 CHR ''.'' name of
        None \<Rightarrow> []
      | Some (category, key) \<Rightarrow>
          if category = ''headers'' then header_field (fv_headers f) key
          else if category = ''query'' then first_value (fv_query f) key
          else if category = ''form'' then first_value (fv_form f) key
          else if category = ''cookies'' then al_get (fv_cookies f) key []
          else if category = ''path'' then fv_path f
          else if category = ''method'' then fv_method f
          else if category = ''ip'' then fv_real_ip f
          else if category = ''user_agent'' then fv_user_agent f
          else if category = ''content_type'' then fv_content_type f
          else if category = ''country'' then fv_country f
          else if category = ''asn'' then utoa (fv_asn f)
          else if category = ''session'' then fv_session_id f
          else if category = ''user_id'' then fv_user_id f
          else if category = ''host'' then fv_host f
          else if category = ''body'' then (case fv_body f of None \<Rightarrow> [] | Some b \<Rightarrow> b)
          else [])"

text \<open>\<^verbatim>\<open>\s\<close> of a regular expression is tab, newline, form feed, carriage return or space.\<close>

definition re_space :: "char \<Rightarrow> bool" where
  "re_space c = (c = CHR '' '' \<or> c = CHR 0x09 \<or> c = CHR 0x0A \<or> c = CHR 0x0C \<or> c = CHR 0x0D)"

fun compress_whitespace :: "bool \<Rightarrow> string \<Rightarrow> string" where
  "compress_whitespace in_run [] = []"
| "compress_whitespace in_run (c # cs) =
     (if re_space c then (if in_run then [] else '' '') @ compress_whitespace True cs
      else c # compress_whitespace False cs)"

definition url_escapes :: "(string \<times> string) list" where
  "url_escapes = [(''%25'', ''%''), (''%20'', '' ''), (''%3C'', ''<''), (''%3E'', ''>''), (''%27'', [CHR 0x27]),
     (''%22'', [CHR 0x22]), (''%3B'', '';''), (''%2F'', ''/''), (''%3D'', ''=''), (''%26'', ''&''),
     (''%23'', ''#''), (''%3F'', ''?'')]"

definition apply_transform :: "string \<Rightarrow> string \<Rightarrow> string" where
  "apply_transform t s =
     (let t = to_lower t in
      if t = ''lowercase'' then to_lower s
      else if t = ''uppercase'' then to_upper s
      else if t = ''trim'' then trim_space s
      else if t = ''urldecode'' then fold (\<lambda>(old, new) r. replace_all r old new) url_escapes s
      else if t = ''remove_null'' then replace_all s [CHR 0x00] []
      else if t = ''remove_comments''
        then replace_all (replace_all (replace_all s ''/*'' '' '') ''*/'' '' '') ''--'' '' ''
      else if t = ''normalize_path'' then replace_all (replace_all s ''//'' ''/'') ''/./'' ''/''
      else if t = ''compress_whitespace'' then compress_whitespace False s
      else s)"

definition apply_transforms :: "string \<Rightarrow> string list \<Rightarrow> string" where
  "apply_transforms s ts = fold apply_transform ts s"

definition list_member :: "string \<Rightarrow> string \<Rightarrow> bool" where
  "list_member v alts = (v \<in> set (map trim_space (split_char CHR '','' alts)))"

definition ip_match :: "string \<Rightarrow> string \<Rightarrow> bool" where
  "ip_match v rv =
     (case parse_ip v of
        None \<Rightarrow> False
      | Some ip \<Rightarrow> (case parse_cidr rv of None \<Rightarrow> ip_string ip = rv | Some nt \<Rightarrow> net_contains nt ip))"

definition apply_operator :: "rules_env \<Rightarrow> string \<Rightarrow> string \<Rightarrow> string \<Rightarrow> rule \<Rightarrow> gotext + bool" where
  "apply_operator env op v rv r =
     (if op = ''equals'' then Inr (v = rv)
      else if op = ''contains'' then Inr (contains v rv)
      else if op = ''regex'' then
        (case Option.bind (ru_compiled r) (rv_compile env) of
           Some m \<Rightarrow> Inr (m v)
         | None \<Rightarrow> (case rv_compile env rv of
                     None \<Rightarrow> Inl (Fmt ''invalid regex %q: %w'' [AStr rv])
                   | Some m \<Rightarrow> Inr (m v)))
      else if op = ''prefix'' then Inr (has_prefix v rv)
      else if op = ''suffix'' then Inr (has_suffix v rv)
      else if op = ''ip_match'' then Inr (ip_match v rv)
      else if op = ''geo_match'' then Inr (equal_fold v rv)
      else if op = ''exists'' then Inr (v \<noteq> [])
      else if op = ''gt'' then Inr (rv_scan env v > rv_scan env rv)
      else if op = ''lt'' then Inr (rv_scan env v < rv_scan env rv)
      else if op = ''in'' then Inr (list_member v rv)
      else if op = ''not_in'' then Inr (\<not> list_member v rv)
      else Inr False)"

definition evaluate_rule :: "rules_env \<Rightarrow> rule \<Rightarrow> field_value \<Rightarrow> gotext + bool" where
  "evaluate_rule env r f =
     (let v = extract_field (ru_field r) f in
      if v = [] then Inr False
      else
        let t = apply_transforms v (ru_transform r) in
        if t = [] then Inr False else apply_operator env (ru_operator r) t (ru_value r) r)"

definition severity_to_score :: "string \<Rightarrow> rat" where
  "severity_to_score sev =
     (if sev = ''critical'' then 95 else if sev = ''high'' then 75 else if sev = ''medium'' then 50
      else if sev = ''low'' then 25 else if sev = ''info'' then 5 else 50)"

definition no_match :: rule_decision where
  "no_match = \<lparr>rdec_rule_id = [], rdec_rule_name = [], rdec_action = ''allow'', rdec_severity = [],
     rdec_score = 0, rdec_evidence = Lit [], rdec_matched = False\<rparr>"

definition rule_match :: "rule \<Rightarrow> field_value \<Rightarrow> rule_decision" where
  "rule_match r f = \<lparr>rdec_rule_id = ru_id r, rdec_rule_name = ru_name r, rdec_action = ru_action r,
     rdec_severity = ru_severity r, rdec_score = severity_to_score (ru_severity r),
     rdec_evidence = Fmt ''rule %s matched: %s %s %s %s''
       [AStr (ru_id r), AStr (ru_field r), AStr (ru_operator r), AStr (ru_value r), AStr (fv_path f)],
     rdec_matched = True\<rparr>"

fun inspect_rules :: "rules_env \<Rightarrow> bool \<Rightarrow> rule list \<Rightarrow> field_value \<Rightarrow> rule_decision" where
  "inspect_rules env dry [] f = no_match"
| "inspect_rules env dry (r # rs) f =
     (if \<not> ru_enabled r then inspect_rules env dry rs f
      else case evaluate_rule env r f of
             Inl _ \<Rightarrow> inspect_rules env dry rs f
           | Inr matched \<Rightarrow> if matched \<and> \<not> dry then rule_match r f else inspect_rules env dry rs f)"

definition test_rule :: "rules_env \<Rightarrow> rule \<Rightarrow> field_value \<Rightarrow> gotext + rule_decision" where
  "test_rule env r f =
     (case evaluate_rule env r f of
        Inl e \<Rightarrow> Inl e
      | Inr m \<Rightarrow> Inr \<lparr>rdec_rule_id = ru_id r, rdec_rule_name = ru_name r, rdec_action = ru_action r,
          rdec_severity = ru_severity r, rdec_score = severity_to_score (ru_severity r),
          rdec_evidence = Fmt ''test: rule %s evaluated: matched=%v'' [AStr (ru_id r), AStr (if m then ''true'' else ''false'')],
          rdec_matched = m\<rparr>)"

section \<open>The rule table\<close>

text \<open>
  \<^verbatim>\<open>rules\<close> is a slice and \<^verbatim>\<open>byID\<close> holds pointers into the array under it. Sorting moves rules between
  the cells of the array but not the pointers, and an array that the slice has left lives on
  as long as a pointer refers to it. So a pointer is an array and an index: \<open>re_old\<close> are the
  arrays left behind, in order, and the array number \<open>length re_old\<close> is that of the slice.
  \<open>re_cap\<close> is the capacity of the slice and \<open>grow\<close> the capacity that \<^verbatim>\<open>append\<close> gives a full one.
\<close>

record rules_engine =
  re_old :: "rule list list"
  re_rules :: "rule list"
  re_cap :: nat
  re_by_id :: "string \<rightharpoonup> nat \<times> nat"
  re_dry_run :: bool

definition new_rules_engine :: "bool \<Rightarrow> rules_engine" where
  "new_rules_engine dry = \<lparr>re_old = [], re_rules = [], re_cap = 0, re_by_id = Map.empty, re_dry_run = dry\<rparr>"

definition deref :: "rules_engine \<Rightarrow> nat \<times> nat \<Rightarrow> rule" where
  "deref e p = (if fst p < length (re_old e) then re_old e ! fst p ! snd p else re_rules e ! snd p)"

definition store_rule :: "nat \<times> nat \<Rightarrow> rule \<Rightarrow> rules_engine \<Rightarrow> rules_engine" where
  "store_rule p r e =
     (if fst p < length (re_old e)
      then e\<lparr>re_old := (re_old e)[fst p := (re_old e ! fst p)[snd p := r]]\<rparr>
      else e\<lparr>re_rules := (re_rules e)[snd p := r]\<rparr>)"

definition rule_key :: "rule \<Rightarrow> int \<times> string" where
  "rule_key r = (ru_priority r, ru_id r)"

text \<open>\<^verbatim>\<open>sort.Slice\<close> orders by priority and id; rules equal in both keep their order here.\<close>

definition sort_rules :: "rules_engine \<Rightarrow> rules_engine" where
  "sort_rules e = e\<lparr>re_rules := sort_key rule_key (re_rules e)\<rparr>"

definition is_regex_op :: "rule \<Rightarrow> bool" where
  "is_regex_op r = (ru_operator r = ''regex'' \<or> ru_operator r = ''regex_match'')"

definition compile_rule :: "rules_env \<Rightarrow> rule \<Rightarrow> rule" where
  "compile_rule env r =
     (if is_regex_op r \<and> rv_compile env (ru_value r) \<noteq> None then r\<lparr>ru_compiled := Some (ru_value r)\<rparr> else r)"

fun index_rules :: "nat \<Rightarrow> nat \<Rightarrow> rule list \<Rightarrow> (string \<rightharpoonup> nat \<times> nat) \<Rightarrow> (string \<rightharpoonup> nat \<times> nat)" where
  "index_rules a i [] m = m"
| "index_rules a i (r # rs) m = index_rules a (Suc i) rs (m(ru_id r \<mapsto> (a, i)))"

definition load_rules :: "rules_env \<Rightarrow> rule list \<Rightarrow> rules_engine \<Rightarrow> rules_engine" where
  "load_rules env rs e =
     (let arr = map (compile_rule env) rs; old = re_old e @ [re_rules e]
      in sort_rules (e\<lparr>re_old := old, re_rules := arr, re_cap := length arr,
                       re_by_id := index_rules (length old) 0 arr Map.empty\<rparr>))"

text \<open>\<^verbatim>\<open>AtomicSwap\<close> loads a fresh engine and takes over its slice and map.\<close>

definition atomic_swap :: "rules_env \<Rightarrow> rule list \<Rightarrow> rules_engine \<Rightarrow> rules_engine" where
  "atomic_swap env rs e = load_rules env rs e"

definition get_rule :: "rules_engine \<Rightarrow> string \<Rightarrow> rule option" where
  "get_rule e i = map_option (deref e) (re_by_id e i)"

definition get_enabled_rules :: "rules_engine \<Rightarrow> rule list" where
  "get_enabled_rules e = filter ru_enabled (re_rules e)"

definition append_rule :: "(nat \<Rightarrow> nat) \<Rightarrow> rule \<Rightarrow> rules_engine \<Rightarrow> rules_engine" where
  "append_rule grow r e =
     (if length (re_rules e) < re_cap e then e\<lparr>re_rules := re_rules e @ [r]\<rparr>
      else e\<lparr>re_old := re_old e @ [re_rules e], re_rules := re_rules e @ [r], re_cap := grow (re_cap e)\<rparr>)"

definition add_rule :: "rules_env \<Rightarrow> (nat \<Rightarrow> nat) \<Rightarrow> rule \<Rightarrow> rules_engine \<Rightarrow> gotext + rules_engine" where
  "add_rule env grow r e =
     (if re_by_id e (ru_id r) \<noteq> None then Inl (Fmt ''rule %s already exists'' [AStr (ru_id r)])
      else if is_regex_op r \<and> rv_compile env (ru_value r) = None then Inl (Fmt ''invalid regex: %w'' [])
      else
        let r' = compile_rule env r; e' = append_rule grow r' e
        in Inr (sort_rules (e'\<lparr>re_by_id := (re_by_id e')(ru_id r \<mapsto> (length (re_old e'), length (re_rules e') - 1))\<rparr>)))"

definition update_rule :: "rules_env \<Rightarrow> string \<Rightarrow> rule \<Rightarrow> rules_engine \<Rightarrow> gotext + rules_engine" where
  "update_rule env i r e =
     (case re_by_id e i of
        None \<Rightarrow> Inl (Fmt ''rule %s not found'' [AStr i])
      | Some p \<Rightarrow> Inr (sort_rules (store_rule p (compile_rule env r) e)))"

definition delete_rule :: "string \<Rightarrow> rules_engine \<Rightarrow> gotext + rules_engine" where
  "delete_rule i e =
     (case re_by_id e i of
        None \<Rightarrow> Inl (Fmt ''rule %s not found'' [AStr i])
      | Some _ \<Rightarrow> Inr (e\<lparr>re_by_id := map_del (re_by_id e) i, re_old := re_old e @ [re_rules e],
                         re_rules := filter (\<lambda>r. ru_id r \<noteq> i) (re_rules e), re_cap := length (re_rules e)\<rparr>))"

definition reorder_rule :: "string \<Rightarrow> int \<Rightarrow> rules_engine \<Rightarrow> gotext + rules_engine" where
  "reorder_rule i prio e =
     (case re_by_id e i of
        None \<Rightarrow> Inl (Fmt ''rule %s not found'' [AStr i])
      | Some p \<Rightarrow> Inr (sort_rules (store_rule p ((deref e p)\<lparr>ru_priority := prio\<rparr>) e)))"

definition rules_inspect :: "rules_env \<Rightarrow> rules_engine \<Rightarrow> field_value \<Rightarrow> rule_decision" where
  "rules_inspect env e f = inspect_rules env (re_dry_run e) (re_rules e) f"

definition default_rules :: "rule list" where
  "default_rules =
     (let mk = (\<lambda>i n sev prio fld op val tags.
        \<lparr>ru_id = i, ru_name = n, ru_description = [], ru_enabled = True, ru_severity = sev, ru_action = ''block'',
         ru_phase = ''request'', ru_priority = prio, ru_field = fld, ru_operator = op, ru_value = val,
         ru_transform = [], ru_tags = tags, ru_compiled = None\<rparr>)
      in [mk ''PLATFORM001'' ''Block Common Attack Tools'' ''high'' 1 ''user_agent'' ''regex''
            ''(?i)(?:sqlmap|nikto|nmap|masscan|gobuster|dirbuster|wpscan|burpsuite|zap|acunetix|netsparker)''
            [''automation'', ''scanner''],
          mk ''PLATFORM002'' ''Block Path Traversal'' ''critical'' 2 ''path'' ''regex''
            (join_char CHR 0x5C [''(?i)(?:/'', ''.'', ''.|'', ''.'', ''./|'', ''.'', ''.'', [],
               ''|/etc/passwd|/windows/win'', ''.ini)'']) [''lfi'', ''path-traversal''],
          mk ''PLATFORM003'' ''Block Private IP Ranges'' ''high'' 3 ''headers.X-Forwarded-For'' ''regex''
            (join_char CHR 0x5C [''(?i)(?:^127'', ''.|^10'', ''.|^172'', ''.(?:1[6-9]|2[0-9]|3[01])'', ''.|^192'',
               ''.168'', ''.)'']) [''spoofing'', ''security''],
          mk ''PLATFORM004'' ''Block Suspicious Methods'' ''high'' 4 ''method'' ''in''
            ''CONNECT,TRACE,TRACK,PUT,DELETE,PATCH'' [''method'', ''restriction'']])"

section \<open>Matching\<close>

definition rule_fires :: "rules_env \<Rightarrow> rule \<Rightarrow> field_value \<Rightarrow> bool" where
  "rule_fires env r f \<longleftrightarrow> ru_enabled r \<and> evaluate_rule env r f = Inr True"

lemma find_SomeD: "find P xs = Some x \<Longrightarrow> x \<in> set xs \<and> P x"
  by (induction xs) (auto split: if_splits)

lemma inspect_rules_find:
  "inspect_rules env dry rs f =
     (case find (\<lambda>r. rule_fires env r f \<and> \<not> dry) rs of None \<Rightarrow> no_match | Some r \<Rightarrow> rule_match r f)"
  by (induction rs) (auto simp: rule_fires_def split: sum.splits)

text \<open>The table stays sorted whatever the pointers do.\<close>

inductive rules_reach :: "rules_env \<Rightarrow> (nat \<Rightarrow> nat) \<Rightarrow> rules_engine \<Rightarrow> bool" for env grow where
  rules_new: "rules_reach env grow (new_rules_engine dry)"
| rules_load: "rules_reach env grow e \<Longrightarrow> rules_reach env grow (load_rules env rs e)"
| rules_add: "rules_reach env grow e \<Longrightarrow> add_rule env grow r e = Inr e' \<Longrightarrow> rules_reach env grow e'"
| rules_update: "rules_reach env grow e \<Longrightarrow> update_rule env i r e = Inr e' \<Longrightarrow> rules_reach env grow e'"
| rules_delete: "rules_reach env grow e \<Longrightarrow> delete_rule i e = Inr e' \<Longrightarrow> rules_reach env grow e'"
| rules_reorder: "rules_reach env grow e \<Longrightarrow> reorder_rule i prio e = Inr e' \<Longrightarrow> rules_reach env grow e'"

definition table_sorted :: "rules_engine \<Rightarrow> bool" where
  "table_sorted e = sorted (map rule_key (re_rules e))"

lemma table_sorted_sort [simp]: "table_sorted (sort_rules e)"
  by (simp add: table_sorted_def sort_rules_def)

lemma table_sorted_new: "table_sorted (new_rules_engine dry)"
  by (simp add: table_sorted_def new_rules_engine_def)

lemma rules_reach_sorted: "rules_reach env grow e \<Longrightarrow> table_sorted e"
proof (induction rule: rules_reach.induct)
  case (rules_delete e i e')
  then show ?case
    by (auto simp: delete_rule_def table_sorted_def sorted_filter split: option.splits)
qed (auto simp: table_sorted_new load_rules_def add_rule_def
    update_rule_def reorder_rule_def Let_def split: if_splits option.splits)

lemma find_sorted_least:
  assumes "sorted (map k xs)" "find P xs = Some y" "x \<in> set xs" "P x"
  shows "k y \<le> k x"
  using assms by (induction xs) (auto split: if_splits)

text \<open>Property C10. Rules are decided by priority: outside dry-run mode, after any history of loads, additions, updates,
  reorderings and deletions, if some enabled rule matches a request, the engine answers with the
  rule that comes first by priority and then by id among all the enabled rules that match it.\<close>

theorem first_rule_by_priority:
  assumes "rules_reach env grow e" and "\<not> re_dry_run e" and "r \<in> set (re_rules e)" and "rule_fires env r f"
  shows "\<exists>r'\<in>set (re_rules e). rule_fires env r' f \<and> rules_inspect env e f = rule_match r' f
    \<and> (\<forall>x\<in>set (re_rules e). rule_fires env x f \<longrightarrow> rule_key r' \<le> rule_key x)"
proof -
  have srt: "sorted (map rule_key (re_rules e))"
    using rules_reach_sorted [OF assms(1)] by (simp add: table_sorted_def)
  let ?P = "\<lambda>r. rule_fires env r f \<and> \<not> re_dry_run e"
  obtain r' where r': "find ?P (re_rules e) = Some r'"
    using assms(2-4) by (cases "find ?P (re_rules e)") (auto simp: find_None_iff)
  then have "r' \<in> set (re_rules e)" "rule_fires env r' f" by (auto dest!: find_SomeD)
  moreover have "rules_inspect env e f = rule_match r' f"
    using r' by (simp add: rules_inspect_def inspect_rules_find)
  ultimately show ?thesis using find_sorted_least [OF srt r'] assms(2) by blast
qed

text \<open>In dry-run mode the rule engine never reports a match, whatever the rules.\<close>

lemma dry_run_never_matches:
  assumes "re_dry_run e"
  shows "rules_inspect env e f = no_match"
  using assms by (auto simp: rules_inspect_def inspect_rules_find split: option.splits dest!: find_SomeD)

section \<open>Look-up by id\<close>

lemma compile_rule_sel [simp]:
  "ru_id (compile_rule env r) = ru_id r" "rule_key (compile_rule env r) = rule_key r"
  by (simp_all add: compile_rule_def rule_key_def)

lemma index_rules_other: "i \<notin> ru_id ` set rs \<Longrightarrow> index_rules a n rs m i = m i"
  by (induction a n rs m rule: index_rules.induct) auto

lemma index_rules_nth:
  "distinct (map ru_id rs) \<Longrightarrow> k < length rs \<Longrightarrow> index_rules a n rs m (ru_id (rs ! k)) = Some (a, n + k)"
proof (induction a n rs m arbitrary: k rule: index_rules.induct)
  case (2 a n r rs m)
  show ?case
  proof (cases k)
    case 0
    then show ?thesis using 2 by (simp add: index_rules_other)
  next
    case (Suc j)
    then show ?thesis using 2 by (simp del: fun_upd_apply)
  qed
qed simp

text \<open>\<^verbatim>\<open>GetRule\<close> returns the rule it is asked for, for every rule of a load, only if the
  rules were given in the order in which the engine sorts them: the pointers of \<^verbatim>\<open>byID\<close> are taken
  before the sort and then refer to other rules.\<close>

lemma lookup_right_iff_load_sorted:
  assumes "distinct (map ru_id rs)"
  shows "(\<forall>r\<in>set rs. map_option ru_id (get_rule (load_rules env rs e) (ru_id r)) = Some (ru_id r))
    \<longleftrightarrow> sorted (map rule_key rs)"
proof -
  let ?arr = "map (compile_rule env) rs" and ?s = "sort_key rule_key (map (compile_rule env) rs)"
  have ids: "map ru_id ?arr = map ru_id rs" and keys: "map rule_key ?arr = map rule_key rs"
    by simp_all
  have get: "get_rule (load_rules env rs e) (ru_id (rs ! k)) = Some (?s ! k)" if "k < length rs" for k
    using index_rules_nth [of ?arr k "Suc (length (re_old e))" 0 Map.empty] that assms ids
    by (simp add: load_rules_def get_rule_def sort_rules_def deref_def Let_def comp_def)
  have "(\<forall>r\<in>set rs. map_option ru_id (get_rule (load_rules env rs e) (ru_id r)) = Some (ru_id r))
    \<longleftrightarrow> (\<forall>k<length rs. ru_id (?s ! k) = ru_id (rs ! k))"
    by (auto simp: all_set_conv_all_nth get)
  also have "\<dots> \<longleftrightarrow> map ru_id ?s = map ru_id ?arr"
    unfolding ids by (auto simp: list_eq_iff_nth_eq)
  also have "\<dots> \<longleftrightarrow> ?s = ?arr"
  proof -
    have "distinct (map ru_id ?arr)" unfolding ids by (rule assms)
    then have "inj_on ru_id (set ?s \<union> set ?arr)" by (simp only: distinct_map set_sort Un_absorb)
    then show ?thesis by (metis inj_on_map_eq_map)
  qed
  also have "\<dots> \<longleftrightarrow> sorted (map rule_key ?arr)"
    by (metis sort_key_id_if_sorted sorted_sort_key)
  finally show ?thesis unfolding keys .
qed

text \<open>A deletion is effective: afterwards the rule is not found under its id and no
  request is ever answered with it, and every other rule still is in the table, in the same order.\<close>

lemma deleted_rule_never_fires:
  assumes "delete_rule i e = Inr e'"
  shows "get_rule e' i = None \<and> re_rules e' = filter (\<lambda>r. ru_id r \<noteq> i) (re_rules e)
    \<and> (rdec_matched (rules_inspect env e' f) \<longrightarrow> rdec_rule_id (rules_inspect env e' f) \<noteq> i)"
proof -
  have e': "re_by_id e' i = None" "re_rules e' = filter (\<lambda>r. ru_id r \<noteq> i) (re_rules e)"
    using assms by (auto simp: delete_rule_def split: option.splits)
  have "rdec_rule_id (rules_inspect env e' f) \<noteq> i" if "rdec_matched (rules_inspect env e' f)"
    using that e'(2)
    by (auto simp: rules_inspect_def inspect_rules_find no_match_def rule_match_def
        split: option.splits dest!: find_SomeD)
  then show ?thesis using e' by (simp add: get_rule_def)
qed

section \<open>The built-in rules\<close>

lemma field_without_dot: "CHR ''.'' \<notin> set name \<Longrightarrow> extract_field name f = []"
  by (simp add: extract_field_def split2_None_iff [THEN iffD2])

lemma rule_without_dot: "CHR ''.'' \<notin> set (ru_field r) \<Longrightarrow> \<not> rule_fires env r f"
  by (simp add: rule_fires_def evaluate_rule_def field_without_dot)

text \<open>Of the built-in rules only PLATFORM003 can ever match. The other three name a field
  without a dot (\<^verbatim>\<open>user_agent\<close>, \<^verbatim>\<open>path\<close>, \<^verbatim>\<open>method\<close>), for which the engine always extracts the empty
  string, so scanners, path traversal and the listed methods are not blocked by them.\<close>

lemma builtin_rules_mostly_dead:
  assumes "rdec_matched (rules_inspect env (load_rules env default_rules e) f)"
  shows "rdec_rule_id (rules_inspect env (load_rules env default_rules e) f) = ''PLATFORM003''"
proof -
  have field: "ru_field (compile_rule env r) = ru_field r" for r by (simp add: compile_rule_def)
  have dead: "CHR ''.'' \<notin> set (ru_field r) \<or> ru_id r = ''PLATFORM003''" if "r \<in> set default_rules" for r
    using that by (auto simp: default_rules_def Let_def)
  obtain r where r: "r \<in> set (re_rules (load_rules env default_rules e))" "rule_fires env r f"
    and hit: "rules_inspect env (load_rules env default_rules e) f = rule_match r f"
    using assms by (auto simp: rules_inspect_def inspect_rules_find no_match_def split: option.splits dest!: find_SomeD)
  then obtain r0 where "r0 \<in> set default_rules" "r = compile_rule env r0"
    by (auto simp: load_rules_def sort_rules_def Let_def)
  with dead [of r0] r(2) rule_without_dot [of r env f] have "ru_id r = ''PLATFORM003''" by (auto simp: field)
  then show ?thesis by (simp add: hit rule_match_def)
qed

section \<open>Witnesses\<close>

definition demo_rules_env :: rules_env where
  "demo_rules_env = \<lparr>rv_compile = (\<lambda>p. Some (\<lambda>s. contains s ''10.'')), rv_scan = (\<lambda>_. 0)\<rparr>"

definition demo_field :: field_value where
  "demo_field = \<lparr>fv_query = [], fv_form = [], fv_headers = [(''X-Forwarded-For'', ''10.0.0.1'')], fv_cookies = [],
     fv_body = None, fv_path = ''/'', fv_method = ''GET'', fv_real_ip = ''10.0.0.1'', fv_user_agent = ''sqlmap'',
     fv_content_type = [], fv_country = [], fv_asn = 0, fv_session_id = [], fv_user_id = [], fv_host = []\<rparr>"

definition demo_rule :: "string \<Rightarrow> int \<Rightarrow> rule" where
  "demo_rule i prio = \<lparr>ru_id = i, ru_name = [], ru_description = [], ru_enabled = True, ru_severity = ''high'',
     ru_action = ''block'', ru_phase = ''request'', ru_priority = prio, ru_field = ''ip.addr'', ru_operator = ''ip_match'',
     ru_value = ''10.0.0.0/8'', ru_transform = [], ru_tags = [], ru_compiled = None\<rparr>"

definition demo_table :: rules_engine where
  "demo_table = load_rules demo_rules_env [demo_rule ''b'' 1, demo_rule ''a'' 1] (new_rules_engine False)"

lemma demo_table_rules: "re_rules demo_table = [demo_rule ''a'' 1, demo_rule ''b'' 1]"
  by (simp add: demo_table_def load_rules_def sort_rules_def compile_rule_def is_regex_op_def demo_rule_def
      rule_key_def Let_def less_char_def)

lemma demo_rule_fires: "rule_fires demo_rules_env (demo_rule i prio) demo_field"
proof -
  have "ip_match ''10.0.0.1'' ''10.0.0.0/8''" by code_simp
  then show ?thesis
    by (simp add: rule_fires_def evaluate_rule_def demo_rule_def apply_operator_def apply_transforms_def
        extract_field_def demo_field_def Let_def)
qed

theorem first_rule_by_priority_witness:
  "\<exists>r'\<in>set (re_rules demo_table). rule_fires demo_rules_env r' demo_field
     \<and> rules_inspect demo_rules_env demo_table demo_field = rule_match r' demo_field
     \<and> (\<forall>x\<in>set (re_rules demo_table). rule_fires demo_rules_env x demo_field \<longrightarrow> rule_key r' \<le> rule_key x)"
proof (rule first_rule_by_priority)
  show "rules_reach demo_rules_env Suc demo_table"
    unfolding demo_table_def by (intro rules_load rules_new)
  show "demo_rule ''b'' 1 \<in> set (re_rules demo_table)" by (simp add: demo_table_rules)
qed (simp_all add: demo_rule_fires demo_table_def load_rules_def sort_rules_def new_rules_engine_def Let_def)

lemma dry_run_never_matches_witness:
  "rules_inspect demo_rules_env (demo_table\<lparr>re_dry_run := True\<rparr>) demo_field = no_match"
  by (rule dry_run_never_matches) simp

lemma lookup_right_iff_load_sorted_witness:
  "\<not> (\<forall>r\<in>set [demo_rule ''b'' 1, demo_rule ''a'' 1].
        map_option ru_id (get_rule demo_table (ru_id r)) = Some (ru_id r))"
  unfolding demo_table_def
  by (subst lookup_right_iff_load_sorted) (simp_all add: demo_rule_def rule_key_def less_char_def)

lemma deleted_rule_never_fires_witness:
  "get_rule (projr (delete_rule ''a'' demo_table)) ''a'' = None"
proof -
  have "delete_rule ''a'' demo_table = Inr (projr (delete_rule ''a'' demo_table))"
    by (simp add: delete_rule_def demo_table_def load_rules_def sort_rules_def Let_def demo_rule_def
        compile_rule_def is_regex_op_def)
  from deleted_rule_never_fires [OF this] show ?thesis by blast
qed

lemma builtin_rules_mostly_dead_witness:
  "rdec_rule_id (rules_inspect demo_rules_env (load_rules demo_rules_env default_rules (new_rules_engine False)) demo_field)
   = ''PLATFORM003''"
proof (rule builtin_rules_mostly_dead)
  show "rdec_matched (rules_inspect demo_rules_env (load_rules demo_rules_env default_rules (new_rules_engine False)) demo_field)"
    by code_simp
qed

end
