(* ===== verification/WebSocket.thy ===== *)
theory WebSocket
  imports WafTypes "HOL-Library.Word"
begin

unbundle bit_operations_syntax

text \<open>
  WebSocket inspection, \<^verbatim>\<open>internal/engine/websocket.go\<close>: the upgrade check with its frame statistics,
  the checks of a message, the origin check, and the frame parser on bytes and 64-bit lengths.
\<close>

section \<open>State\<close>

record frame_stats =
  fs_count :: int
  fs_bytes :: int
  fs_last_seen :: gotime
  fs_types :: "int \<rightharpoonup> int"

record ws_inspector =
  ws_max_frame_size :: int
  ws_max_message_size :: int
  ws_max_depth :: int
  ws_max_frames_per_min :: int
  ws_max_bytes_per_min :: int
  ws_block_on_limit :: bool
  ws_frame_log :: "string \<rightharpoonup> frame_stats"
  ws_allowed_types :: "int \<Rightarrow> bool"
  ws_strict_mode :: bool
  ws_enable_ping :: bool
  ws_enable_pong :: bool
  ws_enable_close :: bool

record ws_config =
  wc_max_frame_size :: int
  wc_max_message_size :: int
  wc_max_depth :: int
  wc_max_frames_per_min :: int
  wc_max_bytes_per_min :: int
  wc_block_on_limit :: bool
  wc_allowed_types :: "int list"
  wc_strict_mode :: bool
  wc_enable_ping :: bool
  wc_enable_pong :: bool
  wc_enable_close :: bool

abbreviation (input) text_message :: int where "text_message \<equiv> 1"
abbreviation (input) binary_message :: int where "binary_message \<equiv> 2"
abbreviation (input) close_message :: int where "close_message \<equiv> 8"
abbreviation (input) ping_message :: int where "ping_message \<equiv> 9"
abbreviation (input) pong_message :: int where "pong_message \<equiv> 10"

definition new_ws_inspector :: "ws_config \<Rightarrow> ws_inspector" where
  "new_ws_inspector cfg =
     \<lparr>ws_max_frame_size = wc_max_frame_size cfg, ws_max_message_size = wc_max_message_size cfg,
      ws_max_depth = wc_max_depth cfg, ws_max_frames_per_min = wc_max_frames_per_min cfg,
      ws_max_bytes_per_min = wc_max_bytes_per_min cfg, ws_block_on_limit = wc_block_on_limit cfg,
      ws_frame_log = Map.empty,
      ws_allowed_types = (\<lambda>t. if wc_allowed_types cfg = [] then t = text_message \<or> t = binary_message
                              else t \<in> set (wc_allowed_types cfg)),
      ws_strict_mode = wc_strict_mode cfg, ws_enable_ping = wc_enable_ping cfg,
      ws_enable_pong = wc_enable_pong cfg, ws_enable_close = wc_enable_close cfg\<rparr>"

section \<open>Inspection\<close>

definition is_websocket :: "reqctx \<Rightarrow> bool" where
  "is_websocket c =
     (contains (to_lower (ctx_header c ''Upgrade'')) ''websocket''
      \<and> contains (to_lower (ctx_header c ''Connection'')) ''upgrade''
      \<and> ctx_header c ''Sec-Websocket-Key'' \<noteq> [] \<and> ctx_header c ''Sec-Websocket-Version'' = ''13'')"

definition get_stats :: "gotime \<Rightarrow> string \<Rightarrow> ws_inspector \<Rightarrow> ws_inspector \<times> frame_stats" where
  "get_stats now ip w =
     (let st = (case ws_frame_log w ip of
                  Some st \<Rightarrow> st
                | None \<Rightarrow> \<lparr>fs_count = 0, fs_bytes = 0, fs_last_seen = zero_time, fs_types = Map.empty\<rparr>);
          st' = (if minute < time_sub now (fs_last_seen st) then st\<lparr>fs_count := 0, fs_bytes := 0\<rparr> else st)
      in (w\<lparr>ws_frame_log := (ws_frame_log w)(ip \<mapsto> st')\<rparr>, st'))"

definition ws_inspect :: "ws_inspector inspector" where
  "ws_inspect now sc =
     (let (w, c) = sc in
      if \<not> is_websocket c then ((w, c), IDec allow_decision)
      else
        let (w', st) = get_stats now (c_real_ip c) w;
            ev = Fmt ''frames_per_min=%d, limit=%d'' [AInt (fs_count st), AInt (ws_max_frames_per_min w)]
        in ((w', c),
            if 0 < ws_max_frames_per_min w \<and> ws_max_frames_per_min w < fs_count st
            then (if ws_block_on_limit w
                  then IDec (mk_decision ActionBlock ''WS-001'' ''WebSocket frame rate limit exceeded'' ''high'' 80 ev)
                  else IDec (mk_decision ActionMonitor ''WS-001'' ''WebSocket frame rate limit exceeded'' ''medium'' 40 ev))
            else IDec allow_decision))"

record ws_frame =
  fr_type :: int
  fr_payload :: string
  fr_finished :: bool

definition injection_patterns :: "string list" where
  "injection_patterns = [''<script'', ''javascript:'', ''onerror='', ''onload='', ''onclick='', ''onmouseover='',
     ''eval('', ''document.'', ''window.'', ''expression('', ''url('', ''href='']"

definition check_injection :: "string \<Rightarrow> decision option" where
  "check_injection payload =
     first_some (\<lambda>p. if contains (to_lower payload) p
        then Some (mk_decision ActionBlock ''WS-INJ-001'' ''WebSocket injection pattern detected'' ''critical'' 95
                     (Fmt ''pattern=%s'' [AStr p]))
        else None) injection_patterns"

fun json_depth_loop :: "int \<Rightarrow> int \<Rightarrow> string \<Rightarrow> decision option" where
  "json_depth_loop limit nested [] = None"
| "json_depth_loop limit nested (b # bs) =
     (if b = CHR ''{'' \<or> b = CHR ''['' then
        (if limit < nested + 1
         then Some (mk_decision ActionBlock ''WS-JSON-001'' ''WebSocket JSON depth exceeded'' ''high'' 75
                      (Fmt ''depth=%d, limit=%d'' [AInt (nested + 1), AInt limit]))
         else json_depth_loop limit (nested + 1) bs)
      else json_depth_loop limit nested bs)"

definition check_json_depth :: "ws_inspector \<Rightarrow> string \<Rightarrow> decision option" where
  "check_json_depth w payload = json_depth_loop (ws_max_depth w) 0 payload"

definition count_frame :: "gotime \<Rightarrow> ws_frame \<Rightarrow> frame_stats \<Rightarrow> frame_stats" where
  "count_frame now f st =
     st\<lparr>fs_count := fs_count st + 1, fs_bytes := fs_bytes st + int (length (fr_payload f)),
        fs_last_seen := now, fs_types := (fs_types st)(fr_type f \<mapsto> map_get (fs_types st) (fr_type f) 0 + 1)\<rparr>"

definition message_verdict :: "ws_inspector \<Rightarrow> ws_frame \<Rightarrow> decision" where
  "message_verdict w f =
     (let size = int (length (fr_payload f)) in
      if fr_type f = close_message \<and> \<not> ws_enable_close w
      then mk_decision ActionBlock ''WS-002'' ''WebSocket close not allowed'' ''medium'' 50 (Lit [])
      else if fr_type f = ping_message \<and> \<not> ws_enable_ping w
      then mk_decision ActionBlock ''WS-003'' ''WebSocket PING not allowed'' ''low'' 30 (Lit [])
      else if fr_type f = pong_message \<and> \<not> ws_enable_pong w
      then mk_decision ActionBlock ''WS-004'' ''WebSocket PONG not allowed'' ''low'' 30 (Lit [])
      else if \<not> ws_allowed_types w (fr_type f)
      then mk_decision ActionBlock ''WS-005'' ''WebSocket message type not allowed'' ''high'' 75
             (Fmt ''type=%d'' [AInt (fr_type f)])
      else if ws_max_frame_size w < size
      then mk_decision ActionBlock ''WS-006'' ''WebSocket frame size exceeded'' ''high'' 70
             (Fmt ''frame_size=%d, limit=%d'' [AInt size, AInt (ws_max_frame_size w)])
      else
        case first_of
               [if ws_strict_mode w \<and> fr_type f = text_message then check_injection (fr_payload f) else None,
                if 0 < ws_max_depth w \<and> fr_type f = text_message then check_json_depth w (fr_payload f) else None]
        of Some d \<Rightarrow> d | None \<Rightarrow> allow_decision)"

definition inspect_message :: "gotime \<Rightarrow> reqctx \<Rightarrow> ws_frame \<Rightarrow> ws_inspector \<Rightarrow> ws_inspector \<times> decision" where
  "inspect_message now c f w =
     (let (w', st) = get_stats now (c_real_ip c) w
      in (w'\<lparr>ws_frame_log := (ws_frame_log w')(c_real_ip c \<mapsto> count_frame now f st)\<rparr>, message_verdict w f))"

text \<open>The \<^verbatim>\<open>CheckOrigin\<close> function of \<^verbatim>\<open>Upgrader\<close>.\<close>

definition check_origin :: "string list \<Rightarrow> string \<Rightarrow> bool" where
  "check_origin allowed origin =
     (if allowed = [] then True else if origin = [] then True
      else \<exists>a\<in>set allowed. equal_fold origin a \<or> contains origin a)"

section \<open>Parsing of frames\<close>

text \<open>
  A parse gives an error or a frame (final flag, opcode, payload), or panics. It unmasks the
  payload in place: the second component is the buffer afterwards.
\<close>

record raw_frame =
  rf_type :: nat
  rf_payload :: "8 word list"
  rf_finished :: bool

definition be_int16 :: "8 word list \<Rightarrow> 64 word" where
  "be_int16 d = push_bit 8 (ucast (d ! 0)) OR ucast (d ! 1)"

definition be_int64 :: "8 word list \<Rightarrow> 64 word" where
  "be_int64 d =
     push_bit 56 (ucast (d ! 0)) OR push_bit 48 (ucast (d ! 1)) OR push_bit 40 (ucast (d ! 2))
     OR push_bit 32 (ucast (d ! 3)) OR push_bit 24 (ucast (d ! 4)) OR push_bit 16 (ucast (d ! 5))
     OR push_bit 8 (ucast (d ! 6)) OR ucast (d ! 7)"

fun unmask :: "8 word list \<Rightarrow> nat \<Rightarrow> 8 word list \<Rightarrow> 8 word list" where
  "unmask key i [] = []"
| "unmask key i (b # bs) = (b XOR key ! (i mod 4)) # unmask key (Suc i) bs"

text \<open>The length field: the 64-bit \<^verbatim>\<open>int\<close> payload length and the offset after it, or an error.\<close>

definition frame_length :: "8 word list \<Rightarrow> gotext + (64 word \<times> nat)" where
  "frame_length d =
     (let n = d ! 1 AND 0x7F in
      if n = 126 then
        (if length d < 4 then Inl (Lit ''invalid extended length'') else Inr (be_int16 (drop 2 d), 4))
      else if n = 127 then
        (if length d < 10 then Inl (Lit ''invalid extended length'') else Inr (be_int64 (drop 2 d), 10))
      else Inr (ucast n, 2))"

definition is_masked :: "8 word list \<Rightarrow> bool" where
  "is_masked d = (d ! 1 AND 0x80 \<noteq> 0)"

definition parse_frame :: "8 word list \<Rightarrow> go_panic + (gotext + (raw_frame \<times> 8 word list))" where
  "parse_frame d =
     (if length d < 2 then Inr (Inl (Lit ''frame too small''))
      else
        case frame_length d of
          Inl e \<Rightarrow> Inr (Inl e)
        | Inr (plen, i0) \<Rightarrow>
            (let idx = (if is_masked d then i0 + 4 else i0);
                 stop = sint (of_nat idx + plen)
             in if int (length d) < stop then Inr (Inl (Lit ''unexpected EOF''))
                else if stop < int idx then Inl SliceBounds
                else
                  let raw = take (nat stop - idx) (drop idx d);
                      payload = (if is_masked d then unmask (drop (idx - 4) d) 0 raw else raw)
                  in Inr (Inr (\<lparr>rf_type = unat (d ! 0 AND 0x0F), rf_payload = payload,
                               rf_finished = (d ! 0 AND 0x80 \<noteq> 0)\<rparr>,
                             take idx d @ payload @ drop (nat stop) d))))"

section \<open>Bits and bytes\<close>

lemma and_80: "(x :: 8 word) AND 0x80 \<noteq> 0 \<longleftrightarrow> bit x 7"
  using and_exp_eq_0_iff_not_bit [of x 7] by simp

lemma and_7f: "(x :: 8 word) AND 0x7F = take_bit 7 x"
  by (simp add: take_bit_eq_mask mask_eq_decr_exp)

lemma and_0f: "(x :: 8 word) AND 0x0F = take_bit 4 x"
  by (simp add: take_bit_eq_mask mask_eq_decr_exp)

lemma take_bit_of_nat_byte: "n < 2 ^ m \<Longrightarrow> m \<le> 8 \<Longrightarrow> take_bit m (of_nat n :: 8 word) = of_nat n"
  by (metis of_nat_take_bit take_bit_nat_eq_self)

lemma not_bit_of_nat_byte: "n < 128 \<Longrightarrow> \<not> bit (of_nat n :: 8 word) 7"
  using take_bit_of_nat_byte [of n 7] bit_take_bit_iff [of 7 "of_nat n :: 8 word" 7] by simp

lemma ucast_byte: "(ucast (ucast (x :: 64 word) :: 8 word) :: 64 word) = take_bit 8 x"
  by (rule bit_word_eqI) (auto simp: bit_simps)

lemma join_bytes: "push_bit k (take_bit 8 (drop_bit k x)) OR take_bit k x = take_bit (k + 8) (x :: 64 word)"
  by (rule bit_word_eqI) (auto simp: bit_simps)

lemma be_int64_bytes:
  "be_int64 (ucast (drop_bit 56 x) # ucast (drop_bit 48 x) # ucast (drop_bit 40 x) # ucast (drop_bit 32 x) #
     ucast (drop_bit 24 x) # ucast (drop_bit 16 x) # ucast (drop_bit 8 x) # ucast (x :: 64 word) # xs) = x"
  using join_bytes [of 8 x] join_bytes [of 16 x] join_bytes [of 24 x] join_bytes [of 32 x]
    join_bytes [of 40 x] join_bytes [of 48 x] join_bytes [of 56 x]
  by (simp add: be_int64_def ucast_byte take_bit_word_beyond_length_eq)

lemma unat_eq_imp: "unat (x :: 64 word) = unat y \<Longrightarrow> x = y"
  by (rule unsigned_word_eqI)

lemma unat_small64: "n < 2 ^ 64 \<Longrightarrow> unat (of_nat n :: 64 word) = n"
  by (simp add: unat_of_nat take_bit_nat_eq_self)

lemma be_int16_bytes: "n < 65536 \<Longrightarrow> be_int16 (of_nat (n div 256) # of_nat n # xs) = of_nat n"
proof -
  assume n: "n < 65536"
  have cast: "(ucast (of_nat m :: 8 word) :: 64 word) = take_bit 8 (of_nat m)" for m
    by (rule bit_word_eqI) (auto simp: bit_simps)
  have hi: "(of_nat (n div 256) :: 64 word) = drop_bit 8 (of_nat n)"
  proof (rule unat_eq_imp)
    show "unat (of_nat (n div 256) :: 64 word) = unat (drop_bit 8 (of_nat n :: 64 word))"
      using n by (simp only: unsigned_drop_bit_eq unat_small64) (simp add: unat_small64 drop_bit_eq_div take_bit_nat_eq_self)
  qed
  have all: "take_bit 16 (of_nat n :: 64 word) = of_nat n"
    using n by (intro unat_eq_imp) (simp add: unsigned_take_bit_eq unat_small64 take_bit_nat_eq_self)
  have "be_int16 (of_nat (n div 256) # of_nat n # xs)
    = push_bit 8 (take_bit 8 (of_nat (n div 256))) OR take_bit 8 (of_nat n)"
    unfolding be_int16_def nth_Cons_0 nth_Cons_Suc One_nat_def cast ..
  also have "\<dots> = take_bit (8 + 8) (of_nat n)" unfolding hi by (rule join_bytes)
  finally show ?thesis using all by simp
qed

lemma unmask_unmask: "unmask key i (unmask key i bs) = bs"
  by (induction key i bs rule: unmask.induct) (simp_all add: xor.assoc)

lemma length_unmask [simp]: "length (unmask key i bs) = length bs"
  by (induction key i bs rule: unmask.induct) simp_all

lemma unmask_append_key: "length key = 4 \<Longrightarrow> unmask (key @ xs) i bs = unmask key i bs"
  by (induction key i bs rule: unmask.induct) (simp_all add: nth_append)

section \<open>Parsing inverts framing\<close>

text \<open>The encoding of a frame that RFC 6455 prescribes, with the shortest length field.\<close>

definition encode_length :: "nat \<Rightarrow> 8 word \<times> 8 word list" where
  "encode_length n =
     (if n < 126 then (of_nat n, [])
      else if n < 65536 then (126, [of_nat (n div 256), of_nat n])
      else (127, map (\<lambda>k. ucast (drop_bit k (of_nat n :: 64 word))) [56, 48, 40, 32, 24, 16, 8, 0]))"

definition rfc_mask :: "8 word list \<Rightarrow> 8 word list \<Rightarrow> 8 word list" where
  "rfc_mask key payload = map (\<lambda>i. payload ! i XOR key ! (i mod 4)) [0..<length payload]"

lemma unmask_nth: "j < length bs \<Longrightarrow> unmask key i bs ! j = bs ! j XOR key ! ((i + j) mod 4)"
proof (induction key i bs arbitrary: j rule: unmask.induct)
  case (2 key i b bs)
  then show ?case by (cases j) simp_all
qed simp

lemma rfc_mask_unmask: "rfc_mask key payload = unmask key 0 payload"
  by (rule nth_equalityI) (simp_all add: rfc_mask_def unmask_nth)

definition encode_frame :: "bool \<Rightarrow> nat \<Rightarrow> 8 word list \<Rightarrow> 8 word list \<Rightarrow> 8 word list" where
  "encode_frame fin opcode key payload =
     (let (n7, ext) = encode_length (length payload)
      in [(if fin then 0x80 else 0) OR of_nat opcode, (if key \<noteq> [] then 0x80 else 0) OR n7] @ ext @ key
         @ (if key \<noteq> [] then rfc_mask key payload else payload))"

lemma encode_length_7:
  "encode_length n = (n7, ext) \<Longrightarrow> take_bit 7 n7 = n7 \<and> \<not> bit n7 7"
  by (auto simp: encode_length_def take_bit_of_nat_byte not_bit_of_nat_byte split: if_splits)

lemma frame_length_encode:
  assumes "encode_length n = (n7, ext)" "l AND 0x7F = n7" "n < 2 ^ 63"
  shows "frame_length (h # l # ext @ rest) = Inr (of_nat n, 2 + length ext)"
proof -
  consider (a) "n < 126" | (b) "126 \<le> n" "n < 65536" | (c) "65536 \<le> n" by linarith
  then show ?thesis
  proof cases
    case a
    then have n7: "n7 = of_nat n" and "ext = []" using assms(1) by (auto simp: encode_length_def)
    have "unat n7 = n" using a by (simp add: n7 unat_of_nat take_bit_nat_eq_self)
    then have "unat n7 \<noteq> unat (126 :: 8 word)" "unat n7 \<noteq> unat (127 :: 8 word)" using a by simp_all
    then have "n7 \<noteq> 126" "n7 \<noteq> 127" by blast+
    moreover have "ucast n7 = (of_nat n :: 64 word)"
      using a by (simp add: n7 unsigned_of_nat take_bit_nat_eq_self)
    ultimately show ?thesis using assms \<open>ext = []\<close> by (simp add: frame_length_def Let_def)
  next
    case b
    with assms show ?thesis by (auto simp: frame_length_def Let_def encode_length_def be_int16_bytes)
  next
    case c
    with assms show ?thesis by (auto simp: frame_length_def Let_def encode_length_def be_int64_bytes)
  qed
qed

lemma sint_small: "n < 2 ^ 63 \<Longrightarrow> sint (of_nat n :: 64 word) = int n"
  by (simp add: signed_of_nat signed_take_bit_int_eq_self)

text \<open>Property C11. Parsing inverts the framing of RFC 6455: a frame of any opcode, with or without a
  mask, in each of the three length formats, comes back with its opcode, its final flag and its
  unmasked payload.\<close>

theorem parse_encode:
  assumes "opcode < 16" "length payload + 14 < 2 ^ 63" "key = [] \<or> length key = 4"
  shows "map_sum id (map_sum id fst) (parse_frame (encode_frame fin opcode key payload))
    = Inr (Inr \<lparr>rf_type = opcode, rf_payload = payload, rf_finished = fin\<rparr>)"
proof -
  obtain n7 ext where enc: "encode_length (length payload) = (n7, ext)" by fastforce
  let ?hi = "(if fin then 0x80 else 0) OR of_nat opcode :: 8 word" and ?lo = "(if key \<noteq> [] then 0x80 else 0) OR n7"
  let ?body = "if key \<noteq> [] then unmask key 0 payload else payload"
  let ?buf = "?hi # ?lo # ext @ key @ ?body"
  have d: "encode_frame fin opcode key payload = ?buf" using enc by (simp add: encode_frame_def rfc_mask_unmask)
  have n7: "take_bit 7 n7 = n7" "\<not> bit n7 7" using encode_length_7 [OF enc] by auto
  have "?lo AND 0x7F = n7" using n7 by (simp add: and_7f)
  then have fl: "frame_length ?buf = Inr (of_nat (length payload), 2 + length ext)"
    using frame_length_encode [OF enc, where l = ?lo and h = ?hi and rest = "key @ ?body"] assms(2) by simp
  have masked: "is_masked ?buf \<longleftrightarrow> key \<noteq> []" using n7 by (simp add: is_masked_def and_80 bit_simps)
  have fin: "?hi AND 0x80 \<noteq> 0 \<longleftrightarrow> fin"
    using not_bit_of_nat_byte [of opcode] assms(1) by (auto simp: and_80 bit_or_iff)
  have opc: "unat (?hi AND 0x0F) = opcode"
    using assms(1) take_bit_of_nat_byte [of opcode 4] by (simp add: and_0f unat_of_nat take_bit_nat_eq_self)
  have ext: "length ext \<le> 8" using enc by (auto simp: encode_length_def split: if_splits)
  define idx where "idx = 2 + length ext + length key"
  have stop: "sint (of_nat idx + of_nat (length payload) :: 64 word) = int (idx + length payload)"
  proof -
    have "idx + length payload < 2 ^ 63" using assms(2,3) ext by (auto simp: idx_def)
    then show ?thesis by (simp only: sint_small flip: of_nat_add)
  qed
  have idx': "(if is_masked ?buf then 2 + length ext + 4 else 2 + length ext) = idx"
    using assms(3) masked by (auto simp: idx_def)
  have len: "length ?buf = idx + length payload" by (simp add: idx_def)
  have parts: "drop idx ?buf = ?body" "drop (idx - 4) ?buf = key @ ?body \<or> key = []"
    using assms(3) by (auto simp: idx_def)
  show ?thesis unfolding d parse_frame_def fl Let_def 
    using masked fin opc stop len parts idx'
    by (cases "key = []") (auto simp: unmask_unmask unmask_append_key)
qed

theorem parse_encode_witness:
  "map_sum id (map_sum id fst) (parse_frame (encode_frame True 1 [1, 2, 3, 4] [72, 105]))
    = Inr (Inr \<lparr>rf_type = 1, rf_payload = [72, 105], rf_finished = True\<rparr>)"
  by (rule parse_encode) simp_all

section \<open>When the parser panics\<close>

lemma mod_shift:
  assumes "0 \<le> u" "u < 2 * m"
  shows "(u + m) mod (2 * m) = (if u < m then u + m else u - (m :: int))"
proof (cases "u < m")
  case False
  have "(u + m) mod (2 * m) = (u - m + 2 * m) mod (2 * m)" by (simp add: algebra_simps)
  also have "\<dots> = u - m" using False assms by (simp only: mod_add_self2) (simp add: mod_pos_pos_trivial)
  finally show ?thesis using False by simp
qed (use assms in \<open>simp add: mod_pos_pos_trivial\<close>)

lemma sint_unat: "sint (w :: 64 word) = (if unat w < 2 ^ 63 then int (unat w) else int (unat w) - 2 ^ 64)"
proof -
  define P where "P = (2 :: int) ^ 63"
  have u: "0 \<le> uint w" "uint w < 2 * P" using uint_lt2p [of w] by (simp_all add: P_def)
  have "sint w = signed_take_bit 63 (uint w)" by (simp add: sint_uint)
  also have "\<dots> = (uint w + P) mod (2 * P) - P"
    unfolding signed_take_bit_eq_take_bit_shift take_bit_eq_mod P_def by (simp only: power_Suc)
  also have "\<dots> = (if uint w < P then uint w else uint w - 2 * P)" unfolding mod_shift [OF u] by simp
  finally have s: "sint w = (if uint w < P then uint w else uint w - 2 * P)" .
  obtain n where n: "n = unat w" by simp
  then have "uint w = int n" by simp
  moreover have "int n < P \<longleftrightarrow> n < 2 ^ 63" by (simp add: P_def)
  moreover have "2 * P = 2 ^ 64" by (simp add: P_def)
  ultimately show ?thesis using s by (simp only: n)
qed

lemma unat_add_idx: "i < 2 ^ 63 \<Longrightarrow> unat (of_nat i + w :: 64 word) = (i + unat w) mod 2 ^ 64"
  by (simp add: unat_word_ariths unat_small64)

lemma be_int16_less: "unat (be_int16 d) < 65536"
proof -
  let ?n = "256 * unat (d ! 0) + unat (d ! 1)"
  have b: "unat (d ! 0) < 256" "unat (d ! 1) < 256" using unsigned_less [of "d ! 0"] unsigned_less [of "d ! 1"] by simp_all
  have z: "(256 :: 8 word) = 0" by simp
  have "be_int16 d = be_int16 (of_nat (?n div 256) # of_nat ?n # [])"
    using b by (simp add: be_int16_def z)
  also have "\<dots> = of_nat ?n" using b by (intro be_int16_bytes) simp
  moreover have "?n < 2 ^ 64" using b by simp
  ultimately have "unat (be_int16 d) = ?n" by (simp only: unat_small64)
  then show ?thesis using b by simp
qed

definition length_field :: "8 word list \<Rightarrow> nat" where
  "length_field d = unat (be_int64 (drop 2 d))"

lemma parse_frame_panic_stop:
  assumes "2 \<le> length d" "frame_length d = Inr (plen, i0)"
  shows "(\<exists>p. parse_frame d = Inl p) \<longleftrightarrow>
    (let idx = (if is_masked d then i0 + 4 else i0); stop = sint (of_nat idx + plen :: 64 word)
     in stop \<le> int (length d) \<and> stop < int idx)"
  using assms by (simp add: parse_frame_def Let_def not_less)

text \<open>Property C12. A peer can crash the parser: on a buffer of at least 14 bytes it panics exactly
  when the frame uses the 64-bit length format and the length, taken as unsigned, plus the size of
  the frame's header reaches 2^63, so that the end of the payload is computed as a negative number.\<close>

theorem frame_panic_iff:
  assumes "14 \<le> length d"
  shows "(\<exists>p. parse_frame d = Inl p) \<longleftrightarrow>
    d ! 1 AND 0x7F = 127 \<and> 2 ^ 63 \<le> length_field d + (if is_masked d then 14 else 10)"
proof -
  obtain plen i0 where fl: "frame_length d = Inr (plen, i0)" using assms by (cases "frame_length d") (auto simp: frame_length_def Let_def split: if_splits)
  define idx where "idx = (if is_masked d then i0 + 4 else i0)"
  have idx: "idx \<le> 14" using fl assms by (auto simp: idx_def frame_length_def Let_def split: if_splits)
  have panic: "(\<exists>p. parse_frame d = Inl p) \<longleftrightarrow>
      sint (of_nat idx + plen) \<le> int (length d) \<and> sint (of_nat idx + plen) < int idx"
    using parse_frame_panic_stop [OF _ fl] assms by (simp add: Let_def idx_def)
  have sum: "unat (of_nat idx + plen) = (idx + unat plen) mod 2 ^ 64" using idx by (intro unat_add_idx) simp
  show ?thesis
  proof (cases "d ! 1 AND 0x7F = 127")
    case False
    have "unat (ucast (d ! 1 AND 0x7F) :: 64 word) < 65536"
    proof -
      have "unat (d ! 1 AND 0x7F) < 256" using unsigned_less [of "d ! 1 AND 0x7F", where ?'a = nat] by simp
      then show ?thesis by (simp add: unsigned_ucast_eq take_bit_nat_eq_self)
    qed
    then have "unat plen < 65536"
      using False fl assms be_int16_less by (auto simp: frame_length_def Let_def split: if_splits)
    with idx have "sint (of_nat idx + plen) = int (idx + unat plen)" by (simp add: sint_unat sum)
    with False panic show ?thesis by simp
  next
    case True
    then have p: "unat plen = length_field d" "idx = (if is_masked d then 14 else 10)"
      using fl assms by (auto simp: frame_length_def length_field_def idx_def Let_def split: if_splits)
    have lt: "unat plen < 2 ^ 64" using unsigned_less [of plen] by simp
    show ?thesis
    proof (cases "idx + unat plen < 2 ^ 64")
      case True
      then have "sint (of_nat idx + plen) = (if idx + unat plen < 2 ^ 63 then int (idx + unat plen) else int (idx + unat plen) - 2 ^ 64)"
        by (simp add: sint_unat sum)
      with True panic p \<open>d ! 1 AND 0x7F = 127\<close> show ?thesis by (auto split: if_splits)
    next
      case False
      then have "(idx + unat plen) mod 2 ^ 64 = idx + unat plen - 2 ^ 64"
        using lt idx by (simp add: le_mod_geq)
      moreover have "idx + unat plen - 2 ^ 64 < 2 ^ 63" using lt idx by simp
      ultimately have "sint (of_nat idx + plen) = int (idx + unat plen - 2 ^ 64)" by (simp only: sint_unat sum if_True)
      then have "sint (of_nat idx + plen) = int (idx + unat plen) - 2 ^ 64" using False by (simp add: of_nat_diff)
      with False panic p \<open>d ! 1 AND 0x7F = 127\<close> lt idx assms show ?thesis by (auto split: if_splits)
    qed
  qed
qed

definition crash_frame :: "8 word list" where
  "crash_frame = [0x82, 0xFF, 0x80, 0, 0, 0, 0, 0, 0, 0, 0, 0, 0, 0]"

lemma crash_frame_length: "be_int64 (drop 2 crash_frame) = 0x8000000000000000"
proof -
  have "be_int64 (drop 2 crash_frame) = push_bit 56 (ucast (0x80 :: 8 word))"
    by (simp add: crash_frame_def be_int64_def del: push_bit_numeral)
  also have "\<dots> = 0x8000000000000000" by code_simp
  finally show ?thesis .
qed

theorem frame_panic_iff_witness: "\<exists>p. parse_frame crash_frame = Inl p"
proof (rule frame_panic_iff [THEN iffD2])
  show "14 \<le> length crash_frame" by (simp add: crash_frame_def)
  show "crash_frame ! 1 AND 0x7F = 127 \<and> 2 ^ 63 \<le> length_field crash_frame + (if is_masked crash_frame then 14 else 10)"
    unfolding length_field_def crash_frame_length by (simp add: crash_frame_def)
qed

section \<open>Checks of a message\<close>

definition opening_brackets :: "string \<Rightarrow> nat" where
  "opening_brackets s = length (filter (\<lambda>b. b = CHR ''{'' \<or> b = CHR ''['') s)"

lemma json_depth_loop_None_iff:
  "n \<le> limit \<Longrightarrow> json_depth_loop limit n s = None \<longleftrightarrow> n + int (opening_brackets s) \<le> limit"
proof (induction limit n s rule: json_depth_loop.induct)
  case (2 limit n b bs)
  then show ?case by (cases "b = CHR ''{'' \<or> b = CHR ''[''") (simp_all add: opening_brackets_def add.assoc)
qed (simp add: opening_brackets_def)

text \<open>What the code calls the JSON depth of a message is the number of its opening
  brackets, nested or not: the check blocks exactly if there are more of them than the limit,
  so a flat array of objects is refused as too deep.\<close>

lemma json_depth_counts_brackets:
  assumes "0 < ws_max_depth w"
  shows "check_json_depth w payload \<noteq> None
    \<longleftrightarrow> ws_max_depth w < int (opening_brackets payload)"
  using assms by (simp add: check_json_depth_def json_depth_loop_None_iff not_le)

definition demo_ws :: ws_inspector where
  "demo_ws = new_ws_inspector \<lparr>wc_max_frame_size = 100, wc_max_message_size = 100, wc_max_depth = 2,
     wc_max_frames_per_min = 10, wc_max_bytes_per_min = 100, wc_block_on_limit = True, wc_allowed_types = [],
     wc_strict_mode = True, wc_enable_ping = True, wc_enable_pong = True, wc_enable_close = True\<rparr>"

lemma json_depth_counts_brackets_witness: "check_json_depth demo_ws ''[{},{}]'' \<noteq> None"
  by (subst json_depth_counts_brackets) (simp_all add: demo_ws_def new_ws_inspector_def opening_brackets_def)

interpretation ws: inspector ws_inspect
  by unfold_locales (auto simp: ws_inspect_def Let_def ctx_frame_def score_ok_def split: prod.splits if_splits)

end
