(* ===== verification/DDoS.thy ===== *)
theory DDoS
  imports WafTypes WindowCounter "HOL-Library.Sublist"
begin

text \<open>
  Flood and slow-request protection, \<^verbatim>\<open>internal/engine/ddos.go\<close>. A counter is its list of instants (its
  other fields are never read); one request is served at one instant \<open>now\<close>.
\<close>

section \<open>State and operations\<close>

record ddos =
  dd_global_rate :: int
  dd_per_ip_rate :: int
  dd_per_endpoint_rate :: int
  dd_per_session_rate :: int
  dd_burst_allowance :: int
  dd_window_size :: duration
  dd_ip :: "string \<rightharpoonup> gotime list"
  dd_session :: "string \<rightharpoonup> gotime list"
  dd_endpoint :: "string \<rightharpoonup> gotime list"
  dd_slow_loris :: "string \<rightharpoonup> gotime"
  dd_slow_post :: "string \<rightharpoonup> gotime"
  dd_global :: "gotime list"

definition new_ddos :: ddos where
  "new_ddos = \<lparr>dd_global_rate = 10000, dd_per_ip_rate = 100, dd_per_endpoint_rate = 500,
     dd_per_session_rate = 200, dd_burst_allowance = 20, dd_window_size = second, dd_ip = Map.empty,
     dd_session = Map.empty, dd_endpoint = Map.empty, dd_slow_loris = Map.empty, dd_slow_post = Map.empty,
     dd_global = []\<rparr>"

definition check_rate :: "duration \<Rightarrow> int \<Rightarrow> gotime \<Rightarrow> gotime list \<Rightarrow> gotime list \<times> bool" where
  "check_rate window limit now ts =
     (let valid = prune (now - window) ts
      in if limit \<le> int (length valid) then (valid, False) else (valid @ [now], True))"

definition flood :: "string \<Rightarrow> string \<Rightarrow> string \<Rightarrow> rat \<Rightarrow> gotext \<Rightarrow> decision" where
  "flood rid name sev score ev = mk_decision ActionRateLimit rid name sev score ev"

definition check_global_rate :: "gotime \<Rightarrow> ddos \<Rightarrow> ddos \<times> decision option" where
  "check_global_rate now d =
     (let (ts, ok) = check_rate (dd_window_size d) (dd_global_rate d) now (dd_global d)
      in (d\<lparr>dd_global := ts\<rparr>,
          if ok then None
          else Some (flood ''DDoS000'' ''HTTP Flood - Global'' ''critical'' 90
                 (Fmt ''global rate limit exceeded: %d req/s'' [AInt (dd_global_rate d)]))))"

definition check_ip_rate :: "gotime \<Rightarrow> string \<Rightarrow> ddos \<Rightarrow> ddos \<times> decision option" where
  "check_ip_rate now ip d =
     (let (ts, ok) = check_rate (dd_window_size d) (dd_per_ip_rate d) now (map_get (dd_ip d) ip [])
      in (d\<lparr>dd_ip := (dd_ip d)(ip \<mapsto> ts)\<rparr>,
          if ok then None
          else Some (flood ''DDoS001'' ''HTTP Flood - IP'' ''high'' 65
                 (Fmt ''IP %s exceeded rate limit: %d req/s'' [AStr ip, AInt (dd_per_ip_rate d)]))))"

definition check_endpoint_rate :: "gotime \<Rightarrow> string \<Rightarrow> ddos \<Rightarrow> ddos \<times> decision option" where
  "check_endpoint_rate now path d =
     (let (ts, ok) = check_rate (dd_window_size d) (dd_per_endpoint_rate d) now (map_get (dd_endpoint d) path [])
      in (d\<lparr>dd_endpoint := (dd_endpoint d)(path \<mapsto> ts)\<rparr>,
          if ok then None
          else Some (flood ''DDoS002'' ''HTTP Flood - Endpoint'' ''high'' 60
                 (Fmt ''Endpoint %s exceeded rate: %d req/s'' [AStr path, AInt (dd_per_endpoint_rate d)]))))"

definition check_session_rate :: "gotime \<Rightarrow> string \<Rightarrow> ddos \<Rightarrow> ddos \<times> decision option" where
  "check_session_rate now sid d =
     (if sid = [] then (d, None)
      else
        let (ts, ok) = check_rate (dd_window_size d) (dd_per_session_rate d) now (map_get (dd_session d) sid [])
        in (d\<lparr>dd_session := (dd_session d)(sid \<mapsto> ts)\<rparr>,
            if ok then None
            else Some (flood ''DDoS003'' ''HTTP Flood - Session'' ''medium'' 50
                   (Fmt ''Session %s exceeded rate: %d req/s'' [AStr sid, AInt (dd_per_session_rate d)]))))"

definition detect_http_flood :: "gotime \<Rightarrow> reqctx \<Rightarrow> ddos \<Rightarrow> ddos \<times> decision option" where
  "detect_http_flood now c =
     check_chain [check_global_rate now, check_ip_rate now (c_real_ip c),
                  check_endpoint_rate now (c_path c), check_session_rate now (c_session_id c)]"

definition detect_slowloris :: "gotime \<Rightarrow> reqctx \<Rightarrow> ddos \<Rightarrow> ddos \<times> decision option" where
  "detect_slowloris now c d =
     (let ip = c_real_ip c; start = d\<lparr>dd_slow_loris := (dd_slow_loris d)(ip \<mapsto> now)\<rparr> in
      if ctx_header c ''Expect'' \<noteq> [] then (start, None)
      else if header_get (c_request c) ''Content-Length'' = [] \<and> c_method c = ''POST'' then
        (case dd_slow_loris d ip of
           None \<Rightarrow> (start, None)
         | Some t \<Rightarrow>
             (d, if 30 * second < time_sub now t
                 then Some (mk_decision ActionBlock ''DDoS004'' ''Slowloris Attack'' ''high'' 85
                        (Fmt ''slowloris detected from %s, elapsed: %v'' [AStr ip, ADur (time_sub now t)]))
                 else None))
      else (d, None))"

text \<open>\<^verbatim>\<open>fmt.Sscanf(s, "%d", &n)\<close> into an \<^verbatim>\<open>int64\<close> that is zero before: zero when nothing is scanned.\<close>

definition scan_int64 :: "string \<Rightarrow> int" where
  "scan_int64 s =
     (let s1 = dropWhile is_space s;
          (neg, s2) = (case s1 of [] \<Rightarrow> (False, [])
                         | c # cs \<Rightarrow> if c = CHR ''-'' then (True, cs) else if c = CHR ''+'' then (False, cs)
                                    else (False, s1));
          ds = takeWhile is_digit s2
      in case parse_int64 (if neg then CHR ''-'' # ds else ds) of None \<Rightarrow> 0 | Some v \<Rightarrow> v)"

definition detect_slow_post :: "gotime \<Rightarrow> reqctx \<Rightarrow> ddos \<Rightarrow> ddos \<times> decision option" where
  "detect_slow_post now c d =
     (let ip = c_real_ip c; cl = header_get (c_request c) ''Content-Length'' in
      case c_body c of
        None \<Rightarrow> (d, None)
      | Some body \<Rightarrow>
          if c_method c \<noteq> ''POST'' \<or> cl = [] \<or> scan_int64 cl \<le> 1024 * 1024 then (d, None)
          else
            (case dd_slow_post d ip of
               None \<Rightarrow> (d\<lparr>dd_slow_post := (dd_slow_post d)(ip \<mapsto> now)\<rparr>, None)
             | Some t \<Rightarrow>
                 (let elapsed = time_sub now t;
                      rate = of_nat (length body) / (of_int elapsed / of_int second)
                  in (d, if 10 * second < elapsed \<and> rate < 1024
                         then Some (mk_decision ActionBlock ''DDoS005'' ''Slow POST Attack'' ''high'' 80
                                (Fmt ''slow POST from %s, rate: %.0f b/s, elapsed: %v''
                                  [AStr ip, ARat rate, ADur elapsed]))
                         else None))))"

definition hex_digit_char :: "char \<Rightarrow> bool" where
  "hex_digit_char c = (is_digit c \<or> (CHR ''a'' \<le> c \<and> c \<le> CHR ''f'') \<or> (CHR ''A'' \<le> c \<and> c \<le> CHR ''F''))"

definition random_value :: "string \<Rightarrow> bool" where
  "random_value v = (8 \<le> length v \<and> length v \<le> 32 \<and> (list_all hex_digit_char v \<or> 16 \<le> length v))"

definition cache_key :: "string \<Rightarrow> bool" where
  "cache_key k =
     (let l = to_lower k in contains l ''cache'' \<or> contains l ''rand'' \<or> contains l ''t''
                            \<or> (contains l ''_'' \<and> length k \<le> 3))"

definition detect_cache_busting :: "reqctx \<Rightarrow> decision option" where
  "detect_cache_busting c =
     (let params = length (c_query c);
          randoms = sum_list (map (\<lambda>(k, vs). if cache_key k then length (filter random_value vs) else 0) (c_query c))
      in if 5 \<le> params \<and> params div 2 \<le> randoms
         then Some (mk_decision ActionMonitor ''DDoS006'' ''Cache Busting Attack'' ''medium'' 40
                (Fmt ''cache busting detected, params: %d, random: %d'' [AInt (int params), AInt (int randoms)]))
         else None)"

definition ddos_check :: "gotime \<Rightarrow> reqctx \<Rightarrow> ddos \<Rightarrow> ddos \<times> decision option" where
  "ddos_check now c =
     check_chain [detect_http_flood now c, detect_slowloris now c, detect_slow_post now c,
                  (\<lambda>d. (d, detect_cache_busting c))]"

definition ddos_inspect :: "ddos inspector" where
  "ddos_inspect = stateful ddos_check"

definition get_adaptive_rate :: "string \<Rightarrow> int \<Rightarrow> ddos \<Rightarrow> int" where
  "get_adaptive_rate ip rate d =
     (case dd_ip d ip of
        None \<Rightarrow> rate
      | Some ts \<Rightarrow>
          (let count = int (length ts)
           in if rate * 2 < count then max \<lfloor>of_int rate * (5/10 :: rat)\<rfloor> 10
              else if rate < count then max \<lfloor>of_int rate * (8/10 :: rat)\<rfloor> 10
              else rate))"

definition ddos_cleanup :: "gotime \<Rightarrow> ddos \<Rightarrow> ddos" where
  "ddos_cleanup now d =
     d\<lparr>dd_ip := map_expire (\<lambda>ts. ts = [] \<or> 10 * minute < time_sub now (last ts)) (dd_ip d),
       dd_slow_loris := map_expire (\<lambda>t. 5 * minute < time_sub now t) (dd_slow_loris d),
       dd_slow_post := map_expire (\<lambda>t. 5 * minute < time_sub now t) (dd_slow_post d)\<rparr>"

section \<open>The counters are sliding windows\<close>

interpretation dd_window: sliding_window "check_rate w limit" w limit for w limit
  by unfold_locales (auto simp: check_rate_def Let_def split: if_splits)

lemma flood_scores: "scores_ok (detect_http_flood now c)"
  unfolding detect_http_flood_def
  by (intro scores_ok_chain)
    (auto simp: scores_ok_def check_global_rate_def check_ip_rate_def check_endpoint_rate_def
      check_session_rate_def flood_def score_ok_def Let_def split: prod.splits if_splits)

lemma slow_scores:
  "scores_ok (detect_slowloris now c)" "scores_ok (detect_slow_post now c)"
  "scores_ok (\<lambda>d. (d, detect_cache_busting c))"
  by (auto simp: scores_ok_def detect_slowloris_def detect_slow_post_def detect_cache_busting_def
      score_ok_def Let_def split: option.splits if_splits)

interpretation ddos: inspector ddos_inspect
  unfolding ddos_inspect_def ddos_check_def
  by (intro inspector_stateful scores_ok_chain) (auto intro: flood_scores slow_scores)

section \<open>What gets through\<close>

text \<open>The instants and addresses of the requests of a run that the flood detection lets pass.\<close>

fun flood_run :: "ddos \<Rightarrow> (gotime \<times> reqctx) list \<Rightarrow> (gotime \<times> reqctx) list" where
  "flood_run d [] = []"
| "flood_run d ((now, c) # rs) =
     (case detect_http_flood now c d of
        (d', None) \<Rightarrow> (now, c) # flood_run d' rs
      | (d', Some _) \<Rightarrow> flood_run d' rs)"

definition passed_from :: "string \<Rightarrow> (gotime \<times> reqctx) list \<Rightarrow> gotime list" where
  "passed_from ip rs = map fst (filter (\<lambda>(t, c). c_real_ip c = ip) rs)"

lemma passed_from_simps [simp]:
  "passed_from ip [] = []"
  "passed_from ip ((t, c) # rs) = (if c_real_ip c = ip then t # passed_from ip rs else passed_from ip rs)"
  by (simp_all add: passed_from_def)

text \<open>One request applies the counter of its address, or is refused by the global one before.\<close>

lemma flood_step:
  assumes "detect_http_flood now c d = (d', r)"
  shows "dd_window_size d' = dd_window_size d \<and> dd_per_ip_rate d' = dd_per_ip_rate d"
    and "\<forall>ip. ip \<noteq> c_real_ip c \<longrightarrow> dd_ip d' ip = dd_ip d ip"
    and "(r \<noteq> None \<and> dd_ip d' = dd_ip d)
      \<or> (\<exists>ok. check_rate (dd_window_size d) (dd_per_ip_rate d) now (map_get (dd_ip d) (c_real_ip c) [])
               = (map_get (dd_ip d') (c_real_ip c) [], ok) \<and> (\<not> ok \<longrightarrow> r \<noteq> None))"
  using assms
  by (auto simp: detect_http_flood_def check_global_rate_def check_ip_rate_def check_endpoint_rate_def
      check_session_rate_def Let_def split: prod.splits if_splits)

lemma flood_run_counter:
  assumes "sorted (map fst rs)"
  shows "\<exists>ts. sorted ts \<and> set ts \<subseteq> fst ` set rs
    \<and> subseq (passed_from ip (flood_run d rs))
        (sw_run (check_rate (dd_window_size d) (dd_per_ip_rate d)) (map_get (dd_ip d) ip []) ts)"
  using assms
proof (induction rs arbitrary: d)
  case Nil
  show ?case by (intro exI [of _ "[]"]) simp
next
  case (Cons rq rs)
  obtain now c where rq: "rq = (now, c)" by fastforce
  obtain d' r where fl: "detect_http_flood now c d = (d', r)" by fastforce
  note step = flood_step [OF fl]
  obtain ts where ts: "sorted ts" "set ts \<subseteq> fst ` set rs"
    "subseq (passed_from ip (flood_run d' rs))
       (sw_run (check_rate (dd_window_size d) (dd_per_ip_rate d)) (map_get (dd_ip d') ip []) ts)"
    using Cons.IH [of d'] Cons.prems step(1) by auto
  show ?case
  proof (cases "c_real_ip c = ip \<and> dd_ip d' \<noteq> dd_ip d \<or> c_real_ip c = ip \<and> r = None")
    case True
    then obtain ok where ok: "check_rate (dd_window_size d) (dd_per_ip_rate d) now (map_get (dd_ip d) ip [])
        = (map_get (dd_ip d') ip [], ok)" "\<not> ok \<longrightarrow> r \<noteq> None"
      using step(3) by auto
    have "sorted (now # ts)" using ts(1,2) Cons.prems rq by auto
    then show ?thesis
      using ts ok True fl rq by (intro exI [of _ "now # ts"]) (auto split: option.splits)
  next
    case False
    then have "map_get (dd_ip d') ip [] = map_get (dd_ip d) ip []" and "c_real_ip c = ip \<Longrightarrow> r \<noteq> None"
      using step(2,3) by (auto simp: map_get_def)
    then show ?thesis using ts fl rq by (intro exI [of _ ts]) (auto split: option.splits)
  qed
qed

lemma subseq_in_window: "subseq xs ys \<Longrightarrow> in_window w x xs \<le> in_window w x ys"
  by (induction rule: list_emb.induct) (auto simp: in_window_def)

text \<open>However the requests of other clients are interleaved, the flood detection lets at
  most \<^verbatim>\<open>perIPRate\<close> (100) requests of one address through in any window of its length (one second).\<close>

lemma flood_limit_per_ip:
  assumes "sorted (map fst rs)" and "dd_ip d = Map.empty" and "0 \<le> dd_window_size d"
  shows "int (in_window (dd_window_size d) x (passed_from ip (flood_run d rs))) \<le> max 0 (dd_per_ip_rate d)"
proof -
  obtain ts where ts: "sorted ts" "subseq (passed_from ip (flood_run d rs))
      (sw_run (check_rate (dd_window_size d) (dd_per_ip_rate d)) [] ts)"
    using flood_run_counter [OF assms(1), of ip d] assms(2) by auto
  have "in_window (dd_window_size d) x (passed_from ip (flood_run d rs))
    \<le> in_window (dd_window_size d) x (sw_run (check_rate (dd_window_size d) (dd_per_ip_rate d)) [] ts)"
    using ts(2) by (rule subseq_in_window)
  with dd_window.never_above_limit [OF ts(1) assms(3), of x "dd_per_ip_rate d"] show ?thesis by linarith
qed

definition demo_request :: "string \<Rightarrow> reqctx" where
  "demo_request ip = \<lparr>c_request = \<lparr>rq_header = [], rq_content_length = 0, rq_proto = ''HTTP/1.1'', rq_tls = None\<rparr>,
     c_status = None, c_real_ip = ip, c_user_agent = [], c_path = ''/'', c_method = ''POST'', c_headers = [],
     c_cookies = [], c_query = [], c_form = [], c_body = None, c_content_type = [], c_session_id = [],
     c_user_id = [], c_bot_score = 0, c_threat = 0, c_decisions = [], c_is_bot = False,
     c_known_attack = False, c_host = [], c_tls_version = [], c_ja3 = []\<rparr>"

lemma flood_limit_per_ip_witness:
  "int (in_window second 1 (passed_from ''a'' (flood_run new_ddos [(0, demo_request ''a''), (1, demo_request ''b'')]))) \<le> 100"
  using flood_limit_per_ip [of "[(0, demo_request ''a''), (1, demo_request ''b'')]" new_ddos 1 "''a''"]
  by (simp add: new_ddos_def)

text \<open>The Slowloris timer of an address is never restarted: once it is 30 seconds old,
  every further POST without a \<^verbatim>\<open>Content-Length\<close> header (a chunked upload, say) that passes the flood
  detection is blocked, however fast it was sent, until the clean-up drops the timer.\<close>

lemma slowloris_blocks_later_posts:
  assumes "snd (detect_http_flood now c d) = None" and "dd_slow_loris d (c_real_ip c) = Some t"
    and "c_method c = ''POST''" and "header_get (c_request c) ''Content-Length'' = []"
    and "ctx_header c ''Expect'' = []" and "30 * second < now - t"
  shows "\<exists>d' dec. ddos_check now c d = (d', Some dec) \<and> d_rule_id dec = ''DDoS004''
    \<and> d_action dec = ActionBlock \<and> dd_slow_loris d' (c_real_ip c) = Some t"
proof -
  obtain d1 where fl: "detect_http_flood now c d = (d1, None)" using assms(1) by (metis prod.collapse)
  then have kept: "dd_slow_loris d1 = dd_slow_loris d"
    by (auto simp: detect_http_flood_def check_global_rate_def check_ip_rate_def check_endpoint_rate_def
        check_session_rate_def Let_def split: prod.splits if_splits)
  have "30 * second < time_sub now t"
    using assms(6) by (subst time_sub_gt_iff) (simp_all add: min_duration_def max_duration_def)
  then show ?thesis
    using assms(2-5) kept by (simp add: ddos_check_def fl detect_slowloris_def Let_def)
qed

lemma slowloris_blocks_later_posts_witness:
  "\<exists>d' dec. ddos_check (40 * second) (demo_request ''a'') (fst (ddos_check 0 (demo_request ''a'') new_ddos)) = (d', Some dec)
     \<and> d_rule_id dec = ''DDoS004'' \<and> d_action dec = ActionBlock \<and> dd_slow_loris d' (c_real_ip (demo_request ''a'')) = Some 0"
  by (rule slowloris_blocks_later_posts)
    (simp_all add: ddos_check_def detect_http_flood_def check_global_rate_def check_ip_rate_def check_rate_def
      detect_cache_busting_def
      check_endpoint_rate_def check_session_rate_def detect_slowloris_def detect_slow_post_def new_ddos_def
      demo_request_def header_get_def header_values_def ctx_header_def prune_def map_get_def Let_def)

end
