(* ===== verification/Base64.thy ===== *)
theory Base64
  imports GoStrings
begin

text \<open>
  The URL-safe Base64 encodings of Go's \<^verbatim>\<open>encoding/base64\<close> that the program uses:
  \<^verbatim>\<open>RawURLEncoding\<close> (without padding). The decoder skips line breaks, refuses every other character
  outside the alphabet and a last group of one character, and ignores surplus low bits.
\<close>

definition b64_char :: "nat \<Rightarrow> char" where
  "b64_char n =
     (if n < 26 then char_of (65 + n) else if n < 52 then char_of (71 + n)
      else if n < 62 then char_of (n - 4) else if n = 62 then CHR ''-'' else CHR ''_'')"

definition b64_val :: "char \<Rightarrow> nat option" where
  "b64_val c =
     (if is_upper c then Some (of_char c - 65) else if is_lower c then Some (of_char c - 71)
      else if is_digit c then Some (of_char c + 4) else if c = CHR ''-'' then Some 62
      else if c = CHR ''_'' then Some 63 else None)"

fun b64_encode_bytes :: "nat list \<Rightarrow> nat list" where
  "b64_encode_bytes [] = []"
| "b64_encode_bytes [a] = [a div 4, a mod 4 * 16]"
| "b64_encode_bytes [a, b] = [a div 4, a mod 4 * 16 + b div 16, b mod 16 * 4]"
| "b64_encode_bytes (a # b # c # bs) =
     [a div 4, a mod 4 * 16 + b div 16, b mod 16 * 4 + c div 64, c mod 64] @ b64_encode_bytes bs"

fun b64_decode_sextets :: "nat list \<Rightarrow> nat list option" where
  "b64_decode_sextets [] = Some []"
| "b64_decode_sextets [a] = None"
| "b64_decode_sextets [a, b] = Some [a * 4 + b div 16]"
| "b64_decode_sextets [a, b, c] = Some [a * 4 + b div 16, b mod 16 * 16 + c div 4]"
| "b64_decode_sextets (a # b # c # d # xs) =
     map_option (\<lambda>r. [a * 4 + b div 16, b mod 16 * 16 + c div 4, c mod 4 * 64 + d] @ r) (b64_decode_sextets xs)"

definition b64url_encode :: "string \<Rightarrow> string" where
  "b64url_encode s = map b64_char (b64_encode_bytes (map of_char s))"

definition b64url_decode :: "string \<Rightarrow> string option" where
  "b64url_decode s =
     (case all_some (map b64_val (filter (\<lambda>c. c \<noteq> CHR 0x0A \<and> c \<noteq> CHR 0x0D) s)) of
        None \<Rightarrow> None
      | Some xs \<Rightarrow> map_option (map char_of) (b64_decode_sextets xs))"

section \<open>Round trip\<close>

lemmas char_range_defs = is_upper_def is_lower_def is_digit_def less_eq_char_def

lemma b64_val_char: "n < 64 \<Longrightarrow> b64_val (b64_char n) = Some n"
proof -
  assume n: "n < 64"
  consider "n < 26" | "26 \<le> n" "n < 52" | "52 \<le> n" "n < 62" | "n = 62" | "n = 63" using n by linarith
  then show ?thesis by cases (simp_all add: b64_char_def b64_val_def char_range_defs, arith)
qed

lemma b64_val_Some_range: "b64_val c = Some n \<Longrightarrow> c \<noteq> CHR 0x0A \<and> c \<noteq> CHR 0x0D \<and> c \<noteq> CHR ''.''"
  by (auto simp: b64_val_def char_range_defs)

lemma b64_char_no_break: "n < 64 \<Longrightarrow> b64_char n \<noteq> CHR 0x0A \<and> b64_char n \<noteq> CHR 0x0D \<and> b64_char n \<noteq> CHR ''.''"
  using b64_val_Some_range [OF b64_val_char] .

lemma b64_encode_bytes_small:
  "\<forall>b\<in>set bs. b < 256 \<Longrightarrow> x \<in> set (b64_encode_bytes bs) \<Longrightarrow> x < 64"
proof (induction bs arbitrary: x rule: b64_encode_bytes.induct)
  case (4 a b c bs)
  then have bounds: "a < 256" "b < 256" "c < 256" by simp_all
  from 4 consider "x \<in> {a div 4, a mod 4 * 16 + b div 16, b mod 16 * 4 + c div 64, c mod 64}"
    | "x \<in> set (b64_encode_bytes bs)" by auto
  then show ?case
  proof cases
    case 1
    then show ?thesis using bounds by auto
  next
    case 2
    then show ?thesis using 4 by simp
  qed
qed auto

lemma b64_decode_encode: "\<forall>b\<in>set bs. b < 256 \<Longrightarrow> b64_decode_sextets (b64_encode_bytes bs) = Some bs"
proof (induction bs rule: b64_encode_bytes.induct)
  case (4 a b c bs)
  then have "b < 256" "c < 256" and IH: "b64_decode_sextets (b64_encode_bytes bs) = Some bs" by simp_all
  moreover have "b div 16 < 16" "c div 64 < 4" using calculation by auto
  ultimately show ?case by simp
qed auto

lemma b64url_roundtrip: "b64url_decode (b64url_encode s) = Some s"
proof -
  let ?xs = "b64_encode_bytes (map of_char s)"
  have bytes: "\<forall>b\<in>set (map of_char s :: nat list). b < 256" by auto
  have small: "x < 64" if "x \<in> set ?xs" for x using b64_encode_bytes_small [OF bytes that] .
  have "filter (\<lambda>c. c \<noteq> CHR 0x0A \<and> c \<noteq> CHR 0x0D) (map b64_char ?xs) = map b64_char ?xs"
    using small b64_char_no_break by (intro filter_True) auto
  moreover have "all_some (map (b64_val \<circ> b64_char) ?xs) = Some (map (\<lambda>x. x) ?xs)"
    by (rule all_some_map) (simp add: small b64_val_char)
  ultimately show ?thesis
    using b64_decode_encode [OF bytes] by (simp add: b64url_decode_def b64url_encode_def comp_def)
qed

lemma b64url_encode_no_dot: "CHR ''.'' \<notin> set (b64url_encode s)"
proof
  assume "CHR ''.'' \<in> set (b64url_encode s)"
  then obtain x where "x \<in> set (b64_encode_bytes (map of_char s))" "b64_char x = CHR ''.''"
    by (auto simp: b64url_encode_def)
  moreover have "\<forall>b\<in>set (map of_char s :: nat list). b < 256" by auto
  ultimately show False using b64_encode_bytes_small b64_char_no_break by blast
qed

text \<open>\<^verbatim>\<open>StdEncoding\<close>: groups of four characters, the last one padded.\<close>

definition b64std_val :: "char \<Rightarrow> nat option" where
  "b64std_val c =
     (if is_upper c then Some (of_char c - 65) else if is_lower c then Some (of_char c - 71)
      else if is_digit c then Some (of_char c + 4)
      else if c = CHR ''+'' then Some 62 else if c = CHR ''/'' then Some 63 else None)"

definition b64std_decode :: "string \<Rightarrow> string option" where
  "b64std_decode s =
     (let t = filter (\<lambda>c. c \<noteq> CHR 0x0A \<and> c \<noteq> CHR 0x0D) s;
          u = (if has_suffix t ''=='' then butlast (butlast t) else if has_suffix t ''='' then butlast t else t)
      in if length t mod 4 \<noteq> 0 then None
         else map_option (map char_of) (Option.bind (all_some (map b64std_val u)) b64_decode_sextets))"

end
