(* ===== verification/Credential.thy ===== *)
theory Credential
  imports WafTypes Base64
begin

text \<open>
  Credential protection, \<^verbatim>\<open>internal/engine/credential.go\<close>: login attempts per user, password spray,
  brute force per address, and the token checks. SHA-256 (in hexadecimal) and the decoding of JSON
  claims are arguments; one request is served at one instant \<open>now\<close>.
\<close>

section \<open>State\<close>

record login_tracker =
  lt_attempts :: int
  lt_first_seen :: gotime
  lt_last_seen :: gotime
  lt_locked :: bool
  lt_lockout_at :: gotime

record spray_tracker =
  sp_usernames :: "string \<rightharpoonup> int"
  sp_count :: int
  sp_last_seen :: gotime

record brute_tracker =
  bt_attempts :: int
  bt_backoff :: duration
  bt_next_try :: gotime
  bt_first_seen :: gotime

record credential =
  cr_login :: "string \<rightharpoonup> login_tracker"
  cr_spray :: "string \<rightharpoonup> spray_tracker"
  cr_brute :: "string \<rightharpoonup> brute_tracker"
  cr_leaked :: "string \<Rightarrow> bool"
  cr_hibp_enabled :: bool
  cr_lockout :: duration
  cr_max_attempts :: int

text \<open>\<open>ce_alg\<close> and \<open>ce_exp\<close> decode the members of a JSON text that the code reads, or fail.\<close>

record cred_env =
  ce_sha :: "string \<Rightarrow> string"
  ce_alg :: "string \<Rightarrow> string option"
  ce_exp :: "string \<Rightarrow> int option"

text \<open>The login paths and the window that the constructor receives are not kept.\<close>

definition new_credential :: "int \<Rightarrow> int \<Rightarrow> int \<Rightarrow> string list \<Rightarrow> credential" where
  "new_credential max_attempts window_sec block_sec login_paths =
     \<lparr>cr_login = Map.empty, cr_spray = Map.empty, cr_brute = Map.empty, cr_leaked = (\<lambda>_. False),
      cr_hibp_enabled = False, cr_lockout = (if block_sec \<le> 0 then 3600 else block_sec) * second,
      cr_max_attempts = (if max_attempts \<le> 0 then 5 else max_attempts)\<rparr>"

section \<open>Checks\<close>

definition first_param :: "string list \<Rightarrow> string option" where
  "first_param vs = (case vs of [] \<Rightarrow> None | v # _ \<Rightarrow> Some v)"

definition login_params :: "reqctx \<Rightarrow> (string \<times> string) option" where
  "login_params c =
     (case (first_param (ctx_form c ''username''), first_param (ctx_form c ''password'')) of
        (Some u, Some p) \<Rightarrow> Some (u, p)
      | _ \<Rightarrow> (case (first_param (ctx_query c ''username''), first_param (ctx_query c ''password'')) of
                (Some u, Some p) \<Rightarrow> Some (u, p) | _ \<Rightarrow> None))"

definition password_param :: "reqctx \<Rightarrow> string option" where
  "password_param c =
     (case first_param (ctx_form c ''password'') of
        Some p \<Rightarrow> Some p | None \<Rightarrow> first_param (ctx_query c ''password''))"

text \<open>One login attempt on the tracker of its user.\<close>

definition login_step ::
  "gotime \<Rightarrow> int \<Rightarrow> duration \<Rightarrow> string \<Rightarrow> login_tracker option \<Rightarrow> login_tracker \<times> decision option" where
  "login_step now max_attempts lockout user_hash tr =
     (case tr of
        None \<Rightarrow> (\<lparr>lt_attempts = 1, lt_first_seen = now, lt_last_seen = now, lt_locked = False,
                  lt_lockout_at = zero_time\<rparr>, None)
      | Some t0 \<Rightarrow>
          (let t = t0\<lparr>lt_attempts := lt_attempts t0 + 1, lt_last_seen := now\<rparr> in
           if lt_locked t then
             (if time_sub now (lt_lockout_at t) < lockout
              then (t, Some (mk_decision ActionBlock ''CRED001'' ''Account Locked'' ''high'' 80
                      (Fmt ''account locked until %v'' [ATime (lt_lockout_at t + lockout)])))
              else (t\<lparr>lt_locked := False, lt_attempts := 0\<rparr>, None))
           else if max_attempts * 3 < lt_attempts t
           then (t\<lparr>lt_locked := True, lt_lockout_at := now\<rparr>,
                 Some (mk_decision ActionBlock ''CRED002'' ''Credential Stuffing Detected'' ''critical'' 90
                   (Fmt ''credential stuffing: %d attempts for user hash %s''
                     [AInt (lt_attempts t), AStr (take 8 user_hash)])))
           else if max_attempts < lt_attempts t
           then (t, Some (mk_decision ActionRateLimit ''CRED003'' ''Excessive Login Attempts'' ''medium'' 50
                     (Fmt ''%d login attempts for user'' [AInt (lt_attempts t)])))
           else (t, None)))"

definition detect_credential_stuffing :: "cred_env \<Rightarrow> gotime \<Rightarrow> reqctx \<Rightarrow> credential \<Rightarrow> credential \<times> decision option" where
  "detect_credential_stuffing env now c cr =
     (if c_method c \<noteq> ''POST'' then (cr, None)
      else
        case login_params c of
          None \<Rightarrow> (cr, None)
        | Some (u, p) \<Rightarrow>
            (let h = ce_sha env u;
                 (t, d) = login_step now (cr_max_attempts cr) (cr_lockout cr) h (cr_login cr h)
             in (cr\<lparr>cr_login := (cr_login cr)(h \<mapsto> t)\<rparr>, d)))"

definition detect_password_spray :: "cred_env \<Rightarrow> gotime \<Rightarrow> reqctx \<Rightarrow> credential \<Rightarrow> credential \<times> decision option" where
  "detect_password_spray env now c cr =
     (case password_param c of
        None \<Rightarrow> (cr, None)
      | Some p \<Rightarrow>
          (let h = take 16 (ce_sha env p) in
           case cr_spray cr h of
             None \<Rightarrow> (cr\<lparr>cr_spray := (cr_spray cr)(h \<mapsto>
                         \<lparr>sp_usernames = Map.empty, sp_count = 1, sp_last_seen = now\<rparr>)\<rparr>, None)
           | Some t0 \<Rightarrow>
               (let t = t0\<lparr>sp_count := sp_count t0 + 1, sp_last_seen := now\<rparr>;
                    users = card (dom (sp_usernames t))
                in (cr\<lparr>cr_spray := (cr_spray cr)(h \<mapsto> t)\<rparr>,
                    if 10 \<le> users \<and> 50 \<le> sp_count t
                    then Some (mk_decision ActionBlock ''CRED004'' ''Password Spray Attack'' ''critical'' 90
                           (Fmt ''password spray detected: %d attempts across %d users''
                             [AInt (sp_count t), AInt (int users)]))
                    else if 20 \<le> sp_count t \<and> 5 \<le> users
                    then Some (mk_decision ActionRateLimit ''CRED005'' ''Potential Password Spray'' ''high'' 65
                           (Fmt ''potential password spray: %d attempts'' [AInt (sp_count t)]))
                    else None))))"

definition backoff_of :: "int \<Rightarrow> duration" where
  "backoff_of n =
     (if 20 < n then 30 * minute else if 10 < n then 5 * minute else if 5 < n then 30 * second else 1 * second)"

definition detect_brute_force :: "gotime \<Rightarrow> reqctx \<Rightarrow> credential \<Rightarrow> credential \<times> decision option" where
  "detect_brute_force now c cr =
     (let ip = c_real_ip c; put = (\<lambda>t. cr\<lparr>cr_brute := (cr_brute cr)(ip \<mapsto> t)\<rparr>) in
      case cr_brute cr ip of
        None \<Rightarrow> (put \<lparr>bt_attempts = 1, bt_backoff = 1 * second, bt_next_try = now, bt_first_seen = now\<rparr>, None)
      | Some t0 \<Rightarrow>
          (let t = t0\<lparr>bt_attempts := bt_attempts t0 + 1\<rparr> in
           if now < bt_next_try t
           then (put t, Some (mk_decision ActionBlock ''CRED006'' ''Brute Force Blocked'' ''high'' 80
                   (Fmt ''brute force blocked for %s, backoff: %v'' [AStr ip, ADur (bt_backoff t)])))
           else (put (t\<lparr>bt_backoff := backoff_of (bt_attempts t), bt_next_try := now + backoff_of (bt_attempts t)\<rparr>), None)))"

definition detect_leaked_credential :: "cred_env \<Rightarrow> reqctx \<Rightarrow> credential \<Rightarrow> decision option" where
  "detect_leaked_credential env c cr =
     (case password_param c of
        None \<Rightarrow> None
      | Some p \<Rightarrow>
          if cr_hibp_enabled cr \<and> cr_leaked cr (to_upper (ce_sha env p))
          then Some (mk_decision ActionBlock ''CRED007'' ''Leaked Credential'' ''critical'' 95
                 (Lit ''password matches known leaked credential database''))
          else None)"

definition jwt_parts :: "string \<Rightarrow> (string \<times> string \<times> string) option" where
  "jwt_parts tok = (case split_char CHR ''.'' tok of [h, p, s] \<Rightarrow> Some (h, p, s) | _ \<Rightarrow> None)"

definition check_jwt_claims :: "cred_env \<Rightarrow> gotime \<Rightarrow> string \<Rightarrow> string \<Rightarrow> decision option" where
  "check_jwt_claims env now alg p =
     (if equal_fold alg ''none''
      then Some (mk_decision ActionBlock ''CRED010'' ''JWT alg:none Attack'' ''critical'' 95
             (Lit ''jwt with alg:none detected''))
      else
        case Option.bind (b64url_decode p) (ce_exp env) of
          None \<Rightarrow> None
        | Some ex \<Rightarrow>
            if 0 < ex \<and> ex < unix_seconds now
            then Some (mk_decision ActionBlock ''CRED013'' ''Expired JWT'' ''medium'' 40
                   (Lit ''jwt token has expired''))
            else None)"

definition validate_jwt :: "cred_env \<Rightarrow> gotime \<Rightarrow> reqctx \<Rightarrow> decision option" where
  "validate_jwt env now c =
     (let auth = ctx_header c ''Authorization'' in
      if auth = [] \<or> \<not> has_prefix (to_upper auth) ''BEARER '' then None
      else
        case jwt_parts (drop 7 auth) of
          None \<Rightarrow> Some (mk_decision ActionBlock ''CRED008'' ''Malformed JWT'' ''high'' 70
                  (Lit ''jwt token does not have 3 parts''))
        | Some (h, p, s) \<Rightarrow>
            (case b64url_decode h of
               None \<Rightarrow> Some (mk_decision ActionBlock ''CRED009'' ''Invalid JWT Header Encoding'' ''high'' 65
                         (Lit ''invalid base64 encoding in jwt header''))
             | Some hj \<Rightarrow>
                 (case ce_alg env hj of None \<Rightarrow> None | Some alg \<Rightarrow> check_jwt_claims env now alg p)))"

definition detect_oauth_abuse :: "reqctx \<Rightarrow> decision option" where
  "detect_oauth_abuse c =
     (let auth = ctx_header c ''Authorization'' in
      if has_prefix (to_lower auth) ''bearer '' \<and> count_sub (drop 7 auth) ''.'' = 2 then None
      else
        case first_param (ctx_query c ''state'') of
          None \<Rightarrow> None
        | Some st \<Rightarrow>
            if 2048 < length st
            then Some (mk_decision ActionBlock ''CRED013'' ''OAuth State Overflow'' ''medium'' 40
                   (Lit ''oauth state parameter exceeds maximum size''))
            else None)"

definition credential_check :: "cred_env \<Rightarrow> gotime \<Rightarrow> reqctx \<Rightarrow> credential \<Rightarrow> credential \<times> decision option" where
  "credential_check env now c =
     check_chain [detect_credential_stuffing env now c, detect_password_spray env now c,
       detect_brute_force now c, (\<lambda>cr. (cr, detect_leaked_credential env c cr)),
       (\<lambda>cr. (cr, validate_jwt env now c)), (\<lambda>cr. (cr, detect_oauth_abuse c))]"

definition credential_inspect :: "cred_env \<Rightarrow> credential inspector" where
  "credential_inspect env = stateful (credential_check env)"

section \<open>The inspector contract\<close>

lemma login_step_score: "login_step now m l h tr = (t, Some d) \<Longrightarrow> score_ok d"
  by (auto simp: login_step_def score_ok_def Let_def split: option.splits if_splits)

lemma credential_scores:
  "scores_ok (detect_credential_stuffing env now c)" "scores_ok (detect_password_spray env now c)"
  "scores_ok (detect_brute_force now c)" "scores_ok (\<lambda>cr. (cr, detect_leaked_credential env c cr))"
  "scores_ok (\<lambda>cr. (cr, detect_oauth_abuse c))"
  by (auto simp: scores_ok_def detect_credential_stuffing_def detect_password_spray_def detect_brute_force_def
      detect_leaked_credential_def detect_oauth_abuse_def score_ok_def Let_def
      split: option.splits if_splits prod.splits dest: login_step_score)

lemma jwt_scores: "scores_ok (\<lambda>cr. (cr, validate_jwt env now c))"
proof (rule scores_okI)
  fix cr cr' d
  assume "(cr, validate_jwt env now c) = (cr', Some d)"
  moreover have "check_jwt_claims env now alg p = Some d \<Longrightarrow> score_ok d" for alg p d
    by (auto simp: check_jwt_claims_def score_ok_def split: option.splits if_splits)
  ultimately show "score_ok d"
    by (auto simp: validate_jwt_def score_ok_def Let_def split: option.splits if_splits)
qed

interpretation cred: inspector "credential_inspect env" for env
  unfolding credential_inspect_def credential_check_def
  by (intro inspector_stateful scores_ok_chain) (auto intro: credential_scores jwt_scores)

section \<open>The lockout schedule\<close>

text \<open>A run of login attempts of one user: the tracker and the ids of the rules that fired.\<close>

fun login_run ::
  "int \<Rightarrow> duration \<Rightarrow> string \<Rightarrow> login_tracker option \<Rightarrow> gotime list \<Rightarrow> login_tracker option \<times> string option list" where
  "login_run m l h tr [] = (tr, [])"
| "login_run m l h tr (t # ts) =
     (let (tr1, d) = login_step t m l h tr; (tr2, ds) = login_run m l h (Some tr1) ts
      in (tr2, map_option d_rule_id d # ds))"

lemma login_run_snoc:
  "login_run m l h tr (ts @ [t]) =
     (let (tr1, ds) = login_run m l h tr ts; (tr2, d) = login_step t m l h tr1
      in (Some tr2, ds @ [map_option d_rule_id d]))"
  by (induction ts arbitrary: tr) (auto simp: Let_def split: prod.splits)

definition lockout_verdict :: "nat \<Rightarrow> nat \<Rightarrow> string option" where
  "lockout_verdict m k =
     (if k \<le> m then None else if k \<le> 3 * m then Some ''CRED003''
      else if k = 3 * m + 1 then Some ''CRED002'' else Some ''CRED001'')"

lemma login_run_state:
  assumes "0 < m" "l \<le> max_duration" "0 \<le> l"
    and "\<And>k. 3 * m < k \<Longrightarrow> k < length ts \<Longrightarrow> ts ! k - ts ! (3 * m) < l"
  shows "snd (login_run (int m) l h None ts) = map (\<lambda>k. lockout_verdict m (Suc k)) [0..<length ts]
    \<and> (case fst (login_run (int m) l h None ts) of
         None \<Rightarrow> ts = []
       | Some tr \<Rightarrow> ts \<noteq> [] \<and> lt_attempts tr = int (length ts) \<and> lt_locked tr = (3 * m < length ts)
           \<and> (3 * m < length ts \<longrightarrow> lt_lockout_at tr = ts ! (3 * m)))"
  using assms(4)
proof (induction ts rule: rev_induct)
  case (snoc t ts)
  have "ts ! k - ts ! (3 * m) < l" if "3 * m < k" "k < length ts" for k
    using snoc.prems [of k] that by (simp add: nth_append)
  note IH = snoc.IH [OF this]
  obtain tr1 ds where run: "login_run (int m) l h None ts = (tr1, ds)" by fastforce
  have late: "time_sub t (ts ! (3 * m)) < l" if "3 * m < length ts"
  proof -
    have "t - ts ! (3 * m) < l" using snoc.prems [of "length ts"] that by (simp add: nth_append)
    then show ?thesis using assms(2,3) by (subst time_sub_lt_iff) (simp_all add: min_duration_def)
  qed
  show ?case
  proof (cases tr1)
    case None
    then have "ts = []" using IH run by simp
    then show ?thesis using assms(1) by (simp add: login_step_def lockout_verdict_def)
  next
    case (Some tr)
    then have tr: "ts \<noteq> []" "lt_attempts tr = int (length ts)" "lt_locked tr = (3 * m < length ts)"
      "3 * m < length ts \<longrightarrow> lt_lockout_at tr = ts ! (3 * m)" and ds: "ds = map (\<lambda>k. lockout_verdict m (Suc k)) [0..<length ts]"
      using IH run by auto
    show ?thesis
      using tr late assms(1)
      by (auto simp: login_run_snoc run Some ds login_step_def lockout_verdict_def nth_append Let_def)
  qed
qed simp

text \<open>Property C13. The lockout follows its schedule: of the attempts to log in as one user, the first
  \<^verbatim>\<open>maxAttempts\<close> pass, those up to three times that number are rate-limited, the next one locks the
  account, and from then on every attempt is blocked until the lockout has run out.\<close>

theorem lockout_schedule:
  assumes "0 < m" and "0 \<le> l" "l \<le> max_duration"
    and "\<And>k. 3 * m < k \<Longrightarrow> k < length ts \<Longrightarrow> ts ! k - ts ! (3 * m) < l"
  shows "snd (login_run (int m) l h None ts) = map (\<lambda>k. lockout_verdict m (Suc k)) [0..<length ts]"
  using login_run_state [OF assms(1,3,2,4)] by blast

theorem lockout_schedule_witness:
  "snd (login_run (int 1) (3600 * second) ''h'' None [0, 1, 2, 3, 4])
    = map (\<lambda>k. lockout_verdict 1 (Suc k)) [0..<length [0 :: gotime, 1, 2, 3, 4]]"
proof (rule lockout_schedule)
  show "[0, 1, 2, 3, 4 :: gotime] ! k - [0, 1, 2, 3, 4] ! (3 * 1) < 3600 * second"
    if "3 * 1 < k" "k < length [0, 1, 2, 3, 4 :: gotime]" for k
  proof -
    have "k = 4" using that by simp
    then show ?thesis by simp
  qed
qed (simp_all add: max_duration_def)

section \<open>Checks that cannot fire\<close>

inductive cred_reach :: "cred_env \<Rightarrow> credential \<Rightarrow> bool" for env where
  cred_new: "cred_reach env (new_credential m w b paths)"
| cred_serve: "cred_reach env cr \<Longrightarrow> cred_reach env (fst (credential_check env now c cr))"

definition no_spray_users :: "credential \<Rightarrow> bool" where
  "no_spray_users cr \<longleftrightarrow> \<not> cr_hibp_enabled cr \<and> (\<forall>h t. cr_spray cr h = Some t \<longrightarrow> sp_usernames t = Map.empty)"

lemma no_spray_steps:
  assumes "no_spray_users cr"
  shows "no_spray_users (fst (detect_credential_stuffing env now c cr))"
    and "no_spray_users (fst (detect_password_spray env now c cr))"
    and "no_spray_users (fst (detect_brute_force now c cr))"
  using assms
  by (auto simp: no_spray_users_def detect_credential_stuffing_def detect_password_spray_def detect_brute_force_def
      Let_def split: option.splits prod.splits)

lemma cred_reach_no_spray: "cred_reach env cr \<Longrightarrow> no_spray_users cr"
proof (induction rule: cred_reach.induct)
  case (cred_new m w b paths)
  show ?case by (simp add: no_spray_users_def new_credential_def)
next
  case (cred_serve cr now c)
  then show ?case unfolding credential_check_def
    by (intro check_chain_inv [where P = no_spray_users]) (auto intro: no_spray_steps)
qed

text \<open>The spray and leak checks are dead: in no reachable state does the code detect a
  password spray (no user name is ever recorded in a spray tracker) or a leaked password (the
  look-up is never enabled), whatever requests it has seen.\<close>

lemma spray_and_leak_never_detected:
  assumes "cred_reach env cr"
  shows "snd (detect_password_spray env now c cr) = None \<and> detect_leaked_credential env c cr = None"
  using cred_reach_no_spray [OF assms]
  by (auto simp: no_spray_users_def detect_password_spray_def detect_leaked_credential_def Let_def
      split: option.splits)

lemma spray_and_leak_never_detected_witness:
  "\<exists>cr. cred_reach \<lparr>ce_sha = id, ce_alg = (\<lambda>_. None), ce_exp = (\<lambda>_. None)\<rparr> cr
     \<and> (\<forall>c. snd (detect_password_spray \<lparr>ce_sha = id, ce_alg = (\<lambda>_. None), ce_exp = (\<lambda>_. None)\<rparr> 0 c cr) = None)"
  using spray_and_leak_never_detected [OF cred_new] cred_new by blast

section \<open>The back-off of an address\<close>

text \<open>The brute-force check throttles every address, not only failed log-ins: once an
  address has been seen, a request of it that passes bars the address for at least the next
  second, so every further request in that time, of any method and to any path, is blocked.\<close>

lemma backoff_blocks_any_request:
  assumes "cr_brute cr (c_real_ip c) \<noteq> None" and "snd (detect_brute_force now c cr) = None"
    and "now' < now + second" and "c_real_ip c' = c_real_ip c"
  shows "\<exists>d. snd (detect_brute_force now' c' (fst (detect_brute_force now c cr))) = Some d
    \<and> d_action d = ActionBlock \<and> d_rule_id d = ''CRED006''"
proof -
  have "second \<le> backoff_of n" for n by (simp add: backoff_of_def)
  then have "now' < now + backoff_of n" for n using assms(3) by (meson add_left_mono less_le_trans)
  with assms show ?thesis
    by (auto simp: detect_brute_force_def Let_def split: option.splits if_splits)
qed

definition get_page :: "string \<Rightarrow> reqctx" where
  "get_page path = \<lparr>c_request = \<lparr>rq_header = [], rq_content_length = 0, rq_proto = ''HTTP/1.1'', rq_tls = None\<rparr>,
     c_status = None, c_real_ip = ''1.2.3.4'', c_user_agent = [], c_path = path, c_method = ''GET'', c_headers = [],
     c_cookies = [], c_query = [], c_form = [], c_body = None, c_content_type = [], c_session_id = [],
     c_user_id = [], c_bot_score = 0, c_threat = 0, c_decisions = [], c_is_bot = False,
     c_known_attack = False, c_host = [], c_tls_version = [], c_ja3 = []\<rparr>"

lemma backoff_blocks_any_request_witness:
  "\<exists>d. snd (detect_brute_force 2 (get_page ''/b.css'') (fst (detect_brute_force 1 (get_page ''/a.html'')
       (fst (detect_brute_force 0 (get_page ''/'') (new_credential 5 60 60 [])))))) = Some d
    \<and> d_action d = ActionBlock \<and> d_rule_id d = ''CRED006''"
  by (rule backoff_blocks_any_request)
    (simp_all add: detect_brute_force_def new_credential_def get_page_def Let_def)

end
