(* ===== verification/Utf8.thy ===== *)
theory Utf8
  imports Prelude
begin

text \<open>
  Go strings are byte strings; this theory holds the two ways in which the program reads them as UTF-8:
  the test for validity together with the runes of a valid string, and the widths of a
  \<^verbatim>\<open>for _, r := range s\<close> loop over an arbitrary string, in which an invalid byte is a rune of its own.
\<close>

text \<open>\<^verbatim>\<open>utf8.ValidString\<close> together with the runes of a valid string.\<close>

definition cont_byte :: "nat \<Rightarrow> bool" where
  "cont_byte b = (0x80 \<le> b \<and> b \<le> 0xBF)"

fun utf8_runes :: "nat list \<Rightarrow> nat list option" where
  "utf8_runes [] = Some []"
| "utf8_runes (a # xs) =
     (if a < 0x80 then map_option ((#) a) (utf8_runes xs)
      else
        case xs of
          [] \<Rightarrow> None
        | b # ys \<Rightarrow>
            if 0xC2 \<le> a \<and> a \<le> 0xDF then
              (if cont_byte b then map_option ((#) ((a - 0xC0) * 64 + (b - 0x80))) (utf8_runes ys) else None)
            else
              case ys of
                [] \<Rightarrow> None
              | c # zs \<Rightarrow>
                  if 0xE0 \<le> a \<and> a \<le> 0xEF then
                    (if cont_byte b \<and> cont_byte c \<and> (a = 0xE0 \<longrightarrow> 0xA0 \<le> b) \<and> (a = 0xED \<longrightarrow> b \<le> 0x9F)
                     then map_option ((#) ((a - 0xE0) * 4096 + (b - 0x80) * 64 + (c - 0x80))) (utf8_runes zs)
                     else None)
                  else
                    case zs of
                      [] \<Rightarrow> None
                    | d # ws \<Rightarrow>
                        if 0xF0 \<le> a \<and> a \<le> 0xF4 \<and> cont_byte b \<and> cont_byte c \<and> cont_byte d
                           \<and> (a = 0xF0 \<longrightarrow> 0x90 \<le> b) \<and> (a = 0xF4 \<longrightarrow> b \<le> 0x8F)
                        then map_option ((#) ((a - 0xF0) * 262144 + (b - 0x80) * 4096 + (c - 0x80) * 64 + (d - 0x80)))
                               (utf8_runes ws)
                        else None)"

definition runes :: "string \<Rightarrow> nat list option" where
  "runes s = utf8_runes (map of_char s)"

text \<open>The bytes that one iteration of \<^verbatim>\<open>range\<close> consumes.\<close>

definition valid_two :: "nat \<Rightarrow> nat \<Rightarrow> bool" where
  "valid_two a b = (0xC2 \<le> a \<and> a \<le> 0xDF \<and> cont_byte b)"

definition valid_three :: "nat \<Rightarrow> nat \<Rightarrow> nat \<Rightarrow> bool" where
  "valid_three a b c =
     (0xE0 \<le> a \<and> a \<le> 0xEF \<and> cont_byte b \<and> cont_byte c \<and> (a = 0xE0 \<longrightarrow> 0xA0 \<le> b) \<and> (a = 0xED \<longrightarrow> b \<le> 0x9F))"

definition valid_four :: "nat \<Rightarrow> nat \<Rightarrow> nat \<Rightarrow> nat \<Rightarrow> bool" where
  "valid_four a b c d =
     (0xF0 \<le> a \<and> a \<le> 0xF4 \<and> cont_byte b \<and> cont_byte c \<and> cont_byte d \<and> (a = 0xF0 \<longrightarrow> 0x90 \<le> b) \<and> (a = 0xF4 \<longrightarrow> b \<le> 0x8F))"

fun rune_width :: "nat list \<Rightarrow> nat" where
  "rune_width (a # b # c # d # xs) =
     (if valid_two a b then 2 else if valid_three a b c then 3 else if valid_four a b c d then 4 else 1)"
| "rune_width [a, b, c] = (if valid_two a b then 2 else if valid_three a b c then 3 else 1)"
| "rune_width [a, b] = (if valid_two a b then 2 else 1)"
| "rune_width xs = 1"

lemma rune_width_pos [simp]: "0 < rune_width xs"
  by (induction xs rule: rune_width.induct) auto

lemma rune_width_ascii: "a < 0x80 \<Longrightarrow> rune_width (a # xs) = 1"
  by (induction "a # xs" rule: rune_width.induct) (auto simp: valid_two_def valid_three_def valid_four_def)

text \<open>The rune at the head of a byte string, U+FFFD for an invalid byte, and all runes of a string.\<close>

definition rune_head :: "nat list \<Rightarrow> nat" where
  "rune_head xs =
     (case rune_width xs of
        Suc 0 \<Rightarrow> if hd xs < 0x80 then hd xs else 0xFFFD
      | Suc (Suc 0) \<Rightarrow> (xs ! 0 - 0xC0) * 64 + (xs ! 1 - 0x80)
      | Suc (Suc (Suc 0)) \<Rightarrow> (xs ! 0 - 0xE0) * 4096 + (xs ! 1 - 0x80) * 64 + (xs ! 2 - 0x80)
      | _ \<Rightarrow> (xs ! 0 - 0xF0) * 262144 + (xs ! 1 - 0x80) * 4096 + (xs ! 2 - 0x80) * 64 + (xs ! 3 - 0x80))"

function range_runes :: "nat list \<Rightarrow> nat list" where
  "range_runes xs = (if xs = [] then [] else rune_head xs # range_runes (drop (rune_width xs) xs))"
  by pat_completeness auto
termination
  by (relation "measure length") (auto simp: Suc_le_eq)

declare range_runes.simps [simp del]

definition to_runes :: "string \<Rightarrow> nat list" where
  "to_runes s = range_runes (map of_char s)"

lemma range_runes_ascii_Cons: "a < 0x80 \<Longrightarrow> range_runes (a # xs) = a # range_runes xs"
  by (subst range_runes.simps) (simp add: rune_width_ascii rune_head_def)

lemma range_runes_ascii: "\<forall>a\<in>set xs. a < 0x80 \<Longrightarrow> range_runes xs = xs"
  by (induction xs) (simp_all add: range_runes.simps [of "[]"] range_runes_ascii_Cons)

lemma to_runes_ascii: "\<forall>c\<in>set s. (of_char c :: nat) < 0x80 \<Longrightarrow> to_runes s = map of_char s"
  by (simp add: to_runes_def range_runes_ascii)

lemma to_runes_Nil [simp]: "to_runes [] = []"
  by (simp add: to_runes_def range_runes.simps)

lemma to_runes_ascii_Cons: "(of_char c :: nat) < 0x80 \<Longrightarrow> to_runes (c # s) = of_char c # to_runes s"
  by (simp add: to_runes_def range_runes_ascii_Cons)

text \<open>\<^verbatim>\<open>string(runes)\<close>; surrogates and values out of range become U+FFFD.\<close>

definition encode_rune :: "nat \<Rightarrow> nat list" where
  "encode_rune r =
     (if r < 0x80 then [r]
      else if r < 0x800 then [0xC0 + r div 64, 0x80 + r mod 64]
      else if 0xD800 \<le> r \<and> r \<le> 0xDFFF \<or> 0x10FFFF < r then [0xEF, 0xBF, 0xBD]
      else if r < 0x10000 then [0xE0 + r div 4096, 0x80 + r div 64 mod 64, 0x80 + r mod 64]
      else [0xF0 + r div 262144, 0x80 + r div 4096 mod 64, 0x80 + r div 64 mod 64, 0x80 + r mod 64])"

definition runes_to_string :: "nat list \<Rightarrow> string" where
  "runes_to_string rs = map char_of (concat (map encode_rune rs))"

lemma runes_to_string_ascii: "\<forall>c\<in>set s. (of_char c :: nat) < 0x80 \<Longrightarrow> runes_to_string (map of_char s) = s"
  by (induction s) (simp_all add: runes_to_string_def encode_rune_def)

end
