(* ===== verification/ParserHardener.thy ===== *)
theory ParserHardener
  imports WafTypes Utf8
begin

text \<open>
  The parser hardener, \<^verbatim>\<open>internal/engine/parser.go\<close>. Its regular expressions are fixed and are written
  out as predicates; \<^verbatim>\<open>decodePathValue\<close> calls itself without a bound and is a partial function, whose
  value \<open>None\<close> stands for the recursion that exhausts the stack and ends the process.
\<close>

section \<open>The fixed patterns\<close>

definition normalization_pattern :: "string \<Rightarrow> bool" where
  "normalization_pattern s =
     ((\<exists>p\<in>set [''%2f'', ''%5c'', ''%00'', ''%0d'', ''%0a'', ''%20'', ''%09'', ''%23'', ''%3f'', ''%3b''].
         contains (to_lower s) p)
      \<or> contains s ''../'' \<or> contains s ''//'' \<or> contains s ''/./'' \<or> has_suffix s ''/.''
      \<or> contains s [CHR 0x5C, CHR ''.'', CHR 0x5C])"

text \<open>
  A class such as \<^verbatim>\<open>[\xE0-\xEF]\<close> of a Go expression ranges over runes: the expression for overlong
  encodings finds the runes U+0080 to U+00C1 and U+00E0 to U+00FF.
\<close>

definition overlong_rune :: "nat \<Rightarrow> bool" where
  "overlong_rune r = ((0x80 \<le> r \<and> r \<le> 0xC1) \<or> (0xE0 \<le> r \<and> r \<le> 0xFF))"

text \<open>The runes that are in category C (or U+FFFD) and match the expression for control characters.\<close>

definition control_rune :: "nat \<Rightarrow> bool" where
  "control_rune r = (r = 0xAD \<or> r = 0x200B \<or> r = 0x200C \<or> r = 0x200D \<or> r = 0xFEFF
     \<or> (0xFFF9 \<le> r \<and> r \<le> 0xFFFB) \<or> r = 0xFFFD)"

definition alnum :: "char \<Rightarrow> bool" where
  "alnum c = (is_digit c \<or> is_lower c \<or> is_upper c)"

definition name_char :: "char \<Rightarrow> bool" where
  "name_char c = (is_lower c \<or> is_upper c \<or> c = CHR ''_'')"

definition ws_char :: "char \<Rightarrow> bool" where
  "ws_char c = (c = CHR '' '' \<or> c = CHR 0x09 \<or> c = CHR 0x0A \<or> c = CHR 0x0C \<or> c = CHR 0x0D)"

definition value_char :: "char \<Rightarrow> bool" where
  "value_char c = (c \<noteq> CHR '';'' \<and> c \<noteq> CHR 0x0D \<and> c \<noteq> CHR 0x0A)"

text \<open>
  What follows a match of \<^verbatim>\<open>\s*[^;\r\n]+\<close> at the beginning of a text: the white space is taken as far
  as a first value character remains, going back to the last blank when none follows.
\<close>

definition match_value :: "string \<Rightarrow> string option" where
  "match_value s =
     (let blanks = takeWhile ws_char s; rest = dropWhile ws_char s in
      if rest \<noteq> [] \<and> value_char (hd rest) then Some (dropWhile value_char rest)
      else
        let tail_breaks = takeWhile (\<lambda>c. \<not> value_char c) (rev blanks);
            before = drop (length tail_breaks) (rev blanks)
        in if before = [] then None else Some (rev tail_breaks @ rest))"

text \<open>A match of \<^verbatim>\<open>[a-z0-9]+\s*;\s*[a-z_]+\s*=\s*[^;\r\n]+\<close> at the beginning: the rest of the text.\<close>

definition match_chunk_ext :: "string \<Rightarrow> string option" where
  "match_chunk_ext s =
     (let s1 = dropWhile alnum s; s2 = dropWhile ws_char s1 in
      if s = [] \<or> \<not> alnum (hd s) \<or> s2 = [] \<or> hd s2 \<noteq> CHR '';'' then None
      else
        let s3 = dropWhile ws_char (tl s2); s4 = dropWhile name_char s3; s5 = dropWhile ws_char s4 in
        if s3 = [] \<or> \<not> name_char (hd s3) \<or> s5 = [] \<or> hd s5 \<noteq> CHR ''='' then None
        else match_value (tl s5))"

function count_chunk_ext :: "string \<Rightarrow> nat" where
  "count_chunk_ext s =
     (if s = [] then 0
      else case match_chunk_ext s of
             Some rest \<Rightarrow> if length rest < length s then Suc (count_chunk_ext rest) else 0
           | None \<Rightarrow> count_chunk_ext (tl s))"
  by pat_completeness auto
termination
  by (relation "measure length") auto

declare count_chunk_ext.simps [simp del]

section \<open>Decoding of header values\<close>

definition hex_char_val :: "char \<Rightarrow> nat option" where
  "hex_char_val c =
     (if is_digit c then Some (of_char c - 48)
      else if CHR ''a'' \<le> c \<and> c \<le> CHR ''f'' then Some (of_char c - 87)
      else if CHR ''A'' \<le> c \<and> c \<le> CHR ''F'' then Some (of_char c - 55) else None)"

text \<open>
  \<^verbatim>\<open>fmt.Sscanf(hex, "%02x", &b)\<close> on two bytes: blanks are skipped first (a line feed is an error), one
  hexadecimal digit is enough, and what is left over is no error.
\<close>

definition scan_hex :: "char \<Rightarrow> char \<Rightarrow> nat option" where
  "scan_hex a b =
     (case hex_char_val a of
        Some x \<Rightarrow> (case hex_char_val b of Some y \<Rightarrow> Some (16 * x + y) | None \<Rightarrow> Some x)
      | None \<Rightarrow> if is_space a \<and> a \<noteq> CHR 0x0A then hex_char_val b else None)"

fun decode_pass :: "string \<Rightarrow> string" where
  "decode_pass [] = []"
| "decode_pass (c # cs) =
     (if c = CHR ''%'' then
        (case cs of
           a # b # rest \<Rightarrow>
             (case scan_hex a b of None \<Rightarrow> c # decode_pass cs | Some v \<Rightarrow> char_of v # decode_pass rest)
         | _ \<Rightarrow> c # decode_pass cs)
      else c # decode_pass cs)"

partial_function (option) decode_path_value :: "string \<Rightarrow> string option" where
  "decode_path_value v =
     (if CHR ''%'' \<notin> set v then Some v
      else
        let r = decode_pass v
        in if CHR ''%'' \<in> set r then decode_path_value r else Some r)"

section \<open>Checks\<close>

definition conf_decision ::
  "action \<Rightarrow> string \<Rightarrow> string \<Rightarrow> string \<Rightarrow> rat \<Rightarrow> rat \<Rightarrow> gotext \<Rightarrow> decision" where
  "conf_decision act rid name sev score conf ev = (mk_decision act rid name sev score ev)\<lparr>d_confidence := conf\<rparr>"

fun scan_headers :: "header_map \<Rightarrow> decision option option" where
  "scan_headers [] = Some None"
| "scan_headers ((k, v) # hs) =
     (if CHR ''%'' \<in> set k \<or> CHR ''%'' \<in> set v then
        (case decode_path_value v of
           None \<Rightarrow> None
         | Some dec \<Rightarrow>
             if dec \<noteq> v \<and> (contains dec ''../'' \<or> contains dec [CHR ''.'', CHR ''.'', CHR 0x5C])
             then Some (Some (conf_decision ActionBlock ''PARSER_002'' ''Double-Encoded Path Traversal'' ''critical''
                    90 (98/100) (Fmt ''double-encoded path traversal in header %s: %q -> %q'' [AStr k, AStr v, AStr dec])))
             else scan_headers hs)
      else scan_headers hs)"

definition detect_normalization_bypass :: "reqctx \<Rightarrow> decision option option" where
  "detect_normalization_bypass c =
     (if normalization_pattern (c_path c)
      then Some (Some (conf_decision ActionBlock ''PARSER_001'' ''Normalization Bypass Attempt'' ''high'' 75 (95/100)
             (Fmt ''suspicious path normalization pattern in %q'' [AStr (c_path c)])))
      else scan_headers (c_headers c))"

definition check_target :: "string \<Rightarrow> decision option" where
  "check_target t =
     (case runes t of
        None \<Rightarrow> Some (conf_decision ActionBlock ''PARSER_010'' ''Invalid UTF-8 in Request'' ''high'' 70 (90/100)
                  (Lit ''invalid UTF-8 sequence detected in request data''))
      | Some rs \<Rightarrow>
          (case find control_rune rs of
             Some r \<Rightarrow> Some (conf_decision ActionBlock ''PARSER_011'' ''Unicode Control Character'' ''high'' 75 (92/100)
                         (Fmt ''unicode control character U+%04X in request'' [AInt (int r)]))
           | None \<Rightarrow>
               if \<exists>r\<in>set rs. overlong_rune r
               then Some (conf_decision ActionBlock ''PARSER_012'' ''Overlong UTF-8 Encoding'' ''critical'' 85 (95/100)
                      (Lit ''overlong UTF-8 encoding detected (parser differential attack)''))
               else None))"

definition detect_unicode_attack :: "reqctx \<Rightarrow> decision option" where
  "detect_unicode_attack c =
     first_some check_target ([c_path c, c_method c, c_real_ip c] @ concat (map (\<lambda>(k, v). [k, v]) (c_headers c)))"

text \<open>\<^verbatim>\<open>strings.Split(ct, "boundary=")[1]\<close>, then the cut at the first separator that is not at position 0.\<close>

definition boundary_part :: "string \<Rightarrow> string option" where
  "boundary_part ct =
     (case str_index ct ''boundary='' of
        None \<Rightarrow> None
      | Some i \<Rightarrow>
          (let after = drop (i + 9) ct
           in Some (case str_index after ''boundary='' of None \<Rightarrow> after | Some j \<Rightarrow> take j after)))"

definition extract_boundary :: "string \<Rightarrow> string" where
  "extract_boundary ct =
     (if \<not> contains (to_lower ct) ''boundary='' then []
      else
        case boundary_part ct of
          None \<Rightarrow> []
        | Some p \<Rightarrow>
            (let b = trim_space p; keep = takeWhile (\<lambda>ch. ch \<notin> {CHR '';'', CHR '' '', CHR 0x09, CHR 0x0D, CHR 0x0A}) b
             in trim_char CHR 0x22 (if keep = [] then b else keep)))"

definition detect_parser_differential :: "reqctx \<Rightarrow> decision option" where
  "detect_parser_differential c =
     (let ct = header_get (c_request c) ''Content-Type''; boundary = extract_boundary ct;
          tes = header_values (c_request c) ''Transfer-Encoding'' in
      if contains (to_lower ct) ''multipart/form-data'' \<and> boundary \<noteq> []
         \<and> (CHR 0x5C \<in> set boundary \<or> has_prefix boundary '' '')
      then Some (conf_decision ActionBlock ''PARSER_020'' ''Multipart Boundary Parser Differential'' ''high'' 80 (93/100)
             (Fmt ''suspicious multipart boundary: %q'' [AStr boundary]))
      else if 1 < length tes
      then Some (conf_decision ActionBlock ''PARSER_021'' ''Multiple Transfer-Encoding (Parser Differential)''
             ''critical'' 95 (97/100) (Fmt ''multiple TE headers: %v'' [AStrs tes]))
      else None)"

definition detect_http_downgrade :: "reqctx \<Rightarrow> decision option" where
  "detect_http_downgrade c =
     (let old = (rq_proto (c_request c) = ''HTTP/1.0'') in
      if old \<and> c_method c = ''POST'' \<and> header_get (c_request c) ''Content-Length'' = [] \<and> ctx_body c \<noteq> []
      then Some (conf_decision ActionBlock ''PARSER_030'' ''HTTP/1.0 Downgrade Attack'' ''high'' 70 (85/100)
             (Lit ''HTTP/1.0 POST with body but no Content-Length (request smuggling)''))
      else if old \<and> header_get (c_request c) ''Host'' = []
      then Some (conf_decision ActionMonitor ''PARSER_031'' ''HTTP/1.0 No Host Header'' ''low'' 20 (60/100)
             (Lit ''HTTP/1.0 request missing Host header''))
      else if c_method c = ''PRI'' \<and> has_prefix (ctx_header c ''PRI'') ''PRI * HTTP/2.0''
      then Some (conf_decision ActionBlock ''PARSER_032'' ''HTTP/2 Preface in HTTP/1.1'' ''critical'' 95 (99/100)
             (Lit ''HTTP/2 connection preface sent on HTTP/1.1 connection''))
      else None)"

definition chunk_end :: string where
  "chunk_end = [CHR ''0'', CHR 0x0D, CHR 0x0A, CHR 0x0D, CHR 0x0A]"

definition detect_chunked_abuse :: "reqctx \<Rightarrow> decision option" where
  "detect_chunked_abuse c =
     (let te = header_get (c_request c) ''Transfer-Encoding''; body = ctx_body c; exts = count_chunk_ext body in
      if \<not> contains (to_lower te) ''chunked'' \<or> body = [] then None
      else if 3 < exts
      then Some (conf_decision ActionMonitor ''PARSER_040'' ''Excessive Chunk Extensions'' ''medium'' 40 (70/100)
             (Fmt ''excessive chunk extensions (%d) in chunked body'' [AInt (int exts)]))
      else if 1 < count_sub body chunk_end
      then Some (conf_decision ActionBlock ''PARSER_041'' ''Chunked Trailer Confusion'' ''high'' 75 (90/100)
             (Lit ''multiple chunk terminator markers in chunked body''))
      else None)"

text \<open>The whole inspection; \<open>None\<close> when a header value is decoded for ever.\<close>

definition parser_check :: "reqctx \<Rightarrow> decision option option" where
  "parser_check c =
     (case detect_normalization_bypass c of
        None \<Rightarrow> None
      | Some (Some d) \<Rightarrow> Some (Some d)
      | Some None \<Rightarrow> Some (first_of [detect_unicode_attack c, detect_parser_differential c,
                                    detect_http_downgrade c, detect_chunked_abuse c]))"

section \<open>When decoding returns\<close>

lemma decode_pass_shrinks: "length (decode_pass s) < length s \<or> decode_pass s = s"
  by (induction s rule: decode_pass.induct) (auto split: list.splits option.splits)

lemma decode_pass_plain: "CHR ''%'' \<notin> set s \<Longrightarrow> decode_pass s = s"
  by (induction s rule: decode_pass.induct) auto

definition stuck :: "string \<Rightarrow> bool" where
  "stuck s \<longleftrightarrow> CHR ''%'' \<in> set s \<and> decode_pass s = s"

lemma funpow_pass_plain: "CHR ''%'' \<notin> set s \<Longrightarrow> (decode_pass ^^ n) s = s"
  by (induction n) (simp_all add: decode_pass_plain)

lemma not_stuck_plain: "CHR ''%'' \<notin> set s \<Longrightarrow> \<not> stuck ((decode_pass ^^ n) s)"
  by (simp add: funpow_pass_plain stuck_def)

lemma not_stuck_Suc: "stuck ((decode_pass ^^ n) v) \<Longrightarrow> n = 0 \<or> stuck ((decode_pass ^^ (n - 1)) (decode_pass v))"
  by (cases n) (simp_all add: funpow_swap1)

lemma stuck_step:
  assumes "\<And>n. CHR ''%'' \<in> set (decode_pass v) \<Longrightarrow> \<not> stuck ((decode_pass ^^ n) (decode_pass v))"
  shows "\<not> stuck ((decode_pass ^^ n) v)"
proof
  assume stuck: "stuck ((decode_pass ^^ n) v)"
  have rest: "\<not> stuck ((decode_pass ^^ m) (decode_pass v))" for m
    using assms not_stuck_plain by blast
  with not_stuck_Suc [OF stuck] have "n = 0" by blast
  then have v: "stuck v" using stuck by simp
  then have same: "decode_pass v = v" unfolding stuck_def by blast
  have "\<not> stuck (decode_pass v)" using rest [of 0] by simp
  then have "\<not> stuck v" by (subst (asm) same)
  with v show False by contradiction
qed

lemma decode_Some_not_stuck:
  assumes "decode_path_value v = Some y"
  shows "\<not> stuck ((decode_pass ^^ n) v)"
proof -
  have "\<forall>n. \<not> stuck ((decode_pass ^^ n) v)"
  proof (rule decode_path_value.raw_induct [OF _ assms, where P = "\<lambda>v y. \<forall>n. \<not> stuck ((decode_pass ^^ n) v)"])
    fix dec v y
    assume IH: "\<And>x y. dec x = Some y \<Longrightarrow> \<forall>n. \<not> stuck ((decode_pass ^^ n) x)"
      and body: "(if CHR ''%'' \<notin> set v then Some v
         else let r = decode_pass v in if CHR ''%'' \<in> set r then dec r else Some r) = Some y"
    show "\<forall>n. \<not> stuck ((decode_pass ^^ n) v)"
    proof (cases "CHR ''%'' \<in> set v")
      case True
      then have "dec (decode_pass v) = Some y" if "CHR ''%'' \<in> set (decode_pass v)"
        using body that by (simp add: Let_def)
      then have "\<not> stuck ((decode_pass ^^ n) (decode_pass v))" if "CHR ''%'' \<in> set (decode_pass v)" for n
        using IH [of "decode_pass v" y] that by blast
      then show ?thesis using stuck_step [of v] by blast
    next
      case False
      then show ?thesis using not_stuck_plain by blast
    qed
  qed
  then show ?thesis by blast
qed

lemma decode_None_stuck: "decode_path_value v = None \<Longrightarrow> \<exists>n. stuck ((decode_pass ^^ n) v)"
proof (induction v rule: length_induct)
  case (1 v)
  then have v: "CHR ''%'' \<in> set v" "CHR ''%'' \<in> set (decode_pass v)" "decode_path_value (decode_pass v) = None"
    by (auto simp: decode_path_value.simps [of v] Let_def split: if_splits)
  show ?case
  proof (cases "decode_pass v = v")
    case True
    with v show ?thesis by (intro exI [of _ 0]) (simp add: stuck_def)
  next
    case False
    with decode_pass_shrinks [of v] 1(1) v(3) obtain n where "stuck ((decode_pass ^^ n) (decode_pass v))" by auto
    then show ?thesis by (intro exI [of _ "Suc n"]) (simp add: funpow_swap1)
  qed
qed

text \<open>Property C14. Decoding a header value never returns exactly when some number of passes leaves a
  text that still contains a percent sign and that a further pass does not change; every other
  value is decoded after finitely many passes.\<close>

theorem decoding_diverges_iff_stuck:
  "decode_path_value v = None \<longleftrightarrow> (\<exists>n. stuck ((decode_pass ^^ n) v))"
  using decode_None_stuck decode_Some_not_stuck by (metis not_None_eq)

lemma normalization_None_iff:
  "\<not> normalization_pattern (c_path c) \<Longrightarrow> parser_check c = None \<longleftrightarrow> scan_headers (c_headers c) = None"
  by (auto simp: parser_check_def detect_normalization_bypass_def split: option.splits)

text \<open>One request can end the process: if the path is clean and the first header that
  holds a percent sign has a value on which a decoding pass makes no progress, such as \<^verbatim>\<open>100%\<close>, the
  inspection never returns.\<close>

lemma percent_header_never_returns:
  assumes "\<not> normalization_pattern (c_path c)" and "c_headers c = hs @ (k, v) # hs'"
    and "\<forall>(k, v)\<in>set hs. CHR ''%'' \<notin> set k \<and> CHR ''%'' \<notin> set v" and "stuck v"
  shows "parser_check c = None"
proof -
  have "decode_path_value v = None"
    using assms(4) decode_Some_not_stuck [of v _ 0] by (cases "decode_path_value v") auto
  then have "scan_headers ((k, v) # hs') = None" using assms(4) by (simp add: stuck_def)
  then have "scan_headers (hs @ (k, v) # hs') = None"
    using assms(3) by (induction hs) auto
  then show ?thesis using normalization_None_iff [OF assms(1)] assms(2) by simp
qed

definition header_request :: "header_map \<Rightarrow> reqctx" where
  "header_request hs = \<lparr>c_request = \<lparr>rq_header = [], rq_content_length = 0, rq_proto = ''HTTP/1.1'', rq_tls = None\<rparr>,
     c_status = None, c_real_ip = ''1.2.3.4'', c_user_agent = [], c_path = ''/'', c_method = ''GET'', c_headers = hs,
     c_cookies = [], c_query = [], c_form = [], c_body = None, c_content_type = [], c_session_id = [],
     c_user_id = [], c_bot_score = 0, c_threat = 0, c_decisions = [], c_is_bot = False,
     c_known_attack = False, c_host = [], c_tls_version = [], c_ja3 = []\<rparr>"

lemma percent_header_never_returns_witness:
  "parser_check (header_request [(''Accept'', ''text/html''), (''X-Rate'', ''100%'')]) = None"
proof (rule percent_header_never_returns)
  show "c_headers (header_request [(''Accept'', ''text/html''), (''X-Rate'', ''100%'')])
    = [(''Accept'', ''text/html'')] @ (''X-Rate'', ''100%'') # []" by (simp add: header_request_def)
qed (simp_all add: header_request_def stuck_def normalization_pattern_def has_suffix_def to_lower_def lower_char_def
    is_upper_def less_eq_char_def)

text \<open>The check for overlong encodings refuses correct UTF-8: every valid text that
  contains one of the characters U+00E0 to U+00FF, \<^verbatim>\<open>e\<close> with acute accent say, is blocked, since the
  expression matches runes where bytes were meant.\<close>

lemma latin_letters_blocked:
  assumes "runes (c_path c) = Some rs" and "r \<in> set rs" and "0xE0 \<le> r" "r \<le> 0xFF"
  shows "\<exists>d. detect_unicode_attack c = Some d \<and> d_action d = ActionBlock"
proof -
  have "\<exists>x\<in>set rs. overlong_rune x" using assms(2-4) by (auto simp: overlong_rune_def)
  then have "\<exists>d. check_target (c_path c) = Some d \<and> d_action d = ActionBlock"
    using assms(1) by (auto simp: check_target_def conf_decision_def split: option.splits)
  then show ?thesis by (auto simp: detect_unicode_attack_def)
qed

lemma latin_letters_blocked_witness:
  "\<exists>d. detect_unicode_attack ((header_request [])\<lparr>c_path := [CHR ''/'', CHR 0xC3, CHR 0xA9]\<rparr>) = Some d
     \<and> d_action d = ActionBlock"
  by (rule latin_letters_blocked [where rs = "[47, 0xE9]" and r = "0xE9"]) (simp_all add: runes_def cont_byte_def)

end
