(* ===== verification/License.thy ===== *)
theory License
  imports Prelude Base64
begin

text \<open>
  Licences, \<^verbatim>\<open>internal/billing/license.go\<close>. A token is \<^verbatim>\<open>FWL-payload.signature\<close> with both parts in
  unpadded URL-safe Base64. The JSON codec of the claims, SHA-256 and ECDSA are arguments, collected in
  \<open>license_env\<close>; the first argument of signing is the randomness it draws.
\<close>

record claims =
  cl_tier :: string
  cl_org :: string
  cl_seats :: int
  cl_features :: "string list"
  cl_issued :: gotime
  cl_expires :: gotime
  cl_grace :: gotime
  cl_version :: string
  cl_id :: string

record ('sk, 'pk) license_env =
  le_marshal :: "claims \<Rightarrow> string option"
  le_unmarshal :: "string \<Rightarrow> claims option"
  le_sha :: "string \<Rightarrow> string"
  le_sign :: "nat \<Rightarrow> 'sk \<Rightarrow> string \<Rightarrow> string option"
  le_verify :: "'pk \<Rightarrow> string \<Rightarrow> string \<Rightarrow> bool"

record ('sk, 'pk) license =
  li_private :: 'sk
  li_public :: 'pk

datatype license_error = MarshalError | SignError | InvalidFormat | BadBase64 | InvalidSignature | BadClaims | Expired

definition generate :: "('sk, 'pk) license_env \<Rightarrow> nat \<Rightarrow> ('sk, 'pk) license \<Rightarrow> claims \<Rightarrow> license_error + string" where
  "generate env r l c =
     (case le_marshal env c of
        None \<Rightarrow> Inl MarshalError
      | Some m \<Rightarrow>
          (case le_sign env r (li_private l) (le_sha env m) of
             None \<Rightarrow> Inl SignError
           | Some sg \<Rightarrow> Inr (''FWL-'' @ b64url_encode m @ ''.'' @ b64url_encode sg)))"

text \<open>The two parts of a token, decoded.\<close>

definition token_parts :: "string \<Rightarrow> license_error + string \<times> string" where
  "token_parts token =
     (case split_char CHR ''.'' token of
        [p, s] \<Rightarrow>
          (case b64url_decode p of
             None \<Rightarrow> Inl BadBase64
           | Some payload \<Rightarrow>
               (case b64url_decode s of None \<Rightarrow> Inl BadBase64 | Some sg \<Rightarrow> Inr (payload, sg)))
      | _ \<Rightarrow> Inl InvalidFormat)"

definition validate_with_public_key ::
  "('sk, 'pk) license_env \<Rightarrow> string \<Rightarrow> 'pk \<Rightarrow> license_error + claims" where
  "validate_with_public_key env token pk =
     (case token_parts token of
        Inl e \<Rightarrow> Inl e
      | Inr (payload, sg) \<Rightarrow>
          if \<not> le_verify env pk (le_sha env payload) sg then Inl InvalidSignature
          else (case le_unmarshal env payload of None \<Rightarrow> Inl BadClaims | Some c \<Rightarrow> Inr c))"

definition validate_license ::
  "('sk, 'pk) license_env \<Rightarrow> gotime \<Rightarrow> ('sk, 'pk) license \<Rightarrow> string \<Rightarrow> license_error + claims" where
  "validate_license env now l token =
     (case token_parts token of
        Inl e \<Rightarrow> Inl e
      | Inr (payload, sg) \<Rightarrow>
          if \<not> le_verify env (li_public l) (le_sha env payload) sg then Inl InvalidSignature
          else
            (case le_unmarshal env payload of
               None \<Rightarrow> Inl BadClaims
             | Some c \<Rightarrow> if cl_grace c < now then Inl Expired else Inr c))"

definition validate_without_signature :: "('sk, 'pk) license_env \<Rightarrow> string \<Rightarrow> license_error + claims" where
  "validate_without_signature env token =
     (case split_char CHR ''.'' token of
        [p, s] \<Rightarrow>
          (case b64url_decode p of
             None \<Rightarrow> Inl BadBase64
           | Some payload \<Rightarrow> (case le_unmarshal env payload of None \<Rightarrow> Inl BadClaims | Some c \<Rightarrow> Inr c))
      | _ \<Rightarrow> Inl InvalidFormat)"

text \<open>\<^verbatim>\<open>GenerateTrialLicense\<close>: the clock is read twice, and the key of the fresh \<open>l\<close> is dropped afterwards.\<close>

definition trial_claims :: "gotime \<Rightarrow> gotime \<Rightarrow> claims" where
  "trial_claims issued now =
     \<lparr>cl_tier = ''professional'', cl_org = ''Trial'', cl_seats = 1,
      cl_features = [''ml_engine'', ''api_protection'', ''dlp'', ''compliance_reports'', ''advanced_analytics''],
      cl_issued = issued, cl_expires = issued + 30 * 24 * hour, cl_grace = issued + 30 * 24 * hour + 7 * 24 * hour,
      cl_version = ''1.0.0'', cl_id = ''TRIAL-'' @ itoa now\<rparr>"

definition generate_trial_license ::
  "('sk, 'pk) license_env \<Rightarrow> nat \<Rightarrow> ('sk, 'pk) license \<Rightarrow> gotime \<Rightarrow> gotime \<Rightarrow> (license_error + string) \<times> string" where
  "generate_trial_license env r l issued now =
     (generate env r l (trial_claims issued now), cl_id (trial_claims issued now))"

definition is_feature_enabled :: "claims \<Rightarrow> string \<Rightarrow> bool" where
  "is_feature_enabled c f = (f \<in> set (cl_features c))"

definition parse_license_id :: "('sk, 'pk) license_env \<Rightarrow> string \<Rightarrow> license_error + string" where
  "parse_license_id env token = map_sum id cl_id (validate_without_signature env token)"

definition get_license_expiry :: "('sk, 'pk) license_env \<Rightarrow> string \<Rightarrow> license_error + gotime" where
  "get_license_expiry env token = map_sum id cl_expires (validate_without_signature env token)"

definition get_license_tier :: "('sk, 'pk) license_env \<Rightarrow> string \<Rightarrow> license_error + string" where
  "get_license_tier env token = map_sum id cl_tier (validate_without_signature env token)"

section \<open>Public keys as text\<close>

definition encode_big_int :: "int \<Rightarrow> string" where
  "encode_big_int n = itoa n"

text \<open>\<^verbatim>\<open>big.Int.SetString(s, 10)\<close>: \<open>None\<close> where the code returns a number of undefined value.\<close>

definition decode_big_int :: "string \<Rightarrow> int option" where
  "decode_big_int s =
     (case s of
        [] \<Rightarrow> None
      | c # cs \<Rightarrow>
          if c = CHR ''-'' then map_option (\<lambda>n. - int n) (parse_uint cs)
          else if c = CHR ''+'' then map_option int (parse_uint cs)
          else map_option int (parse_uint s))"

definition encode_public_key :: "int \<times> int \<Rightarrow> string" where
  "encode_public_key p = encode_big_int (fst p) @ '','' @ encode_big_int (snd p)"

lemma decode_encode_big_int: "decode_big_int (encode_big_int n) = Some n"
proof (cases "n < 0")
  case True
  then show ?thesis
    by (simp add: decode_big_int_def encode_big_int_def itoa_def parse_uint_def parse_digits_utoa)
next
  case False
  obtain c cs where u: "utoa (nat n) = c # cs" by (cases "utoa (nat n)") (use utoa_nonempty in auto)
  then have "parse_uint (c # cs) = Some (nat n)" using parse_digits_utoa [of "nat n"] by (simp add: parse_uint_def)
  then show ?thesis using False utoa_hd_not_dash [OF u]
    by (simp add: decode_big_int_def encode_big_int_def itoa_def u)
qed

lemma itoa_no_comma: "CHR '','' \<notin> set (itoa n)"
proof -
  have "\<not> is_digit CHR '',''" by (simp add: is_digit_def less_eq_char_def)
  then have "CHR '','' \<notin> set (utoa m)" for m using utoa_digits by blast
  then show ?thesis by (simp add: itoa_def)
qed

lemma split_encoded_key:
  "split2 CHR '','' (encode_public_key (x, y)) = Some (encode_big_int x, encode_big_int y)"
  by (simp add: split2_Some_iff encode_public_key_def encode_big_int_def itoa_no_comma)

section \<open>Generated tokens\<close>

lemma token_parts_no_dots:
  assumes "CHR ''.'' \<notin> set p" "CHR ''.'' \<notin> set s"
  shows "split_char CHR ''.'' (p @ ''.'' @ s) = [p, s]"
  using split_char_append [OF assms(1), of s] split_char_fresh [OF assms(2)] by simp

lemma token_parts_encoded:
  "token_parts (b64url_encode m @ ''.'' @ b64url_encode s) = Inr (m, s)"
  using token_parts_no_dots [OF b64url_encode_no_dot b64url_encode_no_dot, of m s]
  by (simp add: token_parts_def b64url_roundtrip)

text \<open>The four characters of the prefix are letters of the Base64 alphabet and decode to three bytes.\<close>

definition prefix_bytes :: string where
  "prefix_bytes = [CHR 0x15, CHR 0x62, CHR 0xFE]"

lemma decode_prefixed:
  assumes "b64url_decode t = Some m"
  shows "b64url_decode (''FWL-'' @ t) = Some (prefix_bytes @ m)"
proof -
  let ?plain = "\<lambda>c. c \<noteq> CHR 0x0A \<and> c \<noteq> CHR 0x0D"
  obtain xs bs where xs: "all_some (map b64_val (filter ?plain t)) = Some xs"
    and bs: "b64_decode_sextets xs = Some bs" and m: "m = map char_of bs"
    using assms by (auto simp: b64url_decode_def split: option.splits)
  have "map b64_val (filter ?plain ''FWL-'') = [Some 5, Some 22, Some 11, Some 62]"
    by (simp add: b64_val_def char_range_defs)
  then have "all_some (map b64_val (filter ?plain (''FWL-'' @ t))) = Some ([5, 22, 11, 62] @ xs)"
    using xs by simp
  moreover have "map char_of [21, 98, 254 :: nat] = prefix_bytes" by (simp add: prefix_bytes_def) code_simp
  ultimately show ?thesis using bs m by (simp add: b64url_decode_def)
qed

lemma prefixed_token_parts:
  "token_parts (''FWL-'' @ b64url_encode m @ ''.'' @ b64url_encode s) = Inr (prefix_bytes @ m, s)"
proof -
  have "CHR ''.'' \<notin> set (''FWL-'' @ b64url_encode m)" using b64url_encode_no_dot by simp
  from token_parts_no_dots [OF this b64url_encode_no_dot [of s]]
  have "split_char CHR ''.'' ((''FWL-'' @ b64url_encode m) @ ''.'' @ b64url_encode s)
      = [''FWL-'' @ b64url_encode m, b64url_encode s]" .
  then show ?thesis
    using decode_prefixed [OF b64url_roundtrip [of m]] by (simp add: token_parts_def b64url_roundtrip)
qed

lemma generate_Inr:
  assumes "generate env r l c = Inr t"
  obtains m sg where "le_marshal env c = Some m" "le_sign env r (li_private l) (le_sha env m) = Some sg"
    "t = ''FWL-'' @ b64url_encode m @ ''.'' @ b64url_encode sg"
  using assms by (auto simp: generate_def split: option.splits)

text \<open>
  What the code relies on of the signature scheme: a signature made with the private key verifies, and
  it verifies for the signed message only.
\<close>

definition signs_correctly :: "('sk, 'pk) license_env \<Rightarrow> ('sk, 'pk) license \<Rightarrow> bool" where
  "signs_correctly env l \<longleftrightarrow>
     (\<forall>r m sg. le_sign env r (li_private l) (le_sha env m) = Some sg \<longrightarrow> le_verify env (li_public l) (le_sha env m) sg)"

definition binds_message :: "('sk, 'pk) license_env \<Rightarrow> ('sk, 'pk) license \<Rightarrow> bool" where
  "binds_message env l \<longleftrightarrow>
     (\<forall>r m sg m'. le_sign env r (li_private l) (le_sha env m) = Some sg
        \<longrightarrow> le_verify env (li_public l) (le_sha env m') sg \<longrightarrow> m' = m)"

lemma issued_license_refused_parts:
  assumes "binds_message env l" and "generate env r l c = Inr t"
  shows "validate_license env now l t = Inl InvalidSignature"
    "validate_with_public_key env t (li_public l) = Inl InvalidSignature"
proof -
  obtain m sg where sg: "le_sign env r (li_private l) (le_sha env m) = Some sg"
    and t: "t = ''FWL-'' @ b64url_encode m @ ''.'' @ b64url_encode sg"
    using generate_Inr [OF assms(2)] by metis
  have "prefix_bytes @ m \<noteq> m" by (simp add: prefix_bytes_def)
  then have "\<not> le_verify env (li_public l) (le_sha env (prefix_bytes @ m)) sg"
    using assms(1) sg unfolding binds_message_def by blast
  then show "validate_license env now l t = Inl InvalidSignature"
    "validate_with_public_key env t (li_public l) = Inl InvalidSignature"
    unfolding t by (simp_all add: validate_license_def validate_with_public_key_def prefixed_token_parts
        del: append_Cons append_Nil)
qed

text \<open>Property C15. No licence that the system issues is ever accepted by its own validation: \<^verbatim>\<open>Generate\<close>
  puts \<^verbatim>\<open>FWL-\<close> before the payload, \<^verbatim>\<open>Validate\<close> decodes it as part of the payload, and so checks the
  signature of another message.\<close>

theorem issued_license_refused:
  assumes "binds_message env l" and "generate env r l c = Inr t"
  shows "validate_license env now l t = Inl InvalidSignature \<and> validate_with_public_key env t (li_public l) = Inl InvalidSignature"
  using issued_license_refused_parts [OF assms] by blast

lemma stripped_license_roundtrip_parts:
  assumes "signs_correctly env l" and "generate env r l c = Inr t"
    and "\<And>m. le_marshal env c = Some m \<Longrightarrow> le_unmarshal env m = Some c"
  shows "validate_license env now l (drop 4 t) = (if now \<le> cl_grace c then Inr c else Inl Expired)"
    "validate_with_public_key env (drop 4 t) (li_public l) = Inr c"
    "get_license_tier env (drop 4 t) = Inr (cl_tier c)"
proof -
  obtain m sg where m: "le_marshal env c = Some m" and sg: "le_sign env r (li_private l) (le_sha env m) = Some sg"
    and t: "t = ''FWL-'' @ b64url_encode m @ ''.'' @ b64url_encode sg"
    using generate_Inr [OF assms(2)] by metis
  have t4: "drop 4 t = b64url_encode m @ ''.'' @ b64url_encode sg" by (simp add: t)
  have ok: "le_verify env (li_public l) (le_sha env m) sg" "le_unmarshal env m = Some c"
    using assms(1,3) m sg unfolding signs_correctly_def by blast+
  then show "validate_license env now l (drop 4 t) = (if now \<le> cl_grace c then Inr c else Inl Expired)"
    "validate_with_public_key env (drop 4 t) (li_public l) = Inr c"
    unfolding t4 by (simp_all add: validate_license_def validate_with_public_key_def token_parts_encoded del: append_Cons append_Nil)
  have "split_char CHR ''.'' (b64url_encode m @ ''.'' @ b64url_encode sg) = [b64url_encode m, b64url_encode sg]"
    by (rule token_parts_no_dots [OF b64url_encode_no_dot b64url_encode_no_dot])
  then show "get_license_tier env (drop 4 t) = Inr (cl_tier c)"
    using ok unfolding t4 by (simp add: get_license_tier_def validate_without_signature_def b64url_roundtrip)
qed

text \<open>Without the prefix the token round-trips: it is accepted up to the end of its grace
  period, refused afterwards, and gives back the claims; \<^verbatim>\<open>ValidateWithPublicKey\<close> accepts it for ever.\<close>

lemma stripped_license_roundtrip:
  assumes "signs_correctly env l" and "generate env r l c = Inr t"
    and "\<And>m. le_marshal env c = Some m \<Longrightarrow> le_unmarshal env m = Some c"
  shows "validate_license env now l (drop 4 t) = (if now \<le> cl_grace c then Inr c else Inl Expired)
    \<and> validate_with_public_key env (drop 4 t) (li_public l) = Inr c
    \<and> get_license_tier env (drop 4 t) = Inr (cl_tier c)"
  using stripped_license_roundtrip_parts [OF assms(1,2)] assms(3) by simp

section \<open>Witnesses\<close>

text \<open>A scheme in which the message is its own hash and signature, and a codec that knows one licence.\<close>

definition demo_license_env :: "(unit, unit) license_env" where
  "demo_license_env = \<lparr>le_marshal = (\<lambda>c. if c = trial_claims 0 0 then Some ''{}'' else None),
     le_unmarshal = (\<lambda>m. if m = ''{}'' then Some (trial_claims 0 0) else None),
     le_sha = (\<lambda>m. m), le_sign = (\<lambda>r sk m. Some m), le_verify = (\<lambda>pk m s. m = s)\<rparr>"

definition demo_license :: "(unit, unit) license" where
  "demo_license = \<lparr>li_private = (), li_public = ()\<rparr>"

lemmas demo_license_defs = demo_license_env_def demo_license_def

theorem issued_license_refused_witness:
  "validate_license demo_license_env 1 demo_license (''FWL-'' @ b64url_encode ''{}'' @ ''.'' @ b64url_encode ''{}'')
     = Inl InvalidSignature
   \<and> validate_with_public_key demo_license_env (''FWL-'' @ b64url_encode ''{}'' @ ''.'' @ b64url_encode ''{}'')
       (li_public demo_license) = Inl InvalidSignature"
  by (rule issued_license_refused [where r = 0 and c = "trial_claims 0 0"])
    (simp_all add: binds_message_def generate_def demo_license_defs)

lemma stripped_license_roundtrip_witness:
  "validate_license demo_license_env 1 demo_license
     (drop 4 (''FWL-'' @ b64url_encode ''{}'' @ ''.'' @ b64url_encode ''{}''))
     = (if 1 \<le> cl_grace (trial_claims 0 0) then Inr (trial_claims 0 0) else Inl Expired)
   \<and> validate_with_public_key demo_license_env
     (drop 4 (''FWL-'' @ b64url_encode ''{}'' @ ''.'' @ b64url_encode ''{}'')) (li_public demo_license)
     = Inr (trial_claims 0 0)
   \<and> get_license_tier demo_license_env
     (drop 4 (''FWL-'' @ b64url_encode ''{}'' @ ''.'' @ b64url_encode ''{}'')) = Inr (cl_tier (trial_claims 0 0))"
  by (rule stripped_license_roundtrip [where r = 0])
    (simp_all add: signs_correctly_def generate_def demo_license_defs split: if_splits)

end
