(* ===== verification/Usage.thy ===== *)
theory Usage
  imports Prelude WafTypes
begin

text \<open>
  Usage metering and plan features, \<^verbatim>\<open>internal/billing/usage.go\<close> and \<^verbatim>\<open>features.go\<close>. Counters are
  \<^verbatim>\<open>int64\<close> and wrap; the percentage is a rational.
\<close>

section \<open>State\<close>

record tenant_usage =
  tu_today :: int
  tu_month :: int
  tu_blocks :: int
  tu_last_reset :: gotime
  tu_month_start :: gotime

record usage_tracker =
  ut_counters :: "string \<rightharpoonup> tenant_usage"
  ut_limits :: "string \<rightharpoonup> int"

record usage_snapshot =
  us_tenant :: string
  us_today :: int
  us_month :: int
  us_blocks :: int
  us_limit :: int
  us_at :: gotime

definition new_usage_tracker :: usage_tracker where
  "new_usage_tracker = \<lparr>ut_counters = Map.empty, ut_limits = Map.empty\<rparr>"

section \<open>Operations\<close>

definition set_limit :: "string \<Rightarrow> int \<Rightarrow> usage_tracker \<Rightarrow> usage_tracker" where
  "set_limit k l u = u\<lparr>ut_limits := (ut_limits u)(k \<mapsto> l)\<rparr>"

definition new_usage :: "gotime \<Rightarrow> tenant_usage" where
  "new_usage now = \<lparr>tu_today = 0, tu_month = 0, tu_blocks = 0, tu_last_reset = now, tu_month_start = now\<rparr>"

definition roll_day :: "gotime \<Rightarrow> tenant_usage \<Rightarrow> tenant_usage" where
  "roll_day now x =
     (if 24 * hour < time_sub now (tu_last_reset x) then x\<lparr>tu_today := 0, tu_blocks := 0, tu_last_reset := now\<rparr> else x)"

definition roll_month :: "gotime \<Rightarrow> tenant_usage \<Rightarrow> tenant_usage" where
  "roll_month now x =
     (if 30 * 24 * hour < time_sub now (tu_month_start x) then x\<lparr>tu_month := 0, tu_month_start := now\<rparr> else x)"

definition count_request :: "bool \<Rightarrow> tenant_usage \<Rightarrow> tenant_usage" where
  "count_request blocked x =
     x\<lparr>tu_today := int64 (tu_today x + 1), tu_month := int64 (tu_month x + 1),
       tu_blocks := if blocked then int64 (tu_blocks x + 1) else tu_blocks x\<rparr>"

definition record_request :: "gotime \<Rightarrow> string \<Rightarrow> bool \<Rightarrow> usage_tracker \<Rightarrow> usage_tracker" where
  "record_request now k blocked u =
     (let x = map_get (ut_counters u) k (new_usage now)
      in u\<lparr>ut_counters := (ut_counters u)(k \<mapsto> count_request blocked (roll_month now (roll_day now x)))\<rparr>)"

text \<open>\<^verbatim>\<open>today, thisMonth, limit, blockedToday\<close>\<close>

definition get_usage :: "usage_tracker \<Rightarrow> string \<Rightarrow> int \<times> int \<times> int \<times> int" where
  "get_usage u k =
     (let l = map_get (ut_limits u) k 0 in
      case ut_counters u k of None \<Rightarrow> (0, 0, l, 0) | Some x \<Rightarrow> (tu_today x, tu_month x, l, tu_blocks x))"

text \<open>The error of \<^verbatim>\<open>CheckLimit\<close>, if any.\<close>

definition check_limit :: "usage_tracker \<Rightarrow> string \<Rightarrow> gotext option" where
  "check_limit u k =
     (let l = map_get (ut_limits u) k 0 in
      if l \<le> 0 then None
      else case ut_counters u k of
             None \<Rightarrow> None
           | Some x \<Rightarrow> if l \<le> tu_today x then Some (Fmt ''daily request limit exceeded: %d/%d'' [AInt (tu_today x), AInt l])
                       else None)"

definition reset_daily :: "gotime \<Rightarrow> string \<Rightarrow> usage_tracker \<Rightarrow> usage_tracker" where
  "reset_daily now k u =
     (case ut_counters u k of
        None \<Rightarrow> u
      | Some x \<Rightarrow> u\<lparr>ut_counters := (ut_counters u)(k \<mapsto> x\<lparr>tu_today := 0, tu_blocks := 0, tu_last_reset := now\<rparr>)\<rparr>)"

definition reset_monthly :: "gotime \<Rightarrow> string \<Rightarrow> usage_tracker \<Rightarrow> usage_tracker" where
  "reset_monthly now k u =
     (case ut_counters u k of
        None \<Rightarrow> u
      | Some x \<Rightarrow> u\<lparr>ut_counters := (ut_counters u)(k \<mapsto> x\<lparr>tu_month := 0, tu_month_start := now\<rparr>)\<rparr>)"

definition get_all_usage :: "usage_tracker \<Rightarrow> (string \<rightharpoonup> tenant_usage)" where
  "get_all_usage u = ut_counters u"

definition remove_tenant :: "string \<Rightarrow> usage_tracker \<Rightarrow> usage_tracker" where
  "remove_tenant k u = u\<lparr>ut_counters := map_del (ut_counters u) k, ut_limits := map_del (ut_limits u) k\<rparr>"

definition copy_counters :: "usage_tracker \<Rightarrow> (string \<rightharpoonup> tenant_usage)" where
  "copy_counters u = ut_counters u"

definition merge_usage :: "tenant_usage \<Rightarrow> tenant_usage \<Rightarrow> tenant_usage" where
  "merge_usage x y =
     x\<lparr>tu_today := int64 (tu_today x + tu_today y), tu_month := int64 (tu_month x + tu_month y),
       tu_blocks := int64 (tu_blocks x + tu_blocks y)\<rparr>"

text \<open>The argument is a Go map, listed in the order of the iteration.\<close>

fun merge_counters :: "(string \<times> tenant_usage) list \<Rightarrow> usage_tracker \<Rightarrow> usage_tracker" where
  "merge_counters [] u = u"
| "merge_counters ((k, y) # ys) u =
     merge_counters ys
       (u\<lparr>ut_counters := (ut_counters u)(k \<mapsto> (case ut_counters u k of Some x \<Rightarrow> merge_usage x y | None \<Rightarrow> y))\<rparr>)"

definition usage_snapshot_of :: "gotime \<Rightarrow> usage_tracker \<Rightarrow> string \<Rightarrow> usage_snapshot" where
  "usage_snapshot_of now u k =
     (case get_usage u k of (today, month, l, blocked) \<Rightarrow>
        \<lparr>us_tenant = k, us_today = today, us_month = month, us_blocks = blocked, us_limit = l, us_at = now\<rparr>)"

definition usage_percent :: "usage_snapshot \<Rightarrow> rat" where
  "usage_percent s = (if us_limit s \<le> 0 then 0 else of_int (us_today s) / of_int (us_limit s) * 100)"

definition remaining_requests :: "usage_snapshot \<Rightarrow> int" where
  "remaining_requests s =
     (if us_limit s \<le> 0 then -1
      else let r = int64 (us_limit s - us_today s) in if r < 0 then 0 else r)"

definition is_over_limit :: "usage_snapshot \<Rightarrow> bool" where
  "is_over_limit s = (0 < us_limit s \<and> us_limit s \<le> us_today s)"

section \<open>Plans\<close>

record features =
  fe_max_sites :: int
  fe_max_rules :: int
  fe_ml_engine :: bool
  fe_multi_tenant :: bool
  fe_fips :: bool
  fe_compliance :: bool
  fe_api_protection :: bool
  fe_dlp :: bool
  fe_bot_protection :: bool
  fe_virtual_patching :: bool
  fe_analytics :: bool
  fe_priority_support :: bool
  fe_sla_minutes :: int
  fe_max_tenants :: int
  fe_max_api_calls :: int

definition community_features :: features where
  "community_features = \<lparr>fe_max_sites = 1, fe_max_rules = 100, fe_ml_engine = False, fe_multi_tenant = False,
     fe_fips = False, fe_compliance = False, fe_api_protection = True, fe_dlp = False, fe_bot_protection = True,
     fe_virtual_patching = True, fe_analytics = False, fe_priority_support = False, fe_sla_minutes = 0,
     fe_max_tenants = 0, fe_max_api_calls = 10000\<rparr>"

definition tier_features :: "string \<rightharpoonup> features" where
  "tier_features = map_of [
     (''community'', community_features),
     (''starter'', community_features\<lparr>fe_max_sites := 5, fe_max_rules := 500, fe_max_api_calls := 50000\<rparr>),
     (''professional'', community_features\<lparr>fe_max_sites := 25, fe_max_rules := -1, fe_ml_engine := True,
        fe_compliance := True, fe_dlp := True, fe_analytics := True, fe_sla_minutes := 240, fe_max_api_calls := -1\<rparr>),
     (''enterprise'', \<lparr>fe_max_sites = -1, fe_max_rules = -1, fe_ml_engine = True, fe_multi_tenant = True,
        fe_fips = True, fe_compliance = True, fe_api_protection = True, fe_dlp = True, fe_bot_protection = True,
        fe_virtual_patching = True, fe_analytics = True, fe_priority_support = True, fe_sla_minutes = 60,
        fe_max_tenants = -1, fe_max_api_calls = -1\<rparr>)]"

definition get_features :: "string \<Rightarrow> features" where
  "get_features tier = map_get tier_features tier community_features"

definition check_feature :: "string \<Rightarrow> string \<Rightarrow> bool" where
  "check_feature tier name =
     (let f = get_features tier in
      if name = ''ml_engine'' then fe_ml_engine f
      else if name = ''multi_tenant'' then fe_multi_tenant f
      else if name = ''fips_mode'' then fe_fips f
      else if name = ''compliance_reports'' then fe_compliance f
      else if name = ''api_protection'' then fe_api_protection f
      else if name = ''dlp'' then fe_dlp f
      else if name = ''bot_protection'' then fe_bot_protection f
      else if name = ''virtual_patching'' then fe_virtual_patching f
      else if name = ''advanced_analytics'' then fe_analytics f
      else if name = ''priority_support'' then fe_priority_support f
      else False)"

definition validate_site_limit :: "string \<Rightarrow> int \<Rightarrow> gotext option" where
  "validate_site_limit tier n =
     (let m = fe_max_sites (get_features tier) in
      if m = -1 then None
      else if m \<le> n then Some (Fmt ''site limit exceeded: %d/%d (tier: %s)'' [AInt n, AInt m, AStr tier]) else None)"

section \<open>One notion of over the limit\<close>

lemma usage_snapshot_simps [simp]:
  "us_limit (usage_snapshot_of now u k) = map_get (ut_limits u) k 0"
  "us_today (usage_snapshot_of now u k) = (case ut_counters u k of None \<Rightarrow> 0 | Some x \<Rightarrow> tu_today x)"
  by (simp_all add: usage_snapshot_of_def get_usage_def Let_def split: option.splits)

lemma check_limit_iff: "check_limit u k \<noteq> None \<longleftrightarrow> is_over_limit (usage_snapshot_of now u k)"
  by (auto simp: check_limit_def is_over_limit_def Let_def split: option.splits)

lemma over_limit_iff_none_remaining:
  assumes "0 \<le> us_today s" "us_today s < 9223372036854775808" "us_limit s < 9223372036854775808"
  shows "is_over_limit s \<longleftrightarrow> remaining_requests s = 0"
proof (cases "0 < us_limit s")
  case True
  then have "int64 (us_limit s - us_today s) = us_limit s - us_today s" using assms by (intro int64_id) auto
  then show ?thesis using True by (simp add: is_over_limit_def remaining_requests_def Let_def)
next
  case False
  then show ?thesis by (simp add: is_over_limit_def remaining_requests_def)
qed

lemma merge_into_new:
  "distinct (map fst ys) \<Longrightarrow> (\<forall>k\<in>fst ` set ys. ut_counters u k = None)
     \<Longrightarrow> copy_counters (merge_counters ys u) = ut_counters u ++ map_of ys"
proof (induction ys arbitrary: u)
  case (Cons p ys)
  obtain k y where p: "p = (k, y)" by (cases p)
  have "copy_counters (merge_counters ys (u\<lparr>ut_counters := (ut_counters u)(k \<mapsto> y)\<rparr>))
      = ((ut_counters u)(k \<mapsto> y)) ++ map_of ys"
    using Cons.prems by (subst Cons.IH) (auto simp: p)
  also have "\<dots> = ut_counters u ++ map_of (p # ys)"
    using Cons.prems(1) by (simp add: p map_add_upd_left map_of_eq_None_iff dom_map_of_conv_image_fst)
  finally have "copy_counters (merge_counters ys (u\<lparr>ut_counters := (ut_counters u)(k \<mapsto> y)\<rparr>))
      = ut_counters u ++ map_of (p # ys)" .
  moreover have "ut_counters u k = None" using Cons.prems(2) by (simp add: p)
  ultimately show ?case by (simp add: p del: map_of.simps)
qed (simp add: copy_counters_def)

section \<open>Metering with a daily limit\<close>

text \<open>The operations that change a tracker, each with its instant; the others read only.\<close>

datatype usage_event =
    URecord gotime string bool
  | USetLimit string int
  | UResetDaily gotime string
  | UResetMonthly gotime string
  | URemove string
  | UMerge "(string \<times> tenant_usage) list"

fun usage_step :: "usage_event \<Rightarrow> usage_tracker \<Rightarrow> usage_tracker" where
  "usage_step (URecord now k blocked) u = record_request now k blocked u"
| "usage_step (USetLimit k l) u = set_limit k l u"
| "usage_step (UResetDaily now k) u = reset_daily now k u"
| "usage_step (UResetMonthly now k) u = reset_monthly now k u"
| "usage_step (URemove k) u = remove_tenant k u"
| "usage_step (UMerge ys) u = merge_counters ys u"

definition usage_run :: "usage_event list \<Rightarrow> usage_tracker \<Rightarrow> usage_tracker" where
  "usage_run evs u = fold usage_step evs u"

text \<open>
  A day of a tenant starts with its first request, with a request more than 24 hours after the last start, or with \<^verbatim>\<open>ResetDaily\<close>.
  The request that starts it is counted.
\<close>

definition starts_day :: "string \<Rightarrow> usage_tracker \<Rightarrow> usage_event \<Rightarrow> gotime \<Rightarrow> int \<Rightarrow> bool" where
  "starts_day k u ev t0 n \<longleftrightarrow>
     (case ut_counters u k of
        None \<Rightarrow> (\<exists>b. ev = URecord t0 k b) \<and> n = 1
      | Some x \<Rightarrow> (\<exists>b. ev = URecord t0 k b) \<and> 24 * hour < time_sub t0 (tu_last_reset x) \<and> n = 1 \<or> ev = UResetDaily t0 k \<and> n = 0)"

fun same_day :: "string \<Rightarrow> gotime \<Rightarrow> usage_event \<Rightarrow> bool" where
  "same_day k t0 (URecord t k' b) = (k' = k \<longrightarrow> time_sub t t0 \<le> 24 * hour)"
| "same_day k t0 (UResetDaily t k') = (k' \<noteq> k)"
| "same_day k t0 (URemove k') = (k' \<noteq> k)"
| "same_day k t0 (UMerge ys) = (k \<notin> fst ` set ys)"
| "same_day k t0 _ = True"

fun records :: "string \<Rightarrow> usage_event \<Rightarrow> bool" where
  "records k (URecord t k' b) = (k' = k)"
| "records k _ = False"

definition recorded :: "string \<Rightarrow> usage_event list \<Rightarrow> int" where
  "recorded k evs = int (length (filter (records k) evs))"

text \<open>Events after which the limit answers as before: nothing is counted, reset or removed for the tenant.\<close>

fun idle_for :: "string \<Rightarrow> usage_event \<Rightarrow> bool" where
  "idle_for k (URecord t k' b) = (k' \<noteq> k)"
| "idle_for k (USetLimit k' l) = (k' \<noteq> k)"
| "idle_for k (UResetDaily t k') = (k' \<noteq> k)"
| "idle_for k (UResetMonthly t k') = True"
| "idle_for k (URemove k') = (k' \<noteq> k)"
| "idle_for k (UMerge ys) = (k \<notin> fst ` set ys)"

lemma usage_run_simps [simp]:
  "usage_run [] u = u" "usage_run (ev # evs) u = usage_run evs (usage_step ev u)"
  "usage_run (evs @ evs') u = usage_run evs' (usage_run evs u)"
  by (simp_all add: usage_run_def)

lemma merge_counters_other:
  "k \<notin> fst ` set ys \<Longrightarrow> ut_counters (merge_counters ys u) k = ut_counters u k \<and> ut_limits (merge_counters ys u) = ut_limits u"
  by (induction ys u rule: merge_counters.induct) (auto simp del: fun_upd_apply, auto)

lemma count_request_sel [simp]:
  "tu_today (count_request b x) = int64 (tu_today x + 1)" "tu_last_reset (count_request b x) = tu_last_reset x"
  by (simp_all add: count_request_def)

lemma roll_month_sel [simp]:
  "tu_today (roll_month t x) = tu_today x" "tu_last_reset (roll_month t x) = tu_last_reset x"
  by (simp_all add: roll_month_def)

text \<open>The count of the day: so many requests since the start \<open>t0\<close>.\<close>

definition day_state :: "string \<Rightarrow> gotime \<Rightarrow> int \<Rightarrow> usage_tracker \<Rightarrow> bool" where
  "day_state k t0 n u \<longleftrightarrow> (\<exists>x. ut_counters u k = Some x \<and> tu_today x = int64 n \<and> tu_last_reset x = t0)"

lemma starts_day_state:
  assumes "starts_day k u ev t0 n"
  shows "day_state k t0 n (usage_step ev u)"
proof (cases "ut_counters u k")
  case None
  with assms obtain b where "ev = URecord t0 k b" "n = 1" by (auto simp: starts_day_def)
  moreover have "roll_day t0 (new_usage t0) = new_usage t0" by (simp add: roll_day_def new_usage_def)
  ultimately show ?thesis using None
    by (simp add: day_state_def record_request_def map_get_def new_usage_def)
next
  case (Some x)
  with assms show ?thesis
    by (auto simp: starts_day_def day_state_def record_request_def map_get_def reset_daily_def roll_day_def int64_id)
qed

lemma int64_add_one: "int64 (int64 n + 1) = int64 (n + 1)"
  by (simp add: int64_def mod_simps algebra_simps)

lemma same_day_step:
  assumes "day_state k t0 n u" "same_day k t0 ev"
  shows "day_state k t0 (n + (if records k ev then 1 else 0)) (usage_step ev u)"
proof (cases ev)
  case (URecord t k' b)
  with assms show ?thesis
    by (auto simp: day_state_def record_request_def map_get_def roll_day_def int64_add_one Let_def)
next
  case (UMerge ys)
  with assms merge_counters_other [of k ys u] show ?thesis by (auto simp: day_state_def)
qed (use assms in \<open>auto simp: day_state_def set_limit_def reset_daily_def reset_monthly_def remove_tenant_def map_del_def
    split: option.splits\<close>)

lemma same_day_run:
  "day_state k t0 n u \<Longrightarrow> \<forall>ev\<in>set evs. same_day k t0 ev \<Longrightarrow> day_state k t0 (n + recorded k evs) (usage_run evs u)"
proof (induction evs arbitrary: u n)
  case (Cons ev evs)
  from same_day_step [OF Cons.prems(1)] Cons.prems(2)
  have "day_state k t0 (n + (if records k ev then 1 else 0)) (usage_step ev u)" by simp
  from Cons.IH [OF this] Cons.prems(2) show ?case by (simp add: recorded_def add.assoc split: if_splits)
qed (simp add: recorded_def)

lemma idle_step: "idle_for k ev \<Longrightarrow> check_limit (usage_step ev u) k = check_limit u k"
  by (cases ev) (auto simp: check_limit_def map_get_def set_limit_def record_request_def reset_daily_def reset_monthly_def
      remove_tenant_def map_del_def merge_counters_other Let_def split: option.splits)

lemma idle_run: "\<forall>ev\<in>set evs. idle_for k ev \<Longrightarrow> check_limit (usage_run evs u) k = check_limit u k"
  by (induction evs arbitrary: u) (simp_all add: idle_step)



section \<open>Upgrades\<close>

definition plan_order :: "string list" where
  "plan_order = [''community'', ''starter'', ''professional'', ''enterprise'']"

definition site_leq :: "int \<Rightarrow> int \<Rightarrow> bool" where
  "site_leq a b = (b = -1 \<or> (a \<noteq> -1 \<and> a \<le> b))"

lemma site_limit_mono:
  "site_leq (fe_max_sites (get_features t)) (fe_max_sites (get_features t')) \<Longrightarrow> validate_site_limit t n = None
     \<Longrightarrow> validate_site_limit t' n = None"
  by (auto simp: site_leq_def validate_site_limit_def Let_def split: if_splits)

lemma plan_cases:
  assumes "i < j" "j < 4"
  shows "(i, j) \<in> {(0, 1), (0, 2), (0, 3), (1, 2), (1, 3), (2, 3 :: nat)}"
  using assms by auto

lemma get_features_known:
  "get_features ''community'' = community_features"
  "get_features ''starter'' = community_features\<lparr>fe_max_sites := 5, fe_max_rules := 500, fe_max_api_calls := 50000\<rparr>"
  "get_features ''professional'' = community_features\<lparr>fe_max_sites := 25, fe_max_rules := -1, fe_ml_engine := True,
        fe_compliance := True, fe_dlp := True, fe_analytics := True, fe_sla_minutes := 240, fe_max_api_calls := -1\<rparr>"
  "get_features ''enterprise'' = \<lparr>fe_max_sites = -1, fe_max_rules = -1, fe_ml_engine = True, fe_multi_tenant = True,
        fe_fips = True, fe_compliance = True, fe_api_protection = True, fe_dlp = True, fe_bot_protection = True,
        fe_virtual_patching = True, fe_analytics = True, fe_priority_support = True, fe_sla_minutes = 60,
        fe_max_tenants = -1, fe_max_api_calls = -1\<rparr>"
  by (simp_all add: get_features_def tier_features_def map_get_def)

lemma upgrade_keeps_plan:
  assumes "i < j" "j < length plan_order"
  shows "check_feature (plan_order ! i) name \<Longrightarrow> check_feature (plan_order ! j) name"
    and "validate_site_limit (plan_order ! i) n = None \<Longrightarrow> validate_site_limit (plan_order ! j) n = None"
proof -
  have ij: "(i, j) \<in> {(0, 1), (0, 2), (0, 3), (1, 2), (1, 3), (2, 3)}"
    using plan_cases assms by (simp add: plan_order_def)
  then show "check_feature (plan_order ! i) name \<Longrightarrow> check_feature (plan_order ! j) name"
    by (auto simp: check_feature_def Let_def plan_order_def get_features_known community_features_def split: if_splits)
  have "site_leq (fe_max_sites (get_features (plan_order ! i))) (fe_max_sites (get_features (plan_order ! j)))"
    using ij by (auto simp: plan_order_def get_features_known community_features_def site_leq_def)
  then show "validate_site_limit (plan_order ! i) n = None \<Longrightarrow> validate_site_limit (plan_order ! j) n = None"
    by (rule site_limit_mono)
qed

end
