(* ===== verification/Tenant.thy ===== *)
theory Tenant
  imports WafTypes Utf8
begin

text \<open>
  Tenants, \<^verbatim>\<open>internal/tenant/tenant.go\<close>, \<^verbatim>\<open>isolation.go\<close> and \<^verbatim>\<open>mssp.go\<close>. The manager keeps the pointers that
  its callers pass and hands them out again, so the tenants live in a heap that both sides write; a
  pointer is a natural number and is not nil. A loop over the map takes the order of its keys as an argument.
\<close>

section \<open>State\<close>

record tenant_settings =
  tt_timezone :: string
  tt_language :: string
  tt_date_format :: string
  tt_log_retention :: int
  tt_max_log_age :: int
  tt_siem_export :: bool
  tt_two_factor :: bool
  tt_session_timeout :: int

record quotas =
  qu_sites :: int
  qu_rules :: int
  qu_users :: int
  qu_api_keys :: int
  qu_api_calls :: int
  qu_storage :: int

record branding =
  br_product :: string
  br_logo :: string
  br_favicon :: string
  br_primary :: string
  br_secondary :: string
  br_domain :: string
  br_email_from :: string
  br_support_email :: string
  br_support_url :: string
  br_hide_powered :: bool
  br_terms :: string
  br_privacy :: string

record tenant =
  tn_id :: string
  tn_name :: string
  tn_org :: string
  tn_status :: string
  tn_tier :: string
  tn_plan :: string
  tn_created :: gotime
  tn_updated :: gotime
  tn_settings :: tenant_settings
  tn_quotas :: quotas
  tn_branding :: branding
  tn_parent :: string
  tn_tags :: "string list"

type_synonym tenant_ptr = nat

record tenant_manager =
  tm_heap :: "tenant_ptr \<Rightarrow> tenant"
  tm_tenants :: "string \<rightharpoonup> tenant_ptr"

definition lookup_tenant :: "tenant_manager \<Rightarrow> string \<Rightarrow> tenant option" where
  "lookup_tenant m k = map_option (tm_heap m) (tm_tenants m k)"

definition not_found :: "string \<Rightarrow> gotext" where
  "not_found k = Fmt ''tenant not found: %s'' [AStr k]"

section \<open>Operations of the manager\<close>

text \<open>\<^verbatim>\<open>Create\<close>, with the three readings of the clock it may take.\<close>

definition tenant_create :: "gotime \<Rightarrow> gotime \<Rightarrow> gotime \<Rightarrow> tenant_ptr \<Rightarrow> tenant_manager \<Rightarrow> tenant_manager" where
  "tenant_create t0 t1 t2 p m =
     (let t = tm_heap m p;
          k = (if tn_id t = [] then ''tenant-'' @ itoa t0 else tn_id t)
      in m\<lparr>tm_heap := (tm_heap m)(p := t\<lparr>tn_id := k, tn_created := t1, tn_updated := t2, tn_status := ''active''\<rparr>),
           tm_tenants := (tm_tenants m)(k \<mapsto> p)\<rparr>)"

definition tenant_get :: "tenant_manager \<Rightarrow> string \<Rightarrow> gotext + tenant_ptr" where
  "tenant_get m k = (case tm_tenants m k of Some p \<Rightarrow> Inr p | None \<Rightarrow> Inl (not_found k))"

definition tenant_list :: "tenant_manager \<Rightarrow> string list \<Rightarrow> string \<Rightarrow> tenant_ptr list" where
  "tenant_list m ks parent =
     concat (map (\<lambda>k. case tm_tenants m k of
                         None \<Rightarrow> []
                       | Some p \<Rightarrow> if parent = [] \<and> tn_parent (tm_heap m p) = [] then [p]
                                  else if tn_parent (tm_heap m p) = parent then [p] else []) ks)"

definition tenant_update :: "gotime \<Rightarrow> tenant_ptr \<Rightarrow> tenant_manager \<Rightarrow> gotext + tenant_manager" where
  "tenant_update now p m =
     (let t = tm_heap m p in
      if tm_tenants m (tn_id t) = None then Inl (not_found (tn_id t))
      else Inr (m\<lparr>tm_heap := (tm_heap m)(p := t\<lparr>tn_updated := now\<rparr>), tm_tenants := (tm_tenants m)(tn_id t \<mapsto> p)\<rparr>))"

definition tenant_delete :: "string \<Rightarrow> tenant_manager \<Rightarrow> gotext + tenant_manager" where
  "tenant_delete k m =
     (if tm_tenants m k = None then Inl (not_found k) else Inr (m\<lparr>tm_tenants := map_del (tm_tenants m) k\<rparr>))"

definition tenant_suspend :: "gotime \<Rightarrow> string \<Rightarrow> tenant_manager \<Rightarrow> gotext + tenant_manager" where
  "tenant_suspend now k m =
     (case tm_tenants m k of
        Some p \<Rightarrow> Inr (m\<lparr>tm_heap := (tm_heap m)(p := (tm_heap m p)\<lparr>tn_status := ''suspended'', tn_updated := now\<rparr>)\<rparr>)
      | None \<Rightarrow> Inl (not_found k))"

definition over_quota :: "int \<Rightarrow> int \<Rightarrow> bool" where
  "over_quota current mx = (mx \<le> current \<and> mx \<noteq> -1)"

text \<open>The error of \<^verbatim>\<open>ValidateQuota\<close>, if any; the argument \<open>limit\<close> is not used.\<close>

definition validate_quota :: "tenant_manager \<Rightarrow> string \<Rightarrow> string \<Rightarrow> int \<Rightarrow> int \<Rightarrow> gotext option" where
  "validate_quota m k resource current limit =
     (case tm_tenants m k of
        None \<Rightarrow> Some (Lit ''tenant not found'')
      | Some p \<Rightarrow>
          (let q = tn_quotas (tm_heap m p) in
           if resource = ''sites'' then
             (if over_quota current (qu_sites q)
              then Some (Fmt ''site quota exceeded: %d/%d'' [AInt current, AInt (qu_sites q)]) else None)
           else if resource = ''rules'' then
             (if over_quota current (qu_rules q)
              then Some (Fmt ''rule quota exceeded: %d/%d'' [AInt current, AInt (qu_rules q)]) else None)
           else if resource = ''users'' then
             (if over_quota current (qu_users q)
              then Some (Fmt ''user quota exceeded: %d/%d'' [AInt current, AInt (qu_users q)]) else None)
           else None))"

definition get_branding :: "tenant_manager \<Rightarrow> string \<Rightarrow> branding option" where
  "get_branding m k = map_option (\<lambda>p. tn_branding (tm_heap m p)) (tm_tenants m k)"

section \<open>Isolation\<close>

definition ident_char :: "char \<Rightarrow> bool" where
  "ident_char c = (is_lower c \<or> is_upper c \<or> is_digit c \<or> c = CHR ''_'')"

function sanitize_identifier :: "string \<Rightarrow> string" where
  "sanitize_identifier s =
     (if s = [] then []
      else (if ident_char (hd s) then hd s else CHR ''_'')
           # sanitize_identifier (drop (rune_width (map of_char s)) s))"
  by pat_completeness auto
termination
  by (relation "measure length") (auto simp: Suc_le_eq)

declare sanitize_identifier.simps [simp del]

definition get_postgres_schema :: "string \<Rightarrow> string" where
  "get_postgres_schema k = ''tenant_'' @ sanitize_identifier k"

definition get_redis_namespace :: "string \<Rightarrow> string" where
  "get_redis_namespace k = ''tenant:'' @ k @ '':''"

definition get_s3_bucket :: "string \<Rightarrow> string" where
  "get_s3_bucket k = ''fortresswaf-logs-'' @ k"

text \<open>The error of \<^verbatim>\<open>ValidateTenantAccess\<close>, if any.\<close>

definition validate_tenant_access :: "tenant_manager \<Rightarrow> string \<Rightarrow> string \<Rightarrow> gotext option" where
  "validate_tenant_access m req res =
     (let denied = Some (Fmt ''access denied: tenant %s cannot access tenant %s resources'' [AStr req, AStr res]) in
      if req = res then None
      else
        case tenant_get m req of
          Inl e \<Rightarrow> Some e
        | Inr p \<Rightarrow>
            if tn_tier (tm_heap m p) = ''enterprise'' \<and> br_product (tn_branding (tm_heap m p)) \<noteq> ''FortressWAF''
            then (case tenant_get m res of
                    Inl e \<Rightarrow> Some e
                  | Inr r \<Rightarrow> if tn_parent (tm_heap m r) = req then None else denied)
            else denied)"

definition build_scoped_query :: "string \<Rightarrow> string \<Rightarrow> string" where
  "build_scoped_query k q = ''SET search_path TO '' @ get_postgres_schema k @ ''; '' @ q"

definition get_api_key_scope :: "string \<Rightarrow> string option" where
  "get_api_key_scope key =
     (case split_char CHR ''-'' key of
        fw # k # rest \<Rightarrow> if fw = ''fw'' then Some k else None
      | _ \<Rightarrow> None)"

section \<open>Partners\<close>

record partner_metrics =
  pm_total :: nat
  pm_active :: nat
  pm_suspended :: nat

text \<open>The other fields of the metrics stay zero.\<close>

definition get_partner_metrics :: "tenant_manager \<Rightarrow> string list \<Rightarrow> string \<Rightarrow> partner_metrics" where
  "get_partner_metrics m ks partner =
     (let children = map (tm_heap m) (tenant_list m ks partner) in
      \<lparr>pm_total = length children,
       pm_active = length (filter (\<lambda>t. tn_status t = ''active'') children),
       pm_suspended = length (filter (\<lambda>t. tn_status t \<noteq> ''active'' \<and> tn_status t = ''suspended'') children)\<rparr>)"

definition bulk_deploy_rule :: "tenant_manager \<Rightarrow> string list \<Rightarrow> (string \<rightharpoonup> gotext option)" where
  "bulk_deploy_rule m ids = foldl (\<lambda>r k. r(k \<mapsto> validate_quota m k ''rules'' 0 1)) Map.empty ids"

section \<open>The table agrees with the identifiers\<close>

text \<open>
  What callers and the manager do: the operations, and writes through a pointer that leave the
  identifier alone or go to a tenant the manager does not hold.
\<close>

inductive tenant_reach :: "tenant_manager \<Rightarrow> bool" where
  init: "tenant_reach \<lparr>tm_heap = h, tm_tenants = Map.empty\<rparr>"
| create: "tenant_reach m \<Longrightarrow> tenant_reach (tenant_create t0 t1 t2 p m)"
| update: "tenant_reach m \<Longrightarrow> tenant_update now p m = Inr m' \<Longrightarrow> tenant_reach m'"
| delete: "tenant_reach m \<Longrightarrow> tenant_delete k m = Inr m' \<Longrightarrow> tenant_reach m'"
| suspend: "tenant_reach m \<Longrightarrow> tenant_suspend now k m = Inr m' \<Longrightarrow> tenant_reach m'"
| caller: "tenant_reach m \<Longrightarrow> tn_id t = tn_id (tm_heap m p) \<or> p \<notin> ran (tm_tenants m)
    \<Longrightarrow> tenant_reach (m\<lparr>tm_heap := (tm_heap m)(p := t)\<rparr>)"

definition keyed :: "tenant_manager \<Rightarrow> bool" where
  "keyed m \<longleftrightarrow> tm_tenants m [] = None \<and> (\<forall>k p. tm_tenants m k = Some p \<longrightarrow> tn_id (tm_heap m p) = k)"

lemma keyedI:
  "tm_tenants m [] = None \<Longrightarrow> (\<And>k p. tm_tenants m k = Some p \<Longrightarrow> tn_id (tm_heap m p) = k) \<Longrightarrow> keyed m"
  by (simp add: keyed_def)

lemma keyed_nonempty: "keyed m \<Longrightarrow> tm_tenants m k = Some p \<Longrightarrow> k \<noteq> []"
  by (auto simp: keyed_def)

lemma keyed_id: "keyed m \<Longrightarrow> tm_tenants m k = Some p \<Longrightarrow> tn_id (tm_heap m p) = k"
  by (simp add: keyed_def)

lemma keyed_empty: "keyed m \<Longrightarrow> tm_tenants m [] = None"
  by (simp add: keyed_def)

lemma keyed_heap_write:
  "keyed m \<Longrightarrow> tn_id t = tn_id (tm_heap m p) \<Longrightarrow> keyed (m\<lparr>tm_heap := (tm_heap m)(p := t)\<rparr>)"
  by (simp add: keyed_def)

lemma keyed_map_write:
  "keyed m \<Longrightarrow> tn_id (tm_heap m p) = k \<Longrightarrow> k \<noteq> [] \<Longrightarrow> keyed (m\<lparr>tm_tenants := (tm_tenants m)(k \<mapsto> p)\<rparr>)"
  by (auto simp: keyed_def)

lemma keyed_rename:
  "keyed m \<Longrightarrow> p \<notin> ran (tm_tenants m) \<Longrightarrow> keyed (m\<lparr>tm_heap := (tm_heap m)(p := t)\<rparr>)"
  by (auto simp: keyed_def ran_def)

lemma keyed_unnamed: "keyed m \<Longrightarrow> tn_id (tm_heap m p) = [] \<Longrightarrow> p \<notin> ran (tm_tenants m)"
  by (auto simp: ran_def dest: keyed_id keyed_nonempty)

lemma keyed_create:
  assumes "keyed m"
  shows "keyed (tenant_create t0 t1 t2 p m)"
proof -
  let ?t = "tm_heap m p"
  let ?k = "if tn_id ?t = [] then ''tenant-'' @ itoa t0 else tn_id ?t"
  let ?m = "m\<lparr>tm_heap := (tm_heap m)(p := ?t\<lparr>tn_id := ?k, tn_created := t1, tn_updated := t2, tn_status := ''active''\<rparr>)\<rparr>"
  have "keyed ?m"
  proof (cases "tn_id ?t = []")
    case True
    show ?thesis by (rule keyed_rename [OF assms keyed_unnamed [OF assms True]])
  next
    case False
    then show ?thesis by (intro keyed_heap_write [OF assms]) simp
  qed
  then have "keyed (?m\<lparr>tm_tenants := (tm_tenants ?m)(?k \<mapsto> p)\<rparr>)" by (rule keyed_map_write) auto
  then show ?thesis by (simp add: tenant_create_def Let_def)
qed

lemma keyed_update:
  assumes "keyed m" "tenant_update now p m = Inr m'"
  shows "keyed m'"
proof -
  let ?t = "tm_heap m p"
  let ?m = "m\<lparr>tm_heap := (tm_heap m)(p := ?t\<lparr>tn_updated := now\<rparr>)\<rparr>"
  have nonempty: "tn_id ?t \<noteq> []"
    using assms keyed_empty [OF assms(1)] by (auto simp: tenant_update_def Let_def split: if_splits)
  have "keyed ?m" using assms(1) by (rule keyed_heap_write) simp
  then have "keyed (?m\<lparr>tm_tenants := (tm_tenants ?m)(tn_id ?t \<mapsto> p)\<rparr>)"
    by (rule keyed_map_write) (use nonempty in auto)
  then show ?thesis using assms(2) by (simp add: tenant_update_def Let_def split: if_splits)
qed

lemma keyed_suspend: "keyed m \<Longrightarrow> tenant_suspend now k m = Inr m' \<Longrightarrow> keyed m'"
  by (auto simp: tenant_suspend_def intro!: keyed_heap_write split: option.splits)

lemma keyed_delete: "keyed m \<Longrightarrow> tenant_delete k m = Inr m' \<Longrightarrow> keyed m'"
  by (auto simp: tenant_delete_def map_del_def keyed_empty keyed_id intro!: keyedI split: if_splits)

lemma keyed_caller:
  "keyed m \<Longrightarrow> tn_id t = tn_id (tm_heap m p) \<or> p \<notin> ran (tm_tenants m) \<Longrightarrow> keyed (m\<lparr>tm_heap := (tm_heap m)(p := t)\<rparr>)"
  using keyed_heap_write keyed_rename by blast

lemma tenant_reach_keyed: "tenant_reach m \<Longrightarrow> keyed m"
proof (induction rule: tenant_reach.induct)
  case (init h)
  then show ?case by (simp add: keyed_def)
qed (auto intro: keyed_create keyed_update keyed_suspend keyed_delete dest: keyed_caller)

section \<open>Access\<close>

lemma access_granted_iff:
  "validate_tenant_access m a b = None \<longleftrightarrow> a = b \<or>
     (\<exists>ta tb. lookup_tenant m a = Some ta \<and> lookup_tenant m b = Some tb \<and> tn_tier ta = ''enterprise''
        \<and> br_product (tn_branding ta) \<noteq> ''FortressWAF'' \<and> tn_parent tb = a)"
  by (auto simp: validate_tenant_access_def tenant_get_def lookup_tenant_def Let_def split: option.splits)

text \<open>One tenant reaches the resources of another exactly if both exist, the first is a
  rebranded enterprise tenant and the parent of the second: access does not extend to grandchildren,
  to siblings or upwards. An empty parent identifier grants nothing.\<close>

lemma access_only_to_children:
  assumes "tenant_reach m" and "a \<noteq> b"
  shows "validate_tenant_access m a b = None \<longleftrightarrow>
     (\<exists>ta tb. lookup_tenant m a = Some ta \<and> lookup_tenant m b = Some tb \<and> tn_id ta = a \<and> tn_id tb = b
        \<and> tn_tier ta = ''enterprise'' \<and> br_product (tn_branding ta) \<noteq> ''FortressWAF''
        \<and> tn_parent tb = a \<and> a \<noteq> [])"
proof -
  have named: "tn_id t = k \<and> k \<noteq> []" if "lookup_tenant m k = Some t" for k t
    using that keyed_id [OF tenant_reach_keyed [OF assms(1)]] keyed_nonempty [OF tenant_reach_keyed [OF assms(1)]]
    unfolding lookup_tenant_def by blast
  show ?thesis unfolding access_granted_iff using assms(2) named by blast
qed

lemma suspension_changes_nothing_parts:
  assumes "tenant_suspend now k m = Inr m'"
  shows "(validate_tenant_access m' a b = None) = (validate_tenant_access m a b = None)"
    and "validate_quota m' a resource current limit = validate_quota m a resource current limit"
    and "tn_id (tm_heap m' p) = k \<Longrightarrow> k \<noteq> [] \<Longrightarrow>
       map_option tn_status (lookup_tenant (tenant_create t0 t1 t2 p m') k) = Some ''active''"
proof -
  from assms obtain q where m': "m' = m\<lparr>tm_heap := (tm_heap m)(q := (tm_heap m q)\<lparr>tn_status := ''suspended'', tn_updated := now\<rparr>)\<rparr>"
    by (auto simp: tenant_suspend_def split: option.splits)
  show "(validate_tenant_access m' a b = None) = (validate_tenant_access m a b = None)"
    by (auto simp: validate_tenant_access_def tenant_get_def m' Let_def split: option.splits)
  show "validate_quota m' a resource current limit = validate_quota m a resource current limit"
    by (simp add: validate_quota_def m' Let_def split: option.splits)
  show "map_option tn_status (lookup_tenant (tenant_create t0 t1 t2 p m') k) = Some ''active''"
    if "tn_id (tm_heap m' p) = k" "k \<noteq> []"
    using that by (simp add: lookup_tenant_def tenant_create_def Let_def)
qed

text \<open>Suspending a tenant takes no right away: no access decision and no quota decision of
  any tenant changes, and a later \<^verbatim>\<open>Create\<close> with the same identifier makes the tenant active again.\<close>

lemma suspension_changes_nothing:
  assumes "tenant_suspend now k m = Inr m'"
  shows "(validate_tenant_access m' a b = None) = (validate_tenant_access m a b = None)
    \<and> validate_quota m' a resource current limit = validate_quota m a resource current limit
    \<and> (tn_id (tm_heap m' p) = k \<and> k \<noteq> [] \<longrightarrow>
       map_option tn_status (lookup_tenant (tenant_create t0 t1 t2 p m') k) = Some ''active'')"
  using suspension_changes_nothing_parts [OF assms] by blast

section \<open>Names of isolated resources\<close>

lemma sanitize_ident: "c \<in> set (sanitize_identifier s) \<Longrightarrow> ident_char c"
proof (induction s rule: sanitize_identifier.induct)
  case (1 s)
  then show ?case by (subst (asm) (2) sanitize_identifier.simps) (auto simp: ident_char_def split: if_splits)
qed

lemma sanitize_ascii:
  "\<forall>c\<in>set s. (of_char c :: nat) < 0x80
     \<Longrightarrow> sanitize_identifier s = map (\<lambda>c. if ident_char c then c else CHR ''_'') s"
proof (induction s)
  case (Cons c s)
  then have "rune_width (map of_char (c # s)) = 1" using rune_width_ascii [of "of_char c"] by simp
  with Cons show ?case by (subst sanitize_identifier.simps) simp
qed (simp add: sanitize_identifier.simps)

lemma map_eq_list_all2: "map f xs = map f ys \<longleftrightarrow> list_all2 (\<lambda>x y. f x = f y) xs ys"
proof (induction xs arbitrary: ys)
  case (Cons x xs)
  then show ?case by (cases ys) auto
qed auto

definition folded :: "char \<Rightarrow> bool" where
  "folded c \<longleftrightarrow> \<not> ident_char c \<or> c = CHR ''_''"

lemma schema_names_collide_parts:
  assumes "\<forall>c\<in>set a \<union> set b. (of_char c :: nat) < 0x80"
  shows "get_postgres_schema a = get_postgres_schema b \<longleftrightarrow>
      list_all2 (\<lambda>x y. x = y \<or> (folded x \<and> folded y)) a b"
    and "\<forall>c\<in>set (get_postgres_schema k). ident_char c"
    and "get_redis_namespace k = get_redis_namespace k' \<or> get_s3_bucket k = get_s3_bucket k' \<Longrightarrow> k = k'"
proof -
  let ?f = "\<lambda>c. if ident_char c then c else CHR ''_''"
  have pair: "?f x = ?f y \<longleftrightarrow> x = y \<or> (folded x \<and> folded y)" for x y by (auto simp: folded_def ident_char_def)
  have "get_postgres_schema a = get_postgres_schema b \<longleftrightarrow> map ?f a = map ?f b"
    using assms by (simp add: get_postgres_schema_def sanitize_ascii)
  also have "\<dots> \<longleftrightarrow> list_all2 (\<lambda>x y. ?f x = ?f y) a b" by (rule map_eq_list_all2)
  also have "\<dots> \<longleftrightarrow> list_all2 (\<lambda>x y. x = y \<or> (folded x \<and> folded y)) a b" by (simp only: pair)
  finally show "get_postgres_schema a = get_postgres_schema b \<longleftrightarrow>
      list_all2 (\<lambda>x y. x = y \<or> (folded x \<and> folded y)) a b" .
  show "\<forall>c\<in>set (get_postgres_schema k). ident_char c"
    using sanitize_ident by (auto simp: get_postgres_schema_def ident_char_def is_lower_def less_eq_char_def)
  show "get_redis_namespace k = get_redis_namespace k' \<or> get_s3_bucket k = get_s3_bucket k' \<Longrightarrow> k = k'"
    by (auto simp: get_redis_namespace_def get_s3_bucket_def)
qed

text \<open>The schema name of a tenant consists of letters, digits and underscores only, so the
  search path statement cannot be broken out of. But the name is not unique: two ASCII identifiers share
  a schema exactly if they are equal up to characters that are no letters or digits, as \<^verbatim>\<open>acme-eu\<close> and
  \<^verbatim>\<open>acme_eu\<close> do, while Redis namespaces and buckets are unique.\<close>

lemma schema_names_collide:
  assumes "\<forall>c\<in>set a \<union> set b. (of_char c :: nat) < 0x80"
  shows "(get_postgres_schema a = get_postgres_schema b \<longleftrightarrow>
      list_all2 (\<lambda>x y. x = y \<or> (folded x \<and> folded y)) a b)
    \<and> (\<forall>c\<in>set (get_postgres_schema k). ident_char c)
    \<and> (get_redis_namespace k = get_redis_namespace k' \<or> get_s3_bucket k = get_s3_bucket k' \<longrightarrow> k = k')"
  using schema_names_collide_parts [OF assms] by blast

text \<open>No API key has a tenant with a generated identifier as its scope: such identifiers
  contain a dash, and the scope of a key ends at the first dash after \<^verbatim>\<open>fw-\<close>.\<close>

lemma generated_tenant_has_no_key:
  assumes "tn_id (tm_heap m p) = []"
  shows "get_api_key_scope key \<noteq> Some (tn_id (tm_heap (tenant_create t0 t1 t2 p m) p))"
proof -
  have "CHR ''-'' \<notin> set k" if "get_api_key_scope key = Some k" for k
    using that split_char_parts_fresh [of k "CHR ''-''" key]
    by (auto simp: get_api_key_scope_def split: list.splits if_splits)
  then show ?thesis using assms by (auto simp: tenant_create_def Let_def)
qed

lemma bulk_deploy_ok_iff:
  assumes "tm_tenants m k = Some p" "k \<in> set ids"
  shows "bulk_deploy_rule m ids k = Some None \<longleftrightarrow> qu_rules (tn_quotas (tm_heap m p)) = -1 \<or> 0 < qu_rules (tn_quotas (tm_heap m p))"
proof -
  have "foldl (\<lambda>r k. r(k \<mapsto> f k)) r ids k = (if k \<in> set ids then Some (f k) else r k)" for f :: "string \<Rightarrow> gotext option" and r
    by (induction ids arbitrary: r) auto
  then show ?thesis
    using assms by (auto simp: bulk_deploy_rule_def validate_quota_def over_quota_def Let_def)
qed

lemma metrics_split: "pm_active (get_partner_metrics m ks k) + pm_suspended (get_partner_metrics m ks k)
    \<le> pm_total (get_partner_metrics m ks k)"
proof -
  have le: "length (filter P xs) + length (filter (\<lambda>x. \<not> P x \<and> Q x) xs) \<le> length xs" for P Q and xs :: "tenant list"
    by (induction xs) auto
  show ?thesis unfolding get_partner_metrics_def Let_def partner_metrics.simps by (rule le [THEN order_trans]) simp
qed

section \<open>Witnesses\<close>

definition demo_tenant :: "string \<Rightarrow> string \<Rightarrow> tenant" where
  "demo_tenant k parent = \<lparr>tn_id = k, tn_name = [], tn_org = [], tn_status = [], tn_tier = ''enterprise'', tn_plan = [],
     tn_created = 0, tn_updated = 0,
     tn_settings = \<lparr>tt_timezone = [], tt_language = [], tt_date_format = [], tt_log_retention = 0, tt_max_log_age = 0,
       tt_siem_export = False, tt_two_factor = False, tt_session_timeout = 0\<rparr>,
     tn_quotas = \<lparr>qu_sites = 1, qu_rules = -1, qu_users = 1, qu_api_keys = 1, qu_api_calls = 1, qu_storage = 1\<rparr>,
     tn_branding = \<lparr>br_product = ''Shield'', br_logo = [], br_favicon = [], br_primary = [], br_secondary = [], br_domain = [],
       br_email_from = [], br_support_email = [], br_support_url = [], br_hide_powered = False, br_terms = [], br_privacy = []\<rparr>,
     tn_parent = parent, tn_tags = []\<rparr>"

definition demo_tenants :: tenant_manager where
  "demo_tenants = tenant_create 0 0 0 1 (tenant_create 0 0 0 0
     \<lparr>tm_heap = (\<lambda>p. if p = 0 then demo_tenant ''msp'' [] else demo_tenant ''kid'' ''msp''), tm_tenants = Map.empty\<rparr>)"

lemma demo_tenants_reach: "tenant_reach demo_tenants"
  unfolding demo_tenants_def by (intro tenant_reach.create tenant_reach.init)

lemma access_only_to_children_witness:
  "validate_tenant_access demo_tenants ''msp'' ''kid'' = None \<longleftrightarrow>
     (\<exists>ta tb. lookup_tenant demo_tenants ''msp'' = Some ta \<and> lookup_tenant demo_tenants ''kid'' = Some tb
        \<and> tn_id ta = ''msp'' \<and> tn_id tb = ''kid''
        \<and> tn_tier ta = ''enterprise'' \<and> br_product (tn_branding ta) \<noteq> ''FortressWAF''
        \<and> tn_parent tb = ''msp'' \<and> ''msp'' \<noteq> [])"
  by (rule access_only_to_children [OF demo_tenants_reach]) simp

definition demo_suspended :: tenant_manager where
  "demo_suspended = demo_tenants\<lparr>tm_heap := (tm_heap demo_tenants)(0 := (tm_heap demo_tenants 0)\<lparr>tn_status := ''suspended'', tn_updated := 7\<rparr>)\<rparr>"

lemma suspension_changes_nothing_witness:
  "map_option tn_status (lookup_tenant (tenant_create 8 8 8 0 demo_suspended) ''msp'') = Some ''active''"
  by (rule suspension_changes_nothing [where now = 7 and m = demo_tenants, THEN conjunct2, THEN conjunct2, THEN mp])
    (simp_all add: tenant_suspend_def demo_suspended_def demo_tenants_def tenant_create_def demo_tenant_def Let_def)

lemma schema_names_collide_witness:
  "get_postgres_schema ''acme-eu'' = get_postgres_schema ''acme_eu'' \<longleftrightarrow>
      list_all2 (\<lambda>x y. x = y \<or> (folded x \<and> folded y)) ''acme-eu'' ''acme_eu''"
  by (rule schema_names_collide [THEN conjunct1]) simp

lemma generated_tenant_has_no_key_witness:
  "get_api_key_scope ''fw-tenant-5'' \<noteq>
     Some (tn_id (tm_heap (tenant_create 5 5 5 0 \<lparr>tm_heap = (\<lambda>p. demo_tenant [] []), tm_tenants = Map.empty\<rparr>) 0))"
  by (rule generated_tenant_has_no_key) (simp add: demo_tenant_def)

end
