(* ===== verification/Compliance.thy ===== *)
theory Compliance
  imports Prelude WafTypes
begin

text \<open>
  The compliance engine, \<^verbatim>\<open>internal/compliance/engine.go\<close> with its control lists in \<^verbatim>\<open>pci.go\<close>,
  \<^verbatim>\<open>gdpr.go\<close>, \<^verbatim>\<open>soc2.go\<close> and \<^verbatim>\<open>hipaa.go\<close>. Percentages are rationals; \<open>None\<close> is the NaN of a
  division of zero by zero. The two clock readings for the control at position \<open>i\<close> are \<open>clk i\<close>.
\<close>

section \<open>State\<close>

type_synonym framework = string

definition framework_pci :: framework where "framework_pci = ''pci-dss''"
definition framework_gdpr :: framework where "framework_gdpr = ''gdpr''"
definition framework_hipaa :: framework where "framework_hipaa = ''hipaa''"
definition framework_soc2 :: framework where "framework_soc2 = ''soc2''"

lemmas framework_defs = framework_pci_def framework_gdpr_def framework_hipaa_def framework_soc2_def

record evidence =
  ev_type :: string
  ev_description :: string
  ev_collected :: gotime
  ev_source :: string
  ev_data :: string

record control =
  ct_id :: string
  ct_framework :: framework
  ct_name :: string
  ct_description :: string
  ct_status :: string
  ct_checked :: gotime
  ct_evidence :: "evidence list"
  ct_remediation :: string

record compliance_config =
  cc_frameworks :: "framework list"
  cc_log_retention :: int
  cc_pii_masking :: bool
  cc_residency :: string
  cc_audit_immutable :: bool
  cc_encryption_rest :: bool
  cc_encryption_transit :: bool
  cc_mfa :: bool
  cc_session_timeout :: int

record compliance_engine =
  ce_controls :: "framework \<rightharpoonup> control list"
  ce_config :: compliance_config

record assessment =
  as_framework :: framework
  as_at :: gotime
  as_compliant :: nat
  as_total :: nat
  as_percent :: "rat option"
  as_controls :: "control list"

definition new_control :: "framework \<Rightarrow> string \<times> string \<times> string \<Rightarrow> control" where
  "new_control f = (\<lambda>(i, n, d). \<lparr>ct_id = i, ct_framework = f, ct_name = n, ct_description = d, ct_status = [],
     ct_checked = zero_time, ct_evidence = [], ct_remediation = []\<rparr>)"

section \<open>The control lists\<close>

definition pci_table :: "(string \<times> string \<times> string) list" where
  "pci_table = [
     (''PCI-6.3.3'', ''Security Vulnerabilities'', ''Protect against newly discovered vulnerabilities within 7 days''),
     (''PCI-6.4'', ''WAF Deployment'', ''Ensure all public-facing web applications are protected by a WAF''),
     (''PCI-6.5'', ''Injection Flaws'', ''Protect against injection flaws including SQLi''),
     (''PCI-6.5.1'', ''SQLi Protection'', ''Block SQL injection attacks''),
     (''PCI-6.5.2'', ''XSS Protection'', ''Block cross-site scripting attacks''),
     (''PCI-6.5.3'', ''Authentication'', ''Broken authentication and session management''),
     (''PCI-6.5.4'', ''IDOR Protection'', ''Protect against insecure direct object references''),
     (''PCI-6.5.5'', ''CSRF Protection'', ''Protect against cross-site request forgery''),
     (''PCI-6.5.6'', ''Session Timeout'', ''Inactive session timeout''),
     (''PCI-6.5.7'', ''URL Redirects'', ''Protect against open redirects''),
     (''PCI-6.5.8'', ''File Uploads'', ''Validate all uploaded files''),
     (''PCI-6.5.9'', ''Encoding'', ''Protect against OS command injection''),
     (''PCI-6.5.10'', ''Buffer Overflows'', ''Protect against buffer overflows''),
     (''PCI-6.6'', ''App-layer Firewall'', ''Address all threats to public-facing web apps''),
     (''PCI-8.2'', ''User Auth'', ''Authenticate all access to system components''),
     (''PCI-8.3'', ''MFA'', ''Incorporate multi-factor authentication''),
     (''PCI-10.1'', ''Audit Logging'', ''Implement audit trails for all system components''),
     (''PCI-10.2'', ''User Identification'', ''All individual user access to cardholder data''),
     (''PCI-10.3'', ''Audit Timing'', ''Record audit trail entries for all system components''),
     (''PCI-10.4'', ''Time Synchronization'', ''Synchronize internal time clocks''),
     (''PCI-10.5'', ''Log Retention'', ''Retain audit trail history for at least 1 year''),
     (''PCI-10.6'', ''Log Review'', ''Review audit logs and security events daily''),
     (''PCI-10.7'', ''Log Integrity'', ''Protect audit trail files from unauthorized modifications''),
     (''PCI-32'', ''Data Retention'', ''Limit data storage amount and retention time''),
     (''PCI-3.4'', ''Encryption at Rest'', ''Render PAN unreadable anywhere it is stored'')]"

definition pci_controls :: "control list" where
  "pci_controls = map (new_control framework_pci) pci_table"

definition gdpr_table :: "(string \<times> string \<times> string) list" where
  "gdpr_table = [
     (''GDPR-Art5-1-C'', ''Purpose Limitation'', ''Data collected for specified, explicit purposes''),
     (''GDPR-Art5-1-D'', ''Data Minimisation'', ''Data adequate, relevant, limited to what is necessary''),
     (''GDPR-Art5-1-E'', ''Storage Limitation'', ''Data kept in identifiable form no longer than necessary''),
     (''GDPR-Art5-1-F'', ''Integrity & Confidentiality'', ''Data processed securely using appropriate technical measures''),
     (''GDPR-Art6-1'', ''Lawfulness'', ''Processing has lawful basis''),
     (''GDPR-Art7-1'', ''Consent'', ''Consent is freely given, specific, informed, and unambiguous''),
     (''GDPR-Art12'', ''Transparency'', ''Provide privacy notices in clear, plain language''),
     (''GDPR-Art15'', ''Access'', ''Data subjects can access their personal data''),
     (''GDPR-Art16'', ''Rectification'', ''Data subjects can rectify inaccurate personal data''),
     (''GDPR-Art17'', ''Erasure'', ''Data subjects can request erasure of their data''),
     (''GDPR-Art20'', ''Portability'', ''Data provided in structured, machine-readable format''),
     (''GDPR-Art25'', ''Privacy by Design'', ''Data protection by design and by default''),
     (''GDPR-Art28'', ''Processors'', ''Data Processing Agreements with all processors''),
     (''GDPR-Art30-1'', ''ROPA'', ''Maintain records of processing activities''),
     (''GDPR-Art32'', ''Security'', ''Implement appropriate technical and organisational measures''),
     (''GDPR-Art32-1-C'', ''Encryption'', ''AES-256 encryption at rest, TLS 1.2+ in transit''),
     (''GDPR-Art32-2'', ''Pseudonymisation'', ''Use pseudonymisation where appropriate''),
     (''GDPR-Art33'', ''Breach Notification'', ''Notify supervisory authority within 72 hours of breach''),
     (''GDPR-Art34'', ''Data Subject Notification'', ''Notify data subjects of high-risk breaches''),
     (''GDPR-Art35'', ''DPIA'', ''Conduct Data Protection Impact Assessments''),
     (''GDPR-Art36'', ''Consultation'', ''Consult supervisory authority before processing if required''),
     (''GDPR-Art37'', ''DPO'', ''Designate Data Protection Officer if required'')]"

definition gdpr_controls :: "control list" where
  "gdpr_controls = map (new_control framework_gdpr) gdpr_table"

definition soc2_table :: "(string \<times> string \<times> string) list" where
  "soc2_table = [
     (''SOC2-CC1.1'', ''Control Environment'', ''Entity demonstrates commitment to integrity and ethical values''),
     (''SOC2-CC2.1'', ''Information & Communication'', ''Entity obtains relevant quality information''),
     (''SOC2-CC2.2'', ''Internal Communication'', ''Entity internally communicates information including objectives and responsibilities''),
     (''SOC2-CC3.1'', ''Risk Assessment'', ''Entity specifies objectives with sufficient clarity''),
     (''SOC2-CC4.1'', ''Monitoring'', ''Entity selects and develops ongoing evaluations''),
     (''SOC2-CC5.1'', ''Control Activities'', ''Entity selects and develops control activities''),
     (''SOC2-CC5.2'', ''Technology Controls'', ''Entity deploys control activities through technology''),
     (''SOC2-CC6.1'', ''Logical Access'', ''Logical access controls prevent unauthorized access''),
     (''SOC2-CC6.2'', ''MFA'', ''Multi-factor authentication is implemented''),
     (''SOC2-CC6.3'', ''Unique IDs'', ''New access requires unique user IDs''),
     (''SOC2-CC6.4'', ''Access Removal'', ''Access is removed upon termination''),
     (''SOC2-CC6.6'', ''Security Events'', ''Security events are logged and monitored''),
     (''SOC2-CC7.1'', ''Vulnerability Management'', ''System vulnerabilities are identified and remediated''),
     (''SOC2-CC7.2'', ''Security Monitoring'', ''System monitoring processes detect security events''),
     (''SOC2-CC7.3'', ''Incident Response'', ''Security incidents are identified and responded to''),
     (''SOC2-CC7.4'', ''Disaster Recovery'', ''Availability commitments and requirements are established''),
     (''SOC2-CC8.1'', ''Change Management'', ''Changes are authorized, tested, and approved''),
     (''SOC2-CC9.1'', ''Data Transmission'', ''Data transmitted to/from third parties is encrypted''),
     (''SOC2-A1.1'', ''Availability'', ''Availability commitments and system requirements are established'')]"

definition soc2_controls :: "control list" where
  "soc2_controls = map (new_control framework_soc2) soc2_table"

definition hipaa_table :: "(string \<times> string \<times> string) list" where
  "hipaa_table = [
     (''HIPAA-164.308(a)(1)'', ''Security Management Process'', ''Risk analysis and risk management implemented''),
     (''HIPAA-164.308(a)(3)'', ''Workforce Security'', ''Implement access authorization and management''),
     (''HIPAA-164.308(a)(4)'', ''Information Access'', ''Implement access authorization for ePHI''),
     (''HIPAA-164.308(a)(5)'', ''Security Awareness'', ''Implement security awareness and training program''),
     (''HIPAA-164.308(a)(6)'', ''Security Incident'', ''Implement security incident procedures''),
     (''HIPAA-164.308(a)(7)'', ''Contingency'', ''Establish data backup and disaster recovery plans''),
     (''HIPAA-164.310(a)'', ''Access Control'', ''Implement access control measures''),
     (''HIPAA-164.310(b)'', ''Audit Controls'', ''Implement hardware, software, procedures for audit trails''),
     (''HIPAA-164.310(c)'', ''Integrity Controls'', ''Implement electronic mechanisms to authenticate ePHI''),
     (''HIPAA-164.310(d)'', ''Transmission Security'', ''Implement encryption and integrity controls for ePHI transmission''),
     (''HIPAA-164.312(a)'', ''Technical Safeguards'', ''Implement technical policies for ePHI access''),
     (''HIPAA-164.312(b)'', ''Audit Trail'', ''Record and examine activity in systems containing ePHI''),
     (''HIPAA-164.312(c)'', ''Integrity'', ''Implement mechanisms to authenticate ePHI and protect from improper alteration''),
     (''HIPAA-164.312(e)'', ''Transmission Security'', ''Implement encryption and access controls for ePHI transmission'')]"

definition hipaa_controls :: "control list" where
  "hipaa_controls = map (new_control framework_hipaa) hipaa_table"

section \<open>Operations\<close>

definition new_compliance_engine :: "compliance_config \<Rightarrow> compliance_engine" where
  "new_compliance_engine cfg = \<lparr>ce_controls = [framework_pci \<mapsto> pci_controls, framework_gdpr \<mapsto> gdpr_controls,
     framework_soc2 \<mapsto> soc2_controls, framework_hipaa \<mapsto> hipaa_controls], ce_config = cfg\<rparr>"

definition get_controls :: "compliance_engine \<Rightarrow> framework \<Rightarrow> control list" where
  "get_controls ce f = map_get (ce_controls ce) f []"

definition is_compliant :: "control \<Rightarrow> bool" where
  "is_compliant c = (ct_status c = ''compliant'')"

definition get_compliance_status :: "compliance_engine \<Rightarrow> framework \<Rightarrow> nat \<times> nat" where
  "get_compliance_status ce f = (length (filter is_compliant (get_controls ce f)), length (get_controls ce f))"

text \<open>The type, description and source of the evidence that \<^verbatim>\<open>checkControl\<close> adds.\<close>

definition automatic_evidence :: "string \<rightharpoonup> string \<times> string \<times> string" where
  "automatic_evidence = map_of [
     (''PCI-6.3.3'', ''configuration'', ''WAF signature rules updated within 7 days of new CVE publication'',
        ''fortresswaf:rules:update_check''),
     (''PCI-6.4'', ''configuration'', ''WAF is active and in blocking mode for all cardholder data endpoints'',
        ''fortresswaf:config:active_sites''),
     (''PCI-10.1'', ''audit_log'', ''All authentication attempts are logged with timestamp, username, and result'',
        ''fortresswaf:logs:auth''),
     (''PCI-10.2'', ''audit_log'', ''Individual user identification is enforced via JWT + API keys'',
        ''fortresswaf:auth:jwt''),
     (''GDPR-Art30-1'', ''data_mapping'', ''Records of processing activities maintained for all data categories'',
        ''fortresswaf:compliance:ropa''),
     (''GDPR-Art32'', ''security'', ''AES-256-GCM encryption at rest, TLS 1.2+ in transit'',
        ''fortresswaf:config:encryption''),
     (''GDPR-Art33'', ''incident'', ''72-hour breach notification procedure documented and tested'',
        ''fortresswaf:incident:procedure''),
     (''SOC2-CC6.1'', ''access'', ''Logical access controls enforced via JWT with 15-min expiry'', ''fortresswaf:auth:jwt''),
     (''SOC2-CC7.2'', ''monitoring'', ''System monitoring active with alerts for security events'',
        ''fortresswaf:monitoring:alerts'')]"

definition check_control :: "gotime \<Rightarrow> control \<Rightarrow> control" where
  "check_control now c =
     (case automatic_evidence (ct_id c) of
        Some (ty, d, s) \<Rightarrow>
          c\<lparr>ct_status := ''compliant'',
            ct_evidence := ct_evidence c @ [\<lparr>ev_type = ty, ev_description = d, ev_collected = now, ev_source = s, ev_data = []\<rparr>]\<rparr>
      | None \<Rightarrow>
          c\<lparr>ct_status := ''evidence_needed'',
            ct_remediation := ''Manual evidence collection required. Review control requirements and upload supporting documentation.''\<rparr>)"

definition assess_control :: "gotime \<times> gotime \<Rightarrow> control \<Rightarrow> control" where
  "assess_control t c = check_control (snd t) (c\<lparr>ct_checked := fst t\<rparr>)"

fun assess_controls :: "(nat \<Rightarrow> gotime \<times> gotime) \<Rightarrow> nat \<Rightarrow> control list \<Rightarrow> control list" where
  "assess_controls clk i [] = []"
| "assess_controls clk i (c # cs) = assess_control (clk i) c # assess_controls clk (Suc i) cs"

definition percent_of :: "nat \<Rightarrow> nat \<Rightarrow> rat option" where
  "percent_of a b = (if b = 0 then None else Some (of_nat a / of_nat b * 100))"

text \<open>The assignment through the index writes to the list of a known framework only.\<close>

definition run_assessment ::
  "gotime \<Rightarrow> (nat \<Rightarrow> gotime \<times> gotime) \<Rightarrow> framework \<Rightarrow> compliance_engine \<Rightarrow> assessment \<times> compliance_engine" where
  "run_assessment now clk f ce =
     (let cs = assess_controls clk 0 (get_controls ce f); n = length (filter is_compliant cs) in
      (\<lparr>as_framework = f, as_at = now, as_compliant = n, as_total = length cs,
        as_percent = percent_of n (length cs), as_controls = cs\<rparr>,
       if ce_controls ce f = None then ce else ce\<lparr>ce_controls := (ce_controls ce)(f \<mapsto> cs)\<rparr>))"

text \<open>\<^verbatim>\<open>ExportReport\<close>: the three formats, with the time rendered by the argument \<open>fmt\<close>.\<close>

record time_format =
  tf_rfc3339 :: "gotime \<Rightarrow> string"
  tf_date :: "gotime \<Rightarrow> string"

datatype report = JsonReport string string nat nat "rat option" | PdfReport string string nat nat "rat option" | CsvReport

definition export_report ::
  "time_format \<Rightarrow> gotime \<Rightarrow> (nat \<Rightarrow> gotime \<times> gotime) \<Rightarrow> framework \<Rightarrow> string \<Rightarrow> compliance_engine
     \<Rightarrow> (gotext + report) \<times> compliance_engine" where
  "export_report fmt now clk f format ce =
     (let (r, ce') = run_assessment now clk f ce in
      (if format = ''json''
       then Inr (JsonReport f (tf_rfc3339 fmt (as_at r)) (as_compliant r) (as_total r) (as_percent r))
       else if format = ''pdf''
       then Inr (PdfReport f (tf_date fmt (as_at r)) (as_compliant r) (as_total r) (as_percent r))
       else if format = ''csv'' then Inr CsvReport
       else Inl (Fmt ''unsupported format: %s'' [AStr format]), ce'))"

section \<open>What an assessment measures\<close>

lemma check_control_id [simp]: "ct_id (check_control now c) = ct_id c"
  by (simp add: check_control_def split: option.splits)

lemma check_control_compliant: "is_compliant (check_control now c) \<longleftrightarrow> automatic_evidence (ct_id c) \<noteq> None"
  by (auto simp: check_control_def is_compliant_def split: option.splits)

lemma assess_Nil_iff [simp]: "assess_controls clk i cs = [] \<longleftrightarrow> cs = []"
  by (cases cs) simp_all

lemma length_assess_controls [simp]: "length (assess_controls clk i cs) = length cs"
  by (induction cs arbitrary: i) simp_all

lemma assess_ids: "map ct_id (assess_controls clk i cs) = map ct_id cs"
  by (induction cs arbitrary: i) (simp_all add: assess_control_def)

lemma assess_compliant:
  "length (filter is_compliant (assess_controls clk i cs)) = length (filter (\<lambda>k. automatic_evidence k \<noteq> None) (map ct_id cs))"
  by (induction cs arbitrary: i) (simp_all add: assess_control_def check_control_compliant)

text \<open>All engines that started from some configuration and ran any assessments.\<close>

inductive compliance_reach :: "compliance_engine \<Rightarrow> bool" where
  init: "compliance_reach (new_compliance_engine cfg)"
| assess: "compliance_reach ce \<Longrightarrow> compliance_reach (snd (run_assessment now clk f ce))"

definition framework_ids :: "framework \<Rightarrow> string list" where
  "framework_ids f = map ct_id (map_get (ce_controls (new_compliance_engine undefined)) f [])"

lemma get_controls_assessed:
  "map ct_id (get_controls (snd (run_assessment now clk f ce)) g) = map ct_id (get_controls ce g)"
  by (auto simp: run_assessment_def get_controls_def map_get_def Let_def assess_ids split: option.splits)

lemma reach_ids: "compliance_reach ce \<Longrightarrow> map ct_id (get_controls ce f) = framework_ids f"
proof (induction rule: compliance_reach.induct)
  case (init cfg)
  then show ?case by (simp add: framework_ids_def get_controls_def new_compliance_engine_def)
qed (simp add: get_controls_assessed)

lemma assessment_counts:
  assumes "compliance_reach ce"
  shows "as_compliant (fst (run_assessment now clk f ce)) = length (filter (\<lambda>k. automatic_evidence k \<noteq> None) (framework_ids f))"
    and "as_total (fst (run_assessment now clk f ce)) = length (framework_ids f)"
proof -
  have "length (get_controls ce f) = length (framework_ids f)"
    using arg_cong [OF reach_ids [OF assms], of length f] by simp
  then show "as_compliant (fst (run_assessment now clk f ce)) = length (filter (\<lambda>k. automatic_evidence k \<noteq> None) (framework_ids f))"
    "as_total (fst (run_assessment now clk f ce)) = length (framework_ids f)"
    by (simp_all only: run_assessment_def Let_def fst_conv assessment.simps assess_compliant reach_ids [OF assms] length_assess_controls)
qed

definition fixed_counts :: "framework \<Rightarrow> nat \<times> nat" where
  "fixed_counts f =
     (if f = ''pci-dss'' then (4, 25) else if f = ''gdpr'' then (3, 22) else if f = ''soc2'' then (2, 19)
      else if f = ''hipaa'' then (0, 14) else (0, 0))"

lemma framework_ids_simps:
  "framework_ids framework_pci = map ct_id pci_controls"
  "framework_ids framework_gdpr = map ct_id gdpr_controls"
  "framework_ids framework_soc2 = map ct_id soc2_controls"
  "framework_ids framework_hipaa = map ct_id hipaa_controls"
  by (simp_all add: framework_ids_def new_compliance_engine_def map_get_def framework_defs)

lemma framework_ids_other:
  "f \<notin> {framework_pci, framework_gdpr, framework_soc2, framework_hipaa} \<Longrightarrow> framework_ids f = []"
  by (simp add: framework_ids_def new_compliance_engine_def map_get_def)

definition ids_counts :: "string list \<Rightarrow> nat \<times> nat" where
  "ids_counts ks = (length (filter (\<lambda>k. automatic_evidence k \<noteq> None) ks), length ks)"

definition automatic_ids :: "string list" where
  "automatic_ids = [''PCI-6.3.3'', ''PCI-6.4'', ''PCI-10.1'', ''PCI-10.2'', ''GDPR-Art30-1'', ''GDPR-Art32'',
     ''GDPR-Art33'', ''SOC2-CC6.1'', ''SOC2-CC7.2'']"

lemma automatic_evidence_iff: "automatic_evidence k \<noteq> None \<longleftrightarrow> k \<in> set automatic_ids"
  unfolding automatic_evidence_def not_None_eq [symmetric] map_of_eq_None_iff automatic_ids_def by simp

definition table_counts :: "(string \<times> string \<times> string) list \<Rightarrow> nat \<times> nat" where
  "table_counts t = (length (filter (\<lambda>k. k \<in> set automatic_ids) (map fst t)), length t)"

lemma new_control_id [simp]: "ct_id (new_control f x) = fst x"
  by (simp add: new_control_def split_beta)

lemma ids_counts_table: "ids_counts (map ct_id (map (new_control f) t)) = table_counts t"
  unfolding ids_counts_def table_counts_def automatic_evidence_iff by (simp add: comp_def filter_map)

lemma ids_counts_known:
  "ids_counts (map ct_id pci_controls) = (4, 25)"
  "ids_counts (map ct_id gdpr_controls) = (3, 22)"
  "ids_counts (map ct_id soc2_controls) = (2, 19)"
  "ids_counts (map ct_id hipaa_controls) = (0, 14)"
  unfolding pci_controls_def gdpr_controls_def soc2_controls_def hipaa_controls_def ids_counts_table
  by (simp_all add: table_counts_def pci_table_def gdpr_table_def soc2_table_def hipaa_table_def automatic_ids_def)

lemma fixed_counts_known:
  "fixed_counts framework_pci = (4, 25)" "fixed_counts framework_gdpr = (3, 22)"
  "fixed_counts framework_soc2 = (2, 19)" "fixed_counts framework_hipaa = (0, 14)"
  by (simp_all add: fixed_counts_def framework_defs)

lemma framework_counts: "ids_counts (framework_ids f) = fixed_counts f"
proof (cases "f \<in> {framework_pci, framework_gdpr, framework_soc2, framework_hipaa}")
  case True
  then consider "f = framework_pci" | "f = framework_gdpr" | "f = framework_soc2" | "f = framework_hipaa" by blast
  then show ?thesis by cases (simp_all only: framework_ids_simps ids_counts_known fixed_counts_known)
next
  case False
  then have "fixed_counts f = (0, 0)" by (simp add: fixed_counts_def framework_defs)
  then show ?thesis using framework_ids_other [OF False] by (simp add: ids_counts_def)
qed

lemma assessment_measures_nothing_parts:
  assumes "compliance_reach ce"
  shows "(as_compliant (fst (run_assessment now clk f ce)), as_total (fst (run_assessment now clk f ce))) = fixed_counts f"
    and "as_percent (fst (run_assessment now clk f ce)) = None \<longleftrightarrow> fixed_counts f = (0, 0)"
    and "get_compliance_status (snd (run_assessment now clk f ce)) f = fixed_counts f"
proof -
  let ?r = "fst (run_assessment now clk f ce)"
  show counts: "(as_compliant ?r, as_total ?r) = fixed_counts f"
    using assessment_counts [OF assms] framework_counts [of f] by (simp add: ids_counts_def)
  have "as_percent ?r = None \<longleftrightarrow> as_total ?r = 0" by (auto simp: run_assessment_def Let_def percent_of_def)
  also have "\<dots> \<longleftrightarrow> fixed_counts f = (0, 0)"
    using arg_cong [OF counts, of snd] by (auto simp: fixed_counts_def)
  finally show "as_percent ?r = None \<longleftrightarrow> fixed_counts f = (0, 0)" .
  have "get_controls (snd (run_assessment now clk f ce)) f = as_controls ?r"
    by (auto simp: run_assessment_def get_controls_def map_get_def Let_def split: option.splits)
  then have "get_compliance_status (snd (run_assessment now clk f ce)) f = (as_compliant ?r, as_total ?r)"
    by (simp add: get_compliance_status_def run_assessment_def Let_def)
  with counts show "get_compliance_status (snd (run_assessment now clk f ce)) f = fixed_counts f" by simp
qed

text \<open>An assessment measures nothing: whatever the configuration says (logging, masking,
  encryption, MFA) and whatever was assessed before, its counts are 4 of 25 for PCI DSS, 3 of 22 for GDPR,
  2 of 19 for SOC 2 and 0 of 14 for HIPAA, and for ISO 27001, which is named but has no controls, the
  percentage is not a number. The status that is reported afterwards agrees with the assessment.\<close>

lemma assessment_measures_nothing:
  assumes "compliance_reach ce"
  shows "(as_compliant (fst (run_assessment now clk f ce)), as_total (fst (run_assessment now clk f ce))) = fixed_counts f
    \<and> (as_percent (fst (run_assessment now clk f ce)) = None \<longleftrightarrow> fixed_counts f = (0, 0))
    \<and> get_compliance_status (snd (run_assessment now clk f ce)) f = fixed_counts f"
  by (intro conjI) (rule assessment_measures_nothing_parts [OF assms])+

definition insecure_config :: compliance_config where
  "insecure_config = \<lparr>cc_frameworks = [], cc_log_retention = 0, cc_pii_masking = False, cc_residency = [],
     cc_audit_immutable = False, cc_encryption_rest = False, cc_encryption_transit = False, cc_mfa = False,
     cc_session_timeout = 0\<rparr>"

lemma assessment_measures_nothing_witness:
  "(as_compliant (fst (run_assessment 0 (\<lambda>i. (0, 0)) framework_pci (new_compliance_engine insecure_config))),
    as_total (fst (run_assessment 0 (\<lambda>i. (0, 0)) framework_pci (new_compliance_engine insecure_config))))
     = fixed_counts framework_pci
   \<and> (as_percent (fst (run_assessment 0 (\<lambda>i. (0, 0)) framework_pci (new_compliance_engine insecure_config))) = None
       \<longleftrightarrow> fixed_counts framework_pci = (0, 0))
   \<and> get_compliance_status (snd (run_assessment 0 (\<lambda>i. (0, 0)) framework_pci (new_compliance_engine insecure_config)))
       framework_pci = fixed_counts framework_pci"
  by (rule assessment_measures_nothing) (rule compliance_reach.init)

end
