(* ===== verification/AuditLog.thy ===== *)
theory AuditLog
  imports WafTypes
begin

text \<open>
  The audit log and the masking of personal data, \<^verbatim>\<open>internal/compliance/audit.go\<close> and \<^verbatim>\<open>pii.go\<close>.
  SHA-256 with its hexadecimal rendering, the RFC 3339 rendering of times and the matching of the
  fixed regular expressions are arguments.
\<close>

section \<open>Audit log\<close>

record audit_entry =
  ae_id :: string
  ae_time :: gotime
  ae_actor :: string
  ae_actor_type :: string
  ae_actor_ip :: string
  ae_action :: string
  ae_resource :: string
  ae_resource_id :: string
  ae_result :: string
  ae_metadata :: string
  ae_hash :: string
  ae_prev :: string

record audit_log =
  al_entries :: "audit_entry list"
  al_last :: string
  al_immutable :: bool

record audit_env =
  au_sha_hex :: "string \<Rightarrow> string"
  au_time :: "gotime \<Rightarrow> string"

definition new_audit_log :: audit_log where
  "new_audit_log = \<lparr>al_entries = [], al_last = [], al_immutable = True\<rparr>"

definition entry_data :: "audit_env \<Rightarrow> audit_entry \<Rightarrow> string" where
  "entry_data env e =
     join_char CHR ''|'' [ae_id e, au_time env (ae_time e), ae_actor e, ae_actor_type e, ae_actor_ip e,
       ae_action e, ae_resource e, ae_resource_id e, ae_result e]"

definition seal_entry :: "audit_env \<Rightarrow> gotime \<Rightarrow> audit_log \<Rightarrow> audit_entry \<Rightarrow> audit_entry" where
  "seal_entry env now al e =
     (let e1 = e\<lparr>ae_time := now, ae_id := ''audit-'' @ itoa (int (length (al_entries al)) + 1), ae_prev := al_last al\<rparr>
      in e1\<lparr>ae_hash := au_sha_hex env (al_last al @ entry_data env e1)\<rparr>)"

definition audit_append :: "audit_env \<Rightarrow> gotime \<Rightarrow> audit_entry \<Rightarrow> audit_log \<Rightarrow> gotext + audit_log" where
  "audit_append env now e al =
     (if al_immutable al then Inl (Lit ''audit log is immutable'')
      else
        let s = seal_entry env now al e
        in Inr (al\<lparr>al_entries := al_entries al @ [s], al_last := ae_hash s\<rparr>))"

record audit_filter =
  af_actor :: string
  af_action :: string
  af_resource :: string
  af_from :: gotime
  af_to :: gotime

definition filter_accepts :: "audit_filter \<Rightarrow> audit_entry \<Rightarrow> bool" where
  "filter_accepts f e =
     (\<not> (af_actor f \<noteq> [] \<and> ae_actor e \<noteq> af_actor f) \<and> \<not> (af_action f \<noteq> [] \<and> ae_action e \<noteq> af_action f)
      \<and> \<not> (af_resource f \<noteq> [] \<and> ae_resource e \<noteq> af_resource f) \<and> \<not> (ae_time e < af_from f \<or> af_to f < ae_time e))"

definition audit_query :: "audit_filter \<Rightarrow> audit_log \<Rightarrow> audit_entry list" where
  "audit_query f al = filter (filter_accepts f) (al_entries al)"

fun verify_from :: "nat \<Rightarrow> string \<Rightarrow> audit_entry list \<Rightarrow> gotext option" where
  "verify_from i prev [] = None"
| "verify_from i prev (e # es) =
     (if i = 0 \<and> ae_prev e \<noteq> [] then Some (Fmt ''chain broken at entry %d: first entry has prev_hash'' [AInt (int i)])
      else if ae_prev e \<noteq> prev
      then Some (Fmt ''chain broken at entry %d: expected %s, got %s'' [AInt (int i), AStr prev, AStr (ae_prev e)])
      else verify_from (Suc i) (ae_hash e) es)"

definition verify_integrity :: "audit_log \<Rightarrow> gotext option" where
  "verify_integrity al = verify_from 0 [] (al_entries al)"

section \<open>Masking of personal data\<close>

text \<open>\<^verbatim>\<open>v[:n]\<close> and \<^verbatim>\<open>v[len(v)-n:]\<close>; \<open>None\<close> is the panic of an index below zero or above the length.\<close>

definition slice_to :: "nat \<Rightarrow> string \<Rightarrow> string option" where
  "slice_to n v = (if n \<le> length v then Some (take n v) else None)"

definition last_bytes :: "nat \<Rightarrow> string \<Rightarrow> string option" where
  "last_bytes n v = (if n \<le> length v then Some (drop (length v - n) v) else None)"

definition but_last_bytes :: "nat \<Rightarrow> string \<Rightarrow> string option" where
  "but_last_bytes n v = (if n \<le> length v then Some (take (length v - n) v) else None)"

definition mask_value :: "string \<Rightarrow> string \<Rightarrow> string option" where
  "mask_value ty v =
     (if ty = ''email'' then
        (case split2 CHR ''@'' v of
           Some (a, b) \<Rightarrow> map_option (\<lambda>h. h @ ''***@'' @ b) (slice_to 1 a)
         | None \<Rightarrow> map_option (\<lambda>h. h @ ''***'') (slice_to 1 v))
      else if ty = ''credit_card'' then map_option (\<lambda>t. ''****-****-****-'' @ t) (last_bytes 4 v)
      else if ty = ''ssn'' then map_option (\<lambda>t. ''***-**-'' @ t) (last_bytes 4 v)
      else if ty = ''phone'' then map_option (\<lambda>t. ''***-***-'' @ t) (last_bytes 4 v)
      else if ty = ''ip'' then map_option (\<lambda>t. t @ ''****'') (but_last_bytes 4 v)
      else if ty = ''api_key'' \<or> ty = ''password'' then Some ''[REDACTED]''
      else if ty = ''jwt'' then Some ''eyJ***.[REDACTED].***''
      else Some ''***'')"

text \<open>
  A regular expression cuts a text into pieces, those that match (\<open>True\<close>) and those in between. The
  patterns are visited in the order of the map, the argument \<open>names\<close>.
\<close>

type_synonym matcher = "string \<Rightarrow> string \<Rightarrow> (bool \<times> string) list"

fun replace_matches :: "string \<Rightarrow> (bool \<times> string) list \<Rightarrow> string option" where
  "replace_matches ty [] = Some []"
| "replace_matches ty ((m, p) # ps) =
     (case (if m then mask_value ty p else Some p) of
        None \<Rightarrow> None
      | Some q \<Rightarrow> map_option ((@) q) (replace_matches ty ps))"

fun mask_all :: "matcher \<Rightarrow> string list \<Rightarrow> string \<Rightarrow> string option" where
  "mask_all re [] s = Some s"
| "mask_all re (ty # tys) s = (case replace_matches ty (re ty s) of None \<Rightarrow> None | Some s' \<Rightarrow> mask_all re tys s')"

definition pii_mask :: "matcher \<Rightarrow> string list \<Rightarrow> bool \<Rightarrow> string \<Rightarrow> string option" where
  "pii_mask re names enabled s = (if \<not> enabled then Some s else mask_all re names s)"

definition pii_detect :: "matcher \<Rightarrow> string set \<Rightarrow> string \<Rightarrow> (string \<rightharpoonup> string list)" where
  "pii_detect re names s =
     (\<lambda>ty. let ms = map snd (filter fst (re ty s)) in if ty \<in> names \<and> ms \<noteq> [] then Some ms else None)"

section \<open>The chain of hashes\<close>

fun linked :: "string \<Rightarrow> audit_entry list \<Rightarrow> bool" where
  "linked prev [] = True"
| "linked prev (e # es) = (ae_prev e = prev \<and> linked (ae_hash e) es)"

lemma verify_from_Suc: "verify_from (Suc i) prev es = None \<longleftrightarrow> linked prev es"
  by (induction es arbitrary: i prev) auto

lemma verify_integrity_iff: "verify_integrity al = None \<longleftrightarrow> linked [] (al_entries al)"
  by (cases "al_entries al") (auto simp: verify_integrity_def verify_from_Suc)

definition end_hash :: "string \<Rightarrow> audit_entry list \<Rightarrow> string" where
  "end_hash prev es = (if es = [] then prev else ae_hash (last es))"

lemma linked_append: "linked prev (es @ fs) \<longleftrightarrow> linked prev es \<and> linked (end_hash prev es) fs"
  by (induction es arbitrary: prev) (auto simp: end_hash_def)

text \<open>The logs that appending makes of an empty log, mutable or not.\<close>

inductive audit_reach :: "audit_env \<Rightarrow> bool \<Rightarrow> audit_log \<Rightarrow> bool" for env im where
  init: "audit_reach env im \<lparr>al_entries = [], al_last = [], al_immutable = im\<rparr>"
| append: "audit_reach env im al \<Longrightarrow> audit_append env now e al = Inr al' \<Longrightarrow> audit_reach env im al'"

lemma audit_append_InrD:
  "audit_append env now e al = Inr al' \<Longrightarrow> \<not> al_immutable al
     \<and> al' = al\<lparr>al_entries := al_entries al @ [seal_entry env now al e], al_last := ae_hash (seal_entry env now al e)\<rparr>"
  by (simp add: audit_append_def Let_def split: if_splits)

lemma seal_prev [simp]: "ae_prev (seal_entry env now al e) = al_last al"
  by (simp add: seal_entry_def Let_def)

lemma reach_linked:
  "audit_reach env im al \<Longrightarrow> linked [] (al_entries al) \<and> al_last al = end_hash [] (al_entries al) \<and> al_immutable al = im"
  by (induction rule: audit_reach.induct)
    (auto dest!: audit_append_InrD simp: linked_append end_hash_def)

lemma reach_immutable: "audit_reach env im al \<Longrightarrow> im \<Longrightarrow> al_entries al = []"
proof (induction rule: audit_reach.induct)
  case (append al now e al')
  from audit_append_InrD [OF append.hyps(2)] reach_linked [OF append.hyps(1)] append.prems show ?case by simp
qed simp

lemma audit_log_records_nothing_parts:
  assumes "audit_reach env True al"
  shows "audit_append env now e al = Inl (Lit ''audit log is immutable'')"
    and "audit_query f al = []" and "verify_integrity al = None" and "audit_reach env True new_audit_log"
proof -
  show "audit_append env now e al = Inl (Lit ''audit log is immutable'')"
    using reach_linked [OF assms] by (simp add: audit_append_def)
  show "audit_query f al = []" using reach_immutable [OF assms] by (simp add: audit_query_def)
  show "verify_integrity al = None" using reach_linked [OF assms] by (simp add: verify_integrity_iff)
  show "audit_reach env True new_audit_log" unfolding new_audit_log_def by (rule audit_reach.init)
qed

text \<open>The audit log that \<^verbatim>\<open>NewAuditLog\<close> returns records nothing: every entry is refused, every
  query is empty, and the verification succeeds.\<close>

lemma audit_log_records_nothing:
  assumes "audit_reach env True al"
  shows "audit_append env now e al = Inl (Lit ''audit log is immutable'') \<and> audit_query f al = []
    \<and> verify_integrity al = None \<and> audit_reach env True new_audit_log"
  by (intro conjI) (rule audit_log_records_nothing_parts [OF assms])+

text \<open>Rewriting entries without touching their two hashes.\<close>

definition tampers :: "(audit_entry \<Rightarrow> audit_entry) \<Rightarrow> bool" where
  "tampers f \<longleftrightarrow> (\<forall>e. ae_hash (f e) = ae_hash e \<and> ae_prev (f e) = ae_prev e)"

lemma linked_tampered: "tampers f \<Longrightarrow> linked prev (map f es) \<longleftrightarrow> linked prev es"
  by (induction es arbitrary: prev) (auto simp: tampers_def)

lemma integrity_checks_links_only_parts:
  assumes "audit_reach env False al"
  shows "verify_integrity al = None"
    and "al_entries al = es @ x # y # zs \<Longrightarrow> ae_hash x \<noteq> end_hash [] es
         \<Longrightarrow> verify_integrity (al\<lparr>al_entries := es @ y # zs\<rparr>) \<noteq> None"
    and "verify_integrity (al\<lparr>al_entries := take n (al_entries al)\<rparr>) = None"
    and "tampers f \<Longrightarrow> verify_integrity (al\<lparr>al_entries := map f (al_entries al)\<rparr>) = None"
proof -
  have ok: "linked [] (al_entries al)" using reach_linked [OF assms] by blast
  then show "verify_integrity al = None" by (simp add: verify_integrity_iff)
  show "verify_integrity (al\<lparr>al_entries := es @ y # zs\<rparr>) \<noteq> None"
    if "al_entries al = es @ x # y # zs" "ae_hash x \<noteq> end_hash [] es"
    using ok that by (simp add: verify_integrity_iff linked_append)
  have "linked [] (take n (al_entries al) @ drop n (al_entries al))" using ok by simp
  then show "verify_integrity (al\<lparr>al_entries := take n (al_entries al)\<rparr>) = None"
    unfolding linked_append by (simp add: verify_integrity_iff)
  show "verify_integrity (al\<lparr>al_entries := map f (al_entries al)\<rparr>) = None" if "tampers f"
    using ok linked_tampered [OF that] by (simp add: verify_integrity_iff)
qed

text \<open>The verification of a mutable log accepts what was appended and notices an entry that was
  removed from the middle (when its hash differs from that of its predecessor), but it does not notice
  a truncated end or a changed actor, action, time or result: the hashes are never recomputed.\<close>

lemma integrity_checks_links_only:
  assumes "audit_reach env False al"
  shows "verify_integrity al = None
    \<and> (al_entries al = es @ x # y # zs \<and> ae_hash x \<noteq> end_hash [] es
         \<longrightarrow> verify_integrity (al\<lparr>al_entries := es @ y # zs\<rparr>) \<noteq> None)
    \<and> verify_integrity (al\<lparr>al_entries := take n (al_entries al)\<rparr>) = None
    \<and> (tampers f \<longrightarrow> verify_integrity (al\<lparr>al_entries := map f (al_entries al)\<rparr>) = None)"
  using integrity_checks_links_only_parts [OF assms] by blast

section \<open>Masking\<close>

definition matches_long :: "matcher \<Rightarrow> bool" where
  "matches_long re \<longleftrightarrow> (\<forall>ty s p. (True, p) \<in> set (re ty s) \<longrightarrow>
     (ty = ''email'' \<longrightarrow> p \<noteq> [] \<and> hd p \<noteq> CHR ''@'') \<and> (ty \<in> {''credit_card'', ''ssn'', ''phone'', ''ip''} \<longrightarrow> 4 \<le> length p))"

lemma mask_value_total:
  assumes "ty = ''email'' \<longrightarrow> v \<noteq> [] \<and> hd v \<noteq> CHR ''@''"
    and "ty \<in> {''credit_card'', ''ssn'', ''phone'', ''ip''} \<longrightarrow> 4 \<le> length v"
  shows "mask_value ty v \<noteq> None"
proof (cases "ty = ''email''")
  case True
  have "a \<noteq> []" if "split2 CHR ''@'' v = Some (a, b)" for a b
    using that assms(1) True by (auto simp: split2_Some_iff)
  then show ?thesis using assms(1) True by (auto simp: mask_value_def slice_to_def Suc_le_eq split: option.splits)
next
  case False
  then show ?thesis using assms(2) by (simp add: mask_value_def last_bytes_def but_last_bytes_def)
qed

lemma replace_matches_total:
  "\<forall>p. (True, p) \<in> set ps \<longrightarrow> mask_value ty p \<noteq> None \<Longrightarrow> replace_matches ty ps \<noteq> None"
proof (induction ps)
  case (Cons x ps)
  obtain m p where x: "x = (m, p)" by (cases x)
  have "(if m then mask_value ty p else Some p) \<noteq> None" using Cons.prems by (auto simp: x)
  moreover have "replace_matches ty ps \<noteq> None" using Cons by auto
  ultimately show ?case by (auto simp: x split: option.splits)
qed simp

lemma mask_total: "matches_long re \<Longrightarrow> pii_mask re names enabled s \<noteq> None"
proof -
  assume long: "matches_long re"
  have "mask_all re names s \<noteq> None"
  proof (induction names arbitrary: s)
    case (Cons ty tys)
    have "mask_value ty p \<noteq> None" if "(True, p) \<in> set (re ty s)" for p
      by (rule mask_value_total) (use long that in \<open>auto simp: matches_long_def\<close>)
    then have "replace_matches ty (re ty s) \<noteq> None" by (intro replace_matches_total) blast
    then show ?case using Cons.IH by (auto split: option.splits)
  qed simp
  then show ?thesis by (simp add: pii_mask_def)
qed

section \<open>Witnesses\<close>

definition demo_audit_env :: audit_env where
  "demo_audit_env = \<lparr>au_sha_hex = (\<lambda>s. itoa (int (length s))), au_time = itoa\<rparr>"

definition demo_entry :: audit_entry where
  "demo_entry = \<lparr>ae_id = [], ae_time = 0, ae_actor = ''bob'', ae_actor_type = ''user'', ae_actor_ip = ''1.2.3.4'',
     ae_action = ''delete'', ae_resource = ''site'', ae_resource_id = ''1'', ae_result = ''ok'', ae_metadata = [],
     ae_hash = [], ae_prev = []\<rparr>"

lemma audit_log_records_nothing_witness:
  "audit_append demo_audit_env 3 demo_entry new_audit_log = Inl (Lit ''audit log is immutable'')
    \<and> audit_query \<lparr>af_actor = [], af_action = [], af_resource = [], af_from = 0, af_to = 9\<rparr> new_audit_log = []
    \<and> verify_integrity new_audit_log = None \<and> audit_reach demo_audit_env True new_audit_log"
  by (rule audit_log_records_nothing) (simp add: new_audit_log_def audit_reach.init)

definition demo_log :: audit_log where
  "demo_log = (let al = \<lparr>al_entries = [], al_last = [], al_immutable = False\<rparr>; s = seal_entry demo_audit_env 5 al demo_entry
     in al\<lparr>al_entries := [s], al_last := ae_hash s\<rparr>)"

lemma demo_log_reach: "audit_reach demo_audit_env False demo_log"
  by (rule audit_reach.append [OF audit_reach.init, where now = 5 and e = demo_entry])
    (simp add: demo_log_def audit_append_def Let_def)

lemma integrity_checks_links_only_witness:
  "verify_integrity (demo_log\<lparr>al_entries := map (\<lambda>e. e\<lparr>ae_actor := ''eve''\<rparr>) (al_entries demo_log)\<rparr>) = None"
  by (rule integrity_checks_links_only [OF demo_log_reach, THEN conjunct2, THEN conjunct2, THEN conjunct2, THEN mp])
    (simp add: tampers_def)

end
