(* ===== verification/Regex.thy ===== *)
theory Regex
  imports Utf8
begin

text \<open>
  The regular expressions of Go's \<^verbatim>\<open>regexp\<close> package, as far as the program uses them: an embedding of the
  syntax, the relation an expression denotes between positions of a text, and a backtracking matcher
  that lists the ends of all matches in the order of preference (leftmost, then the first alternative,
  greedy or lazy). The two agree (\<open>rx_ends_iff\<close>); proofs about patterns use the relation. A text is
  a list of runes and a position is the runes before it, reversed, with the runes after it.
\<close>

type_synonym rpos = "nat list \<times> nat list"

datatype assertion = TextStart | TextEnd | WordBoundary

text \<open>\<open>Cls True\<close> is a negated class; the flag of \<open>Rep\<close> tells greedy from lazy.\<close>

datatype rx =
    Cls bool "(nat \<times> nat) list"
  | Emp
  | Seq rx rx
  | Alt rx rx
  | Rep bool rx
  | Look assertion

section \<open>Classes and case\<close>

text \<open>
  Under \<^verbatim>\<open>(?i)\<close> a rune stands for its whole folding orbit; written out for the orbits of the ASCII letters
  and of U+00ED, the only ones that the patterns of the program can tell apart.
\<close>

definition orbit :: "bool \<Rightarrow> nat \<Rightarrow> nat list" where
  "orbit ic r =
     (if \<not> ic then [r]
      else if r = 0x4B \<or> r = 0x6B \<or> r = 0x212A then [0x4B, 0x6B, 0x212A]
      else if r = 0x53 \<or> r = 0x73 \<or> r = 0x17F then [0x53, 0x73, 0x17F]
      else if 0x41 \<le> r \<and> r \<le> 0x5A then [r, r + 32]
      else if 0x61 \<le> r \<and> r \<le> 0x7A then [r, r - 32]
      else if r = 0xCD \<or> r = 0xED then [0xCD, 0xED]
      else [r])"

definition in_ranges :: "(nat \<times> nat) list \<Rightarrow> nat \<Rightarrow> bool" where
  "in_ranges rs r = list_ex (\<lambda>(lo, hi). lo \<le> r \<and> r \<le> hi) rs"

definition in_cls :: "bool \<Rightarrow> bool \<Rightarrow> (nat \<times> nat) list \<Rightarrow> nat \<Rightarrow> bool" where
  "in_cls ic neg rs r = (neg \<noteq> list_ex (in_ranges rs) (orbit ic r))"

definition word_rune :: "nat \<Rightarrow> bool" where
  "word_rune r = in_ranges [(0x30, 0x39), (0x41, 0x5A), (0x5F, 0x5F), (0x61, 0x7A)] r"

fun word_at :: "nat list \<Rightarrow> bool" where
  "word_at [] = False"
| "word_at (r # rs) = word_rune r"

fun look :: "assertion \<Rightarrow> rpos \<Rightarrow> bool" where
  "look TextStart p = (fst p = [])"
| "look TextEnd p = (snd p = [])"
| "look WordBoundary p = (word_at (fst p) \<noteq> word_at (snd p))"

section \<open>The relation of an expression\<close>

primrec rx_rel :: "bool \<Rightarrow> rx \<Rightarrow> rpos \<Rightarrow> rpos \<Rightarrow> bool" where
  "rx_rel ic (Cls neg rs) = (\<lambda>p q. \<exists>c cs. snd p = c # cs \<and> in_cls ic neg rs c \<and> q = (c # fst p, cs))"
| "rx_rel ic Emp = (=)"
| "rx_rel ic (Seq a b) = rx_rel ic a OO rx_rel ic b"
| "rx_rel ic (Alt a b) = (\<lambda>p q. rx_rel ic a p q \<or> rx_rel ic b p q)"
| "rx_rel ic (Rep g a) = (rx_rel ic a)\<^sup>*\<^sup>*"
| "rx_rel ic (Look l) = (\<lambda>p q. q = p \<and> look l p)"

section \<open>The matcher\<close>

text \<open>
  The repetitions of \<open>f\<close> from a position: an iteration that consumes nothing is not tried, so the
  length of the rest bounds the number of iterations.
\<close>

fun rep_ends :: "bool \<Rightarrow> (rpos \<Rightarrow> rpos list) \<Rightarrow> nat \<Rightarrow> rpos \<Rightarrow> rpos list" where
  "rep_ends g f 0 p = [p]"
| "rep_ends g f (Suc n) p =
     (let more = concat (map (\<lambda>q. if length (snd q) < length (snd p) then rep_ends g f n q else []) (f p))
      in if g then more @ [p] else p # more)"

primrec rx_ends :: "bool \<Rightarrow> rx \<Rightarrow> rpos \<Rightarrow> rpos list" where
  "rx_ends ic (Cls neg rs) p =
     (case snd p of [] \<Rightarrow> [] | c # cs \<Rightarrow> if in_cls ic neg rs c then [(c # fst p, cs)] else [])"
| "rx_ends ic Emp p = [p]"
| "rx_ends ic (Seq a b) p = concat (map (rx_ends ic b) (rx_ends ic a p))"
| "rx_ends ic (Alt a b) p = rx_ends ic a p @ rx_ends ic b p"
| "rx_ends ic (Rep g a) p = rep_ends g (rx_ends ic a) (length (snd p)) p"
| "rx_ends ic (Look l) p = (if look l p then [p] else [])"

text \<open>The leftmost match at or after a position, as its two ends.\<close>

fun rx_find :: "bool \<Rightarrow> rx \<Rightarrow> nat list \<Rightarrow> nat list \<Rightarrow> (rpos \<times> rpos) option" where
  "rx_find ic r bef [] = (case rx_ends ic r (bef, []) of [] \<Rightarrow> None | q # _ \<Rightarrow> Some ((bef, []), q))"
| "rx_find ic r bef (c # cs) =
     (case rx_ends ic r (bef, c # cs) of [] \<Rightarrow> rx_find ic r (c # bef) cs | q # _ \<Rightarrow> Some ((bef, c # cs), q))"

definition rx_search :: "bool \<Rightarrow> rx \<Rightarrow> nat list \<Rightarrow> bool" where
  "rx_search ic r rs = (rx_find ic r [] rs \<noteq> None)"

text \<open>\<^verbatim>\<open>re.MatchString(s)\<close>; the flag stands for \<^verbatim>\<open>(?i)\<close> at the beginning of the expression.\<close>

definition match_string :: "bool \<Rightarrow> rx \<Rightarrow> string \<Rightarrow> bool" where
  "match_string ic r s = rx_search ic r (to_runes s)"

text \<open>
  \<^verbatim>\<open>FindAllString\<close> and \<^verbatim>\<open>ReplaceAllString\<close> with a template without dollar signs, for expressions that
  do not match the empty text.
\<close>

function rx_find_all :: "bool \<Rightarrow> rx \<Rightarrow> rpos \<Rightarrow> nat list list" where
  "rx_find_all ic r p =
     (case rx_find ic r (fst p) (snd p) of
        None \<Rightarrow> []
      | Some (a, b) \<Rightarrow>
          if length (snd b) < length (snd p)
          then take (length (snd a) - length (snd b)) (snd a) # rx_find_all ic r b else [])"
  by pat_completeness auto
termination
  by (relation "measure (\<lambda>(ic, r, p). length (snd p))") auto

function rx_replace :: "bool \<Rightarrow> rx \<Rightarrow> nat list \<Rightarrow> rpos \<Rightarrow> nat list" where
  "rx_replace ic r new p =
     (case rx_find ic r (fst p) (snd p) of
        None \<Rightarrow> snd p
      | Some (a, b) \<Rightarrow>
          if length (snd b) < length (snd p)
          then take (length (snd p) - length (snd a)) (snd p) @ new @ rx_replace ic r new b else snd p)"
  by pat_completeness auto
termination
  by (relation "measure (\<lambda>(ic, r, new, p). length (snd p))") auto

declare rx_find_all.simps [simp del] rx_replace.simps [simp del]

section \<open>The matcher lists the relation\<close>

text \<open>A position is moved along its text.\<close>

definition moves :: "rpos \<Rightarrow> rpos \<Rightarrow> bool" where
  "moves p q \<longleftrightarrow> (\<exists>w. snd p = w @ snd q \<and> fst q = rev w @ fst p)"

lemma moves_refl [simp]: "moves p p"
  by (simp add: moves_def)

lemma moves_trans: "moves p q \<Longrightarrow> moves q r \<Longrightarrow> moves p r"
  by (auto simp: moves_def)

lemma moves_length: "moves p q \<Longrightarrow> length (snd q) \<le> length (snd p)"
  by (auto simp: moves_def)

lemma moves_eq: "moves p q \<Longrightarrow> length (snd q) = length (snd p) \<Longrightarrow> q = p"
  by (cases p; cases q) (auto simp: moves_def)

lemma rtranclp_moves: "r\<^sup>*\<^sup>* p q \<Longrightarrow> (\<And>p q. r p q \<Longrightarrow> moves p q) \<Longrightarrow> moves p q"
  by (induction rule: rtranclp_induct) (auto intro: moves_trans)

lemma rx_rel_moves: "rx_rel ic r p q \<Longrightarrow> moves p q"
proof (induction r arbitrary: p q)
  case (Seq a b)
  then obtain u where "rx_rel ic a p u" "rx_rel ic b u q" by (metis relcomppE rx_rel.simps(3))
  with Seq.IH show ?case by (blast intro: moves_trans)
next
  case (Rep g a)
  then show ?case using rtranclp_moves [of "rx_rel ic a" p q] by simp
qed (auto simp: moves_def)

lemma rep_ends_sound:
  "q \<in> set (rep_ends g f n p) \<Longrightarrow> (\<And>p q. q \<in> set (f p) \<Longrightarrow> R p q) \<Longrightarrow> R\<^sup>*\<^sup>* p q"
proof (induction n arbitrary: p)
  case (Suc n)
  then consider "q = p" | u where "u \<in> set (f p)" "q \<in> set (rep_ends g f n u)"
    by (auto simp: Let_def split: if_splits)
  then show ?case
  proof cases
    case 2
    then have "R p u" "R\<^sup>*\<^sup>* u q" using Suc by blast+
    then show ?thesis by (rule converse_rtranclp_into_rtranclp)
  qed simp
qed simp

lemma rep_ends_self: "p \<in> set (rep_ends g f n p)"
  by (cases n) (simp_all add: Let_def)

lemma rep_ends_complete:
  assumes "R\<^sup>*\<^sup>* p q" "length (snd p) \<le> n" "\<And>p q. R p q \<Longrightarrow> q \<in> set (f p)" "\<And>p q. R p q \<Longrightarrow> moves p q"
  shows "q \<in> set (rep_ends g f n p)"
  using assms(1,2)
proof (induction arbitrary: n rule: converse_rtranclp_induct)
  case base
  show ?case by (rule rep_ends_self)
next
  case (step p u)
  show ?case
  proof (cases "length (snd u) < length (snd p)")
    case True
    then obtain m where n: "n = Suc m" using step.prems by (cases n) auto
    then have "q \<in> set (rep_ends g f m u)" using step True by auto
    then show ?thesis using True assms(3) [OF step.hyps(1)] by (auto simp: n Let_def)
  next
    case False
    then have "u = p" using assms(4) [OF step.hyps(1)] moves_eq moves_length by (metis le_neq_implies_less)
    then show ?thesis using step by blast
  qed
qed

theorem rx_ends_iff: "q \<in> set (rx_ends ic r p) \<longleftrightarrow> rx_rel ic r p q"
proof (induction r arbitrary: p q)
  case (Rep g a)
  show ?case
  proof
    assume "q \<in> set (rx_ends ic (Rep g a) p)"
    then show "rx_rel ic (Rep g a) p q" using rep_ends_sound [of q g "rx_ends ic a"] Rep.IH by auto
  next
    assume "rx_rel ic (Rep g a) p q"
    then show "q \<in> set (rx_ends ic (Rep g a) p)"
      using rep_ends_complete [of "rx_rel ic a" p q "length (snd p)" "rx_ends ic a" g] Rep.IH rx_rel_moves by auto
  qed
next
  case (Seq a b)
  have "q \<in> set (rx_ends ic (Seq a b) p) \<longleftrightarrow> (\<exists>u. u \<in> set (rx_ends ic a p) \<and> q \<in> set (rx_ends ic b u))" by auto
  then show ?case unfolding Seq.IH by (simp add: relcompp_apply)
qed (auto split: list.splits)

lemma rx_ends_Nil_iff: "rx_ends ic r p = [] \<longleftrightarrow> (\<forall>q. \<not> rx_rel ic r p q)"
  by (metis ex_in_conv rx_ends_iff set_empty)

lemma split_first:
  "(\<exists>w rest. c # cs = w @ rest \<and> P w rest) \<longleftrightarrow> P [] (c # cs) \<or> (\<exists>w rest. cs = w @ rest \<and> P (c # w) rest)"
  by (auto simp: Cons_eq_append_conv)

lemma rx_find_iff:
  "rx_find ic r bef aft \<noteq> None \<longleftrightarrow> (\<exists>w rest q. aft = w @ rest \<and> rx_rel ic r (rev w @ bef, rest) q)"
proof (induction aft arbitrary: bef)
  case Nil
  then show ?case using rx_ends_Nil_iff [of ic r "(bef, [])"] by (auto split: list.splits)
next
  case (Cons c cs)
  have "rx_find ic r bef (c # cs) \<noteq> None \<longleftrightarrow> (\<exists>q. rx_rel ic r (bef, c # cs) q) \<or> rx_find ic r (c # bef) cs \<noteq> None"
    using rx_ends_Nil_iff [of ic r "(bef, c # cs)"] by (auto split: list.splits)
  also have "\<dots> \<longleftrightarrow> (\<exists>w rest. c # cs = w @ rest \<and> (\<exists>q. rx_rel ic r (rev w @ bef, rest) q))"
    unfolding Cons.IH split_first [of _ _ "\<lambda>w rest. \<exists>q. rx_rel ic r (rev w @ bef, rest) q"] by simp
  also have "\<dots> \<longleftrightarrow> (\<exists>w rest q. c # cs = w @ rest \<and> rx_rel ic r (rev w @ bef, rest) q)" by blast
  finally show ?case .
qed

lemma rx_search_iff: "rx_search ic r rs \<longleftrightarrow> (\<exists>w rest q. rs = w @ rest \<and> rx_rel ic r (rev w, rest) q)"
  using rx_find_iff [of ic r "[]" rs] by (simp add: rx_search_def)

section \<open>Notation for patterns\<close>

definition rune_of :: "char \<Rightarrow> nat" where
  "rune_of c = of_char c"

text \<open>A literal text, a choice of literals, a set of characters, optional parts and bounded repetition.\<close>

definition Chars :: "string \<Rightarrow> rx" where
  "Chars s = Cls False (map (\<lambda>c. (of_char c, of_char c)) s)"

definition NotChars :: "string \<Rightarrow> rx" where
  "NotChars s = Cls True (map (\<lambda>c. (of_char c, of_char c)) s)"

fun Seqs :: "rx list \<Rightarrow> rx" where
  "Seqs [] = Emp"
| "Seqs [r] = r"
| "Seqs (r # rs) = Seq r (Seqs rs)"

fun Alts :: "rx list \<Rightarrow> rx" where
  "Alts [] = Cls False []"
| "Alts [r] = r"
| "Alts (r # rs) = Alt r (Alts rs)"

fun Txt :: "string \<Rightarrow> rx" where
  "Txt [] = Emp"
| "Txt (c # cs) = Seq (Chars [c]) (Txt cs)"

definition Words :: "string list \<Rightarrow> rx" where
  "Words ws = Alts (map Txt ws)"

abbreviation Many :: "rx \<Rightarrow> rx" where "Many \<equiv> Rep True"
abbreviation ManyLazy :: "rx \<Rightarrow> rx" where "ManyLazy \<equiv> Rep False"

definition Some1 :: "rx \<Rightarrow> rx" where "Some1 r = Seq r (Rep True r)"
definition Opt :: "rx \<Rightarrow> rx" where "Opt r = Alt r Emp"

fun Times :: "nat \<Rightarrow> rx \<Rightarrow> rx" where
  "Times 0 r = Emp"
| "Times (Suc n) r = Seq r (Times n r)"

fun UpTo :: "nat \<Rightarrow> rx \<Rightarrow> rx" where
  "UpTo 0 r = Emp"
| "UpTo (Suc n) r = Opt (Seq r (UpTo n r))"

definition Any :: rx where "Any = Cls True [(0x0A, 0x0A)]"
definition Anything :: rx where "Anything = Cls True []"
definition Space :: rx where "Space = Cls False [(0x09, 0x0A), (0x0C, 0x0D), (0x20, 0x20)]"
definition Digit :: rx where "Digit = Cls False [(0x30, 0x39)]"
definition HexDigit :: rx where "HexDigit = Cls False [(0x30, 0x39), (0x61, 0x66)]"
definition WordRune :: rx where "WordRune = Cls False [(0x30, 0x39), (0x41, 0x5A), (0x5F, 0x5F), (0x61, 0x7A)]"
abbreviation Bound :: rx where "Bound \<equiv> Look WordBoundary"

lemmas rx_notation = Chars_def NotChars_def Words_def Some1_def Opt_def Any_def Anything_def Space_def
  Digit_def HexDigit_def WordRune_def

section \<open>Relations of the notation\<close>

definition anycase :: "bool \<Rightarrow> char \<Rightarrow> nat \<Rightarrow> bool" where
  "anycase ic c r = in_cls ic False [(of_char c, of_char c)] r"

lemma anycase_self [simp]: "anycase ic c (of_char c)"
  by (auto simp: anycase_def in_cls_def in_ranges_def orbit_def)

text \<open>The spellings of a literal.\<close>

definition spells :: "bool \<Rightarrow> string \<Rightarrow> nat list \<Rightarrow> bool" where
  "spells ic s w = list_all2 (anycase ic) s w"

lemma rx_rel_Txt: "rx_rel ic (Txt s) p q \<longleftrightarrow> (\<exists>w. spells ic s w \<and> snd p = w @ snd q \<and> fst q = rev w @ fst p)"
proof (induction s arbitrary: p)
  case Nil
  then show ?case by (cases p; cases q) (auto simp: spells_def)
next
  case (Cons c cs)
  have "rx_rel ic (Txt (c # cs)) p q \<longleftrightarrow> (\<exists>r rs. snd p = r # rs \<and> anycase ic c r \<and> rx_rel ic (Txt cs) (r # fst p, rs) q)"
    by (auto simp: Chars_def anycase_def relcompp_apply)
  also have "\<dots> \<longleftrightarrow> (\<exists>w. spells ic (c # cs) w \<and> snd p = w @ snd q \<and> fst q = rev w @ fst p)"
    unfolding Cons.IH by (auto simp: spells_def list_all2_Cons1)
  finally show ?case .
qed

declare Txt.simps [simp del]

lemma rx_rel_Alts: "rx_rel ic (Alts rs) p q \<longleftrightarrow> (\<exists>r\<in>set rs. rx_rel ic r p q)"
  by (induction rs rule: Alts.induct) (auto simp: in_cls_def in_ranges_def list_ex_iff)

lemma rx_rel_Words:
  "rx_rel ic (Words ws) p q \<longleftrightarrow> (\<exists>s\<in>set ws. \<exists>w. spells ic s w \<and> snd p = w @ snd q \<and> fst q = rev w @ fst p)"
  by (simp add: Words_def rx_rel_Alts rx_rel_Txt)

lemma rx_rel_Seqs_Cons: "rs \<noteq> [] \<Longrightarrow> rx_rel ic (Seqs (r # rs)) = rx_rel ic r OO rx_rel ic (Seqs rs)"
  by (cases rs) simp_all

lemma rx_rel_Anything: "rx_rel ic Anything p q \<longleftrightarrow> (\<exists>c cs. snd p = c # cs \<and> q = (c # fst p, cs))"
  by (auto simp: Anything_def in_cls_def in_ranges_def list_ex_iff)

lemma rx_rel_Anything_star: "rx_rel ic (Rep g Anything) p q \<longleftrightarrow> moves p q"
proof
  assume "moves p q"
  then obtain w where "snd p = w @ snd q" "fst q = rev w @ fst p" by (auto simp: moves_def)
  then show "rx_rel ic (Rep g Anything) p q"
  proof (induction w arbitrary: p)
    case Nil
    then show ?case by (cases p; cases q) simp
  next
    case (Cons c cs)
    have "rx_rel ic (Rep g Anything) (c # fst p, cs @ snd q) q" by (rule Cons.IH) (use Cons.prems in simp_all)
    moreover have "rx_rel ic Anything p (c # fst p, cs @ snd q)" using Cons.prems by (simp add: rx_rel_Anything)
    ultimately show ?case by (simp add: converse_rtranclp_into_rtranclp)
  qed
qed (use rx_rel_moves in blast)

text \<open>A literal is found wherever the text contains one of its spellings.\<close>

lemma rx_search_Txt: "rx_search ic (Txt s) rs \<longleftrightarrow> (\<exists>a w b. spells ic s w \<and> rs = a @ w @ b)"
  unfolding rx_search_iff rx_rel_Txt by auto

lemma rx_search_mono:
  assumes "rx_search ic r rs" and "\<And>p q. rx_rel ic r p q \<Longrightarrow> \<exists>p' q'. moves p p' \<and> rx_rel ic r' p' q'"
  shows "rx_search ic r' rs"
proof -
  obtain w rest q where "rs = w @ rest" "rx_rel ic r (rev w, rest) q" using assms(1) rx_search_iff by blast
  with assms(2) obtain p' q' where "moves (rev w, rest) p'" "rx_rel ic r' p' q'" by blast
  then obtain v where "rest = v @ snd p'" "fst p' = rev v @ rev w" by (auto simp: moves_def)
  then have "rs = (w @ v) @ snd p'" "(rev (w @ v), snd p') = p'" using \<open>rs = w @ rest\<close> by (simp, cases p', simp)
  then show ?thesis using \<open>rx_rel ic r' p' q'\<close> rx_search_iff by metis
qed

lemma rx_search_Alts: "rx_search ic (Alts rs) t \<longleftrightarrow> (\<exists>r\<in>set rs. rx_search ic r t)"
  unfolding rx_search_iff rx_rel_Alts by blast

lemma rx_search_Words: "rx_search ic (Words ws) t \<longleftrightarrow> (\<exists>s\<in>set ws. \<exists>a w b. spells ic s w \<and> t = a @ w @ b)"
  by (simp add: Words_def rx_search_Alts rx_search_Txt)

end
