(* ===== verification/Targets.thy ===== *)
theory Targets
  imports WafTypes Regex
begin

text \<open>
  What the injection detectors share: the parts of a request they read, each with its source, and a loop
  over compiled patterns that answers with a fixed decision. Every pattern of these detectors begins
  with \<^verbatim>\<open>(?i)\<close>.
\<close>

type_synonym target = "string \<times> string"

definition param_targets :: "string \<Rightarrow> param_map \<Rightarrow> target list" where
  "param_targets kind m = concat (map (\<lambda>(k, vs). map (\<lambda>v. (v, kind @ k)) vs) m)"

definition header_targets :: "string \<Rightarrow> header_map \<Rightarrow> target list" where
  "header_targets kind m = map (\<lambda>(k, v). (v, kind @ k)) m"

definition body_targets :: "reqctx \<Rightarrow> target list" where
  "body_targets c = (case c_body c of None \<Rightarrow> [] | Some b \<Rightarrow> [(b, ''body'')])"

definition all_targets :: "reqctx \<Rightarrow> target list" where
  "all_targets c =
     param_targets ''query:'' (c_query c) @ param_targets ''form:'' (c_form c) @ body_targets c
     @ header_targets ''header:'' (c_headers c) @ header_targets ''cookie:'' (c_cookies c)"

definition any_match :: "rx list \<Rightarrow> string \<Rightarrow> bool" where
  "any_match ps v = list_ex (\<lambda>r. match_string True r v) ps"

definition match_group :: "rx list \<Rightarrow> decision \<Rightarrow> string \<Rightarrow> decision option" where
  "match_group ps d v = (if any_match ps v then Some d else None)"

definition inspect_targets :: "(string \<Rightarrow> string \<Rightarrow> decision option) \<Rightarrow> target list \<Rightarrow> decision option" where
  "inspect_targets f ts = first_some (\<lambda>(v, src). f v src) ts"

lemma any_match_iff: "any_match ps v \<longleftrightarrow> (\<exists>r\<in>set ps. match_string True r v)"
  by (simp add: any_match_def list_ex_iff)

lemma match_group_None_iff [simp]: "match_group ps d v = None \<longleftrightarrow> \<not> any_match ps v"
  by (simp add: match_group_def)

lemma match_group_Some_iff [simp]: "match_group ps d v = Some e \<longleftrightarrow> any_match ps v \<and> e = d"
  by (auto simp: match_group_def)

lemma first_of_Cons: "first_of (x # xs) = (case x of None \<Rightarrow> first_of xs | Some y \<Rightarrow> Some y)"
  by (cases x) simp_all

lemma inspect_targets_SomeD:
  "inspect_targets f ts = Some d \<Longrightarrow> \<exists>v src. (v, src) \<in> set ts \<and> f v src = Some d"
  by (auto simp: inspect_targets_def dest!: first_some_SomeD)

lemma inspect_targets_found:
  assumes "(v, src) \<in> set ts" "f v src \<noteq> None" "\<And>v src d. f v src = Some d \<Longrightarrow> P d"
  shows "\<exists>d. inspect_targets f ts = Some d \<and> P d"
proof -
  have "inspect_targets f ts \<noteq> None"
  proof
    assume "inspect_targets f ts = None"
    then have "\<forall>x\<in>set ts. (case x of (v, src) \<Rightarrow> f v src) = None"
      unfolding inspect_targets_def first_some_None_iff .
    from bspec [OF this assms(1)] assms(2) show False by simp
  qed
  then obtain d where d: "inspect_targets f ts = Some d" by blast
  then show ?thesis using inspect_targets_SomeD [OF d] assms(3) by blast
qed

lemma body_in_all_targets: "c_body c = Some b \<Longrightarrow> (b, ''body'') \<in> set (all_targets c)"
  by (simp add: all_targets_def body_targets_def)

lemma header_in_all_targets: "(k, v) \<in> set (c_headers c) \<Longrightarrow> (v, ''header:'' @ k) \<in> set (all_targets c)"
  by (force simp: all_targets_def header_targets_def)

section \<open>Searching ASCII text\<close>

definition ascii :: "string \<Rightarrow> bool" where
  "ascii s \<longleftrightarrow> (\<forall>c\<in>set s. (of_char c :: nat) < 0x80)"

lemma spells_map: "spells ic s (map of_char s)"
  by (simp add: spells_def list_all2_conv_all_nth)

lemma rx_rel_Txt_here: "rx_rel ic (Txt s) (bef, map of_char s @ aft) (rev (map of_char s) @ bef, aft)"
  unfolding rx_rel_Txt using spells_map by auto

lemma to_runes_append: "ascii (a @ w @ b) \<Longrightarrow> to_runes (a @ w @ b) = map of_char a @ map of_char w @ map of_char b"
  by (simp add: to_runes_ascii ascii_def)

lemma match_literal: "ascii (a @ w @ b) \<Longrightarrow> match_string ic (Txt w) (a @ w @ b)"
  unfolding match_string_def rx_search_Txt using to_runes_append spells_map by blast

lemma spells_ci_nth: "spells ic s w \<longleftrightarrow> length s = length w \<and> (\<forall>i<length s. anycase ic (s ! i) (w ! i))"
  by (simp add: spells_def list_all2_conv_all_nth)

lemma match_spelled:
  "ascii (a @ w @ b) \<Longrightarrow> spells ic s (map of_char w) \<Longrightarrow> match_string ic (Txt s) (a @ w @ b)"
  unfolding match_string_def rx_search_Txt using to_runes_append by blast

lemma match_Words: "match_string ic (Words ws) v \<longleftrightarrow> (\<exists>s\<in>set ws. match_string ic (Txt s) v)"
  by (simp add: match_string_def rx_search_Words rx_search_Txt)

lemma match_WordsI: "match_string ic (Txt s) v \<Longrightarrow> s \<in> set ws \<Longrightarrow> match_string ic (Words ws) v"
  unfolding match_Words by blast

lemma rx_rel_Txt_append: "rx_rel ic (Txt (s @ t)) p q \<longleftrightarrow> (\<exists>u. rx_rel ic (Txt s) p u \<and> rx_rel ic (Txt t) u q)"
proof
  assume "rx_rel ic (Txt (s @ t)) p q"
  then obtain w where w: "spells ic (s @ t) w" "snd p = w @ snd q" "fst q = rev w @ fst p" by (auto simp: rx_rel_Txt)
  then obtain a b where "w = a @ b" "spells ic s a" "spells ic t b" by (auto simp: spells_def list_all2_append1)
  with w have "rx_rel ic (Txt s) p (rev a @ fst p, b @ snd q)" "rx_rel ic (Txt t) (rev a @ fst p, b @ snd q) q"
    by (auto simp: rx_rel_Txt)
  then show "\<exists>u. rx_rel ic (Txt s) p u \<and> rx_rel ic (Txt t) u q" by blast
next
  assume "\<exists>u. rx_rel ic (Txt s) p u \<and> rx_rel ic (Txt t) u q"
  then obtain u a b where "spells ic s a" "snd p = a @ snd u" "fst u = rev a @ fst p"
    "spells ic t b" "snd u = b @ snd q" "fst q = rev b @ fst u" by (auto simp: rx_rel_Txt)
  moreover from this have "spells ic (s @ t) (a @ b)" by (simp add: spells_def list_all2_appendI)
  ultimately show "rx_rel ic (Txt (s @ t)) p q" unfolding rx_rel_Txt by (intro exI [of _ "a @ b"]) simp
qed

lemma rx_rel_TxtD: "rx_rel ic (Txt s) p q \<Longrightarrow> moves p q"
  by (rule rx_rel_moves)

end
