(* ===== verification/Sqli.thy ===== *)
theory Sqli
  imports Targets
begin

text \<open>
  The detector for SQL injection, \<^verbatim>\<open>internal/engine/sqli.go\<close>: patterns, normalisation, tokenizer and token
  analysis. The tables of Go's \<^verbatim>\<open>unicode\<close> package for runes outside ASCII, and the capacity of the slice that
  \<^verbatim>\<open>[]rune(s)\<close> returns, are arguments.
\<close>

section \<open>Patterns\<close>

definition encoding_re :: rx where
  "encoding_re =
     Alts [Seqs [Chars [CHR 0x5C], Txt ''x'', Times 2 HexDigit], Seqs [Chars [CHR 0x5C], Txt ''u'',
       Times 4 HexDigit], Seqs [Txt ''%'', Times 2 HexDigit], Seqs [Txt ''&#'', Opt (Txt ''x''),
       Some1 HexDigit, Txt '';'']]"

definition comment_re :: rx where
  "comment_re =
     Alts [Seqs [Txt ''/*'', ManyLazy Anything, Txt ''*''], Seqs [Txt ''--'', ManyLazy Anything,
       Look TextEnd], Seqs [Txt ''#'', ManyLazy Anything, Look TextEnd], Seqs [Txt ''--'', Space]]"

definition hex_re :: rx where
  "hex_re =
     Alts [Seqs [Txt ''0x'', Some1 HexDigit], Seqs [Txt ''x'', Chars [CHR 0x27], Some1 HexDigit,
       Chars [CHR 0x27]], Txt ''unhex('', Txt ''hex('', Txt ''char('']"

definition null_byte_re :: rx where
  "null_byte_re =
     Chars [CHR 0x00]"

definition double_enc_re :: rx where
  "double_enc_re =
     Alts [Seqs [Txt ''%25'', Times 2 HexDigit], Seqs [Txt ''%25'', Times 2 HexDigit, Txt ''%'',
       Times 2 HexDigit]]"

definition base64_re :: rx where
  "base64_re =
     Words [''base64_decode'', ''base64_encode'', ''from_base64'', ''to_base64'']"

definition sqli_patterns :: "rx list" where
  "sqli_patterns = [
     Seqs [Bound, Alts [Txt ''union'', Seqs [Txt ''union'', Some1 Space, Txt ''all'']], Some1 Space,
       Txt ''select'', Bound],
     Seqs [Txt ''select'', Some1 Space, ManyLazy Any, Bound, Txt ''from'', Bound, ManyLazy Any, Bound,
       Txt ''where'', Bound],
     Seqs [Bound, Words [''insert'', ''update'', ''delete'', ''drop'', ''truncate'', ''alter'', ''create'',
       ''replace''], Bound],
     Seqs [Bound, Words [''exec'', ''execute'', ''exec_sp'', ''xp_cmdshell'', ''sp_executesql''], Bound],
     Seqs [Chars [CHR 0x27], Many Any, Bound, Words [''or'', ''and''], Bound, Many Any, Chars [CHR 0x27,
       CHR 0x22]],
     Alts [Seqs [Chars [CHR 0x27], Many Any, Many Space, Txt ''='', Many Space, Chars [CHR 0x27], Many Any,
       Txt ''--''], Seqs [Chars [CHR 0x27], Many Any, Txt ''='', Many Space, Chars [CHR 0x27], Many Any,
       Txt ''#'']],
     Seqs [Alts [Txt ''sleep'', Seqs [Txt ''waitfor'', Some1 Space, Txt ''delay''], Txt ''pg_sleep'',
       Txt ''benchmark''], Many Space, Txt ''(''],
     Alts [Seqs [Txt ''or'', Some1 Space, Txt ''1'', Many Space, Txt ''='', Many Space, Txt ''1''],
       Seqs [Txt ''and'', Some1 Space, Txt ''1'', Many Space, Txt ''='', Many Space, Txt ''1'']],
     Alts [Seqs [Chars [CHR 0x27], Txt '';'', Many Any, Txt ''--''], Seqs [Chars [CHR 0x27], Txt '';'',
       Many Any, Txt ''#''], Seqs [Chars [CHR 0x27], Txt '')'', Many Space, Opt (Txt '';''), Many Space,
       Txt ''--'']],
     Seqs [Words [''pg_sleep'', ''waitfor'', ''delay'', ''sleep'', ''benchmark'', ''if''], Many Space,
       Txt ''(''],
     Seqs [Bound, Words [''information_schema'', ''mysql.'', ''pg_catalog'', ''sys.'', ''sqlite_master''],
       Bound],
     Words [''@@version'', ''version()'', ''@@servername'', ''db_name()''],
     Seqs [Txt ''into'', Some1 Space, Words [''outfile'', ''dumpfile'', ''load_file''], Bound],
     Seqs [Words [''conv'', ''char'', ''nchar'', ''hex'', ''unhex'', ''ord'', ''ascii''], Many Space,
       Txt ''(''],
     Alts [Seqs [Txt ''admin'', Chars [CHR 0x27]], Seqs [Chars [CHR 0x27], Txt ''admin''], Seqs [Bound,
       Txt ''or'', Bound, Many Any, Bound, Txt ''admin'', Bound], Seqs [Bound, Txt ''admin'', Bound, Many Any,
       Bound, Txt ''or'', Bound]]]"

section \<open>Tokens\<close>

datatype token_type =
    TokenKeyword | TokenOperator | TokenString | TokenNumber | TokenIdentifier | TokenComment
  | TokenPunctuation | TokenFunction | TokenUnknown

record token =
  tk_type :: token_type
  tk_value :: "nat list"
  tk_pos :: nat

record rune_env =
  ue_space :: "nat \<Rightarrow> bool"
  ue_digit :: "nat \<Rightarrow> bool"
  ue_letter :: "nat \<Rightarrow> bool"
  ue_upper :: "nat \<Rightarrow> nat"
  ue_cap :: "nat \<Rightarrow> nat"

definition rune_space :: "rune_env \<Rightarrow> nat \<Rightarrow> bool" where
  "rune_space env r = (if r < 0x80 then (0x09 \<le> r \<and> r \<le> 0x0D) \<or> r = 0x20 else ue_space env r)"

definition rune_digit :: "rune_env \<Rightarrow> nat \<Rightarrow> bool" where
  "rune_digit env r = (if r < 0x80 then 0x30 \<le> r \<and> r \<le> 0x39 else ue_digit env r)"

definition rune_letter :: "rune_env \<Rightarrow> nat \<Rightarrow> bool" where
  "rune_letter env r = (if r < 0x80 then (0x41 \<le> r \<and> r \<le> 0x5A) \<or> (0x61 \<le> r \<and> r \<le> 0x7A) else ue_letter env r)"

definition rune_upper :: "rune_env \<Rightarrow> nat \<Rightarrow> nat" where
  "rune_upper env r = (if r < 0x80 then (if 0x61 \<le> r \<and> r \<le> 0x7A then r - 32 else r) else ue_upper env r)"

definition rune_in :: "string \<Rightarrow> nat \<Rightarrow> bool" where
  "rune_in s r = (r \<in> set (map of_char s))"

text \<open>
  The inside and the end of a string literal: what is consumed, what is left, and whether a backslash at the
  very end moved the index past the end of the text.
\<close>

fun scan_string :: "nat \<Rightarrow> nat list \<Rightarrow> nat list \<times> nat list \<times> bool" where
  "scan_string q [] = ([], [], False)"
| "scan_string q (r # rs) =
     (if r = q then ([r], rs, False)
      else if r = 0x5C then
        (case rs of
           [] \<Rightarrow> ([r], [], True)
         | s # ss \<Rightarrow> (case scan_string q ss of (v, rest, over) \<Rightarrow> (r # s # v, rest, over)))
      else (case scan_string q rs of (v, rest, over) \<Rightarrow> (r # v, rest, over)))"

text \<open>A block comment after its \<^verbatim>\<open>/*\<close>; without an end it stops before the last rune.\<close>

fun scan_block :: "nat list \<Rightarrow> nat list \<times> nat list" where
  "scan_block (a # b # xs) =
     (if a = 0x2A \<and> b = 0x2F then ([a, b], xs)
      else (case scan_block (b # xs) of (v, rest) \<Rightarrow> (a # v, rest)))"
| "scan_block xs = ([], xs)"

definition sql_keywords :: "string list" where
  "sql_keywords = [''SELECT'', ''UNION'', ''FROM'', ''WHERE'', ''INSERT'', ''UPDATE'', ''DELETE'', ''DROP'', ''CREATE'',
     ''ALTER'', ''TABLE'', ''INTO'', ''VALUES'', ''SET'', ''AND'', ''OR'', ''NOT'', ''NULL'', ''LIKE'', ''BETWEEN'', ''IN'',
     ''EXISTS'', ''HAVING'', ''GROUP'', ''ORDER'', ''BY'', ''LIMIT'', ''OFFSET'', ''JOIN'', ''LEFT'', ''RIGHT'', ''INNER'',
     ''OUTER'', ''ON'', ''AS'', ''CASE'', ''WHEN'', ''THEN'', ''ELSE'', ''END'', ''EXEC'', ''EXECUTE'', ''SLEEP'',
     ''BENCHMARK'', ''PG_SLEEP'', ''WAITFOR'', ''DELAY'']"

definition upper_word :: "rune_env \<Rightarrow> nat list \<Rightarrow> nat list" where
  "upper_word env w = map (rune_upper env) w"

definition is_keyword :: "rune_env \<Rightarrow> nat list \<Rightarrow> bool" where
  "is_keyword env w = list_ex (\<lambda>k. map of_char k = upper_word env w) sql_keywords"

definition word_cont :: "rune_env \<Rightarrow> nat \<Rightarrow> bool" where
  "word_cont env r = (rune_letter env r \<or> rune_digit env r \<or> r = 0x5F)"

definition word_type :: "rune_env \<Rightarrow> nat list \<Rightarrow> nat list \<Rightarrow> token_type" where
  "word_type env w rest =
     (if is_keyword env w then TokenKeyword
      else if rest \<noteq> [] \<and> hd rest = 0x28 then TokenFunction else TokenIdentifier)"

text \<open>
  One token at a rune that is no space: its type, its runes, the rest, and the overrun of a string.
\<close>

definition next_token :: "rune_env \<Rightarrow> nat \<Rightarrow> nat list \<Rightarrow> token_type \<times> nat list \<times> nat list \<times> bool" where
  "next_token env ch rs =
     (if ch = 0x27 \<or> ch = 0x22 then
        (case scan_string ch rs of (v, rest, over) \<Rightarrow> (TokenString, ch # v, rest, over))
      else if ch = 0x2F \<and> rs \<noteq> [] \<and> hd rs = 0x2A then
        (case scan_block (tl rs) of (v, rest) \<Rightarrow> (TokenComment, ch # hd rs # v, rest, False))
      else if ch = 0x2D \<and> rs \<noteq> [] \<and> hd rs = 0x2D then
        (TokenComment, ch # hd rs # takeWhile (\<lambda>r. r \<noteq> 0x0A) (tl rs), dropWhile (\<lambda>r. r \<noteq> 0x0A) (tl rs), False)
      else if ch = 0x23 \<and> rs \<noteq> [] then
        (TokenComment, ch # takeWhile (\<lambda>r. r \<noteq> 0x0A) rs, dropWhile (\<lambda>r. r \<noteq> 0x0A) rs, False)
      else if rune_digit env ch \<or> (ch = 0x2E \<and> rs \<noteq> [] \<and> rune_digit env (hd rs)) then
        (let num = (\<lambda>r. rune_digit env r \<or> r = 0x2E)
         in (TokenNumber, ch # takeWhile num rs, dropWhile num rs, False))
      else if rune_letter env ch \<or> ch = 0x5F then
        (let w = ch # takeWhile (word_cont env) rs; rest = dropWhile (word_cont env) rs
         in (word_type env w rest, w, rest, False))
      else if rune_in ''=<>!+-*/%&|^~'' ch then
        (if rs \<noteq> [] \<and> rune_in ''=<>'' (hd rs) then (TokenOperator, [ch, hd rs], tl rs, False)
         else (TokenOperator, [ch], rs, False))
      else if rune_in ''()[]{};,'' ch then (TokenPunctuation, [ch], rs, False)
      else (TokenUnknown, [ch], rs, False))"

lemma scan_string_split: "scan_string q rs = (v, rest, over) \<Longrightarrow> rs = v @ rest"
  by (induction q rs arbitrary: v rest over rule: scan_string.induct)
    (auto split: if_splits list.splits prod.splits)

lemma scan_block_split: "scan_block rs = (v, rest) \<Longrightarrow> rs = v @ rest"
  by (induction rs arbitrary: v rest rule: scan_block.induct) (auto split: if_splits prod.splits)

lemma hd_tl_eq: "xs \<noteq> [] \<Longrightarrow> hd xs = x \<Longrightarrow> (xs = x # ys) = (tl xs = ys)"
  by (cases xs) auto

lemma next_token_split:
  assumes "next_token env ch rs = (ty, v, rest, over)"
  shows "ch # rs = v @ rest \<and> v \<noteq> []"
  using assms
  unfolding next_token_def Let_def
  by (auto simp del: scan_string.simps scan_block.simps simp: hd_tl_eq split: if_splits prod.splits
      dest!: scan_string_split scan_block_split)

text \<open>
  The loop. \<open>n\<close> is the length of the whole text: an overrun slices one rune beyond it, which the slice
  allows (the rune is zero there) unless its capacity is exhausted.
\<close>

function tokenize_from :: "rune_env \<Rightarrow> nat \<Rightarrow> nat \<Rightarrow> nat list \<Rightarrow> go_panic + token list" where
  "tokenize_from env n pos rs =
     (case rs of
        [] \<Rightarrow> Inr []
      | ch # cs \<Rightarrow>
          if rune_space env ch then tokenize_from env n (Suc pos) cs
          else
            (case next_token env ch cs of
               (ty, v, rest, over) \<Rightarrow>
                 if over \<and> ue_cap env n \<le> n then Inl SliceBounds
                 else if length rest < length rs
                 then map_sum id ((#) \<lparr>tk_type = ty, tk_value = (if over then v @ [0] else v), tk_pos = pos\<rparr>)
                        (tokenize_from env n (pos + length v) rest)
                 else Inr []))"
  by pat_completeness auto
termination
  by (relation "measure (\<lambda>(env, n, pos, rs). length rs)") auto

declare tokenize_from.simps [simp del]

definition tokenize :: "rune_env \<Rightarrow> nat list \<Rightarrow> go_panic + token list" where
  "tokenize env rs = tokenize_from env (length rs) 0 rs"

lemma tokenize_from_Nil [simp]: "tokenize_from env n pos [] = Inr []"
  by (simp add: tokenize_from.simps)

lemma tokenize_from_space: "rune_space env ch \<Longrightarrow> tokenize_from env n pos (ch # cs) = tokenize_from env n (Suc pos) cs"
  by (subst tokenize_from.simps) simp

lemma tokenize_from_token:
  assumes "\<not> rune_space env ch" "next_token env ch cs = (ty, v, rest, over)"
  shows "tokenize_from env n pos (ch # cs) =
     (if over \<and> ue_cap env n \<le> n then Inl SliceBounds
      else map_sum id ((#) \<lparr>tk_type = ty, tk_value = (if over then v @ [0] else v), tk_pos = pos\<rparr>)
             (tokenize_from env n (pos + length v) rest))"
proof -
  have "length rest < length (ch # cs)" using next_token_split [OF assms(2)] by (cases v) auto
  then show ?thesis using assms by (subst tokenize_from.simps) simp
qed

section \<open>Analysis\<close>

definition dangerous_keyword :: "rune_env \<Rightarrow> token \<Rightarrow> bool" where
  "dangerous_keyword env t =
     (tk_type t = TokenKeyword
      \<and> list_ex (\<lambda>k. map of_char k = upper_word env (tk_value t)) [''UNION'', ''SELECT'', ''DROP'', ''EXEC'', ''EXECUTE''])"

definition count_type :: "token_type \<Rightarrow> token list \<Rightarrow> nat" where
  "count_type ty ts = length (filter (\<lambda>t. tk_type t = ty) ts)"

definition analyze_tokens :: "rune_env \<Rightarrow> token list \<Rightarrow> string \<Rightarrow> decision option" where
  "analyze_tokens env ts src =
     (case find (dangerous_keyword env) ts of
        Some t \<Rightarrow> Some (mk_decision ActionBlock ''SQLI021'' ''SQL Keyword Injection'' ''critical'' 90
                 (Fmt ''dangerous SQL keyword %q in %s'' [AStr (runes_to_string (tk_value t)), AStr src]))
      | None \<Rightarrow>
          (let keywords = count_type TokenKeyword ts; strings = count_type TokenString ts;
               semicolon = list_ex (\<lambda>t. tk_type t = TokenPunctuation \<and> tk_value t = [0x3B]) ts in
           if semicolon \<and> 0 < keywords
           then Some (mk_decision ActionBlock ''SQLI022'' ''SQL Statement Chaining'' ''critical'' 85
                  (Fmt ''SQL statement chaining detected in %s'' [AStr src]))
           else if 2 \<le> keywords \<and> 1 \<le> strings
           then Some (mk_decision ActionMonitor ''SQLI023'' ''SQL-like Injection Pattern'' ''high'' 60
                  (Fmt ''SQL-like token pattern in %s: %d keywords, %d strings''
                    [AStr src, AInt (int keywords), AInt (int strings)]))
           else None))"

definition detect_encoding_bypass :: "string \<Rightarrow> string \<Rightarrow> decision option" where
  "detect_encoding_bypass v src =
     (if match_string False null_byte_re v
      then Some (mk_decision ActionBlock ''SQLI017'' ''Null Byte Injection'' ''high'' 70
             (Fmt ''null byte detected in %s'' [AStr src]))
      else if match_string False double_enc_re v
      then Some (mk_decision ActionBlock ''SQLI018'' ''Double Encoding'' ''high'' 75
             (Fmt ''double encoding detected in %s'' [AStr src]))
      else if match_string True hex_re v
      then Some (mk_decision ActionMonitor ''SQLI019'' ''Hex Encoding'' ''medium'' 40
             (Fmt ''hex encoding detected in %s'' [AStr src]))
      else if match_string True base64_re v
      then Some (mk_decision ActionMonitor ''SQLI020'' ''Base64 Encoding'' ''medium'' 35
             (Fmt ''base64 function detected in %s'' [AStr src]))
      else None)"

definition normalize_input :: "nat list \<Rightarrow> nat list" where
  "normalize_input rs = rx_replace True encoding_re [0x58] ([], rx_replace True comment_re [0x20] ([], rs))"

definition sqli_inspect_value :: "rune_env \<Rightarrow> string \<Rightarrow> string \<Rightarrow> go_panic + decision option" where
  "sqli_inspect_value env v src =
     (if v = [] then Inr None
      else
        case detect_encoding_bypass v src of
          Some d \<Rightarrow> Inr (Some d)
        | None \<Rightarrow>
            (let value = normalize_input (to_runes v) in
             case tokenize env value of
               Inl p \<Rightarrow> Inl p
             | Inr ts \<Rightarrow>
                 (case analyze_tokens env ts src of
                    Some d \<Rightarrow> Inr (Some d)
                  | None \<Rightarrow>
                      if list_ex (\<lambda>r. rx_search True r value) sqli_patterns
                      then Inr (Some (mk_decision ActionBlock ''SQLI016'' ''SQL Pattern Match'' ''high'' 75
                             (Fmt ''SQL injection pattern matched in %s: %q'' [AStr src, AStr (take 200 v)])))
                      else Inr None)))"

definition sqli_extract_targets :: "reqctx \<Rightarrow> target list" where
  "sqli_extract_targets c = all_targets c"

fun sqli_scan :: "rune_env \<Rightarrow> target list \<Rightarrow> go_panic + decision option" where
  "sqli_scan env [] = Inr None"
| "sqli_scan env ((v, src) # ts) =
     (case sqli_inspect_value env v src of
        Inl p \<Rightarrow> Inl p | Inr (Some d) \<Rightarrow> Inr (Some d) | Inr None \<Rightarrow> sqli_scan env ts)"

definition sqli_inspect :: "rune_env \<Rightarrow> unit inspector" where
  "sqli_inspect env = (\<lambda>now (s, c). ((s, c),
     case sqli_scan env (sqli_extract_targets c) of Inl p \<Rightarrow> IPanic p | Inr d \<Rightarrow> result_of d))"

section \<open>The tokens cover the text\<close>

fun covers :: "rune_env \<Rightarrow> nat \<Rightarrow> nat list \<Rightarrow> token list \<Rightarrow> bool" where
  "covers env pos rs [] = list_all (rune_space env) rs"
| "covers env pos rs (t # ts) =
     (\<exists>gap rest. rs = gap @ tk_value t @ rest \<and> list_all (rune_space env) gap \<and> tk_pos t = pos + length gap
        \<and> tk_value t \<noteq> [] \<and> covers env (tk_pos t + length (tk_value t)) rest ts)"

lemma covers_space: "rune_space env ch \<Longrightarrow> covers env (Suc pos) cs ts \<Longrightarrow> covers env pos (ch # cs) ts"
proof (cases ts)
  case (Cons t us)
  assume sp: "rune_space env ch" and cov: "covers env (Suc pos) cs ts"
  then obtain gap rest where "cs = gap @ tk_value t @ rest" "list_all (rune_space env) gap"
    "tk_pos t = Suc pos + length gap" "tk_value t \<noteq> []" "covers env (tk_pos t + length (tk_value t)) rest us"
    by (auto simp: Cons)
  then show ?thesis unfolding Cons covers.simps
    by (intro exI [of _ "ch # gap"] exI [of _ rest]) (simp add: sp)
qed simp

text \<open>The inside of a string that is still open: no quote but after a backslash.\<close>

fun string_body :: "nat \<Rightarrow> nat list \<Rightarrow> bool" where
  "string_body q [] = True"
| "string_body q (r # rs) =
     (if r = 0x5C then (case rs of [] \<Rightarrow> False | s # ss \<Rightarrow> string_body q ss) else r \<noteq> q \<and> string_body q rs)"

lemma scan_string_over: "scan_string q rs = (v, rest, True) \<Longrightarrow> rest = [] \<and> (\<exists>w. v = w @ [0x5C] \<and> string_body q w)"
proof (induction q rs arbitrary: v rest rule: scan_string.induct)
  case (2 q r rs)
  consider "r = q" | "r \<noteq> q" "r = 0x5C" "rs = []" | s ss where "r \<noteq> q" "r = 0x5C" "rs = s # ss"
    | "r \<noteq> q" "r \<noteq> 0x5C" by (cases rs) auto
  then show ?case
  proof cases
    case 3
    then obtain x where x: "scan_string q ss = (x, rest, True)" "v = r # s # x"
      using 2(3) by (cases "scan_string q ss") auto
    then obtain w where "x = w @ [0x5C]" "string_body q w" "rest = []" using 2(1) 3 by blast
    then show ?thesis using 3 x(2) by (auto intro!: exI [of _ "r # s # w"])
  next
    case 4
    then obtain x where x: "scan_string q rs = (x, rest, True)" "v = r # x"
      using 2(3) by (cases "scan_string q rs") auto
    then obtain w where "x = w @ [0x5C]" "string_body q w" "rest = []" using 2(2) 4 by blast
    then show ?thesis using 4 x(2) by (auto intro!: exI [of _ "r # w"])
  qed (use 2(3) in \<open>auto intro!: exI [of _ "[]"]\<close>)
qed simp

text \<open>A string that reaches beyond the text by one zero rune: it is open at a backslash that is the last rune.\<close>

definition overrun_string :: "token \<Rightarrow> bool" where
  "overrun_string t \<longleftrightarrow> tk_type t = TokenString \<and>
     (\<exists>q w. (q = 0x27 \<or> q = 0x22) \<and> string_body q w \<and> tk_value t = q # w @ [0x5C, 0])"

lemma next_token_over:
  "next_token env ch rs = (ty, v, rest, True) \<Longrightarrow>
     rest = [] \<and> overrun_string \<lparr>tk_type = ty, tk_value = v @ [0], tk_pos = pos\<rparr>"
  unfolding next_token_def Let_def overrun_string_def
  by (auto simp del: scan_string.simps scan_block.simps split: if_splits prod.splits dest!: scan_string_over)

definition covers_or_overruns :: "rune_env \<Rightarrow> nat \<Rightarrow> nat list \<Rightarrow> token list \<Rightarrow> bool" where
  "covers_or_overruns env pos rs ts \<longleftrightarrow>
     covers env pos rs ts \<or> ts \<noteq> [] \<and> overrun_string (last ts) \<and> covers env pos (rs @ [0]) ts"

lemma tokenize_from_covers: "tokenize_from env n pos rs = Inr ts \<Longrightarrow> covers_or_overruns env pos rs ts"
proof (induction "length rs" arbitrary: rs pos ts rule: less_induct)
  case less
  show ?case
  proof (cases rs)
    case Nil
    then show ?thesis using less.prems by (simp add: covers_or_overruns_def)
  next
    case (Cons ch cs)
    show ?thesis
    proof (cases "rune_space env ch")
      case True
      then have "tokenize_from env n (Suc pos) cs = Inr ts" using less.prems by (simp add: Cons tokenize_from_space)
      then have "covers_or_overruns env (Suc pos) cs ts" using less.hyps Cons by simp
      then show ?thesis using covers_space [OF True] by (auto simp: Cons covers_or_overruns_def)
    next
      case False
      obtain ty v rest over where nt: "next_token env ch cs = (ty, v, rest, over)" by (metis prod_cases4)
      note split = next_token_split [OF nt]
      from less.prems obtain us where
        ts: "ts = \<lparr>tk_type = ty, tk_value = (if over then v @ [0] else v), tk_pos = pos\<rparr> # us"
        and us: "tokenize_from env n (pos + length v) rest = Inr us"
        unfolding Cons tokenize_from_token [OF False nt]
        by (cases "tokenize_from env n (pos + length v) rest") (auto split: if_splits)
      show ?thesis
      proof (cases over)
        case True
        then have "next_token env ch cs = (ty, v, rest, True)" using nt by simp
        from next_token_over [OF this, of pos] have rest: "rest = []"
          and over: "overrun_string \<lparr>tk_type = ty, tk_value = v @ [0], tk_pos = pos\<rparr>" by simp_all
        then have "us = []" using us by simp
        then show ?thesis using split rest over True by (simp add: ts Cons covers_or_overruns_def)
      next
        case False
        have "length rest < length rs" using split by (cases v) (auto simp: Cons)
        then have IH: "covers_or_overruns env (pos + length v) rest us" using less.hyps us by blast
        have step: "covers env pos (v @ r) ts" if "covers env (pos + length v) r us" for r
          unfolding ts covers.simps using that split False
          by (intro exI [of _ "[]"] exI [of _ r]) simp
        have "last ts = last us" if "us \<noteq> []" using that by (simp add: ts)
        with IH step [of rest] step [of "rest @ [0]"] split show ?thesis
          by (auto simp: Cons covers_or_overruns_def ts)
      qed
    qed
  qed
qed

text \<open>Property C18. The tokenizer loses nothing and invents nothing: its tokens are consecutive pieces of the text at the
  positions they name, none is empty, and only white space lies between them. The one exception is the last token of a text that ends
  in a backslash inside an open string: this string, up to and with the backslash, is followed by one zero rune from beyond the text.\<close>

theorem tokens_cover_text:
  assumes "tokenize env rs = Inr ts"
  shows "covers env 0 rs ts \<or>
    (\<exists>us t q w. ts = us @ [t] \<and> tk_type t = TokenString \<and> (q = 0x27 \<or> q = 0x22) \<and> string_body q w \<and>
       tk_value t = q # w @ [0x5C, 0] \<and> covers env 0 (rs @ [0]) ts)"
proof -
  have "covers_or_overruns env 0 rs ts" using tokenize_from_covers assms by (simp add: tokenize_def)
  moreover have "ts = butlast ts @ [last ts]" if "ts \<noteq> []" using that by simp
  ultimately show ?thesis unfolding covers_or_overruns_def overrun_string_def by blast
qed

section \<open>A backslash at the end\<close>

lemma scan_string_plain:
  "\<forall>r\<in>set w. r \<noteq> q \<and> r \<noteq> 0x5C \<Longrightarrow> q \<noteq> 0x5C \<Longrightarrow> scan_string q (w @ [0x5C]) = (w @ [0x5C], [], True)"
  by (induction w) auto

text \<open>A string literal that is still open at a final backslash moves the index past the end of the
  runes: the tokenizer panics when the slice has no spare capacity, and otherwise reads a zero beyond the text.\<close>

lemma open_string_backslash:
  assumes "q = 0x27 \<or> q = 0x22" and "\<forall>r\<in>set w. r \<noteq> q \<and> r \<noteq> 0x5C"
  shows "tokenize env (q # w @ [0x5C]) =
     (if ue_cap env (length w + 2) \<le> length w + 2 then Inl SliceBounds
      else Inr [\<lparr>tk_type = TokenString, tk_value = q # w @ [0x5C, 0], tk_pos = 0\<rparr>])"
proof -
  have "next_token env q (w @ [0x5C]) = (TokenString, q # w @ [0x5C], [], True)"
    using assms scan_string_plain [of w q] by (auto simp: next_token_def)
  moreover have "\<not> rune_space env q" using assms(1) by (auto simp: rune_space_def)
  ultimately show ?thesis by (simp add: tokenize_def tokenize_from_token)
qed

section \<open>Encoded values are only watched\<close>

lemma sqli_scan_first:
  "\<forall>t\<in>set ts. sqli_inspect_value env (fst t) (snd t) = Inr None \<Longrightarrow> sqli_inspect_value env v src = Inr (Some d)
     \<Longrightarrow> sqli_scan env (ts @ (v, src) # us) = Inr (Some d)"
  by (induction ts) auto

text \<open>A hexadecimal marker such as \<^verbatim>\<open>0x41\<close> or \<^verbatim>\<open>char(\<close> anywhere in a value switches the detection off:
  the request is answered with a mere monitoring decision of score 40, whatever SQL the value holds and whatever
  the targets after it hold, as long as those before it are clean.\<close>

lemma hex_marker_hides_injection:
  assumes "all_targets c = ts @ (v, src) # us" and "v \<noteq> []"
    and "\<forall>t\<in>set ts. sqli_inspect_value env (fst t) (snd t) = Inr None"
    and "match_string True hex_re v" "\<not> match_string False null_byte_re v" "\<not> match_string False double_enc_re v"
  shows "\<exists>d. snd (sqli_inspect env now (s, c)) = IDec d \<and> d_action d = ActionMonitor \<and> d_score d = 40"
proof -
  have "\<exists>d. sqli_inspect_value env v src = Inr (Some d) \<and> d_action d = ActionMonitor \<and> d_score d = 40"
    using assms(2,4-6) by (simp add: sqli_inspect_value_def detect_encoding_bypass_def)
  then obtain d where d: "sqli_inspect_value env v src = Inr (Some d)" "d_action d = ActionMonitor" "d_score d = 40" by blast
  from sqli_scan_first [OF assms(3) d(1)] have "sqli_scan env (sqli_extract_targets c) = Inr (Some d)"
    by (simp add: sqli_extract_targets_def assms(1))
  then show ?thesis using d(2,3) by (simp add: sqli_inspect_def)
qed

lemma sqli_value_score: "sqli_inspect_value env v src = Inr (Some d) \<Longrightarrow> score_ok d"
  by (auto simp: sqli_inspect_value_def detect_encoding_bypass_def analyze_tokens_def score_ok_def Let_def
      split: if_splits option.splits sum.splits)

lemma sqli_scan_score: "sqli_scan env ts = Inr (Some d) \<Longrightarrow> score_ok d"
  by (induction env ts rule: sqli_scan.induct) (auto split: sum.splits option.splits dest: sqli_value_score)

interpretation sqli: inspector "sqli_inspect env" for env
proof
  show "ctx_frame c c'" if "sqli_inspect env now (s, c) = ((s', c'), r)" for env now s c s' c' r
    using that by (simp add: sqli_inspect_def ctx_frame_def)
  show "score_ok d" if "sqli_inspect env now (s, c) = ((s', c'), IDec d)" for env now s c s' c' d
    using that sqli_scan_score
    by (auto simp: sqli_inspect_def result_of_def split: sum.splits option.splits)
qed

section \<open>Witnesses\<close>

definition ascii_env :: rune_env where
  "ascii_env = \<lparr>ue_space = (\<lambda>r. False), ue_digit = (\<lambda>r. False), ue_letter = (\<lambda>r. False), ue_upper = (\<lambda>r. r), ue_cap = (\<lambda>n. max 32 n)\<rparr>"

definition demo_tokens :: "token list" where
  "demo_tokens = [\<lparr>tk_type = TokenKeyword, tk_value = [0x6F, 0x72], tk_pos = 0\<rparr>,
     \<lparr>tk_type = TokenNumber, tk_value = [0x31], tk_pos = 3\<rparr>]"

theorem tokens_cover_text_witness: "covers ascii_env 0 [0x6F, 0x72, 0x20, 0x31] demo_tokens"
proof -
  have "tokenize ascii_env [0x6F, 0x72, 0x20, 0x31] = Inr demo_tokens" by code_simp
  from tokens_cover_text [OF this] show ?thesis
    by (auto simp: demo_tokens_def append_eq_Cons_conv Cons_eq_append_conv)
qed

lemma open_string_backslash_witness:
  "tokenize ascii_env (0x27 # replicate 30 0x61 @ [0x5C]) =
     (if ue_cap ascii_env (length (replicate 30 (0x61 :: nat)) + 2) \<le> length (replicate 30 (0x61 :: nat)) + 2
      then Inl SliceBounds
      else Inr [\<lparr>tk_type = TokenString, tk_value = 0x27 # replicate 30 0x61 @ [0x5C, 0], tk_pos = 0\<rparr>])"
  by (rule open_string_backslash) simp_all

end
