(* ===== verification/Rce.thy ===== *)
theory Rce
  imports Targets
begin

text \<open>
  The detector for command, template and deserialisation injection, \<^verbatim>\<open>internal/engine/rce.go\<close>. Its six
  lists of patterns are transcribed one to one.
\<close>

section \<open>Patterns\<close>

definition shell_patterns :: "rx list" where
  "shell_patterns = [
     Seqs [Txt '';'', Many Space, Words [''id'', ''whoami'', ''pwd'', ''ls'', ''cat'', ''nc'', ''bash'',
       ''sh'', ''cmd'', ''powershell'', ''wget'', ''curl'', ''python'', ''perl'', ''ruby'', ''php''], Bound],
     Seqs [Txt ''|'', Many Space, Words [''id'', ''whoami'', ''pwd'', ''ls'', ''cat'', ''nc'', ''bash'',
       ''sh'', ''cmd'', ''powershell'', ''wget'', ''curl''], Bound],
     Seqs [Chars [CHR 0x60], ManyLazy (NotChars [CHR 0x60]), Words [''id'', ''whoami'', ''pwd'', ''ls'',
       ''cat'', ''nc'', ''bash'', ''sh'', ''cmd'', ''powershell'', ''wget'', ''curl''],
       ManyLazy (NotChars [CHR 0x60]), Chars [CHR 0x60]],
     Seqs [Txt ''$('', ManyLazy (NotChars '')''), Words [''id'', ''whoami'', ''pwd'', ''ls'', ''cat'',
       ''nc'', ''bash'', ''sh'', ''cmd'', ''powershell''], ManyLazy (NotChars '')''), Txt '')''],
     Seqs [Bound, Words [''exec'', ''passthru'', ''shell_exec'', ''system'', ''proc_open'', ''popen'',
       ''pcntl_exec'', ''eval'', ''assert'', ''create_function'', ''call_user_func'', ''array_map'',
       ''preg_replace''], Many Space, Txt ''(''],
     Words [''cmd.exe'', ''command.com'', ''%COMSPEC%''],
     Seqs [Words [''||'', ''&&''], Many Space, Words [''id'', ''whoami'', ''pwd'', ''dir'', ''type'',
       ''rest'', ''find'']],
     Seqs [Txt '';'', Many Space, Words [''echo'', ''print'', ''cat'', ''type'', ''dir''], Some1 Space,
       Some1 (Cls False [(0x30, 0x39), (0x41, 0x5A), (0x5F, 0x5F), (0x61, 0x7A), (0x2F, 0x2F), (0x5C, 0x5C),
       (0x3A, 0x3A), (0x2E, 0x2E), (0x7E, 0x7E), (0x2D, 0x2D)])],
     Seqs [Txt ''$(<('', Some1 (Cls False [(0x30, 0x39), (0x41, 0x5A), (0x5F, 0x5F), (0x61, 0x7A), (0x09,
       0x0A), (0x0C, 0x0D), (0x20, 0x20), (0x2F, 0x2F), (0x5C, 0x5C), (0x2E, 0x2E), (0x2D, 0x2D)]), Txt ''))''],
     Seqs [Txt ''<'', Many (Seqs [Some1 (Cls False [(0x30, 0x39), (0x41, 0x5A), (0x5F, 0x5F), (0x61, 0x7A),
       (0x2F, 0x2F), (0x5C, 0x5C)]), Space]), Some1 (Cls False [(0x30, 0x39), (0x41, 0x5A), (0x5F, 0x5F),
       (0x61, 0x7A), (0x2F, 0x2F), (0x5C, 0x5C)])],
     Seqs [Txt ''>'', Many (Seqs [Some1 (Cls False [(0x30, 0x39), (0x41, 0x5A), (0x5F, 0x5F), (0x61, 0x7A),
       (0x2F, 0x2F), (0x5C, 0x5C)]), Space]), Some1 (Cls False [(0x30, 0x39), (0x41, 0x5A), (0x5F, 0x5F),
       (0x61, 0x7A), (0x2F, 0x2F), (0x5C, 0x5C)])]]"

definition ssti_patterns :: "rx list" where
  "ssti_patterns = [
     Seqs [Txt ''{{'', ManyLazy Anything, Words [''config'', ''self'', ''request'', ''app'', ''g'',
       ''class'', ''base'', ''subclasses'', ''import'', ''open'', ''popen'', ''os'', ''system'', ''eval'',
       ''exec'', ''mro'', ''__builtins__''], ManyLazy Anything, Txt ''}}''],
     Seqs [Txt ''{%'', ManyLazy Anything, Words [''config'', ''self'', ''request'', ''app'', ''g'',
       ''class'', ''base'', ''subclasses'', ''import'', ''open'', ''popen'', ''os'', ''system'', ''eval'',
       ''exec''], ManyLazy Anything, Txt ''%}''],
     Seqs [Txt ''${'', ManyLazy Anything, Words [''class'', ''forName'', ''getRuntime'', ''exec'',
       ''invoke'', ''newInstance'', ''getMethod'', ''access'', ''process''], ManyLazy Anything, Txt ''}''],
     Seqs [Txt ''#{'', ManyLazy Anything, Words [''exec'', ''system'', ''eval'', ''import'', ''os'',
       ''subprocess'', ''open'', ''read''], ManyLazy Anything, Txt ''}''],
     Seqs [Txt ''<%'', Opt (Txt ''=''), ManyLazy Anything, Words [''exec'', ''system'', ''eval'',
       ''Runtime'', ''Process'', ''cmd''], ManyLazy Anything, Txt ''%>''],
     Seqs [Txt ''${{'', ManyLazy Anything, Words [''exec'', ''system'', ''eval'', ''import'', ''os'',
       ''subprocess''], ManyLazy Anything, Txt ''}}'']]"

definition el_patterns :: "rx list" where
  "el_patterns = [
     Seqs [Txt ''${'', ManyLazy Anything, Words [''T('', ''jndi'', ''ldap'', ''rmi'', ''iiop'', ''corba''],
       ManyLazy Anything, Txt ''}''],
     Seqs [Txt ''${'', ManyLazy Anything, Words [''Runtime'', ''ProcessBuilder'', ''getRuntime'', ''exec'',
       ''forName'', ''getMethod'', ''invoke'', ''newInstance''], ManyLazy Anything, Txt ''}''],
     Seqs [Txt ''${'', ManyLazy Anything, Words [''application'', ''session'', ''request'', ''pageContext'',
       ''facesContext''], ManyLazy Anything, Txt ''}''],
     Seqs [Txt ''%{'', ManyLazy Anything, Words [''exec'', ''system'', ''eval'', ''java.lang'', ''Runtime''],
       ManyLazy Anything, Txt ''}''],
     Seqs [Txt ''${'', ManyLazy Anything, Words [''@org.apache'', ''@java.lang'', ''@javax.script''],
       ManyLazy Anything, Txt ''}''],
     Seqs [Txt ''#{'', ManyLazy Anything, Words [''exec'', ''system'', ''eval'', ''java.lang'', ''Runtime''],
       ManyLazy Anything, Txt ''}'']]"

definition deser_patterns :: "rx list" where
  "deser_patterns = [
     Words [''rO0'', ''aced0005'', ''H4sI'', ''BAMARQ''],
     Seqs [Bound, Words [''ObjectInputStream'', ''readObject'', ''unserialize'', ''unserialize'',
       ''deserialize'', ''deserialize'', ''pickle'', ''loads''], Bound],
     Words [''ysoserial'', ''gadget'', ''commons-collections'', ''commons-collections4'', ''C3P0'',
       ''javassist'', ''jython'', ''rome'', ''spring'', ''hibernate''],
     Alts [Seqs [Cls False [(0xAC, 0xAC)], Cls False [(0xED, 0xED)], Chars [CHR 0x00], Chars [CHR 0x05]],
       Txt ''#002'', Txt ''#003''],
     Seqs [Txt ''O:'', Some1 (Cls False [(0x30, 0x39)]), Txt '':'', Chars [CHR 0x22],
       Some1 (NotChars [CHR 0x22]), Chars [CHR 0x22], Txt '':'', Some1 (Cls False [(0x30, 0x39)]), Txt '':{''],
     Seqs [Txt ''a:'', Some1 (Cls False [(0x30, 0x39)]), Txt '':{i:'', Some1 (Cls False [(0x30, 0x39)]),
       Txt '';s:'', Some1 (Cls False [(0x30, 0x39)]), Txt '':'', Chars [CHR 0x22]],
     Alts [Txt ''%00*'', Seqs [Txt ''%00'', Times 2 HexDigit], Seqs [Chars [CHR 0x5C], Chars [CHR 0x5C],
       Txt ''x00'']],
     Words [''Dcs.run'', ''System.Runtime'', ''Microsoft.CodeAnalysis'']]"

definition log4j_patterns :: "rx list" where
  "log4j_patterns = [
     Seqs [Txt ''${jndi:ldap://'', ManyLazy Anything, Txt ''}''],
     Seqs [Txt ''${jndi:rmi://'', ManyLazy Anything, Txt ''}''],
     Seqs [Txt ''${jndi:dns://'', ManyLazy Anything, Txt ''}''],
     Seqs [Txt ''${jndi:iiop://'', ManyLazy Anything, Txt ''}''],
     Seqs [Txt ''${jndi:corba://'', ManyLazy Anything, Txt ''}''],
     Seqs [Txt ''${jndi:nis://'', ManyLazy Anything, Txt ''}''],
     Seqs [Txt ''${jndi:nds://'', ManyLazy Anything, Txt ''}''],
     Seqs [Txt ''${jndi:'', ManyLazy Anything, Txt ''}''],
     Seqs [Txt ''${'', Words [''lower'', ''upper'', ''env'', ''sys'', ''log4j'', ''ctx'', ''date'',
       ''bundle''], Txt '':'', ManyLazy Anything, Txt ''}'']]"

definition file_inclusion :: "rx list" where
  "file_inclusion = [
     Seqs [Txt ''file://'', ManyLazy Anything, Txt ''}''],
     Seqs [Txt ''php://'', Words [''input'', ''filter'', ''memory'', ''temp'', ''expect''], Txt ''}''],
     Alts [Txt ''../../'', Seqs [Txt ''..'', Chars [CHR 0x5C], Txt ''..'', Chars [CHR 0x5C]]],
     Words [''/etc/passwd'', ''/etc/shadow'', ''/etc/hosts'', ''/etc/hostname'', ''/proc/self'',
       ''/proc/environ''],
     Words [''/windows/win.ini'', ''/boot.ini'', ''/autoexec.bat'', ''/windows/system32''],
     Words [''include('', ''include_once('', ''require('', ''require_once('', ''fopen('',
       ''file_get_contents('', ''readfile('', ''file('', ''parse_ini_file('', ''show_source('',
       ''highlight_file()''],
     Alts [Txt ''data://'', Txt ''expect://'', Txt ''zip://'', Seqs [Txt ''compress'', Any, Txt ''zlib://''],
       Seqs [Txt ''compress'', Any, Txt ''bzip2://''], Txt ''phar://'']]"

section \<open>Inspection\<close>

definition rce_extract_targets :: "reqctx \<Rightarrow> target list" where
  "rce_extract_targets c = all_targets c"

definition rce_inspect_value :: "string \<Rightarrow> string \<Rightarrow> decision option" where
  "rce_inspect_value v src =
     (if v = [] then None
      else first_of [
        match_group shell_patterns (mk_decision ActionBlock ''RCE001'' ''OS Command Injection'' ''critical'' 95
          (Fmt ''shell metacharacter injection in %s'' [AStr src])) v,
        match_group ssti_patterns (mk_decision ActionBlock ''RCE002'' ''SSTI Detected'' ''critical'' 90
          (Fmt ''SSTI pattern in %s'' [AStr src])) v,
        match_group el_patterns (mk_decision ActionBlock ''RCE003'' ''EL Injection'' ''critical'' 90
          (Fmt ''EL injection pattern in %s'' [AStr src])) v,
        match_group deser_patterns (mk_decision ActionBlock ''RCE004'' ''Deserialization Attack'' ''critical'' 95
          (Fmt ''deserialization gadget chain in %s'' [AStr src])) v,
        match_group log4j_patterns (mk_decision ActionBlock ''RCE005'' ''Log4Shell/JNDI Injection'' ''critical'' 100
          (Fmt ''Log4Shell JNDI injection in %s'' [AStr src])) v,
        match_group file_inclusion (mk_decision ActionBlock ''RCE006'' ''File Inclusion'' ''critical'' 85
          (Fmt ''file inclusion detected in %s'' [AStr src])) v])"

definition rce_check :: "reqctx \<Rightarrow> decision option" where
  "rce_check c = inspect_targets rce_inspect_value (rce_extract_targets c)"

definition rce_inspect :: "unit inspector" where
  "rce_inspect = stateless rce_check"

section \<open>What is blocked\<close>

lemma rce_value_Some: "rce_inspect_value v src = Some d \<Longrightarrow> d_action d = ActionBlock \<and> score_ok d"
  by (auto simp: rce_inspect_value_def first_of_Cons score_ok_def split: if_splits option.splits)

interpretation rce: inspector rce_inspect
  unfolding rce_inspect_def
  by (rule inspector_stateless) (auto simp: rce_check_def dest!: inspect_targets_SomeD rce_value_Some)

lemma rce_value_hit:
  assumes "r \<in> set (shell_patterns @ ssti_patterns @ el_patterns @ deser_patterns @ log4j_patterns @ file_inclusion)"
    and "match_string True r v" and "v \<noteq> []"
  shows "rce_inspect_value v src \<noteq> None"
  using assms by (auto simp: rce_inspect_value_def first_of_None_iff any_match_iff)

lemma rce_blocks_target:
  assumes "(v, src) \<in> set (all_targets c)" "rce_inspect_value v src \<noteq> None"
  shows "\<exists>d. rce_check c = Some d \<and> d_action d = ActionBlock"
  unfolding rce_check_def rce_extract_targets_def
  by (rule inspect_targets_found [where v = v and src = src]) (use assms rce_value_Some in blast)+

text \<open>The third deserialisation pattern has the word \<^verbatim>\<open>rome\<close>, and letters of either case match.\<close>

lemma gadget_pattern:
  "deser_patterns ! 2 = Words [''ysoserial'', ''gadget'', ''commons-collections'', ''commons-collections4'', ''C3P0'',
       ''javassist'', ''jython'', ''rome'', ''spring'', ''hibernate'']"
  "deser_patterns ! 2 \<in> set deser_patterns"
  by (simp add: deser_patterns_def, rule nth_mem, simp add: deser_patterns_def)

lemma chrome_matches:
  assumes "ascii (a @ ''Chrome'' @ b)"
  shows "rce_inspect_value (a @ ''Chrome'' @ b) src \<noteq> None"
proof (rule rce_value_hit)
  show "deser_patterns ! 2 \<in> set (shell_patterns @ ssti_patterns @ el_patterns @ deser_patterns @ log4j_patterns @ file_inclusion)"
    unfolding set_append using gadget_pattern(2) by blast
  have "match_string True (Txt ''rome'') ((a @ ''Ch'') @ ''rome'' @ b)" using assms by (intro match_literal) simp
  then have "match_string True (Txt ''rome'') (a @ ''Chrome'' @ b)" by simp
  then show "match_string True (deser_patterns ! 2) (a @ ''Chrome'' @ b)"
    unfolding gadget_pattern(1) by (rule match_WordsI) simp
qed simp

text \<open>Every request of a Chrome browser, and of every other browser whose user agent names
  Chrome, is blocked as a deserialisation attack or earlier: the gadget list has the word \<^verbatim>\<open>rome\<close>,
  without a word boundary, and is searched for in all headers.\<close>

lemma chrome_requests_blocked:
  assumes "(''User-Agent'', a @ ''Chrome'' @ b) \<in> set (c_headers c)" and "ascii (a @ ''Chrome'' @ b)"
  shows "\<exists>d. rce_check c = Some d \<and> d_action d = ActionBlock"
  by (rule rce_blocks_target [OF header_in_all_targets [OF assms(1)] chrome_matches [OF assms(2)]])

text \<open>A tag or a comparison is a shell redirection: \<open><\<close> before a letter, digit, slash or underscore.\<close>

definition redirect_class :: "(nat \<times> nat) list" where
  "redirect_class = [(0x30, 0x39), (0x41, 0x5A), (0x5F, 0x5F), (0x61, 0x7A), (0x2F, 0x2F), (0x5C, 0x5C)]"

definition redirect_pattern :: rx where
  "redirect_pattern = Seqs [Txt ''<'', Many (Seqs [Some1 (Cls False redirect_class), Space]), Some1 (Cls False redirect_class)]"

lemma redirect_in_patterns: "redirect_pattern \<in> set shell_patterns"
  by (simp add: redirect_pattern_def redirect_class_def shell_patterns_def)

lemma redirect_matches:
  assumes "ascii (a @ CHR ''<'' # x # b)" "in_cls True False redirect_class (of_char x)"
  shows "match_string True redirect_pattern (a @ CHR ''<'' # x # b)"
proof -
  let ?bef = "rev (map of_char a)" and ?aft = "map of_char b"
  have "rx_rel True (Txt ''<'') (?bef, of_char CHR ''<'' # of_char x # ?aft) (of_char CHR ''<'' # ?bef, of_char x # ?aft)"
    using rx_rel_Txt_here [of True "''<''" ?bef "of_char x # ?aft"] by simp
  moreover have "rx_rel True (Some1 (Cls False redirect_class)) (of_char CHR ''<'' # ?bef, of_char x # ?aft)
      (of_char x # of_char CHR ''<'' # ?bef, ?aft)"
    using assms(2) by (auto simp: Some1_def)
  ultimately have "rx_rel True redirect_pattern (?bef, of_char CHR ''<'' # of_char x # ?aft)
      (of_char x # of_char CHR ''<'' # ?bef, ?aft)"
    unfolding redirect_pattern_def by (auto simp: relcompp_apply)
  moreover have "to_runes (a @ CHR ''<'' # x # b) = map of_char a @ of_char CHR ''<'' # of_char x # ?aft"
    using assms(1) by (simp add: ascii_def to_runes_ascii)
  ultimately show ?thesis unfolding match_string_def rx_search_iff by blast
qed

lemma markup_body_blocked:
  assumes "c_body c = Some (a @ CHR ''<'' # x # b)" "ascii (a @ CHR ''<'' # x # b)"
    and "in_cls True False redirect_class (of_char x)"
  shows "\<exists>d. rce_check c = Some d \<and> d_action d = ActionBlock"
proof (rule rce_blocks_target [OF body_in_all_targets [OF assms(1)]])
  show "rce_inspect_value (a @ CHR ''<'' # x # b) ''body'' \<noteq> None"
    by (rule rce_value_hit [OF _ redirect_matches [OF assms(2,3)]]) (use redirect_in_patterns in auto)
qed

section \<open>Unreachable answers\<close>

lemma jndi_is_el:
  assumes "rx_rel True (Seqs [Txt (''${'' @ ''jndi'' @ rest), ManyLazy Anything, Txt ''}'']) p q"
  shows "rx_rel True (el_patterns ! 0) p q"
proof -
  from assms obtain u v where u: "rx_rel True (Txt (''${'' @ ''jndi'' @ rest)) p u" "moves u v" "rx_rel True (Txt ''}'') v q"
    unfolding Seqs.simps rx_rel.simps relcompp_apply rx_rel_Anything_star [unfolded rx_rel.simps] by blast
  then obtain s t where "rx_rel True (Txt ''${'') p s" "rx_rel True (Txt ''jndi'') s t" "moves t u"
    unfolding rx_rel_Txt_append by (blast dest: rx_rel_TxtD)
  moreover have "rx_rel True (Words [''T('', ''jndi'', ''ldap'', ''rmi'', ''iiop'', ''corba'']) s t"
    using calculation(2) unfolding rx_rel_Words rx_rel_Txt by (intro bexI [of _ "''jndi''"]) simp_all
  moreover have "moves t v" using \<open>moves t u\<close> u(2) by (rule moves_trans)
  ultimately show ?thesis using u(3) moves_refl [of s]
    unfolding el_patterns_def nth_Cons_0 Seqs.simps rx_rel.simps relcompp_apply rx_rel_Anything_star [unfolded rx_rel.simps]
    by blast
qed

definition jndi_pattern :: "string \<Rightarrow> rx" where
  "jndi_pattern rest = Seqs [Txt (''${'' @ ''jndi'' @ rest), ManyLazy Anything, Txt ''}'']"

lemma jndi_patterns:
  "take 8 log4j_patterns = map jndi_pattern ['':ldap://'', '':rmi://'', '':dns://'', '':iiop://'', '':corba://'',
     '':nis://'', '':nds://'', '':'']"
  by (simp add: log4j_patterns_def jndi_pattern_def)

text \<open>A JNDI lookup is never reported as Log4Shell: whatever matches one of the eight
  patterns for \<^verbatim>\<open>${jndi:\<close> also matches a pattern for expression languages, which is tried before, so the
  answer names another rule and has a score of at most 95 instead of 100.\<close>

lemma jndi_never_reported:
  assumes "r \<in> set (take 8 log4j_patterns)" and "match_string True r v" and "v \<noteq> []"
  shows "\<exists>d. rce_inspect_value v src = Some d \<and> d_rule_id d \<in> {''RCE001'', ''RCE002'', ''RCE003''} \<and> d_score d \<le> 95"
proof -
  obtain rest where r: "r = jndi_pattern rest" using assms(1) unfolding jndi_patterns by auto
  have "rx_search True (el_patterns ! 0) (to_runes v)"
    by (rule rx_search_mono [OF assms(2) [unfolded match_string_def]])
      (use jndi_is_el moves_refl r jndi_pattern_def in metis)
  then have "match_string True (el_patterns ! 0) v" by (simp add: match_string_def)
  then have "any_match el_patterns v" by (auto simp: any_match_iff el_patterns_def)
  then show ?thesis using assms(3) by (auto simp: rce_inspect_value_def first_of_Cons split: option.splits)
qed

section \<open>Witnesses\<close>

definition chrome_request :: reqctx where
  "chrome_request = \<lparr>c_request = \<lparr>rq_header = [], rq_content_length = 0, rq_proto = ''HTTP/1.1'', rq_tls = None\<rparr>,
     c_status = None, c_real_ip = ''1.2.3.4'', c_user_agent = [], c_path = ''/'', c_method = ''GET'',
     c_headers = [(''User-Agent'', ''Mozilla/5.0 Chrome/120.0'')],
     c_cookies = [], c_query = [], c_form = [], c_body = None, c_content_type = [], c_session_id = [],
     c_user_id = [], c_bot_score = 0, c_threat = 0, c_decisions = [], c_is_bot = False,
     c_known_attack = False, c_host = [], c_tls_version = [], c_ja3 = []\<rparr>"

lemma chrome_requests_blocked_witness:
  "\<exists>d. rce_check chrome_request = Some d \<and> d_action d = ActionBlock"
  by (rule chrome_requests_blocked [where a = "''Mozilla/5.0 ''" and b = "''/120.0''"])
    (simp_all add: chrome_request_def ascii_def)

end
