(* ===== verification/Xss.thy ===== *)
theory Xss
  imports Targets
begin

text \<open>
  The detector for cross-site scripting, \<^verbatim>\<open>internal/engine/xss.go\<close>. The patterns are transcribed one to one;
  those for tags carry their source, which the evidence quotes.
\<close>

section \<open>Patterns\<close>

definition html_tags :: "(string \<times> rx) list" where
  "html_tags = [
     (''(?i)(?:<script[^>]*>[^<]*</script>)'', Seqs [Txt ''<script'', Many (NotChars ''>''), Txt ''>'',
       Many (NotChars ''<''), Txt ''</script>'']),
     (''(?i)(?:<iframe[^>]*>)'', Seqs [Txt ''<iframe'', Many (NotChars ''>''), Txt ''>'']),
     (''(?i)(?:<object[^>]*>)'', Seqs [Txt ''<object'', Many (NotChars ''>''), Txt ''>'']),
     (''(?i)(?:<embed[^>]*>)'', Seqs [Txt ''<embed'', Many (NotChars ''>''), Txt ''>'']),
     (''(?i)(?:<applet[^>]*>)'', Seqs [Txt ''<applet'', Many (NotChars ''>''), Txt ''>'']),
     (''(?i)(?:<meta[^>]*http-equiv[^>]*>)'', Seqs [Txt ''<meta'', Many (NotChars ''>''), Txt ''http-equiv'',
       Many (NotChars ''>''), Txt ''>'']),
     (''(?i)(?:<link[^>]*href[^>]*>)'', Seqs [Txt ''<link'', Many (NotChars ''>''), Txt ''href'',
       Many (NotChars ''>''), Txt ''>'']),
     (''(?i)(?:<base[^>]*href[^>]*>)'', Seqs [Txt ''<base'', Many (NotChars ''>''), Txt ''href'',
       Many (NotChars ''>''), Txt ''>'']),
     (''(?i)(?:<form[^>]*action[^>]*>)'', Seqs [Txt ''<form'', Many (NotChars ''>''), Txt ''action'',
       Many (NotChars ''>''), Txt ''>'']),
     (''(?i)(?:<img[^>]*onerror[^>]*>)'', Seqs [Txt ''<img'', Many (NotChars ''>''), Txt ''onerror'',
       Many (NotChars ''>''), Txt ''>'']),
     (''(?i)(?:<body[^>]*onload[^>]*>)'', Seqs [Txt ''<body'', Many (NotChars ''>''), Txt ''onload'',
       Many (NotChars ''>''), Txt ''>'']),
     (''(?i)(?:<svg[^>]*/svg>)'', Seqs [Txt ''<svg'', Many (NotChars ''>''), Txt ''/svg>'']),
     (''(?i)(?:<math[^>]*>)'', Seqs [Txt ''<math'', Many (NotChars ''>''), Txt ''>''])]"

definition event_handlers :: "rx list" where
  "event_handlers = [
     Words [''onabort'', ''onautocomplete'', ''onautocompleteerror'', ''onblur'', ''oncancel'',
       ''oncanplay'', ''oncanplaythrough'', ''onchange'', ''onclick'', ''onclose'', ''oncontextmenu'',
       ''oncuechange'', ''ondblclick'', ''ondrag'', ''ondragend'', ''ondragenter'', ''ondragleave'',
       ''ondragover'', ''ondragstart'', ''ondrop'', ''ondurationchange'', ''onemptied'', ''onended'',
       ''onerror'', ''onfocus'', ''onfocusin'', ''onfocusout'', ''ongotpointercapture'', ''oninput'',
       ''oninvalid'', ''onkeydown'', ''onkeypress'', ''onkeyup'', ''onload'', ''onloadeddata'',
       ''onloadedmetadata'', ''onloadstart'', ''onlostpointercapture'', ''onmousedown'', ''onmousemove'',
       ''onmouseout'', ''onmouseover'', ''onmouseup'', ''onmousewheel'', ''onpause'', ''onplay'',
       ''onplaying'', ''onpointercancel'', ''onpointerdown'', ''onpointerenter'', ''onpointerleave'',
       ''onpointermove'', ''onpointerout'', ''onpointerover'', ''onpointerup'', ''onprogress'',
       ''onratechange'', ''onreset'', ''onresize'', ''onscroll'', ''onseeked'', ''onseeking'', ''onselect'',
       ''onselectionchange'', ''onselectstart'', ''onshow'', ''onstalled'', ''onsubmit'', ''onsuspend'',
       ''ontimeupdate'', ''ontoggle'', ''onvolumechange'', ''onwaiting'', ''onwheel''],
     Words [''onmouseenter'', ''onmouseleave'', ''onpointerrawupdate'', ''onbeforeinput'',
       ''onbeforetoggle'', ''oncontentvisibilityautostatechange''],
     Words [''onpageshow'', ''onpagehide'', ''onpopstate'', ''onhashchange'', ''onbeforeunload'',
       ''onunload'']]"

definition js_protocols :: "rx list" where
  "js_protocols = [
     Seqs [Txt ''javascript'', Many Space, Txt '':''],
     Seqs [Txt ''vbscript'', Many Space, Txt '':''],
     Seqs [Txt ''data'', Many Space, Txt '':'', Many Space, Words [''text/html'', ''application/xhtml'']],
     Seqs [Txt ''livescript'', Many Space, Txt '':''],
     Seqs [Txt ''mocha'', Many Space, Txt '':'']]"

definition polyglot_patterns :: "rx list" where
  "polyglot_patterns = [
     Seqs [Txt ''jaVasCript:'', ManyLazy Anything, Chars [CHR ''<'', CHR 0x22, CHR 0x27]],
     Seqs [Chars [CHR 0x5C], Txt ''x22'', Many Any, Txt ''onerror'', Chars [CHR 0x5C], Txt ''x3d''],
     Seqs [Chars [CHR 0x5C], Txt ''x3Cscript'', Chars [CHR 0x5C], Txt ''x3E''],
     Seqs [Txt ''<'', Many (NotChars ''>''), Txt ''>'', ManyLazy Anything, Txt ''<'']]"

definition svg_patterns :: "rx list" where
  "svg_patterns = [
     Seqs [Txt ''<svg'', Many (NotChars ''>''), Txt ''>'', ManyLazy Anything, Txt ''<script''],
     Seqs [Txt ''<svg'', Many (NotChars ''>''), Txt ''onload''],
     Seqs [Txt ''<svg'', Many (NotChars ''>''), Txt ''>'', ManyLazy Anything, Txt ''<animate''],
     Seqs [Txt ''<svg'', Many (NotChars ''>''), Txt ''>'', ManyLazy Anything, Txt ''<set''],
     Seqs [Txt ''<svg'', Many (NotChars ''>''), Txt ''>'', ManyLazy Anything, Txt ''<use''],
     Seqs [Txt ''<svg'', Many (NotChars ''>''), Txt ''>'', ManyLazy Anything, Txt ''<desc>'']]"

definition css_injection :: "rx list" where
  "css_injection = [
     Seqs [Txt ''expression'', Many Space, Txt ''(''],
     Txt ''-moz-binding'',
     Seqs [Txt ''behavior'', Many Space, Txt '':''],
     Seqs [Txt ''@import'', Some1 Space, Txt ''url''],
     Seqs [Txt ''url'', Many Space, Txt ''('', Many Space, Opt (Chars [CHR 0x27, CHR 0x22]), Many Space,
       Txt ''javascript:''],
     Seqs [Txt ''position'', Many Space, Txt '':'', Many Space, Txt ''fixed'']]"

definition encoded_xss :: rx where
  "encoded_xss =
     Seqs [Alts [Seqs [Chars [CHR 0x5C], Txt ''x'', Times 2 HexDigit], Seqs [Chars [CHR 0x5C], Txt ''u'',
       Times 4 HexDigit], Seqs [Txt ''%'', Times 2 HexDigit], Seqs [Txt ''&#'', Opt (Txt ''x''),
       Some1 HexDigit, Txt '';'']], Many Any, Words [''script'', ''alert'', ''prompt'', ''confirm'',
       ''onerror'', ''onload'']]"

section \<open>Inspection\<close>

definition xss_header :: "string \<times> string \<Rightarrow> bool" where
  "xss_header kv = (to_lower (fst kv) \<in> {''referer'', ''origin'', ''x-forwarded-for''})"

definition xss_extract_targets :: "reqctx \<Rightarrow> target list" where
  "xss_extract_targets c =
     param_targets ''query:'' (c_query c) @ param_targets ''form:'' (c_form c) @ body_targets c
     @ header_targets ''header:'' (filter xss_header (c_headers c)) @ header_targets ''cookie:'' (c_cookies c)"

definition tag_group :: "string \<Rightarrow> string \<Rightarrow> decision option" where
  "tag_group v src =
     map_option (\<lambda>p. mk_decision ActionBlock ''XSS001'' ''HTML Tag Injection'' ''critical'' 90
         (Fmt ''HTML tag injection in %s: %s'' [AStr src, AStr (fst p)]))
       (find (\<lambda>p. match_string True (snd p) v) html_tags)"

definition xss_inspect_value :: "string \<Rightarrow> string \<Rightarrow> decision option" where
  "xss_inspect_value v src =
     (if v = [] then None
      else first_of [
        tag_group v src,
        match_group event_handlers (mk_decision ActionBlock ''XSS002'' ''Event Handler Injection'' ''critical'' 90
          (Fmt ''event handler injection in %s'' [AStr src])) v,
        match_group js_protocols (mk_decision ActionBlock ''XSS003'' ''JavaScript Protocol'' ''critical'' 85
          (Fmt ''javascript protocol detected in %s'' [AStr src])) v,
        match_group polyglot_patterns (mk_decision ActionBlock ''XSS004'' ''Polyglot XSS Payload'' ''critical'' 90
          (Fmt ''polyglot XSS payload in %s'' [AStr src])) v,
        match_group svg_patterns (mk_decision ActionBlock ''XSS005'' ''SVG Injection'' ''critical'' 85
          (Fmt ''SVG injection in %s'' [AStr src])) v,
        match_group css_injection (mk_decision ActionBlock ''XSS006'' ''CSS Injection'' ''high'' 75
          (Fmt ''CSS injection in %s'' [AStr src])) v,
        match_group [encoded_xss] (mk_decision ActionBlock ''XSS007'' ''Encoded XSS'' ''high'' 75
          (Fmt ''encoded XSS pattern in %s'' [AStr src])) v])"

definition xss_check :: "reqctx \<Rightarrow> decision option" where
  "xss_check c = inspect_targets xss_inspect_value (xss_extract_targets c)"

definition xss_inspect :: "unit inspector" where
  "xss_inspect = stateless xss_check"

definition custom_csp :: string where
  "custom_csp = ''default-src '' @ [CHR 0x27] @ ''self'' @ [CHR 0x27] @ ''; ''
     @ ''script-src '' @ [CHR 0x27] @ ''self'' @ [CHR 0x27] @ '' '' @ [CHR 0x27] @ ''strict-dynamic'' @ [CHR 0x27]
     @ '' '' @ [CHR 0x27] @ ''nonce-{nonce}'' @ [CHR 0x27] @ '' '' @ [CHR 0x27] @ ''unsafe-inline'' @ [CHR 0x27]
     @ '' http: https:; ''
     @ ''object-src '' @ [CHR 0x27] @ ''none'' @ [CHR 0x27] @ ''; ''
     @ ''base-uri '' @ [CHR 0x27] @ ''self'' @ [CHR 0x27] @ ''; ''
     @ ''require-trusted-types-for '' @ [CHR 0x27] @ ''script'' @ [CHR 0x27] @ '';''"

definition generate_csp :: "string \<Rightarrow> string" where
  "generate_csp nonce = replace_all custom_csp ''{nonce}'' nonce"

definition scan_response :: "string \<Rightarrow> decision option" where
  "scan_response body =
     (if body = [] then None
      else match_group (map snd html_tags) (mk_decision ActionBlock ''XSS008'' ''Reflected XSS'' ''critical'' 95
             (gotext.Lit ''reflected XSS detected in response body'')) body)"

section \<open>Answers\<close>

lemma tag_group_None_iff: "tag_group v src = None \<longleftrightarrow> \<not> any_match (map snd html_tags) v"
  by (auto simp: tag_group_def find_None_iff any_match_iff)

lemma xss_value_Some: "xss_inspect_value v src = Some d \<Longrightarrow> d_action d = ActionBlock \<and> score_ok d"
  by (auto simp: xss_inspect_value_def tag_group_def first_of_Cons score_ok_def split: if_splits option.splits)

interpretation xss: inspector xss_inspect
  unfolding xss_inspect_def
  by (rule inspector_stateless) (auto simp: xss_check_def dest!: inspect_targets_SomeD xss_value_Some)

lemma scan_response_iff:
  "scan_response body \<noteq> None \<longleftrightarrow> body \<noteq> [] \<and> tag_group body src \<noteq> None"
  by (simp add: scan_response_def tag_group_None_iff)

section \<open>The rule for SVG\<close>

definition not_gt :: rx where
  "not_gt = NotChars ''>''"

lemma anycase_not_gt:
  assumes "anycase ic c r" "c \<noteq> CHR ''>''"
  shows "in_cls ic True [(62, 62)] r"
proof (rule ccontr)
  assume "\<not> in_cls ic True [(62, 62)] r"
  then have "62 \<in> set (orbit ic r)" by (auto simp: in_cls_def in_ranges_def list_ex_iff)
  then have "r = 62" by (auto simp: orbit_def split: if_splits)
  then have "(of_char c :: nat) = of_char CHR ''>''" using assms(1)
    by (auto simp: anycase_def in_cls_def in_ranges_def orbit_def split: if_splits)
  then have "c = CHR ''>''" by (rule of_char_eqI)
  with assms(2) show False by contradiction
qed

lemma spells_not_gt:
  "spells ic s w \<Longrightarrow> CHR ''>'' \<notin> set s \<Longrightarrow> (rx_rel ic not_gt)\<^sup>*\<^sup>* (bef, w @ aft) (rev w @ bef, aft)"
proof (induction s arbitrary: w bef)
  case (Cons c s)
  then obtain r u where w: "w = r # u" "anycase ic c r" "spells ic s u" by (auto simp: spells_def list_all2_Cons1)
  then have "rx_rel ic not_gt (bef, w @ aft) (r # bef, u @ aft)"
    using anycase_not_gt [OF w(2)] Cons.prems(2) by (auto simp: not_gt_def NotChars_def)
  moreover have "(rx_rel ic not_gt)\<^sup>*\<^sup>* (r # bef, u @ aft) (rev u @ r # bef, aft)"
    by (rule Cons.IH [OF w(3)]) (use Cons.prems in simp)
  ultimately show ?case by (simp add: w(1) converse_rtranclp_into_rtranclp)
qed (simp add: spells_def)

lemma rx_rel_Txt_not_gt:
  assumes "rx_rel ic (Txt s) p q" "CHR ''>'' \<notin> set s"
  shows "(rx_rel ic not_gt)\<^sup>*\<^sup>* p q"
proof -
  obtain w where w: "spells ic s w" "snd p = w @ snd q" "fst q = rev w @ fst p" using assms(1) by (auto simp: rx_rel_Txt)
  then have "(fst p, w @ snd q) = p" "(rev w @ fst p, snd q) = q" by (cases p, simp, cases q, simp)
  then show ?thesis using spells_not_gt [OF w(1) assms(2), of "fst p" "snd q"] by simp
qed

definition tag_then :: "string \<Rightarrow> rx" where
  "tag_then s = Seqs [Txt (''<'' @ ''svg''), Many not_gt, Txt ''>'', ManyLazy Anything, Txt (''<'' @ s)]"

definition any_tag :: rx where
  "any_tag = Seqs [Txt ''<'', Many not_gt, Txt ''>'', ManyLazy Anything, Txt ''<'']"

lemma tag_then_any:
  assumes "rx_rel True (tag_then s) p q"
  shows "\<exists>q'. rx_rel True any_tag p q'"
proof -
  from assms obtain a b c d where
    "rx_rel True (Txt (''<'' @ ''svg'')) p a" "(rx_rel True not_gt)\<^sup>*\<^sup>* a b" "rx_rel True (Txt ''>'') b c"
    "rx_rel True (ManyLazy Anything) c d" "rx_rel True (Txt (''<'' @ s)) d q"
    unfolding tag_then_def Seqs.simps rx_rel.simps relcompp_apply by blast
  moreover from this obtain e f where "rx_rel True (Txt ''<'') p e" "rx_rel True (Txt ''svg'') e a" "rx_rel True (Txt ''<'') d f"
    unfolding rx_rel_Txt_append by blast
  moreover from this have "(rx_rel True not_gt)\<^sup>*\<^sup>* e a" by (intro rx_rel_Txt_not_gt [of True "''svg''"]) simp_all
  ultimately have "(rx_rel True not_gt)\<^sup>*\<^sup>* e b" by (meson rtranclp_trans)
  then have "rx_rel True (Many not_gt) e b" by simp
  then show ?thesis
    unfolding any_tag_def Seqs.simps rx_rel.simps(3) relcompp_apply
    using \<open>rx_rel True (Txt ''<'') p e\<close> \<open>rx_rel True (Txt ''>'') b c\<close> \<open>rx_rel True (ManyLazy Anything) c d\<close>
      \<open>rx_rel True (Txt ''<'') d f\<close> by blast
qed

lemma svg_pattern_cases:
  assumes "r \<in> set svg_patterns"
  shows "(\<exists>s. r = tag_then s) \<or> r = Seqs [Txt ''<svg'', Many not_gt, Txt ''onload'']"
proof -
  have eq: "svg_patterns = [tag_then ''script'', Seqs [Txt ''<svg'', Many not_gt, Txt ''onload''], tag_then ''animate'',
      tag_then ''set'', tag_then ''use'', tag_then ''desc>'']"
    by (simp add: svg_patterns_def tag_then_def not_gt_def)
  show ?thesis using assms unfolding eq list.set by blast
qed

lemma onload_matches:
  assumes "rx_search True (Seqs [Txt ''<svg'', Many not_gt, Txt ''onload'']) t"
  shows "rx_search True (Txt ''onload'') t"
proof (rule rx_search_mono [OF assms])
  fix p q assume "rx_rel True (Seqs [Txt ''<svg'', Many not_gt, Txt ''onload'']) p q"
  then obtain u where u: "rx_rel True (Seq (Txt ''<svg'') (Many not_gt)) p u" "rx_rel True (Txt ''onload'') u q"
    unfolding Seqs.simps rx_rel.simps(3) relcompp_apply by blast
  then show "\<exists>p' q'. moves p p' \<and> rx_rel True (Txt ''onload'') p' q'" using rx_rel_moves [OF u(1)] by blast
qed

text \<open>The rule for SVG injection never answers: whatever matches one of its patterns also
  matches the pattern for any two tags or the handler \<^verbatim>\<open>onload\<close>, which are tried before.\<close>

lemma svg_rule_unreachable:
  "xss_inspect_value v src = Some d \<Longrightarrow> d_rule_id d \<noteq> ''XSS005''"
proof
  assume d: "xss_inspect_value v src = Some d" "d_rule_id d = ''XSS005''"
  then have no: "\<not> any_match event_handlers v" "\<not> any_match polyglot_patterns v" and yes: "any_match svg_patterns v"
    by (auto simp: xss_inspect_value_def tag_group_def first_of_Cons split: if_splits option.splits)
  obtain r where r: "r \<in> set svg_patterns" "rx_search True r (to_runes v)"
    using yes by (auto simp: any_match_iff match_string_def)
  from svg_pattern_cases [OF r(1)] show False
  proof
    assume "\<exists>s. r = tag_then s"
    then have "rx_search True any_tag (to_runes v)"
      using rx_search_mono [OF r(2), of any_tag] tag_then_any moves_refl by metis
    moreover have "any_tag = polyglot_patterns ! 3" "polyglot_patterns ! 3 \<in> set polyglot_patterns"
      by (simp add: polyglot_patterns_def any_tag_def not_gt_def, rule nth_mem, simp add: polyglot_patterns_def)
    ultimately show False using no(2) by (auto simp: any_match_iff match_string_def)
  next
    assume "r = Seqs [Txt ''<svg'', Many not_gt, Txt ''onload'']"
    then have "match_string True (Txt ''onload'') v" using r(2) onload_matches by (simp add: match_string_def)
    then have "match_string True (event_handlers ! 0) v"
      unfolding event_handlers_def nth_Cons_0 by (rule match_WordsI) simp
    moreover have "event_handlers ! 0 \<in> set event_handlers" by (rule nth_mem) (simp add: event_handlers_def)
    ultimately show False using no(1) by (auto simp: any_match_iff)
  qed
qed

end
