(* ===== verification/Json.thy ===== *)
theory Json
  imports Regex WafTypes
begin

text \<open>
  Reading JSON as Go's \<^verbatim>\<open>encoding/json\<close> does: the grammar with its limit on the depth of nesting, the
  decoding of strings (escapes, surrogate pairs, invalid UTF-8 as U+FFFD), and \<^verbatim>\<open>Unmarshal\<close> into the
  shapes that the program uses. A number is kept as its text; as a \<^verbatim>\<open>float64\<close> it has to be in range.
\<close>

datatype json =
    JNull
  | JBool bool
  | JNum string
  | JStr string
  | JArr "json list"
  | JObj "(string \<times> json) list"

section \<open>White space, strings and numbers\<close>

definition json_space :: "char \<Rightarrow> bool" where
  "json_space c = (c = CHR '' '' \<or> c = CHR 0x09 \<or> c = CHR 0x0A \<or> c = CHR 0x0D)"

definition skip_ws :: "string \<Rightarrow> string" where
  "skip_ws s = dropWhile json_space s"

definition json_hex_value :: "char \<Rightarrow> nat option" where
  "json_hex_value c =
     (if is_digit c then Some (of_char c - 48)
      else if CHR ''a'' \<le> c \<and> c \<le> CHR ''f'' then Some (of_char c - 87)
      else if CHR ''A'' \<le> c \<and> c \<le> CHR ''F'' then Some (of_char c - 55) else None)"

fun hex4 :: "string \<Rightarrow> (nat \<times> string) option" where
  "hex4 (a # b # c # d # s) =
     (case (json_hex_value a, json_hex_value b, json_hex_value c, json_hex_value d) of
        (Some w, Some x, Some y, Some z) \<Rightarrow> Some (((w * 16 + x) * 16 + y) * 16 + z, s)
      | _ \<Rightarrow> None)"
| "hex4 s = None"

definition simple_escape :: "char \<Rightarrow> nat option" where
  "simple_escape c =
     map_of [(CHR 0x22, 0x22), (CHR 0x5C, 0x5C), (CHR ''/'', 0x2F), (CHR ''b'', 0x08), (CHR ''f'', 0x0C),
       (CHR ''n'', 0x0A), (CHR ''r'', 0x0D), (CHR ''t'', 0x09)] c"

text \<open>The rune of an escape \<^verbatim>\<open>\u\<close> with value \<open>r\<close>; a high surrogate takes a low one with it.\<close>

definition join_surrogates :: "nat \<Rightarrow> string \<Rightarrow> nat \<times> string" where
  "join_surrogates r s =
     (if r < 0xD800 \<or> 0xDFFF < r then (r, s)
      else
        case (if has_prefix s [CHR 0x5C, CHR ''u''] then hex4 (drop 2 s) else None) of
          Some (r2, t) \<Rightarrow>
            (if r < 0xDC00 \<and> 0xDC00 \<le> r2 \<and> r2 \<le> 0xDFFF
             then ((r - 0xD800) * 1024 + (r2 - 0xDC00) + 0x10000, t) else (0xFFFD, s))
        | None \<Rightarrow> (0xFFFD, s))"

lemma hex4_length: "hex4 s = Some (n, t) \<Longrightarrow> length t < length s"
  by (induction s rule: hex4.induct) (auto split: option.splits)

lemma join_surrogates_length: "join_surrogates r s = (q, t) \<Longrightarrow> length t \<le> length s"
  by (auto simp: join_surrogates_def split: if_splits option.splits dest!: hex4_length)

text \<open>The runes of a string after its opening quote, and what follows the closing one.\<close>

function json_chars :: "string \<Rightarrow> (nat list \<times> string) option" where
  "json_chars s =
     (case s of
        [] \<Rightarrow> None
      | c # cs \<Rightarrow>
          if c = CHR 0x22 then Some ([], cs)
          else if c < CHR '' '' then None
          else if c = CHR 0x5C then
            (case cs of
               [] \<Rightarrow> None
             | e # es \<Rightarrow>
                 if e = CHR ''u'' then
                   (case hex4 es of
                      None \<Rightarrow> None
                    | Some (r, t) \<Rightarrow>
                        (case join_surrogates r t of
                           (q, u) \<Rightarrow> if length u < length s then map_option (apfst ((#) q)) (json_chars u) else None))
                 else
                   (case simple_escape e of
                      None \<Rightarrow> None
                    | Some r \<Rightarrow> map_option (apfst ((#) r)) (json_chars es)))
          else
            (let bs = map of_char s
             in map_option (apfst ((#) (rune_head bs))) (json_chars (drop (rune_width bs) s))))"
  by pat_completeness auto
termination
  by (relation "measure length") (auto simp: Suc_le_eq)

declare json_chars.simps [simp del]

definition json_digits :: "string \<Rightarrow> (string \<times> string) option" where
  "json_digits s = (case takeWhile is_digit s of [] \<Rightarrow> None | d # ds \<Rightarrow> Some (d # ds, dropWhile is_digit s))"

definition json_int :: "string \<Rightarrow> (string \<times> string) option" where
  "json_int s = (case s of [] \<Rightarrow> None | c # cs \<Rightarrow> if c = CHR ''0'' then Some ([c], cs) else json_digits s)"

definition json_frac :: "string \<Rightarrow> (string \<times> string) option" where
  "json_frac s =
     (case s of
        [] \<Rightarrow> Some ([], s)
      | c # cs \<Rightarrow> if c = CHR ''.'' then map_option (apfst ((#) c)) (json_digits cs) else Some ([], s))"

definition json_exp :: "string \<Rightarrow> (string \<times> string) option" where
  "json_exp s =
     (case s of
        [] \<Rightarrow> Some ([], s)
      | c # cs \<Rightarrow>
          if c = CHR ''e'' \<or> c = CHR ''E'' then
            (case cs of
               [] \<Rightarrow> None
             | d # ds \<Rightarrow>
                 if d = CHR ''+'' \<or> d = CHR ''-'' then map_option (apfst (\<lambda>t. c # d # t)) (json_digits ds)
                 else map_option (apfst ((#) c)) (json_digits cs))
          else Some ([], s))"

definition json_number :: "string \<Rightarrow> (string \<times> string) option" where
  "json_number s =
     (let (sign, t) = (case s of [] \<Rightarrow> ([], s) | c # cs \<Rightarrow> if c = CHR ''-'' then ([c], cs) else ([], s)) in
      case json_int t of
        None \<Rightarrow> None
      | Some (i, u) \<Rightarrow>
          (case json_frac u of
             None \<Rightarrow> None
           | Some (f, v) \<Rightarrow> map_option (apfst (\<lambda>e. sign @ i @ f @ e)) (json_exp v)))"

section \<open>Values\<close>

definition max_json_depth :: int where
  "max_json_depth = 10000"

definition json_literal :: "string \<Rightarrow> (json \<times> string) option" where
  "json_literal s =
     (if has_prefix s ''true'' then Some (JBool True, drop 4 s)
      else if has_prefix s ''false'' then Some (JBool False, drop 5 s)
      else if has_prefix s ''null'' then Some (JNull, drop 4 s) else map_option (apfst JNum) (json_number s))"

lemma length_skip_ws: "length (skip_ws s) \<le> length s"
  by (simp add: skip_ws_def length_dropWhile_le)

lemma skip_ws_Cons_length: "skip_ws s = c # cs \<Longrightarrow> length cs < length s"
  using length_skip_ws [of s] by simp

text \<open>
  A string and what follows it, a value, the elements of an array, the members of an object. The guards on lengths always
  hold (\<open>json_value_shorter\<close>); they are there for the termination of the functions.
\<close>

definition json_string :: "string \<Rightarrow> (string \<times> string) option" where
  "json_string s = map_option (apfst runes_to_string) (json_chars s)"

function json_value :: "nat \<Rightarrow> string \<Rightarrow> (json \<times> string) option"
  and json_elems :: "nat \<Rightarrow> string \<Rightarrow> (json list \<times> string) option"
  and json_members :: "nat \<Rightarrow> string \<Rightarrow> ((string \<times> json) list \<times> string) option" where
  "json_value d s =
     (case skip_ws s of
        [] \<Rightarrow> None
      | c # cs \<Rightarrow>
          if c = CHR 0x22 then map_option (apfst JStr) (json_string cs)
          else if c = CHR ''['' then
            (if max_json_depth \<le> int d then None
             else if has_prefix (skip_ws cs) '']'' then Some (JArr [], tl (skip_ws cs))
             else map_option (apfst JArr) (json_elems (Suc d) cs))
          else if c = CHR ''{'' then
            (if max_json_depth \<le> int d then None
             else if has_prefix (skip_ws cs) ''}'' then Some (JObj [], tl (skip_ws cs))
             else map_option (apfst JObj) (json_members (Suc d) cs))
          else json_literal (c # cs))"
| "json_elems d s =
     (case json_value d s of
        None \<Rightarrow> None
      | Some (v, r) \<Rightarrow>
          (case skip_ws r of
             [] \<Rightarrow> None
           | c # cs \<Rightarrow>
               if c = CHR '']'' then Some ([v], cs)
               else if c = CHR '','' \<and> length cs < length s then map_option (apfst ((#) v)) (json_elems d cs)
               else None))"
| "json_members d s =
     (case skip_ws s of
        [] \<Rightarrow> None
      | q # qs \<Rightarrow>
          if q \<noteq> CHR 0x22 then None
          else
            (case json_string qs of
               None \<Rightarrow> None
             | Some (k, r) \<Rightarrow>
                 (case skip_ws r of
                    [] \<Rightarrow> None
                  | p # ps \<Rightarrow>
                      if p = CHR '':'' \<and> length ps < length s then
                        (case json_value d ps of
                           None \<Rightarrow> None
                         | Some (v, t) \<Rightarrow>
                             (case skip_ws t of
                                [] \<Rightarrow> None
                              | c # cs \<Rightarrow>
                                  if c = CHR ''}'' then Some ([(k, v)], cs)
                                  else if c = CHR '','' \<and> length cs < length s
                                  then map_option (apfst ((#) (k, v))) (json_members d cs)
                                  else None))
                      else None)))"
  by pat_completeness auto
termination
proof (relation "measure (\<lambda>x. case x of Inl (d, s) \<Rightarrow> 2 * length s
    | Inr (Inl (d, s)) \<Rightarrow> 2 * length s + 1 | Inr (Inr (d, s)) \<Rightarrow> 2 * length s + 1)", goal_cases)
qed (auto dest!: skip_ws_Cons_length)

declare json_value.simps [simp del] json_elems.simps [simp del] json_members.simps [simp del]

text \<open>The value of a text: the grammar has to use all of it.\<close>

definition json_parse :: "string \<Rightarrow> json option" where
  "json_parse s = (case json_value 0 s of None \<Rightarrow> None | Some (v, r) \<Rightarrow> if skip_ws r = [] then Some v else None)"

section \<open>The guards hold\<close>

lemma json_chars_shorter: "json_chars s = Some (r, t) \<Longrightarrow> length t < length s"
proof (induction s arbitrary: r t rule: json_chars.induct)
  case (1 s)
  show ?case
  proof (cases s)
    case Nil
    then show ?thesis using "1.prems" by (simp add: json_chars.simps)
  next
    case (Cons c cs)
    note p = "1.prems" [unfolded json_chars.simps [of s], unfolded Cons list.case]
    consider "c = CHR 0x22" | e es where "c = CHR 0x5C" "cs = e # es" "e = CHR ''u''"
      | e es where "c = CHR 0x5C" "cs = e # es" "e \<noteq> CHR ''u''"
      | "c \<noteq> CHR 0x22" "c \<noteq> CHR 0x5C" "\<not> c < CHR '' ''" | "c < CHR '' ''" "c \<noteq> CHR 0x22"
      | "c = CHR 0x5C" "cs = []" by (cases cs) auto
    then show ?thesis
    proof cases
      case 1
      then show ?thesis using p Cons by simp
    next
      case 2
      have nlt: "\<not> CHR 0x5C < CHR '' ''" by (simp add: less_char_def)
      from 2 p obtain x y where h: "hex4 es = Some (x, y)"
        by (auto simp: nlt split: option.splits)
      obtain q u where j: "join_surrogates x y = (q, u)" by fastforce
      have le: "length u < length s" using hex4_length [OF h] join_surrogates_length [OF j] 2 Cons by simp
      from p obtain r' where "json_chars u = Some (r', t)"
        by (auto simp: 2 nlt h j apfst_def map_prod_def split: if_splits prod.splits)
      then have "length t < length u" using "1.IH"(1) [OF Cons _ _ 2(1,2,3) h refl j [symmetric] le] 2 nlt by simp
      then show ?thesis using le by simp
    next
      case 3
      have nlt: "\<not> CHR 0x5C < CHR '' ''" by (simp add: less_char_def)
      from 3 p obtain x where h: "simple_escape e = Some x"
        by (auto simp: nlt split: option.splits)
      from p 3 obtain r' where "json_chars es = Some (r', t)"
        by (auto simp: nlt h apfst_def map_prod_def split: if_splits prod.splits)
      then have "length t < length es" using "1.IH"(2) [OF Cons _ _ 3(1,2,3) h] 3 nlt by simp
      then show ?thesis using 3 Cons by simp
    next
      case 4
      from p 4 obtain r' where "json_chars (drop (rune_width (map of_char s)) s) = Some (r', t)"
        by (auto simp: Cons Let_def apfst_def map_prod_def split: prod.splits)
      then have "length t < length (drop (rune_width (map of_char s)) s)" using "1.IH"(3) [OF Cons 4(1) 4(3) 4(2) refl] by simp
      then show ?thesis by simp
    qed (use p Cons in \<open>simp_all add: less_char_def\<close>)
  qed
qed

lemma json_string_shorter: "json_string s = Some (k, t) \<Longrightarrow> length t < length s"
  by (auto simp: json_string_def apfst_def map_prod_def dest: json_chars_shorter)

lemma json_digits_shorter: "json_digits s = Some (d, t) \<Longrightarrow> length t < length s"
proof -
  assume "json_digits s = Some (d, t)"
  then have t: "t = dropWhile is_digit s" and ne: "takeWhile is_digit s \<noteq> []"
    by (auto simp: json_digits_def split: list.splits)
  have "length (takeWhile is_digit s) + length (dropWhile is_digit s) = length s"
    by (metis length_append takeWhile_dropWhile_id)
  then show ?thesis using t ne by (cases "takeWhile is_digit s") auto
qed

lemma json_int_shorter: "json_int s = Some (d, t) \<Longrightarrow> length t < length s"
  by (auto simp: json_int_def split: list.splits if_splits dest: json_digits_shorter)

lemma json_frac_shorter: "json_frac s = Some (d, t) \<Longrightarrow> length t \<le> length s"
  by (fastforce simp: json_frac_def apfst_def map_prod_def split: list.splits if_splits dest: json_digits_shorter)

lemma json_exp_shorter: "json_exp s = Some (d, t) \<Longrightarrow> length t \<le> length s"
  by (fastforce simp: json_exp_def apfst_def map_prod_def split: list.splits if_splits dest: json_digits_shorter)

lemma json_number_shorter: "json_number s = Some (d, t) \<Longrightarrow> length t < length s"
  by (fastforce simp: json_number_def apfst_def map_prod_def split: list.splits if_splits option.splits
      dest: json_int_shorter json_frac_shorter json_exp_shorter)

lemma json_literal_shorter: "json_literal s = Some (v, t) \<Longrightarrow> length t < length s"
  by (auto simp: json_literal_def apfst_def map_prod_def has_prefix_iff split: if_splits dest: json_number_shorter)

lemma json_value_shorter:
  "json_value d s = Some (v, r) \<Longrightarrow> length r < length s"
  "json_elems d s = Some (vs, r) \<Longrightarrow> length r < length s"
  "json_members d s = Some (ms, r) \<Longrightarrow> length r < length s"
proof (induction d s and d s and d s arbitrary: v r and vs r and ms r rule: json_value_json_elems_json_members.induct)
  case (1 d s)
  show ?case
  proof (cases "skip_ws s")
    case Nil
    then show ?thesis using 1(3) by (simp add: json_value.simps [of d s])
  next
    case (Cons c cs)
    have cs: "length cs < length s" using skip_ws_Cons_length [OF Cons] .
    have tl: "length (tl (skip_ws cs)) \<le> length cs" using length_skip_ws [of cs] by simp
    consider "c = CHR 0x22" | "c = CHR ''[''" | "c = CHR ''{''" | "c \<noteq> CHR 0x22" "c \<noteq> CHR ''[''" "c \<noteq> CHR ''{''" by blast
    then show ?thesis
    proof cases
      case 1
      then obtain k where "json_string cs = Some (k, r)" using \<open>json_value d s = Some (v, r)\<close>
        by (auto simp: json_value.simps [of d s] Cons apfst_def map_prod_def)
      then show ?thesis using json_string_shorter [of cs k r] cs by simp
    next
      case 2
      show ?thesis
      proof (cases "has_prefix (skip_ws cs) '']''")
        case True
        then show ?thesis using 1(3) 2 tl cs by (auto simp: json_value.simps [of d s] Cons split: if_splits)
      next
        case False
        then obtain vs where vs: "json_elems (Suc d) cs = Some (vs, r)" and dd: "\<not> max_json_depth \<le> int d" using 1(3) 2
          by (auto simp: json_value.simps [of d s] Cons apfst_def map_prod_def split: if_splits)
        have "length r < length cs" using 1(1) [OF Cons _ 2 dd False vs] 2 by simp
        then show ?thesis using cs by simp
      qed
    next
      case 3
      show ?thesis
      proof (cases "has_prefix (skip_ws cs) ''}''")
        case True
        then show ?thesis using 1(3) 3 tl cs by (auto simp: json_value.simps [of d s] Cons split: if_splits)
      next
        case False
        then obtain ms where ms: "json_members (Suc d) cs = Some (ms, r)" and dd: "\<not> max_json_depth \<le> int d" using 1(3) 3
          by (auto simp: json_value.simps [of d s] Cons apfst_def map_prod_def split: if_splits)
        have "length r < length cs" using 1(2) [OF Cons _ _ 3 dd False ms] 3 by simp
        then show ?thesis using cs by simp
      qed
    next
      case 4
      then have "json_literal (c # cs) = Some (v, r)" using 1(3) by (simp add: json_value.simps [of d s] Cons)
      then show ?thesis using json_literal_shorter cs by fastforce
    qed
  qed
next
  case (2 d s)
  from 2(3) obtain v t where v: "json_value d s = Some (v, t)" by (auto simp: json_elems.simps [of d s] split: option.splits)
  have t: "length t < length s" using 2(1) [OF v] .
  from 2(3) obtain c cs where c: "skip_ws t = c # cs" by (auto simp: json_elems.simps [of d s] v split: list.splits)
  have cs: "length cs < length s" using skip_ws_Cons_length [OF c] t by simp
  show ?case
  proof (cases "c = CHR '']''")
    case True
    then show ?thesis using 2(3) cs by (simp add: json_elems.simps [of d s] v c)
  next
    case False
    then obtain us where us: "json_elems d cs = Some (us, r)" and comma: "c = CHR '',''" using 2(3)
      by (auto simp: json_elems.simps [of d s] v c apfst_def map_prod_def split: if_splits)
    have "length r < length cs" using 2(2) [OF v refl c False _ us] comma cs by simp
    then show ?thesis using cs by simp
  qed
next
  case (3 d s)
  from 3(3) obtain q qs where q: "skip_ws s = q # qs" and qq: "\<not> q \<noteq> CHR 0x22"
    by (auto simp: json_members.simps [of d s] split: list.splits if_splits)
  from 3(3) obtain k t where k: "json_string qs = Some (k, t)"
    using qq by (auto simp: json_members.simps [of d s] q split: option.splits)
  from 3(3) obtain p ps where p: "skip_ws t = p # ps" and pp: "p = CHR '':'' \<and> length ps < length s"
    using qq k by (auto simp: json_members.simps [of d s] q split: list.splits if_splits)
  from 3(3) obtain v u where v: "json_value d ps = Some (v, u)"
    using qq k p pp by (auto simp: json_members.simps [of d s] q split: option.splits)
  have u: "length u < length s" using 3(1) [OF q qq k refl p pp v] pp by simp
  from 3(3) obtain c cs where c: "skip_ws u = c # cs"
    using qq k p pp v by (auto simp: json_members.simps [of d s] q split: list.splits)
  have cs: "length cs < length s" using skip_ws_Cons_length [OF c] u by simp
  show ?case
  proof (cases "c = CHR ''}''")
    case True
    then show ?thesis using 3(3) cs qq pp by (simp add: json_members.simps [of d s] q k p v c)
  next
    case False
    then obtain us where us: "json_members d cs = Some (us, r)" and comma: "c = CHR '',''" using 3(3) qq pp
      by (auto simp: json_members.simps [of d s] q k p v c apfst_def map_prod_def split: if_splits)
    have "length r < length cs" using 3(2) [OF q qq k refl p pp v refl c False _ us] comma cs by simp
    then show ?thesis using cs by simp
  qed
qed

section \<open>Unmarshal\<close>

text \<open>The value of a number, and whether \<^verbatim>\<open>strconv.ParseFloat\<close> accepts it: it overflows from the middle between the
  largest finite \<^verbatim>\<open>float64\<close> and the next power of two on.\<close>

definition the_default :: "'a \<Rightarrow> 'a option \<Rightarrow> 'a" where
  "the_default d x = (case x of None \<Rightarrow> d | Some y \<Rightarrow> y)"

definition num_exponent :: "string \<Rightarrow> int" where
  "num_exponent s =
     (case s of
        c # d # ds \<Rightarrow>
          (if d = CHR ''-'' then - int (the_default 0 (parse_digits 0 ds))
           else if d = CHR ''+'' then int (the_default 0 (parse_digits 0 ds))
           else int (the_default 0 (parse_digits 0 (d # ds))))
      | _ \<Rightarrow> 0)"

definition num_value :: "string \<Rightarrow> rat" where
  "num_value s =
     (let neg = has_prefix s ''-''; t = trim_prefix s ''-'';
          i = takeWhile is_digit t; u = dropWhile is_digit t;
          f = (if has_prefix u ''.'' then takeWhile is_digit (tl u) else []);
          v = (if has_prefix u ''.'' then dropWhile is_digit (tl u) else u);
          m = of_nat (the_default 0 (parse_digits 0 (i @ f))); e = num_exponent v - int (length f);
          a = (if 0 \<le> e then m * 10 ^ nat e else m / 10 ^ nat (- e))
      in if neg then - a else a)"

definition num_in_range :: "string \<Rightarrow> bool" where
  "num_in_range s = (\<bar>num_value s\<bar> < 2 ^ 1024 - 2 ^ 970)"

text \<open>Into \<^verbatim>\<open>interface{}\<close>, \<^verbatim>\<open>map[string]interface{}\<close> and \<^verbatim>\<open>[]map[string]interface{}\<close>; \<open>None\<close> is an error.\<close>

fun json_any_ok :: "json \<Rightarrow> bool" where
  "json_any_ok (JNum s) = num_in_range s"
| "json_any_ok (JArr vs) = list_all json_any_ok vs"
| "json_any_ok (JObj ms) = list_all (\<lambda>m. json_any_ok (snd m)) ms"
| "json_any_ok _ = True"

type_synonym json_map = "(string \<times> json) list"

definition as_map :: "json \<Rightarrow> json_map option" where
  "as_map v =
     (case v of
        JNull \<Rightarrow> Some []
      | JObj ms \<Rightarrow> if json_any_ok v then Some ms else None
      | _ \<Rightarrow> None)"

definition as_maps :: "json \<Rightarrow> json_map list option" where
  "as_maps v = (case v of JNull \<Rightarrow> Some [] | JArr vs \<Rightarrow> all_some (map as_map vs) | _ \<Rightarrow> None)"

definition unmarshal_map :: "string \<Rightarrow> json_map option" where
  "unmarshal_map s = Option.bind (json_parse s) as_map"

definition unmarshal_maps :: "string \<Rightarrow> json_map list option" where
  "unmarshal_maps s = Option.bind (json_parse s) as_maps"

text \<open>An entry of a decoded map (the last of a name wins) and the type assertion to a string.\<close>

definition json_get :: "json_map \<Rightarrow> string \<Rightarrow> json option" where
  "json_get m k = map_of (rev m) k"

definition json_str :: "json option \<Rightarrow> string option" where
  "json_str v = (case v of Some (JStr s) \<Rightarrow> Some s | _ \<Rightarrow> None)"

text \<open>Whether a member of an object is stored in the field of a struct with the given name: letter case does not matter.\<close>

definition field_key :: "string \<Rightarrow> string \<Rightarrow> bool" where
  "field_key name k = list_all2 (\<lambda>a b. b \<in> set (orbit True a)) (map of_char name) (to_runes k)"

text \<open>On ASCII texts this is the comparison of lower cases, which is how it is evaluated.\<close>

lemma of_char_lower: "(of_char (lower_char c) :: nat) = (let n = of_char c in if 65 \<le> n \<and> n \<le> 90 then n + 32 else n)"
  by (auto simp: lower_char_def is_upper_def less_eq_char_def Let_def)

lemma orbit_ascii:
  assumes "(of_char c :: nat) < 128" "(of_char d :: nat) < 128"
  shows "of_char d \<in> set (orbit True (of_char c)) \<longleftrightarrow> lower_char c = lower_char d"
proof -
  have "lower_char c = lower_char d \<longleftrightarrow> (of_char (lower_char c) :: nat) = of_char (lower_char d)" by simp
  also have "\<dots> \<longleftrightarrow> of_char d \<in> set (orbit True (of_char c))"
    using assms unfolding of_char_lower Let_def orbit_def by (auto split: if_splits intro: of_char_eqI [where ?'a = nat])
  finally show ?thesis ..
qed

definition ascii_key :: "string \<Rightarrow> bool" where
  "ascii_key s = list_all (\<lambda>c. c < CHR 0x80) s"

lemma field_key_ascii:
  assumes "ascii_key name" "ascii_key k"
  shows "field_key name k \<longleftrightarrow> to_lower name = to_lower k"
proof -
  have n: "\<forall>c\<in>set name. (of_char c :: nat) < 128" and k: "\<forall>c\<in>set k. (of_char c :: nat) < 128"
    using assms by (auto simp: ascii_key_def list_all_iff less_char_def)
  have "list_all2 (\<lambda>a b. b \<in> set (orbit True a)) (map of_char name) (map of_char k) \<longleftrightarrow>
     list_all2 (\<lambda>c d. lower_char c = lower_char d) name k"
    unfolding list_all2_map1 list_all2_map2 using n k orbit_ascii by (auto simp: list_all2_conv_all_nth)
  also have "\<dots> \<longleftrightarrow> to_lower name = to_lower k"
    unfolding to_lower_def list_eq_iff_nth_eq list_all2_conv_all_nth by auto
  finally show ?thesis using k by (simp add: field_key_def to_runes_ascii)
qed

lemma field_key_code [code]:
  "field_key name k = (if ascii_key name \<and> ascii_key k then to_lower name = to_lower k
     else list_all2 (\<lambda>a b. b \<in> set (orbit True a)) (map of_char name) (to_runes k))"
  using field_key_ascii by (simp add: field_key_def)

section \<open>Structs\<close>

text \<open>
  A field of a struct is its JSON name with the way a value is stored in it. Members without a field are
  skipped; a value of the wrong type makes the whole decoding fail. \<^verbatim>\<open>null\<close> empties a slice and leaves every
  other field alone.
\<close>

type_synonym 's field = "string \<times> (json \<Rightarrow> 's \<Rightarrow> 's option)"

definition string_field :: "string \<Rightarrow> (string \<Rightarrow> 's \<Rightarrow> 's) \<Rightarrow> 's field" where
  "string_field name put = (name, \<lambda>v s. case v of JNull \<Rightarrow> Some s | JStr t \<Rightarrow> Some (put t s) | _ \<Rightarrow> None)"

definition bool_field :: "string \<Rightarrow> (bool \<Rightarrow> 's \<Rightarrow> 's) \<Rightarrow> 's field" where
  "bool_field name put = (name, \<lambda>v s. case v of JNull \<Rightarrow> Some s | JBool b \<Rightarrow> Some (put b s) | _ \<Rightarrow> None)"

definition int64_field :: "string \<Rightarrow> (int \<Rightarrow> 's \<Rightarrow> 's) \<Rightarrow> 's field" where
  "int64_field name put =
     (name, \<lambda>v s. case v of JNull \<Rightarrow> Some s | JNum n \<Rightarrow> map_option (\<lambda>i. put i s) (parse_int64 n) | _ \<Rightarrow> None)"

definition float_field :: "(rat \<Rightarrow> rat) \<Rightarrow> string \<Rightarrow> (rat \<Rightarrow> 's \<Rightarrow> 's) \<Rightarrow> 's field" where
  "float_field fl name put =
     (name, \<lambda>v s. case v of JNull \<Rightarrow> Some s | JNum n \<Rightarrow> if num_in_range n then Some (put (fl (num_value n)) s) else None
        | _ \<Rightarrow> None)"

definition slice_field :: "(json \<Rightarrow> 'a option) \<Rightarrow> string \<Rightarrow> ('a list \<Rightarrow> 's \<Rightarrow> 's) \<Rightarrow> 's field" where
  "slice_field elem name put =
     (name, \<lambda>v s. case v of JNull \<Rightarrow> Some (put [] s) | JArr vs \<Rightarrow> map_option (\<lambda>xs. put xs s) (all_some (map elem vs))
        | _ \<Rightarrow> None)"

definition string_elem :: "json \<Rightarrow> string option" where
  "string_elem v = (case v of JNull \<Rightarrow> Some [] | JStr t \<Rightarrow> Some t | _ \<Rightarrow> None)"

fun decode_members :: "'s field list \<Rightarrow> (string \<times> json) list \<Rightarrow> 's \<Rightarrow> 's option" where
  "decode_members fs [] s = Some s"
| "decode_members fs ((k, v) # ms) s =
     (case find (\<lambda>f. field_key (fst f) k) fs of
        None \<Rightarrow> decode_members fs ms s
      | Some f \<Rightarrow> (case snd f v s of None \<Rightarrow> None | Some s' \<Rightarrow> decode_members fs ms s'))"

definition decode_struct :: "'s field list \<Rightarrow> 's \<Rightarrow> json \<Rightarrow> 's option" where
  "decode_struct fs zero v = (case v of JNull \<Rightarrow> Some zero | JObj ms \<Rightarrow> decode_members fs ms zero | _ \<Rightarrow> None)"

text \<open>\<^verbatim>\<open>json.Unmarshal\<close> of a whole text, and \<^verbatim>\<open>Decoder.Decode\<close> of the first value of a stream.\<close>

definition unmarshal_struct :: "'s field list \<Rightarrow> 's \<Rightarrow> string \<Rightarrow> 's option" where
  "unmarshal_struct fs zero s = Option.bind (json_parse s) (decode_struct fs zero)"

definition decode_stream :: "'s field list \<Rightarrow> 's \<Rightarrow> string \<Rightarrow> 's option" where
  "decode_stream fs zero s = Option.bind (map_option fst (json_value 0 s)) (decode_struct fs zero)"

end
