(* ===== verification/GraphQL.thy ===== *)
theory GraphQL
  imports Json "HOL-Library.Sublist"
begin

text \<open>
  The inspector for GraphQL requests, \<^verbatim>\<open>internal/engine/graphql.go\<close>: parsing of the JSON envelope, the measures of
  a query (aliases, depth, cost) and the limits on them. Sets of names are lists; the text of a JSON error
  is not modelled.
\<close>

section \<open>Configuration and queries\<close>

record graphql_inspector =
  gq_max_depth :: int
  gq_max_cost :: int
  gq_max_aliases :: int
  gq_max_batch :: int
  gq_max_tokens :: int
  gq_block_introspection :: bool
  gq_block_schema :: bool
  gq_allowed_ops :: "string list"
  gq_restricted :: "string list"
  gq_strict :: bool

text \<open>The section \<^verbatim>\<open>graphql\<close> of the configuration.\<close>

record graphql_config =
  gc_enabled :: bool
  gc_max_depth :: int
  gc_max_cost :: int
  gc_max_aliases :: int
  gc_max_batch :: int
  gc_max_tokens :: int
  gc_block_introspection :: bool
  gc_block_schema :: bool
  gc_allowed_ops :: "string list"
  gc_restricted :: "string list"
  gc_strict :: bool

definition new_graphql_inspector :: "graphql_config \<Rightarrow> graphql_inspector" where
  "new_graphql_inspector cfg =
     \<lparr>gq_max_depth = gc_max_depth cfg, gq_max_cost = gc_max_cost cfg, gq_max_aliases = gc_max_aliases cfg,
      gq_max_batch = gc_max_batch cfg, gq_max_tokens = gc_max_tokens cfg,
      gq_block_introspection = gc_block_introspection cfg, gq_block_schema = gc_block_schema cfg,
      gq_allowed_ops = gc_allowed_ops cfg, gq_restricted = gc_restricted cfg, gq_strict = gc_strict cfg\<rparr>"

definition default_graphql_config :: graphql_config where
  "default_graphql_config =
     \<lparr>gc_enabled = False, gc_max_depth = 10, gc_max_cost = 1000, gc_max_aliases = 15, gc_max_batch = 1,
      gc_max_tokens = 10000, gc_block_introspection = False, gc_block_schema = False,
      gc_allowed_ops = [''query'', ''mutation''], gc_restricted = [], gc_strict = True\<rparr>"

record graphql_query =
  qy_operation :: string
  qy_depth :: int
  qy_cost :: int
  qy_aliases :: int

definition empty_query :: graphql_query where
  "empty_query = \<lparr>qy_operation = [], qy_depth = 0, qy_cost = 0, qy_aliases = 0\<rparr>"

text \<open>A brace moves the current depth, which never falls below zero, and the largest depth so far.\<close>

definition depth_step :: "nat \<times> nat \<Rightarrow> nat \<Rightarrow> nat \<times> nat" where
  "depth_step p r = (case p of (cur, deepest) \<Rightarrow>
     if r = 0x7B then (Suc cur, max deepest (Suc cur)) else if r = 0x7D then (cur - 1, deepest) else (cur, deepest))"

definition count_depth :: "string \<Rightarrow> nat" where
  "count_depth q = snd (foldl depth_step (0, 0) (concat (map to_runes (split_char CHR 0x0A q))))"

definition cost_patterns :: "(string \<times> nat) list" where
  "cost_patterns = [(''query'', 1), (''mutation'', 10), (''subscription'', 100), (''fragment'', 5), (''... on'', 20),
     (''@include'', 2), (''@skip'', 2), (''@deprecated'', 1)]"

definition pattern_cost :: "string \<Rightarrow> nat" where
  "pattern_cost q = sum_list (map (\<lambda>(p, k). count_sub (to_lower q) p * k) cost_patterns)"

definition count_page_size :: "string \<Rightarrow> int" where
  "count_page_size q =
     (case str_index (to_lower q) ''first:'' of
        None \<Rightarrow> 100
      | Some i \<Rightarrow>
          (let ds = takeWhile is_digit (dropWhile (\<lambda>c. c = CHR '' '' \<or> c = CHR 0x09) (drop (i + 6) q)) in
           if ds = [] then 100 else (case parse_int64 ds of None \<Rightarrow> 100 | Some v \<Rightarrow> v)))"

definition calculate_cost :: "string \<Rightarrow> int" where
  "calculate_cost q = int64 (int (pattern_cost q) + count_page_size q * count_page_size q)"

definition alias_re :: rx where
  "alias_re = Seqs [Some1 WordRune, Many Space, Txt '':'']"

definition count_aliases :: "string \<Rightarrow> nat" where
  "count_aliases q = length (rx_find_all False alias_re ([], to_runes q))"

definition operation_of :: "string \<Rightarrow> string" where
  "operation_of q =
     (let t = trim_space q in
      if has_prefix t ''query'' then ''query''
      else if has_prefix t ''mutation'' then ''mutation''
      else if has_prefix t ''subscription'' then ''subscription'' else ''query'')"

definition analyze_query_string :: "string \<Rightarrow> graphql_query" where
  "analyze_query_string q =
     \<lparr>qy_operation = operation_of q, qy_depth = int (count_depth q), qy_cost = calculate_cost q,
      qy_aliases = int (count_aliases q)\<rparr>"

section \<open>Parsing\<close>

definition query_of_map :: "json_map \<Rightarrow> graphql_query" where
  "query_of_map m =
     (let q = (case json_str (json_get m ''query'') of None \<Rightarrow> empty_query | Some s \<Rightarrow> analyze_query_string s) in
      case json_str (json_get m ''operationName'') of None \<Rightarrow> q | Some s \<Rightarrow> q\<lparr>qy_operation := s\<rparr>)"

definition parse_query :: "string \<Rightarrow> gotext + graphql_query" where
  "parse_query body =
     (if has_prefix (trim_space body) ''['' then
        (case unmarshal_maps body of
           None \<Rightarrow> Inl (Fmt ''json batch unmarshal: %w'' [])
         | Some [] \<Rightarrow> Inl (Lit ''empty batch query'')
         | Some (m # ms) \<Rightarrow> Inr (query_of_map m))
      else
        (case unmarshal_map body of
           None \<Rightarrow> Inl (Fmt ''json unmarshal: %w'' [])
         | Some m \<Rightarrow> Inr (query_of_map m)))"

text \<open>The member \<^verbatim>\<open>operations\<close> of an object, decoded into a slice of maps.\<close>

definition operations_len :: "json \<Rightarrow> nat option" where
  "operations_len v =
     (case v of
        JNull \<Rightarrow> Some 0
      | JObj ms \<Rightarrow>
          (case all_some (map (\<lambda>m. as_maps (snd m)) (filter (\<lambda>m. field_key ''operations'' (fst m)) ms)) of
             None \<Rightarrow> None
           | Some ops \<Rightarrow> Some (if ops = [] then 0 else length (last ops)))
      | _ \<Rightarrow> None)"

definition is_json_query :: "string \<Rightarrow> bool" where
  "is_json_query body = has_prefix (trim_space body) ''{''"

definition literal_batch :: "string \<Rightarrow> nat" where
  "literal_batch body = count_sub body (''{'' @ [CHR 0x22] @ ''query'' @ [CHR 0x22])"

definition count_operations :: "string \<Rightarrow> nat" where
  "count_operations body =
     (if is_json_query body then
        (case Option.bind (json_parse body) operations_len of
           Some n \<Rightarrow> n
         | None \<Rightarrow> (case unmarshal_maps body of Some ms \<Rightarrow> length ms | None \<Rightarrow> literal_batch body))
      else literal_batch body)"

section \<open>The checks\<close>

definition is_introspection_query :: "string \<Rightarrow> bool" where
  "is_introspection_query body =
     list_ex (contains body) [''__schema'', ''__type'', ''IntrospectionQuery'', ''Introspection'']"

definition is_schema_query :: "string \<Rightarrow> bool" where
  "is_schema_query body =
     (let b = to_lower body in contains b ''{ __typename }'' \<and> contains b ''__type'')"

definition graphql_content :: "string \<Rightarrow> bool" where
  "graphql_content ct = (ct \<noteq> [] \<and> (contains ct ''graphql'' \<or> contains ct ''json''))"

definition check_limits :: "graphql_inspector \<Rightarrow> graphql_query \<Rightarrow> string \<Rightarrow> decision" where
  "check_limits g q body =
     (if 0 < gq_max_depth g \<and> gq_max_depth g < qy_depth q
      then mk_decision ActionBlock ''GRAPHQL-004'' ''GraphQL depth limit exceeded'' ''high'' 80
             (Fmt ''depth=%d, limit=%d'' [AInt (qy_depth q), AInt (gq_max_depth g)])
      else if 0 < gq_max_cost g \<and> gq_max_cost g < qy_cost q
      then mk_decision ActionBlock ''GRAPHQL-005'' ''GraphQL cost limit exceeded'' ''high'' 80
             (Fmt ''cost=%d, limit=%d'' [AInt (qy_cost q), AInt (gq_max_cost g)])
      else if 0 < gq_max_aliases g \<and> gq_max_aliases g < qy_aliases q
      then mk_decision ActionBlock ''GRAPHQL-006'' ''GraphQL alias limit exceeded'' ''medium'' 65
             (Fmt ''aliases=%d, limit=%d'' [AInt (qy_aliases q), AInt (gq_max_aliases g)])
      else if 0 < gq_max_batch g \<and> gq_max_batch g < int (count_operations body)
      then mk_decision ActionBlock ''GRAPHQL-007'' ''GraphQL batch size exceeded'' ''high'' 75
             (Fmt ''batch_size=%d, limit=%d'' [AInt (int (count_operations body)), AInt (gq_max_batch g)])
      else if gq_allowed_ops g \<noteq> [] \<and> qy_operation q \<noteq> [] \<and> qy_operation q \<notin> set (gq_allowed_ops g)
      then mk_decision ActionBlock ''GRAPHQL-008'' ''GraphQL operation not allowed'' ''high'' 80
             (Fmt ''operation=%s'' [AStr (qy_operation q)])
      else allow_decision)"

definition graphql_check :: "graphql_inspector \<Rightarrow> reqctx \<Rightarrow> decision" where
  "graphql_check g c =
     (let body = ctx_body c in
      if \<not> graphql_content (c_content_type c) then allow_decision
      else if body = [] then allow_decision
      else if gq_block_introspection g \<and> is_introspection_query body
      then mk_decision ActionBlock ''GRAPHQL-001'' ''GraphQL introspection blocked'' ''high'' 85
             (Lit ''introspection query not allowed'')
      else if gq_block_schema g \<and> is_schema_query body
      then mk_decision ActionBlock ''GRAPHQL-002'' ''GraphQL schema query blocked'' ''high'' 85
             (Lit ''schema query not allowed'')
      else
        (case parse_query body of
           Inl err \<Rightarrow>
             (if gq_strict g
              then mk_decision ActionBlock ''GRAPHQL-003'' ''GraphQL parse error'' ''medium'' 60 err
              else allow_decision)
         | Inr q \<Rightarrow> check_limits g q body))"

definition graphql_inspect :: "graphql_inspector \<Rightarrow> unit inspector" where
  "graphql_inspect g = stateless (\<lambda>c. Some (graphql_check g c))"

definition dangerous_gql :: "string list" where
  "dangerous_gql = [''${'', ''{{'', ''__dirname'', ''__filename'', ''process'', ''eval('', ''require('', ''import('']"

definition validate_query :: "graphql_inspector \<Rightarrow> string \<Rightarrow> bool \<times> gotext" where
  "validate_query g q =
     (if 0 < gq_max_tokens g \<and> gq_max_tokens g < int (length q)
      then (False, Fmt ''query exceeds maximum tokens: %d > %d'' [AInt (int (length q)), AInt (gq_max_tokens g)])
      else
        (case find (contains (to_lower q)) dangerous_gql of
           Some p \<Rightarrow> (False, Fmt ''dangerous pattern detected: %s'' [AStr p])
         | None \<Rightarrow> (True, Lit [])))"

lemma graphql_score: "score_ok (graphql_check g c)"
  by (auto simp: graphql_check_def check_limits_def score_ok_def Let_def split: sum.splits)

interpretation graphql: inspector "graphql_inspect g" for g
  unfolding graphql_inspect_def by (rule inspector_stateless) (auto simp: graphql_score)

section \<open>Depth\<close>

text \<open>By how much the opening braces of a text outnumber the closing ones.\<close>

definition surplus :: "string \<Rightarrow> int" where
  "surplus w = int (count_list w CHR ''{'') - int (count_list w CHR ''}'')"

lemma surplus_simps [simp]:
  "surplus [] = 0"
  "surplus (u @ v) = surplus u + surplus v"
  "surplus (c # w) = (if c = CHR ''{'' then 1 else if c = CHR ''}'' then - 1 else 0) + surplus w"
  by (simp_all add: surplus_def)

definition byte_step :: "nat \<times> nat \<Rightarrow> char \<Rightarrow> nat \<times> nat" where
  "byte_step p c = depth_step p (of_char c)"

lemma byte_step_pair:
  "byte_step (cu, de) c =
     (if c = CHR ''{'' then (Suc cu, max de (Suc cu)) else if c = CHR ''}'' then (cu - 1, de) else (cu, de))"
proof -
  have "(of_char c :: nat) = 0x7B \<longleftrightarrow> c = CHR ''{''" "(of_char c :: nat) = 0x7D \<longleftrightarrow> c = CHR ''}''"
    using of_char_eq_iff [of c "CHR ''{''", where ?'a = nat] of_char_eq_iff [of c "CHR ''}''", where ?'a = nat] by simp_all
  then show ?thesis by (simp add: byte_step_def depth_step_def)
qed

lemma depth_step_other: "r \<noteq> 0x7B \<Longrightarrow> r \<noteq> 0x7D \<Longrightarrow> depth_step p r = p"
  by (simp add: depth_step_def split: prod.splits)

lemma foldl_depth_other: "\<forall>r\<in>set rs. 0x80 \<le> r \<Longrightarrow> foldl depth_step p rs = p"
  by (induction rs) (auto simp: depth_step_other)

lemma rune_width_high:
  "\<not> a < 0x80 \<Longrightarrow> rune_width (a # xs) = Suc n \<Longrightarrow> \<forall>b\<in>set (take n xs). 0x80 \<le> b"
  by (induction "a # xs" rule: rune_width.induct)
    (auto simp: valid_two_def valid_three_def valid_four_def cont_byte_def split: if_splits)

lemma rune_head_high: "\<not> a < 0x80 \<Longrightarrow> 0x80 \<le> rune_head (a # xs)"
  by (induction "a # xs" rule: rune_width.induct)
    (auto simp: rune_head_def valid_two_def valid_three_def valid_four_def cont_byte_def)

lemma foldl_depth_runes: "foldl depth_step p (range_runes xs) = foldl depth_step p xs"
proof (induction xs arbitrary: p rule: range_runes.induct)
  case (1 xs)
  show ?case
  proof (cases xs)
    case Nil
    then show ?thesis by (simp add: range_runes.simps)
  next
    case (Cons a ys)
    have ih: "foldl depth_step p (range_runes (drop (rune_width xs) xs)) = foldl depth_step p (drop (rune_width xs) xs)" for p
      using 1 Cons by blast
    show ?thesis
    proof (cases "a < 0x80")
      case True
      then show ?thesis using ih Cons by (simp add: range_runes_ascii_Cons rune_width_ascii)
    next
      case False
      obtain n where n: "rune_width xs = Suc n" using rune_width_pos [of xs] by (cases "rune_width xs") auto
      have "foldl depth_step p xs = foldl depth_step (foldl depth_step p (a # take n ys)) (drop n ys)"
        by (simp add: Cons flip: foldl_append)
      also have "foldl depth_step p (a # take n ys) = p"
        using False rune_width_high [of a ys n] n Cons by (intro foldl_depth_other) auto
      also have "foldl depth_step p (drop n ys) = foldl depth_step p (range_runes xs)"
        using ih rune_head_high [OF False, of ys] n Cons
        by (simp add: range_runes.simps [of "a # ys"] depth_step_other)
      finally show ?thesis by simp
    qed
  qed
qed

lemma foldl_bytes: "foldl depth_step p (map of_char s) = foldl byte_step p s"
  by (induction s arbitrary: p) (simp_all add: byte_step_def)

lemma byte_step_newline: "byte_step p CHR 0x0A = p"
  by (simp add: byte_step_def depth_step_other)

lemma foldl_lines: "foldl depth_step p (concat (map to_runes (split_char CHR 0x0A s))) = foldl byte_step p s"
proof (induction s arbitrary: p)
  case (Cons c s)
  obtain l ls where ls: "split_char CHR 0x0A s = l # ls" using split_char_nonempty by (cases "split_char CHR 0x0A s") auto
  have tr: "foldl depth_step p (to_runes w) = foldl byte_step p w" for p w
    by (simp add: to_runes_def foldl_depth_runes foldl_bytes)
  show ?case
    using Cons.IH [of "byte_step p c"] by (cases "c = CHR 0x0A") (auto simp: ls tr byte_step_newline)
qed simp

lemma count_depth_bytes: "count_depth q = snd (foldl byte_step (0, 0) q)"
  by (simp add: count_depth_def foldl_lines)

text \<open>The current depth is the largest surplus of a suffix, the deepest one that of a substring.\<close>

lemma foldl_byte_step:
  "foldl byte_step (0, 0) q = (cur, deepest) \<Longrightarrow>
     int cur = Max (surplus ` {w. suffix w q}) \<and> int deepest = Max (surplus ` {w. sublist w q})"
proof (induction q arbitrary: cur deepest rule: rev_induct)
  case Nil
  then show ?case by simp
next
  case (snoc c q)
  obtain cu de where f: "foldl byte_step (0, 0) q = (cu, de)" by fastforce
  have ih: "int cu = Max (surplus ` {w. suffix w q})" "int de = Max (surplus ` {w. sublist w q})"
    using snoc.IH [OF f] by auto
  have fin: "finite {w. suffix w q}" "finite {w. sublist w q}" "finite {w. suffix w (q @ [c])}"
    using finite_set [of "suffixes q"] finite_set [of "sublists q"] finite_set [of "suffixes (q @ [c])"]
    by (simp_all add: set_suffixes_eq set_sublists_eq)
  have suf: "{w. suffix w (q @ [c])} = insert [] ((\<lambda>w. w @ [c]) ` {w. suffix w q})"
    by (auto simp: suffix_snoc)
  have sub: "{w. sublist w (q @ [c])} = {w. sublist w q} \<union> {w. suffix w (q @ [c])}"
    by (auto simp: sublist_snoc)
  have ne: "{w. suffix w q} \<noteq> {}" "{w. sublist w q} \<noteq> {}" by blast+
  let ?d = "surplus [c]"
  have "surplus ` (\<lambda>w. w @ [c]) ` {w. suffix w q} = (\<lambda>x. x + ?d) ` surplus ` {w. suffix w q}"
    by (auto simp: image_image)
  then have "Max (surplus ` (\<lambda>w. w @ [c]) ` {w. suffix w q}) = int cu + ?d"
    using Max_add_commute [of "{w. suffix w q}" surplus ?d] fin ne ih(1) by (simp add: image_image)
  then have cur': "Max (surplus ` {w. suffix w (q @ [c])}) = max 0 (int cu + ?d)"
    using fin ne by (subst suf) (simp add: Max_insert)
  have "Max (surplus ` {w. sublist w (q @ [c])}) = Max (surplus ` {w. sublist w q} \<union> surplus ` {w. suffix w (q @ [c])})"
    by (simp only: sub image_Un)
  also have "\<dots> = max (Max (surplus ` {w. sublist w q})) (Max (surplus ` {w. suffix w (q @ [c])}))"
    by (rule Max_Un) (use fin ne in \<open>auto intro: exI [of _ "[]"]\<close>)
  also have "\<dots> = max (int de) (max 0 (int cu + ?d))" by (simp only: cur' ih(2))
  finally have deep': "Max (surplus ` {w. sublist w (q @ [c])}) = max (int de) (max 0 (int cu + ?d))" .
  have "0 \<le> int de" by simp
  moreover have "int cu \<le> int de"
    unfolding ih by (rule Max_mono) (use fin ne in \<open>auto simp: image_iff intro: suffix_imp_sublist\<close>)
  moreover have "byte_step (cu, de) c = (cur, deepest)" using snoc.prems f by simp
  ultimately show ?case unfolding cur' deep' by (auto simp: byte_step_pair split: if_splits)
qed

text \<open>Property C19. The depth that the line-by-line scan computes is the largest surplus of opening over closing
  braces in any contiguous part of the query: for a well-nested query, the depth of its nesting.\<close>

theorem depth_is_largest_surplus: "int (count_depth q) = Max (surplus ` {w. sublist w q})"
  using foldl_byte_step [of q] by (cases "foldl byte_step (0, 0) q") (simp add: count_depth_bytes)

section \<open>Cost\<close>

lemma count_sub_le: "count_sub s p \<le> length s + 1"
proof (induction s p rule: count_sub.induct)
  case (1 s p)
  show ?case
  proof (cases "p = [] \<or> s = []")
    case True
    then show ?thesis by (auto simp: count_sub.simps [of s p])
  next
    case False
    then have "Suc (length (drop (length p) s)) \<le> length s" "Suc (length (tl s)) \<le> length s" by (cases p; cases s; simp)+
    then show ?thesis using 1 False by (subst count_sub.simps) auto
  qed
qed

lemma pattern_cost_le: "pattern_cost q \<le> 200 * (length q + 1)"
proof -
  have "count_sub (to_lower q) p \<le> length q + 1" for p
    using count_sub_le [of "to_lower q" p] by (simp add: to_lower_def)
  note le = this [of "''query''"] this [of "''mutation''"] this [of "''subscription''"] this [of "''fragment''"]
    this [of "''... on''"] this [of "''@include''"] this [of "''@skip''"] this [of "''@deprecated''"]
  show ?thesis using le by (simp add: pattern_cost_def cost_patterns_def)
qed

lemma unpaged_cost:
  assumes "\<not> contains (to_lower q) ''first:''" and "length q \<le> 2 ^ 40"
  shows "10000 \<le> calculate_cost q"
proof -
  have "count_page_size q = 100" using assms(1) by (simp add: count_page_size_def flip: str_index_None_iff)
  moreover have "int (pattern_cost q) \<le> 219902325555600" using pattern_cost_le [of q] assms(2) by simp
  ultimately show ?thesis by (simp add: calculate_cost_def int64_id)
qed

text \<open>A query that names no page size costs at least 10000, the square of an assumed page of 100: with
  any cost limit below that, the default of 1000 among them, every such query is blocked.\<close>

lemma unpaged_query_blocked:
  assumes "0 < gq_max_cost g" "gq_max_cost g < 10000"
    and "graphql_content (c_content_type c)" "c_body c = Some body" "body \<noteq> []"
    and "\<not> has_prefix (trim_space body) ''[''" "unmarshal_map body = Some m" "json_get m ''query'' = Some (JStr q)"
    and "\<not> contains (to_lower q) ''first:''" "length q \<le> 2 ^ 40"
  shows "d_action (graphql_check g c) = ActionBlock"
proof -
  have "qy_cost (query_of_map m) = calculate_cost q"
    by (simp add: query_of_map_def assms(8) json_str_def [of "Some _"] analyze_query_string_def Let_def split: option.splits)
  then have "gq_max_cost g < qy_cost (query_of_map m)" using unpaged_cost [OF assms(9,10)] assms(2) by simp
  then show ?thesis using assms(1-7)
    by (auto simp: graphql_check_def parse_query_def check_limits_def ctx_body_def Let_def)
qed

text \<open>The square of the page size is taken modulo \<open>2 ^ 64\<close>: a request for \<open>2 ^ 32\<close> entries, or any
  multiple, costs no more than a request for none.\<close>

lemma huge_page_is_free:
  assumes "count_page_size q = 4294967296 * k"
  shows "calculate_cost q = int64 (int (pattern_cost q))"
proof -
  have "count_page_size q * count_page_size q = 18446744073709551616 * (k * k)" by (simp add: assms)
  then show ?thesis using int64_add_multiple [of "int (pattern_cost q)" "k * k"] by (simp add: calculate_cost_def)
qed

section \<open>Batches\<close>

text \<open>Of a batch only the first query is measured, and the batch is counted by a literal text: when that
  text does not occur (a space before the quotation mark is enough), the decision is the one for the first
  query alone, whatever and however many queries follow.\<close>

lemma batch_judged_by_first:
  assumes "graphql_content (c_content_type c)" "c_body c = Some body" "has_prefix (trim_space body) ''[''"
    and "unmarshal_maps body = Some (m # ms)" "literal_batch body = 0"
    and "\<not> (gq_block_introspection g \<and> is_introspection_query body)"
    and "\<not> (gq_block_schema g \<and> is_schema_query body)"
  shows "graphql_check g c = check_limits g (query_of_map m) []"
proof -
  have "body \<noteq> []" using assms(3) by (auto simp: trim_space_def)
  have "\<not> is_json_query body" using assms(3) by (auto simp: is_json_query_def has_prefix_iff)
  then have zero: "count_operations body = 0" "count_operations [] = 0"
    using assms(5) by (simp_all add: count_operations_def is_json_query_def trim_space_def literal_batch_def)
  have "graphql_check g c = check_limits g (query_of_map m) body"
    using \<open>body \<noteq> []\<close>
    by (simp only: graphql_check_def Let_def ctx_body_def assms(1-7) parse_query_def option.case list.case sum.case
        if_True if_False not_True_eq_False not_False_eq_True)
  also have "\<dots> = check_limits g (query_of_map m) []" by (simp only: check_limits_def zero)
  finally show ?thesis .
qed

section \<open>Witnesses\<close>

lemma huge_page_is_free_witness:
  "calculate_cost ''{a(first: 8589934592)}'' = int64 (int (pattern_cost ''{a(first: 8589934592)}''))"
  by (rule huge_page_is_free [where k = 2])
    (simp add: count_page_size_def to_lower_def lower_char_def is_upper_def is_digit_def less_eq_char_def
      parse_int64_def parse_uint_def)

end
