(* ===== verification/Middleware.thy ===== *)
theory Middleware
  imports Json WindowCounter
begin

text \<open>
  The inspectors of \<^verbatim>\<open>internal/engine/middleware.go\<close>: CAPTCHA verification, SOAP documents, gRPC calls, and the
  response writer. The HTTP client that asks the CAPTCHA provider, the rounding of a decimal number to a
  \<^verbatim>\<open>float64\<close> and the writer underneath the response writer are arguments.
\<close>

section \<open>CAPTCHA\<close>

record captcha_verifier =
  cv_enabled :: bool
  cv_provider :: string
  cv_secret :: string
  cv_site_key :: string
  cv_score :: rat

definition new_captcha_verifier :: "string \<Rightarrow> string \<Rightarrow> string \<Rightarrow> rat \<Rightarrow> captcha_verifier" where
  "new_captcha_verifier provider secret key score =
     \<lparr>cv_enabled = True, cv_provider = provider, cv_secret = secret, cv_site_key = key, cv_score = score\<rparr>"

text \<open>The answer to a POST of form values to an address: its body, or an error of the transport.\<close>

type_synonym http_post = "string \<Rightarrow> (string \<times> string) list \<Rightarrow> gotext + string"

text \<open>The JSON object of an answer, decoded into a success flag and a score.\<close>

definition reply_fields :: "(rat \<Rightarrow> rat) \<Rightarrow> (bool \<times> rat) field list" where
  "reply_fields fl = [bool_field ''success'' (\<lambda>b p. (b, snd p)), float_field fl ''score'' (\<lambda>x p. (fst p, x))]"

definition decode_reply :: "(rat \<Rightarrow> rat) \<Rightarrow> string \<Rightarrow> (bool \<times> rat) option" where
  "decode_reply fl body = decode_stream (reply_fields fl) (False, 0) body"

definition verify_at ::
  "http_post \<Rightarrow> (rat \<Rightarrow> rat) \<Rightarrow> string \<Rightarrow> string \<Rightarrow> captcha_verifier \<Rightarrow> string \<Rightarrow> gotext + bool \<times> rat" where
  "verify_at post fl url name cv token =
     (case post url [(''secret'', cv_secret cv), (''response'', token)] of
        Inl e \<Rightarrow> Inl (Fmt (name @ '' verify: %w'') [])
      | Inr body \<Rightarrow>
          (case decode_reply fl body of
             None \<Rightarrow> Inl (Fmt (name @ '' decode: %w'') [])
           | Some (success, score) \<Rightarrow> Inr (success \<and> cv_score cv \<le> score, score)))"

definition verify_recaptcha ::
  "http_post \<Rightarrow> (rat \<Rightarrow> rat) \<Rightarrow> captcha_verifier \<Rightarrow> string \<Rightarrow> gotext + bool \<times> rat" where
  "verify_recaptcha post fl cv token =
     verify_at post fl ''https://www.google.com/recaptcha/api/siteverify'' ''recaptcha'' cv token"

definition verify_hcaptcha ::
  "http_post \<Rightarrow> (rat \<Rightarrow> rat) \<Rightarrow> captcha_verifier \<Rightarrow> string \<Rightarrow> gotext + bool \<times> rat" where
  "verify_hcaptcha post fl cv token = verify_at post fl ''https://hcaptcha.com/siteverify'' ''hcaptcha'' cv token"

definition captcha_verify ::
  "http_post \<Rightarrow> (rat \<Rightarrow> rat) \<Rightarrow> captcha_verifier \<Rightarrow> string \<Rightarrow> gotext + bool \<times> rat" where
  "captcha_verify post fl cv token =
     (if cv_provider cv = ''recaptcha'' then verify_recaptcha post fl cv token
      else if cv_provider cv = ''hcaptcha'' then verify_hcaptcha post fl cv token
      else Inl (Fmt ''unsupported captcha provider: %s'' [AStr (cv_provider cv)]))"

definition captcha_token :: "reqctx \<Rightarrow> string" where
  "captcha_token c =
     (let t = header_get (c_request c) ''X-Captcha-Token'' in
      if t = [] then header_get (c_request c) ''X-Recaptcha-Token'' else t)"

definition captcha_result :: "http_post \<Rightarrow> (rat \<Rightarrow> rat) \<Rightarrow> captcha_verifier \<Rightarrow> reqctx \<Rightarrow> insp_result" where
  "captcha_result post fl cv c =
     (if \<not> cv_enabled cv then INil
      else if captcha_token c = [] then INil
      else
        (case captcha_verify post fl cv (captcha_token c) of
           Inl e \<Rightarrow> IErr (Fmt ''captcha verify: %w'' [])
         | Inr (ok, score) \<Rightarrow>
             (if ok then INil
              else IDec (mk_decision ActionBlock ''CAPTCHA001'' ''CAPTCHA Verification Failed'' ''low'' 30
                     (Fmt ''CAPTCHA score %f below threshold %f'' [ARat score, ARat (cv_score cv)])))))"

definition captcha_inspect :: "http_post \<Rightarrow> (rat \<Rightarrow> rat) \<Rightarrow> captcha_verifier \<Rightarrow> unit inspector" where
  "captcha_inspect post fl cv = (\<lambda>now (s, c). ((s, c), captcha_result post fl cv c))"

interpretation captcha: inspector "captcha_inspect post fl cv" for post fl cv
  by unfold_locales
    (auto simp: captcha_inspect_def captcha_result_def ctx_frame_def score_ok_def split: if_splits sum.splits)

section \<open>The response writer\<close>

record response_writer =
  rw_status :: int
  rw_body :: string
  rw_inspect_body :: bool

definition write_header :: "int \<Rightarrow> response_writer \<Rightarrow> response_writer" where
  "write_header code rw = rw\<lparr>rw_status := code\<rparr>"

definition rw_write :: "(string \<Rightarrow> int \<times> gotext option) \<Rightarrow> string \<Rightarrow> response_writer \<Rightarrow> response_writer \<times> int \<times> gotext option" where
  "rw_write w b rw = (if rw_inspect_body rw then rw\<lparr>rw_body := rw_body rw @ b\<rparr> else rw, w b)"

definition response_inspect :: "unit inspector" where
  "response_inspect = stateless (\<lambda>c. None)"

interpretation response: inspector response_inspect
  unfolding response_inspect_def by (rule inspector_stateless) simp

section \<open>SOAP\<close>

record soap_validator =
  sv_enabled :: bool
  sv_strict :: bool
  sv_max_depth :: int

definition new_soap_validator :: "bool \<Rightarrow> int \<Rightarrow> soap_validator" where
  "new_soap_validator strict depth =
     \<lparr>sv_enabled = True, sv_strict = strict, sv_max_depth = (if depth \<le> 0 then 10 else depth)\<rparr>"

fun soap_scan :: "int \<Rightarrow> int \<Rightarrow> int \<Rightarrow> string \<Rightarrow> decision option" where
  "soap_scan limit depth open_tags [] = None"
| "soap_scan limit depth open_tags (b # bs) =
     (if b = CHR ''<'' then
        (if limit < depth + 1
         then Some (mk_decision ActionBlock ''SOAP001'' ''SOAP/XML Depth Exceeded'' ''medium'' 50
                (Fmt ''XML nesting depth exceeded max of %d'' [AInt limit]))
         else soap_scan limit (depth + 1) (open_tags + 1) bs)
      else if b = CHR ''>'' then
        (if open_tags - 1 < 0
         then Some (mk_decision ActionBlock ''SOAP002'' ''Malformed XML'' ''medium'' 50 (Lit ''unexpected closing tag''))
         else soap_scan limit depth (open_tags - 1) bs)
      else soap_scan limit depth open_tags bs)"

definition soap_check :: "soap_validator \<Rightarrow> reqctx \<Rightarrow> decision option" where
  "soap_check sv c =
     (if \<not> sv_enabled sv then None
      else if c_content_type c \<noteq> ''text/xml'' \<and> c_content_type c \<noteq> ''application/soap+xml'' then None
      else soap_scan (sv_max_depth sv) 0 0 (ctx_body c))"

definition soap_inspect :: "soap_validator \<Rightarrow> unit inspector" where
  "soap_inspect sv = stateless (soap_check sv)"

lemma soap_scan_score: "soap_scan limit depth tags bs = Some d \<Longrightarrow> score_ok d"
  by (induction limit depth tags bs rule: soap_scan.induct) (auto simp: score_ok_def split: if_splits)

interpretation soap: inspector "soap_inspect sv" for sv
  unfolding soap_inspect_def
  by (rule inspector_stateless) (auto simp: soap_check_def intro: soap_scan_score split: if_splits)

section \<open>gRPC\<close>

record grpc_counter =
  gk_count :: int
  gk_reset :: gotime

record grpc_inspector =
  gi_enabled :: bool
  gi_max_msg :: int
  gi_rate_limit :: int
  gi_counters :: "string \<rightharpoonup> grpc_counter"

definition new_grpc_inspector :: "int \<Rightarrow> int \<Rightarrow> grpc_inspector" where
  "new_grpc_inspector max_msg rate =
     \<lparr>gi_enabled = True, gi_max_msg = (if max_msg \<le> 0 then 4194304 else max_msg),
      gi_rate_limit = (if rate \<le> 0 then 100 else rate), gi_counters = Map.empty\<rparr>"

text \<open>The counter of a service, and whether the request opens a new minute.\<close>

definition grpc_count :: "gotime \<Rightarrow> grpc_counter option \<Rightarrow> grpc_counter \<times> bool" where
  "grpc_count now k =
     (case k of
        None \<Rightarrow> (\<lparr>gk_count = 1, gk_reset = now\<rparr>, True)
      | Some k \<Rightarrow>
          (if minute < time_sub now (gk_reset k) then (\<lparr>gk_count = 1, gk_reset = now\<rparr>, True)
           else (k\<lparr>gk_count := gk_count k + 1\<rparr>, False)))"

definition is_grpc :: "reqctx \<Rightarrow> bool" where
  "is_grpc c = has_prefix (c_content_type c) ''application/grpc''"

definition grpc_check :: "gotime \<Rightarrow> reqctx \<Rightarrow> grpc_inspector \<Rightarrow> grpc_inspector \<times> decision option" where
  "grpc_check now c gi =
     (if \<not> gi_enabled gi then (gi, None)
      else if \<not> is_grpc c then (gi, None)
      else
        (let (k, fresh) = grpc_count now (gi_counters gi (c_path c));
             gi' = gi\<lparr>gi_counters := (gi_counters gi)(c_path c \<mapsto> k)\<rparr>
         in if fresh then (gi', None)
            else if gi_rate_limit gi < gk_count k
            then (gi', Some (mk_decision ActionRateLimit ''GRPC001'' ''gRPC Rate Limit'' ''medium'' 60
                    (Fmt ''gRPC %s exceeded rate limit of %d req/min'' [AStr (c_path c), AInt (gi_rate_limit gi)])))
            else if gi_max_msg gi < rq_content_length (c_request c)
            then (gi', Some (mk_decision ActionBlock ''GRPC002'' ''gRPC Message Too Large'' ''medium'' 40
                    (Fmt ''gRPC message size %d exceeds max %d''
                      [AInt (rq_content_length (c_request c)), AInt (gi_max_msg gi)])))
            else (gi', None)))"

definition grpc_inspect :: "grpc_inspector inspector" where
  "grpc_inspect = stateful grpc_check"

interpretation grpc: inspector grpc_inspect
  unfolding grpc_inspect_def
  by (rule inspector_stateful) (auto simp: scores_ok_def grpc_check_def score_ok_def Let_def split: prod.splits if_splits)

section \<open>The rate of gRPC calls\<close>

definition grpc_step :: "int \<Rightarrow> gotime \<Rightarrow> grpc_counter option \<Rightarrow> grpc_counter \<times> bool" where
  "grpc_step limit now k = (case grpc_count now k of (k', fresh) \<Rightarrow> (k', fresh \<or> gk_count k' \<le> limit))"

interpretation grpc_window: fixed_window "grpc_step limit" gk_reset gk_count minute limit for limit
  by unfold_locales
    (auto simp: grpc_step_def grpc_count_def time_sub_gt_iff min_duration_def max_duration_def split: if_splits)

text \<open>A run of the inspector, and the instants of the calls of one service that it does not rate-limit.\<close>

fun grpc_run :: "grpc_inspector \<Rightarrow> (gotime \<times> reqctx) list \<Rightarrow> (gotime \<times> reqctx \<times> decision option) list" where
  "grpc_run gi [] = []"
| "grpc_run gi ((now, c) # rs) = (case grpc_check now c gi of (gi', d) \<Rightarrow> (now, c, d) # grpc_run gi' rs)"

definition grpc_call :: "string \<Rightarrow> reqctx \<Rightarrow> bool" where
  "grpc_call p c = (is_grpc c \<and> c_path c = p)"

definition rate_limited :: "decision option \<Rightarrow> bool" where
  "rate_limited d = (case d of None \<Rightarrow> False | Some x \<Rightarrow> d_action x = ActionRateLimit)"

definition grpc_passed :: "string \<Rightarrow> (gotime \<times> reqctx \<times> decision option) list \<Rightarrow> gotime list" where
  "grpc_passed p out = map fst (filter (\<lambda>(now, c, d). grpc_call p c \<and> \<not> rate_limited d) out)"

lemma grpc_passed_Cons:
  "grpc_passed p ((now, c, d) # out) = (if grpc_call p c \<and> \<not> rate_limited d then [now] else []) @ grpc_passed p out"
  by (simp add: grpc_passed_def)

lemma grpc_check_frame:
  assumes "grpc_check now c gi = (gi', d)"
  shows "gi_enabled gi' = gi_enabled gi \<and> gi_rate_limit gi' = gi_rate_limit gi"
    and "\<not> grpc_call p c \<Longrightarrow> gi_counters gi' p = gi_counters gi p"
  using assms by (auto simp: grpc_check_def grpc_call_def Let_def split: if_splits prod.splits)

lemma grpc_check_step:
  assumes "grpc_check now c gi = (gi', d)" "gi_enabled gi" "grpc_call p c"
    and "grpc_step (gi_rate_limit gi) now (gi_counters gi p) = (k, ok)"
  shows "gi_counters gi' p = Some k \<and> rate_limited d = (\<not> ok)"
  using assms by (auto simp: grpc_check_def grpc_call_def grpc_step_def rate_limited_def Let_def split: if_splits prod.splits)

lemma grpc_run_window:
  "gi_enabled gi \<Longrightarrow> grpc_passed p (grpc_run gi rs)
     = fw_run (grpc_step (gi_rate_limit gi)) (gi_counters gi p) (map fst (filter (\<lambda>r. grpc_call p (snd r)) rs))"
proof (induction rs arbitrary: gi)
  case Nil
  then show ?case by (simp add: grpc_passed_def)
next
  case (Cons r rs)
  obtain now c where r: "r = (now, c)" by fastforce
  obtain gi' d where chk: "grpc_check now c gi = (gi', d)" by fastforce
  note frame = grpc_check_frame [OF chk]
  then have ih: "grpc_passed p (grpc_run gi' rs) = fw_run (grpc_step (gi_rate_limit gi)) (gi_counters gi' p)
      (map fst (filter (\<lambda>r. grpc_call p (snd r)) rs))"
    using Cons by simp
  show ?case
  proof (cases "grpc_call p c")
    case False
    then show ?thesis using ih frame(2) [OF False] by (simp add: r chk grpc_passed_Cons)
  next
    case True
    obtain k ok where step: "grpc_step (gi_rate_limit gi) now (gi_counters gi p) = (k, ok)" by fastforce
    from grpc_check_step [OF chk Cons.prems True step] show ?thesis
      using True ih by (simp add: r chk grpc_passed_Cons step)
  qed
qed

text \<open>However the calls of different services are interleaved, in any minute at most twice the
  configured number of calls of one service escapes the rate limit.\<close>

lemma grpc_rate_bound:
  assumes "gi_enabled gi" "gi_counters gi = Map.empty" "sorted (map fst rs)"
  shows "int (in_window minute x (grpc_passed p (grpc_run gi rs))) \<le> 2 * max 1 (gi_rate_limit gi)"
proof -
  have "sorted (map fst (filter (\<lambda>r. grpc_call p (snd r)) rs))" using assms(3) by (induction rs) auto
  then show ?thesis
    using grpc_window.twice_the_limit [of _ x "gi_rate_limit gi"] assms(1,2) by (simp add: grpc_run_window)
qed

section \<open>Tags are counted, not nested\<close>

text \<open>No tag of a text is closed before it is opened, after \<open>n\<close> open tags.\<close>

fun tags_balanced :: "int \<Rightarrow> string \<Rightarrow> bool" where
  "tags_balanced n [] = (0 \<le> n)"
| "tags_balanced n (b # s) =
     (0 \<le> n \<and> tags_balanced (n + (if b = CHR ''<'' then 1 else if b = CHR ''>'' then - 1 else 0)) s)"

lemma tags_balanced_nonneg: "tags_balanced n s \<Longrightarrow> 0 \<le> n"
  by (cases s) simp_all

lemma soap_scan_counts:
  "tags_balanced tags s \<Longrightarrow>
     (case soap_scan limit depth tags s of
        None \<Rightarrow> depth + int (count_list s CHR ''<'') \<le> max limit depth
      | Some d \<Rightarrow> d_rule_id d = ''SOAP001'' \<and> limit < depth + int (count_list s CHR ''<''))"
proof (induction limit depth tags s rule: soap_scan.induct)
  case (2 limit depth tags b bs)
  note bal = "2.prems" [unfolded tags_balanced.simps]
  consider "b = CHR ''<''" "limit < depth + 1" | "b = CHR ''<''" "\<not> limit < depth + 1" | "b = CHR ''>''"
    | "b \<noteq> CHR ''<''" "b \<noteq> CHR ''>''" by blast
  then show ?case
  proof cases
    case 2
    then show ?thesis using "2.IH"(1) bal by (simp add: max_absorb1 split: option.splits)
  next
    case 3
    then have "\<not> tags - 1 < 0" using bal tags_balanced_nonneg by force
    then show ?thesis using "2.IH"(2) bal 3 by (simp split: option.splits)
  next
    case 4
    then show ?thesis using "2.IH"(3) bal by (simp split: option.splits)
  qed simp
qed simp

text \<open>The check for the depth of an XML document measures its length: a document in which no tag is closed
  before it is opened is blocked exactly when it holds more opening angle brackets than the limit, end
  tags included and however flat it is.\<close>

lemma soap_depth_counts_tags:
  assumes "sv_enabled sv" "0 \<le> sv_max_depth sv" "c_content_type c = ''text/xml''" "tags_balanced 0 (ctx_body c)"
  shows "soap_check sv c \<noteq> None \<longleftrightarrow> sv_max_depth sv < int (count_list (ctx_body c) CHR ''<'')"
  using soap_scan_counts [OF assms(4), where limit = "sv_max_depth sv" and depth = 0] assms(1-3)
  by (auto simp: soap_check_def split: option.splits)

section \<open>Witnesses\<close>

definition grpc_request :: reqctx where
  "grpc_request = plain_request\<lparr>c_content_type := ''application/grpc''\<rparr>"

lemma grpc_rate_bound_witness:
  "int (in_window minute 1 (grpc_passed ''/'' (grpc_run (new_grpc_inspector 0 1) [(0, grpc_request), (1, grpc_request)]))) \<le> 2"
  using grpc_rate_bound [of "new_grpc_inspector 0 1" "[(0, grpc_request), (1, grpc_request)]" 1 "''/''"]
  by (simp add: new_grpc_inspector_def)

definition flat_document :: string where
  "flat_document = concat (replicate 6 ''<a></a>'')"

lemma soap_depth_counts_tags_witness:
  "soap_check (new_soap_validator True 10) (plain_request\<lparr>c_content_type := ''text/xml'', c_body := Some flat_document\<rparr>) \<noteq> None
     \<longleftrightarrow> sv_max_depth (new_soap_validator True 10)
       < int (count_list (ctx_body (plain_request\<lparr>c_content_type := ''text/xml'', c_body := Some flat_document\<rparr>)) CHR ''<'')"
proof (rule soap_depth_counts_tags)
  have "tags_balanced 0 flat_document"
    by (simp add: flat_document_def numeral_eq_Suc)
  then show "tags_balanced 0 (ctx_body (plain_request\<lparr>c_content_type := ''text/xml'', c_body := Some flat_document\<rparr>))"
    by (simp add: ctx_body_def)
qed (simp_all add: new_soap_validator_def plain_request_def)

end
