(* ===== verification/Protocol.thy ===== *)
theory Protocol
  imports Targets
begin

text \<open>
  The inspector for anomalies of the HTTP protocol, \<^verbatim>\<open>internal/engine/protocol.go\<close>: malformed and oversized
  headers, request smuggling, WebSocket upgrades, methods, header injection and cookies.
\<close>

definition malformed_re :: rx where
  "malformed_re = Cls False [(0x00, 0x08), (0x0B, 0x0B), (0x0C, 0x0C), (0x0E, 0x1F), (0x7F, 0x7F)]"

definition verb_tampering :: "string list" where
  "verb_tampering = [''CONNECT'', ''TRACE'', ''TRACK'', ''PUT'', ''DELETE'', ''PATCH'', ''PROPFIND'', ''PROPPATCH'', ''MKCOL'',
     ''MOVE'', ''COPY'', ''LOCK'', ''UNLOCK'', ''SEARCH'', ''OPTIONS'', ''HEAD'', ''BIND'', ''REBIND'', ''UNBIND'',
     ''ACL'', ''REPORT'', ''VERSION-CONTROL'', ''CHECKIN'', ''CHECKOUT'', ''UNCHECKOUT'', ''MERGE'', ''BASELINE-CONTROL'',
     ''MKCALENDAR'', ''MKREDIRECTREF'', ''UPDATEREDIRECTREF'']"

definition malformed_header :: "string \<times> string \<Rightarrow> decision option" where
  "malformed_header kv =
     (case kv of (k, v) \<Rightarrow>
        if match_string False malformed_re k \<or> match_string False malformed_re v
        then Some (mk_decision ActionBlock ''PROT002'' ''Malformed HTTP Header'' ''high'' 75
               (Fmt ''malformed header: %s'' [AStr k]))
        else None)"

definition total_header_size :: "header_map \<Rightarrow> nat" where
  "total_header_size hs = sum_list (map (\<lambda>(k, v). length k + length v) hs)"

definition detect_malformed_request :: "reqctx \<Rightarrow> decision option" where
  "detect_malformed_request c =
     (if c_method c = []
      then Some (mk_decision ActionBlock ''PROT001'' ''Missing HTTP Method'' ''high'' 70 (Lit ''http request missing method''))
      else
        (case first_some malformed_header (c_headers c) of
           Some d \<Rightarrow> Some d
         | None \<Rightarrow>
             if 100 < length (c_headers c)
             then Some (mk_decision ActionBlock ''PROT003'' ''Excessive Headers'' ''medium'' 40
                    (Fmt ''too many headers: %d'' [AInt (int (length (c_headers c)))]))
             else if 32000 < total_header_size (c_headers c)
             then Some (mk_decision ActionBlock ''PROT004'' ''Header Size Exceeded'' ''high'' 65
                    (Fmt ''total header size: %d bytes'' [AInt (int (total_header_size (c_headers c)))]))
             else None))"

definition detect_request_smuggling :: "reqctx \<Rightarrow> decision option" where
  "detect_request_smuggling c =
     (let cl = ctx_header c ''Content-Length''; te = ctx_header c ''Transfer-Encoding'' in
      if cl \<noteq> [] \<and> te \<noteq> []
      then Some (mk_decision ActionBlock ''PROT005'' ''Request Smuggling (CL.TE)'' ''critical'' 90
             (Lit ''both content-length and transfer-encoding headers present''))
      else if contains (to_lower te) ''chunked'' then
        (if 0 < count_sub te '',''
         then Some (mk_decision ActionBlock ''PROT006'' ''Request Smuggling (TE.TE)'' ''critical'' 90
                (Fmt ''obfuscated transfer-encoding: %s'' [AStr te]))
         else if contains (to_lower te) ''identity''
         then Some (mk_decision ActionBlock ''PROT007'' ''Transfer-Encoding Obfuscation'' ''high'' 80
                (Lit ''transfer-encoding contains identity''))
         else None)
      else None)"

definition detect_websocket_anomaly :: "reqctx \<Rightarrow> decision option" where
  "detect_websocket_anomaly c =
     (let upgrade = ctx_header c ''Upgrade''; connection = ctx_header c ''Connection'' in
      if to_lower upgrade = ''websocket'' then
        (let version = ctx_header c ''Sec-WebSocket-Version''; key = ctx_header c ''Sec-WebSocket-Key'' in
         if version = [] \<or> key = []
         then Some (mk_decision ActionBlock ''PROT008'' ''Malformed WebSocket Request'' ''high'' 70
                (Lit ''websocket upgrade missing required headers''))
         else if \<not> contains (to_lower connection) ''upgrade''
         then Some (mk_decision ActionBlock ''PROT009'' ''WebSocket Connection Header Missing'' ''high'' 65
                (Lit ''websocket upgrade without connection: upgrade''))
         else None)
      else None)"

definition detect_verb_tampering :: "reqctx \<Rightarrow> decision option" where
  "detect_verb_tampering c =
     (let m = to_upper (c_method c) in
      if m \<in> set verb_tampering
      then Some (mk_decision ActionBlock ''PROT010'' ''HTTP Verb Tampering'' ''high'' 70
             (Fmt ''suspicious HTTP method: %s'' [AStr m]))
      else None)"

definition has_newline :: "string \<Rightarrow> bool" where
  "has_newline v = (contains v [CHR 0x0D, CHR 0x0A] \<or> contains v [CHR 0x0A])"

definition detect_header_injection :: "reqctx \<Rightarrow> decision option" where
  "detect_header_injection c =
     (if list_ex (\<lambda>(k, vs). list_ex has_newline vs) (c_query c)
      then Some (mk_decision ActionBlock ''PROT011'' ''Response Header Injection'' ''critical'' 85
             (Lit ''header injection payload detected''))
      else if list_ex (\<lambda>(k, v). has_newline v) (c_cookies c)
      then Some (mk_decision ActionBlock ''PROT012'' ''Cookie Injection'' ''high'' 80
             (Lit ''cookie header injection detected''))
      else None)"

definition detect_cookie_security :: "reqctx \<Rightarrow> decision option" where
  "detect_cookie_security c =
     (case find (\<lambda>(k, v). 4096 < length k + length v) (c_cookies c) of
        Some (k, v) \<Rightarrow> Some (mk_decision ActionBlock ''PROT013'' ''Oversized Cookie'' ''medium'' 40
                         (Fmt ''cookie %s size exceeds limit'' [AStr k]))
      | None \<Rightarrow>
          (if 50 < length (c_cookies c)
           then Some (mk_decision ActionBlock ''PROT014'' ''Excessive Cookies'' ''medium'' 35
                  (Fmt ''too many cookies: %d'' [AInt (int (length (c_cookies c)))]))
           else None))"

definition protocol_check :: "reqctx \<Rightarrow> decision option" where
  "protocol_check c =
     first_of [detect_malformed_request c, detect_request_smuggling c, detect_websocket_anomaly c,
       detect_verb_tampering c, detect_header_injection c, detect_cookie_security c]"

definition protocol_inspect :: "unit inspector" where
  "protocol_inspect = stateless protocol_check"

text \<open>\<^verbatim>\<open>SanitizeHeaders\<close> deletes a header of the request itself.\<close>

definition sanitize_headers :: "http_request \<Rightarrow> http_request" where
  "sanitize_headers r = r\<lparr>rq_header := AList.delete ''X-Forwarded-For'' (rq_header r)\<rparr>"

lemma protocol_blocks:
  assumes "protocol_check c = Some d"
  shows "d_action d = ActionBlock \<and> 35 \<le> d_score d \<and> d_score d \<le> 90"
proof -
  have mal: "malformed_header kv = Some d \<Longrightarrow> d_action d = ActionBlock \<and> d_score d = 75" for kv
    by (auto simp: malformed_header_def split: prod.splits if_splits)
  from assms consider "detect_malformed_request c = Some d" | "detect_request_smuggling c = Some d"
    | "detect_websocket_anomaly c = Some d" | "detect_verb_tampering c = Some d"
    | "detect_header_injection c = Some d" | "detect_cookie_security c = Some d"
    by (auto simp: protocol_check_def dest!: first_of_SomeD)
  then show ?thesis
  proof cases
    case 1
    then show ?thesis
      by (auto simp: detect_malformed_request_def dest!: first_some_SomeD mal split: if_splits option.splits)
  qed (auto simp: detect_request_smuggling_def detect_websocket_anomaly_def detect_verb_tampering_def
      detect_header_injection_def detect_cookie_security_def Let_def split: if_splits option.splits)
qed

interpretation protocol: inspector protocol_inspect
  unfolding protocol_inspect_def
  by (rule inspector_stateless) (auto simp: score_ok_def dest: protocol_blocks)

section \<open>Canonical header names\<close>

text \<open>
  \<^verbatim>\<open>textproto.CanonicalMIMEHeaderKey\<close>, the form in which \<^verbatim>\<open>net/http\<close> stores the names of headers it has read:
  upper case at the start and after a hyphen, lower case elsewhere.
\<close>

definition token_byte :: "char \<Rightarrow> bool" where
  "token_byte c = (is_upper c \<or> is_lower c \<or> is_digit c \<or> c \<in> set ''!#$%&*+-.^_|~'' \<or> c = CHR 0x27 \<or> c = CHR 0x60)"

fun canonical_from :: "bool \<Rightarrow> string \<Rightarrow> string" where
  "canonical_from up [] = []"
| "canonical_from up (c # cs) = (if up then upper_char c else lower_char c) # canonical_from (c = CHR ''-'') cs"

definition canonical_key :: "string \<Rightarrow> string" where
  "canonical_key s = (if list_all token_byte s then canonical_from True s else s)"

lemma websocket_names_not_canonical:
  "canonical_key ''Sec-WebSocket-Version'' \<noteq> ''Sec-WebSocket-Version''"
  "canonical_key ''Sec-WebSocket-Key'' \<noteq> ''Sec-WebSocket-Key''"
  by code_simp+

lemma context_header_names:
  assumes "new_request_context r = Inr c" "\<forall>kv\<in>set (rq_header (raw_http r)). canonical_key (fst kv) = fst kv"
    and "canonical_key name \<noteq> name"
  shows "ctx_header c name = []"
proof -
  have "c_headers c = map (\<lambda>(k, v). (k, hd v)) (rq_header (raw_http r))"
    using assms(1) by (auto simp: new_request_context_def split: if_splits)
  then have "name \<notin> fst ` set (c_headers c)" using assms(2,3) by force
  then have "map_of (c_headers c) name = None" by (simp add: map_of_eq_None_iff)
  then show ?thesis by (simp add: ctx_header_def al_get_def)
qed

text \<open>No WebSocket connection passes: the names under which the version and the key of an upgrade are looked
  up are not in the canonical form in which the HTTP library stores them, so every upgrade is blocked.\<close>

lemma websocket_upgrades_blocked:
  assumes "new_request_context r = Inr c" "\<forall>kv\<in>set (rq_header (raw_http r)). canonical_key (fst kv) = fst kv"
    and "to_lower (ctx_header c ''Upgrade'') = ''websocket''"
  shows "\<exists>d. protocol_check c = Some d \<and> d_action d = ActionBlock"
proof -
  have "ctx_header c ''Sec-WebSocket-Version'' = []"
    using context_header_names [OF assms(1,2)] websocket_names_not_canonical(1) by blast
  then have "detect_websocket_anomaly c \<noteq> None" using assms(3) by (simp add: detect_websocket_anomaly_def)
  then have "protocol_check c \<noteq> None" by (auto simp: protocol_check_def first_of_None_iff)
  then show ?thesis using protocol_blocks by blast
qed

definition upgrade_request :: raw_request where
  "upgrade_request =
     \<lparr>raw_http = \<lparr>rq_header = [(''Upgrade'', [''websocket'']), (''Connection'', [''Upgrade'']),
        (''Sec-Websocket-Version'', [''13'']), (''Sec-Websocket-Key'', [''dGhlIHNhbXBsZSBub25jZQ==''])],
        rq_content_length = 0, rq_proto = ''HTTP/1.1'', rq_tls = None\<rparr>,
      raw_remote_addr = ''1.2.3.4:5'', raw_user_agent = [], raw_path = ''/ws'', raw_method = ''GET'', raw_host = ''h'',
      raw_cookies = [], raw_query = [], raw_body = None\<rparr>"

lemma websocket_upgrades_blocked_witness:
  "\<exists>d. protocol_check (projr (new_request_context upgrade_request)) = Some d \<and> d_action d = ActionBlock"
proof (rule websocket_upgrades_blocked)
  show "new_request_context upgrade_request = Inr (projr (new_request_context upgrade_request))"
    by (simp add: new_request_context_def upgrade_request_def)
  show "\<forall>kv\<in>set (rq_header (raw_http upgrade_request)). canonical_key (fst kv) = fst kv"
    unfolding upgrade_request_def by code_simp
  show "to_lower (ctx_header (projr (new_request_context upgrade_request)) ''Upgrade'') = ''websocket''"
    by (simp add: new_request_context_def upgrade_request_def ctx_header_def to_lower_def lower_char_def is_upper_def less_eq_char_def)
qed

end
