(* ===== verification/Bot.thy ===== *)
theory Bot
  imports Targets NetIP
begin

text \<open>
  The bot detector, \<^verbatim>\<open>internal/engine/bot.go\<close>. Reverse DNS is an argument: the names of an address, or \<open>None\<close>
  for an error. The order of \<open>good_bots\<close> is the one in which \<^verbatim>\<open>range\<close> happens to visit the map.
\<close>

section \<open>Signatures\<close>

definition good_bots :: "(string \<times> rx) list" where
  "good_bots = [
     (''googlebot'', Alts [Txt ''googlebot'', Seqs [Txt ''google'', Words [''-mobile'', ''bot'', ''adsense'',
       ''structured-data'', ''cloud-platform'']]]),
     (''bingbot'', Words [''bingbot'', ''msnbot'', ''bingpreview'']),
     (''yandexbot'', Words [''yandexbot'', ''yandeximages'', ''yandexmetrika'', ''yandexwebmaster'']),
     (''slurp'', Alts [Seqs [Txt ''yahoo!'', Some1 Space, Txt ''slurp''], Txt ''yahooseeker'']),
     (''baiduspider'', Words [''baiduspider'', ''baidugame'']),
     (''duckduckbot'', Txt ''duckduckbot''),
     (''facebookbot'', Words [''facebookexternalhit'', ''facebookcatalog'', ''facebot'']),
     (''twitterbot'', Txt ''twitterbot''),
     (''linkedinbot'', Txt ''linkedinbot''),
     (''slackbot'', Words [''slackbot'', ''slack-link-expand'']),
     (''discordbot'', Txt ''discordbot''),
     (''telegrambot'', Txt ''telegrambot''),
     (''applebot'', Txt ''applebot''),
     (''semrushbot'', Txt ''semrushbot''),
     (''ahrefsbot'', Txt ''ahrefsbot''),
     (''majestic'', Txt ''majestic-seo''),
     (''pinterest'', Txt ''pinterest''),
     (''cloudflare'', Txt ''cloudflare''),
     (''adidxbot'', Txt ''adidxbot''),
     (''apple-pubsub'', Txt ''apple-pubsub''),
     (''zgrab'', Txt ''zgrab'')]"

definition headless_patterns :: "rx list" where
  "headless_patterns = [Txt ''headless'', Txt ''puppeteer'', Txt ''playwright'', Txt ''selenium'', Txt ''phantomjs'',
     Txt ''htmlunit'', Txt ''phantom'', Txt ''chromium-headless'']"

definition bad_bots :: "string list" where
  "bad_bots = [''masscan'', ''nmap'', ''nessus'', ''openvas'', ''nikto'', ''sqlmap'', ''dirbuster'', ''gobuster'',
     ''wpscan'', ''joomscan'', ''droopescan'', ''acunetix'', ''netsparker'', ''appscan'', ''w3af'',
     ''burpsuite'', ''zap'', ''paros'', ''webinspect'', ''curl'', ''wget'', ''python-requests'', ''aiohttp'',
     ''httpx'', ''httpie'', ''gotthit'', ''fasthttp'', ''scrapy'', ''mechanize'', ''pycurl'', ''libcurl'',
     ''ruby'', ''perl'', ''php'', ''java'', ''okhttp'', ''ktor'', ''unirest'', ''restsharp'', ''axios'',
     ''fetch'', ''superagent'', ''got'', ''node-fetch'', ''undici'', ''needle'', ''zgrab'', ''zmap'',
     ''massdns'', ''chrome-lighthouse'', ''pagespeed'', ''ubermetrics'', ''sumo'', ''domnutch'',
     ''heritrix'', ''gigablast'', ''htdig'', ''findlink'', ''csaw'', ''spbot'', ''survey'', ''research'',
     ''analyzer'']"

definition honeypot_fields :: "string list" where
  "honeypot_fields = [''email'', ''phone'', ''address'', ''website'', ''hp_'', ''honeypot_'', ''botfield_'', ''nocomment'',
     ''url_'', ''website_'']"

section \<open>Checks\<close>

type_synonym reverse_dns = "string \<Rightarrow> string list option"

definition verify_good_bot :: "reverse_dns \<Rightarrow> reqctx \<Rightarrow> bool" where
  "verify_good_bot dns c =
     (case parse_ip (c_real_ip c) of
        None \<Rightarrow> False
      | Some ip \<Rightarrow>
          (case dns (ip_string ip) of
             None \<Rightarrow> False
           | Some [] \<Rightarrow> False
           | Some (name # _) \<Rightarrow> list_ex (\<lambda>(who, r). contains (to_lower name) who) good_bots))"

definition honeypot_hit :: "string \<Rightarrow> bool" where
  "honeypot_hit k =
     (let l = to_lower k in list_ex (\<lambda>f. has_prefix l f \<or> contains l f) honeypot_fields)"

definition detect_honeypot :: "reqctx \<Rightarrow> decision option" where
  "detect_honeypot c =
     (case find (\<lambda>(k, vs). honeypot_hit k) (c_form c) of
        None \<Rightarrow> None
      | Some (k, vs) \<Rightarrow> Some (mk_decision ActionBlock ''BOT005'' ''Honeypot Field Triggered'' ''high'' 75
                          (Fmt ''honeypot field detected: %s'' [AStr k])))"

definition detect_browser_features :: "reqctx \<Rightarrow> decision option" where
  "detect_browser_features c =
     (if ctx_header c ''Accept-Language'' = []
      then Some (mk_decision ActionMonitor ''BOT006'' ''Missing Accept-Language'' ''low'' 15
             (Lit ''no accept-language header from supposedly browser request''))
      else if ctx_header c ''Accept'' = []
      then Some (mk_decision ActionMonitor ''BOT007'' ''Missing Accept Header'' ''low'' 10
             (Lit ''no accept header from supposedly browser request''))
      else None)"

definition bot_signatures :: "reqctx \<Rightarrow> decision option" where
  "bot_signatures c =
     (let ua = c_user_agent c in
      if any_match headless_patterns ua
      then Some (mk_decision ActionBlock ''BOT003'' ''Headless Browser Detected'' ''high'' 70
             (Fmt ''headless browser pattern detected: %s'' [AStr ua]))
      else
        (case find (\<lambda>p. match_string True (Txt p) ua) bad_bots of
           Some p \<Rightarrow> Some (mk_decision ActionBlock ''BOT004'' ''Bad Bot Detected'' ''high'' 80
                      (Fmt ''bad bot signature matched: %s'' [AStr (''(?i)'' @ p)]))
         | None \<Rightarrow> first_of [detect_honeypot c, detect_browser_features c]))"

definition bot_inspect :: "reverse_dns \<Rightarrow> unit inspector" where
  "bot_inspect dns = (\<lambda>now (s, c).
     if c_user_agent c = []
     then ((s, c), IDec (mk_decision ActionMonitor ''BOT001'' ''Missing User-Agent'' ''medium'' 30
             (Lit ''request has no user-agent header'')))
     else
       (case find (\<lambda>(name, r). match_string True r (c_user_agent c)) good_bots of
          Some (name, r) \<Rightarrow>
            (if verify_good_bot dns c then ((s, c\<lparr>c_is_bot := True\<rparr>), INil)
             else ((s, c), IDec (mk_decision ActionChallenge ''BOT002'' ''Unverified Good Bot'' ''medium'' 25
                    (Fmt ''unverified good bot: %s'' [AStr name]))))
        | None \<Rightarrow> ((s, c), result_of (bot_signatures c))))"

lemma bot_signatures_cases:
  assumes "bot_signatures c = Some d"
  shows "d_rule_id d \<in> {''BOT003'', ''BOT004'', ''BOT005'', ''BOT006'', ''BOT007''} \<and> score_ok d
    \<and> (d_rule_id d = ''BOT005'' \<longrightarrow> c_form c \<noteq> [])"
  using assms
  by (auto simp: bot_signatures_def detect_honeypot_def detect_browser_features_def score_ok_def Let_def
      split: if_splits option.splits dest!: first_of_SomeD)

interpretation bot_detector: inspector "bot_inspect dns" for dns
proof
  show "ctx_frame c c'" if "bot_inspect dns now (s, c) = ((s', c'), r)" for dns now s c s' c' r
    using that by (auto simp: bot_inspect_def ctx_frame_def split: if_splits option.splits)
  show "score_ok d" if "bot_inspect dns now (s, c) = ((s', c'), IDec d)" for dns now s c s' c' d
    using that bot_signatures_cases
    by (auto simp: bot_inspect_def score_ok_def [of "mk_decision _ _ _ _ _ _"] result_of_def split: if_splits option.splits)
qed

section \<open>The page\<close>

text \<open>The page of \<^verbatim>\<open>GenerateJSChallenge\<close>, with the identifier of the request as it is. Back quotes stand for double quotes.\<close>

definition generate_js_challenge :: "string \<Rightarrow> string" where
  "generate_js_challenge request_id =
     quoted (lines_text
             [''<!DOCTYPE html>'', ''<html><head><meta charset=`UTF-8`><title>Challenge</title>'', ''<script>'', ''(function(){''] @ CHR 0x09 # ''var challenge = `'') @
     request_id @
     quoted (lines_text
             [''`;'', CHR 0x09 # ''var result = ``;'', CHR 0x09 # ''var chars = `abcdefghijklmnopqrstuvwxyz0123456789`;'',
              CHR 0x09 # ''for(var i=0;i<32;i++){result+=chars.charAt(Math.floor(Math.random()*chars.length));}'',
              CHR 0x09 # ''document.cookie = `challenge=`+result+`:`+challenge+`;path=/;max-age=300`;'',
              CHR 0x09 # ''window.location.reload();'', ''})();'', ''</script>'',
              ''<noscript><meta http-equiv=`refresh` content=`0;url=?noscript=1`></noscript>''] @ ''</head><body>Checking your browser...</body></html>'')"

section \<open>What the detector trusts\<close>

text \<open>A client whose address has a reverse DNS name containing the name of some well-known bot (the owner of
  an address chooses that name, and nothing confirms it) passes with any user agent that claims to be one,
  whatever attack tool, honeypot field or missing header the request shows otherwise.\<close>

lemma reverse_dns_lifts_all_checks:
  assumes "parse_ip (c_real_ip c) = Some ip" "dns (ip_string ip) = Some (name # names)"
    and "(who, r) \<in> set good_bots" "contains (to_lower name) who"
    and "(claim, q) \<in> set good_bots" "match_string True q (c_user_agent c)" "c_user_agent c \<noteq> []"
  shows "bot_inspect dns now (s, c) = ((s, c\<lparr>c_is_bot := True\<rparr>), INil)"
proof -
  have "verify_good_bot dns c"
    using assms(1-4) by (force simp: verify_good_bot_def list_ex_iff)
  moreover have "find (\<lambda>(name, r). match_string True r (c_user_agent c)) good_bots \<noteq> None"
    using assms(5,6) by (auto simp: find_None_iff)
  ultimately show ?thesis using assms(7) by (auto simp: bot_inspect_def)
qed

text \<open>The honeypot never triggers: the context of a request is built without its form fields.\<close>

lemma honeypot_never_triggers:
  assumes "new_request_context r = Inr c" "snd (bot_inspect dns now (s, c)) = IDec d"
  shows "d_rule_id d \<noteq> ''BOT005''"
proof -
  have "c_form c = []" using assms(1) by (auto simp: new_request_context_def split: if_splits)
  then show ?thesis
    using assms(2) bot_signatures_cases [of c d]
    by (auto simp: bot_inspect_def result_of_def split: if_splits option.splits)
qed

section \<open>Witnesses\<close>

definition form_post :: raw_request where
  "form_post = \<lparr>raw_http = \<lparr>rq_header = [], rq_content_length = 7, rq_proto = ''HTTP/1.1'', rq_tls = None\<rparr>,
      raw_remote_addr = ''1.2.3.4:5'', raw_user_agent = [], raw_path = ''/'', raw_method = ''POST'', raw_host = ''h'',
      raw_cookies = [], raw_query = [], raw_body = Some (Some ''email=x'')\<rparr>"

lemma honeypot_never_triggers_witness:
  "d_rule_id (mk_decision ActionMonitor ''BOT001'' ''Missing User-Agent'' ''medium'' 30
     (Lit ''request has no user-agent header'')) \<noteq> ''BOT005''"
  by (rule honeypot_never_triggers [where r = form_post and c = "projr (new_request_context form_post)"
        and dns = "\<lambda>ip. None" and now = 0 and s = "()"])
    (simp_all add: bot_inspect_def new_request_context_def form_post_def)

end
