(* ===== verification/ApiProtect.thy ===== *)
theory ApiProtect
  imports Targets Json
begin

text \<open>
  The protection of APIs, \<^verbatim>\<open>internal/engine/api_protect.go\<close>: sensitive paths, XML entities, GraphQL and gRPC
  traffic, and the register of API endpoints seen so far.
\<close>

section \<open>State and patterns\<close>

record api_protection =
  ap_max_depth :: int
  ap_specs :: json_map
  ap_shadow :: "string \<rightharpoonup> int"

definition new_api_protection :: api_protection where
  "new_api_protection = \<lparr>ap_max_depth = 10, ap_specs = [], ap_shadow = Map.empty\<rparr>"

definition graphql_patterns :: "rx list" where
  "graphql_patterns = [
     Seqs [Txt ''query'', Some1 Space, Some1 WordRune, Many Space, Txt ''{''],
     Seqs [Txt ''mutation'', Some1 Space, Some1 WordRune, Many Space, Txt ''{''],
     Seqs [Txt ''subscription'', Some1 Space, Some1 WordRune, Many Space, Txt ''{''],
     Seqs [Txt ''__schema'', Many Space, Txt ''{''],
     Seqs [Txt ''__type'', Many Space, Txt ''{''],
     Txt ''introspection'',
     Txt ''__typename'']"

definition sensitive_paths :: "rx list" where
  "sensitive_paths = [
     Seqs [Txt ''/api/'', Opt (Txt ''v''), Many Digit, Opt (Txt ''/''), Look TextEnd],
     Words [''/swagger'', ''/docs'', ''/openapi'', ''/api-docs''],
     Txt ''/graphql'',
     Txt ''/grpc'',
     Alts [Seqs [Txt ''/'', Any, Txt ''env''], Txt ''/config'', Txt ''/debug'', Txt ''/admin''],
     Words [''/actuator'', ''/health'', ''/info'', ''/metrics''],
     Words [''/wp-admin'', ''/administrator'', ''/backup''],
     Words [''/.git'', ''/.svn'', ''/.hg''],
     Words [''/*'', ''/.*'']]"

section \<open>Checks\<close>

definition xml_entities :: "reqctx \<Rightarrow> bool" where
  "xml_entities c =
     (contains (ctx_header c ''Content-Type'') ''application/xml'' \<and> c_body c \<noteq> None
      \<and> contains (ctx_body c) ''<'' \<and> (contains (ctx_body c) ''<!ENTITY'' \<or> contains (ctx_body c) ''<!DOCTYPE''))"

definition detect_owasp :: "reqctx \<Rightarrow> decision option" where
  "detect_owasp c =
     (if c_method c = ''OPTIONS'' \<and> c_path c = ''/''
      then Some (mk_decision ActionMonitor ''API001'' ''API Discovery Attempt'' ''medium'' 30
             (Fmt ''OPTIONS / from %s'' [AStr (c_real_ip c)]))
      else if any_match sensitive_paths (c_path c)
      then Some (mk_decision ActionBlock ''API002'' ''Sensitive API Path Access'' ''high'' 70
             (Fmt ''sensitive path access: %s'' [AStr (c_path c)]))
      else if xml_entities c
      then Some (mk_decision ActionBlock ''API003'' ''XXE Injection'' ''critical'' 90
             (Lit ''XML external entity injection detected''))
      else if ctx_header c ''Content-Length'' = ''0'' \<and> c_method c = ''POST'' \<and> contains (c_path c) ''/api/''
      then Some (mk_decision ActionMonitor ''API004'' ''Empty POST to API'' ''low'' 10
             (Fmt ''empty POST body to %s'' [AStr (c_path c)]))
      else None)"

definition graphql_text :: "reqctx \<Rightarrow> string" where
  "graphql_text c = ctx_body c @ concat (map (\<lambda>(k, vs). k @ ''='' @ concat vs @ '' '') (c_query c))"

definition detect_graphql_abuse :: "api_protection \<Rightarrow> reqctx \<Rightarrow> decision option" where
  "detect_graphql_abuse p c =
     (let text = graphql_text c in
      if \<not> contains (c_path c) ''graphql'' \<and> \<not> contains (c_path c) ''gql'' then None
      else if contains text ''__schema'' \<or> contains text ''__type'' \<or> contains text ''introspection''
      then Some (mk_decision ActionBlock ''API005'' ''GraphQL Introspection Blocked'' ''high'' 70
             (Lit ''graphql introspection query blocked''))
      else if contains text ''__typename'' \<and> ap_max_depth p < int (count_sub text ''{'')
      then Some (mk_decision ActionBlock ''API006'' ''GraphQL Query Depth Exceeded'' ''high'' 65
             (Fmt ''graphql query depth exceeds limit of %d'' [AInt (ap_max_depth p)]))
      else if any_match graphql_patterns text
      then Some (mk_decision ActionMonitor ''API007'' ''GraphQL Query Detected'' ''low'' 5 (Lit ''graphql query detected''))
      else None)"

definition detect_grpc :: "reqctx \<Rightarrow> decision option" where
  "detect_grpc c =
     (let ct = ctx_header c ''Content-Type'' in
      if (ct = ''application/grpc'' \<or> has_prefix ct ''application/grpc'') \<and> contains ct ''proto''
      then Some (mk_decision ActionMonitor ''API008'' ''gRPC Request'' ''low'' 5 (Lit ''gRPC request detected''))
      else None)"

definition detect_openapi_abuse :: "reqctx \<Rightarrow> decision option" where
  "detect_openapi_abuse c =
     (if has_suffix (c_path c) ''/'' \<or> has_suffix (c_path c) ''?''
      then Some (mk_decision ActionMonitor ''API009'' ''OpenAPI Schema Violation'' ''low'' 5
             (Fmt ''path format violation: %s'' [AStr (c_path c)]))
      else None)"

text \<open>The endpoint of a versioned path: its first two segments.\<close>

definition api_endpoint :: "string \<Rightarrow> string option" where
  "api_endpoint path =
     (if has_prefix path ''/api/'' \<or> has_prefix path ''/v1/'' \<or> has_prefix path ''/v2/'' then
        (case split_char CHR ''/'' (trim_prefix path ''/'') of
           a # b # _ \<Rightarrow> Some (a @ ''/'' @ b)
         | _ \<Rightarrow> None)
      else None)"

definition detect_shadow_api :: "reqctx \<Rightarrow> api_protection \<Rightarrow> api_protection \<times> decision option" where
  "detect_shadow_api c p =
     (case api_endpoint (c_path c) of
        None \<Rightarrow> (p, None)
      | Some e \<Rightarrow>
          (let n = map_get (ap_shadow p) e 0 + 1; p' = p\<lparr>ap_shadow := (ap_shadow p)(e \<mapsto> n)\<rparr> in
           if n < 2 \<and> n = 1
           then (p', Some (mk_decision ActionMonitor ''API010'' ''Unknown API Endpoint'' ''low'' 10
                  (Fmt ''unknown API endpoint accessed: %s'' [AStr e])))
           else (p', None)))"

definition api_check :: "gotime \<Rightarrow> reqctx \<Rightarrow> api_protection \<Rightarrow> api_protection \<times> decision option" where
  "api_check now c =
     check_chain [\<lambda>p. (p, detect_owasp c), \<lambda>p. (p, detect_graphql_abuse p c), \<lambda>p. (p, detect_grpc c),
       \<lambda>p. (p, detect_openapi_abuse c), detect_shadow_api c]"

definition api_inspect :: "api_protection inspector" where
  "api_inspect = stateful api_check"

definition load_openapi_spec :: "json_map \<Rightarrow> api_protection \<Rightarrow> api_protection" where
  "load_openapi_spec spec p = p\<lparr>ap_specs := spec\<rparr>"

lemma api_scores:
  "detect_owasp c = Some d \<Longrightarrow> score_ok d" "detect_graphql_abuse p c = Some d \<Longrightarrow> score_ok d"
  "detect_grpc c = Some d \<Longrightarrow> score_ok d" "detect_openapi_abuse c = Some d \<Longrightarrow> score_ok d"
  "detect_shadow_api c p = (p', Some d) \<Longrightarrow> score_ok d"
  by (auto simp: detect_owasp_def detect_graphql_abuse_def detect_grpc_def detect_openapi_abuse_def
      detect_shadow_api_def score_ok_def Let_def split: if_splits option.splits)

interpretation api: inspector api_inspect
  unfolding api_inspect_def api_check_def
  by (intro inspector_stateful scores_ok_chain) (auto simp: scores_ok_def dest: api_scores)

section \<open>Which check answers\<close>

lemma api_check_cases:
  assumes "api_check now c p = (p', Some d)"
  shows "p' = p \<and> (detect_owasp c = Some d \<or> detect_graphql_abuse p c = Some d \<or> detect_grpc c = Some d
      \<or> detect_openapi_abuse c = Some d) \<or> detect_shadow_api c p = (p', Some d)"
  using assms by (auto simp: api_check_def split: option.splits prod.splits)

lemma api_check_None:
  assumes "api_check now c p = (p', None)"
  shows "detect_shadow_api c p = (p', None)"
  using assms by (auto simp: api_check_def split: option.splits prod.splits)

lemma owasp_ids:
  "detect_owasp c = Some d \<Longrightarrow> d_rule_id d \<noteq> ''API006''" "detect_owasp c = Some d \<Longrightarrow> d_rule_id d \<noteq> ''API010''"
  by (auto simp: detect_owasp_def split: if_splits)

lemma other_ids:
  "detect_grpc c = Some d \<Longrightarrow> d_rule_id d \<noteq> ''API006''" "detect_openapi_abuse c = Some d \<Longrightarrow> d_rule_id d \<noteq> ''API006''"
  "detect_shadow_api c p = (p', Some d) \<Longrightarrow> d_rule_id d \<noteq> ''API006''"
  "detect_graphql_abuse p c = Some d \<Longrightarrow> d_rule_id d \<noteq> ''API010''"
  "detect_grpc c = Some d \<Longrightarrow> d_rule_id d \<noteq> ''API010''" "detect_openapi_abuse c = Some d \<Longrightarrow> d_rule_id d \<noteq> ''API010''"
  by (auto simp: detect_graphql_abuse_def detect_grpc_def detect_openapi_abuse_def
      detect_shadow_api_def Let_def split: if_splits option.splits)

section \<open>Paths that are never served\<close>

definition docs_words :: "string list" where
  "docs_words = [''/swagger'', ''/docs'', ''/openapi'', ''/api-docs'']"

definition health_words :: "string list" where
  "health_words = [''/actuator'', ''/health'', ''/info'', ''/metrics'']"

definition backup_words :: "string list" where
  "backup_words = [''/wp-admin'', ''/administrator'', ''/backup'']"

definition blocked_words :: "string list" where
  "blocked_words = docs_words @ health_words @ backup_words @ [''/graphql''] @ [''/grpc'']"

lemma sensitive_nth:
  assumes "match_string True (sensitive_paths ! i) v" "i < 9"
  shows "any_match sensitive_paths v"
proof -
  have "sensitive_paths ! i \<in> set sensitive_paths" using assms(2) by (intro nth_mem) (simp add: sensitive_paths_def)
  then show ?thesis using assms(1) unfolding any_match_iff by blast
qed

lemma sensitive_words:
  "sensitive_paths ! 1 = Words docs_words"
  "sensitive_paths ! 2 = Txt ''/graphql''" "sensitive_paths ! 3 = Txt ''/grpc''"
  "sensitive_paths ! 5 = Words health_words"
  "sensitive_paths ! 6 = Words backup_words"
  by (simp_all add: sensitive_paths_def docs_words_def health_words_def backup_words_def)

lemma blocked_words_pattern:
  assumes "w \<in> set blocked_words" and m: "match_string True (Txt w) v"
  shows "any_match sensitive_paths v"
proof -
  from assms(1) consider "w \<in> set docs_words" | "w = ''/graphql''" | "w = ''/grpc''" | "w \<in> set health_words"
    | "w \<in> set backup_words"
    unfolding blocked_words_def set_append by (elim UnE) (simp_all only: list.set insert_iff empty_iff, blast+)
  then show ?thesis
  proof cases
    case 1
    from match_WordsI [OF m 1] show ?thesis unfolding sensitive_words(1) [symmetric] by (rule sensitive_nth) simp
  next
    case 2
    from m show ?thesis unfolding 2 sensitive_words(2) [symmetric] by (rule sensitive_nth) simp
  next
    case 3
    from m show ?thesis unfolding 3 sensitive_words(3) [symmetric] by (rule sensitive_nth) simp
  next
    case 4
    from match_WordsI [OF m 4] show ?thesis unfolding sensitive_words(4) [symmetric] by (rule sensitive_nth) simp
  next
    case 5
    from match_WordsI [OF m 5] show ?thesis unfolding sensitive_words(5) [symmetric] by (rule sensitive_nth) simp
  qed
qed

text \<open>A path that contains \<^verbatim>\<open>/graphql\<close>, \<^verbatim>\<open>/health\<close>, \<^verbatim>\<open>/info\<close> or one of the other words anywhere is always
  blocked, so the inspection of GraphQL traffic under such paths is never reached.\<close>

lemma sensitive_word_blocks_path:
  assumes "w \<in> set blocked_words" "c_path c = a @ w @ b" "ascii (c_path c)"
  shows "\<exists>d. api_check now c p = (p, Some d) \<and> d_rule_id d = ''API002'' \<and> d_action d = ActionBlock"
proof -
  have "match_string True (Txt w) (c_path c)" using match_literal [of a w b] assms(2,3) by simp
  then have "any_match sensitive_paths (c_path c)" using blocked_words_pattern assms(1) by blast
  moreover have "list_all (\<lambda>w. 2 \<le> length w) blocked_words"
    by (simp add: blocked_words_def docs_words_def health_words_def backup_words_def)
  then have "2 \<le> length w" using assms(1) by (simp add: list_all_iff)
  then have "c_path c \<noteq> ''/''" using assms(2) by (auto dest: arg_cong [of _ _ length])
  ultimately show ?thesis by (simp add: api_check_def detect_owasp_def)
qed

text \<open>The depth limit of GraphQL queries is never enforced: its rule wants a text with \<^verbatim>\<open>__typename\<close>, and every
  such text is already reported for \<^verbatim>\<open>__type\<close>.\<close>

lemma graphql_depth_never_checked:
  assumes "api_check now c p = (p', Some d)"
  shows "d_rule_id d \<noteq> ''API006''"
proof -
  have "contains t ''__typename'' \<Longrightarrow> contains t ''__type''" for t
  proof -
    assume "contains t ''__typename''"
    then obtain a b where "t = a @ ''__type'' @ (''name'' @ b)" by (auto simp: contains_iff)
    then show "contains t ''__type''" unfolding contains_iff by blast
  qed
  then have "detect_graphql_abuse p c = Some d \<Longrightarrow> d_rule_id d \<noteq> ''API006''" for p d
    by (auto simp: detect_graphql_abuse_def Let_def split: if_splits)
  then show ?thesis using api_check_cases [OF assms] owasp_ids(1) other_ids(1-3) by fastforce
qed

section \<open>Endpoints are reported once\<close>

fun api_run :: "api_protection \<Rightarrow> (gotime \<times> reqctx) list \<Rightarrow> (reqctx \<times> decision option) list" where
  "api_run p [] = []"
| "api_run p ((now, c) # rs) = (case api_check now c p of (p', d) \<Rightarrow> (c, d) # api_run p' rs)"

definition reports_endpoint :: "string \<Rightarrow> reqctx \<times> decision option \<Rightarrow> bool" where
  "reports_endpoint e r =
     (case r of (c, d) \<Rightarrow> api_endpoint (c_path c) = Some e \<and> (\<exists>x. d = Some x \<and> d_rule_id x = ''API010''))"

lemma shadow_effect:
  assumes "detect_shadow_api c p = (p', d)"
  shows "(ap_shadow p' = ap_shadow p \<and> \<not> reports_endpoint e (c, d))
    \<or> (\<exists>f. ap_shadow p' = (ap_shadow p)(f \<mapsto> map_get (ap_shadow p) f 0 + 1)
        \<and> (reports_endpoint e (c, d) \<longrightarrow> f = e \<and> map_get (ap_shadow p) f 0 = 0))"
proof (cases "api_endpoint (c_path c)")
  case None
  then show ?thesis using assms by (auto simp: detect_shadow_api_def reports_endpoint_def)
next
  case (Some f)
  then have "ap_shadow p' = (ap_shadow p)(f \<mapsto> map_get (ap_shadow p) f 0 + 1)"
    "reports_endpoint e (c, d) \<longrightarrow> f = e \<and> map_get (ap_shadow p) f 0 = 0"
    using assms by (auto simp: detect_shadow_api_def reports_endpoint_def Let_def split: if_splits)
  then show ?thesis by blast
qed

lemma api_check_shadow:
  assumes "api_check now c p = (p', d)"
  shows "(ap_shadow p' = ap_shadow p \<and> \<not> reports_endpoint e (c, d))
    \<or> (\<exists>f. ap_shadow p' = (ap_shadow p)(f \<mapsto> map_get (ap_shadow p) f 0 + 1)
        \<and> (reports_endpoint e (c, d) \<longrightarrow> f = e \<and> map_get (ap_shadow p) f 0 = 0))"
proof (cases "detect_shadow_api c p = (p', d)")
  case True
  then show ?thesis by (rule shadow_effect)
next
  case False
  then obtain x where d: "d = Some x" using assms api_check_None by (cases d) auto
  then have "p' = p" "d_rule_id x \<noteq> ''API010''"
    using api_check_cases [of now c p p' x] False assms owasp_ids(2) other_ids(4-6) by blast+
  then show ?thesis by (simp add: reports_endpoint_def d)
qed

lemma api_run_reports:
  assumes "\<forall>f. 0 \<le> map_get (ap_shadow p) f 0"
  shows "length (filter (reports_endpoint e) (api_run p rs)) \<le> (if map_get (ap_shadow p) e 0 = 0 then 1 else 0)"
  using assms
proof (induction rs arbitrary: p)
  case (Cons r rs)
  obtain now c where r: "r = (now, c)" by fastforce
  obtain p' d where chk: "api_check now c p = (p', d)" by fastforce
  from api_check_shadow [OF chk, of e] consider
      "ap_shadow p' = ap_shadow p" "\<not> reports_endpoint e (c, d)"
    | f where "ap_shadow p' = (ap_shadow p)(f \<mapsto> map_get (ap_shadow p) f 0 + 1)"
        "reports_endpoint e (c, d) \<longrightarrow> f = e \<and> map_get (ap_shadow p) f 0 = 0" by blast
  then show ?case
  proof cases
    case 1
    then show ?thesis using Cons.IH [of p'] Cons.prems by (simp add: r chk)
  next
    case 2
    have nn: "\<forall>g. 0 \<le> map_get (ap_shadow p') g 0"
      using Cons.prems 2(1) by (auto simp: map_get_def split: if_splits option.splits)
    have "0 \<le> map_get (ap_shadow p) f 0" using Cons.prems by blast
    then have "map_get (ap_shadow p') e 0 = (if e = f then map_get (ap_shadow p) e 0 + 1 else map_get (ap_shadow p) e 0)"
      using 2(1) by simp
    then show ?thesis using Cons.IH [OF nn] 2(2) \<open>0 \<le> map_get (ap_shadow p) f 0\<close>
      by (auto simp: r chk split: if_splits)
  qed
qed simp

text \<open>Whatever requests arrive, an endpoint is reported as unknown at most once.\<close>

lemma endpoint_reported_once: "length (filter (reports_endpoint e) (api_run new_api_protection rs)) \<le> 1"
  using api_run_reports [of new_api_protection e rs] by (simp add: new_api_protection_def)

section \<open>Witnesses\<close>

definition health_request :: reqctx where
  "health_request = plain_request\<lparr>c_path := ''/app/health''\<rparr>"

lemma sensitive_word_blocks_path_witness:
  "\<exists>d. api_check 0 health_request new_api_protection = (new_api_protection, Some d)
     \<and> d_rule_id d = ''API002'' \<and> d_action d = ActionBlock"
  by (rule sensitive_word_blocks_path [where w = "''/health''" and a = "''/app''" and b = "[]"])
    (simp_all add: health_request_def ascii_def blocked_words_def health_words_def)

end
