(* ===== verification/Adaptive.thy ===== *)
theory Adaptive
  imports WafTypes
begin

text \<open>
  Adaptive challenges, \<^verbatim>\<open>internal/engine/adaptive.go\<close>: the score of an address decides on a level of challenge,
  which only rises until the clean-up forgets the address. The random tokens are an argument, a function of
  the instant and the address. The page with the script of a challenge is not modelled.
\<close>

section \<open>State\<close>

datatype challenge_level = ChallengeNone | ChallengeJS | ChallengeCAPTCHA | ChallengeTarpit | ChallengeBlock

instantiation challenge_level :: linorder
begin

definition level_number :: "challenge_level \<Rightarrow> nat" where
  "level_number l = (case l of ChallengeNone \<Rightarrow> 0 | ChallengeJS \<Rightarrow> 1 | ChallengeCAPTCHA \<Rightarrow> 2 | ChallengeTarpit \<Rightarrow> 3
     | ChallengeBlock \<Rightarrow> 4)"

definition less_eq_challenge_level :: "challenge_level \<Rightarrow> challenge_level \<Rightarrow> bool" where
  "less_eq_challenge_level a b = (level_number a \<le> level_number b)"

definition less_challenge_level :: "challenge_level \<Rightarrow> challenge_level \<Rightarrow> bool" where
  "less_challenge_level a b = (level_number a < level_number b)"

lemma level_number_inj: "level_number a = level_number b \<Longrightarrow> a = b"
  by (cases a; cases b) (simp_all add: level_number_def)

instance
  by standard (auto simp: less_eq_challenge_level_def less_challenge_level_def intro: level_number_inj)

end

lemmas level_order = less_eq_challenge_level_def less_challenge_level_def level_number_def

lemma block_is_top [simp]: "ChallengeBlock \<le> l \<longleftrightarrow> l = ChallengeBlock" "\<not> ChallengeBlock < l"
  by (cases l; simp add: level_order)+

record challenge_state =
  cs_score :: rat
  cs_last_seen :: gotime
  cs_level :: challenge_level
  cs_requests :: int

record issued_challenge =
  ic_token :: string
  ic_ip :: string
  ic_level :: challenge_level
  ic_expires :: gotime
  ic_solved :: bool

record adaptive_challenge =
  ac_tarpit :: duration
  ac_captcha_score :: rat
  ac_ttl :: duration
  ac_scores :: "string \<rightharpoonup> challenge_state"
  ac_challenges :: "string \<rightharpoonup> issued_challenge"

definition new_adaptive :: "int \<Rightarrow> rat \<Rightarrow> int \<Rightarrow> adaptive_challenge" where
  "new_adaptive tarpit_ms captcha ttl =
     \<lparr>ac_tarpit = int64 (tarpit_ms * millisecond), ac_captcha_score = captcha, ac_ttl = int64 (ttl * second),
      ac_scores = Map.empty, ac_challenges = Map.empty\<rparr>"

definition fresh_state :: challenge_state where
  "fresh_state = \<lparr>cs_score = 0, cs_last_seen = zero_time, cs_level = ChallengeNone, cs_requests = 0\<rparr>"

section \<open>Operations\<close>

definition determine_level :: "rat \<Rightarrow> challenge_level" where
  "determine_level score =
     (if 90 \<le> score then ChallengeBlock
      else if 70 \<le> score then ChallengeTarpit
      else if 50 \<le> score then ChallengeCAPTCHA
      else if 20 \<le> score then ChallengeJS else ChallengeNone)"

text \<open>\<^verbatim>\<open>X-Challenge-Token\<close>: a token that is still stored is redeemed and forgotten.\<close>

definition redeem_token :: "string \<Rightarrow> adaptive_challenge \<Rightarrow> adaptive_challenge option" where
  "redeem_token token ac =
     (if token = [] then None
      else
        (case ac_challenges ac token of
           None \<Rightarrow> None
         | Some ch \<Rightarrow> if ic_solved ch then None else Some (ac\<lparr>ac_challenges := map_del (ac_challenges ac) token\<rparr>)))"

definition solved_decision :: "string \<Rightarrow> string \<Rightarrow> decision" where
  "solved_decision ip token =
     mk_decision ActionAllow ''ADAPT_000'' ''Challenge Solved'' ''info'' 0
       (Fmt ''challenge solved for IP %s via token %s'' [AStr ip, AStr token])"

definition block_decision :: "string \<Rightarrow> rat \<Rightarrow> decision" where
  "block_decision ip score =
     mk_decision ActionBlock ''ADAPT_004'' ''Adaptive Block'' ''critical'' 95
       (Fmt ''IP %s blocked after adaptive escalation (score=%.1f)'' [AStr ip, ARat score])"

definition get_or_create_state :: "string \<Rightarrow> adaptive_challenge \<Rightarrow> challenge_state" where
  "get_or_create_state ip ac = map_get (ac_scores ac) ip fresh_state"

text \<open>The state of an address after a request: counted, and, unless it is blocked, scored and raised to its level.\<close>

definition raise_state :: "gotime \<Rightarrow> rat \<Rightarrow> challenge_state \<Rightarrow> challenge_state" where
  "raise_state now threat st =
     (let score = (if threat \<le> 0 then cs_score st else threat); level = determine_level score in
      st\<lparr>cs_score := score, cs_last_seen := now, cs_level := (if cs_level st < level then level else cs_level st)\<rparr>)"

definition store_challenge ::
  "gotime \<Rightarrow> string \<Rightarrow> string \<Rightarrow> challenge_level \<Rightarrow> adaptive_challenge \<Rightarrow> adaptive_challenge" where
  "store_challenge now token ip level ac =
     ac\<lparr>ac_challenges := (ac_challenges ac)(token \<mapsto>
       \<lparr>ic_token = token, ic_ip = ip, ic_level = level, ic_expires = now + ac_ttl ac, ic_solved = False\<rparr>)\<rparr>"

definition escalate ::
  "(gotime \<Rightarrow> string \<Rightarrow> string) \<Rightarrow> gotime \<Rightarrow> string \<Rightarrow> challenge_state \<Rightarrow> adaptive_challenge \<times> reqctx
     \<Rightarrow> (adaptive_challenge \<times> reqctx) \<times> decision option" where
  "escalate issue now ip st p =
     (case p of (ac, c) \<Rightarrow>
        case cs_level st of
          ChallengeNone \<Rightarrow> ((ac, c), None)
        | ChallengeJS \<Rightarrow>
            ((store_challenge now (issue now ip) ip ChallengeJS ac, c\<lparr>c_status := None\<rparr>),
             Some (mk_decision ActionChallenge ''ADAPT_001'' ''JS Challenge'' ''medium'' 30
               (Fmt ''JS challenge issued for IP %s (score=%.1f)'' [AStr ip, ARat (cs_score st)])))
        | ChallengeCAPTCHA \<Rightarrow>
            ((store_challenge now (issue now ip) ip ChallengeCAPTCHA ac, c),
             Some (mk_decision ActionChallenge ''ADAPT_002'' ''CAPTCHA Challenge'' ''high'' 60
               (Fmt ''CAPTCHA challenge issued for IP %s (score=%.1f)'' [AStr ip, ARat (cs_score st)])))
        | ChallengeTarpit \<Rightarrow>
            ((ac, c), Some (mk_decision ActionMonitor ''ADAPT_003'' ''Tarpit Applied'' ''high'' 80
               (Fmt ''tarpit delay of %v applied to IP %s (score=%.1f)''
                 [ADur (ac_tarpit ac), AStr ip, ARat (cs_score st)])))
        | ChallengeBlock \<Rightarrow> ((ac, c), Some (block_decision ip (cs_score st))))"

definition adaptive_check ::
  "(gotime \<Rightarrow> string \<Rightarrow> string) \<Rightarrow> gotime \<Rightarrow> adaptive_challenge \<times> reqctx
     \<Rightarrow> (adaptive_challenge \<times> reqctx) \<times> decision option" where
  "adaptive_check issue now p =
     (case p of (ac, c) \<Rightarrow>
        let ip = c_real_ip c; token = header_get (c_request c) ''X-Challenge-Token'' in
        if ip = [] then ((ac, c), None)
        else
          case redeem_token token ac of
            Some ac' \<Rightarrow> ((ac', c), Some (solved_decision ip token))
          | None \<Rightarrow>
              (let st = get_or_create_state ip ac; st1 = st\<lparr>cs_requests := cs_requests st + 1\<rparr> in
               if ChallengeBlock \<le> cs_level st1
               then ((ac\<lparr>ac_scores := (ac_scores ac)(ip \<mapsto> st1)\<rparr>, c), Some (block_decision ip (cs_score st1)))
               else
                 (let st2 = raise_state now (c_threat c) st1
                  in escalate issue now ip st2 (ac\<lparr>ac_scores := (ac_scores ac)(ip \<mapsto> st2)\<rparr>, c))))"

definition adaptive_inspect :: "(gotime \<Rightarrow> string \<Rightarrow> string) \<Rightarrow> adaptive_challenge inspector" where
  "adaptive_inspect issue = (\<lambda>now p. case adaptive_check issue now p of (p', d) \<Rightarrow> (p', result_of d))"

definition record_event :: "gotime \<Rightarrow> string \<Rightarrow> rat \<Rightarrow> adaptive_challenge \<Rightarrow> adaptive_challenge" where
  "record_event now ip score ac =
     ac\<lparr>ac_scores := (ac_scores ac)(ip \<mapsto> (get_or_create_state ip ac)\<lparr>cs_score := score, cs_last_seen := now\<rparr>)\<rparr>"

definition adaptive_cleanup :: "gotime \<Rightarrow> adaptive_challenge \<Rightarrow> adaptive_challenge" where
  "adaptive_cleanup now ac =
     ac\<lparr>ac_challenges := map_expire (\<lambda>ch. ic_expires ch < now) (ac_challenges ac),
        ac_scores := map_expire (\<lambda>st. cs_last_seen st + int64 (ac_ttl ac * 2) < now) (ac_scores ac)\<rparr>"

lemma escalate_frame:
  assumes "escalate issue now ip st (ac, c) = ((ac', c'), d)"
  shows "ctx_frame c c' \<and> ac_scores ac' = ac_scores ac \<and> (\<forall>x. d = Some x \<longrightarrow> score_ok x)
    \<and> (cs_level st = ChallengeBlock \<longrightarrow> d = Some (block_decision ip (cs_score st)))"
  using assms
  by (auto simp: escalate_def store_challenge_def ctx_frame_def score_ok_def block_decision_def split: challenge_level.splits)

lemma adaptive_check_frame:
  assumes "adaptive_check issue now (ac, c) = ((ac', c'), d)"
  shows "ctx_frame c c' \<and> (\<forall>x. d = Some x \<longrightarrow> score_ok x)"
proof (cases "c_real_ip c = [] \<or> redeem_token (header_get (c_request c) ''X-Challenge-Token'') ac \<noteq> None
    \<or> cs_level (get_or_create_state (c_real_ip c) ac) = ChallengeBlock")
  case True
  then show ?thesis using assms
    by (auto simp: adaptive_check_def Let_def ctx_frame_def score_ok_def block_decision_def solved_decision_def
        split: if_splits option.splits)
next
  case False
  then show ?thesis using assms escalate_frame by (auto simp: adaptive_check_def Let_def)
qed

interpretation adaptive: inspector "adaptive_inspect issue" for issue
proof
  show "ctx_frame c c'" if "adaptive_inspect issue now (s, c) = ((s', c'), r)" for issue now s c s' c' r
    using that adaptive_check_frame by (auto simp: adaptive_inspect_def split: prod.splits)
  show "score_ok d" if "adaptive_inspect issue now (s, c) = ((s', c'), IDec d)" for issue now s c s' c' d
    using that adaptive_check_frame by (auto simp: adaptive_inspect_def result_of_def split: prod.splits option.splits)
qed

section \<open>The page\<close>

text \<open>The page that is to try the browser; token and path are inserted as they are. Back quotes stand for double quotes.\<close>

definition page_start :: string where
  "page_start =
     quoted (lines_text
             [''<!DOCTYPE html>'', ''<html>'', ''<head><title>Security Check</title>'', ''<style>'',
              ''*{margin:0;padding:0;box-sizing:border-box}'',
              ''body{display:flex;justify-content:center;align-items:center;min-height:100vh;background:#1a1a2e;font-family:system-ui,monospace;color:#e0e0e0}'',
              ''.card{text-align:center;padding:3rem;border:3px solid #e94560;background:#16213e;max-width:480px;width:90%}'',
              ''.card h2{color:#e94560;margin-bottom:1rem;font-size:1.5rem}'',
              ''.spinner{width:40px;height:40px;border:4px solid #333;border-top:4px solid #e94560;border-radius:50%;animation:spin 1s linear infinite;margin:1.5rem auto}'',
              ''@keyframes spin{to{transform:rotate(360deg)}}'', ''.card p{color:#aaa;font-size:0.9rem;line-height:1.5}'',
              ''.card .footer{margin-top:1.5rem;font-size:0.8rem;color:#666}'', ''</style>'', ''</head>'', ''<body>'',
              ''<div class=`card`>'', ''<h2>Security Verification</h2>'', ''<div class=`spinner`></div>'',
              ''<p>Please wait while we verify your browser environment.</p>'', ''<p id=`status`>Initializing...</p>'',
              ''<div class=`footer`>FortressWAF &bull; Adaptive Challenge</div>'', ''</div>'',
              ''<form id=`cf` action=`/__challenge` method=`POST` style=`display:none`>''] @ ''<input type=`hidden` name=`challenge_token` value=`'')"

definition page_middle :: string where
  "page_middle =
     quoted (lines_text
             [''`>''] @ ''<input type=`hidden` name=`original_path` value=`'')"

definition page_end :: string where
  "page_end =
     quoted (lines_text
             [''`>'', ''</form>'', ''<script>'', ''(function(){'', ''var results = [];'', ''var checks = 0;'', ''var required = 4;'',
              ''var elapsed = Date.now() - (new Date()).getTimezoneOffset()*60000;'', ''var start = Date.now();'',
              ''var ua = navigator.userAgent.toLowerCase();'', ''var pf = navigator.platform.toLowerCase();'', '''',
              ''results.push(ua.length > 10 ? 1 : 0);'', ''results.push(pf.length > 0 ? 1 : 0);'', '''', ''var img = new Image();'',
              ''var imgChecked = false;'',
              ''img.onload = img.onerror = function(){ if(!imgChecked){ imgChecked=true; results.push(1); checks++; } };'',
              ''setTimeout(function(){ if(!imgChecked){ imgChecked=true; results.push(0); checks++; } }, 500);'', '''',
              ''var canvas = document.createElement('canvas');'', ''canvas.width = 200; canvas.height = 50;'',
              ''var ctx = canvas.getContext('2d');'', ''ctx.fillText('fortress', 10, 30);'', ''var imgData = canvas.toDataURL();'',
              ''results.push(imgData.length > 100 ? 1 : 0);'', '''',
              ''var cpuCores = (navigator.hardwareConcurrency || 1) > 1 ? 1 : 0;'', ''results.push(cpuCores);'', '''',
              ''var webdriver = navigator.webdriver ? 0 : 1;'', ''results.push(webdriver);'', '''',
              ''var pluginsLen = navigator.plugins.length > 0 ? 1 : 0;'', ''results.push(pluginsLen);'', '''',
              ''checks += required;'', ''var score = results.reduce(function(a,b){return a+b},0);'',
              ''var maxScore = results.length;'', '''', ''function submitForm(){'',
              ''document.getElementById('status').textContent = 'Verification complete. Redirecting...';'',
              ''setTimeout(function(){'', ''document.getElementById('cf').submit();'', ''}, 500);'', ''}'', '''',
              ''var waitTime = Math.max(1500, (Date.now() - start));'', ''if(score >= maxScore * 0.6 && waitTime >= 1500){'',
              ''document.getElementById('status').textContent = 'Browser verification passed.';'', ''submitForm();'', ''} else {'',
              ''document.getElementById('status').textContent = 'Additional checks required...';'',
              ''setTimeout(function(){ document.getElementById('status').textContent = 'Verifying...'; }, 2000);'',
              ''setTimeout(submitForm, 3000);'', ''}'', ''})();'', ''</script>'', ''<noscript>'',
              ''<div style=`text-align:center;padding:2rem`>'', ''<p>JavaScript is required to pass the security check.</p>'',
              ''<p><a href=`/`>Reload page</a></p>'', ''</div>'', ''</noscript>'', ''</body>''] @ ''</html>'')"

definition js_challenge_page :: "string \<Rightarrow> string \<Rightarrow> string" where
  "js_challenge_page token path = page_start @ token @ page_middle @ path @ page_end"

section \<open>Histories\<close>

datatype adaptive_event = Req gotime reqctx | Scored gotime string rat | Cleanup gotime

text \<open>The decisions on the requests of a history, and the state after it.\<close>

fun adaptive_run ::
  "(gotime \<Rightarrow> string \<Rightarrow> string) \<Rightarrow> adaptive_challenge \<Rightarrow> adaptive_event list
     \<Rightarrow> adaptive_challenge \<times> (reqctx \<times> decision option) list" where
  "adaptive_run issue ac [] = (ac, [])"
| "adaptive_run issue ac (Req now c # es) =
     (case adaptive_check issue now (ac, c) of
        ((ac', _), d) \<Rightarrow> (case adaptive_run issue ac' es of (ac'', ds) \<Rightarrow> (ac'', (c, d) # ds)))"
| "adaptive_run issue ac (Scored now ip score # es) = adaptive_run issue (record_event now ip score ac) es"
| "adaptive_run issue ac (Cleanup now # es) = adaptive_run issue (adaptive_cleanup now ac) es"

definition has_token :: "reqctx \<Rightarrow> bool" where
  "has_token c = (header_get (c_request c) ''X-Challenge-Token'' \<noteq> [])"

definition tokenless :: "adaptive_event \<Rightarrow> bool" where
  "tokenless e = (case e of Req now c \<Rightarrow> \<not> has_token c | _ \<Rightarrow> True)"

lemma no_redeem: "\<not> has_token c \<Longrightarrow> redeem_token (header_get (c_request c) ''X-Challenge-Token'') ac = None"
  by (simp add: redeem_token_def has_token_def)

text \<open>States that differ in their stored challenges only.\<close>

definition same_scores :: "adaptive_challenge \<Rightarrow> adaptive_challenge \<Rightarrow> bool" where
  "same_scores a b = (ac_tarpit a = ac_tarpit b \<and> ac_ttl a = ac_ttl b \<and> ac_scores a = ac_scores b)"

lemma escalate_same:
  assumes "same_scores a b"
    and "escalate issue now ip st (a, c) = ((a', c'), d)" "escalate issue' now ip st (b, c) = ((b', c''), d')"
  shows "same_scores a' b' \<and> d = d'"
  using assms by (auto simp: escalate_def same_scores_def store_challenge_def split: challenge_level.splits)

lemma adaptive_check_same:
  assumes "same_scores a b" "\<not> has_token c"
    and "adaptive_check issue now (a, c) = ((a', c'), d)" "adaptive_check issue' now (b, c) = ((b', c''), d')"
  shows "same_scores a' b' \<and> d = d'"
proof -
  have eq: "get_or_create_state ip a = get_or_create_state ip b" for ip
    using assms(1) by (simp add: get_or_create_state_def same_scores_def)
  show ?thesis
  proof (cases "c_real_ip c = [] \<or> cs_level (get_or_create_state (c_real_ip c) b) = ChallengeBlock")
    case True
    then show ?thesis using assms by (auto simp: adaptive_check_def Let_def no_redeem same_scores_def eq split: if_splits)
  next
    case False
    let ?st = "raise_state now (c_threat c) ((get_or_create_state (c_real_ip c) b)
      \<lparr>cs_requests := cs_requests (get_or_create_state (c_real_ip c) b) + 1\<rparr>)"
    let ?a = "a\<lparr>ac_scores := (ac_scores a)(c_real_ip c \<mapsto> ?st)\<rparr>" and ?b = "b\<lparr>ac_scores := (ac_scores b)(c_real_ip c \<mapsto> ?st)\<rparr>"
    have "same_scores ?a ?b" using assms(1) by (simp add: same_scores_def)
    moreover have "escalate issue now (c_real_ip c) ?st (?a, c) = ((a', c'), d)"
      using assms(2,3) False by (simp add: adaptive_check_def Let_def no_redeem eq)
    moreover have "escalate issue' now (c_real_ip c) ?st (?b, c) = ((b', c''), d')"
      using assms(2,4) False by (simp add: adaptive_check_def Let_def no_redeem)
    ultimately show ?thesis by (rule escalate_same)
  qed
qed

lemma adaptive_run_same:
  "same_scores a b \<Longrightarrow> list_all tokenless es \<Longrightarrow> snd (adaptive_run issue a es) = snd (adaptive_run issue' b es)"
proof (induction es arbitrary: a b)
  case (Cons e es)
  show ?case
  proof (cases e)
    case (Req now c)
    obtain a' c' d where a: "adaptive_check issue now (a, c) = ((a', c'), d)" by (metis prod.exhaust)
    obtain b' c'' d' where b: "adaptive_check issue' now (b, c) = ((b', c''), d')" by (metis prod.exhaust)
    have "same_scores a' b' \<and> d = d'"
      using adaptive_check_same [OF Cons.prems(1) _ a b] Cons.prems(2) by (simp add: Req tokenless_def)
    then show ?thesis using Cons.IH [of a' b'] Cons.prems(2)
      by (cases "adaptive_run issue a' es"; cases "adaptive_run issue' b' es") (simp add: Req a b)
  next
    case (Scored now ip score)
    have "same_scores (record_event now ip score a) (record_event now ip score b)"
      using Cons.prems(1) by (simp add: same_scores_def record_event_def get_or_create_state_def)
    then show ?thesis using Cons by (simp add: Scored)
  next
    case (Cleanup now)
    have "same_scores (adaptive_cleanup now a) (adaptive_cleanup now b)"
      using Cons.prems(1) by (simp add: same_scores_def adaptive_cleanup_def)
    then show ?thesis using Cons by (simp add: Cleanup)
  qed
qed simp

text \<open>The tokens of the challenges never leave the server: as long as nobody presents a token, all decisions of
  a history are the same whatever tokens are issued. A client that is challenged has no token to answer with.\<close>

lemma answers_hide_tokens:
  assumes "list_all tokenless es"
  shows "snd (adaptive_run issue ac es) = snd (adaptive_run issue' ac es)"
  using adaptive_run_same [of ac ac es issue issue'] assms by (simp add: same_scores_def)

section \<open>Blocking\<close>

definition blocked_since :: "string \<Rightarrow> gotime \<Rightarrow> adaptive_challenge \<Rightarrow> bool" where
  "blocked_since ip t ac = (\<exists>st. ac_scores ac ip = Some st \<and> cs_level st = ChallengeBlock \<and> cs_last_seen st = t)"

lemma adaptive_check_blocked:
  assumes "adaptive_check issue now (ac, c) = ((ac', c'), d)" "blocked_since ip t ac"
  shows "blocked_since ip t ac'"
    and "c_real_ip c = ip \<Longrightarrow> ip \<noteq> [] \<Longrightarrow> \<not> has_token c \<Longrightarrow> \<exists>x. d = Some x \<and> d_action x = ActionBlock"
proof -
  show "\<exists>x. d = Some x \<and> d_action x = ActionBlock" if "c_real_ip c = ip" "ip \<noteq> []" "\<not> has_token c"
    using assms that
    by (auto simp: adaptive_check_def Let_def no_redeem blocked_since_def get_or_create_state_def map_get_def
        block_decision_def)
  show "blocked_since ip t ac'"
  proof (cases "c_real_ip c = [] \<or> redeem_token (header_get (c_request c) ''X-Challenge-Token'') ac \<noteq> None
      \<or> cs_level (get_or_create_state (c_real_ip c) ac) = ChallengeBlock")
    case True
    then show ?thesis using assms
      by (auto simp: adaptive_check_def Let_def blocked_since_def get_or_create_state_def map_get_def redeem_token_def
          split: if_splits option.splits)
  next
    case False
    then have "c_real_ip c \<noteq> ip" using assms(2) by (auto simp: blocked_since_def get_or_create_state_def map_get_def)
    moreover have "\<exists>st. ac_scores ac' = (ac_scores ac)(c_real_ip c \<mapsto> st)"
      using assms(1) False escalate_frame by (fastforce simp: adaptive_check_def Let_def)
    ultimately show ?thesis using assms(2) by (auto simp: blocked_since_def)
  qed
qed

definition is_request :: "adaptive_event \<Rightarrow> bool" where
  "is_request e = (case e of Req now c \<Rightarrow> True | _ \<Rightarrow> False)"

lemma adaptive_run_blocked:
  assumes "adaptive_run issue ac es = (ac', ds)" "list_all is_request es" "list_all tokenless es"
    and "blocked_since ip t ac" "ip \<noteq> []"
  shows "blocked_since ip t ac' \<and> list_all (\<lambda>(c, d). c_real_ip c = ip \<longrightarrow> (\<exists>x. d = Some x \<and> d_action x = ActionBlock)) ds"
  using assms
proof (induction es arbitrary: ac ds)
  case (Cons e es)
  from Cons.prems(2) obtain now c where e: "e = Req now c" by (cases e) (auto simp: is_request_def)
  obtain a c' d where a: "adaptive_check issue now (ac, c) = ((a, c'), d)" by (metis prod.exhaust)
  obtain ds' where ds': "adaptive_run issue a es = (ac', ds')" "ds = (c, d) # ds'"
    using Cons.prems(1) by (auto simp: e a split: prod.splits)
  have "\<not> has_token c" using Cons.prems(3) by (simp add: e tokenless_def)
  then have "c_real_ip c = ip \<longrightarrow> (\<exists>x. d = Some x \<and> d_action x = ActionBlock)"
    using adaptive_check_blocked(2) [OF a Cons.prems(4)] Cons.prems(5) by blast
  moreover have "blocked_since ip t a" using adaptive_check_blocked(1) [OF a Cons.prems(4)] .
  ultimately show ?case using Cons.IH [OF ds'(1)] Cons.prems(2,3,5) ds'(2) by simp
qed simp

text \<open>A blocked address stays blocked through any history of requests, its own and those of others; but its
  requests do not renew the block: the first clean-up after twice the lifetime of a challenge forgets it,
  however many requests it sends meanwhile.\<close>

lemma block_is_not_renewed:
  assumes "adaptive_run issue ac es = (ac', ds)" "list_all is_request es" "list_all tokenless es"
    and "blocked_since ip t ac" "ip \<noteq> []" and "t + int64 (ac_ttl ac' * 2) < now"
  shows "list_all (\<lambda>(c, d). c_real_ip c = ip \<longrightarrow> (\<exists>x. d = Some x \<and> d_action x = ActionBlock)) ds
    \<and> ac_scores (adaptive_cleanup now ac') ip = None"
  using adaptive_run_blocked [OF assms(1-5)] assms(6)
  by (auto simp: blocked_since_def adaptive_cleanup_def map_expire_def)

section \<open>Witnesses\<close>

definition hot_request :: reqctx where
  "hot_request = plain_request\<lparr>c_threat := 95\<rparr>"

definition demo_adaptive :: adaptive_challenge where
  "demo_adaptive = new_adaptive 100 (1/2) 300"

lemma answers_hide_tokens_witness:
  "snd (adaptive_run (\<lambda>t ip. ''x'') demo_adaptive [Req 0 hot_request, Cleanup 1])
     = snd (adaptive_run (\<lambda>t ip. ''y'') demo_adaptive [Req 0 hot_request, Cleanup 1])"
  by (rule answers_hide_tokens)
    (simp add: tokenless_def has_token_def hot_request_def plain_request_def header_get_def header_values_def)

definition blocked_adaptive :: "int \<Rightarrow> adaptive_challenge" where
  "blocked_adaptive n = demo_adaptive\<lparr>ac_scores :=
     [''1.2.3.4'' \<mapsto> \<lparr>cs_score = 95, cs_last_seen = 0, cs_level = ChallengeBlock, cs_requests = n\<rparr>]\<rparr>"

lemma hot_request_blocked:
  "adaptive_check issue 0 (demo_adaptive, hot_request) = ((blocked_adaptive 1, hot_request), Some (block_decision ''1.2.3.4'' 95))"
  by (simp add: adaptive_check_def blocked_adaptive_def demo_adaptive_def new_adaptive_def hot_request_def plain_request_def
      header_get_def header_values_def redeem_token_def get_or_create_state_def map_get_def fresh_state_def raise_state_def
      determine_level_def escalate_def level_order Let_def)

lemma blocked_again:
  "adaptive_check issue 1 (blocked_adaptive 1, hot_request) = ((blocked_adaptive 2, hot_request), Some (block_decision ''1.2.3.4'' 95))"
  by (simp add: adaptive_check_def blocked_adaptive_def hot_request_def plain_request_def header_get_def header_values_def
      redeem_token_def get_or_create_state_def map_get_def Let_def)

lemma block_is_not_renewed_witness:
  "list_all (\<lambda>(c, d). c_real_ip c = ''1.2.3.4'' \<longrightarrow> (\<exists>x. d = Some x \<and> d_action x = ActionBlock))
       [(hot_request, Some (block_decision ''1.2.3.4'' 95))]
     \<and> ac_scores (adaptive_cleanup (601 * second) (blocked_adaptive 2)) ''1.2.3.4'' = None"
proof (rule block_is_not_renewed)
  show "adaptive_run (\<lambda>t ip. []) (blocked_adaptive 1) [Req 1 hot_request]
      = (blocked_adaptive 2, [(hot_request, Some (block_decision ''1.2.3.4'' 95))])" by (simp add: blocked_again)
  show "blocked_since ''1.2.3.4'' 0 (blocked_adaptive 1)" by (simp add: blocked_adaptive_def blocked_since_def)
  show "0 + int64 (ac_ttl (blocked_adaptive 2) * 2) < 601 * second"
    by (simp add: blocked_adaptive_def demo_adaptive_def new_adaptive_def int64_id)
qed (simp_all add: tokenless_def has_token_def is_request_def hot_request_def plain_request_def header_get_def
    header_values_def)

end
