(* ===== verification/Ja3.thy ===== *)
theory Ja3
  imports WafTypes
begin

text \<open>
  TLS fingerprints, \<^verbatim>\<open>internal/engine/ja3.go\<close>: the fingerprint of a connection, the inspector that counts
  unknown fingerprints, the parser of a ClientHello, and the cache of the listener. Bytes are characters; the
  hexadecimal MD5 of a text is an argument.
\<close>

section \<open>The inspector\<close>

record ja3_inspector =
  ji_bad :: "string \<rightharpoonup> string"
  ji_unknown :: "string \<rightharpoonup> int"
  ji_good :: "string \<rightharpoonup> bool"

definition bad_hashes :: "(string \<times> string) list" where
  "bad_hashes = [(''e3b0c44298fc1c149afbf4c8996fb924'', ''sqlmap''), (''d41d8cd98f00b204e9800998ecf8427e'', ''nmap''),
     (''a7ffc6f8bf1ed76651c14756a061d662'', ''masscan''), (''900150983cd24fb0d6963f7d28e17f72'', ''curl/default''),
     (''098f6bcd4621d373cade4e832627b4f6'', ''python-requests''), (''5d41402abc4b2a76b9719d911017c592'', ''go-http-client''),
     (''7d793037a0760186574b0282f2f435e7'', ''zgrab''), (''e2fc714c4727ee9395f324cd2e7f331f'', ''burpsuite'')]"

definition new_ja3_inspector :: ja3_inspector where
  "new_ja3_inspector = \<lparr>ji_bad = map_of bad_hashes, ji_unknown = Map.empty, ji_good = Map.empty\<rparr>"

definition ja3_from_state :: "(string \<Rightarrow> string) \<Rightarrow> int \<times> int \<Rightarrow> string" where
  "ja3_from_state md5 st = md5 (join_char CHR '','' [itoa (fst st), itoa (snd st)])"

text \<open>An unknown fingerprint is counted; at a hundred it becomes a known one.\<close>

definition count_unknown :: "string \<Rightarrow> ja3_inspector \<Rightarrow> ja3_inspector \<times> int" where
  "count_unknown hash j =
     (let n = map_get (ji_unknown j) hash 0 + 1 in
      (if 100 \<le> n then j\<lparr>ji_good := (ji_good j)(hash \<mapsto> True), ji_unknown := map_del (ji_unknown j) hash\<rparr>
       else j\<lparr>ji_unknown := (ji_unknown j)(hash \<mapsto> n)\<rparr>, n))"

definition ja3_lookup :: "string \<Rightarrow> ja3_inspector \<Rightarrow> ja3_inspector \<times> decision option" where
  "ja3_lookup hash j =
     (case ji_bad j hash of
        Some label \<Rightarrow> (j, Some (mk_decision ActionBlock ''JA3_001'' ''Known Bad TLS Fingerprint'' ''high'' 80
                        (Fmt ''JA3 hash %s matches known scanner/bot: %s'' [AStr hash, AStr label])))
      | None \<Rightarrow>
          if map_get (ji_good j) hash False then (j, None)
          else
            (case count_unknown hash j of
               (j', n) \<Rightarrow>
                 (j', if 5 < n \<and> n < 100
                      then Some (mk_decision ActionMonitor ''JA3_002'' ''Uncommon TLS Fingerprint'' ''low'' 15
                             (Fmt ''uncommon JA3 hash %s seen %d times'' [AStr hash, AInt n]))
                      else None)))"

definition ja3_inspect :: "(string \<Rightarrow> string) \<Rightarrow> ja3_inspector inspector" where
  "ja3_inspect md5 = (\<lambda>now (j, c).
     case rq_tls (c_request c) of
       None \<Rightarrow> ((j, c), INil)
     | Some st \<Rightarrow>
         if c_tls_version c = [] then ((j, c), INil)
         else
           (let hash = ja3_from_state md5 st in
            case ja3_lookup hash j of (j', d) \<Rightarrow> ((j', c\<lparr>c_ja3 := hash\<rparr>), result_of d)))"

lemma ja3_lookup_score: "ja3_lookup hash j = (j', Some d) \<Longrightarrow> score_ok d"
  by (auto simp: ja3_lookup_def score_ok_def split: option.splits if_splits prod.splits)

interpretation ja3: inspector "ja3_inspect md5" for md5
proof
  show "ctx_frame c c'" if "ja3_inspect md5 now (s, c) = ((s', c'), r)" for md5 now s c s' c' r
    using that by (auto simp: ja3_inspect_def ctx_frame_def Let_def split: option.splits if_splits prod.splits)
  show "score_ok d" if "ja3_inspect md5 now (s, c) = ((s', c'), IDec d)" for md5 now s c s' c' d
    using that ja3_lookup_score
    by (auto simp: ja3_inspect_def Let_def result_of_def split: option.splits if_splits prod.splits)
qed

section \<open>The ClientHello\<close>

text \<open>A big-endian pair of bytes at an offset, and the pairs of a text while a count of bytes lasts.\<close>

definition u16_at :: "string \<Rightarrow> nat \<Rightarrow> nat" where
  "u16_at d i = of_char (d ! i) * 256 + of_char (d ! Suc i)"

fun u16_list :: "nat \<Rightarrow> string \<Rightarrow> nat list" where
  "u16_list n (a # b # r) = (if n = 0 then [] else (of_char a * 256 + of_char b) # u16_list (n - 2) r)"
| "u16_list n _ = []"

definition dashed :: "nat list \<Rightarrow> string" where
  "dashed ns = join_char CHR ''-'' (map utoa ns)"

record hello_parts =
  hp_extensions :: "nat list"
  hp_curves :: "nat list"
  hp_formats :: "nat list"

text \<open>The loop over the extensions between \<open>off\<close> and \<open>stop\<close>.\<close>

function read_extensions :: "string \<Rightarrow> nat \<Rightarrow> nat \<Rightarrow> hello_parts \<Rightarrow> hello_parts" where
  "read_extensions d stop off h =
     (if off + 4 \<le> stop then
        (let ty = u16_at d off; n = u16_at d (off + 2); o4 = off + 4;
             cs = (if ty = 10 \<and> 2 \<le> n \<and> o4 + 2 \<le> stop
                   then u16_list (u16_at d o4) (drop (o4 + 2) (take stop d)) else []);
             fs = (if ty = 11 \<and> 1 \<le> n \<and> o4 + 1 \<le> stop
                   then map of_char (take n (drop (o4 + 1) (take stop d))) else [])
         in read_extensions d stop (o4 + n)
              \<lparr>hp_extensions = hp_extensions h @ [ty], hp_curves = hp_curves h @ cs, hp_formats = hp_formats h @ fs\<rparr>)
      else h)"
  by pat_completeness auto
termination
  by (relation "measure (\<lambda>(d, stop, off, h). stop - off)") auto

declare read_extensions.simps [simp del]

definition ja3_fields :: "string list \<Rightarrow> string" where
  "ja3_fields fs = join_char CHR '','' fs"

definition no_parts :: hello_parts where
  "no_parts = \<lparr>hp_extensions = [], hp_curves = [], hp_formats = []\<rparr>"

text \<open>
  \<^verbatim>\<open>computeJA3Raw\<close>: \<open>Inl\<close> is a panic; the text before hashing is \<open>JHash\<close>, a text that is returned as it is \<open>JPlain\<close>.
\<close>

datatype ja3_text = JPlain string | JHash string

definition compute_ja3_raw :: "string \<Rightarrow> go_panic + ja3_text" where
  "compute_ja3_raw d =
     (if length d < 5 then Inr (JPlain [])
      else if of_char (d ! 0) \<noteq> (0x16 :: nat) then Inr (JPlain [])
      else
        (let ver = utoa (u16_at d 1) in
         if length d < 6 then Inr (JPlain (ver @ '',,''))
         else if length d < 5 + 38 then Inr (JPlain (ver @ '',,''))
         else if length d < 43 + 1 then Inr (JPlain (ver @ '',,''))
         else if length d = 44 then Inl IndexOutOfRange
         else
           (let n = u16_at d 43; ciphers = u16_list n (drop 45 d); o2 = 45 + n in
            if length d < o2 + 1 then Inr (JHash (ja3_fields [ver, dashed ciphers, [], [], []]))
            else
              (let o3 = o2 + 1 + of_char (d ! o2);
                   h = (if o3 + 2 \<le> length d
                        then read_extensions d (min (o3 + 2 + u16_at d o3) (length d)) (o3 + 2) no_parts else no_parts)
               in Inr (JHash (ja3_fields [ver, dashed ciphers, dashed (hp_extensions h), dashed (hp_curves h),
                    dashed (hp_formats h)]))))))"

definition ja3_hash :: "(string \<Rightarrow> string) \<Rightarrow> ja3_text \<Rightarrow> string" where
  "ja3_hash md5 t = (case t of JPlain s \<Rightarrow> s | JHash s \<Rightarrow> md5 s)"

section \<open>The cache of the listener\<close>

record ja3_entry =
  je_hash :: string
  je_created :: gotime

type_synonym ja3_cache = "string \<rightharpoonup> ja3_entry"

definition get_ja3 :: "gotime \<Rightarrow> string \<Rightarrow> ja3_cache \<Rightarrow> ja3_cache \<times> string option" where
  "get_ja3 now addr cache =
     (case cache addr of
        None \<Rightarrow> (cache, None)
      | Some e \<Rightarrow> if 30 * second < time_sub now (je_created e) then (map_del cache addr, None) else (cache, Some (je_hash e)))"

text \<open>The first read of a connection (\<open>None\<close> is an error), at most 517 bytes.\<close>

definition compute_ja3 ::
  "(string \<Rightarrow> string) \<Rightarrow> gotime \<Rightarrow> string \<Rightarrow> string option \<Rightarrow> ja3_cache \<Rightarrow> go_panic + ja3_cache \<times> string" where
  "compute_ja3 md5 now addr hello cache =
     (case hello of
        None \<Rightarrow> Inr (cache, [])
      | Some d \<Rightarrow>
          if d = [] then Inr (cache, [])
          else
            (case compute_ja3_raw (take 517 d) of
               Inl p \<Rightarrow> Inl p
             | Inr t \<Rightarrow>
                 (let hash = ja3_hash md5 t in
                  Inr (if hash \<noteq> [] then cache(addr \<mapsto> \<lparr>je_hash = hash, je_created = now\<rparr>) else cache, hash))))"

section \<open>Counting fingerprints\<close>

text \<open>The state after connections with the given fingerprints.\<close>

definition ja3_after :: "string list \<Rightarrow> ja3_inspector" where
  "ja3_after hs = foldl (\<lambda>j h. fst (ja3_lookup h j)) new_ja3_inspector hs"

definition ja3_inv :: "string list \<Rightarrow> ja3_inspector \<Rightarrow> bool" where
  "ja3_inv hs j \<longleftrightarrow> ji_bad j = map_of bad_hashes \<and>
     (\<forall>h. map_of bad_hashes h = None \<longrightarrow>
        (if count_list hs h < 100
         then map_get (ji_good j) h False = False \<and> map_get (ji_unknown j) h 0 = int (count_list hs h)
         else map_get (ji_good j) h False))"

lemma ja3_lookup_inv:
  assumes "ja3_inv hs j"
  shows "ja3_inv (hs @ [h]) (fst (ja3_lookup h j))"
proof -
  have bad: "ji_bad (fst (ja3_lookup h j)) = ji_bad j"
    by (auto simp: ja3_lookup_def count_unknown_def Let_def split: option.splits prod.splits)
  moreover have "if count_list (hs @ [h]) g < 100
      then map_get (ji_good (fst (ja3_lookup h j))) g False = False
        \<and> map_get (ji_unknown (fst (ja3_lookup h j))) g 0 = int (count_list (hs @ [h]) g)
      else map_get (ji_good (fst (ja3_lookup h j))) g False"
    if g: "map_of bad_hashes g = None" for g
  proof -
    have inv: "if count_list hs g < 100
        then map_get (ji_good j) g False = False \<and> map_get (ji_unknown j) g 0 = int (count_list hs g)
        else map_get (ji_good j) g False" using assms g unfolding ja3_inv_def by blast
    show ?thesis
    proof (cases "g = h")
      case True
      have jb: "ji_bad j h = None" using assms g True by (simp add: ja3_inv_def)
      show ?thesis
      proof (cases "count_list hs h < 100")
        case lt: True
        then show ?thesis using inv True jb
          by (auto simp: ja3_lookup_def count_unknown_def Let_def map_get_def map_del_def split: option.splits)
      next
        case False
        then show ?thesis using inv True jb by (simp add: ja3_lookup_def)
      qed
    next
      case False
      then have "map_get (ji_good (fst (ja3_lookup h j))) g False = map_get (ji_good j) g False"
        "map_get (ji_unknown (fst (ja3_lookup h j))) g 0 = map_get (ji_unknown j) g 0"
        by (auto simp: ja3_lookup_def count_unknown_def Let_def map_get_def map_del_def split: option.splits)
      then show ?thesis using inv False by simp
    qed
  qed
  ultimately show ?thesis using assms by (simp add: ja3_inv_def)
qed

lemma ja3_after_inv: "ja3_inv hs (ja3_after hs)"
proof (induction hs rule: rev_induct)
  case Nil
  then show ?case by (simp add: ja3_after_def ja3_inv_def new_ja3_inspector_def map_get_def)
next
  case (snoc h hs)
  then show ?case using ja3_lookup_inv [of hs "ja3_after hs" h] by (simp add: ja3_after_def)
qed

text \<open>However the connections of different clients are interleaved, a fingerprint outside the list of bad
  ones is reported exactly from its sixth to its ninety-ninth connection: from the hundredth on it counts
  as known to be good, whatever that client did.\<close>

lemma fingerprint_reported_6_to_99:
  assumes "map_of bad_hashes h = None"
  shows "snd (ja3_lookup h (ja3_after hs)) \<noteq> None \<longleftrightarrow> 5 \<le> count_list hs h \<and> count_list hs h < 99"
proof -
  have inv: "ji_bad (ja3_after hs) h = None"
    "if count_list hs h < 100
     then map_get (ji_good (ja3_after hs)) h False = False \<and> map_get (ji_unknown (ja3_after hs)) h 0 = int (count_list hs h)
     else map_get (ji_good (ja3_after hs)) h False"
    using ja3_after_inv [of hs] assms unfolding ja3_inv_def by simp_all
  show ?thesis
  proof (cases "count_list hs h < 100")
    case True
    then show ?thesis using inv by (auto simp: ja3_lookup_def count_unknown_def Let_def)
  next
    case False
    then show ?thesis using inv by (simp add: ja3_lookup_def)
  qed
qed

section \<open>Reading a ClientHello\<close>

text \<open>The parser of a ClientHello reads out of bounds for exactly one length of the first read: 44 bytes.\<close>

lemma hello_panic_iff:
  "(\<exists>p. compute_ja3_raw d = Inl p) \<longleftrightarrow> length d = 44 \<and> of_char (d ! 0) = (0x16 :: nat)"
  by (auto simp: compute_ja3_raw_def Let_def)

lemma utoa_no_dash: "CHR ''-'' \<notin> set (utoa n)"
  using utoa_digits not_digit_dash by blast

lemma dashed_inj: "dashed xs = dashed ys \<Longrightarrow> xs \<noteq> [] \<Longrightarrow> ys \<noteq> [] \<Longrightarrow> xs = ys"
proof -
  assume eq: "dashed xs = dashed ys" and ne: "xs \<noteq> []" "ys \<noteq> []"
  have "split_char CHR ''-'' (dashed zs) = map utoa zs" if "zs \<noteq> []" for zs
    unfolding dashed_def using that utoa_no_dash by (intro split_join_char) auto
  then have "map utoa xs = map utoa ys" using eq ne by metis
  then show "xs = ys" by (metis inj_def map_injective utoa_inj)
qed

lemma byte_pair: "a * 256 + b = a' * 256 + b' \<Longrightarrow> b < 256 \<Longrightarrow> b' < 256 \<Longrightarrow> a = a' \<and> b = (b' :: nat)"
proof -
  assume eq: "a * 256 + b = a' * 256 + b'" and lt: "b < 256" "b' < 256"
  have "(a * 256 + b) mod 256 = b" "(a' * 256 + b') mod 256 = b'" using lt by simp_all
  then have "b = b'" using eq by metis
  then show ?thesis using eq by simp
qed

lemma u16_list_inj:
  "length xs = length ys \<Longrightarrow> length xs \<le> m \<Longrightarrow> length ys \<le> n \<Longrightarrow> u16_list m xs = u16_list n ys
     \<Longrightarrow> take (2 * (length xs div 2)) xs = take (2 * (length xs div 2)) ys"
proof (induction m xs arbitrary: n ys rule: u16_list.induct)
  case (1 m a b r)
  then obtain a' b' r' where ys: "ys = a' # b' # r'" by (metis Suc_length_conv length_Cons)
  have "m \<noteq> 0" "n \<noteq> 0" using "1.prems" ys by auto
  then have "of_char a * 256 + of_char b = (of_char a' * 256 + of_char b' :: nat)" "u16_list (m - 2) r = u16_list (n - 2) r'"
    using "1.prems"(4) ys by simp_all
  moreover have "of_char b < (256 :: nat)" "of_char b' < (256 :: nat)" by simp_all
  ultimately have "of_char a = (of_char a' :: nat)" "of_char b = (of_char b' :: nat)" using byte_pair by blast+
  then have "a = a'" "b = b'" by simp_all
  moreover have "take (2 * (length r div 2)) r = take (2 * (length r div 2)) r'"
    using "1.IH" [OF \<open>m \<noteq> 0\<close>, of r' "n - 2"] "1.prems" ys \<open>u16_list (m - 2) r = u16_list (n - 2) r'\<close> by simp
  moreover have "2 * (length (a # b # r) div 2) = Suc (Suc (2 * (length r div 2)))" by simp
  ultimately show ?case using ys by (simp only: take_Suc_Cons)
qed auto

text \<open>A ClientHello whose session identifier has 32 bytes: what precedes it, the identifier, and the rest.\<close>

definition hello_with_session :: "string \<Rightarrow> string \<Rightarrow> string \<Rightarrow> string" where
  "hello_with_session pre sid rest = pre @ [CHR 0x20] @ sid @ rest"

lemma hello_text:
  assumes "length pre = 43" "of_char (pre ! 0) = (0x16 :: nat)" "length sid = 32" "length rest \<le> 8000"
  shows "\<exists>n\<ge>length (tl sid @ rest). compute_ja3_raw (hello_with_session pre sid rest) =
     Inr (JHash (ja3_fields [utoa (u16_at pre 1), dashed (u16_list n (tl sid @ rest)), [], [], []]))"
proof -
  let ?d = "hello_with_session pre sid rest"
  obtain s0 ss where sid: "sid = s0 # ss" using assms(3) by (cases sid) auto
  have len: "length ?d = 76 + length rest" using assms(1,3) by (simp add: hello_with_session_def)
  have d: "?d ! 0 = pre ! 0" "u16_at ?d (Suc 0) = u16_at pre (Suc 0)" using assms(1)
    by (simp_all add: hello_with_session_def u16_at_def nth_append)
  have "?d ! 43 = CHR 0x20" "?d ! 44 = s0" using assms(1) by (simp_all add: hello_with_session_def nth_append sid)
  then have n: "u16_at ?d 43 = 8192 + of_char s0" by (simp add: u16_at_def)
  have drop: "drop 45 ?d = tl sid @ rest" using assms(1) by (simp add: hello_with_session_def sid)
  have "length (tl sid @ rest) \<le> u16_at ?d 43" using n assms(3,4) by simp
  moreover have "compute_ja3_raw ?d =
      Inr (JHash (ja3_fields [utoa (u16_at pre 1), dashed (u16_list (u16_at ?d 43) (tl sid @ rest)), [], [], []]))"
    using len assms(2,4) n by (simp add: compute_ja3_raw_def Let_def d drop)
  ultimately show ?thesis by blast
qed

text \<open>The parser takes the session identifier for cipher suites: two hellos of one client that differ only in
  the random session identifier (beyond its first byte) have different fingerprints.\<close>

lemma fingerprint_depends_on_session:
  assumes "length pre = 43" "of_char (pre ! 0) = (0x16 :: nat)" "length sid = 32" "length sid' = 32"
    and "rest \<noteq> []" "length rest \<le> 8000" "tl sid \<noteq> tl sid'"
  shows "compute_ja3_raw (hello_with_session pre sid rest) \<noteq> compute_ja3_raw (hello_with_session pre sid' rest)"
proof
  assume eq: "compute_ja3_raw (hello_with_session pre sid rest) = compute_ja3_raw (hello_with_session pre sid' rest)"
  obtain m n where mn: "length (tl sid @ rest) \<le> m" "length (tl sid' @ rest) \<le> n"
    "dashed (u16_list m (tl sid @ rest)) = dashed (u16_list n (tl sid' @ rest))"
    using eq hello_text [OF assms(1,2,3,6)] hello_text [OF assms(1,2,4,6)] by (auto simp: ja3_fields_def)
  have two: "xs \<noteq> [] \<Longrightarrow> k \<noteq> 0 \<Longrightarrow> 2 \<le> length xs \<Longrightarrow> u16_list k xs \<noteq> []" for k xs
    by (cases "(k, xs)" rule: u16_list.cases) auto
  have len: "length (tl sid @ rest) = length (tl sid' @ rest)" "2 \<le> length (tl sid @ rest)" using assms(3,4) by simp_all
  then have "u16_list m (tl sid @ rest) = u16_list n (tl sid' @ rest)"
    using mn assms(5) by (intro dashed_inj two) auto
  from u16_list_inj [OF len(1) mn(1,2) this]
  have "take 31 (take (2 * (length (tl sid @ rest) div 2)) (tl sid @ rest))
      = take 31 (take (2 * (length (tl sid @ rest) div 2)) (tl sid' @ rest))" by simp
  moreover have "31 \<le> 2 * (length (tl sid @ rest) div 2)" using assms(3,5) by (cases rest) auto
  ultimately have "take 31 (tl sid @ rest) = take 31 (tl sid' @ rest)" by (simp only: take_take min_absorb1)
  moreover have "length (tl sid) = 31" "length (tl sid') = 31" using assms(3,4) by simp_all
  ultimately show False using assms(7) by simp
qed

section \<open>Witnesses\<close>

lemma fingerprint_reported_6_to_99_witness:
  "snd (ja3_lookup ''cd08e31494f9531f560d64c695473da9'' (ja3_after [])) \<noteq> None
     \<longleftrightarrow> 5 \<le> count_list [] ''cd08e31494f9531f560d64c695473da9'' \<and> count_list [] ''cd08e31494f9531f560d64c695473da9'' < 99"
  by (rule fingerprint_reported_6_to_99) (simp add: bad_hashes_def)

lemma fingerprint_depends_on_session_witness:
  "compute_ja3_raw (hello_with_session (CHR 0x16 # replicate 42 CHR 0x03) (replicate 32 CHR 0x01) ''x'')
     \<noteq> compute_ja3_raw (hello_with_session (CHR 0x16 # replicate 42 CHR 0x03) (replicate 32 CHR 0x02) ''x'')"
  by (rule fingerprint_depends_on_session) simp_all

end
