(* ===== verification/Desync.thy ===== *)
theory Desync
  imports WafTypes
begin

text \<open>
  The detector for request smuggling, \<^verbatim>\<open>internal/engine/desync.go\<close>. The compiled expressions of the
  detector are never used by the code and are left out.
\<close>

record desync_detector =
  ds_max_body :: int
  ds_strict :: bool
  ds_obs_fold :: bool

definition new_desync :: "int \<Rightarrow> bool \<Rightarrow> bool \<Rightarrow> desync_detector" where
  "new_desync max_body strict obs = \<lparr>ds_max_body = max_body, ds_strict = strict, ds_obs_fold = obs\<rparr>"

definition chunked :: "string \<Rightarrow> bool" where
  "chunked te = contains (to_lower te) ''chunked''"

definition content_lengths :: "reqctx \<Rightarrow> string list" where
  "content_lengths c = header_values (c_request c) ''Content-Length''"

definition check_cl_te :: "reqctx \<Rightarrow> decision option" where
  "check_cl_te c =
     (let cl = header_get (c_request c) ''Content-Length''; te = header_get (c_request c) ''Transfer-Encoding'' in
      if cl \<noteq> [] \<and> chunked te
      then Some (mk_decision ActionBlock ''DSYNC_001'' ''CL.TE Desync'' ''critical'' 95
             (Lit ''Content-Length and Transfer-Encoding: chunked both present (CL.TE smuggling)''))
      else if 1 < length (content_lengths c) then
        (case filter (\<lambda>v. v \<noteq> []) (map trim_space (content_lengths c)) of
           v # vs \<Rightarrow>
             (if list_ex (\<lambda>w. w \<noteq> v) vs
              then Some (mk_decision ActionBlock ''DSYNC_002'' ''Multiple Content-Length (CL.CL)'' ''critical'' 90
                     (Fmt ''mismatched Content-Length headers: %s'' [AStrs (v # vs)]))
              else None)
         | [] \<Rightarrow> None)
      else None)"

definition check_te_cl :: "reqctx \<Rightarrow> decision option" where
  "check_te_cl c =
     (if chunked (header_get (c_request c) ''Transfer-Encoding'') \<and> header_get (c_request c) ''Content-Length'' \<noteq> []
      then Some (mk_decision ActionBlock ''DSYNC_003'' ''TE.CL Desync'' ''critical'' 95
             (Lit ''Transfer-Encoding: chunked with Content-Length present (TE.CL smuggling)''))
      else None)"

definition check_obs_fold :: "desync_detector \<Rightarrow> reqctx \<Rightarrow> decision option" where
  "check_obs_fold d c =
     (if \<not> ds_obs_fold d then None
      else
        (case find (\<lambda>(k, v). has_prefix k '' '' \<or> has_prefix v '' '') (c_headers c) of
           None \<Rightarrow> None
         | Some (k, v) \<Rightarrow>
             (if ds_strict d
              then Some (mk_decision ActionBlock ''DSYNC_004'' ''Obs-fold Header'' ''high'' 75
                     (Fmt ''obs-fold header detected: %q'' [AStr k]))
              else Some (mk_decision ActionMonitor ''DSYNC_004'' ''Obs-fold Header'' ''medium'' 40
                     (Fmt ''obs-fold header detected: %q'' [AStr k])))))"

definition check_content_length :: "desync_detector \<Rightarrow> reqctx \<Rightarrow> decision option" where
  "check_content_length d c =
     (case content_lengths c of
        [] \<Rightarrow> None
      | v # _ \<Rightarrow>
          (let cl = trim_space v in
           if cl = [] then None
           else
             (case parse_int64 cl of
                None \<Rightarrow> Some (mk_decision ActionBlock ''DSYNC_005'' ''Invalid Content-Length'' ''high'' 70
                         (Fmt ''non-numeric Content-Length: %q'' [AStr cl]))
              | Some n \<Rightarrow>
                  (if n < 0
                   then Some (mk_decision ActionBlock ''DSYNC_006'' ''Negative Content-Length'' ''high'' 80
                          (Fmt ''negative Content-Length: %d'' [AInt n]))
                   else if 0 < ds_max_body d \<and> ds_max_body d < n
                   then Some (mk_decision ActionBlock ''DSYNC_007'' ''Content-Length Exceeds Limit'' ''medium'' 30
                          (Fmt ''Content-Length %d exceeds max %d'' [AInt n, AInt (ds_max_body d)]))
                   else None))))"

text \<open>The order in which Go visits the counts is that of the headers here.\<close>

definition check_duplicate_headers :: "desync_detector \<Rightarrow> reqctx \<Rightarrow> decision option" where
  "check_duplicate_headers d c =
     (let names = map (\<lambda>(k, v). to_lower k) (c_headers c) in
      case find (\<lambda>k. 1 < count_list names k \<and> k \<notin> set [''content-length'', ''transfer-encoding'', ''host''] \<and> ds_strict d) names of
        None \<Rightarrow> None
      | Some k \<Rightarrow> Some (mk_decision ActionMonitor ''DSYNC_008'' ''Duplicate Header'' ''medium'' 20
                     (Fmt ''header %q appears %d times (potential smuggling)'' [AStr k, AInt (int (count_list names k))])))"

definition check_te_header :: "reqctx \<Rightarrow> decision option" where
  "check_te_header c =
     (let te = header_get (c_request c) ''Te'' in
      if te \<noteq> [] \<and> (contains (to_lower te) ''chunked'' \<or> contains (to_lower te) ''trailers'')
      then Some (mk_decision ActionBlock ''DSYNC_009'' ''TE Header Present'' ''high'' 70
             (Fmt ''TE header with sensitive value: %q'' [AStr te]))
      else None)"

definition desync_check :: "desync_detector \<Rightarrow> reqctx \<Rightarrow> decision option" where
  "desync_check d c =
     first_of [check_cl_te c, check_te_cl c, check_obs_fold d c, check_content_length d c, check_duplicate_headers d c,
       check_te_header c]"

definition desync_inspect :: "desync_detector \<Rightarrow> unit inspector" where
  "desync_inspect d = stateless (desync_check d)"

lemma desync_scores:
  "check_cl_te c = Some x \<Longrightarrow> score_ok x" "check_te_cl c = Some x \<Longrightarrow> score_ok x" "check_obs_fold d c = Some x \<Longrightarrow> score_ok x"
  "check_content_length d c = Some x \<Longrightarrow> score_ok x" "check_duplicate_headers d c = Some x \<Longrightarrow> score_ok x"
  "check_te_header c = Some x \<Longrightarrow> score_ok x"
  by (auto simp: check_cl_te_def check_te_cl_def check_obs_fold_def check_content_length_def
      check_duplicate_headers_def check_te_header_def score_ok_def Let_def split: if_splits list.splits option.splits)

lemma desync_score: "desync_check d c = Some x \<Longrightarrow> score_ok x"
  unfolding desync_check_def by (drule first_of_SomeD) (auto dest: sym intro: desync_scores)

interpretation desync: inspector "desync_inspect d" for d
  unfolding desync_inspect_def by (rule inspector_stateless) (rule desync_score)

section \<open>What passes\<close>

lemma desync_passes:
  assumes "desync_check d c = None"
  shows "check_cl_te c = None" "check_te_cl c = None" "check_content_length d c = None" "check_te_header c = None"
  using assms by (auto simp: desync_check_def first_of_None_iff)

text \<open>The lengths that a request declares.\<close>

definition declared_lengths :: "reqctx \<Rightarrow> string list" where
  "declared_lengths c = filter (\<lambda>v. v \<noteq> []) (map trim_space (content_lengths c))"

lemma equal_lengths:
  assumes "check_cl_te c = None"
  shows "\<exists>v. set (declared_lengths c) \<subseteq> {v}"
proof (cases "1 < length (content_lengths c)")
  case True
  then show ?thesis using assms
    by (cases "declared_lengths c")
      (auto simp: check_cl_te_def declared_lengths_def list_ex_iff Let_def split: if_splits)
next
  case False
  then have "length (map trim_space (content_lengths c)) \<le> 1" by simp
  then have "length (declared_lengths c) \<le> 1" unfolding declared_lengths_def by (meson length_filter_le order_trans)
  then show ?thesis by (cases "declared_lengths c") auto
qed

text \<open>A request that passes has no length beside a first transfer coding that is chunked, all the lengths it declares are the
  same, and a length that comes first is a number between zero and the limit.\<close>

lemma passed_framing:
  assumes "desync_check d c = None"
  shows "\<not> (header_get (c_request c) ''Content-Length'' \<noteq> [] \<and> chunked (header_get (c_request c) ''Transfer-Encoding''))
    \<and> (\<exists>v. set (declared_lengths c) \<subseteq> {v})
    \<and> (\<forall>v vs. content_lengths c = v # vs \<longrightarrow> trim_space v \<noteq> [] \<longrightarrow>
         (\<exists>n. parse_int64 (trim_space v) = Some n \<and> 0 \<le> n \<and> (0 < ds_max_body d \<longrightarrow> n \<le> ds_max_body d)))"
proof (intro conjI)
  note none = desync_passes [OF assms]
  show "\<not> (header_get (c_request c) ''Content-Length'' \<noteq> [] \<and> chunked (header_get (c_request c) ''Transfer-Encoding''))"
    using none(2) by (auto simp: check_te_cl_def split: if_splits)
  show "\<exists>v. set (declared_lengths c) \<subseteq> {v}" using equal_lengths [OF none(1)] .
  show "\<forall>v vs. content_lengths c = v # vs \<longrightarrow> trim_space v \<noteq> [] \<longrightarrow>
      (\<exists>n. parse_int64 (trim_space v) = Some n \<and> 0 \<le> n \<and> (0 < ds_max_body d \<longrightarrow> n \<le> ds_max_body d))"
    using none(3) by (auto simp: check_content_length_def Let_def not_less split: if_splits option.splits)
qed

definition post_request :: reqctx where
  "post_request = plain_request\<lparr>c_request := \<lparr>rq_header = [(''Content-Length'', [''7'', ''7''])], rq_content_length = 7,
     rq_proto = ''HTTP/1.1'', rq_tls = None\<rparr>\<rparr>"

lemma passed_framing_witness:
  "\<not> (header_get (c_request post_request) ''Content-Length'' \<noteq> []
       \<and> chunked (header_get (c_request post_request) ''Transfer-Encoding''))
   \<and> (\<exists>v. set (declared_lengths post_request) \<subseteq> {v})"
proof -
  have "trim_space ''7'' = ''7''" "parse_int64 ''7'' = Some 7" by code_simp+
  then have "desync_check (new_desync 100 True True) post_request = None"
    by (simp add: desync_check_def new_desync_def check_cl_te_def check_te_cl_def check_obs_fold_def check_content_length_def
        check_duplicate_headers_def check_te_header_def post_request_def plain_request_def header_get_def header_values_def
        content_lengths_def chunked_def to_lower_def)
  from passed_framing [OF this] show ?thesis by blast
qed

text \<open>Only the first value of \<^verbatim>\<open>Transfer-Encoding\<close> is looked at: a length and a chunked coding pass side by side when
  another coding comes first.\<close>

definition mixed_request :: reqctx where
  "mixed_request = plain_request\<lparr>c_request := \<lparr>rq_header = [(''Content-Length'', [''7'']), (''Transfer-Encoding'', [''identity'', ''chunked''])],
     rq_content_length = 7, rq_proto = ''HTTP/1.1'', rq_tls = None\<rparr>\<rparr>"

lemma later_coding_ignored: "desync_check (new_desync 100 True True) mixed_request = None"
proof -
  have "trim_space ''7'' = ''7''" "parse_int64 ''7'' = Some 7" "\<not> chunked ''identity''" by code_simp+
  then show ?thesis
    by (simp add: desync_check_def new_desync_def check_cl_te_def check_te_cl_def check_obs_fold_def check_content_length_def
        check_duplicate_headers_def check_te_header_def mixed_request_def plain_request_def header_get_def header_values_def
        al_get_def content_lengths_def)
qed

end
