(* ===== verification/Upload.thy ===== *)
theory Upload
  imports Targets
begin

text \<open>
  The inspector for file uploads, \<^verbatim>\<open>internal/engine/upload.go\<close>. The division of a body into parts is an argument
  (of the boundary and the body). A part is its file name, its declared type and the data that has not been
  read yet: closing a part discards that data, as \<^verbatim>\<open>multipart.Part.Close\<close> does.
\<close>

section \<open>Tables\<close>

definition bytes :: "nat list \<Rightarrow> string" where
  "bytes ns = map char_of ns"

definition mime_signatures :: "(string \<times> nat list) list" where
  "mime_signatures = [(''image/jpeg'', [0xFF, 0xD8, 0xFF]), (''image/png'', [0x89, 0x50, 0x4E, 0x47]),
     (''image/gif'', [0x47, 0x49, 0x46, 0x38]), (''image/webp'', [0x52, 0x49, 0x46, 0x46]),
     (''image/tiff'', [0x49, 0x49, 0x2A, 0x00]), (''image/bmp'', [0x42, 0x4D]),
     (''application/pdf'', [0x25, 0x50, 0x44, 0x46]), (''application/zip'', [0x50, 0x4B, 0x03, 0x04]),
     (''application/gzip'', [0x1F, 0x8B]), (''application/x-bzip2'', [0x42, 0x5A]),
     (''application/x-xz'', [0xFD, 0x37, 0x7A, 0x58, 0x5A, 0x00]), (''text/plain'', []), (''text/csv'', []),
     (''application/json'', []), (''application/xml'', []), (''application/octet-stream'', [])]"

definition executable_extensions :: "string list" where
  "executable_extensions = [''.exe'', ''.dll'', ''.so'', ''.dylib'', ''.bin'', ''.bat'', ''.cmd'', ''.com'', ''.msi'', ''.scr'',
     ''.pif'', ''.vbs'', ''.vbe'', ''.js'', ''.jse'', ''.wsf'', ''.wsh'', ''.ps1'', ''.psm1'', ''.psd1'', ''.msh'', ''.sh'',
     ''.bash'', ''.zsh'', ''.ksh'', ''.csh'']"

definition archive_extensions :: "string list" where
  "archive_extensions = [''.zip'', ''.tar'', ''.gz'', ''.bz2'', ''.xz'', ''.7z'', ''.rar'', ''.tgz'', ''.tbz2'', ''.zst'',
     ''.lz'', ''.lzma'', ''.lzo'']"

definition image_extensions :: "string list" where
  "image_extensions = [''.jpg'', ''.jpeg'', ''.png'', ''.gif'', ''.webp'', ''.bmp'', ''.tiff'', ''.tif'', ''.svg'', ''.ico'',
     ''.heic'', ''.heif'']"

definition executable_magic :: "nat list list" where
  "executable_magic = [[0x7F, 0x45, 0x4C, 0x46], [0x4D, 0x5A], [0xCA, 0xFE, 0xBA, 0xBE], [0xCF, 0xFA, 0xED, 0xFE],
     [0xCE, 0xFA, 0xED, 0xFE], [0xFE, 0xED, 0xFA, 0xCE], [0xFE, 0xED, 0xFA, 0xCF], [0x23, 0x21]]"

definition archive_magic :: "nat list list" where
  "archive_magic = [[0x50, 0x4B, 0x03, 0x04], [0x1F, 0x8B], [0x42, 0x5A], [0xFD, 0x37, 0x7A, 0x58, 0x5A],
     [0x37, 0x7A, 0xBC, 0xAF, 0x27, 0x1C], [0x52, 0x61, 0x72, 0x21, 0x1A, 0x07], [0x75, 0x73, 0x74, 0x61, 0x72]]"

definition polyglot_re :: rx where
  "polyglot_re =
     Alts [Txt ''<script'', Txt ''<svg'', Txt ''onerror'', Txt ''onload'', Txt ''javascript:'',
       Seqs [Opt (Txt ''<''), Txt ''php''], Seqs [Opt (Txt ''<''), Txt ''xml'']]"

section \<open>State and parts\<close>

record upload_security =
  up_max_size :: int
  up_limits :: "string \<rightharpoonup> int"

definition new_upload_security :: upload_security where
  "new_upload_security = \<lparr>up_max_size = 10485760, up_limits = Map.empty\<rparr>"

definition set_endpoint_limit :: "string \<Rightarrow> int \<Rightarrow> upload_security \<Rightarrow> upload_security" where
  "set_endpoint_limit path limit u = u\<lparr>up_limits := (up_limits u)(path \<mapsto> limit)\<rparr>"

definition get_endpoint_limit :: "string \<Rightarrow> upload_security \<Rightarrow> int" where
  "get_endpoint_limit path u = map_get (up_limits u) path (up_max_size u)"

record form_part =
  fp_name :: string
  fp_type :: string
  fp_unread :: string

definition close_part :: "form_part \<Rightarrow> form_part" where
  "close_part p = p\<lparr>fp_unread := []\<rparr>"

definition read_part :: "nat \<Rightarrow> form_part \<Rightarrow> string" where
  "read_part n p = take n (fp_unread p)"

text \<open>\<^verbatim>\<open>filepath.Ext\<close>: from the last dot after the last slash.\<close>

definition file_ext :: "string \<Rightarrow> string" where
  "file_ext name =
     (let r = rev name; e = takeWhile (\<lambda>ch. ch \<noteq> CHR ''.'' \<and> ch \<noteq> CHR ''/'') r; t = drop (length e) r in
      if has_prefix t ''.'' then CHR ''.'' # rev e else [])"

section \<open>Checks\<close>

definition starts_with_any :: "nat list list \<Rightarrow> string \<Rightarrow> bool" where
  "starts_with_any sigs m = list_ex (\<lambda>s. has_prefix m (bytes s)) sigs"

definition known_signature :: "string \<Rightarrow> bool" where
  "known_signature m = list_ex (\<lambda>(ty, s). s \<noteq> [] \<and> has_prefix m (bytes s)) mime_signatures"

definition verify_mime_type :: "string \<Rightarrow> string \<Rightarrow> string \<Rightarrow> decision option" where
  "verify_mime_type name ty magic =
     (if magic = [] then None
      else if known_signature magic then None
      else if list_ex (has_suffix (to_lower name)) image_extensions then
        (if \<not> known_signature magic
         then Some (mk_decision ActionBlock ''UPL002'' ''MIME Type Mismatch'' ''high'' 70
                (Fmt ''file %s declared as %s but magic bytes mismatch'' [AStr name, AStr ty]))
         else None)
      else None)"

definition detect_executable :: "string \<Rightarrow> string \<Rightarrow> decision option" where
  "detect_executable name magic =
     (if to_lower (file_ext name) \<in> set executable_extensions
      then Some (mk_decision ActionBlock ''UPL003'' ''Executable Upload Blocked'' ''high'' 80
             (Fmt ''executable file upload blocked: %s'' [AStr name]))
      else if starts_with_any executable_magic magic
      then Some (mk_decision ActionBlock ''UPL004'' ''Executable Magic Bytes'' ''high'' 80
             (Fmt ''executable magic bytes detected in %s'' [AStr name]))
      else None)"

definition detect_archive_bomb :: "string \<Rightarrow> string \<Rightarrow> nat \<Rightarrow> decision option" where
  "detect_archive_bomb name magic body_len =
     (if to_lower (file_ext name) \<in> set archive_extensions
      then Some (mk_decision ActionMonitor ''UPL005'' ''Archive Upload'' ''low'' 10 (Fmt ''archive upload: %s'' [AStr name]))
      else if starts_with_any archive_magic magic \<and> 52428800 < body_len \<and> length magic < 512
      then Some (mk_decision ActionBlock ''UPL006'' ''Archive Bomb Detected'' ''high'' 75
             (Fmt ''potential archive bomb: body size %d bytes with only %d bytes inspected''
               [AInt (int body_len), AInt 512]))
      else None)"

definition detect_image_polyglot :: "string \<Rightarrow> string \<Rightarrow> decision option" where
  "detect_image_polyglot name magic =
     (if to_lower (file_ext name) \<notin> set image_extensions then None
      else if length magic < 4 then None
      else if match_string True polyglot_re magic
      then Some (mk_decision ActionBlock ''UPL007'' ''Image Polyglot Detected'' ''critical'' 90
             (Fmt ''image polyglot with script content in %s'' [AStr name]))
      else None)"

definition inspect_part :: "form_part \<Rightarrow> nat \<Rightarrow> decision option" where
  "inspect_part p body_len =
     (if fp_name p = [] then None
      else
        (let magic = read_part 512 p in
         first_of [verify_mime_type (fp_name p) (fp_type p) magic, detect_executable (fp_name p) magic,
           detect_archive_bomb (fp_name p) magic body_len, detect_image_polyglot (fp_name p) magic]))"

definition form_boundary :: "string \<Rightarrow> string" where
  "form_boundary ct =
     (case str_index (to_lower ct) ''boundary='' of
        None \<Rightarrow> []
      | Some i \<Rightarrow>
          (let b = drop (i + 9) ct; b' = (if has_prefix b [CHR 0x22] then tl b else b)
           in takeWhile (\<lambda>ch. ch \<noteq> CHR 0x22) b'))"

type_synonym part_reader = "string \<Rightarrow> string \<Rightarrow> form_part list"

definition upload_check :: "part_reader \<Rightarrow> upload_security \<Rightarrow> reqctx \<Rightarrow> decision option" where
  "upload_check parts u c =
     (let ct = ctx_header c ''Content-Type'' in
      if \<not> has_prefix ct ''multipart/form-data'' then None
      else
        (let cls = ctx_header c ''Content-Length'';
             len = (if cls = [] then 0 else (case parse_int64 cls of None \<Rightarrow> 0 | Some n \<Rightarrow> n));
             limit = get_endpoint_limit (c_path c) u
         in if limit < len
            then Some (mk_decision ActionBlock ''UPL001'' ''File Size Exceeded'' ''high'' 65
                   (Fmt ''file size %d exceeds limit %d for %s'' [AInt len, AInt limit, AStr (c_path c)]))
            else if ctx_body c = [] then None
            else if form_boundary ct = [] then None
            else first_some (\<lambda>p. inspect_part (close_part p) (length (ctx_body c))) (parts (form_boundary ct) (ctx_body c))))"

definition upload_inspect :: "part_reader \<Rightarrow> upload_security inspector" where
  "upload_inspect parts = stateful (\<lambda>now c u. (u, upload_check parts u c))"

lemma inspect_part_score: "inspect_part p n = Some d \<Longrightarrow> score_ok d"
  by (auto simp: inspect_part_def verify_mime_type_def detect_executable_def detect_archive_bomb_def
      detect_image_polyglot_def score_ok_def Let_def split: if_splits dest!: first_of_SomeD)

interpretation upload: inspector "upload_inspect parts" for parts
  unfolding upload_inspect_def
  by (rule inspector_stateful)
    (auto simp: scores_ok_def upload_check_def Let_def score_ok_def [of "mk_decision _ _ _ _ _ _"]
      split: if_splits option.splits dest!: first_some_SomeD intro: inspect_part_score)

section \<open>The contents are never looked at\<close>

lemma inspect_closed_part:
  "inspect_part (close_part p) n =
     (if fp_name p = [] then None else first_of [detect_executable (fp_name p) [], detect_archive_bomb (fp_name p) [] n])"
proof -
  have "\<not> starts_with_any executable_magic []" "\<not> starts_with_any archive_magic []"
    by (simp_all add: starts_with_any_def executable_magic_def archive_magic_def bytes_def)
  then show ?thesis
    by (simp add: inspect_part_def close_part_def read_part_def verify_mime_type_def detect_image_polyglot_def
        detect_executable_def detect_archive_bomb_def)
qed

text \<open>The contents of an uploaded file are never inspected, because its part is closed before it is read: the
  decision is the same for any two bodies of the same files with whatever contents and declared types.\<close>

lemma contents_never_inspected:
  assumes "map fp_name (parts b body) = map fp_name (parts' b body')" "b = form_boundary (ctx_header c ''Content-Type'')"
    and "body \<noteq> []" "body' \<noteq> []"
  shows "upload_check parts u (c\<lparr>c_body := Some body\<rparr>) = upload_check parts' u (c\<lparr>c_body := Some body'\<rparr>)"
proof -
  have any_size: "detect_archive_bomb name [] n = detect_archive_bomb name [] m" for name n m
  proof -
    have "\<not> starts_with_any archive_magic []" by (simp add: starts_with_any_def archive_magic_def bytes_def)
    then show ?thesis by (simp add: detect_archive_bomb_def)
  qed
  have by_name: "first_some (\<lambda>p. inspect_part (close_part p) n) ps
      = first_some (\<lambda>x. if x = [] then None else first_of [detect_executable x [], detect_archive_bomb x [] 0]) (map fp_name ps)" for n ps
    by (induction ps) (simp_all add: inspect_closed_part any_size [of _ n 0] split: option.splits)
  have hdr: "ctx_header (c\<lparr>c_body := x\<rparr>) k = ctx_header c k" for x k by (simp add: ctx_header_def)
  show ?thesis using assms(3,4) by (simp add: upload_check_def by_name hdr ctx_body_def Let_def assms(1,2) flip: assms(2))
qed

section \<open>Witness\<close>

definition one_file :: "string \<Rightarrow> part_reader" where
  "one_file contents = (\<lambda>b body. [\<lparr>fp_name = ''a.png'', fp_type = ''image/png'', fp_unread = contents\<rparr>])"

definition multipart_request :: reqctx where
  "multipart_request = plain_request\<lparr>c_headers := [(''Content-Type'', ''multipart/form-data; boundary=x'')]\<rparr>"

lemma contents_never_inspected_witness:
  "upload_check (one_file ''<?php system(1)'') new_upload_security (multipart_request\<lparr>c_body := Some ''p''\<rparr>)
     = upload_check (one_file (bytes [0x89, 0x50, 0x4E, 0x47])) new_upload_security (multipart_request\<lparr>c_body := Some ''q''\<rparr>)"
  by (rule contents_never_inspected [OF _ refl]) (simp_all add: one_file_def)

end
