(* ===== verification/Behavioral.thy ===== *)
theory Behavioral
  imports Targets
begin

text \<open>
  The behavioural engine, \<^verbatim>\<open>internal/engine/behavioral.go\<close>: the velocity window of an address, its reputation,
  and the entropy of paths. Scores are rationals, and the \<^verbatim>\<open>float64\<close> logarithm of the entropy is an argument. The
  order in which the clean-up visits the windows is an argument, too.
\<close>

section \<open>The window of an address\<close>

text \<open>The slice of a window never grows: its capacity is fixed when it is made.\<close>

record velocity_window =
  vw_times :: "gotime list"
  vw_window :: duration
  vw_cap :: int

definition new_velocity_window :: "duration \<Rightarrow> int \<Rightarrow> go_panic + velocity_window" where
  "new_velocity_window w cap =
     (if cap < 0 then Inl MakeSliceCap else Inr \<lparr>vw_times = [], vw_window = w, vw_cap = cap\<rparr>)"

text \<open>The live instants move to the front, and the new one takes the place after them, if there is one.\<close>

definition window_add :: "gotime \<Rightarrow> velocity_window \<Rightarrow> go_panic + velocity_window \<times> int" where
  "window_add now w =
     (let live = filter (\<lambda>t. now - vw_window w < t) (vw_times w) in
      if vw_cap w < int (length live) + 1 then Inl SliceBounds
      else Inr (w\<lparr>vw_times := live @ [now]\<rparr>, int (length live) + 1))"

section \<open>State\<close>

record behavioral =
  be_dev :: bool
  be_reputation :: bool
  be_velocity :: bool
  be_path_entropy :: bool
  be_threshold :: rat
  be_window_sec :: int
  be_max_requests :: int
  be_requests :: "string \<rightharpoonup> velocity_window"
  be_ip_rep :: "string \<rightharpoonup> int"
  be_bad :: "string \<rightharpoonup> bool"
  be_blocked :: "string \<rightharpoonup> gotime"

definition new_behavioral :: "bool \<Rightarrow> bool \<Rightarrow> bool \<Rightarrow> bool \<Rightarrow> rat \<Rightarrow> int \<Rightarrow> int \<Rightarrow> behavioral" where
  "new_behavioral dev rep vel ent threshold sec max_req =
     \<lparr>be_dev = dev, be_reputation = rep, be_velocity = vel, be_path_entropy = ent, be_threshold = threshold,
      be_window_sec = sec, be_max_requests = max_req, be_requests = Map.empty, be_ip_rep = Map.empty,
      be_bad = Map.empty, be_blocked = Map.empty\<rparr>"

definition get_window :: "string \<Rightarrow> behavioral \<Rightarrow> go_panic + behavioral \<times> velocity_window" where
  "get_window ip e =
     (case be_requests e ip of
        Some w \<Rightarrow> Inr (e, w)
      | None \<Rightarrow>
          (case new_velocity_window (int64 (be_window_sec e * second)) (int64 (be_max_requests e * 10)) of
             Inl p \<Rightarrow> Inl p
           | Inr w \<Rightarrow> Inr (e\<lparr>be_requests := (be_requests e)(ip \<mapsto> w)\<rparr>, w)))"

section \<open>Entropy of a path\<close>

definition entropy_re :: rx where
  "entropy_re =
     (let hex = Cls False [(0x30, 0x39), (0x61, 0x66)]; low = Cls False [(0x61, 0x7A)]; up = Cls False [(0x41, 0x5A)] in
      Alts [Seqs [Times 8 hex, Many hex], Seqs [Times 20 low, Many low], Seqs [Times 20 up, Many up]])"

definition part_entropy :: "(rat \<Rightarrow> rat) \<Rightarrow> string \<Rightarrow> rat" where
  "part_entropy log2 part =
     (let rs = to_runes part; l = of_nat (length part) in
      sum_list (map (\<lambda>r. - (of_nat (count_list rs r) / l) * log2 (of_nat (count_list rs r) / l)) (remdups rs)))"

definition part_score :: "(rat \<Rightarrow> rat) \<Rightarrow> string \<Rightarrow> rat" where
  "part_score log2 part =
     (if length part < 4 then 0
      else
        (let l = of_nat (length part); top_entropy = log2 l in
         (if match_string False entropy_re part then 15 else 0)
         + (if 0 < top_entropy \<and> 17 / 20 < part_entropy log2 part / top_entropy \<and> 8 < length part then 20 else 0)
         + (if 16 < length part then 10 else 0)))"

definition check_path_entropy :: "(rat \<Rightarrow> rat) \<Rightarrow> string \<Rightarrow> rat" where
  "check_path_entropy log2 path =
     (if path = [] \<or> path = ''/'' then 0
      else
        (let parts = split_char CHR ''/'' (trim_prefix (trim_suffix path ''/'') ''/'')
         in min (sum_list (map (part_score log2) parts)) 50))"

definition shannon_entropy :: "(rat \<Rightarrow> rat) \<Rightarrow> string \<Rightarrow> rat" where
  "shannon_entropy log2 s = (if s = [] then 0 else part_entropy log2 s)"

section \<open>Inspection\<close>

text \<open>The three checks, each of which ends the inspection or adds to the score.\<close>

definition velocity_check :: "gotime \<Rightarrow> string \<Rightarrow> behavioral \<Rightarrow> behavioral \<times> (go_panic + (decision + rat))" where
  "velocity_check now ip e =
     (if \<not> be_velocity e then (e, Inr (Inr 0))
      else
        (case get_window ip e of
           Inl p \<Rightarrow> (e, Inl p)
         | Inr (e1, w) \<Rightarrow>
             (case window_add now w of
                Inl p \<Rightarrow> (e1, Inl p)
              | Inr (w', n) \<Rightarrow>
                  (e1\<lparr>be_requests := (be_requests e1)(ip \<mapsto> w')\<rparr>,
                   Inr (if be_max_requests e < n \<and> be_dev e
                     then Inl (mk_decision ActionRateLimit ''BEH_001'' ''Request Velocity Exceeded'' ''high'' 35
                            (Fmt ''IP %s exceeded %d requests per %ds window (got %d)''
                              [AStr ip, AInt (be_max_requests e), AInt (be_window_sec e), AInt n]))
                     else if int64 (be_max_requests e * 2) < n
                     then Inl (mk_decision ActionBlock ''BEH_002'' ''High Request Velocity'' ''critical'' 65
                            (Fmt ''IP %s high velocity: %d requests in %ds'' [AStr ip, AInt n, AInt (be_window_sec e)]))
                     else Inr (if be_max_requests e < n then 35 else 0))))))"

definition reputation_check :: "string \<Rightarrow> behavioral \<Rightarrow> decision + rat" where
  "reputation_check ip e =
     (if \<not> be_reputation e then Inr 0
      else if be_bad e ip \<noteq> None
      then Inl (mk_decision ActionBlock ''BEH_010'' ''Known Bad IP'' ''critical'' 90
             (Fmt ''IP %s has negative reputation'' [AStr ip]))
      else
        (let rep = map_get (be_ip_rep e) ip 0 in
         if 50 < rep
         then Inl (mk_decision ActionBlock ''BEH_011'' ''Poor IP Reputation'' ''high'' 45
                (Fmt ''IP %s poor reputation score: %d'' [AStr ip, AInt rep]))
         else Inr (if 10 < rep then 20 else 0)))"

definition entropy_check :: "(rat \<Rightarrow> rat) \<Rightarrow> string \<Rightarrow> behavioral \<Rightarrow> decision + rat" where
  "entropy_check log2 path e =
     (if \<not> be_path_entropy e then Inr 0
      else
        (let s = check_path_entropy log2 path in
         if 20 < s
         then Inl (mk_decision ActionMonitor ''BEH_020'' ''High Path Entropy'' ''medium'' s
                (Fmt ''path %q has high entropy (%.2f)'' [AStr path, ARat s]))
         else Inr s))"

definition behavioral_inspect :: "(rat \<Rightarrow> rat) \<Rightarrow> behavioral inspector" where
  "behavioral_inspect log2 = (\<lambda>now (e, c).
     let ip = c_real_ip c in
     if ip = [] then ((e, c), INil)
     else
       (case velocity_check now ip e of
          (e1, Inl p) \<Rightarrow> ((e1, c), IPanic p)
        | (e1, Inr (Inl d)) \<Rightarrow> ((e1, c), IDec d)
        | (e1, Inr (Inr s1)) \<Rightarrow>
            (case reputation_check ip e1 of
               Inl d \<Rightarrow> ((e1, c), IDec d)
             | Inr s2 \<Rightarrow>
                 (case entropy_check log2 (c_path c) e1 of
                    Inl d \<Rightarrow> ((e1, c), IDec d)
                  | Inr s3 \<Rightarrow>
                      (if be_threshold e1 \<le> s1 + s2 + s3
                       then ((e1, c), IDec (mk_decision ActionMonitor ''BEH_099'' ''Behavioral Threat Detected'' ''medium''
                              (s1 + s2 + s3) (Fmt ''cumulative behavioral score %.0f for IP %s''
                                [ARat (s1 + s2 + s3), AStr ip])))
                       else ((e1, c), INil))))))"

section \<open>Administration\<close>

definition report_bad_ip :: "string \<Rightarrow> behavioral \<Rightarrow> behavioral" where
  "report_bad_ip ip e = e\<lparr>be_bad := (be_bad e)(ip \<mapsto> True)\<rparr>"

definition increment_reputation :: "string \<Rightarrow> int \<Rightarrow> behavioral \<Rightarrow> behavioral" where
  "increment_reputation ip delta e =
     (let rep = int64 (map_get (be_ip_rep e) ip 0 + delta); e' = e\<lparr>be_ip_rep := (be_ip_rep e)(ip \<mapsto> rep)\<rparr>
      in if 100 < rep then report_bad_ip ip e' else e')"

definition block_ip :: "gotime \<Rightarrow> string \<Rightarrow> duration \<Rightarrow> behavioral \<Rightarrow> behavioral" where
  "block_ip now ip d e = report_bad_ip ip (e\<lparr>be_blocked := (be_blocked e)(ip \<mapsto> now + d)\<rparr>)"

definition map_drop :: "('k \<Rightarrow> bool) \<Rightarrow> ('k \<rightharpoonup> 'v) \<Rightarrow> ('k \<rightharpoonup> 'v)" where
  "map_drop gone m = (\<lambda>k. if gone k then None else m k)"

text \<open>\<open>order\<close> lists the addresses with a window, as \<^verbatim>\<open>range\<close> happens to visit them.\<close>

definition behavioral_cleanup :: "gotime \<Rightarrow> string list \<Rightarrow> behavioral \<Rightarrow> behavioral" where
  "behavioral_cleanup now order e =
     (let gone = (\<lambda>ip. case be_blocked e ip of None \<Rightarrow> False | Some until \<Rightarrow> until < now);
          victims = (if 10000 < length order then take 1001 order else [])
      in e\<lparr>be_blocked := map_drop gone (be_blocked e), be_bad := map_drop gone (be_bad e),
           be_ip_rep := map_drop gone (be_ip_rep e), be_requests := map_drop (\<lambda>ip. ip \<in> set victims) (be_requests e)\<rparr>)"

section \<open>Scores\<close>

lemma part_score_nonneg: "0 \<le> part_score log2 p"
  by (simp add: part_score_def Let_def)

lemma path_entropy_range: "0 \<le> check_path_entropy log2 path" "check_path_entropy log2 path \<le> 50"
proof -
  have "0 \<le> sum_list (map (part_score log2) ps)" for ps
    by (intro sum_list_nonneg) (auto simp: part_score_nonneg)
  then show "0 \<le> check_path_entropy log2 path" "check_path_entropy log2 path \<le> 50"
    by (simp_all add: check_path_entropy_def Let_def)
qed

lemma check_ranges:
  "velocity_check now ip e = (e', Inr (Inl d)) \<Longrightarrow> score_ok d"
  "velocity_check now ip e = (e', Inr (Inr s)) \<Longrightarrow> 0 \<le> s \<and> s \<le> 35"
  "reputation_check ip e = Inl d \<Longrightarrow> score_ok d" "reputation_check ip e = Inr s \<Longrightarrow> 0 \<le> s \<and> s \<le> 20"
  "entropy_check log2 path e = Inl d \<Longrightarrow> score_ok d" "entropy_check log2 path e = Inr s \<Longrightarrow> 0 \<le> s \<and> s \<le> 20"
  using path_entropy_range [of log2 path]
  by (auto simp: velocity_check_def reputation_check_def entropy_check_def score_ok_def Let_def
      split: if_splits sum.splits prod.splits)

interpretation behavioral: inspector "behavioral_inspect log2" for log2
proof
  show "ctx_frame c c'" if "behavioral_inspect log2 now (s, c) = ((s', c'), r)" for log2 now s c s' c' r
    using that by (auto simp: behavioral_inspect_def ctx_frame_def Let_def split: if_splits sum.splits prod.splits)
  show "score_ok d" if "behavioral_inspect log2 now (s, c) = ((s', c'), IDec d)" for log2 now s c s' c' d
  proof -
    from that have cases: "(\<exists>e1. velocity_check now (c_real_ip c) s = (e1, Inr (Inl d)))
        \<or> (\<exists>e1. reputation_check (c_real_ip c) e1 = Inl d) \<or> (\<exists>e1. entropy_check log2 (c_path c) e1 = Inl d)
        \<or> (\<exists>e1 s1 s2 s3. velocity_check now (c_real_ip c) s = (e1, Inr (Inr s1))
            \<and> reputation_check (c_real_ip c) e1 = Inr s2 \<and> entropy_check log2 (c_path c) e1 = Inr s3 \<and> d_score d = s1 + s2 + s3)"
      by (auto simp: behavioral_inspect_def Let_def split: if_splits sum.splits prod.splits)
    then show ?thesis
    proof (elim disjE exE conjE)
      fix e1 s1 s2 s3
      assume "velocity_check now (c_real_ip c) s = (e1, Inr (Inr s1))" "reputation_check (c_real_ip c) e1 = Inr s2"
        "entropy_check log2 (c_path c) e1 = Inr s3" "d_score d = s1 + s2 + s3"
      then show ?thesis using check_ranges(2,4,6) by (fastforce simp: score_ok_def)
    qed (auto intro: check_ranges)
  qed
qed

section \<open>A flood makes the engine panic\<close>

text \<open>The results of the requests of a run.\<close>

fun behavioral_run :: "(rat \<Rightarrow> rat) \<Rightarrow> behavioral \<Rightarrow> (gotime \<times> reqctx) list \<Rightarrow> insp_result list" where
  "behavioral_run log2 e [] = []"
| "behavioral_run log2 e ((now, c) # rs) =
     (case behavioral_inspect log2 now (e, c) of ((e', _), r) \<Rightarrow> r # behavioral_run log2 e' rs)"

definition is_panic :: "insp_result \<Rightarrow> bool" where
  "is_panic r = (case r of IPanic p \<Rightarrow> True | _ \<Rightarrow> False)"

text \<open>The window of an address holds the given instants and has room for \<open>n\<close>.\<close>

definition window_holds :: "string \<Rightarrow> duration \<Rightarrow> int \<Rightarrow> gotime list \<Rightarrow> behavioral \<Rightarrow> bool" where
  "window_holds ip w n ts e =
     (be_velocity e \<and> int64 (be_window_sec e * second) = w \<and> int64 (be_max_requests e * 10) = n
      \<and> (case be_requests e ip of
           None \<Rightarrow> ts = []
         | Some vw \<Rightarrow> vw = \<lparr>vw_times = ts, vw_window = w, vw_cap = n\<rparr>))"

lemma velocity_step:
  assumes "window_holds ip w n ts e" "0 \<le> n" "\<forall>t\<in>set ts. now - w < t"
  shows "if int (length ts) < n
    then \<exists>e1 d. velocity_check now ip e = (e1, Inr d) \<and> window_holds ip w n (ts @ [now]) e1
    else \<exists>e1. velocity_check now ip e = (e1, Inl SliceBounds) \<and> window_holds ip w n ts e1"
proof -
  have live: "filter (\<lambda>t. now - w < t) ts = ts" using assms(3) by simp
  show ?thesis
  proof (cases "be_requests e ip")
    case None
    then show ?thesis using assms(1,2)
      by (auto simp: velocity_check_def get_window_def new_velocity_window_def window_add_def window_holds_def)
  next
    case (Some vw)
    then show ?thesis using assms(1,2) live
      by (auto simp: velocity_check_def get_window_def window_add_def window_holds_def Let_def)
  qed
qed

lemma inspect_step:
  assumes "window_holds ip w n ts e" "0 \<le> n" "\<forall>t\<in>set ts. now - w < t" "c_real_ip c = ip" "ip \<noteq> []"
    and "behavioral_inspect log2 now (e, c) = ((e', c'), r)"
  shows "if int (length ts) < n then \<not> is_panic r \<and> window_holds ip w n (ts @ [now]) e'
    else r = IPanic SliceBounds \<and> window_holds ip w n ts e'"
proof (cases "int (length ts) < n")
  case True
  then obtain e1 d where "velocity_check now ip e = (e1, Inr d)" "window_holds ip w n (ts @ [now]) e1"
    using velocity_step [OF assms(1-3)] by auto
  then show ?thesis using True assms(4-6)
    by (auto simp: behavioral_inspect_def is_panic_def Let_def split: sum.splits if_splits)
next
  case False
  then obtain e1 where "velocity_check now ip e = (e1, Inl SliceBounds)" "window_holds ip w n ts e1"
    using velocity_step [OF assms(1-3)] by auto
  then show ?thesis using False assms(4-6) by (auto simp: behavioral_inspect_def Let_def)
qed

lemma behavioral_run_flood:
  assumes "window_holds ip w n ts e" "0 \<le> n" "ip \<noteq> []" "\<forall>r\<in>set rs. c_real_ip (snd r) = ip"
    and "\<forall>t\<in>set ts \<union> fst ` set rs. \<forall>r\<in>set rs. fst r - w < t" "i < length rs"
  shows "if int (length ts) + int i < n then \<not> is_panic (behavioral_run log2 e rs ! i)
    else behavioral_run log2 e rs ! i = IPanic SliceBounds"
  using assms
proof (induction rs arbitrary: e ts i)
  case (Cons r rs)
  obtain now c where r: "r = (now, c)" by fastforce
  obtain e' c' x where step: "behavioral_inspect log2 now (e, c) = ((e', c'), x)" by (metis prod.exhaust)
  have here: "if int (length ts) < n then \<not> is_panic x \<and> window_holds ip w n (ts @ [now]) e'
      else x = IPanic SliceBounds \<and> window_holds ip w n ts e'"
    by (rule inspect_step [OF Cons.prems(1,2) _ _ Cons.prems(3) step]) (use Cons.prems(4,5) r in auto)
  show ?case
  proof (cases i)
    case 0
    then show ?thesis using here by (simp add: r step split: if_splits)
  next
    case (Suc k)
    show ?thesis
    proof (cases "int (length ts) < n")
      case True
      have "if int (length (ts @ [now])) + int k < n then \<not> is_panic (behavioral_run log2 e' rs ! k)
          else behavioral_run log2 e' rs ! k = IPanic SliceBounds"
        using here True Cons.prems Suc r by (intro Cons.IH) auto
      then show ?thesis by (simp add: r step Suc algebra_simps)
    next
      case False
      have "if int (length ts) + int k < n then \<not> is_panic (behavioral_run log2 e' rs ! k)
          else behavioral_run log2 e' rs ! k = IPanic SliceBounds"
        using here False Cons.prems Suc r by (intro Cons.IH) auto
      then show ?thesis using False by (simp add: r step Suc)
    qed
  qed
qed simp

text \<open>The window of an address has room for ten times the permitted number of requests, and nothing keeps
  further requests out of it: of the requests that one address sends within one window, exactly those after
  the first \<open>10 * max\<close> make the engine panic.\<close>

lemma velocity_flood_panics:
  assumes "be_velocity e" "be_requests e ip = None" "ip \<noteq> []" "0 \<le> be_max_requests e" "be_max_requests e \<le> 1000000000"
    and "\<forall>r\<in>set rs. c_real_ip (snd r) = ip"
    and "\<forall>r\<in>set rs. \<forall>q\<in>set rs. fst r - int64 (be_window_sec e * second) < fst q" "i < length rs"
  shows "is_panic (behavioral_run log2 e rs ! i) \<longleftrightarrow> 10 * be_max_requests e \<le> int i"
proof -
  have n: "int64 (be_max_requests e * 10) = 10 * be_max_requests e" using assms(4,5) by (simp add: int64_id)
  have "window_holds ip (int64 (be_window_sec e * second)) (10 * be_max_requests e) [] e"
    using assms(1,2) n by (simp add: window_holds_def)
  from behavioral_run_flood [OF this _ assms(3,6) _ assms(8), of log2] assms(4,7) show ?thesis
    by (auto simp: is_panic_def split: if_splits)
qed

section \<open>Witness\<close>

lemma velocity_flood_panics_witness:
  "is_panic (behavioral_run (\<lambda>x. x) (new_behavioral False False True False 50 60 1) (replicate 11 (0, plain_request)) ! 10)
     \<longleftrightarrow> 10 * be_max_requests (new_behavioral False False True False 50 60 1) \<le> int 10"
  by (rule velocity_flood_panics [where ip = "''1.2.3.4''"]) (simp_all add: new_behavioral_def plain_request_def int64_id)

end
