(* ===== verification/Auth.thy ===== *)
theory Auth
  imports Json Base64
begin

text \<open>
  Bearer tokens, \<^verbatim>\<open>internal/engine/auth.go\<close>: validation of JSON web tokens with a shared secret or a set of keys
  fetched from a URL, and introspection of OAuth tokens with its cache. The cryptographic primitives and the
  HTTP client are arguments; Base64 and JSON are modelled.
\<close>

section \<open>Primitives\<close>

datatype hash_alg = SHA256 | SHA384 | SHA512

datatype curve = P256 | P384 | P521

text \<open>The MAC of a secret and data, SHA-256, and the verification of RSA and ECDSA signatures over a hash.\<close>

record crypto =
  cr_hmac :: "hash_alg \<Rightarrow> string \<Rightarrow> string \<Rightarrow> string"
  cr_sha256 :: "string \<Rightarrow> string"
  cr_rsa :: "nat \<Rightarrow> int \<Rightarrow> string \<Rightarrow> string \<Rightarrow> bool"
  cr_ecdsa :: "curve \<Rightarrow> nat \<Rightarrow> nat \<Rightarrow> string \<Rightarrow> string \<Rightarrow> bool"

text \<open>The answer to an HTTP request: an error, or the status and the body.\<close>

type_synonym http_answer = "gotext + int \<times> string"

definition big_endian :: "string \<Rightarrow> nat" where
  "big_endian s = foldl (\<lambda>n c. n * 256 + of_char c) 0 s"

definition compute_hmac :: "crypto \<Rightarrow> string \<Rightarrow> string \<Rightarrow> string \<Rightarrow> string" where
  "compute_hmac cr secret data alg =
     cr_hmac cr (if alg = ''HS384'' then SHA384 else if alg = ''HS512'' then SHA512 else SHA256) secret data"

section \<open>Keys, claims and the validator\<close>

record jwk =
  jk_kty :: string
  jk_kid :: string
  jk_use :: string
  jk_alg :: string
  jk_n :: string
  jk_e :: string
  jk_crv :: string
  jk_x :: string
  jk_y :: string

definition zero_jwk :: jwk where
  "zero_jwk = \<lparr>jk_kty = [], jk_kid = [], jk_use = [], jk_alg = [], jk_n = [], jk_e = [], jk_crv = [], jk_x = [], jk_y = []\<rparr>"

definition jwk_fields :: "jwk field list" where
  "jwk_fields =
     [string_field ''kty'' (\<lambda>s k. k\<lparr>jk_kty := s\<rparr>), string_field ''kid'' (\<lambda>s k. k\<lparr>jk_kid := s\<rparr>),
      string_field ''use'' (\<lambda>s k. k\<lparr>jk_use := s\<rparr>), string_field ''alg'' (\<lambda>s k. k\<lparr>jk_alg := s\<rparr>),
      string_field ''n'' (\<lambda>s k. k\<lparr>jk_n := s\<rparr>), string_field ''e'' (\<lambda>s k. k\<lparr>jk_e := s\<rparr>),
      string_field ''crv'' (\<lambda>s k. k\<lparr>jk_crv := s\<rparr>), string_field ''x'' (\<lambda>s k. k\<lparr>jk_x := s\<rparr>),
      string_field ''y'' (\<lambda>s k. k\<lparr>jk_y := s\<rparr>)]"

definition jwks_fields :: "jwk list field list" where
  "jwks_fields = [slice_field (decode_struct jwk_fields zero_jwk) ''keys'' (\<lambda>ks s. ks)]"

record jwt_claims =
  jc_issuer :: string
  jc_subject :: string
  jc_audience :: "string list"
  jc_expires :: int
  jc_issued :: int
  jc_not_before :: int
  jc_id :: string
  jc_scope :: string
  jc_roles :: "string list"

definition zero_claims :: jwt_claims where
  "zero_claims = \<lparr>jc_issuer = [], jc_subject = [], jc_audience = [], jc_expires = 0, jc_issued = 0, jc_not_before = 0,
     jc_id = [], jc_scope = [], jc_roles = []\<rparr>"

definition claims_fields :: "jwt_claims field list" where
  "claims_fields =
     [string_field ''iss'' (\<lambda>s k. k\<lparr>jc_issuer := s\<rparr>), string_field ''sub'' (\<lambda>s k. k\<lparr>jc_subject := s\<rparr>),
      slice_field string_elem ''aud'' (\<lambda>s k. k\<lparr>jc_audience := s\<rparr>), int64_field ''exp'' (\<lambda>i k. k\<lparr>jc_expires := i\<rparr>),
      int64_field ''iat'' (\<lambda>i k. k\<lparr>jc_issued := i\<rparr>), int64_field ''nbf'' (\<lambda>i k. k\<lparr>jc_not_before := i\<rparr>),
      string_field ''jti'' (\<lambda>s k. k\<lparr>jc_id := s\<rparr>), string_field ''scope'' (\<lambda>s k. k\<lparr>jc_scope := s\<rparr>),
      slice_field string_elem ''roles'' (\<lambda>s k. k\<lparr>jc_roles := s\<rparr>)]"

record jwt_header =
  jh_alg :: string
  jh_typ :: string
  jh_kid :: string

definition zero_header :: jwt_header where
  "zero_header = \<lparr>jh_alg = [], jh_typ = [], jh_kid = []\<rparr>"

definition header_fields :: "jwt_header field list" where
  "header_fields =
     [string_field ''alg'' (\<lambda>s k. k\<lparr>jh_alg := s\<rparr>), string_field ''typ'' (\<lambda>s k. k\<lparr>jh_typ := s\<rparr>),
      string_field ''kid'' (\<lambda>s k. k\<lparr>jh_kid := s\<rparr>)]"

record jwt_config =
  jg_enabled :: bool
  jg_jwks_url :: string
  jg_issuers :: "string list"
  jg_audiences :: "string list"
  jg_algorithms :: "string list"
  jg_secret :: string

record jwt_validator =
  jv_url :: string
  jv_keys :: "string \<rightharpoonup> jwk"
  jv_keys_until :: gotime
  jv_ttl :: duration
  jv_issuers :: "string list"
  jv_audiences :: "string list"
  jv_algorithms :: "string list"
  jv_secret :: string

definition new_jwt_validator :: "jwt_config \<Rightarrow> jwt_validator" where
  "new_jwt_validator g = \<lparr>jv_url = jg_jwks_url g, jv_keys = Map.empty, jv_keys_until = zero_time, jv_ttl = hour,
     jv_issuers = jg_issuers g, jv_audiences = jg_audiences g, jv_algorithms = jg_algorithms g, jv_secret = jg_secret g\<rparr>"

section \<open>Validation\<close>

definition decode_segment :: "string \<Rightarrow> string option" where
  "decode_segment seg = (case b64url_decode seg of Some d \<Rightarrow> Some d | None \<Rightarrow> b64std_decode seg)"

definition is_allowed_algorithm :: "jwt_validator \<Rightarrow> string \<Rightarrow> bool" where
  "is_allowed_algorithm j alg = (jv_algorithms j = [] \<or> alg \<in> set (jv_algorithms j))"

definition validate_claims :: "gotime \<Rightarrow> jwt_validator \<Rightarrow> jwt_claims \<Rightarrow> gotext option" where
  "validate_claims now j cl =
     (let t = unix_seconds now in
      if 0 < jc_expires cl \<and> jc_expires cl < t then Some (Lit ''token expired'')
      else if 0 < jc_not_before cl \<and> t < jc_not_before cl then Some (Lit ''token not yet valid'')
      else if jv_issuers j \<noteq> [] \<and> jc_issuer cl \<notin> set (jv_issuers j)
      then Some (Fmt ''issuer not allowed: %s'' [AStr (jc_issuer cl)])
      else if jv_audiences j \<noteq> [] \<and> \<not> list_ex (\<lambda>a. a \<in> set (jc_audience cl)) (jv_audiences j)
      then Some (Lit ''audience not allowed'')
      else None)"

definition refresh_jwks :: "(string \<Rightarrow> http_answer) \<Rightarrow> gotime \<Rightarrow> jwt_validator \<Rightarrow> jwt_validator \<times> gotext option" where
  "refresh_jwks get now j =
     (case get (jv_url j) of
        Inl e \<Rightarrow> (j, Some (Fmt ''fetch jwks: %w'' []))
      | Inr (status, body) \<Rightarrow>
          (if status \<noteq> 200 then (j, Some (Fmt ''jwks endpoint returned %d'' [AInt status]))
           else
             (case decode_stream jwks_fields [] body of
                None \<Rightarrow> (j, Some (Fmt ''decode jwks: %w'' []))
              | Some ks \<Rightarrow>
                  (j\<lparr>jv_keys := foldl (\<lambda>m k. m(jk_kid k \<mapsto> k)) Map.empty ks, jv_keys_until := now + jv_ttl j\<rparr>, None))))"

definition get_key :: "(string \<Rightarrow> http_answer) \<Rightarrow> gotime \<Rightarrow> string \<Rightarrow> jwt_validator \<Rightarrow> jwt_validator \<times> (gotext + jwk)" where
  "get_key get now kid j =
     (case (if now < jv_keys_until j then jv_keys j kid else None) of
        Some k \<Rightarrow> (j, Inr k)
      | None \<Rightarrow>
          (if jv_url j = [] then (j, Inl (Lit ''jwks url not configured''))
           else
             (case refresh_jwks get now j of
                (j', Some e) \<Rightarrow> (j', Inl e)
              | (j', None) \<Rightarrow>
                  (j', case jv_keys j' kid of Some k \<Rightarrow> Inr k | None \<Rightarrow> Inl (Fmt ''key not found: %s'' [AStr kid])))))"

text \<open>The exponent of an RSA key: an \<^verbatim>\<open>int\<close>, from the first eight bytes when there are that many.\<close>

definition rsa_exponent :: "string \<Rightarrow> int" where
  "rsa_exponent e = int64 (int (big_endian (if 8 \<le> length e then take 8 e else e)))"

definition verify_rsa :: "crypto \<Rightarrow> string \<Rightarrow> string \<Rightarrow> jwk \<Rightarrow> gotext option" where
  "verify_rsa cr data sig k =
     (if jk_n k = [] \<or> jk_e k = [] then Some (Lit ''incomplete RSA key: missing n or e'')
      else
        (case decode_segment (jk_n k) of
           None \<Rightarrow> Some (Fmt ''decode RSA modulus: %w'' [])
         | Some n \<Rightarrow>
             (case decode_segment (jk_e k) of
                None \<Rightarrow> Some (Fmt ''decode RSA exponent: %w'' [])
              | Some e \<Rightarrow>
                  (if cr_rsa cr (big_endian n) (rsa_exponent e) (cr_sha256 cr data) sig then None
                   else Some (Lit ''crypto/rsa: verification error'')))))"

definition curve_of :: "string \<Rightarrow> curve option" where
  "curve_of s = map_of [(''P-256'', P256), (''P-384'', P384), (''P-521'', P521)] s"

text \<open>The data itself is handed over where the primitive expects a hash.\<close>

definition verify_ec :: "crypto \<Rightarrow> string \<Rightarrow> string \<Rightarrow> jwk \<Rightarrow> gotext option" where
  "verify_ec cr data sig k =
     (if jk_crv k = [] \<or> jk_x k = [] \<or> jk_y k = [] then Some (Lit ''incomplete EC key: missing crv, x, or y'')
      else
        (case decode_segment (jk_x k) of
           None \<Rightarrow> Some (Fmt ''decode EC x: %w'' [])
         | Some x \<Rightarrow>
             (case decode_segment (jk_y k) of
                None \<Rightarrow> Some (Fmt ''decode EC y: %w'' [])
              | Some y \<Rightarrow>
                  (case curve_of (jk_crv k) of
                     None \<Rightarrow> Some (Fmt ''unsupported EC curve: %s'' [AStr (jk_crv k)])
                   | Some cu \<Rightarrow>
                       (if cr_ecdsa cr cu (big_endian x) (big_endian y) data sig then None
                        else Some (Lit ''ECDSA signature verification failed''))))))"

definition signing_input :: "string \<Rightarrow> string \<Rightarrow> string" where
  "signing_input p0 p1 = p0 @ ''.'' @ p1"

definition verify_signature :: "crypto \<Rightarrow> string \<Rightarrow> string \<Rightarrow> string \<Rightarrow> string \<Rightarrow> jwk \<Rightarrow> gotext option" where
  "verify_signature cr p0 p1 p2 alg k =
     (case decode_segment p2 of
        None \<Rightarrow> Some (Lit ''illegal base64 data'')
      | Some sig \<Rightarrow>
          (if alg \<in> set [''RS256'', ''RS384'', ''RS512''] then verify_rsa cr (signing_input p0 p1) sig k
           else if alg \<in> set [''ES256'', ''ES384'', ''ES512''] then verify_ec cr (signing_input p0 p1) sig k
           else Some (Fmt ''unsupported signature algorithm: %s'' [AStr alg])))"

text \<open>\<^verbatim>\<open>strings.EqualFold\<close> is the comparison that JSON uses for the names of fields.\<close>

definition hs_algorithm :: "string \<Rightarrow> bool" where
  "hs_algorithm alg = list_ex (\<lambda>h. field_key h alg) [''HS256'', ''HS384'', ''HS512'']"

text \<open>The check of the signature, after header and claims.\<close>

definition check_token_key ::
  "crypto \<Rightarrow> (string \<Rightarrow> http_answer) \<Rightarrow> gotime \<Rightarrow> string \<Rightarrow> string \<Rightarrow> string \<Rightarrow> jwt_header \<Rightarrow> jwt_validator
     \<Rightarrow> jwt_validator \<times> gotext option" where
  "check_token_key cr get now p0 p1 p2 h j =
     (if jh_kid h \<noteq> [] then
        (if jv_url j = [] then (j, Some (Lit ''kid present but JWKS URL not configured''))
         else
           (case get_key get now (jh_kid h) j of
              (j', Inl e) \<Rightarrow> (j', Some (Fmt ''get signing key: %w'' []))
            | (j', Inr k) \<Rightarrow>
                (j', case verify_signature cr p0 p1 p2 (jh_alg h) k of
                       None \<Rightarrow> None | Some e \<Rightarrow> Some (Fmt ''verify signature: %w'' []))))
      else if jv_secret j \<noteq> [] then
        (j, if \<not> hs_algorithm (jh_alg h)
            then Some (Fmt ''algorithm %s not compatible with secret key'' [AStr (jh_alg h)])
            else
              (case decode_segment p2 of
                 None \<Rightarrow> Some (Fmt ''decode signature: %w'' [])
               | Some sig \<Rightarrow>
                   (if compute_hmac cr (jv_secret j) (signing_input p0 p1) (jh_alg h) = sig then None
                    else Some (Lit ''invalid signature''))))
      else if jv_url j \<noteq> []
      then (j, Some (Fmt ''unable to determine signing key for token (kid=%q)'' [AStr (jh_kid h)]))
      else (j, Some (Lit ''JWT validation enabled but no signing key configured (jwks_url or secret)'')))"

definition jwt_validate ::
  "crypto \<Rightarrow> (string \<Rightarrow> http_answer) \<Rightarrow> gotime \<Rightarrow> string \<Rightarrow> jwt_validator \<Rightarrow> jwt_validator \<times> (gotext + jwt_claims)" where
  "jwt_validate cr get now token j =
     (case split_char CHR ''.'' token of
        [p0, p1, p2] \<Rightarrow>
          (case decode_segment p0 of
             None \<Rightarrow> (j, Inl (Fmt ''decode header: %w'' []))
           | Some hs \<Rightarrow>
               (case unmarshal_struct header_fields zero_header hs of
                  None \<Rightarrow> (j, Inl (Fmt ''parse header: %w'' []))
                | Some h \<Rightarrow>
                    (if \<not> is_allowed_algorithm j (jh_alg h)
                     then (j, Inl (Fmt ''algorithm not allowed: %s'' [AStr (jh_alg h)]))
                     else if jh_alg h = ''none'' then (j, Inl (Lit ''algorithm 'none' not allowed''))
                     else
                       (case decode_segment p1 of
                          None \<Rightarrow> (j, Inl (Fmt ''decode payload: %w'' []))
                        | Some cs \<Rightarrow>
                            (case unmarshal_struct claims_fields zero_claims cs of
                               None \<Rightarrow> (j, Inl (Fmt ''parse claims: %w'' []))
                             | Some cl \<Rightarrow>
                                 (case validate_claims now j cl of
                                    Some e \<Rightarrow> (j, Inl e)
                                  | None \<Rightarrow>
                                      (case check_token_key cr get now p0 p1 p2 h j of
                                         (j', Some e) \<Rightarrow> (j', Inl e)
                                       | (j', None) \<Rightarrow> (j', Inr cl))))))))
      | _ \<Rightarrow> (j, Inl (Lit ''invalid token format'')))"

section \<open>The inspectors\<close>

definition bearer_token :: "reqctx \<Rightarrow> string" where
  "bearer_token c =
     (let auth = (if ctx_header c ''Authorization'' = [] then ctx_header c ''authorization'' else ctx_header c ''Authorization'')
      in if has_prefix auth ''Bearer '' then drop 7 auth else [])"

definition jwt_inspect :: "crypto \<Rightarrow> (string \<Rightarrow> http_answer) \<Rightarrow> jwt_validator inspector" where
  "jwt_inspect cr get = (\<lambda>now (j, c).
     if bearer_token c = [] then ((j, c), IDec allow_decision)
     else
       (case jwt_validate cr get now (bearer_token c) j of
          (j', Inl e) \<Rightarrow> ((j', c), IDec (mk_decision ActionBlock ''JWT-001'' ''JWT validation failed'' ''high'' 85 e))
        | (j', Inr cl) \<Rightarrow> ((j', c\<lparr>c_user_id := jc_subject cl\<rparr>), IDec allow_decision)))"

definition has_scope :: "string \<Rightarrow> string \<Rightarrow> bool" where
  "has_scope scopes scope = (if scopes = [] then False else scope \<in> set (split_char CHR '' '' scopes))"

definition jwt_has_scope :: "jwt_claims \<Rightarrow> string \<Rightarrow> bool" where
  "jwt_has_scope cl scope = has_scope (jc_scope cl) scope"

definition jwt_has_role :: "jwt_claims \<Rightarrow> string \<Rightarrow> bool" where
  "jwt_has_role cl role = (role \<in> set (jc_roles cl))"

interpretation jwt: inspector "jwt_inspect cr get" for cr get
  by unfold_locales (auto simp: jwt_inspect_def ctx_frame_def score_ok_def split: if_splits prod.splits sum.splits)

record token_info =
  ti_active :: bool
  ti_scope :: string
  ti_client :: string
  ti_username :: string
  ti_token_type :: string
  ti_expires :: int
  ti_issued :: int
  ti_not_before :: int
  ti_subject :: string
  ti_audience :: string
  ti_roles :: "string list"

definition zero_info :: token_info where
  "zero_info = \<lparr>ti_active = False, ti_scope = [], ti_client = [], ti_username = [], ti_token_type = [], ti_expires = 0,
     ti_issued = 0, ti_not_before = 0, ti_subject = [], ti_audience = [], ti_roles = []\<rparr>"

definition info_fields :: "token_info field list" where
  "info_fields =
     [bool_field ''active'' (\<lambda>b i. i\<lparr>ti_active := b\<rparr>), string_field ''scope'' (\<lambda>s i. i\<lparr>ti_scope := s\<rparr>),
      string_field ''client_id'' (\<lambda>s i. i\<lparr>ti_client := s\<rparr>), string_field ''username'' (\<lambda>s i. i\<lparr>ti_username := s\<rparr>),
      string_field ''token_type'' (\<lambda>s i. i\<lparr>ti_token_type := s\<rparr>), int64_field ''exp'' (\<lambda>n i. i\<lparr>ti_expires := n\<rparr>),
      int64_field ''iat'' (\<lambda>n i. i\<lparr>ti_issued := n\<rparr>), int64_field ''nbf'' (\<lambda>n i. i\<lparr>ti_not_before := n\<rparr>),
      string_field ''sub'' (\<lambda>s i. i\<lparr>ti_subject := s\<rparr>), string_field ''aud'' (\<lambda>s i. i\<lparr>ti_audience := s\<rparr>),
      slice_field string_elem ''roles'' (\<lambda>s i. i\<lparr>ti_roles := s\<rparr>)]"

record oauth_config =
  og_enabled :: bool
  og_url :: string
  og_client :: string
  og_secret :: string
  og_hint :: string

record oauth_introspector =
  oi_url :: string
  oi_client :: string
  oi_secret :: string
  oi_hint :: string
  oi_tokens :: "string \<rightharpoonup> token_info \<times> gotime"
  oi_ttl :: duration

definition new_oauth :: "oauth_config \<Rightarrow> oauth_introspector" where
  "new_oauth g = \<lparr>oi_url = og_url g, oi_client = og_client g, oi_secret = og_secret g, oi_hint = og_hint g,
     oi_tokens = Map.empty, oi_ttl = minute * 5\<rparr>"

definition get_cached :: "gotime \<Rightarrow> string \<Rightarrow> oauth_introspector \<Rightarrow> token_info option" where
  "get_cached now token oi =
     (case oi_tokens oi token of
        None \<Rightarrow> None
      | Some (info, until) \<Rightarrow> if until < now then None else Some info)"

definition cache_token :: "gotime \<Rightarrow> string \<Rightarrow> token_info \<Rightarrow> oauth_introspector \<Rightarrow> oauth_introspector" where
  "cache_token now token info oi =
     oi\<lparr>oi_tokens := (oi_tokens oi)(token \<mapsto>
       (info, if 0 < ti_expires info then ti_expires info * second else now + oi_ttl oi))\<rparr>"

text \<open>A POST of the token to the URL, with the client's name and secret and the hint.\<close>

type_synonym introspection_post = "string \<Rightarrow> string \<Rightarrow> string \<Rightarrow> string \<Rightarrow> string \<Rightarrow> http_answer"

definition introspect ::
  "introspection_post \<Rightarrow> gotime \<Rightarrow> string \<Rightarrow> oauth_introspector \<Rightarrow> oauth_introspector \<times> (gotext + token_info)" where
  "introspect post now token oi =
     (case get_cached now token oi of
        Some info \<Rightarrow> (oi, Inr info)
      | None \<Rightarrow>
          (if oi_url oi = [] then (oi, Inl (Lit ''introspection URL not configured''))
           else
             (case post (oi_url oi) (oi_client oi) (oi_secret oi) (oi_hint oi) token of
                Inl e \<Rightarrow> (oi, Inl e)
              | Inr (status, body) \<Rightarrow>
                  (if status \<noteq> 200 then (oi, Inl (Fmt ''introspection returned %d'' [AInt status]))
                   else
                     (case decode_stream info_fields zero_info body of
                        None \<Rightarrow> (oi, Inl (Lit ''decode error''))
                      | Some info \<Rightarrow> (cache_token now token info oi, Inr info))))))"

definition oauth_inspect :: "introspection_post \<Rightarrow> oauth_introspector inspector" where
  "oauth_inspect post = (\<lambda>now (oi, c).
     if bearer_token c = [] then ((oi, c), IDec allow_decision)
     else
       (case introspect post now (bearer_token c) oi of
          (oi', Inl e) \<Rightarrow>
            ((oi', c), IDec (mk_decision ActionBlock ''OAUTH-001'' ''OAuth token introspection failed'' ''high'' 80 e))
        | (oi', Inr info) \<Rightarrow>
            (if \<not> ti_active info
             then ((oi', c), IDec (mk_decision ActionBlock ''OAUTH-002'' ''OAuth token inactive'' ''high'' 90
                    (Lit ''token is not active'')))
             else ((oi', c\<lparr>c_user_id := ti_subject info\<rparr>), IDec allow_decision))))"

definition oauth_has_scope :: "token_info \<Rightarrow> string \<Rightarrow> bool" where
  "oauth_has_scope info scope = has_scope (ti_scope info) scope"

definition oauth_has_role :: "token_info \<Rightarrow> string \<Rightarrow> bool" where
  "oauth_has_role info role = (role \<in> set (ti_roles info))"

interpretation oauth: inspector "oauth_inspect post" for post
  by unfold_locales (auto simp: oauth_inspect_def ctx_frame_def score_ok_def split: if_splits prod.splits sum.splits)

section \<open>What acceptance shows\<close>

text \<open>The claims hold now, for one of the issuers and one of the audiences that the configuration asks for.\<close>

lemma validate_claims_iff:
  "validate_claims now j cl = None \<longleftrightarrow>
     (0 < jc_expires cl \<longrightarrow> unix_seconds now \<le> jc_expires cl) \<and> (0 < jc_not_before cl \<longrightarrow> jc_not_before cl \<le> unix_seconds now) \<and>
     (jv_issuers j = [] \<or> jc_issuer cl \<in> set (jv_issuers j)) \<and>
     (jv_audiences j = [] \<or> set (jv_audiences j) \<inter> set (jc_audience cl) \<noteq> {})"
  by (auto simp: validate_claims_def list_ex_iff Let_def)

text \<open>The signature verifies under a key: the RSA primitive takes the hash, the one for ECDSA the data.\<close>

definition signed_under :: "crypto \<Rightarrow> string \<Rightarrow> string \<Rightarrow> string \<Rightarrow> jwk \<Rightarrow> bool" where
  "signed_under cr alg data sig k \<longleftrightarrow>
     alg \<in> {''RS256'', ''RS384'', ''RS512''} \<and>
       (\<exists>n e. decode_segment (jk_n k) = Some n \<and> decode_segment (jk_e k) = Some e \<and>
          cr_rsa cr (big_endian n) (rsa_exponent e) (cr_sha256 cr data) sig) \<or>
     alg \<in> {''ES256'', ''ES384'', ''ES512''} \<and>
       (\<exists>cu x y. curve_of (jk_crv k) = Some cu \<and> decode_segment (jk_x k) = Some x \<and> decode_segment (jk_y k) = Some y \<and>
          cr_ecdsa cr cu (big_endian x) (big_endian y) data sig)"

lemma verify_rsa_sound:
  "verify_rsa cr data sig k = None \<Longrightarrow>
    \<exists>n e. decode_segment (jk_n k) = Some n \<and> decode_segment (jk_e k) = Some e \<and>
      cr_rsa cr (big_endian n) (rsa_exponent e) (cr_sha256 cr data) sig"
  by (auto simp: verify_rsa_def split: if_splits option.splits)

lemma verify_ec_sound:
  "verify_ec cr data sig k = None \<Longrightarrow>
    \<exists>cu x y. curve_of (jk_crv k) = Some cu \<and> decode_segment (jk_x k) = Some x \<and> decode_segment (jk_y k) = Some y \<and>
      cr_ecdsa cr cu (big_endian x) (big_endian y) data sig"
  by (auto simp: verify_ec_def split: if_splits option.splits)

lemma verify_signature_sound:
  assumes "verify_signature cr p0 p1 p2 alg k = None"
  shows "\<exists>sig. decode_segment p2 = Some sig \<and> signed_under cr alg (signing_input p0 p1) sig k"
proof -
  obtain sig where sig: "decode_segment p2 = Some sig" using assms by (auto simp: verify_signature_def split: option.splits)
  show ?thesis
  proof (cases "alg \<in> {''RS256'', ''RS384'', ''RS512''}")
    case True
    then have "verify_rsa cr (signing_input p0 p1) sig k = None" using assms sig by (auto simp: verify_signature_def)
    from verify_rsa_sound [OF this] True sig show ?thesis by (simp add: signed_under_def)
  next
    case False
    then have "alg \<in> {''ES256'', ''ES384'', ''ES512''}" "verify_ec cr (signing_input p0 p1) sig k = None"
      using assms sig by (auto simp: verify_signature_def split: if_splits)
    with verify_ec_sound [OF this(2)] sig show ?thesis by (simp add: signed_under_def)
  qed
qed

text \<open>A key is one of the set, which is fresh enough or was fetched just now.\<close>

lemma get_key_sound:
  "get_key get now kid j = (j', Inr k) \<Longrightarrow>
    jv_keys j' kid = Some k \<and> (j' = j \<and> now < jv_keys_until j \<or> refresh_jwks get now j = (j', None))"
  by (auto simp: get_key_def split: if_splits option.splits prod.splits)

lemma check_token_key_sound:
  assumes "check_token_key cr get now p0 p1 p2 h j = (j', None)"
  shows "\<exists>sig. decode_segment p2 = Some sig \<and>
    (if jh_kid h = []
     then jv_secret j \<noteq> [] \<and> hs_algorithm (jh_alg h) \<and>
       sig = cr_hmac cr (if jh_alg h = ''HS384'' then SHA384 else if jh_alg h = ''HS512'' then SHA512 else SHA256)
         (jv_secret j) (p0 @ ''.'' @ p1)
     else jv_url j \<noteq> [] \<and> (\<exists>k. jv_keys j' (jh_kid h) = Some k \<and>
       (j' = j \<and> now < jv_keys_until j \<or> refresh_jwks get now j = (j', None)) \<and>
       signed_under cr (jh_alg h) (p0 @ ''.'' @ p1) sig k))"
proof (cases "jh_kid h = []")
  case True
  with assms show ?thesis
    by (auto simp: check_token_key_def compute_hmac_def signing_input_def split: if_splits option.splits)
next
  case False
  then obtain k where url: "jv_url j \<noteq> []" and k: "get_key get now (jh_kid h) j = (j', Inr k)"
    and sig: "verify_signature cr p0 p1 p2 (jh_alg h) k = None"
    using assms by (auto simp: check_token_key_def split: if_splits option.splits prod.splits sum.splits)
  then show ?thesis using False verify_signature_sound [OF sig] get_key_sound [OF k] by (auto simp: signing_input_def)
qed

text \<open>The stages that an accepted token has passed.\<close>

lemma jwt_stages:
  assumes "jwt_validate cr get now token j = (j', Inr cl)"
  obtains p0 p1 p2 hs h cs where
    "split_char CHR ''.'' token = [p0, p1, p2]" "decode_segment p0 = Some hs"
    "unmarshal_struct header_fields zero_header hs = Some h"
    "is_allowed_algorithm j (jh_alg h)" "jh_alg h \<noteq> ''none''"
    "decode_segment p1 = Some cs" "unmarshal_struct claims_fields zero_claims cs = Some cl"
    "validate_claims now j cl = None" "check_token_key cr get now p0 p1 p2 h j = (j', None)"
proof -
  obtain p0 p1 p2 where p: "split_char CHR ''.'' token = [p0, p1, p2]"
    using assms by (auto simp: jwt_validate_def split: list.splits)
  obtain hs h where h: "decode_segment p0 = Some hs" "unmarshal_struct header_fields zero_header hs = Some h"
      "is_allowed_algorithm j (jh_alg h)" "jh_alg h \<noteq> ''none''"
    using assms by (auto simp: jwt_validate_def p split: option.splits if_splits)
  obtain cs where c: "decode_segment p1 = Some cs" "unmarshal_struct claims_fields zero_claims cs = Some cl"
      "validate_claims now j cl = None"
    using assms h by (auto simp: jwt_validate_def p split: option.splits prod.splits)
  have "check_token_key cr get now p0 p1 p2 h j = (j', None)"
    using assms h c by (auto simp: jwt_validate_def p split: option.splits prod.splits)
  with p h c show thesis by (rule that)
qed

text \<open>A token that passes every stage is accepted.\<close>

lemma jwt_validate_accepts:
  assumes "split_char CHR ''.'' token = [p0, p1, p2]" "decode_segment p0 = Some hs"
    "unmarshal_struct header_fields zero_header hs = Some h"
    "is_allowed_algorithm j (jh_alg h)" "jh_alg h \<noteq> ''none''"
    "decode_segment p1 = Some cs" "unmarshal_struct claims_fields zero_claims cs = Some cl"
    "validate_claims now j cl = None" "check_token_key cr get now p0 p1 p2 h j = (j', None)"
  shows "jwt_validate cr get now token j = (j', Inr cl)"
  unfolding jwt_validate_def assms(1) by (simp add: assms(2-9))

text \<open>
  Property C21. A token is accepted only if it has three segments, its header names an allowed
  algorithm other than \<^verbatim>\<open>none\<close>, its claims are in force (an expiry that it names has not passed, a start that it names has
  come) and name an allowed issuer and audience where the configuration asks for them, and its signature
  is the secret's MAC of the first two segments or verifies, by the RSA or the ECDSA primitive, under the key that its header
  names in a key set that is fresh or was fetched just now.
\<close>

theorem jwt_accept_sound:
  assumes "jwt_validate cr get now token j = (j', Inr cl)"
  shows "\<exists>p0 p1 p2 hs h cs sig.
    split_char CHR ''.'' token = [p0, p1, p2] \<and> decode_segment p0 = Some hs \<and>
    unmarshal_struct header_fields zero_header hs = Some h \<and>
    (jv_algorithms j = [] \<or> jh_alg h \<in> set (jv_algorithms j)) \<and> jh_alg h \<noteq> ''none'' \<and>
    decode_segment p1 = Some cs \<and> unmarshal_struct claims_fields zero_claims cs = Some cl \<and>
    (0 < jc_expires cl \<longrightarrow> unix_seconds now \<le> jc_expires cl) \<and> (0 < jc_not_before cl \<longrightarrow> jc_not_before cl \<le> unix_seconds now) \<and>
    (jv_issuers j = [] \<or> jc_issuer cl \<in> set (jv_issuers j)) \<and>
    (jv_audiences j = [] \<or> set (jv_audiences j) \<inter> set (jc_audience cl) \<noteq> {}) \<and>
    decode_segment p2 = Some sig \<and>
    (if jh_kid h = []
     then jv_secret j \<noteq> [] \<and> hs_algorithm (jh_alg h) \<and>
       sig = cr_hmac cr (if jh_alg h = ''HS384'' then SHA384 else if jh_alg h = ''HS512'' then SHA512 else SHA256)
         (jv_secret j) (p0 @ ''.'' @ p1)
     else jv_url j \<noteq> [] \<and> (\<exists>k. jv_keys j' (jh_kid h) = Some k \<and>
       (j' = j \<and> now < jv_keys_until j \<or> refresh_jwks get now j = (j', None)) \<and>
       signed_under cr (jh_alg h) (p0 @ ''.'' @ p1) sig k))"
proof -
  obtain p0 p1 p2 hs h cs where s: "split_char CHR ''.'' token = [p0, p1, p2]" "decode_segment p0 = Some hs"
      "unmarshal_struct header_fields zero_header hs = Some h" "is_allowed_algorithm j (jh_alg h)"
      "jh_alg h \<noteq> ''none''" "decode_segment p1 = Some cs" "unmarshal_struct claims_fields zero_claims cs = Some cl"
      and claims: "validate_claims now j cl = None" and key: "check_token_key cr get now p0 p1 p2 h j = (j', None)"
    by (rule jwt_stages [OF assms])
  from claims [unfolded validate_claims_iff] s check_token_key_sound [OF key] show ?thesis
    unfolding is_allowed_algorithm_def by blast
qed

section \<open>ECDSA over the signing input itself\<close>

text \<open>
  The verification of ECDSA uses the leading bytes of what it is given as the hash, as many as the order of the
  curve has.
\<close>

definition order_bytes :: "curve \<Rightarrow> nat" where
  "order_bytes cu = (case cu of P256 \<Rightarrow> 32 | P384 \<Rightarrow> 48 | P521 \<Rightarrow> 66)"

definition truncates :: "crypto \<Rightarrow> bool" where
  "truncates cr \<longleftrightarrow>
     (\<forall>cu x y d s. cr_ecdsa cr cu x y d s = cr_ecdsa cr cu x y (take (order_bytes cu) d) s)"

lemma verify_ec_prefix:
  assumes "truncates cr" and "curve_of (jk_crv k) = Some cu" and "take (order_bytes cu) d = take (order_bytes cu) d'"
  shows "verify_ec cr d sig k = verify_ec cr d' sig k"
proof -
  have "cr_ecdsa cr cu x y d sig = cr_ecdsa cr cu x y d' sig" for x y
    using assms unfolding truncates_def by metis
  then show ?thesis using assms(2) by (simp add: verify_ec_def split: option.splits)
qed

lemma verify_signature_prefix:
  assumes "truncates cr" and "alg \<in> {''ES256'', ''ES384'', ''ES512''}"
    and "curve_of (jk_crv k) = Some cu" and "order_bytes cu \<le> length p0"
  shows "verify_signature cr p0 q1 p2 alg k = verify_signature cr p0 p1 p2 alg k"
proof -
  have "verify_ec cr (signing_input p0 q1) sig k = verify_ec cr (signing_input p0 p1) sig k" for sig
    using assms(4) by (intro verify_ec_prefix [OF assms(1,3)]) (simp add: signing_input_def)
  then show ?thesis using assms(2) by (auto simp: verify_signature_def split: option.splits)
qed

lemma es_not_hs: "alg \<in> {''ES256'', ''ES384'', ''ES512''} \<Longrightarrow> \<not> hs_algorithm alg"
  by (elim insertE emptyE) (simp only:, code_simp)+

text \<open>
  Property C22. The data is passed to ECDSA unhashed, so once the header segment is as long as the order of the
  curve, the signature covers no byte of the payload: any other claims are accepted under the same signature.
\<close>

theorem ec_payload_unauthenticated:
  assumes "truncates cr"
    and "jwt_validate cr get now token j = (j', Inr cl)" and "split_char CHR ''.'' token = [p0, p1, p2]"
    and "decode_segment p0 = Some hs" and "unmarshal_struct header_fields zero_header hs = Some h"
    and "jh_alg h \<in> {''ES256'', ''ES384'', ''ES512''}" and "get_key get now (jh_kid h) j = (j', Inr k)"
    and "curve_of (jk_crv k) = Some cu" and "order_bytes cu \<le> length p0"
    and "split_char CHR ''.'' forged = [p0, q1, p2]"
    and "decode_segment q1 = Some cs'" and "unmarshal_struct claims_fields zero_claims cs' = Some cl'"
    and "validate_claims now j cl' = None"
  shows "jwt_validate cr get now forged j = (j', Inr cl')"
proof -
  have acc: "check_token_key cr get now p0 p1 p2 h j = (j', None)" "is_allowed_algorithm j (jh_alg h)" "jh_alg h \<noteq> ''none''"
    by (rule jwt_stages [OF assms(2)]; use assms(3-5) in simp)+
  have "jh_kid h \<noteq> []"
    using acc(1) es_not_hs [OF assms(6)] by (auto simp: check_token_key_def split: if_splits)
  then have "check_token_key cr get now p0 q1 p2 h j = (j', None)"
    using acc(1) assms(7) verify_signature_prefix [OF assms(1,6,8,9), of q1 p2 p1]
    by (simp add: check_token_key_def split: if_splits)
  with assms(4,5,10-13) acc(2,3) show ?thesis by (intro jwt_validate_accepts)
qed

section \<open>Cached introspection\<close>

text \<open>
  The answer of an introspection is kept until the expiry of the token itself: whatever the
  endpoint says later, a revoked token is let through until then.
\<close>

lemma revoked_token_accepted:
  assumes "introspect post now token oi = (oi', Inr info)" and "get_cached now token oi = None"
    and "ti_active info" and "0 < ti_expires info" and "later \<le> ti_expires info * second"
    and "bearer_token c = token" and "token \<noteq> []"
  shows "oauth_inspect post' later (oi', c) = ((oi', c\<lparr>c_user_id := ti_subject info\<rparr>), IDec allow_decision)"
proof -
  have "oi' = cache_token now token info oi"
    using assms(1,2) by (auto simp: introspect_def split: if_splits sum.splits prod.splits option.splits)
  then have "get_cached later token oi' = Some info"
    using assms(4,5) by (simp add: get_cached_def cache_token_def)
  then show ?thesis using assms by (simp add: oauth_inspect_def introspect_def)
qed

section \<open>Witnesses\<close>

definition toy_crypto :: crypto where
  "toy_crypto = \<lparr>cr_hmac = (\<lambda>a k d. ''a''), cr_sha256 = (\<lambda>d. d), cr_rsa = (\<lambda>n e h s. False),
     cr_ecdsa = (\<lambda>cu x y d s. take 3 d = ''eyJ'' \<and> s = ''a'')\<rparr>"

definition no_answer :: "string \<Rightarrow> http_answer" where
  "no_answer url = Inl (Lit [])"

definition secret_config :: jwt_config where
  "secret_config = \<lparr>jg_enabled = True, jg_jwks_url = [], jg_issuers = [], jg_audiences = [], jg_algorithms = [],
     jg_secret = ''k''\<rparr>"

lemmas b64_eval = decode_segment_def b64url_decode_def b64_val_def char_range_defs quoted_def char_of_eq_iff

lemma hs_segments:
  "decode_segment ''eyJhbGciOiJIUzI1NiJ9'' = Some (quoted ''{`alg`:`HS256`}'')"
  "decode_segment ''e30'' = Some ''{}''" "decode_segment ''YQ'' = Some ''a''"
  "split_char CHR ''.'' ''eyJhbGciOiJIUzI1NiJ9.e30.YQ'' = [''eyJhbGciOiJIUzI1NiJ9'', ''e30'', ''YQ'']"
  by (simp_all add: b64_eval)

lemma hs_objects:
  "unmarshal_struct header_fields zero_header (quoted ''{`alg`:`HS256`}'') = Some (zero_header\<lparr>jh_alg := ''HS256''\<rparr>)"
  "unmarshal_struct claims_fields zero_claims ''{}'' = Some zero_claims" "hs_algorithm ''HS256''"
  by code_simp+

lemma hs_accepted:
  "jwt_validate toy_crypto no_answer 0 ''eyJhbGciOiJIUzI1NiJ9.e30.YQ'' (new_jwt_validator secret_config)
     = (new_jwt_validator secret_config, Inr zero_claims)"
  by (rule jwt_validate_accepts [OF hs_segments(4,1) hs_objects(1) _ _ hs_segments(2) hs_objects(2)])
    (simp_all add: new_jwt_validator_def secret_config_def is_allowed_algorithm_def validate_claims_def zero_claims_def
       zero_header_def check_token_key_def hs_segments(3) hs_objects(3) compute_hmac_def toy_crypto_def)

definition ec_key :: jwk where
  "ec_key = zero_jwk\<lparr>jk_kty := ''EC'', jk_kid := ''k'', jk_crv := ''P-256'', jk_x := ''AQ'', jk_y := ''AQ''\<rparr>"

definition ec_validator :: jwt_validator where
  "ec_validator = (new_jwt_validator secret_config)\<lparr>jv_url := ''u'', jv_keys := [''k'' \<mapsto> ec_key], jv_keys_until := 1\<rparr>"

definition es_header :: jwt_header where
  "es_header = zero_header\<lparr>jh_alg := ''ES256'', jh_kid := ''k''\<rparr>"

lemma es_segments:
  "decode_segment ''eyJhbGciOiJFUzI1NiIsImtpZCI6ImsifQ'' = Some (quoted ''{`alg`:`ES256`,`kid`:`k`}'')"
  "decode_segment ''eyJzdWIiOiJhZG1pbiJ9'' = Some (quoted ''{`sub`:`admin`}'')" "decode_segment ''AQ'' = Some [CHR 0x01]"
  "split_char CHR ''.'' ''eyJhbGciOiJFUzI1NiIsImtpZCI6ImsifQ.e30.YQ'' =
     [''eyJhbGciOiJFUzI1NiIsImtpZCI6ImsifQ'', ''e30'', ''YQ'']"
  "split_char CHR ''.'' ''eyJhbGciOiJFUzI1NiIsImtpZCI6ImsifQ.eyJzdWIiOiJhZG1pbiJ9.YQ'' =
     [''eyJhbGciOiJFUzI1NiIsImtpZCI6ImsifQ'', ''eyJzdWIiOiJhZG1pbiJ9'', ''YQ'']"
  by (simp_all add: b64_eval)

lemma es_objects:
  "unmarshal_struct header_fields zero_header (quoted ''{`alg`:`ES256`,`kid`:`k`}'') = Some es_header"
  "unmarshal_struct claims_fields zero_claims (quoted ''{`sub`:`admin`}'') = Some (zero_claims\<lparr>jc_subject := ''admin''\<rparr>)"
  by code_simp+

lemma ec_key_curve: "curve_of (jk_crv ec_key) = Some P256"
  by (simp add: ec_key_def zero_jwk_def curve_of_def)

lemma ec_key_cached: "get_key no_answer 0 (jh_kid es_header) ec_validator = (ec_validator, Inr ec_key)"
  by (simp add: get_key_def ec_validator_def es_header_def zero_header_def)

lemma toy_truncates: "truncates toy_crypto"
  by (auto simp: truncates_def toy_crypto_def order_bytes_def split: curve.splits)

lemma es_sig: "verify_signature toy_crypto ''eyJhbGciOiJFUzI1NiIsImtpZCI6ImsifQ'' ''e30'' ''YQ'' ''ES256'' ec_key = None"
  by (simp add: verify_signature_def hs_segments(3) verify_ec_def ec_key_def zero_jwk_def es_segments(3) curve_of_def toy_crypto_def
      signing_input_def)

lemma es_accepted:
  "jwt_validate toy_crypto no_answer 0 ''eyJhbGciOiJFUzI1NiIsImtpZCI6ImsifQ.e30.YQ'' ec_validator
     = (ec_validator, Inr zero_claims)"
  by (rule jwt_validate_accepts [OF es_segments(4,1) es_objects(1) _ _ hs_segments(2) hs_objects(2)])
    (use ec_key_cached in \<open>simp_all add: ec_validator_def new_jwt_validator_def secret_config_def is_allowed_algorithm_def
       validate_claims_def zero_claims_def es_header_def zero_header_def check_token_key_def es_sig\<close>)

theorem jwt_accept_sound_witness:
  "\<exists>p0 p1 p2. split_char CHR ''.'' ''eyJhbGciOiJIUzI1NiJ9.e30.YQ'' = [p0, p1, p2] \<and> decode_segment p2 = Some ''a''"
  using jwt_accept_sound [OF hs_accepted] by (auto simp: hs_segments)

lemma ec_payload_unauthenticated_witness:
  "jwt_validate toy_crypto no_answer 0 ''eyJhbGciOiJFUzI1NiIsImtpZCI6ImsifQ.eyJzdWIiOiJhZG1pbiJ9.YQ'' ec_validator
     = (ec_validator, Inr (zero_claims\<lparr>jc_subject := ''admin''\<rparr>))"
proof (rule ec_payload_unauthenticated [OF toy_truncates es_accepted es_segments(4,1) es_objects(1) _ ec_key_cached ec_key_curve _ es_segments(5,2) es_objects(2)])
  show "jh_alg es_header \<in> {''ES256'', ''ES384'', ''ES512''}" by (simp add: es_header_def)
  show "order_bytes P256 \<le> length ''eyJhbGciOiJFUzI1NiIsImtpZCI6ImsifQ''" by (simp add: order_bytes_def)
  show "validate_claims 0 ec_validator (zero_claims\<lparr>jc_subject := ''admin''\<rparr>) = None"
    by (simp add: validate_claims_def ec_validator_def new_jwt_validator_def secret_config_def zero_claims_def)
qed

definition toy_introspector :: oauth_introspector where
  "toy_introspector = new_oauth \<lparr>og_enabled = True, og_url = ''u'', og_client = [], og_secret = [], og_hint = []\<rparr>"

definition active_answer :: introspection_post where
  "active_answer u a b h t = Inr (200, quoted ''{`active`:true,`exp`:9}'')"

definition active_info :: token_info where
  "active_info = zero_info\<lparr>ti_active := True, ti_expires := 9\<rparr>"

lemma active_stage: "decode_stream info_fields zero_info (quoted ''{`active`:true,`exp`:9}'') = Some active_info"
  by code_simp

lemma revoked_token_accepted_witness:
  "oauth_inspect (\<lambda>u a b h t. Inr (200, ''{}'')) second
     (cache_token 0 ''t'' active_info toy_introspector, plain_request\<lparr>c_headers := [(''Authorization'', ''Bearer t'')]\<rparr>)
   = ((cache_token 0 ''t'' active_info toy_introspector,
       (plain_request\<lparr>c_headers := [(''Authorization'', ''Bearer t'')]\<rparr>)\<lparr>c_user_id := ti_subject active_info\<rparr>),
      IDec allow_decision)"
proof (rule revoked_token_accepted)
  show "introspect active_answer 0 ''t'' toy_introspector = (cache_token 0 ''t'' active_info toy_introspector, Inr active_info)"
    by (simp add: introspect_def get_cached_def toy_introspector_def new_oauth_def active_answer_def active_stage)
  show "get_cached 0 ''t'' toy_introspector = None"
    by (simp add: get_cached_def toy_introspector_def new_oauth_def)
qed (simp_all add: active_info_def zero_info_def bearer_token_def ctx_header_def plain_request_def)

end
