(* ===== verification/Rewrite.thy ===== *)
theory Rewrite
  imports WafTypes Utf8
begin

text \<open>
  Rewriting of requests and responses, \<^verbatim>\<open>internal/engine/rewrite.go\<close>: conditions, the three actions and the
  manager, and the translation of the configured rules in \<^verbatim>\<open>cmd/proxy/main.go\<close>. Regular expressions
  of the configuration are compiled by an argument.
\<close>

section \<open>Rules\<close>

text \<open>A compiled expression: the test of a match, and the replacement of all matches by a template.\<close>

record go_regexp =
  re_match :: "string \<Rightarrow> bool"
  re_replace :: "string \<Rightarrow> string \<Rightarrow> string"

type_synonym re_compiler = "string \<Rightarrow> go_regexp option"

record rewrite_condition =
  rc_field :: string
  rc_name :: string
  rc_operator :: string
  rc_value :: string

text \<open>The implementations of the interface \<^verbatim>\<open>RewriteAction\<close>; the expression of a body action may be nil.\<close>

datatype rewrite_action =
    HeaderAction string string string
  | BodyAction string string string "go_regexp option"
  | URLAction string string int

record rewrite_rule =
  rr_name :: string
  rr_conditions :: "rewrite_condition list"
  rr_actions :: "rewrite_action list"

type_synonym rewrite_manager = "rewrite_rule list"

record response_ctx =
  rs_status :: int
  rs_headers :: header_map
  rs_body :: "string option"

definition new_rewrite_manager :: rewrite_manager where
  "new_rewrite_manager = []"

definition add_rewrite_rule :: "rewrite_rule \<Rightarrow> rewrite_manager \<Rightarrow> rewrite_manager" where
  "add_rewrite_rule r m = m @ [r]"

definition new_body_action :: "re_compiler \<Rightarrow> string \<Rightarrow> string \<Rightarrow> string \<Rightarrow> gotext + rewrite_action" where
  "new_body_action cp op pat v =
     (if op = ''regex_replace'' then
        (case cp pat of
           None \<Rightarrow> Inl (Fmt ''invalid regex: %w'' [])
         | Some re \<Rightarrow> Inr (BodyAction op pat v (Some re)))
      else Inr (BodyAction op pat v None))"

section \<open>Actions\<close>

text \<open>
  \<^verbatim>\<open>bytes.ReplaceAll\<close>: an empty text to replace matches before every rune and at the end. The result
  of a replacement without matches is a copy, which is nil for an empty slice.
\<close>

function interleave_runes :: "string \<Rightarrow> string \<Rightarrow> string" where
  "interleave_runes v s =
     (if s = [] then v
      else (let k = rune_width (map of_char s) in v @ take k s @ interleave_runes v (drop k s)))"
  by pat_completeness auto
termination
  by (relation "measure (\<lambda>(v, s). length s)") (auto simp: Suc_le_eq)

declare interleave_runes.simps [simp del]

definition bytes_replace_all :: "string option \<Rightarrow> string \<Rightarrow> string \<Rightarrow> string option" where
  "bytes_replace_all body old new =
     (let s = (case body of None \<Rightarrow> [] | Some b \<Rightarrow> b) in
      if old = [] then Some (interleave_runes new s)
      else if contains s old then Some (replace_all s old new)
      else if s = [] then None else Some s)"

definition nil_if_empty :: "string \<Rightarrow> string option" where
  "nil_if_empty s = (if s = [] then None else Some s)"

definition apply_body :: "string \<Rightarrow> string \<Rightarrow> string \<Rightarrow> go_regexp option \<Rightarrow> string option \<Rightarrow> string option" where
  "apply_body op pat v re body =
     (if op = ''replace'' then bytes_replace_all body pat v
      else if op = ''regex_replace'' then
        (case re of
           None \<Rightarrow> body
         | Some r \<Rightarrow> nil_if_empty (re_replace r (case body of None \<Rightarrow> [] | Some b \<Rightarrow> b) v))
      else body)"

definition request_header_action :: "string \<Rightarrow> string \<Rightarrow> string \<Rightarrow> header_map \<Rightarrow> header_map" where
  "request_header_action op name v hs =
     (if op \<in> {''add'', ''set''} then AList.update name v hs
      else if op = ''remove'' then AList.delete name hs
      else if op = ''rename'' then
        (case map_of hs name of
           None \<Rightarrow> hs
         | Some x \<Rightarrow> AList.update v x (AList.delete name hs))
      else hs)"

definition response_header_action :: "string \<Rightarrow> string \<Rightarrow> string \<Rightarrow> header_map \<Rightarrow> header_map" where
  "response_header_action op name v hs =
     (if op \<in> {''add'', ''set''} then AList.update name v hs
      else if op = ''remove'' then AList.delete name hs
      else hs)"

definition expand_url :: "string \<Rightarrow> reqctx \<Rightarrow> string" where
  "expand_url url c =
     replace_all (replace_all (replace_all (replace_all url ''{{.path}}'' (c_path c)) ''{{.ip}}'' (c_real_ip c))
       ''{{.host}}'' (c_host c)) ''{{.method}}'' (c_method c)"

fun apply_request_action :: "rewrite_action \<Rightarrow> reqctx \<Rightarrow> reqctx" where
  "apply_request_action (HeaderAction op name v) c = c\<lparr>c_headers := request_header_action op name v (c_headers c)\<rparr>"
| "apply_request_action (BodyAction op pat v re) c = c\<lparr>c_body := apply_body op pat v re (c_body c)\<rparr>"
| "apply_request_action (URLAction op url code) c =
     (if op = ''redirect'' then c\<lparr>c_headers := AList.update ''Location'' (expand_url url c) (c_headers c)\<rparr> else c)"

fun apply_response_action :: "rewrite_action \<Rightarrow> response_ctx \<Rightarrow> response_ctx" where
  "apply_response_action (HeaderAction op name v) r = r\<lparr>rs_headers := response_header_action op name v (rs_headers r)\<rparr>"
| "apply_response_action (BodyAction op pat v re) r = r\<lparr>rs_body := apply_body op pat v re (rs_body r)\<rparr>"
| "apply_response_action (URLAction op url code) r = r"

section \<open>Conditions\<close>

definition condition_holds :: "re_compiler \<Rightarrow> string \<Rightarrow> rewrite_condition \<Rightarrow> bool" where
  "condition_holds cp v cond =
     (let op = rc_operator cond in
      if op = ''equals'' then v = rc_value cond
      else if op = ''contains'' then contains v (rc_value cond)
      else if op = ''prefix'' then has_prefix v (rc_value cond)
      else if op = ''suffix'' then has_suffix v (rc_value cond)
      else if op = ''regex'' then (case cp (rc_value cond) of None \<Rightarrow> False | Some re \<Rightarrow> re_match re v)
      else if op = ''exists'' then v \<noteq> []
      else if op \<in> {''not_exists'', ''!exists''} then v = []
      else False)"

definition match_condition :: "re_compiler \<Rightarrow> reqctx \<Rightarrow> rewrite_condition \<Rightarrow> bool" where
  "match_condition cp c cond =
     (if rc_field cond = ''path'' then condition_holds cp (c_path c) cond
      else if rc_field cond = ''headers'' then
        (case map_of (c_headers c) (rc_name cond) of
           Some v \<Rightarrow> condition_holds cp v cond
         | None \<Rightarrow> rc_operator cond \<in> {''not_exists'', ''!exists''})
      else if rc_field cond = ''query'' then
        (case map_of (c_query c) (rc_name cond) of
           Some (v # _) \<Rightarrow> condition_holds cp v cond
         | _ \<Rightarrow> rc_operator cond = ''not_exists'')
      else if rc_field cond = ''method'' then condition_holds cp (c_method c) cond
      else if rc_field cond = ''ip'' then condition_holds cp (c_real_ip c) cond
      else False)"

definition match_conditions :: "re_compiler \<Rightarrow> reqctx \<Rightarrow> rewrite_condition list \<Rightarrow> bool" where
  "match_conditions cp c conds = list_all (match_condition cp c) conds"

section \<open>The manager\<close>

definition apply_rule :: "re_compiler \<Rightarrow> rewrite_rule \<Rightarrow> reqctx \<Rightarrow> reqctx" where
  "apply_rule cp r c = (if match_conditions cp c (rr_conditions r) then fold apply_request_action (rr_actions r) c else c)"

definition rewrite_request :: "re_compiler \<Rightarrow> rewrite_manager \<Rightarrow> reqctx \<Rightarrow> reqctx" where
  "rewrite_request cp m c = fold (apply_rule cp) m c"

definition rewrite_response :: "rewrite_manager \<Rightarrow> response_ctx \<Rightarrow> response_ctx" where
  "rewrite_response m r = fold (\<lambda>rule. fold apply_response_action (rr_actions rule)) m r"

section \<open>Configured rules\<close>

record rewrite_action_config =
  xa_type :: string
  xa_name :: string
  xa_value :: string
  xa_op :: string
  xa_pattern :: string

record rewrite_rule_config =
  xr_enabled :: bool
  xr_name :: string
  xr_conditions :: "rewrite_condition list"
  xr_actions :: "rewrite_action_config list"

text \<open>Conditions of the configuration have the fields of those of the engine, and are copied.\<close>

definition engine_rewrite_action :: "rewrite_action_config \<Rightarrow> rewrite_action list" where
  "engine_rewrite_action a =
     (if xa_type a = ''set_header'' then [HeaderAction ''set'' (xa_name a) (xa_value a)]
      else if xa_type a = ''remove_header'' then [HeaderAction ''remove'' (xa_name a) []]
      else if xa_type a = ''set_body'' then [BodyAction (xa_op a) (xa_pattern a) (xa_value a) None]
      else [])"

definition engine_rewrite_actions :: "rewrite_action_config list \<Rightarrow> rewrite_action list" where
  "engine_rewrite_actions as = concat (map engine_rewrite_action as)"

definition load_rewrite_rules :: "rewrite_rule_config list \<Rightarrow> rewrite_manager" where
  "load_rewrite_rules rs =
     fold (\<lambda>r m. if xr_enabled r
        then add_rewrite_rule \<lparr>rr_name = xr_name r, rr_conditions = xr_conditions r, rr_actions = engine_rewrite_actions (xr_actions r)\<rparr> m
        else m) rs new_rewrite_manager"

section \<open>What rewriting does\<close>

text \<open>The parts of a context that rewriting leaves alone.\<close>

definition same_but_rewritable :: "reqctx \<Rightarrow> reqctx \<Rightarrow> bool" where
  "same_but_rewritable c c' \<longleftrightarrow> c' = c\<lparr>c_headers := c_headers c', c_body := c_body c'\<rparr>"

lemma same_but_rewritable_refl [simp]: "same_but_rewritable c c"
  by (simp add: same_but_rewritable_def)

lemma same_but_rewritable_trans:
  assumes "same_but_rewritable a b" "same_but_rewritable b c"
  shows "same_but_rewritable a c"
proof -
  from assms have "c = (a\<lparr>c_headers := c_headers b, c_body := c_body b\<rparr>)\<lparr>c_headers := c_headers c, c_body := c_body c\<rparr>"
    unfolding same_but_rewritable_def by metis
  then show ?thesis unfolding same_but_rewritable_def by simp
qed

lemma request_action_frame: "same_but_rewritable c (apply_request_action a c)"
  by (cases a) (simp_all add: same_but_rewritable_def)

lemma request_actions_frame: "same_but_rewritable c (fold apply_request_action as c)"
proof (induction "as" arbitrary: c)
  case (Cons a "as")
  show ?case unfolding fold_Cons comp_apply
    by (rule same_but_rewritable_trans [OF request_action_frame Cons.IH])
qed simp

lemma apply_rule_frame: "same_but_rewritable c (apply_rule cp r c)"
  using request_actions_frame by (simp add: apply_rule_def)

lemma rewrite_request_frame: "same_but_rewritable c (rewrite_request cp m c)"
  unfolding rewrite_request_def
  by (induction m arbitrary: c) (auto intro: same_but_rewritable_trans [OF apply_rule_frame])

lemma load_rewrite_rules_snoc:
  "load_rewrite_rules (rs @ [r]) = load_rewrite_rules rs @
     (if xr_enabled r
      then [\<lparr>rr_name = xr_name r, rr_conditions = xr_conditions r, rr_actions = engine_rewrite_actions (xr_actions r)\<rparr>] else [])"
  by (simp add: load_rewrite_rules_def add_rewrite_rule_def)

text \<open>The configured action that has the last word on a header, and what it says.\<close>

definition header_writer :: "string \<Rightarrow> rewrite_action_config list \<Rightarrow> rewrite_action_config option" where
  "header_writer h as = find (\<lambda>a. xa_name a = h \<and> xa_type a \<in> {''set_header'', ''remove_header''}) (rev as)"

definition written_value :: "rewrite_action_config \<Rightarrow> string option" where
  "written_value a = (if xa_type a = ''set_header'' then Some (xa_value a) else None)"

lemma engine_actions_snoc: "engine_rewrite_actions (as @ [a]) = engine_rewrite_actions as @ engine_rewrite_action a"
  by (simp add: engine_rewrite_actions_def)

lemma rewrite_action_headers:
  "map_of (c_headers (fold apply_request_action (engine_rewrite_action a) c)) h =
     (if xa_name a = h \<and> xa_type a \<in> {''set_header'', ''remove_header''} then written_value a else map_of (c_headers c) h)"
  by (auto simp: engine_rewrite_action_def request_header_action_def written_value_def update_conv' delete_conv')

lemma rewrite_actions_headers:
  "map_of (c_headers (fold apply_request_action (engine_rewrite_actions as) c)) h =
     (case header_writer h as of None \<Rightarrow> map_of (c_headers c) h | Some a \<Rightarrow> written_value a)"
proof (induction "as" rule: rev_induct)
  case Nil
  show ?case by (simp add: header_writer_def engine_rewrite_actions_def)
next
  case (snoc a "as")
  have "header_writer h (as @ [a]) =
      (if xa_name a = h \<and> xa_type a \<in> {''set_header'', ''remove_header''} then Some a else header_writer h as)"
    by (auto simp: header_writer_def)
  then show ?case using snoc.IH by (auto simp: engine_actions_snoc rewrite_action_headers)
qed

lemma rewrite_actions_body:
  "\<forall>a\<in>set as. xa_type a \<noteq> ''set_body'' \<Longrightarrow> c_body (fold apply_request_action (engine_rewrite_actions as) c) = c_body c"
proof (induction "as" arbitrary: c)
  case (Cons a "as")
  then have "c_body (fold apply_request_action (engine_rewrite_action a) c) = c_body c"
    by (auto simp: engine_rewrite_action_def)
  with Cons show ?case by (simp add: engine_rewrite_actions_def)
qed (simp add: engine_rewrite_actions_def)

text \<open>
  Property C23. Configured rules rewrite headers in order, and the last word counts: with one more rule, every header is what the
  rules before have made of it, unless the rule is enabled, all its conditions hold of the request as those rules have left it, and it sets
  or removes this header; then the last such action decides. The body changes only by rules that set it, and nothing but headers
  and body changes at all.
\<close>

theorem rewrite_last_word:
  assumes "c1 = rewrite_request cp (load_rewrite_rules rs) c" and "c2 = rewrite_request cp (load_rewrite_rules (rs @ [r])) c"
  shows "map_of (c_headers c2) h =
      (if xr_enabled r \<and> (\<forall>cond\<in>set (xr_conditions r). match_condition cp c1 cond)
       then (case find (\<lambda>a. xa_name a = h \<and> xa_type a \<in> {''set_header'', ''remove_header''}) (rev (xr_actions r)) of
               None \<Rightarrow> map_of (c_headers c1) h
             | Some a \<Rightarrow> if xa_type a = ''set_header'' then Some (xa_value a) else None)
       else map_of (c_headers c1) h) \<and>
    ((\<forall>a\<in>set (xr_actions r). xa_type a \<noteq> ''set_body'') \<longrightarrow> c_body c2 = c_body c1) \<and>
    c2 = c\<lparr>c_headers := c_headers c2, c_body := c_body c2\<rparr>"
proof (intro conjI)
  let ?run = "fold apply_request_action (engine_rewrite_actions (xr_actions r))"
  have c2: "c2 = (if xr_enabled r \<and> (\<forall>cond\<in>set (xr_conditions r). match_condition cp c1 cond) then ?run c1 else c1)"
    by (simp add: assms load_rewrite_rules_snoc rewrite_request_def apply_rule_def match_conditions_def list_all_iff)
  show "map_of (c_headers c2) h =
      (if xr_enabled r \<and> (\<forall>cond\<in>set (xr_conditions r). match_condition cp c1 cond)
       then (case find (\<lambda>a. xa_name a = h \<and> xa_type a \<in> {''set_header'', ''remove_header''}) (rev (xr_actions r)) of
               None \<Rightarrow> map_of (c_headers c1) h
             | Some a \<Rightarrow> if xa_type a = ''set_header'' then Some (xa_value a) else None)
       else map_of (c_headers c1) h)"
    unfolding c2 using rewrite_actions_headers [of "xr_actions r" c1 h]
    by (simp add: header_writer_def written_value_def split: option.split)
  show "(\<forall>a\<in>set (xr_actions r). xa_type a \<noteq> ''set_body'') \<longrightarrow> c_body c2 = c_body c1"
    unfolding c2 by (simp add: rewrite_actions_body)
  show "c2 = c\<lparr>c_headers := c_headers c2, c_body := c_body c2\<rparr>"
    using rewrite_request_frame [of c cp "load_rewrite_rules (rs @ [r])"] assms(2) by (simp add: same_but_rewritable_def)
qed

text \<open>The conditions of a rule have no say in the rewriting of responses.\<close>

lemma response_ignores_conditions:
  "rewrite_response (map (\<lambda>r. r\<lparr>rr_conditions := conds r\<rparr>) m) rs = rewrite_response m rs"
  by (induction m arbitrary: rs) (simp_all add: rewrite_response_def)

text \<open>The expression of a configured body action is never compiled, so that its replacement does nothing.\<close>

definition no_regex :: "rewrite_action \<Rightarrow> bool" where
  "no_regex a = (case a of BodyAction op pat v re \<Rightarrow> re = None | _ \<Rightarrow> True)"

lemma engine_actions_no_regex: "list_all no_regex (engine_rewrite_actions as)"
  by (induction "as") (auto simp: engine_rewrite_actions_def engine_rewrite_action_def no_regex_def)

lemma load_no_regex:
  "list_all (\<lambda>r. list_all no_regex (rr_actions r)) (load_rewrite_rules rs)"
proof -
  have "list_all (\<lambda>r. list_all no_regex (rr_actions r)) m \<Longrightarrow>
    list_all (\<lambda>r. list_all no_regex (rr_actions r))
     (fold (\<lambda>r m. if xr_enabled r then add_rewrite_rule
        \<lparr>rr_name = xr_name r, rr_conditions = xr_conditions r, rr_actions = engine_rewrite_actions (xr_actions r)\<rparr> m else m) rs m)" for m
    by (induction rs arbitrary: m) (simp_all add: add_rewrite_rule_def engine_actions_no_regex)
  then show ?thesis by (simp add: load_rewrite_rules_def new_rewrite_manager_def)
qed

text \<open>A value that an earlier placeholder brought in is expanded in turn.\<close>

lemma expand_url_nested:
  "expand_url ''http://{{.host}}/'' (plain_request\<lparr>c_host := ''{{.method}}''\<rparr>) = ''http://GET/''"
  by code_simp

section \<open>Witnesses\<close>

definition demo_rewrite :: rewrite_rule_config where
  "demo_rewrite = \<lparr>xr_enabled = True, xr_name = ''r'',
     xr_conditions = [\<lparr>rc_field = ''path'', rc_name = [], rc_operator = ''prefix'', rc_value = ''/''\<rparr>],
     xr_actions = [\<lparr>xa_type = ''set_header'', xa_name = ''X-A'', xa_value = ''1'', xa_op = [], xa_pattern = []\<rparr>,
       \<lparr>xa_type = ''remove_header'', xa_name = ''X-B'', xa_value = [], xa_op = [], xa_pattern = []\<rparr>]\<rparr>"

theorem rewrite_last_word_witness:
  "map_of (c_headers (rewrite_request (\<lambda>p. None) (load_rewrite_rules ([] @ [demo_rewrite]))
     (plain_request\<lparr>c_path := ''/x'', c_headers := [(''X-B'', ''2'')]\<rparr>))) ''X-B'' = None"
proof -
  have "rewrite_request (\<lambda>p. None) (load_rewrite_rules []) c = c" for c
    by (simp add: load_rewrite_rules_def new_rewrite_manager_def rewrite_request_def)
  moreover have "match_condition (\<lambda>p. None) (plain_request\<lparr>c_path := ''/x'', c_headers := [(''X-B'', ''2'')]\<rparr>)
      \<lparr>rc_field = ''path'', rc_name = [], rc_operator = ''prefix'', rc_value = ''/''\<rparr>" by code_simp
  ultimately show ?thesis
    using rewrite_last_word [OF refl refl, of "\<lambda>p. None" "[]" demo_rewrite
        "plain_request\<lparr>c_path := ''/x'', c_headers := [(''X-B'', ''2'')]\<rparr>" "''X-B''"]
    by (simp add: demo_rewrite_def)
qed

end
