(* ===== verification/Reputation.thy ===== *)
theory Reputation
  imports NetIP WafTypes
begin

text \<open>
  The reputation of addresses, \<^verbatim>\<open>internal/reputation/reputation.go\<close>: lists of networks, the score of an
  address, and the cache of scores. The ticker of \<^verbatim>\<open>Cleanup\<close> is one call of \<open>rep_cleanup\<close> per tick.
\<close>

section \<open>State\<close>

record ip_record =
  ir_ip :: string
  ir_score :: rat
  ir_last_seen :: gotime
  ir_reports :: int
  ir_source :: string
  ir_categories :: "string list"
  ir_tor :: bool
  ir_vpn :: bool
  ir_proxy :: bool
  ir_datacenter :: bool

record rep_engine =
  rp_cache :: "string \<rightharpoonup> ip_record"
  rp_ttl :: duration
  rp_allow :: "ip_net list"
  rp_block :: "ip_net list"
  rp_allow_asns :: "nat \<rightharpoonup> bool"
  rp_block_asns :: "nat \<rightharpoonup> bool"
  rp_allow_countries :: "string \<rightharpoonup> bool"
  rp_block_countries :: "string \<rightharpoonup> bool"
  rp_tor :: "string \<rightharpoonup> bool"
  rp_vpn :: "ip_net list"
  rp_proxy :: "ip_net list"

definition new_reputation :: rep_engine where
  "new_reputation = \<lparr>rp_cache = Map.empty, rp_ttl = 30 * minute, rp_allow = [], rp_block = [], rp_allow_asns = Map.empty,
     rp_block_asns = Map.empty, rp_allow_countries = Map.empty, rp_block_countries = Map.empty, rp_tor = Map.empty,
     rp_vpn = [], rp_proxy = []\<rparr>"

definition blank_record :: "gotime \<Rightarrow> string \<Rightarrow> ip_record" where
  "blank_record now ip = \<lparr>ir_ip = ip, ir_score = 0, ir_last_seen = now, ir_reports = 0, ir_source = [], ir_categories = [],
     ir_tor = False, ir_vpn = False, ir_proxy = False, ir_datacenter = False\<rparr>"

section \<open>Scores\<close>

definition in_networks :: "ip_addr \<Rightarrow> ip_net list \<Rightarrow> bool" where
  "in_networks ip nets = list_ex (\<lambda>n. net_contains n ip) nets"

definition datacenter_ranges :: "string list" where
  "datacenter_ranges =
     [''13.32.0.0/15'', ''13.104.0.0/14'', ''15.0.0.0/8'', ''35.0.0.0/8'', ''52.0.0.0/8'', ''54.0.0.0/8'',
      ''63.0.0.0/8'', ''64.0.0.0/8'', ''65.0.0.0/8'', ''66.0.0.0/8'', ''67.0.0.0/8'', ''68.0.0.0/8'', ''69.0.0.0/8'',
      ''70.0.0.0/8'', ''71.0.0.0/8'', ''72.0.0.0/8'', ''73.0.0.0/8'', ''74.0.0.0/8'', ''75.0.0.0/8'', ''76.0.0.0/8'',
      ''77.0.0.0/8'', ''78.0.0.0/8'', ''79.0.0.0/8'', ''80.0.0.0/5'', ''96.0.0.0/6'', ''100.0.0.0/8'', ''104.0.0.0/8'',
      ''108.0.0.0/8'', ''128.0.0.0/16'']"

definition is_datacenter :: "ip_addr \<Rightarrow> bool" where
  "is_datacenter ip =
     list_ex (\<lambda>s. case parse_cidr s of None \<Rightarrow> False | Some n \<Rightarrow> net_contains n ip) datacenter_ranges"

text \<open>One test: it adds to the score, sets a flag and appends a category.\<close>

definition mark :: "bool \<Rightarrow> rat \<Rightarrow> string \<Rightarrow> (ip_record \<Rightarrow> ip_record) \<Rightarrow> ip_record \<Rightarrow> ip_record" where
  "mark b s cat flag r =
     (if b then (flag r)\<lparr>ir_score := ir_score r + s, ir_categories := ir_categories r @ [cat]\<rparr> else r)"

definition rate_record :: "gotime \<Rightarrow> string \<Rightarrow> ip_addr \<Rightarrow> rep_engine \<Rightarrow> ip_record" where
  "rate_record now s ip e =
     (let r = blank_record now s in
      if in_networks ip (rp_allow e) then r
      else if in_networks ip (rp_block e) then r\<lparr>ir_score := 100\<rparr>
      else
        mark (is_datacenter ip) 20 ''datacenter'' (ir_datacenter_update (\<lambda>_. True))
          (mark (in_networks ip (rp_proxy e)) 50 ''proxy'' (ir_proxy_update (\<lambda>_. True))
            (mark (in_networks ip (rp_vpn e)) 40 ''vpn'' (ir_vpn_update (\<lambda>_. True))
              (mark (map_get (rp_tor e) s False) 60 ''tor'' (ir_tor_update (\<lambda>_. True)) r))))"

definition set_cache :: "string \<Rightarrow> ip_record \<Rightarrow> rep_engine \<Rightarrow> rep_engine" where
  "set_cache ip r e = e\<lparr>rp_cache := (rp_cache e)(ip \<mapsto> r)\<rparr>"

definition cached_record :: "gotime \<Rightarrow> string \<Rightarrow> rep_engine \<Rightarrow> ip_record option" where
  "cached_record now ip e =
     (case rp_cache e ip of
        None \<Rightarrow> None
      | Some r \<Rightarrow> if time_sub now (ir_last_seen r) < rp_ttl e then Some r else None)"

definition rep_inspect :: "gotime \<Rightarrow> string \<Rightarrow> rep_engine \<Rightarrow> rep_engine \<times> ip_record option \<times> rat" where
  "rep_inspect now s e =
     (if s = [] then (e, None, 0)
      else
        (case cached_record now s e of
           Some r \<Rightarrow> (e, Some r, ir_score r)
         | None \<Rightarrow>
             (case parse_ip s of
                None \<Rightarrow> (e, None, 0)
              | Some ip \<Rightarrow>
                  (let r = rate_record now s ip e in (set_cache s r e, Some r, ir_score r)))))"

definition rep_score :: "gotime \<Rightarrow> string \<Rightarrow> rep_engine \<Rightarrow> rep_engine \<times> rat" where
  "rep_score now s e = (case rep_inspect now s e of (e', _, x) \<Rightarrow> (e', x))"

section \<open>Lists\<close>

definition add_allowlist :: "string \<Rightarrow> rep_engine \<Rightarrow> rep_engine \<times> gotext option" where
  "add_allowlist cidr e =
     (case parse_cidr cidr of
        None \<Rightarrow> (e, Some (Fmt ''invalid cidr: %w'' []))
      | Some n \<Rightarrow> (e\<lparr>rp_allow := rp_allow e @ [n]\<rparr>, None))"

definition add_blocklist :: "string \<Rightarrow> rep_engine \<Rightarrow> rep_engine \<times> gotext option" where
  "add_blocklist cidr e =
     (case parse_cidr cidr of
        None \<Rightarrow> (e, Some (Fmt ''invalid cidr: %w'' []))
      | Some n \<Rightarrow> (e\<lparr>rp_block := rp_block e @ [n]\<rparr>, None))"

definition allowlist_asn :: "nat \<Rightarrow> rep_engine \<Rightarrow> rep_engine" where
  "allowlist_asn n e = e\<lparr>rp_allow_asns := (rp_allow_asns e)(n \<mapsto> True)\<rparr>"

definition blocklist_asn :: "nat \<Rightarrow> rep_engine \<Rightarrow> rep_engine" where
  "blocklist_asn n e = e\<lparr>rp_block_asns := (rp_block_asns e)(n \<mapsto> True)\<rparr>"

definition allowlist_country :: "string \<Rightarrow> rep_engine \<Rightarrow> rep_engine" where
  "allowlist_country c e = e\<lparr>rp_allow_countries := (rp_allow_countries e)(c \<mapsto> True)\<rparr>"

definition blocklist_country :: "string \<Rightarrow> rep_engine \<Rightarrow> rep_engine" where
  "blocklist_country c e = e\<lparr>rp_block_countries := (rp_block_countries e)(c \<mapsto> True)\<rparr>"

definition load_tor_nodes :: "string list \<Rightarrow> rep_engine \<Rightarrow> rep_engine" where
  "load_tor_nodes nodes e = e\<lparr>rp_tor := fold (\<lambda>n m. m(n \<mapsto> True)) nodes (rp_tor e)\<rparr>"

text \<open>The networks up to the first that does not parse are kept.\<close>

fun parse_ranges :: "string list \<Rightarrow> ip_net list \<times> bool" where
  "parse_ranges [] = ([], True)"
| "parse_ranges (s # ss) =
     (case parse_cidr s of
        None \<Rightarrow> ([], False)
      | Some n \<Rightarrow> (let (ns, ok) = parse_ranges ss in (n # ns, ok)))"

definition load_vpn_ranges :: "string list \<Rightarrow> rep_engine \<Rightarrow> rep_engine \<times> gotext option" where
  "load_vpn_ranges cidrs e =
     (let (ns, ok) = parse_ranges cidrs in
      (e\<lparr>rp_vpn := rp_vpn e @ ns\<rparr>, if ok then None else Some (Fmt ''invalid vpn cidr: %w'' [])))"

definition load_proxy_ranges :: "string list \<Rightarrow> rep_engine \<Rightarrow> rep_engine \<times> gotext option" where
  "load_proxy_ranges cidrs e =
     (let (ns, ok) = parse_ranges cidrs in
      (e\<lparr>rp_proxy := rp_proxy e @ ns\<rparr>, if ok then None else Some (Fmt ''invalid proxy cidr: %w'' [])))"

definition rep_cleanup :: "gotime \<Rightarrow> rep_engine \<Rightarrow> rep_engine" where
  "rep_cleanup now e =
     e\<lparr>rp_cache := map_expire (\<lambda>r. rp_ttl e * 2 < time_sub now (ir_last_seen r)) (rp_cache e)\<rparr>"

section \<open>The cache implements the rating\<close>

text \<open>The score of an address as the lists give it, without a cache.\<close>

definition spec_score :: "rep_engine \<Rightarrow> string \<Rightarrow> rat" where
  "spec_score e s =
     (if s = [] then 0 else case parse_ip s of None \<Rightarrow> 0 | Some ip \<Rightarrow> ir_score (rate_record 0 s ip e))"

text \<open>What the cache holds are ratings of earlier instants under the present lists.\<close>

definition cache_ok :: "rep_engine \<Rightarrow> bool" where
  "cache_ok e \<longleftrightarrow> (\<forall>s r. rp_cache e s = Some r \<longrightarrow>
     s \<noteq> [] \<and> (\<exists>ip t. parse_ip s = Some ip \<and> r = rate_record t s ip e))"

definition same_lists :: "rep_engine \<Rightarrow> rep_engine \<Rightarrow> bool" where
  "same_lists e e' \<longleftrightarrow> e' = e\<lparr>rp_cache := rp_cache e'\<rparr>"

lemma mark_sel [simp]:
  "ir_score (mark b x cat f r) = (if b then ir_score r + x else ir_score r)"
  by (simp add: mark_def)

lemma rate_score_time: "ir_score (rate_record t s ip e) = ir_score (rate_record u s ip e)"
  by (simp add: rate_record_def blank_record_def Let_def)

lemma rate_record_cache [simp]: "rate_record t s ip (e\<lparr>rp_cache := m\<rparr>) = rate_record t s ip e"
  by (simp add: rate_record_def Let_def)

lemma cached_score:
  assumes "cache_ok e" "rp_cache e s = Some r"
  shows "ir_score r = spec_score e s"
proof -
  from assms obtain ip t where "s \<noteq> []" "parse_ip s = Some ip" "r = rate_record t s ip e"
    unfolding cache_ok_def by blast
  then show ?thesis using rate_score_time [of t s ip e 0] by (simp add: spec_score_def)
qed

lemma inspect_implements:
  assumes "cache_ok e" and "rep_inspect now s e = (e', r, x)"
  shows "x = spec_score e s \<and> cache_ok e' \<and> same_lists e e'"
proof (cases "s = [] \<or> cached_record now s e \<noteq> None \<or> parse_ip s = None")
  case True
  with assms cached_score [OF assms(1), of s] show ?thesis
    by (auto simp: rep_inspect_def spec_score_def same_lists_def cached_record_def split: if_splits option.splits)
next
  case False
  then obtain ip where ip: "s \<noteq> []" "cached_record now s e = None" "parse_ip s = Some ip" by auto
  then have e': "e' = set_cache s (rate_record now s ip e) e" and x: "x = ir_score (rate_record now s ip e)"
    using assms(2) by (auto simp: rep_inspect_def Let_def)
  have "cache_ok e'" using assms(1) ip by (auto simp: e' cache_ok_def set_cache_def)
  with x ip rate_score_time [of now s ip e 0] show ?thesis
    by (simp add: e' same_lists_def set_cache_def spec_score_def)
qed

text \<open>A history of look-ups and of ticks of the clean-up.\<close>

datatype rep_event = Lookup string | Sweep

definition rep_step :: "rep_engine \<Rightarrow> gotime \<times> rep_event \<Rightarrow> rep_engine" where
  "rep_step e ev = (case ev of (now, Lookup s) \<Rightarrow> fst (rep_inspect now s e) | (now, Sweep) \<Rightarrow> rep_cleanup now e)"

definition rep_run :: "(gotime \<times> rep_event) list \<Rightarrow> rep_engine \<Rightarrow> rep_engine" where
  "rep_run evs e = foldl rep_step e evs"

lemma rep_step_keeps:
  assumes "cache_ok e"
  shows "cache_ok (rep_step e ev) \<and> same_lists e (rep_step e ev)"
proof -
  obtain now k where ev: "ev = (now, k)" by (cases ev)
  show ?thesis
  proof (cases k)
    case (Lookup s)
    then show ?thesis
      using inspect_implements [OF assms, of now s] by (cases "rep_inspect now s e") (simp add: ev rep_step_def)
  next
    case Sweep
    then show ?thesis
      using assms by (simp add: ev rep_step_def rep_cleanup_def same_lists_def cache_ok_def map_expire_Some_iff)
  qed
qed

lemma spec_score_cache [simp]: "spec_score (e\<lparr>rp_cache := m\<rparr>) s = spec_score e s"
  by (simp add: spec_score_def split: option.splits)

lemma spec_score_same_lists: "same_lists e e' \<Longrightarrow> spec_score e' s = spec_score e s"
  unfolding same_lists_def by (metis spec_score_cache)

lemma rep_run_keeps:
  "cache_ok e \<Longrightarrow> cache_ok (rep_run evs e) \<and> spec_score (rep_run evs e) s = spec_score e s"
proof (induction evs arbitrary: e)
  case (Cons ev evs)
  then have "cache_ok (rep_step e ev)" "same_lists e (rep_step e ev)" using rep_step_keeps by blast+
  then show ?case using Cons.IH [of "rep_step e ev"] spec_score_same_lists by (simp add: rep_run_def)
qed (simp add: rep_run_def)

text \<open>
  Property C24. The cache is invisible: when the lists were loaded before the first look-up, after
  any history of look-ups and clean-ups, at any instants, a look-up gives the score of the lists.
\<close>

theorem cache_refines_rating:
  assumes "rp_cache e = Map.empty"
  shows "snd (rep_score now s (rep_run evs e)) = spec_score e s"
proof -
  have "cache_ok e" using assms by (simp add: cache_ok_def)
  then have "cache_ok (rep_run evs e)" "spec_score (rep_run evs e) s = spec_score e s" using rep_run_keeps by blast+
  then show ?thesis
    using inspect_implements [of "rep_run evs e" now s]
    by (cases "rep_inspect now s (rep_run evs e)") (auto simp: rep_score_def)
qed

text \<open>A network that is blocked while an address of it is in the cache has no effect until the entry is too old.\<close>

lemma blocklist_waits_for_ttl:
  assumes "cached_record now s e = Some r" and "s \<noteq> []"
  shows "snd (rep_score now s (fst (add_blocklist cidr e))) = ir_score r"
  using assms by (auto simp: rep_score_def rep_inspect_def add_blocklist_def cached_record_def split: option.splits if_splits)

text \<open>Scores are not limited to 100.\<close>

lemma spec_score_bounds: "0 \<le> spec_score e s \<and> spec_score e s \<le> 170"
  by (auto simp: spec_score_def rate_record_def blank_record_def Let_def split: option.splits)

section \<open>Witnesses\<close>

definition demo_reputation :: rep_engine where
  "demo_reputation = fst (add_blocklist ''10.0.0.0/8'' new_reputation)"

lemma cache_refines_rating_witness:
  "snd (rep_score 9 ''10.1.2.3'' (rep_run [(0, Lookup ''10.1.2.3''), (5, Sweep)] demo_reputation)) = 100"
proof -
  have "rp_cache demo_reputation = Map.empty"
    by (simp add: demo_reputation_def add_blocklist_def new_reputation_def split: option.splits)
  then have "snd (rep_score 9 ''10.1.2.3'' (rep_run [(0, Lookup ''10.1.2.3''), (5, Sweep)] demo_reputation)) =
    spec_score demo_reputation ''10.1.2.3''"
    by (rule cache_refines_rating)
  also have "\<dots> = 100" by code_simp
  finally show ?thesis .
qed

end
