(* ===== verification/Geo.thy ===== *)
theory Geo
  imports NetIP WafTypes
begin

text \<open>
  Geographic look-ups, \<^verbatim>\<open>internal/geo/geo.go\<close>. Opening a database file gives a reader; what a reader knows
  of an address is an argument of the model (the GeoIP library), and whether it is closed is part of the state.
\<close>

section \<open>Readers\<close>

record geo_city =
  gc_iso :: string
  gc_country :: string
  gc_city :: string
  gc_timezone :: string
  gc_latitude :: rat
  gc_longitude :: rat
  gc_anonymous :: bool
  gc_satellite :: bool

record geo_reader =
  gr_city :: "ip_addr \<Rightarrow> geo_city option"
  gr_asn :: "ip_addr \<Rightarrow> (nat \<times> string) option"
  gr_open :: bool

type_synonym geo_open = "string \<Rightarrow> geo_reader option"

record geo_record =
  ge_country :: string
  ge_country_name :: string
  ge_city :: string
  ge_isp :: string
  ge_asn :: nat
  ge_as_org :: string
  ge_timezone :: string
  ge_latitude :: rat
  ge_longitude :: rat
  ge_anonymous :: bool
  ge_satellite :: bool

definition empty_record :: geo_record where
  "empty_record = \<lparr>ge_country = [], ge_country_name = [], ge_city = [], ge_isp = [], ge_asn = 0, ge_as_org = [],
     ge_timezone = [], ge_latitude = 0, ge_longitude = 0, ge_anonymous = False, ge_satellite = False\<rparr>"

record geo_lookup =
  gl_db :: "geo_reader option"
  gl_asn :: "geo_reader option"
  gl_city_path :: string
  gl_asn_path :: string
  gl_available :: bool

section \<open>Opening and closing\<close>

definition close_reader :: "geo_reader option \<Rightarrow> geo_reader option" where
  "close_reader r = map_option (gr_open_update (\<lambda>_. False)) r"

text \<open>\<^verbatim>\<open>open\<close>: a failed second database closes the first; the flag is only ever set here.\<close>

definition geo_open_dbs :: "geo_open \<Rightarrow> geo_lookup \<Rightarrow> geo_lookup \<times> gotext option" where
  "geo_open_dbs op l =
     (let l1 = (if gl_city_path l = [] then l else l\<lparr>gl_db := op (gl_city_path l)\<rparr>) in
      if gl_city_path l \<noteq> [] \<and> gl_db l1 = None then (l1, Some (Fmt ''open city database: %w'' []))
      else
        (let l2 = (if gl_asn_path l = [] then l1 else l1\<lparr>gl_asn := op (gl_asn_path l)\<rparr>) in
         if gl_asn_path l \<noteq> [] \<and> gl_asn l2 = None
         then (l2\<lparr>gl_db := close_reader (gl_db l2)\<rparr>, Some (Fmt ''open asn database: %w'' []))
         else (l2\<lparr>gl_available := True\<rparr>, None)))"

definition new_lookup :: "geo_open \<Rightarrow> string \<Rightarrow> string \<Rightarrow> geo_lookup" where
  "new_lookup op city asn =
     fst (geo_open_dbs op \<lparr>gl_db = None, gl_asn = None, gl_city_path = city, gl_asn_path = asn, gl_available = False\<rparr>)"

definition geo_close :: "geo_lookup \<Rightarrow> geo_lookup" where
  "geo_close l = l\<lparr>gl_db := close_reader (gl_db l), gl_asn := close_reader (gl_asn l), gl_available := False\<rparr>"

definition geo_reload :: "geo_open \<Rightarrow> geo_lookup \<Rightarrow> geo_lookup \<times> gotext option" where
  "geo_reload op l = geo_open_dbs op (geo_close l)"

section \<open>Look-ups\<close>

definition add_city :: "geo_city option \<Rightarrow> geo_record \<Rightarrow> geo_record" where
  "add_city x r =
     (case x of
        None \<Rightarrow> r
      | Some c \<Rightarrow> r\<lparr>ge_country := gc_iso c, ge_country_name := gc_country c, ge_city := gc_city c, ge_timezone := gc_timezone c,
          ge_latitude := gc_latitude c, ge_longitude := gc_longitude c, ge_anonymous := gc_anonymous c,
          ge_satellite := gc_satellite c\<rparr>)"

definition add_asn :: "(nat \<times> string) option \<Rightarrow> geo_record \<Rightarrow> geo_record" where
  "add_asn x r = (case x of None \<Rightarrow> r | Some (n, org) \<Rightarrow> r\<lparr>ge_asn := n, ge_as_org := org\<rparr>)"

definition lookup_ip :: "string \<Rightarrow> geo_lookup \<Rightarrow> geo_record" where
  "lookup_ip s l =
     (if \<not> gl_available l then empty_record\<lparr>ge_country := ''XX'', ge_country_name := ''Unknown''\<rparr>
      else
        (case parse_ip s of
           None \<Rightarrow> empty_record\<lparr>ge_country := ''XX'', ge_country_name := ''Invalid IP''\<rparr>
         | Some ip \<Rightarrow>
             add_asn (Option.bind (gl_asn l) (\<lambda>r. gr_asn r ip))
               (add_city (Option.bind (gl_db l) (\<lambda>r. gr_city r ip)) empty_record)))"

definition country_code :: "string \<Rightarrow> geo_lookup \<Rightarrow> string" where
  "country_code s l = ge_country (lookup_ip s l)"

definition asn_of :: "string \<Rightarrow> geo_lookup \<Rightarrow> nat" where
  "asn_of s l = ge_asn (lookup_ip s l)"

definition is_country_allowed :: "string \<Rightarrow> string list \<Rightarrow> geo_lookup \<Rightarrow> bool" where
  "is_country_allowed s allowed l = (allowed = [] \<or> country_code s l \<in> set allowed)"

definition is_country_blocked :: "string \<Rightarrow> string list \<Rightarrow> geo_lookup \<Rightarrow> bool" where
  "is_country_blocked s blocked l = (blocked \<noteq> [] \<and> country_code s l \<in> set blocked)"

definition enforce_data_residency :: "string \<Rightarrow> string list \<Rightarrow> geo_lookup \<Rightarrow> bool" where
  "enforce_data_residency s regions l = (regions = [] \<or> country_code s l \<in> set regions)"

section \<open>Closed readers are not used\<close>

definition reader_usable :: "geo_reader option \<Rightarrow> bool" where
  "reader_usable r = (case r of None \<Rightarrow> True | Some x \<Rightarrow> gr_open x)"

definition geo_inv :: "geo_lookup \<Rightarrow> bool" where
  "geo_inv l \<longleftrightarrow> (gl_city_path l = [] \<longrightarrow> gl_db l = None) \<and> (gl_asn_path l = [] \<longrightarrow> gl_asn l = None) \<and>
     (gl_available l \<longrightarrow> reader_usable (gl_db l) \<and> reader_usable (gl_asn l))"

definition opens :: "geo_open \<Rightarrow> bool" where
  "opens op \<longleftrightarrow> (\<forall>p r. op p = Some r \<longrightarrow> gr_open r)"

lemma close_reader_None [simp]: "close_reader r = None \<longleftrightarrow> r = None"
  by (simp add: close_reader_def)

lemma geo_open_inv:
  assumes "opens op" and "geo_inv l" and "\<not> gl_available l"
  shows "geo_inv (fst (geo_open_dbs op l))"
  using assms by (auto simp: geo_open_dbs_def geo_inv_def opens_def reader_usable_def Let_def split: option.splits)

lemma geo_close_inv: "geo_inv l \<Longrightarrow> geo_inv (geo_close l)"
  by (simp add: geo_close_def geo_inv_def)

lemma new_lookup_inv: "opens op \<Longrightarrow> geo_inv (new_lookup op city asn)"
  unfolding new_lookup_def by (rule geo_open_inv) (simp_all add: geo_inv_def reader_usable_def)

lemma geo_reload_inv: "opens op \<Longrightarrow> geo_inv l \<Longrightarrow> geo_inv (fst (geo_reload op l))"
  unfolding geo_reload_def by (rule geo_open_inv) (simp_all add: geo_close_inv, simp add: geo_close_def)

text \<open>
  Without its databases the look-up fails open and shut at once: no address is in a
  blocked country, and none is in an allowed one, unless the list names the unknown country XX.
\<close>

lemma unavailable_geo:
  assumes "\<not> gl_available l" and "''XX'' \<notin> set cs" and "cs \<noteq> []"
  shows "\<not> is_country_blocked s cs l \<and> \<not> is_country_allowed s cs l"
  using assms by (simp add: is_country_blocked_def is_country_allowed_def country_code_def lookup_ip_def)

end
