(* ===== verification/Mtls.thy ===== *)
theory Mtls
  imports WafTypes
begin

text \<open>
  Client certificates, \<^verbatim>\<open>internal/engine/mtls.go\<close>. The connection behind a request, files, PEM and the ASN.1
  form of certificate policies are arguments.
\<close>

section \<open>Certificates and connections\<close>

record certificate =
  ct_subject :: string
  ct_issuer :: string
  ct_not_before :: gotime
  ct_not_after :: gotime
  ct_serial :: string
  ct_extensions :: "(string \<times> string) list"

text \<open>The connection in the context of a request: none, one that is not TLS, or TLS with the peer's certificates.\<close>

datatype conn = NoConn | PlainConn | TlsConn "certificate list"

record cert_info =
  ci_subject :: string
  ci_issuer :: string
  ci_not_before :: gotime
  ci_not_after :: gotime
  ci_serial :: string
  ci_fingerprint :: string
  ci_pem :: string

definition extract_cert_info :: "certificate \<Rightarrow> cert_info" where
  "extract_cert_info c = \<lparr>ci_subject = ct_subject c, ci_issuer = ct_issuer c, ci_not_before = ct_not_before c,
     ci_not_after = ct_not_after c, ci_serial = ct_serial c, ci_fingerprint = [], ci_pem = []\<rparr>"

section \<open>The inspector\<close>

record mtls_config =
  mg_enabled :: bool
  mg_ca_file :: string
  mg_client_auth :: string
  mg_skip_verify :: bool
  mg_policy_oid :: string
  mg_verify_depth :: int
  mg_fail_on_error :: bool
  mg_early_auth :: bool
  mg_username_header :: string

record mtls_inspector =
  mi_config :: mtls_config
  mi_ca :: "string list option"
  mi_depth :: int
  mi_fail_on_error :: bool
  mi_early_auth :: bool
  mi_username_header :: string

text \<open>Reading a file, and the certificates of a PEM text.\<close>

type_synonym file_reader = "string \<Rightarrow> string option"
type_synonym pem_parser = "string \<Rightarrow> string list"

definition load_ca_file :: "file_reader \<Rightarrow> pem_parser \<Rightarrow> string \<Rightarrow> gotext + string list option" where
  "load_ca_file file pem path =
     (if path = [] then Inr None
      else
        (case file path of
           None \<Rightarrow> Inl (Fmt ''read CA file: %w'' [])
         | Some d \<Rightarrow>
             if pem d = [] then Inl (Fmt ''no valid CA certificates found in %s'' [AStr path]) else Inr (Some (pem d))))"

definition new_mtls :: "file_reader \<Rightarrow> pem_parser \<Rightarrow> mtls_config \<Rightarrow> gotext + mtls_inspector" where
  "new_mtls file pem g =
     (let m = \<lparr>mi_config = g, mi_ca = None, mi_depth = mg_verify_depth g, mi_fail_on_error = mg_fail_on_error g,
                mi_early_auth = mg_early_auth g, mi_username_header = mg_username_header g\<rparr> in
      if mg_ca_file g = [] then Inr m
      else
        (case load_ca_file file pem (mg_ca_file g) of
           Inl e \<Rightarrow> Inl (Fmt ''load CA cert: %w'' [])
         | Inr pool \<Rightarrow> Inr (m\<lparr>mi_ca := pool\<rparr>)))"

text \<open>The object identifiers that \<^verbatim>\<open>asn1.Unmarshal\<close> reads from the value of an extension, when it succeeds.\<close>

type_synonym oid_parser = "string \<Rightarrow> string list option"

fun policy_in :: "oid_parser \<Rightarrow> string \<Rightarrow> (string \<times> string) list \<Rightarrow> bool" where
  "policy_in oids want [] = False"
| "policy_in oids want ((eid, v) # exts) =
     (if eid = ''2.5.29.32'' then
        (case oids v of
           None \<Rightarrow> False
         | Some ps \<Rightarrow> if want \<in> set ps then True else policy_in oids want exts)
      else policy_in oids want exts)"

definition validate_policy :: "oid_parser \<Rightarrow> mtls_inspector \<Rightarrow> certificate \<Rightarrow> bool" where
  "validate_policy oids m c =
     (if mg_policy_oid (mi_config m) = [] then True else policy_in oids (mg_policy_oid (mi_config m)) (ct_extensions c))"

text \<open>A decision without evidence when the connection cannot be used.\<close>

definition unusable :: "mtls_inspector \<Rightarrow> string \<Rightarrow> string \<Rightarrow> rat \<Rightarrow> decision" where
  "unusable m rid name score =
     (if mi_fail_on_error m then mk_decision ActionBlock rid name ''high'' score (Lit []) else allow_decision)"

definition mtls_certificate :: "oid_parser \<Rightarrow> mtls_inspector \<Rightarrow> certificate \<Rightarrow> reqctx \<Rightarrow> reqctx \<times> decision" where
  "mtls_certificate oids m cert c =
     (let c' = (if mi_username_header m = [] then c
                else c\<lparr>c_headers := AList.update (mi_username_header m) (ci_subject (extract_cert_info cert)) (c_headers c)\<rparr>) in
      (c', if mg_skip_verify (mi_config m) then allow_decision
           else if mg_policy_oid (mi_config m) \<noteq> [] \<and> \<not> validate_policy oids m cert
           then mk_decision ActionBlock ''MTLS-004'' ''client certificate policy violation'' ''high'' 85
                  (Fmt ''required policy: %s'' [AStr (mg_policy_oid (mi_config m))])
           else allow_decision))"

definition mtls_check :: "oid_parser \<Rightarrow> mtls_inspector \<Rightarrow> conn \<Rightarrow> reqctx \<Rightarrow> reqctx \<times> decision" where
  "mtls_check oids m cn c =
     (if \<not> mg_enabled (mi_config m) then (c, allow_decision)
      else
        (case cn of
           NoConn \<Rightarrow> (c, unusable m ''MTLS-001'' ''mTLS connection info unavailable'' 85)
         | PlainConn \<Rightarrow> (c, unusable m ''MTLS-002'' ''connection is not TLS'' 90)
         | TlsConn [] \<Rightarrow>
             (c, if mg_client_auth (mi_config m) \<in> {''require-and-verify-client-cert'', ''require-any-client-cert''}
                 then mk_decision ActionBlock ''MTLS-003'' ''client certificate required'' ''high'' 90
                        (Lit ''no client certificate provided'')
                 else allow_decision)
         | TlsConn (cert # _) \<Rightarrow> mtls_certificate oids m cert c))"

definition mtls_inspect :: "oid_parser \<Rightarrow> (reqctx \<Rightarrow> conn) \<Rightarrow> mtls_inspector inspector" where
  "mtls_inspect oids conn_of = (\<lambda>now (m, c). case mtls_check oids m (conn_of c) c of (c', d) \<Rightarrow> ((m, c'), IDec d))"

definition get_client_cert_info :: "conn \<Rightarrow> cert_info option" where
  "get_client_cert_info cn = (case cn of TlsConn (c # _) \<Rightarrow> Some (extract_cert_info c) | _ \<Rightarrow> None)"

interpretation mtls: inspector "mtls_inspect oids conn_of" for oids conn_of
  by unfold_locales
    (auto simp: mtls_inspect_def mtls_check_def mtls_certificate_def unusable_def Let_def ctx_frame_def score_ok_def
      split: conn.splits list.splits if_splits)

section \<open>What is never verified\<close>

text \<open>
  The pool of authorities, the issuer and the validity of the certificate have no influence: a certificate that
  the client made itself, with any subject, is treated as one of the authority, and its subject becomes the user
  name of the request.
\<close>

lemma authority_never_consulted:
  "mtls_check oids (m\<lparr>mi_ca := pool\<rparr>) (TlsConn (cert\<lparr>ct_issuer := i, ct_not_before := nb, ct_not_after := na\<rparr> # rest)) c
   = mtls_check oids m (TlsConn [cert]) c"
  by (simp add: mtls_check_def mtls_certificate_def validate_policy_def extract_cert_info_def Let_def)

text \<open>No code puts a connection into the context of a request; the inspector then judges by one setting alone.\<close>

lemma without_connection:
  assumes "mg_enabled (mi_config m)"
  shows "snd (mtls_check oids m NoConn c) = unusable m ''MTLS-001'' ''mTLS connection info unavailable'' 85"
  using assms by (simp add: mtls_check_def)

end
