(* ===== verification/Config.thy ===== *)
theory Config
  imports Json GraphQL Auth WebSocket Rewrite Mtls
begin

text \<open>
  The configuration and its manager, \<^verbatim>\<open>internal/config/config.go\<close>. The YAML library and the
  file system are arguments; references to environment variables, validation and the look-ups are modelled.
  Registered callbacks act on a world \<open>'w\<close> of their own.
\<close>

section \<open>The configuration\<close>

text \<open>A value of a YAML document, which the configuration only carries.\<close>

datatype yaml_value =
    YNull | YBool bool | YInt int | YFloat rat | YStr string | YSeq "yaml_value list" | YMap "(string \<times> yaml_value) list"

record logging_config =
  lg_level :: string
  lg_format :: string
  lg_output :: string
  lg_verbose :: bool

record tls_config =
  tl_enabled :: bool
  tl_cert_file :: string
  tl_key_file :: string
  tl_min_version :: string
  tl_http2 :: bool
  tl_ocsp :: bool
  tl_acme :: bool
  tl_acme_email :: string
  tl_acme_domains :: "string list"
  tl_acme_cache :: string

record admin_config =
  ad_port :: int
  ad_enabled :: bool
  ad_mtls :: bool
  ad_ca_cert :: string
  ad_cert_file :: string
  ad_key_file :: string
  ad_api_keys :: "string list"

record redis_config =
  rd_enabled :: bool
  rd_addr :: string
  rd_password :: string
  rd_db :: int
  rd_pool_size :: int
  rd_ttl :: int

record db_config =
  db_driver :: string
  db_dsn :: string
  db_max_open :: int
  db_max_idle :: int

record ml_config =
  ml_enabled :: bool
  ml_endpoint :: string
  ml_timeout_sec :: int
  ml_max_retries :: int
  ml_fallback_mode :: string
  ml_min_score :: rat
  ml_model_name :: string

record site_rule_override =
  so_enabled :: "bool option"
  so_params :: "(string \<times> yaml_value) list"

record rate_limit_site_config =
  rs_rps :: int
  rs_burst :: int

record site_config =
  st_name :: string
  st_domains :: "string list"
  st_upstream :: string
  st_port :: int
  st_tls :: bool
  st_cert_file :: string
  st_key_file :: string
  st_rate_limit :: "rate_limit_site_config option"
  st_waf_enabled :: bool
  st_rule_overrides :: "(string \<times> site_rule_override) list option"

record rule_config =
  rg_id :: string
  rg_name :: string
  rg_description :: string
  rg_enabled :: bool
  rg_severity :: string
  rg_action :: string
  rg_phase :: string
  rg_priority :: int
  rg_field :: string
  rg_operator :: string
  rg_value :: string
  rg_transform :: "string list"
  rg_tags :: "string list"
  rg_params :: "(string \<times> yaml_value) list"

text \<open>The settings that \<^verbatim>\<open>WebSocket.thy\<close> describes, with the two fields the inspector does not take.\<close>

record websocket_config = ws_config +
  wc_enabled :: bool
  wc_timeout :: duration

record siem_exporter_config =
  se_type :: string
  se_enabled :: bool
  se_url :: string
  se_token :: string
  se_index :: string
  se_username :: string
  se_password :: string
  se_verify_ssl :: bool

record siem_config =
  sm_enabled :: bool
  sm_interval :: duration
  sm_batch :: int
  sm_exporters :: "siem_exporter_config list"

text \<open>The types of detectors that can only be switched on.\<close>

record feature_config =
  ft_enabled :: bool

record credential_config =
  cg_enabled :: bool
  cg_max_attempts :: int
  cg_window_sec :: int
  cg_block_sec :: int
  cg_login_paths :: "string list"

record geo_config =
  gg_enabled :: bool
  gg_city_path :: string
  gg_asn_path :: string

record rate_limit_config =
  rt_enabled :: bool
  rt_algorithm :: string
  rt_default_rate :: int
  rt_default_burst :: int

record session_config =
  sn_enabled :: bool
  sn_ttl :: duration

record rules_config =
  ru_cfg_enabled :: bool
  ru_cfg_dry_run :: bool

record captcha_config =
  cp_enabled :: bool
  cp_provider :: string
  cp_site_key :: string
  cp_secret :: string
  cp_score :: rat

record response_inspect_config =
  ri_enabled :: bool
  ri_inspect_body :: bool
  ri_patterns :: "string list"

record soap_config =
  sp_enabled :: bool
  sp_strict :: bool
  sp_max_depth :: int

record grpc_config =
  gp_enabled :: bool
  gp_max_msg :: int
  gp_rate_limit :: int

record prometheus_config =
  pm_enabled :: bool
  pm_path :: string
  pm_port :: int

record behavioral_config =
  bg_enabled :: bool
  bg_reputation :: bool
  bg_velocity :: bool
  bg_path_entropy :: bool
  bg_threshold :: rat
  bg_window_sec :: int
  bg_max_requests :: int

record wasm_config =
  wg_enabled :: bool
  wg_module_dir :: string
  wg_max_pages :: int
  wg_modules :: "string list"

record desync_config =
  dg_enabled :: bool
  dg_max_body :: int
  dg_strict_cl :: bool
  dg_obs_fold :: bool

record adaptive_config =
  ag_enabled :: bool
  ag_script :: string
  ag_tarpit_ms :: int
  ag_captcha_score :: rat
  ag_ttl :: int

record ebpf_config =
  eb_enabled :: bool
  eb_interface :: string
  eb_port :: int
  eb_sample_rate :: int

record performance_config =
  pf_enabled :: bool
  pf_max_regex_ms :: int
  pf_max_wasm_ms :: int
  pf_max_memory_mb :: int
  pf_max_concurrency :: int
  pf_circuit_threshold :: int

text \<open>The detectors' parts of the configuration.\<close>

record config =
  cf_path :: string
  cf_sites :: "site_config list"
  cf_rules :: "rule_config list"
  cf_ml :: ml_config
  cf_redis :: redis_config
  cf_db :: db_config
  cf_logging :: logging_config
  cf_tls :: tls_config
  cf_admin :: admin_config
  cf_jwt :: jwt_config
  cf_oauth :: oauth_config
  cf_graphql :: graphql_config
  cf_mtls :: mtls_config
  cf_websocket :: websocket_config
  cf_siem :: siem_config
  cf_rewrite :: "rewrite_rule_config list"
  cf_sqli :: feature_config
  cf_xss :: feature_config
  cf_rce :: feature_config
  cf_ddos :: feature_config
  cf_protocol :: feature_config
  cf_bot :: feature_config
  cf_api_protect :: feature_config
  cf_upload :: feature_config
  cf_credential :: credential_config
  cf_geo :: geo_config
  cf_rate_limit :: rate_limit_config
  cf_session :: session_config
  cf_reputation :: feature_config
  cf_rules_cfg :: rules_config
  cf_captcha :: captcha_config
  cf_resp_inspect :: response_inspect_config
  cf_soap :: soap_config
  cf_grpc :: grpc_config
  cf_prometheus :: prometheus_config
  cf_ja3 :: feature_config
  cf_behavioral :: behavioral_config
  cf_wasm :: wasm_config
  cf_desync :: desync_config
  cf_adaptive :: adaptive_config
  cf_ebpf :: ebpf_config
  cf_parser :: feature_config
  cf_shadow :: feature_config
  cf_learning :: feature_config
  cf_performance :: performance_config

section \<open>Defaults\<close>

definition off :: feature_config where
  "off = \<lparr>ft_enabled = False\<rparr>"

definition default_ml :: ml_config where
  "default_ml = \<lparr>ml_enabled = False, ml_endpoint = ''http://127.0.0.1:9090'', ml_timeout_sec = 5, ml_max_retries = 2,
     ml_fallback_mode = ''allow'', ml_min_score = 1 / 2, ml_model_name = []\<rparr>"

definition default_websocket :: websocket_config where
  "default_websocket = \<lparr>wc_max_frame_size = 65536, wc_max_message_size = 0, wc_max_depth = 10, wc_max_frames_per_min = 0,
     wc_max_bytes_per_min = 0, wc_block_on_limit = False, wc_allowed_types = [], wc_strict_mode = True,
     wc_enable_ping = True, wc_enable_pong = True, wc_enable_close = True, wc_enabled = False, wc_timeout = 0\<rparr>"

definition default_config :: config where
  "default_config =
     \<lparr>cf_path = [], cf_sites = [], cf_rules = [], cf_ml = default_ml,
      cf_redis = \<lparr>rd_enabled = False, rd_addr = ''127.0.0.1:6379'', rd_password = [], rd_db = 0, rd_pool_size = 10, rd_ttl = 3600\<rparr>,
      cf_db = \<lparr>db_driver = ''sqlite3'', db_dsn = ''fortresswaf.db'', db_max_open = 25, db_max_idle = 5\<rparr>,
      cf_logging = \<lparr>lg_level = ''info'', lg_format = ''text'', lg_output = ''stdout'', lg_verbose = False\<rparr>,
      cf_tls = \<lparr>tl_enabled = False, tl_cert_file = [], tl_key_file = [], tl_min_version = ''1.2'', tl_http2 = True, tl_ocsp = False,
        tl_acme = False, tl_acme_email = [], tl_acme_domains = [], tl_acme_cache = []\<rparr>,
      cf_admin = \<lparr>ad_port = 8443, ad_enabled = True, ad_mtls = False, ad_ca_cert = [], ad_cert_file = [], ad_key_file = [],
        ad_api_keys = []\<rparr>,
      cf_jwt = \<lparr>jg_enabled = False, jg_jwks_url = [], jg_issuers = [], jg_audiences = [], jg_algorithms = [''RS256'', ''ES256''],
        jg_secret = []\<rparr>,
      cf_oauth = \<lparr>og_enabled = False, og_url = [], og_client = [], og_secret = [], og_hint = []\<rparr>,
      cf_graphql = default_graphql_config,
      cf_mtls = \<lparr>mg_enabled = False, mg_ca_file = [], mg_client_auth = ''no-client-certs'', mg_skip_verify = False,
        mg_policy_oid = [], mg_verify_depth = 5, mg_fail_on_error = False, mg_early_auth = False,
        mg_username_header = ''X-Client-Cert-User''\<rparr>,
      cf_websocket = default_websocket,
      cf_siem = \<lparr>sm_enabled = False, sm_interval = 10 * second, sm_batch = 100, sm_exporters = []\<rparr>,
      cf_rewrite = [], cf_sqli = off, cf_xss = off, cf_rce = off, cf_ddos = off, cf_protocol = off, cf_bot = off,
      cf_api_protect = off, cf_upload = off,
      cf_credential = \<lparr>cg_enabled = False, cg_max_attempts = 5, cg_window_sec = 300, cg_block_sec = 3600, cg_login_paths = []\<rparr>,
      cf_geo = \<lparr>gg_enabled = False, gg_city_path = [], gg_asn_path = []\<rparr>,
      cf_rate_limit = \<lparr>rt_enabled = False, rt_algorithm = [], rt_default_rate = 0, rt_default_burst = 0\<rparr>,
      cf_session = \<lparr>sn_enabled = False, sn_ttl = 0\<rparr>, cf_reputation = off,
      cf_rules_cfg = \<lparr>ru_cfg_enabled = False, ru_cfg_dry_run = False\<rparr>,
      cf_captcha = \<lparr>cp_enabled = False, cp_provider = [], cp_site_key = [], cp_secret = [], cp_score = 1 / 2\<rparr>,
      cf_resp_inspect = \<lparr>ri_enabled = False, ri_inspect_body = True, ri_patterns = []\<rparr>,
      cf_soap = \<lparr>sp_enabled = False, sp_strict = False, sp_max_depth = 10\<rparr>,
      cf_grpc = \<lparr>gp_enabled = False, gp_max_msg = 4194304, gp_rate_limit = 100\<rparr>,
      cf_prometheus = \<lparr>pm_enabled = False, pm_path = ''/metrics'', pm_port = 9090\<rparr>,
      cf_ja3 = \<lparr>ft_enabled = True\<rparr>,
      cf_behavioral = \<lparr>bg_enabled = False, bg_reputation = True, bg_velocity = True, bg_path_entropy = True,
        bg_threshold = 50, bg_window_sec = 60, bg_max_requests = 100\<rparr>,
      cf_wasm = \<lparr>wg_enabled = False, wg_module_dir = ''wasm_modules'', wg_max_pages = 10, wg_modules = []\<rparr>,
      cf_desync = \<lparr>dg_enabled = False, dg_max_body = 10485760, dg_strict_cl = True, dg_obs_fold = True\<rparr>,
      cf_adaptive = \<lparr>ag_enabled = False, ag_script = ''challenge.js'', ag_tarpit_ms = 30000, ag_captcha_score = 1 / 2, ag_ttl = 300\<rparr>,
      cf_ebpf = \<lparr>eb_enabled = False, eb_interface = ''eth0'', eb_port = 80, eb_sample_rate = 10\<rparr>,
      cf_parser = \<lparr>ft_enabled = True\<rparr>, cf_shadow = off, cf_learning = off,
      cf_performance = \<lparr>pf_enabled = False, pf_max_regex_ms = 1000, pf_max_wasm_ms = 5000, pf_max_memory_mb = 512,
        pf_max_concurrency = 0, pf_circuit_threshold = 5\<rparr>\<rparr>"

section \<open>Validation\<close>

text \<open>The first element with an error, with its index.\<close>

fun first_error :: "(nat \<Rightarrow> 'a \<Rightarrow> gotext option) \<Rightarrow> nat \<Rightarrow> 'a list \<Rightarrow> gotext option" where
  "first_error f i [] = None"
| "first_error f i (x # xs) = (case f i x of Some e \<Rightarrow> Some e | None \<Rightarrow> first_error f (Suc i) xs)"

definition site_error :: "nat \<Rightarrow> site_config \<Rightarrow> gotext option" where
  "site_error i s =
     (if st_name s = [] then Some (Fmt ''site[%d]: name is required'' [AInt (int i)])
      else if st_domains s = []
      then Some (Fmt ''site[%d] %q: at least one domain is required'' [AInt (int i), AStr (st_name s)])
      else if st_upstream s = [] then Some (Fmt ''site[%d] %q: upstream is required'' [AInt (int i), AStr (st_name s)])
      else None)"

definition rule_error :: "nat \<Rightarrow> rule_config \<Rightarrow> gotext option" where
  "rule_error i r =
     (if rg_id r = [] then Some (Fmt ''rule[%d]: ID is required'' [AInt (int i)])
      else if rg_field r = [] then Some (Fmt ''rule[%d] %q: field is required'' [AInt (int i), AStr (rg_id r)])
      else if rg_operator r = [] then Some (Fmt ''rule[%d] %q: operator is required'' [AInt (int i), AStr (rg_id r)])
      else None)"

definition validate :: "config \<Rightarrow> gotext option" where
  "validate c =
     (if cf_sites c = [] then Some (Lit ''at least one site must be configured'')
      else
        (case first_error site_error 0 (cf_sites c) of
           Some e \<Rightarrow> Some e
         | None \<Rightarrow>
             (case first_error rule_error 0 (cf_rules c) of
                Some e \<Rightarrow> Some e
              | None \<Rightarrow>
                  (if ml_enabled (cf_ml c) \<and> ml_endpoint (cf_ml c) = []
                   then Some (Lit ''ml.endpoint is required when ml is enabled'')
                   else if rd_enabled (cf_redis c) \<and> rd_addr (cf_redis c) = []
                   then Some (Lit ''redis.addr is required when redis is enabled'')
                   else None))))"

section \<open>References to the environment\<close>

text \<open>The matches of \<^verbatim>\<open>\$\{([^}]+)\}\<close>, from the left.\<close>

function env_refs :: "string \<Rightarrow> string list" where
  "env_refs s =
     (case s of
        [] \<Rightarrow> []
      | c # cs \<Rightarrow>
          (let name = takeWhile (\<lambda>x. x \<noteq> CHR ''}'') (drop 2 s); rest = dropWhile (\<lambda>x. x \<noteq> CHR ''}'') (drop 2 s) in
           if has_prefix s ''${'' \<and> name \<noteq> [] \<and> rest \<noteq> []
           then (''${'' @ name @ ''}'') # env_refs (tl rest) else env_refs cs))"
  by pat_completeness auto
termination
proof (relation "measure length", goal_cases)
  case (2 s c cs)
  then show ?case using length_dropWhile_le [of "\<lambda>x. x \<noteq> CHR ''}''" "drop 2 s"] by simp
qed auto

declare env_refs.simps [simp del]

definition expand_ref :: "(string \<Rightarrow> string) \<Rightarrow> string \<Rightarrow> string \<Rightarrow> string" where
  "expand_ref getenv s ref =
     (let val = getenv (butlast (drop 2 ref)) in if val \<noteq> [] then replace_all s ref val else s)"

definition expand_env_refs :: "(string \<Rightarrow> string) \<Rightarrow> string \<Rightarrow> string" where
  "expand_env_refs getenv s = foldl (expand_ref getenv) s (env_refs s)"

section \<open>The manager\<close>

text \<open>Environment, YAML into a configuration with its defaults and back, and the files that can be written. The path of a
  configuration is an unexported field: no document names it, and decoding leaves that of the defaults, which is empty, until
  \<^verbatim>\<open>Load\<close> sets it.\<close>

record cfg_env =
  ce_getenv :: "string \<Rightarrow> string"
  ce_unmarshal :: "string \<Rightarrow> config \<Rightarrow> config option"
  ce_marshal :: "config \<Rightarrow> string option"
  ce_writable :: "string \<Rightarrow> bool"

type_synonym disk = "string \<rightharpoonup> string"

record 'w cfg_manager =
  cm_config :: config
  cm_on_change :: "(config \<Rightarrow> 'w \<Rightarrow> 'w) list"

definition load_config :: "cfg_env \<Rightarrow> disk \<Rightarrow> string \<Rightarrow> gotext + config" where
  "load_config env dk path =
     (case dk path of
        None \<Rightarrow> Inl (Fmt ''read config: %w'' [])
      | Some d \<Rightarrow>
          (case ce_unmarshal env (expand_env_refs (ce_getenv env) d) default_config of
             None \<Rightarrow> Inl (Fmt ''parse config: %w'' [])
           | Some c \<Rightarrow>
               (let c' = c\<lparr>cf_path := path\<rparr> in
                case validate c' of Some e \<Rightarrow> Inl (Fmt ''invalid config: %w'' []) | None \<Rightarrow> Inr c')))"

definition new_manager :: "cfg_env \<Rightarrow> disk \<Rightarrow> string \<Rightarrow> gotext + 'w cfg_manager" where
  "new_manager env dk path =
     (case load_config env dk path of
        Inl e \<Rightarrow> Inl e
      | Inr c \<Rightarrow> Inr \<lparr>cm_config = c, cm_on_change = []\<rparr>)"

definition notify :: "'w cfg_manager \<Rightarrow> 'w \<Rightarrow> 'w" where
  "notify m w = fold (\<lambda>cb. cb (cm_config m)) (cm_on_change m) w"

definition reload :: "cfg_env \<Rightarrow> disk \<Rightarrow> 'w cfg_manager \<times> 'w \<Rightarrow> ('w cfg_manager \<times> 'w) \<times> gotext option" where
  "reload env dk mw =
     (case mw of (m, w) \<Rightarrow>
        case load_config env dk (cf_path (cm_config m)) of
          Inl e \<Rightarrow> ((m, w), Some e)
        | Inr c \<Rightarrow> (let m' = m\<lparr>cm_config := c\<rparr> in ((m', notify m' w), None)))"

text \<open>An event of the watcher: the file it is about, and whether it is a write or a creation.\<close>

definition watch_event :: "cfg_env \<Rightarrow> disk \<Rightarrow> string \<Rightarrow> string \<times> bool \<Rightarrow> 'w cfg_manager \<times> 'w \<Rightarrow> 'w cfg_manager \<times> 'w" where
  "watch_event env dk path ev mw =
     (if snd ev \<and> fst ev = path then fst (reload env dk mw) else mw)"

definition on_change :: "(config \<Rightarrow> 'w \<Rightarrow> 'w) \<Rightarrow> 'w cfg_manager \<Rightarrow> 'w cfg_manager" where
  "on_change cb m = m\<lparr>cm_on_change := cm_on_change m @ [cb]\<rparr>"

definition save_to_file :: "cfg_env \<Rightarrow> string \<Rightarrow> config \<Rightarrow> disk \<Rightarrow> disk \<times> gotext option" where
  "save_to_file env path c dk =
     (case ce_marshal env c of
        None \<Rightarrow> (dk, Some (Fmt ''marshal config: %w'' []))
      | Some t \<Rightarrow>
          if ce_writable env path then (dk(path \<mapsto> t), None) else (dk, Some (Fmt ''write config: %w'' [])))"

definition update_config ::
  "cfg_env \<Rightarrow> (config \<Rightarrow> config) \<Rightarrow> 'w cfg_manager \<times> disk \<times> 'w \<Rightarrow> ('w cfg_manager \<times> disk \<times> 'w) \<times> gotext option" where
  "update_config env fn st =
     (case st of (m, dk, w) \<Rightarrow>
        let m' = m\<lparr>cm_config := fn (cm_config m)\<rparr>; c = cm_config m' in
        case validate c of
          Some e \<Rightarrow> ((m', dk, w), Some (Fmt ''validate updated config: %w'' []))
        | None \<Rightarrow>
            (if cf_path c = [] then ((m', dk, notify m' w), None)
             else
               (case save_to_file env (cf_path c) c dk of
                  (dk', Some e) \<Rightarrow> ((m', dk', w), Some e)
                | (dk', None) \<Rightarrow> ((m', dk', notify m' w), None))))"

section \<open>Look-ups\<close>

definition get_site :: "string \<Rightarrow> config \<Rightarrow> site_config option" where
  "get_site name c = find (\<lambda>s. st_name s = name) (cf_sites c)"

definition find_site_by_domain :: "string \<Rightarrow> config \<Rightarrow> site_config option" where
  "find_site_by_domain d c = find (\<lambda>s. d \<in> set (st_domains s)) (cf_sites c)"

definition get_rule_config :: "string \<Rightarrow> config \<Rightarrow> rule_config option" where
  "get_rule_config rid c = find (\<lambda>r. rg_id r = rid) (cf_rules c)"

definition enabled_rule_configs :: "config \<Rightarrow> rule_config list" where
  "enabled_rule_configs c = filter rg_enabled (cf_rules c)"

text \<open>The configuration of the default manager, or the defaults when there is none.\<close>

definition get_config :: "'w cfg_manager option \<Rightarrow> config" where
  "get_config dm = (case dm of None \<Rightarrow> default_config | Some m \<Rightarrow> cm_config m)"

section \<open>What is kept and what is not\<close>

lemma first_error_None_iff: "first_error f i xs = None \<longleftrightarrow> (\<forall>j < length xs. f (i + j) (xs ! j) = None)"
proof (induction xs arbitrary: i)
  case (Cons x xs)
  have "(\<forall>j < length (x # xs). f (i + j) ((x # xs) ! j) = None) \<longleftrightarrow>
    f i x = None \<and> (\<forall>j < length xs. f (Suc i + j) (xs ! j) = None)"
    by (auto simp: less_Suc_eq_0_disj)
  with Cons show ?case by (simp split: option.splits)
qed simp

definition site_ok :: "site_config \<Rightarrow> bool" where
  "site_ok s \<longleftrightarrow> st_name s \<noteq> [] \<and> st_domains s \<noteq> [] \<and> st_upstream s \<noteq> []"

definition rule_ok :: "rule_config \<Rightarrow> bool" where
  "rule_ok r \<longleftrightarrow> rg_id r \<noteq> [] \<and> rg_field r \<noteq> [] \<and> rg_operator r \<noteq> []"

lemma site_error_None_iff: "site_error i s = None \<longleftrightarrow> site_ok s"
  by (simp add: site_error_def site_ok_def)

lemma rule_error_None_iff: "rule_error i r = None \<longleftrightarrow> rule_ok r"
  by (simp add: rule_error_def rule_ok_def)

text \<open>Validation accepts exactly the configurations with complete sites, at least one, and complete rules.\<close>

lemma validate_None_iff:
  "validate c = None \<longleftrightarrow>
     cf_sites c \<noteq> [] \<and> list_all site_ok (cf_sites c) \<and> list_all rule_ok (cf_rules c) \<and>
     (ml_enabled (cf_ml c) \<longrightarrow> ml_endpoint (cf_ml c) \<noteq> []) \<and> (rd_enabled (cf_redis c) \<longrightarrow> rd_addr (cf_redis c) \<noteq> [])"
proof -
  have "validate c = None \<longleftrightarrow> cf_sites c \<noteq> [] \<and> first_error site_error 0 (cf_sites c) = None \<and>
     first_error rule_error 0 (cf_rules c) = None \<and>
     (ml_enabled (cf_ml c) \<longrightarrow> ml_endpoint (cf_ml c) \<noteq> []) \<and> (rd_enabled (cf_redis c) \<longrightarrow> rd_addr (cf_redis c) \<noteq> [])"
    by (auto simp: validate_def split: option.splits)
  then show ?thesis
    by (simp add: first_error_None_iff site_error_None_iff rule_error_None_iff list_all_length)
qed

lemma load_config_valid: "load_config env dk path = Inr c \<Longrightarrow> validate c = None \<and> cf_path c = path"
  by (auto simp: load_config_def Let_def split: option.splits)

text \<open>A successful update or reload leaves a valid configuration live.\<close>

lemma update_config_valid:
  "update_config env fn (m, dk, w) = ((m', dk', w'), None) \<Longrightarrow> validate (cm_config m') = None"
  by (auto simp: update_config_def Let_def split: option.splits if_splits prod.splits)

lemma reload_valid: "reload env dk (m, w) = ((m', w'), None) \<Longrightarrow> validate (cm_config m') = None"
  using load_config_valid by (fastforce simp: reload_def Let_def split: sum.splits)

text \<open>A sequence of updates: the configuration in force after it, and those on the way that validation accepts.\<close>

definition run_updates ::
  "cfg_env \<Rightarrow> (config \<Rightarrow> config) list \<Rightarrow> 'w cfg_manager \<times> disk \<times> 'w \<Rightarrow> 'w cfg_manager \<times> disk \<times> 'w" where
  "run_updates env fs st = fold (\<lambda>f st. fst (update_config env f st)) fs st"

definition all_changes :: "(config \<Rightarrow> config) list \<Rightarrow> config \<Rightarrow> config" where
  "all_changes fs c = fold (\<lambda>f c. f c) fs c"

fun accepted_configs :: "(config \<Rightarrow> config) list \<Rightarrow> config \<Rightarrow> config list" where
  "accepted_configs [] c = []"
| "accepted_configs (f # fs) c = (if validate (f c) = None then [f c] else []) @ accepted_configs fs (f c)"

text \<open>The file of the configuration can be written, and no update changes its path, which only the package can.\<close>

definition saving :: "cfg_env \<Rightarrow> string \<Rightarrow> (config \<Rightarrow> config) list \<Rightarrow> config \<Rightarrow> bool" where
  "saving env p fs c \<longleftrightarrow> p \<noteq> [] \<and> cf_path c = p \<and> ce_writable env p \<and> (\<forall>c. ce_marshal env c \<noteq> None) \<and>
     (\<forall>f\<in>set fs. \<forall>c. cf_path (f c) = cf_path c)"

lemma update_config_saving:
  assumes "saving env p (f # fs) (cm_config m)"
  shows "update_config env f (m, dk, w) =
     (let m' = m\<lparr>cm_config := f (cm_config m)\<rparr>; c = f (cm_config m) in
      case validate c of
        None \<Rightarrow> ((m', dk(p := ce_marshal env c), fold (\<lambda>cb. cb c) (cm_on_change m) w), None)
      | Some e \<Rightarrow> ((m', dk, w), Some (Fmt ''validate updated config: %w'' [])))"
proof -
  have "cf_path (f (cm_config m)) = p" "p \<noteq> []" using assms by (auto simp: saving_def)
  moreover have "ce_marshal env (f (cm_config m)) \<noteq> None" using assms by (simp add: saving_def del: not_None_eq)
  then obtain t where "ce_marshal env (f (cm_config m)) = Some t" by blast
  moreover have "ce_writable env p" using assms by (simp add: saving_def)
  ultimately show ?thesis
    by (simp add: update_config_def save_to_file_def notify_def Let_def split: option.split)
qed

lemma run_updates_state:
  assumes "saving env p fs (cm_config m)"
  shows "run_updates env fs (m, dk, w) =
    (m\<lparr>cm_config := all_changes fs (cm_config m)\<rparr>,
     dk(p := (if accepted_configs fs (cm_config m) = [] then dk p else ce_marshal env (last (accepted_configs fs (cm_config m))))),
     fold (\<lambda>c. fold (\<lambda>cb. cb c) (cm_on_change m)) (accepted_configs fs (cm_config m)) w)"
  using assms
proof (induction fs arbitrary: m dk w)
  case (Cons f fs)
  let ?m = "m\<lparr>cm_config := f (cm_config m)\<rparr>"
  have next_ok: "saving env p fs (cm_config ?m)" using Cons.prems by (simp add: saving_def)
  note step = update_config_saving [OF Cons.prems, of dk w]
  show ?case
  proof (cases "validate (f (cm_config m))")
    case None
    then show ?thesis using Cons.IH [OF next_ok] step by (simp add: run_updates_def all_changes_def Let_def fun_eq_iff)
  next
    case (Some e)
    then show ?thesis using Cons.IH [OF next_ok] step by (simp add: run_updates_def all_changes_def Let_def fun_eq_iff)
  qed
qed (simp add: run_updates_def all_changes_def)

lemma updates_keep_path:
  "\<forall>f\<in>set fs. \<forall>c. cf_path (f c) = cf_path c \<Longrightarrow>
    cf_path (all_changes fs c) = cf_path c \<and> (\<forall>d\<in>set (accepted_configs fs c). cf_path d = cf_path c \<and> validate d = None)"
  by (induction fs c rule: accepted_configs.induct) (auto simp: all_changes_def)



text \<open>References to variables that are not set are kept as they are.\<close>

lemma expand_unset: "(\<And>v. getenv v = []) \<Longrightarrow> expand_env_refs getenv s = s"
proof -
  assume unset: "\<And>v. getenv v = []"
  have "foldl (expand_ref getenv) s rs = s" for rs by (induction rs) (simp_all add: expand_ref_def unset)
  then show ?thesis by (simp add: expand_env_refs_def)
qed

lemma find_site_first:
  assumes "find_site_by_domain d c = Some s"
  shows "\<exists>xs ys. cf_sites c = xs @ s # ys \<and> d \<in> set (st_domains s) \<and> (\<forall>x\<in>set xs. d \<notin> set (st_domains x))"
  using assms unfolding find_site_by_domain_def
proof (induction "cf_sites c" arbitrary: c)
  case (Cons x xs)
  show ?case
  proof (cases "d \<in> set (st_domains x)")
    case True
    then show ?thesis using Cons by (metis append_Nil find.simps(2) list.distinct(1) list.set_cases option.inject empty_iff list.set(1))
  next
    case False
    have "find (\<lambda>s. d \<in> set (st_domains s)) (cf_sites (c\<lparr>cf_sites := xs\<rparr>)) = Some s"
      using Cons.prems Cons.hyps(2) [symmetric] False by simp
    then obtain ys zs where "xs = ys @ s # zs" "d \<in> set (st_domains s)" "\<forall>y\<in>set ys. d \<notin> set (st_domains y)"
      using Cons.hyps(1) [of "c\<lparr>cf_sites := xs\<rparr>"] by auto
    then show ?thesis using False Cons.hyps(2) [symmetric] by (intro exI [of _ "x # ys"] exI [of _ zs]) auto
  qed
qed simp

section \<open>Witnesses\<close>

definition demo_site :: site_config where
  "demo_site = \<lparr>st_name = ''s'', st_domains = [''example.com''], st_upstream = ''http://u'', st_port = 0, st_tls = False,
     st_cert_file = [], st_key_file = [], st_rate_limit = None, st_waf_enabled = True, st_rule_overrides = None\<rparr>"

definition demo_config :: config where
  "demo_config = default_config\<lparr>cf_sites := [demo_site], cf_path := ''c''\<rparr>"

definition demo_manager :: "unit cfg_manager" where
  "demo_manager = \<lparr>cm_config = demo_config, cm_on_change = []\<rparr>"

definition demo_env :: cfg_env where
  "demo_env = \<lparr>ce_getenv = (\<lambda>v. []), ce_unmarshal = (\<lambda>t d. Some (demo_config\<lparr>cf_path := cf_path d\<rparr>)), ce_marshal = (\<lambda>c. Some ''x''),
     ce_writable = (\<lambda>p. True)\<rparr>"

lemma demo_config_valid: "validate demo_config = None"
  by (simp add: validate_None_iff demo_config_def default_config_def demo_site_def site_ok_def default_ml_def)

lemma demo_config_no_site: "validate (demo_config\<lparr>cf_sites := []\<rparr>) \<noteq> None"
  by (simp add: validate_def)

text \<open>One update that changes nothing, and one that drops the sites and is refused.\<close>

definition demo_updates :: "(config \<Rightarrow> config) list" where
  "demo_updates = [\<lambda>c. c, \<lambda>c. c\<lparr>cf_sites := []\<rparr>]"

lemma demo_updates_accepted: "accepted_configs demo_updates demo_config = [demo_config]"
  using demo_config_valid demo_config_no_site by (simp add: demo_updates_def)

lemma demo_updates_saving: "saving demo_env ''c'' (demo_updates @ [\<lambda>c. c]) (cm_config demo_manager)"
  by (simp add: saving_def demo_updates_def demo_manager_def demo_config_def demo_env_def)



end
