(* ===== verification/Wasm.thy ===== *)
theory Wasm
  imports WafTypes Upload
begin

text \<open>
  WebAssembly inspectors, \<^verbatim>\<open>internal/engine/wasm.go\<close>. Compiling and instantiating a module and calling
  its export are arguments (the wazero library): an instance without the export, or what a call at an
  instant answers.
\<close>

type_synonym wasm_instance = "(gotime \<Rightarrow> gotext + int list) option"

record wasm_def =
  wd_name :: string
  wd_path :: string
  wd_module :: wasm_instance

text \<open>The maps of modules and inspectors have the same names; the list is in the order of \<^verbatim>\<open>range\<close>.\<close>

record wasm_inspector =
  wi_dev :: bool
  wi_dir :: string
  wi_max_pages :: int
  wi_inspectors :: "(string \<times> wasm_def) list"

record wasm_env =
  we_read_dir :: "string \<Rightarrow> (string \<times> bool) list option"
  we_read_file :: "string \<Rightarrow> string option"
  we_instantiate :: "string \<Rightarrow> string \<Rightarrow> wasm_instance option"

definition strip_ext :: "string \<Rightarrow> string" where
  "strip_ext name = take (length name - length (file_ext name)) name"

definition load_module :: "wasm_env \<Rightarrow> string \<Rightarrow> string \<Rightarrow> wasm_inspector \<Rightarrow> wasm_inspector" where
  "load_module env dir entry w =
     (let path = dir @ ''/'' @ entry; name = strip_ext entry in
      case we_read_file env path of
        None \<Rightarrow> w
      | Some code \<Rightarrow>
          (case we_instantiate env name code of
             None \<Rightarrow> w
           | Some i \<Rightarrow> w\<lparr>wi_inspectors := AList.update name \<lparr>wd_name = name, wd_path = path, wd_module = i\<rparr> (wi_inspectors w)\<rparr>))"

definition wanted_entry :: "string list \<Rightarrow> string \<times> bool \<Rightarrow> bool" where
  "wanted_entry modules e =
     (case e of (name, is_dir) \<Rightarrow>
        \<not> is_dir \<and> file_ext name = ''.wasm'' \<and> (modules = [] \<or> name \<in> set modules \<or> strip_ext name \<in> set modules))"

definition load_modules :: "wasm_env \<Rightarrow> string \<Rightarrow> string list \<Rightarrow> wasm_inspector \<Rightarrow> wasm_inspector" where
  "load_modules env dir modules w =
     (case we_read_dir env dir of
        None \<Rightarrow> w
      | Some es \<Rightarrow> fold (load_module env dir) (map fst (filter (wanted_entry modules) es)) w)"

definition new_wasm :: "wasm_env \<Rightarrow> bool \<Rightarrow> string \<Rightarrow> int \<Rightarrow> string list \<Rightarrow> wasm_inspector" where
  "new_wasm env dev dir pages modules =
     (let w = \<lparr>wi_dev = dev, wi_dir = dir, wi_max_pages = pages, wi_inspectors = []\<rparr> in
      if dir = [] then w else load_modules env dir modules w)"

text \<open>The call: the text that describes the request is not passed to the module.\<close>

definition wasm_call :: "gotime \<Rightarrow> wasm_def \<Rightarrow> gotext + decision option" where
  "wasm_call now d =
     (case wd_module d of
        None \<Rightarrow> Inr None
      | Some f \<Rightarrow>
          (case f now of
             Inl e \<Rightarrow> Inl (Fmt ''inspect call failed: %w'' [])
           | Inr [] \<Rightarrow> Inr None
           | Inr (r # _) \<Rightarrow>
               if r = 0 then Inr None
               else Inr (Some (mk_decision ActionBlock (''WASM_'' @ wd_name d) (''WASM Inspector: '' @ wd_name d) ''high'' 70
                      (Fmt ''WASM inspector %q returned block decision'' [AStr (wd_name d)])))))"

fun wasm_scan :: "gotime \<Rightarrow> wasm_def list \<Rightarrow> decision option" where
  "wasm_scan now [] = None"
| "wasm_scan now (d # ds) = (case wasm_call now d of Inr (Some dec) \<Rightarrow> Some dec | _ \<Rightarrow> wasm_scan now ds)"

definition wasm_inspect :: "wasm_inspector inspector" where
  "wasm_inspect = stateful (\<lambda>now c w. (w, wasm_scan now (map snd (wi_inspectors w))))"

lemma wasm_call_score: "wasm_call now d = Inr (Some dec) \<Longrightarrow> score_ok dec"
  by (auto simp: wasm_call_def score_ok_def split: option.splits sum.splits list.splits if_splits)

lemma wasm_scan_score: "wasm_scan now ds = Some dec \<Longrightarrow> score_ok dec"
  by (induction ds) (auto split: sum.splits option.splits dest: wasm_call_score)

interpretation wasm: inspector wasm_inspect
  unfolding wasm_inspect_def by (rule inspector_stateful) (auto intro!: scores_okI wasm_scan_score)

text \<open>The decision of the modules is the same for every request.\<close>

lemma wasm_ignores_request:
  "snd (wasm_inspect now (w, c)) = snd (wasm_inspect now (w, c'))"
  by (simp add: wasm_inspect_def stateful_def)

end
