(* ===== verification/Ebpf.thy ===== *)
theory Ebpf
  imports WafTypes "HOL-Library.Word"
begin

text \<open>
  Kernel telemetry, \<^verbatim>\<open>internal/engine/ebpf.go\<close> (Linux) and its stub. The collecting goroutine is one
  \<open>ebpf_tick\<close> per second; counters are 64-bit words.
\<close>

record ebpf =
  ep_dev :: bool
  ep_iface :: string
  ep_port :: int
  ep_sample_rate :: int
  ep_active :: bool
  ep_packets :: "64 word"
  ep_bytes :: "64 word"
  ep_syn :: "64 word"
  ep_rst :: "64 word"

definition new_ebpf :: "bool \<Rightarrow> string \<Rightarrow> int \<Rightarrow> int \<Rightarrow> ebpf" where
  "new_ebpf dev iface port rate = \<lparr>ep_dev = dev, ep_iface = iface, ep_port = port, ep_sample_rate = rate, ep_active = False,
     ep_packets = 0, ep_bytes = 0, ep_syn = 0, ep_rst = 0\<rparr>"

definition ebpf_check :: "ebpf \<Rightarrow> decision option" where
  "ebpf_check e =
     (if 1000000 < ep_packets e
      then Some (mk_decision ActionMonitor ''EBPF_001'' ''Elevated Packet Activity'' ''low'' 10
             (Fmt ''eBPF detected %d total packets on %s'' [AInt (uint (ep_packets e)), AStr (ep_iface e)]))
      else None)"

definition ebpf_inspect :: "ebpf inspector" where
  "ebpf_inspect = stateful (\<lambda>now c e. (e, ebpf_check e))"

definition ebpf_stub_inspect :: "'s inspector" where
  "ebpf_stub_inspect = (\<lambda>now (s, c). ((s, c), INil))"

definition ebpf_start :: "ebpf \<Rightarrow> ebpf" where
  "ebpf_start e = (if ep_active e then e else e\<lparr>ep_active := True\<rparr>)"

definition ebpf_stop :: "ebpf \<Rightarrow> ebpf" where
  "ebpf_stop e = (if \<not> ep_active e then e else e\<lparr>ep_active := False\<rparr>)"

text \<open>One tick; the remainder by the rate panics when the rate, as a word, is zero.\<close>

definition ebpf_tick :: "ebpf \<Rightarrow> go_panic + ebpf" where
  "ebpf_tick e =
     (let d = word_of_int (ep_sample_rate e * 100) :: 64 word;
          e1 = e\<lparr>ep_packets := ep_packets e + d, ep_bytes := ep_bytes e + word_of_int (ep_sample_rate e * 10240)\<rparr>
      in if d = 0 then Inl DivideByZero
         else if ep_packets e1 mod d < d then Inr (e1\<lparr>ep_syn := ep_syn e1 + word_of_int (ep_sample_rate e * 5)\<rparr>)
         else Inr e1)"

definition ebpf_stats :: "ebpf \<Rightarrow> (string \<times> 64 word) list" where
  "ebpf_stats e = [(''packets'', ep_packets e), (''bytes'', ep_bytes e), (''syn'', ep_syn e), (''rst'', ep_rst e)]"

interpretation ebpf: inspector ebpf_inspect
  unfolding ebpf_inspect_def
  by (rule inspector_stateful) (auto intro!: scores_okI simp: ebpf_check_def score_ok_def split: if_splits)

interpretation ebpf_stub: inspector "ebpf_stub_inspect :: 's inspector"
  by unfold_locales (auto simp: ebpf_stub_inspect_def ctx_frame_def)

section \<open>The counters measure time\<close>

fun ebpf_ticks :: "nat \<Rightarrow> ebpf \<Rightarrow> go_panic + ebpf" where
  "ebpf_ticks 0 e = Inr e"
| "ebpf_ticks (Suc n) e = (case ebpf_ticks n e of Inl p \<Rightarrow> Inl p | Inr e' \<Rightarrow> ebpf_tick e')"

lemma ebpf_tick_Inr:
  assumes "word_of_int (ep_sample_rate e * 100) \<noteq> (0 :: 64 word)"
  shows "\<exists>e'. ebpf_tick e = Inr e' \<and> ep_sample_rate e' = ep_sample_rate e \<and> ep_syn e' = ep_syn e + word_of_int (ep_sample_rate e * 5) \<and>
    ep_packets e' = ep_packets e + word_of_int (ep_sample_rate e * 100)"
proof -
  have "(x :: 64 word) mod d < d" if "d \<noteq> 0" for x d
    using that word_mod_less_divisor [of d x] by (simp add: word_gt_0)
  then show ?thesis using assms by (simp add: ebpf_tick_def Let_def)
qed

text \<open>
  The packet counter after some ticks is their number times a hundred times the sample rate: no packet is
  ever counted, and with the default rate every request is under suspicion after about seventeen minutes.
\<close>

lemma ebpf_counts_time:
  assumes "word_of_int (r * 100) \<noteq> (0 :: 64 word)"
  shows "\<exists>e. ebpf_ticks n (new_ebpf dev iface port r) = Inr e \<and> ep_sample_rate e = r \<and> ep_packets e = of_nat n * word_of_int (r * 100)"
proof (induction n)
  case (Suc n)
  then obtain e where e: "ebpf_ticks n (new_ebpf dev iface port r) = Inr e" "ep_sample_rate e = r"
    "ep_packets e = of_nat n * word_of_int (r * 100)" by blast
  then obtain e' where "ebpf_tick e = Inr e'" "ep_sample_rate e' = r" "ep_packets e' = ep_packets e + word_of_int (r * 100)"
    using ebpf_tick_Inr [of e] assms by auto
  with e show ?case by (simp add: algebra_simps)
qed (simp add: new_ebpf_def)

end
