(* ===== verification/Pipeline.thy ===== *)
theory Pipeline
  imports EngineCore Config Middleware Protocol Bot ApiProtect Adaptive Ja3 Desync Upload Behavioral
    Credential DDoS Sqli Rce Xss ParserHardener Wasm Ebpf
begin

text \<open>
  The engine as \<^verbatim>\<open>cmd/proxy/main.go\<close> starts it: \<^verbatim>\<open>buildEngineConfig\<close> makes the enabled inspectors, \<^verbatim>\<open>engine.New\<close>
  puts them in their order. All inspectors work on one state, of which each has its part.
\<close>

section \<open>Inspectors on parts of a state\<close>

definition lift_inspector :: "('g \<Rightarrow> 's) \<Rightarrow> ('s \<Rightarrow> 'g \<Rightarrow> 'g) \<Rightarrow> 's inspector \<Rightarrow> 'g inspector" where
  "lift_inspector get put insp =
     (\<lambda>now (g, c). case insp now (get g, c) of ((s', c'), r) \<Rightarrow> ((put s' g, c'), r))"

lemma inspector_lift [intro]:
  assumes "inspector insp"
  shows "inspector (lift_inspector get put insp)"
proof
  show "ctx_frame c c'" if "lift_inspector get put insp now (s, c) = ((s', c'), r)" for now s c s' c' r
    using that inspector.frame [OF assms] by (auto simp: lift_inspector_def split: prod.splits)
  show "score_ok d" if "lift_inspector get put insp now (s, c) = ((s', c'), IDec d)" for now s c s' c' d
    using that inspector.score [OF assms] by (auto simp: lift_inspector_def split: prod.splits)
qed

text \<open>The parser hardener; where its recursion does not end, the stack overflows (which ends the process).\<close>

definition parser_inspect :: "unit inspector" where
  "parser_inspect = (\<lambda>now (s, c). ((s, c), case parser_check c of None \<Rightarrow> IPanic StackOverflow | Some d \<Rightarrow> result_of d))"

lemma conf_decision_score [simp]: "d_score (conf_decision act rid name sev score conf ev) = score"
  by (simp add: conf_decision_def)

lemma scan_headers_score: "scan_headers hs = Some (Some d) \<Longrightarrow> score_ok d"
  by (induction hs rule: scan_headers.induct) (auto simp: score_ok_def split: if_splits option.splits)

lemma check_target_score: "check_target t = Some d \<Longrightarrow> score_ok d"
  by (auto simp: check_target_def score_ok_def split: if_splits option.splits)

lemma parser_check_score:
  assumes "parser_check c = Some (Some d)"
  shows "score_ok d"
proof -
  from assms consider "detect_normalization_bypass c = Some (Some d)" | "detect_unicode_attack c = Some d"
    | "detect_parser_differential c = Some d" | "detect_http_downgrade c = Some d" | "detect_chunked_abuse c = Some d"
    by (auto simp: parser_check_def split: option.splits dest!: first_of_SomeD)
  then show ?thesis
  proof cases
    case 1
    then show ?thesis
      by (auto simp: detect_normalization_bypass_def score_ok_def split: if_splits dest: scan_headers_score)
  next
    case 2
    then show ?thesis unfolding detect_unicode_attack_def by (blast dest: first_some_SomeD check_target_score)
  qed (auto simp: detect_parser_differential_def detect_http_downgrade_def detect_chunked_abuse_def score_ok_def Let_def
      split: if_splits)
qed

interpretation parser: inspector parser_inspect
  by unfold_locales
    (auto simp: parser_inspect_def ctx_frame_def result_of_def split: option.splits intro: parser_check_score)

section \<open>State and configuration of the engine\<close>

record waf_state =
  wf_credential :: credential
  wf_ddos :: ddos
  wf_api :: api_protection
  wf_upload :: upload_security
  wf_jwt :: jwt_validator
  wf_oauth :: oauth_introspector
  wf_mtls :: mtls_inspector
  wf_ws :: ws_inspector
  wf_grpc :: grpc_inspector
  wf_ja3 :: ja3_inspector
  wf_behavioral :: behavioral
  wf_wasm :: wasm_inspector
  wf_adaptive :: adaptive_challenge
  wf_ebpf :: ebpf

text \<open>What the inspectors use of libraries, the network and the operating system.\<close>

record waf_env =
  en_cred :: cred_env
  en_parts :: part_reader
  en_crypto :: crypto
  en_get :: "string \<Rightarrow> http_answer"
  en_introspect :: introspection_post
  en_file :: file_reader
  en_pem :: pem_parser
  en_oids :: oid_parser
  en_conn :: "reqctx \<Rightarrow> conn"
  en_post :: http_post
  en_round :: "rat \<Rightarrow> rat"
  en_dns :: reverse_dns
  en_md5 :: "string \<Rightarrow> string"
  en_log2 :: "rat \<Rightarrow> rat"
  en_issue :: "gotime \<Rightarrow> string \<Rightarrow> string"
  en_wasm :: wasm_env
  en_rune :: rune_env

record engine_config =
  ec_dev :: bool
  ec_shadow :: bool
  ec_learning :: bool
  ec_max_regex :: int
  ec_max_wasm :: int
  ec_perf :: bool
  ec_bot :: "waf_state inspector option"
  ec_ddos :: "waf_state inspector option"
  ec_sqli :: "waf_state inspector option"
  ec_xss :: "waf_state inspector option"
  ec_api :: "waf_state inspector option"
  ec_rce :: "waf_state inspector option"
  ec_protocol :: "waf_state inspector option"
  ec_upload :: "waf_state inspector option"
  ec_credential :: "waf_state inspector option"
  ec_jwt :: "waf_state inspector option"
  ec_oauth :: "waf_state inspector option"
  ec_graphql :: "waf_state inspector option"
  ec_mtls :: "waf_state inspector option"
  ec_websocket :: "waf_state inspector option"
  ec_captcha :: "waf_state inspector option"
  ec_soap :: "waf_state inspector option"
  ec_grpc :: "waf_state inspector option"
  ec_response :: "waf_state inspector option"
  ec_ja3 :: "waf_state inspector option"
  ec_behavioral :: "waf_state inspector option"
  ec_wasm :: "waf_state inspector option"
  ec_desync :: "waf_state inspector option"
  ec_adaptive :: "waf_state inspector option"
  ec_ebpf :: "waf_state inspector option"
  ec_parser :: "waf_state inspector option"

section \<open>From the configuration to the engine\<close>

definition enabled :: "bool \<Rightarrow> 'a \<Rightarrow> 'a option" where
  "enabled b x = (if b then Some x else None)"

definition no_state :: "unit inspector \<Rightarrow> waf_state inspector" where
  "no_state insp = lift_inspector (\<lambda>_. ()) (\<lambda>_ g. g) insp"

definition mtls_or_blank :: "waf_env \<Rightarrow> mtls_config \<Rightarrow> mtls_inspector option" where
  "mtls_or_blank env g = (case new_mtls (en_file env) (en_pem env) g of Inl e \<Rightarrow> None | Inr m \<Rightarrow> Some m)"

text \<open>
  \<^verbatim>\<open>buildEngineConfig\<close>: the inspectors that are switched on and the initial states. The state of a part that is switched
  off is never looked at.
\<close>

definition initial_state :: "waf_env \<Rightarrow> config \<Rightarrow> bool \<Rightarrow> waf_state" where
  "initial_state env c dev =
     \<lparr>wf_credential = new_credential (cg_max_attempts (cf_credential c)) (cg_window_sec (cf_credential c))
        (cg_block_sec (cf_credential c)) (cg_login_paths (cf_credential c)),
      wf_ddos = new_ddos, wf_api = new_api_protection, wf_upload = new_upload_security,
      wf_jwt = new_jwt_validator (cf_jwt c), wf_oauth = new_oauth (cf_oauth c),
      wf_mtls = (case mtls_or_blank env (cf_mtls c) of
                   Some m \<Rightarrow> m
                 | None \<Rightarrow> \<lparr>mi_config = cf_mtls c, mi_ca = None, mi_depth = 0, mi_fail_on_error = False,
                            mi_early_auth = False, mi_username_header = []\<rparr>),
      wf_ws = new_ws_inspector (ws_config.truncate (cf_websocket c)),
      wf_grpc = new_grpc_inspector (gp_max_msg (cf_grpc c)) (gp_rate_limit (cf_grpc c)),
      wf_ja3 = new_ja3_inspector,
      wf_behavioral = new_behavioral dev (bg_reputation (cf_behavioral c)) (bg_velocity (cf_behavioral c))
        (bg_path_entropy (cf_behavioral c)) (bg_threshold (cf_behavioral c)) (bg_window_sec (cf_behavioral c))
        (bg_max_requests (cf_behavioral c)),
      wf_wasm = new_wasm (en_wasm env) dev (wg_module_dir (cf_wasm c)) (wg_max_pages (cf_wasm c)) (wg_modules (cf_wasm c)),
      wf_adaptive = new_adaptive (ag_tarpit_ms (cf_adaptive c)) (ag_captcha_score (cf_adaptive c)) (ag_ttl (cf_adaptive c)),
      wf_ebpf = new_ebpf dev (eb_interface (cf_ebpf c)) (eb_port (cf_ebpf c)) (eb_sample_rate (cf_ebpf c))\<rparr>"

definition build_engine_config :: "waf_env \<Rightarrow> config \<Rightarrow> bool \<Rightarrow> engine_config" where
  "build_engine_config env c dev =
     \<lparr>ec_dev = dev, ec_shadow = ft_enabled (cf_shadow c), ec_learning = ft_enabled (cf_learning c),
      ec_max_regex = pf_max_regex_ms (cf_performance c), ec_max_wasm = pf_max_wasm_ms (cf_performance c),
      ec_perf = pf_enabled (cf_performance c),
      ec_bot = enabled (ft_enabled (cf_bot c)) (no_state (bot_inspect (en_dns env))),
      ec_ddos = enabled (ft_enabled (cf_ddos c)) (lift_inspector wf_ddos (\<lambda>s. wf_ddos_update (\<lambda>_. s)) ddos_inspect),
      ec_sqli = enabled (ft_enabled (cf_sqli c)) (no_state (sqli_inspect (en_rune env))),
      ec_xss = enabled (ft_enabled (cf_xss c)) (no_state xss_inspect),
      ec_api = enabled (ft_enabled (cf_api_protect c)) (lift_inspector wf_api (\<lambda>s. wf_api_update (\<lambda>_. s)) api_inspect),
      ec_rce = enabled (ft_enabled (cf_rce c)) (no_state rce_inspect),
      ec_protocol = enabled (ft_enabled (cf_protocol c)) (no_state protocol_inspect),
      ec_upload = enabled (ft_enabled (cf_upload c)) (lift_inspector wf_upload (\<lambda>s. wf_upload_update (\<lambda>_. s)) (upload_inspect (en_parts env))),
      ec_credential = enabled (cg_enabled (cf_credential c))
        (lift_inspector wf_credential (\<lambda>s. wf_credential_update (\<lambda>_. s)) (credential_inspect (en_cred env))),
      ec_jwt = enabled (jg_enabled (cf_jwt c)) (lift_inspector wf_jwt (\<lambda>s. wf_jwt_update (\<lambda>_. s)) (jwt_inspect (en_crypto env) (en_get env))),
      ec_oauth = enabled (og_enabled (cf_oauth c)) (lift_inspector wf_oauth (\<lambda>s. wf_oauth_update (\<lambda>_. s)) (oauth_inspect (en_introspect env))),
      ec_graphql = enabled (gc_enabled (cf_graphql c)) (no_state (graphql_inspect (new_graphql_inspector (cf_graphql c)))),
      ec_mtls = enabled (mg_enabled (cf_mtls c) \<and> mtls_or_blank env (cf_mtls c) \<noteq> None)
        (lift_inspector wf_mtls (\<lambda>s. wf_mtls_update (\<lambda>_. s)) (mtls_inspect (en_oids env) (en_conn env))),
      ec_websocket = enabled (wc_enabled (cf_websocket c)) (lift_inspector wf_ws (\<lambda>s. wf_ws_update (\<lambda>_. s)) ws_inspect),
      ec_captcha = enabled (cp_enabled (cf_captcha c))
        (no_state (captcha_inspect (en_post env) (en_round env)
          (new_captcha_verifier (cp_provider (cf_captcha c)) (cp_secret (cf_captcha c)) (cp_site_key (cf_captcha c)) (cp_score (cf_captcha c))))),
      ec_soap = enabled (sp_enabled (cf_soap c)) (no_state (soap_inspect (new_soap_validator (sp_strict (cf_soap c)) (sp_max_depth (cf_soap c))))),
      ec_grpc = enabled (gp_enabled (cf_grpc c)) (lift_inspector wf_grpc (\<lambda>s. wf_grpc_update (\<lambda>_. s)) grpc_inspect),
      ec_response = enabled (ri_enabled (cf_resp_inspect c)) (no_state response_inspect),
      ec_ja3 = enabled (ft_enabled (cf_ja3 c)) (lift_inspector wf_ja3 (\<lambda>s. wf_ja3_update (\<lambda>_. s)) (ja3_inspect (en_md5 env))),
      ec_behavioral = enabled (bg_enabled (cf_behavioral c))
        (lift_inspector wf_behavioral (\<lambda>s. wf_behavioral_update (\<lambda>_. s)) (behavioral_inspect (en_log2 env))),
      ec_wasm = enabled (wg_enabled (cf_wasm c)) (lift_inspector wf_wasm (\<lambda>s. wf_wasm_update (\<lambda>_. s)) wasm_inspect),
      ec_desync = enabled (dg_enabled (cf_desync c))
        (no_state (desync_inspect (new_desync (dg_max_body (cf_desync c)) (dg_strict_cl (cf_desync c)) (dg_obs_fold (cf_desync c))))),
      ec_adaptive = enabled (ag_enabled (cf_adaptive c))
        (lift_inspector wf_adaptive (\<lambda>s. wf_adaptive_update (\<lambda>_. s)) (adaptive_inspect (en_issue env))),
      ec_ebpf = enabled (eb_enabled (cf_ebpf c)) (lift_inspector wf_ebpf (\<lambda>s. wf_ebpf_update (\<lambda>_. s)) ebpf_inspect),
      ec_parser = enabled (ft_enabled (cf_parser c)) (no_state parser_inspect)\<rparr>"

text \<open>The name that an inspector reports, with the inspector; a nil interface has neither.\<close>

definition named_inspector :: "string \<Rightarrow> 's inspector option \<Rightarrow> 's slot" where
  "named_inspector name i = map_option (Pair name) i"

definition engine_slots :: "engine_config \<Rightarrow> waf_state slot list" where
  "engine_slots g =
     [named_inspector ''parser_hardener'' (ec_parser g), named_inspector ''desync'' (ec_desync g), named_inspector ''ja3'' (ec_ja3 g),
      named_inspector ''behavioral'' (ec_behavioral g), named_inspector ''adaptive'' (ec_adaptive g), named_inspector ''wasm'' (ec_wasm g),
      named_inspector ''captcha'' (ec_captcha g), named_inspector ''jwt_validation'' (ec_jwt g), named_inspector ''oauth_introspection'' (ec_oauth g),
      named_inspector ''mtls_inspection'' (ec_mtls g), named_inspector ''graphql_protection'' (ec_graphql g), named_inspector ''grpc'' (ec_grpc g),
      named_inspector ''soap'' (ec_soap g), named_inspector ''bot_detector'' (ec_bot g), named_inspector ''ddos_protection'' (ec_ddos g), named_inspector ''sqli'' (ec_sqli g),
      named_inspector ''xss'' (ec_xss g), named_inspector ''api_protection'' (ec_api g), named_inspector ''rce'' (ec_rce g), named_inspector ''protocol_anomaly'' (ec_protocol g),
      named_inspector ''file_upload'' (ec_upload g), named_inspector ''credential_protection'' (ec_credential g), named_inspector ''websocket_inspection'' (ec_websocket g),
      named_inspector ''response_inspect'' (ec_response g), named_inspector ''ebpf'' (ec_ebpf g)]"

definition engine_named :: "engine_config \<Rightarrow> (string \<times> waf_state slot) list" where
  "engine_named g =
     [(''bot'', named_inspector ''bot_detector'' (ec_bot g)), (''ddos'', named_inspector ''ddos_protection'' (ec_ddos g)), (''sqli'', named_inspector ''sqli'' (ec_sqli g)),
      (''xss'', named_inspector ''xss'' (ec_xss g)), (''api_protect'', named_inspector ''api_protection'' (ec_api g)), (''rce'', named_inspector ''rce'' (ec_rce g)),
      (''protocol'', named_inspector ''protocol_anomaly'' (ec_protocol g)), (''upload'', named_inspector ''file_upload'' (ec_upload g)),
      (''credential'', named_inspector ''credential_protection'' (ec_credential g)), (''jwt'', named_inspector ''jwt_validation'' (ec_jwt g)),
      (''oauth'', named_inspector ''oauth_introspection'' (ec_oauth g)), (''graphql'', named_inspector ''graphql_protection'' (ec_graphql g)),
      (''mtls'', named_inspector ''mtls_inspection'' (ec_mtls g)), (''websocket'', named_inspector ''websocket_inspection'' (ec_websocket g)),
      (''captcha'', named_inspector ''captcha'' (ec_captcha g)), (''soap'', named_inspector ''soap'' (ec_soap g)), (''grpc'', named_inspector ''grpc'' (ec_grpc g)),
      (''response_inspect'', named_inspector ''response_inspect'' (ec_response g)), (''ja3'', named_inspector ''ja3'' (ec_ja3 g)),
      (''behavioral'', named_inspector ''behavioral'' (ec_behavioral g)), (''wasm'', named_inspector ''wasm'' (ec_wasm g)), (''desync'', named_inspector ''desync'' (ec_desync g)),
      (''adaptive'', named_inspector ''adaptive'' (ec_adaptive g)), (''ebpf'', named_inspector ''ebpf'' (ec_ebpf g)), (''parser_hardener'', named_inspector ''parser_hardener'' (ec_parser g))]"

definition new_engine :: "int \<Rightarrow> engine_config \<Rightarrow> waf_state engine" where
  "new_engine gomaxprocs g =
     \<lparr>e_shadow = ec_shadow g, e_learning = ec_learning g,
      e_perf = enabled (ec_perf g) (new_perf_manager gomaxprocs (ec_max_regex g) (ec_max_wasm g)),
      e_learner = new_learner, e_conf = Map.empty, e_named = map_of (engine_named g), e_slots = engine_slots g\<rparr>"

definition start_engine :: "int \<Rightarrow> waf_env \<Rightarrow> config \<Rightarrow> bool \<Rightarrow> waf_state engine" where
  "start_engine procs env c dev = new_engine procs (build_engine_config env c dev)"

section \<open>Every inspector of the running engine keeps the contract\<close>

lemmas engine_inspectors [intro] =
  bot_detector.inspector_axioms ddos.inspector_axioms sqli.inspector_axioms xss.inspector_axioms
  api.inspector_axioms rce.inspector_axioms protocol.inspector_axioms upload.inspector_axioms cred.inspector_axioms
  jwt.inspector_axioms oauth.inspector_axioms graphql.inspector_axioms mtls.inspector_axioms ws.inspector_axioms
  captcha.inspector_axioms soap.inspector_axioms grpc.inspector_axioms response.inspector_axioms ja3.inspector_axioms
  behavioral.inspector_axioms wasm.inspector_axioms desync.inspector_axioms adaptive.inspector_axioms
  ebpf.inspector_axioms parser.inspector_axioms

lemma slots_ok_slot:
  "slots_ok (named_inspector name (enabled b insp) # slots) \<longleftrightarrow> (b \<longrightarrow> inspector insp) \<and> slots_ok slots"
  by (simp add: named_inspector_def enabled_def)

lemma inspector_no_state [intro]: "inspector insp \<Longrightarrow> inspector (no_state insp)"
  by (auto simp: no_state_def)

text \<open>Whatever the configuration and the environment, every inspector of the engine that the proxy
  builds keeps the contract on which the bookkeeping of the pipeline rests.\<close>

lemma started_contract: "slots_ok (e_slots (start_engine procs env c dev))"
  by (simp add: start_engine_def new_engine_def engine_slots_def build_engine_config_def slots_ok_slot) blast

text \<open>The slots that run, in their order.\<close>

definition running :: "'s slot list \<Rightarrow> string list" where
  "running slots = map fst (List.map_filter id slots)"

lemma running_simps [simp]:
  "running [] = []" "running (None # slots) = running slots" "running (Some ni # slots) = fst ni # running slots"
  by (simp_all add: running_def List.map_filter_simps)

text \<open>With the default configuration only the parser hardener and the fingerprint inspector run.\<close>

lemma default_engine_inspectors:
  "running (e_slots (start_engine procs env default_config dev)) = [''parser_hardener'', ''ja3'']"
  by (simp add: start_engine_def new_engine_def engine_slots_def build_engine_config_def named_inspector_def enabled_def
      default_config_def default_websocket_def
      default_graphql_config_def off_def)

end
