(* ===== verification/Proxy.thy ===== *)
theory Proxy
  imports Pipeline Json
begin

text \<open>
  The reverse proxy of \<^verbatim>\<open>cmd/proxy/main.go\<close>: \<^verbatim>\<open>wafHandler.ServeHTTP\<close> finds the site, asks the engine and forwards,
  blocks or challenges; the configuration manager tells the handler of changes. \<^verbatim>\<open>url.Parse\<close> and
  the random bytes are parameters. A request that is forwarded ends the work of the handler: the upstream is no part of it.
\<close>

section \<open>State\<close>

record counters =
  ct_total :: int
  ct_blocked :: int
  ct_allowed :: int
  ct_challenged :: int
  ct_limited :: int
  ct_monitored :: int
  ct_active :: int

definition no_counts :: counters where
  "no_counts = \<lparr>ct_total = 0, ct_blocked = 0, ct_allowed = 0, ct_challenged = 0, ct_limited = 0, ct_monitored = 0, ct_active = 0\<rparr>"

text \<open>The reverse proxies by the name of the site; one is known by its target.\<close>

type_synonym 'u proxies = "string \<rightharpoonup> 'u"

record 'u proxy_env =
  pe_cfg :: cfg_env
  pe_url :: "string \<Rightarrow> 'u option"
  pe_random :: "gotime \<Rightarrow> string option"

record 'u server =
  sv_mgr :: "'u proxies cfg_manager"
  sv_proxies :: "'u proxies"
  sv_engine :: "waf_state engine"
  sv_insp :: waf_state
  sv_dev :: bool
  sv_ct :: counters

text \<open>What a client gets, or what ends the handler.\<close>

datatype reply_body = NoBody | Object json | Page string

datatype 'u reply =
    Forwarded 'u "string option" header_map
  | Replied int header_map reply_body
  | Died go_panic

section \<open>Reverse proxies\<close>

definition upstream_text :: "site_config \<Rightarrow> string" where
  "upstream_text site =
     (if 0 < st_port site \<and> CHR '':'' \<notin> set (st_upstream site)
      then st_upstream site @ '':'' @ itoa (st_port site) else st_upstream site)"

definition build_proxy :: "'u proxy_env \<Rightarrow> site_config \<Rightarrow> 'u proxies \<Rightarrow> 'u proxies \<times> gotext option" where
  "build_proxy env site ps =
     (case pe_url env (upstream_text site) of
        None \<Rightarrow> (ps, Some (Fmt ''parse upstream %q: %w'' [AStr (upstream_text site)]))
      | Some u \<Rightarrow> (ps(st_name site \<mapsto> u), None))"

definition proxies_changed :: "'u proxy_env \<Rightarrow> config \<Rightarrow> 'u proxies \<Rightarrow> 'u proxies" where
  "proxies_changed env c ps =
     fold (\<lambda>site ps. if ps (st_name site) = None then fst (build_proxy env site ps) else ps) (cf_sites c) ps"

definition new_waf_handler ::
  "'u proxy_env \<Rightarrow> 'u proxies cfg_manager \<Rightarrow> waf_state engine \<Rightarrow> waf_state \<Rightarrow> bool \<Rightarrow> 'u server" where
  "new_waf_handler env m e insp dev =
     \<lparr>sv_mgr = on_change (proxies_changed env) m,
      sv_proxies = fold (\<lambda>site ps. fst (build_proxy env site ps)) (cf_sites (cm_config m)) Map.empty,
      sv_engine = e, sv_insp = insp, sv_dev = dev, sv_ct = no_counts\<rparr>"

definition forward_request ::
  "'u proxy_env \<Rightarrow> site_config \<Rightarrow> string option \<Rightarrow> header_map \<Rightarrow> 'u server \<Rightarrow> 'u server \<times> 'u reply" where
  "forward_request env site body hdrs sv =
     (case sv_proxies sv (st_name site) of
        Some u \<Rightarrow> (sv, Forwarded u body hdrs)
      | None \<Rightarrow>
          (case build_proxy env site (sv_proxies sv) of
             (ps, Some e) \<Rightarrow> (sv, Replied 502 hdrs NoBody)
           | (ps, None) \<Rightarrow>
               (sv\<lparr>sv_proxies := ps\<rparr>, case ps (st_name site) of None \<Rightarrow> Died NilDeref | Some u \<Rightarrow> Forwarded u body hdrs)))"

section \<open>Requests\<close>

text \<open>\<^verbatim>\<open>InspectRequest\<close>. It never returns an error; the branch of the caller for one is dead.\<close>

definition inspect_request ::
  "rt_env \<Rightarrow> raw_request \<Rightarrow> waf_state engine \<Rightarrow> waf_state \<Rightarrow> (waf_state engine \<times> waf_state) \<times> outcome" where
  "inspect_request rt r e s =
     (case new_request_context r of
        Inl p \<Rightarrow> ((e, s), Panicked p)
      | Inr c \<Rightarrow> (case engine_inspect rt e (s, c) of ((e', s', c'), out) \<Rightarrow> ((e', s'), out)))"

text \<open>
  The body that is left for the upstream: an inspected request keeps what the engine has read, one byte more than
  the limit. \<open>None\<close> is no body, or one that could not be read.
\<close>

definition inspected_body :: "raw_request \<Rightarrow> string option" where
  "inspected_body r = (case raw_body r of Some (Some b) \<Rightarrow> Some (take (max_body_size + 1) b) | _ \<Rightarrow> None)"

definition whole_body :: "raw_request \<Rightarrow> string option" where
  "whole_body r = (case raw_body r of Some (Some b) \<Rightarrow> Some b | _ \<Rightarrow> None)"

definition choose_site :: "raw_request \<Rightarrow> config \<Rightarrow> site_config option" where
  "choose_site r c =
     (case find_site_by_domain (takeWhile (\<lambda>ch. ch \<noteq> CHR '':'') (raw_host r)) c of
        Some site \<Rightarrow> Some site
      | None \<Rightarrow> (case cf_sites c of [] \<Rightarrow> None | site # _ \<Rightarrow> Some site))"

definition count :: "(counters \<Rightarrow> counters) \<Rightarrow> 'u server \<Rightarrow> 'u server" where
  "count f sv = sv\<lparr>sv_ct := f (sv_ct sv)\<rparr>"

definition challenge_page :: "'u proxy_env \<Rightarrow> gotime \<Rightarrow> raw_request \<Rightarrow> string" where
  "challenge_page env now r =
     (case pe_random env now of
        None \<Rightarrow> ''<h1>Internal error</h1>''
      | Some token \<Rightarrow>
          quoted (lines_text
            [''<!DOCTYPE html>'', ''<html>'', ''<head><title>Security Challenge</title></head>'',
             ''<body style=`display:flex;justify-content:center;align-items:center;height:100vh;margin:0;font-family:monospace;background:#1a1a2e;color:#e0e0e0;`>'',
             ''<div style=`text-align:center;padding:40px;border:1px solid #333;border-radius:8px;background:#16213e;`>'',
             ''<h2>Security Verification</h2>'', ''<p>Please wait while we verify your browser...</p>'',
             ''<form id=`cf-form` action=`/__challenge` method=`POST`>''] @
             ''<input type=`hidden` name=`challenge_token` value=`'') @ token @
          quoted (lines_text [''`>''] @ ''<input type=`hidden` name=`original_path` value=`'') @ raw_path r @
          quoted (lines_text [''`>'', ''</form>'', ''<script>'', ''setTimeout(function(){''] @
             ''  var elapsed = (Date.now() / 1000 | 0) - '') @ itoa (unix_seconds now) @
          quoted (lines_text ['';'', ''  if(elapsed > 2) {'', ''    document.getElementById(`cf-form`).submit();'', ''  }'', ''}, 2500);'',
             ''</script>'', ''<noscript><p>JavaScript is required. Please enable JavaScript and try again.</p>'',
             ''<button type=`submit` form=`cf-form`>Continue</button></noscript>'', ''</div>'', ''</body>''] @ ''</html>''))"

definition block_reply :: "rt_env \<Rightarrow> raw_request \<Rightarrow> decision \<Rightarrow> 'u reply" where
  "block_reply rt r d =
     Replied 403 [(''Content-Type'', ''application/json''), (''X-FortressWAF-Action'', ''block''), (''X-FortressWAF-Rule'', d_rule_id d)]
       (Object (JObj [(''blocked'', JBool True), (''action'', JStr ''block''), (''rule_id'', JStr (d_rule_id d)),
          (''rule_name'', JStr (d_rule_name d)), (''severity'', JStr (d_severity d)), (''evidence'', JStr (rt_render rt (d_evidence d))),
          (''request_id'', JStr (header_get (raw_http r) ''X-Request-Id''))]))"

definition limit_reply :: "gotime \<Rightarrow> 'u reply" where
  "limit_reply now =
     Replied 429 [(''Content-Type'', ''application/json''), (''Retry-After'', ''60''), (''X-RateLimit-Limit'', ''100''),
         (''X-RateLimit-Remaining'', ''0''), (''X-RateLimit-Reset'', itoa (unix_seconds (now + 60 * second))),
         (''X-FortressWAF-Action'', ''rate_limit'')]
       (Object (JObj [(''error'', JStr ''rate_limited''), (''detail'', JStr ''too many requests''), (''retry_after'', JNum ''60'')]))"

definition json_reply :: "int \<Rightarrow> (string \<times> json) list \<Rightarrow> 'u reply" where
  "json_reply status ms = Replied status [(''Content-Type'', ''application/json'')] (Object (JObj ms))"

text \<open>The switch on the action of the verdict.\<close>

definition act_on ::
  "'u proxy_env \<Rightarrow> rt_env \<Rightarrow> raw_request \<Rightarrow> site_config \<Rightarrow> decision \<Rightarrow> 'u server \<Rightarrow> 'u server \<times> 'u reply" where
  "act_on env rt r site d sv =
     (case d_action d of
        ActionAllow \<Rightarrow> forward_request env site (inspected_body r) [] (count (\<lambda>c. c\<lparr>ct_allowed := ct_allowed c + 1\<rparr>) sv)
      | ActionBlock \<Rightarrow> (count (\<lambda>c. c\<lparr>ct_blocked := ct_blocked c + 1\<rparr>) sv, block_reply rt r d)
      | ActionChallenge \<Rightarrow>
          (count (\<lambda>c. c\<lparr>ct_challenged := ct_challenged c + 1\<rparr>) sv,
           Replied 403 [(''Content-Type'', ''text/html; charset=utf-8''), (''X-FortressWAF-Action'', ''challenge'')]
             (Page (challenge_page env (rt_now rt) r)))
      | ActionMonitor \<Rightarrow>
          forward_request env site (inspected_body r)
            [(''X-FortressWAF-Monitored'', ''true''), (''X-FortressWAF-Rule'', d_rule_id d)]
            (count (\<lambda>c. c\<lparr>ct_monitored := ct_monitored c + 1\<rparr>) sv)
      | ActionRateLimit \<Rightarrow> (count (\<lambda>c. c\<lparr>ct_limited := ct_limited c + 1\<rparr>) sv, limit_reply (rt_now rt)))"

definition dispatch :: "'u proxy_env \<Rightarrow> rt_env \<Rightarrow> raw_request \<Rightarrow> 'u server \<Rightarrow> 'u server \<times> 'u reply" where
  "dispatch env rt r sv =
     (case choose_site r (cm_config (sv_mgr sv)) of
        None \<Rightarrow>
          (count (\<lambda>c. c\<lparr>ct_blocked := ct_blocked c + 1\<rparr>) sv,
           json_reply 502 [(''error'', JStr ''no_site_configured''),
             (''detail'', JStr (rt_render rt (Fmt ''no site configured for host %q'' [AStr (takeWhile (\<lambda>ch. ch \<noteq> CHR '':'') (raw_host r))])))])
      | Some site \<Rightarrow>
          if \<not> st_waf_enabled site then forward_request env site (whole_body r) [] sv
          else
            (case inspect_request rt r (sv_engine sv) (sv_insp sv) of
               ((e, s), out) \<Rightarrow>
                 (let sv' = sv\<lparr>sv_engine := e, sv_insp := s\<rparr> in
                  case out of Panicked p \<Rightarrow> (sv', Died p) | Verdict d \<Rightarrow> act_on env rt r site d sv')))"

definition serve_http :: "'u proxy_env \<Rightarrow> rt_env \<Rightarrow> raw_request \<Rightarrow> 'u server \<Rightarrow> 'u server \<times> 'u reply" where
  "serve_http env rt r sv =
     (case dispatch env rt r (count (\<lambda>c. c\<lparr>ct_total := ct_total c + 1, ct_active := ct_active c + 1\<rparr>) sv) of
        (sv', rep) \<Rightarrow> (count (\<lambda>c. c\<lparr>ct_active := ct_active c - 1\<rparr>) sv', rep))"

section \<open>Changes of the configuration\<close>

text \<open>\<^verbatim>\<open>Manager.Reload\<close>, called by the watcher or the administrator; the call-backs run on the table of proxies.\<close>

definition server_reload :: "'u proxy_env \<Rightarrow> disk \<Rightarrow> 'u server \<Rightarrow> 'u server \<times> gotext option" where
  "server_reload env dk sv =
     (case reload (pe_cfg env) dk (sv_mgr sv, sv_proxies sv) of
        ((m, ps), err) \<Rightarrow> (sv\<lparr>sv_mgr := m, sv_proxies := ps\<rparr>, err))"

text \<open>The start of the process, up to the handler.\<close>

definition start_server :: "'u proxy_env \<Rightarrow> int \<Rightarrow> waf_env \<Rightarrow> disk \<Rightarrow> string \<Rightarrow> bool \<Rightarrow> 'u server option" where
  "start_server env procs wenv dk path dev =
     (case (load_config (pe_cfg env) dk path, new_manager (pe_cfg env) dk path) of
        (Inr c, Inr m) \<Rightarrow>
          Some (new_waf_handler env (on_change (\<lambda>_ w. w) m) (start_engine procs wenv c dev) (initial_state wenv c dev) dev)
      | _ \<Rightarrow> None)"

inductive reachable :: "'u proxy_env \<Rightarrow> int \<Rightarrow> waf_env \<Rightarrow> disk \<Rightarrow> string \<Rightarrow> bool \<Rightarrow> 'u server \<Rightarrow> bool"
  for env procs wenv dk0 path dev where
  start: "start_server env procs wenv dk0 path dev = Some sv \<Longrightarrow> reachable env procs wenv dk0 path dev sv"
| served: "reachable env procs wenv dk0 path dev sv \<Longrightarrow> reachable env procs wenv dk0 path dev (fst (serve_http env rt r sv))"
| reloaded: "reachable env procs wenv dk0 path dev sv \<Longrightarrow> reachable env procs wenv dk0 path dev (fst (server_reload env dk sv))"

inductive_cases reachable_cases: "reachable env procs wenv dk0 path dev sv"

section \<open>Runs of the engine\<close>

lemma process_decision_slots:
  "process_decision rt name e c d = (e2, c2, d2) \<Longrightarrow> e_slots e2 = e_slots e \<and> e_shadow e2 = e_shadow e"
  by (auto simp: process_decision_def Let_def split: if_splits)

lemma loop_step:
  assumes "inspect_loop rt (Some (name, insp) # slots) e (s, c) = ((e', s', c'), out)"
  obtains (stop) "e_slots e' = e_slots e" "e_shadow e' = e_shadow e" "\<And>d. out = Verdict d \<Longrightarrow> d_action d = ActionBlock"
  | (rest) e1 s1 c1 where "e_slots e1 = e_slots e" "e_shadow e1 = e_shadow e" "inspect_loop rt slots e1 (s1, c1) = ((e', s', c'), out)"
proof -
  obtain pmo s1 c1 r where call: "call_inspector rt name insp (e_perf e) (s, c) = ((pmo, s1, c1), r)"
    by (metis prod.exhaust)
  show thesis
  proof (cases r)
    case (IDec d0)
    obtain e2 c2 d2 where pd: "process_decision rt name (e\<lparr>e_perf := pmo\<rparr>) c1 d0 = (e2, c2, d2)" by (metis prod.exhaust)
    show thesis
    proof (cases "d_action d2 = ActionBlock \<and> \<not> e_shadow e")
      case True
      with assms call IDec pd have "e' = e2" "out = Verdict d2" by auto
      with True process_decision_slots [OF pd] show thesis by (intro stop) auto
    next
      case False
      with assms call IDec pd have "inspect_loop rt slots e2 (s1, c2) = ((e', s', c'), out)" by (auto simp: Let_def)
      with process_decision_slots [OF pd] show thesis by (intro rest) auto
    qed
  next
    case (IPanic p)
    with assms call show thesis by (intro stop) auto
  qed (use assms call in \<open>auto intro: rest [of "e\<lparr>e_perf := pmo\<rparr>"]\<close>)
qed

lemma loop_engine_frame:
  "inspect_loop rt slots e (s, c) = ((e', s', c'), out) \<Longrightarrow>
     e_slots e' = e_slots e \<and> e_shadow e' = e_shadow e \<and> (\<forall>d. out = Verdict d \<longrightarrow> d_action d \<noteq> ActionMonitor)"
proof (induction slots arbitrary: e s c)
  case Nil
  then show ?case by (auto simp: final_decision_def Let_def split: if_splits)
next
  case (Cons slot slots)
  show ?case
  proof (cases slot)
    case None
    with Cons.prems have "inspect_loop rt slots e (s, c) = ((e', s', c'), out)" by simp
    then show ?thesis by (rule Cons.IH)
  next
    case (Some ni)
    obtain name insp where "ni = (name, insp)" by fastforce
    with Cons.prems Some have "inspect_loop rt (Some (name, insp) # slots) e (s, c) = ((e', s', c'), out)" by simp
    then show ?thesis
    proof (cases rule: loop_step)
      case stop
      then show ?thesis by auto
    next
      case (rest e1 s1 c1)
      with Cons.IH [OF rest(3)] show ?thesis by simp
    qed
  qed
qed

lemma inspect_request_frame:
  "inspect_request rt r e s = ((e', s'), out) \<Longrightarrow> e_slots e' = e_slots e \<and> e_shadow e' = e_shadow e"
  by (auto simp: inspect_request_def engine_inspect_def split: sum.splits prod.splits dest: loop_engine_frame)

lemma inspect_request_action: "inspect_request rt r e s = (es, Verdict d) \<Longrightarrow> d_action d \<noteq> ActionMonitor"
  by (auto simp: inspect_request_def engine_inspect_def split: sum.splits prod.splits dest: loop_engine_frame)

lemma fresh_context: "new_request_context r = Inr c \<Longrightarrow> c_threat c = 0 \<and> c_decisions c = []"
  by (auto simp: new_request_context_def split: if_splits)

section \<open>What forwarding leaves alone\<close>

lemma build_proxy_keeps: "ps n = Some u \<Longrightarrow> n \<noteq> st_name site \<Longrightarrow> fst (build_proxy env site ps) n = Some u"
  by (auto simp: build_proxy_def split: option.splits)

lemma proxies_changed_keeps: "ps n = Some u \<Longrightarrow> proxies_changed env c ps n = Some u"
  unfolding proxies_changed_def
  by (rule fold_invariant [where P = "\<lambda>ps. ps n = Some u" and Q = "\<lambda>_. True"]) (auto intro: build_proxy_keeps)

lemma count_sel [simp]:
  "sv_mgr (count f sv) = sv_mgr sv" "sv_engine (count f sv) = sv_engine sv" "sv_insp (count f sv) = sv_insp sv"
  "sv_dev (count f sv) = sv_dev sv" "sv_ct (count f sv) = f (sv_ct sv)" "sv_proxies (count f sv) = sv_proxies sv"
  by (simp_all add: count_def)

text \<open>One state follows another with the same engine and configuration and no proxy changed.\<close>

definition same_setup :: "'u server \<Rightarrow> 'u server \<Rightarrow> bool" where
  "same_setup sv sv' \<longleftrightarrow> sv_mgr sv' = sv_mgr sv \<and> e_slots (sv_engine sv') = e_slots (sv_engine sv) \<and>
     e_shadow (sv_engine sv') = e_shadow (sv_engine sv) \<and> sv_proxies sv \<subseteq>\<^sub>m sv_proxies sv'"

lemma same_setup_refl [simp]: "same_setup sv sv"
  by (simp add: same_setup_def)

lemma same_setup_trans: "same_setup a b \<Longrightarrow> same_setup b c \<Longrightarrow> same_setup a c"
  by (auto simp: same_setup_def intro: map_le_trans)

lemma same_setup_count [simp]:
  "same_setup sv (count f sv') = same_setup sv sv'" "same_setup (count f sv) sv' = same_setup sv sv'"
  by (simp_all add: same_setup_def)

lemma forward_frame:
  "forward_request env site body hdrs sv = (sv', rep) \<Longrightarrow> same_setup sv sv' \<and> sv_ct sv' = sv_ct sv"
  by (auto simp: forward_request_def build_proxy_def same_setup_def map_le_def split: option.splits prod.splits if_splits)

lemma act_on_frame: "act_on env rt r site d sv = (sv', rep) \<Longrightarrow> same_setup sv sv'"
  by (cases "d_action d") (auto simp: act_on_def dest!: forward_frame)

lemma inspected_setup:
  "inspect_request rt r (sv_engine sv) (sv_insp sv) = ((e, s), out) \<Longrightarrow> same_setup sv (sv\<lparr>sv_engine := e, sv_insp := s\<rparr>)"
  by (drule inspect_request_frame) (simp add: same_setup_def)

lemma dispatch_frame:
  assumes "dispatch env rt r sv = (sv', rep)"
  shows "same_setup sv sv'"
proof (cases "choose_site r (cm_config (sv_mgr sv))")
  case None
  with assms show ?thesis by (auto simp: dispatch_def)
next
  case (Some site)
  show ?thesis
  proof (cases "st_waf_enabled site")
    case False
    with Some assms show ?thesis by (auto simp: dispatch_def dest: forward_frame)
  next
    case True
    obtain e s out where ins: "inspect_request rt r (sv_engine sv) (sv_insp sv) = ((e, s), out)" by (metis prod.exhaust)
    note step = inspected_setup [OF ins]
    show ?thesis
    proof (cases out)
      case (Verdict d)
      with assms Some True ins have "act_on env rt r site d (sv\<lparr>sv_engine := e, sv_insp := s\<rparr>) = (sv', rep)"
        by (simp add: dispatch_def)
      from same_setup_trans [OF step act_on_frame [OF this]] show ?thesis .
    qed (use assms Some True ins step in \<open>simp add: dispatch_def\<close>)
  qed
qed

lemma serve_frame: "same_setup sv (fst (serve_http env rt r sv))"
proof -
  obtain sv' rep where "dispatch env rt r (count (\<lambda>c. c\<lparr>ct_total := ct_total c + 1, ct_active := ct_active c + 1\<rparr>) sv) = (sv', rep)"
    by fastforce
  with dispatch_frame [OF this] show ?thesis by (simp add: serve_http_def)
qed

section \<open>The reachable states of the proxy\<close>

definition tallied :: "counters \<Rightarrow> bool" where
  "tallied ct \<longleftrightarrow> 0 \<le> ct_blocked ct \<and> 0 \<le> ct_allowed ct \<and> 0 \<le> ct_challenged ct \<and> 0 \<le> ct_limited ct \<and> ct_monitored ct = 0 \<and>
     ct_blocked ct + ct_allowed ct + ct_challenged ct + ct_limited ct \<le> ct_total ct"

lemma tallied_more: "tallied ct \<Longrightarrow> tallied (ct\<lparr>ct_total := ct_total ct + 1, ct_active := a\<rparr>)"
  by (simp add: tallied_def)

lemma tallied_active [simp]: "tallied (ct\<lparr>ct_active := a\<rparr>) = tallied ct"
  by (simp add: tallied_def)

definition counted :: "counters \<Rightarrow> counters \<Rightarrow> bool" where
  "counted ct ct' \<longleftrightarrow> ct_active ct' = ct_active ct \<and> (tallied (ct\<lparr>ct_total := ct_total ct - 1\<rparr>) \<longrightarrow> tallied ct')"

lemma counted_refl [simp]: "counted ct ct"
  by (auto simp: counted_def tallied_def)

lemma act_on_counted:
  assumes "act_on env rt r site d sv = (sv', rep)" and "d_action d \<noteq> ActionMonitor"
  shows "counted (sv_ct sv) (sv_ct sv')"
  using assms by (cases "d_action d") (auto simp: act_on_def counted_def tallied_def dest!: forward_frame)

lemma dispatch_counted:
  assumes "dispatch env rt r sv = (sv', rep)"
  shows "counted (sv_ct sv) (sv_ct sv')"
proof (cases "choose_site r (cm_config (sv_mgr sv))")
  case None
  with assms show ?thesis by (auto simp: dispatch_def counted_def tallied_def)
next
  case (Some site)
  show ?thesis
  proof (cases "st_waf_enabled site")
    case False
    with Some assms show ?thesis by (auto simp: dispatch_def dest: forward_frame)
  next
    case True
    obtain e s out where ins: "inspect_request rt r (sv_engine sv) (sv_insp sv) = ((e, s), out)" by (metis prod.exhaust)
    show ?thesis
    proof (cases out)
      case (Verdict d)
      with assms Some True ins have "act_on env rt r site d (sv\<lparr>sv_engine := e, sv_insp := s\<rparr>) = (sv', rep)"
        by (simp add: dispatch_def)
      from act_on_counted [OF this] inspect_request_action ins Verdict show ?thesis by auto
    qed (use assms Some True ins in \<open>auto simp: dispatch_def\<close>)
  qed
qed

lemma serve_counted:
  assumes "ct_active (sv_ct sv) = 0" and "tallied (sv_ct sv)"
  shows "ct_active (sv_ct (fst (serve_http env rt r sv))) = 0 \<and> tallied (sv_ct (fst (serve_http env rt r sv)))"
proof -
  let ?sv = "count (\<lambda>c. c\<lparr>ct_total := ct_total c + 1, ct_active := ct_active c + 1\<rparr>) sv"
  obtain sv' rep where d: "dispatch env rt r ?sv = (sv', rep)" by fastforce
  from dispatch_counted [OF d] assms have "ct_active (sv_ct sv') = 1" "tallied (sv_ct sv')"
    by (simp_all add: counted_def)
  with d show ?thesis by (simp add: serve_http_def)
qed

definition server_inv :: "'u proxy_env \<Rightarrow> 'u server \<Rightarrow> bool" where
  "server_inv env sv \<longleftrightarrow> slots_ok (e_slots (sv_engine sv)) \<and> ct_active (sv_ct sv) = 0 \<and> tallied (sv_ct sv) \<and>
     cm_on_change (sv_mgr sv) = [\<lambda>_ w. w, proxies_changed env]"

lemma start_server_inv: "start_server env procs wenv dk path dev = Some sv \<Longrightarrow> server_inv env sv"
  by (auto simp: start_server_def server_inv_def new_waf_handler_def started_contract no_counts_def tallied_def on_change_def
      new_manager_def split: sum.splits)

lemma server_reload_keeps:
  assumes "server_inv env sv"
  shows "server_inv env (fst (server_reload env dk sv)) \<and> sv_proxies sv \<subseteq>\<^sub>m sv_proxies (fst (server_reload env dk sv))"
  using assms
  by (auto simp: server_reload_def reload_def server_inv_def notify_def Let_def map_le_def proxies_changed_keeps
      split: sum.splits)

lemma reachable_inv: "reachable env procs wenv dk0 path dev sv \<Longrightarrow> server_inv env sv"
proof (induction rule: reachable.induct)
  case (served sv rt r)
  then show ?case using serve_counted [of sv env rt r] serve_frame [of sv env rt r]
    by (simp add: server_inv_def same_setup_def)
qed (simp_all add: start_server_inv server_reload_keeps)

section \<open>What reaches the upstream\<close>

lemma forward_reply:
  "forward_request env site body hdrs sv = (sv', Forwarded u b h) \<Longrightarrow> b = body \<and> h = hdrs"
  by (auto simp: forward_request_def split: option.splits prod.splits)

lemma forwarded_verdict:
  assumes "serve_http env rt r sv = (sv', Forwarded u body hdrs)"
    and "choose_site r (cm_config (sv_mgr sv)) = Some site" and "st_waf_enabled site"
  shows "\<exists>c d. new_request_context r = Inr c \<and> snd (engine_inspect rt (sv_engine sv) (sv_insp sv, c)) = Verdict d \<and>
    d_action d = ActionAllow \<and> body = inspected_body r"
proof -
  obtain e s out where ins: "inspect_request rt r (sv_engine sv) (sv_insp sv) = ((e, s), out)" by (metis prod.exhaust)
  obtain sv2 where dis: "dispatch env rt r (count (\<lambda>c. c\<lparr>ct_total := ct_total c + 1, ct_active := ct_active c + 1\<rparr>) sv)
      = (sv2, Forwarded u body hdrs)"
    using assms(1) by (auto simp: serve_http_def split: prod.splits)
  show ?thesis
  proof (cases out)
    case (Verdict d)
    from ins Verdict obtain c where c: "new_request_context r = Inr c"
      and run: "snd (engine_inspect rt (sv_engine sv) (sv_insp sv, c)) = Verdict d"
      by (auto simp: inspect_request_def split: sum.splits prod.splits)
    have "d_action d \<noteq> ActionMonitor" using inspect_request_action ins Verdict by auto
    moreover from dis ins Verdict assms(2,3)
    have "act_on env rt r site d (count (\<lambda>c. c\<lparr>ct_total := ct_total c + 1, ct_active := ct_active c + 1\<rparr>) sv\<lparr>sv_engine := e, sv_insp := s\<rparr>)
        = (sv2, Forwarded u body hdrs)"
      by (simp add: dispatch_def)
    ultimately have "d_action d = ActionAllow \<and> body = inspected_body r"
      by (cases "d_action d") (auto simp: act_on_def block_reply_def limit_reply_def dest: forward_reply)
    with c run show ?thesis by blast
  qed (use dis ins assms(2,3) in \<open>simp add: dispatch_def\<close>)
qed

text \<open>The slots of a running server are those of the engine that was built when it started.\<close>

lemma reachable_slots:
  "reachable env procs wenv dk path dev sv \<Longrightarrow>
    \<exists>c0. load_config (pe_cfg env) dk path = Inr c0 \<and> e_slots (sv_engine sv) = e_slots (start_engine procs wenv c0 dev)"
proof (induction rule: reachable.induct)
  case (start sv)
  then show ?case by (auto simp: start_server_def new_waf_handler_def split: sum.splits)
next
  case (served sv rt r)
  then show ?case using serve_frame [of sv env rt r] by (simp add: same_setup_def)
next
  case (reloaded sv dk)
  then show ?case by (auto simp: server_reload_def split: prod.splits)
qed


text \<open>
  Property C28. The counters of the proxy agree with one another in every reachable state: no connection is left counted as
  active, every verdict is counted at most once, and nothing is ever counted as monitored.
\<close>

theorem counters_consistent:
  assumes "reachable env procs wenv dk path dev sv"
  shows "ct_active (sv_ct sv) = 0 \<and> ct_monitored (sv_ct sv) = 0 \<and>
    ct_blocked (sv_ct sv) + ct_allowed (sv_ct sv) + ct_challenged (sv_ct sv) + ct_limited (sv_ct sv) \<le> ct_total (sv_ct sv)"
  using reachable_inv [OF assms] by (simp add: server_inv_def tallied_def)

text \<open>
  The target of a site never changes while the process runs: neither a request nor a reload with whatever file
  replaces a reverse proxy that was built.
\<close>

lemma upstream_never_changes:
  assumes "reachable env procs wenv dk path dev sv" and "sv_proxies sv name = Some u"
  shows "sv_proxies (fst (serve_http env rt r sv)) name = Some u \<and> sv_proxies (fst (server_reload env dk' sv)) name = Some u"
proof -
  from server_reload_keeps [OF reachable_inv [OF assms(1)], of dk'] serve_frame [of sv env rt r] assms(2)
  show ?thesis by (auto simp: same_setup_def map_le_def dom_def)
qed

text \<open>
  A body that exceeds the limit by more than one byte is forwarded cut off, and one byte of what is forwarded
  was not inspected.
\<close>

lemma long_body_cut:
  assumes "new_request_context r = Inr c" and "raw_body r = Some (Some b)" and "max_body_size + 1 < length b"
  shows "\<exists>seen x. c_body c = Some seen \<and> inspected_body r = Some (seen @ [x]) \<and> length (seen @ [x]) < length b"
proof -
  have "c_body c = Some (take max_body_size b)"
    using assms by (auto simp: new_request_context_def split: if_splits)
  moreover have "inspected_body r = Some (take max_body_size b @ [b ! max_body_size])"
    using assms by (simp add: inspected_body_def take_Suc_conv_app_nth)
  ultimately show ?thesis using assms(3) by auto
qed

section \<open>Witnesses\<close>

definition demo_proxy :: "string proxy_env" where
  "demo_proxy = \<lparr>pe_cfg = demo_env, pe_url = Some, pe_random = (\<lambda>_. Some ''00'')\<rparr>"

definition demo_raw :: raw_request where
  "demo_raw = \<lparr>raw_http = \<lparr>rq_header = [], rq_content_length = 0, rq_proto = ''HTTP/1.1'', rq_tls = None\<rparr>,
     raw_remote_addr = ''203.0.113.7'', raw_user_agent = [], raw_path = ''/x'', raw_method = ''GET'', raw_host = ''example.com:80'',
     raw_cookies = [], raw_query = [], raw_body = None\<rparr>"

definition demo_server :: "waf_env \<Rightarrow> string server" where
  "demo_server wenv = the (start_server demo_proxy 1 wenv [''c'' \<mapsto> ''x''] ''c'' False)"

lemma demo_load: "load_config demo_env [''c'' \<mapsto> ''x''] ''c'' = Inr demo_config"
proof -
  have "env_refs ''x'' = []" by code_simp
  moreover have "demo_config\<lparr>cf_path := ''c''\<rparr> = demo_config" by (simp add: demo_config_def)
  ultimately show ?thesis using demo_config_valid by (simp add: load_config_def demo_env_def expand_env_refs_def)
qed

lemma demo_start:
  "start_server demo_proxy 1 wenv [''c'' \<mapsto> ''x''] ''c'' False =
     Some (new_waf_handler demo_proxy (on_change (\<lambda>_ w. w) \<lparr>cm_config = demo_config, cm_on_change = []\<rparr>)
       (start_engine 1 wenv demo_config False) (initial_state wenv demo_config False) False)"
  by (simp add: start_server_def new_manager_def demo_proxy_def demo_load)

lemma demo_reachable: "reachable demo_proxy 1 wenv [''c'' \<mapsto> ''x''] ''c'' False (demo_server wenv)"
  by (rule reachable.start) (simp add: demo_server_def demo_start)

definition demo_seen :: reqctx where
  "demo_seen = (header_request [])\<lparr>c_real_ip := ''203.0.113.7'', c_path := ''/x'', c_host := ''example.com:80''\<rparr>"

lemma demo_context: "new_request_context demo_raw = Inr demo_seen"
  by (simp add: new_request_context_def demo_raw_def demo_seen_def header_request_def real_ip_def header_get_def
      header_values_def al_get_def)

lemma demo_site_chosen: "choose_site demo_raw demo_config = Some demo_site"
  by (simp add: choose_site_def demo_raw_def demo_config_def find_site_by_domain_def demo_site_def)

lemma demo_server_handler:
  "demo_server wenv = new_waf_handler demo_proxy (on_change (\<lambda>_ w. w) \<lparr>cm_config = demo_config, cm_on_change = []\<rparr>)
     (start_engine 1 wenv demo_config False) (initial_state wenv demo_config False) False"
  by (simp add: demo_server_def demo_start)

lemma demo_sites: "cf_sites demo_config = [demo_site]"
  by (simp add: demo_config_def)

lemma demo_server_sel [simp]:
  "cm_config (sv_mgr (demo_server wenv)) = demo_config" "sv_engine (demo_server wenv) = start_engine 1 wenv demo_config False"
  "sv_insp (demo_server wenv) = initial_state wenv demo_config False" "sv_proxies (demo_server wenv) = [''s'' \<mapsto> ''http://u'']"
  by (simp_all add: demo_server_handler new_waf_handler_def on_change_def demo_sites demo_site_def build_proxy_def
      upstream_text_def demo_proxy_def)

lemma demo_slots:
  "e_slots (start_engine 1 wenv demo_config False) =
     [named_inspector ''parser_hardener'' (Some (no_state parser_inspect)), None,
      named_inspector ''ja3'' (Some (lift_inspector wf_ja3 (\<lambda>s. wf_ja3_update (\<lambda>_. s)) (ja3_inspect (en_md5 wenv))))] @ replicate 22 None"
  "e_perf (start_engine 1 wenv demo_config False) = None" "\<not> e_shadow (start_engine 1 wenv demo_config False)"
  by (simp_all add: start_engine_def new_engine_def engine_slots_def build_engine_config_def named_inspector_def enabled_def
      demo_config_def default_config_def default_websocket_def default_graphql_config_def off_def numeral_eq_Suc)

lemma demo_parser: "parser_check demo_seen = Some None"
proof -
  have "check_target ''/x'' = None" "check_target ''GET'' = None" "check_target ''203.0.113.7'' = None"
    by (simp_all add: check_target_def runes_def control_rune_def overlong_rune_def)
  then have "detect_unicode_attack demo_seen = None"
    by (simp add: detect_unicode_attack_def demo_seen_def header_request_def)
  moreover have "detect_normalization_bypass demo_seen = Some None"
    by (simp add: detect_normalization_bypass_def demo_seen_def header_request_def normalization_pattern_def has_suffix_def
        to_lower_def lower_char_def is_upper_def less_eq_char_def)
  moreover have "ctx_body demo_seen = []" "rq_proto (c_request demo_seen) = ''HTTP/1.1''" "c_method demo_seen = ''GET''"
    "header_get (c_request demo_seen) name = []" "header_values (c_request demo_seen) name = []" for name
    by (simp_all add: ctx_body_def demo_seen_def header_request_def header_get_def header_values_def al_get_def)
  moreover have "extract_boundary [] = []" by (simp add: extract_boundary_def contains_def to_lower_def)
  ultimately show ?thesis
    by (simp add: parser_check_def detect_parser_differential_def detect_http_downgrade_def detect_chunked_abuse_def Let_def
        contains_def to_lower_def)
qed

lemma loop_Nones: "inspect_loop rt (replicate n None) e sc = inspect_loop rt [] e sc"
  by (induction n) simp_all

lemma demo_seen_sel: "rq_tls (c_request demo_seen) = None" "final_decision demo_seen = allow_decision"
  by (simp_all add: demo_seen_def header_request_def final_decision_def)

lemma demo_run:
  "\<exists>e s. engine_inspect demo_rt (start_engine 1 wenv demo_config False) (initial_state wenv demo_config False, demo_seen)
     = ((e, s, demo_seen), Verdict allow_decision)"
  by (simp add: engine_inspect_def demo_slots named_inspector_def call_inspector_def no_state_def lift_inspector_def parser_inspect_def
      demo_parser ja3_inspect_def loop_Nones demo_seen_sel)

lemma demo_served:
  "\<exists>sv'. serve_http demo_proxy demo_rt demo_raw (demo_server wenv) = (sv', Forwarded ''http://u'' None [])"
proof -
  obtain e s where run: "engine_inspect demo_rt (start_engine 1 wenv demo_config False) (initial_state wenv demo_config False, demo_seen)
     = ((e, s, demo_seen), Verdict allow_decision)" using demo_run by blast
  have "st_waf_enabled demo_site" "st_name demo_site = ''s''" "inspected_body demo_raw = None"
    by (simp_all add: demo_site_def inspected_body_def demo_raw_def)
  then show ?thesis
    by (simp add: serve_http_def dispatch_def demo_site_chosen inspect_request_def demo_context run act_on_def forward_request_def)
qed


theorem counters_consistent_witness: "\<forall>wenv. ct_active (sv_ct (demo_server wenv)) = 0"
  using counters_consistent [OF demo_reachable] by blast

lemma upstream_never_changes_witness:
  "\<forall>wenv dk. sv_proxies (fst (server_reload demo_proxy dk (demo_server wenv))) ''s'' = Some ''http://u''"
proof -
  have "sv_proxies (demo_server wenv) ''s'' = Some ''http://u''" for wenv by simp
  from upstream_never_changes [OF demo_reachable this] show ?thesis by blast
qed

lemma long_body_cut_witness:
  "\<exists>seen x. inspected_body (demo_raw\<lparr>raw_body := Some (Some (replicate 10485800 CHR ''a''))\<rparr>) = Some (seen @ [x]) \<and>
     length (seen @ [x]) < 10485800"
proof -
  let ?b = "replicate 10485800 CHR ''a''"
  let ?r = "demo_raw\<lparr>raw_body := Some (Some ?b)\<rparr>"
  obtain c where c: "new_request_context ?r = Inr c" by (simp add: new_request_context_def demo_raw_def)
  have "raw_body ?r = Some (Some ?b)" by simp
  moreover have "max_body_size + 1 < length ?b" by (simp add: max_body_size_def)
  ultimately show ?thesis using long_body_cut [OF c, of ?b] by (metis length_replicate)
qed

end
