(* ===== verification/Admin.thy ===== *)
theory Admin
  imports Proxy
begin

text \<open>
  The administration server of \<^verbatim>\<open>cmd/proxy/main.go\<close>: the CORS and key checks that wrap its handlers, the log-in, and the
  handlers themselves. Which handler a path belongs to is decided by the router library; \<open>admin_routes\<close> is the table that it
  is given. A list that is empty and a nil slice are not told apart (JSON shows the latter as \<^verbatim>\<open>null\<close>).
\<close>

section \<open>Routes\<close>

datatype admin_route =
    RHealth | RMetrics | RReady | RLive | RLogin | RMe
  | PHealth | PStatus | PConfig | PReload | PSites | PRules

definition admin_routes :: "(string \<times> string list \<times> admin_route) list" where
  "admin_routes =
     [(''/health'', [''GET''], RHealth), (''/metrics'', [''GET''], RMetrics), (''/ready'', [''GET''], RReady),
      (''/live'', [''GET''], RLive), (''/api/v1/auth/login'', [''POST'', ''OPTIONS''], RLogin),
      (''/api/v1/auth/me'', [''GET''], RMe), (''/api/v1/health'', [''GET''], PHealth), (''/api/v1/status'', [''GET''], PStatus),
      (''/api/v1/config'', [''GET''], PConfig), (''/api/v1/reload'', [''POST''], PReload), (''/api/v1/sites'', [''GET''], PSites),
      (''/api/v1/rules'', [''GET''], PRules)]"

definition protected_routes :: "admin_route list" where
  "protected_routes = [PHealth, PStatus, PConfig, PReload, PSites, PRules]"

section \<open>What wraps the handlers\<close>

fun add_headers :: "header_map \<Rightarrow> 'u reply \<Rightarrow> 'u reply" where
  "add_headers hs (Forwarded u b h) = Forwarded u b (hs @ h)"
| "add_headers hs (Replied st h b) = Replied st (hs @ h) b"
| "add_headers hs (Died p) = Died p"

definition cors_headers :: header_map where
  "cors_headers = [(''Access-Control-Allow-Origin'', ''*''),
     (''Access-Control-Allow-Methods'', ''GET, POST, PUT, DELETE, OPTIONS''),
     (''Access-Control-Allow-Headers'', ''Content-Type, Authorization'')]"

type_synonym 'u admin_handler = "raw_request \<Rightarrow> 'u server \<Rightarrow> 'u server \<times> 'u reply"

definition cors_middleware :: "'u admin_handler \<Rightarrow> 'u admin_handler" where
  "cors_middleware next r sv =
     (if raw_method r = ''OPTIONS'' then (sv, Replied 200 cors_headers NoBody)
      else apsnd (add_headers cors_headers) (next r sv))"

definition api_keys :: "'u server \<Rightarrow> string list" where
  "api_keys sv = ad_api_keys (cf_admin (cm_config (sv_mgr sv)))"

definition admin_auth_middleware :: "'u admin_handler \<Rightarrow> 'u admin_handler" where
  "admin_auth_middleware next r sv =
     (if api_keys sv = [] then next r sv
      else
        (let auth = header_get (raw_http r) ''Authorization''; token = trim_prefix auth ''Bearer '' in
         if auth = []
         then (sv, json_reply 401 [(''error'', JStr ''unauthorized''), (''detail'', JStr ''missing Authorization header'')])
         else if token = auth
         then (sv, json_reply 401 [(''error'', JStr ''unauthorized''), (''detail'', JStr ''Authorization must be Bearer token'')])
         else if token \<notin> set (api_keys sv)
         then (sv, json_reply 403 [(''error'', JStr ''forbidden''), (''detail'', JStr ''invalid API key'')])
         else next r sv))"

section \<open>Log-in\<close>

record login_request =
  lr_email :: string
  lr_password :: string

definition login_fields :: "login_request field list" where
  "login_fields = [string_field ''email'' (\<lambda>v q. q\<lparr>lr_email := v\<rparr>), string_field ''password'' (\<lambda>v q. q\<lparr>lr_password := v\<rparr>)]"

text \<open>The text of the body; one that cannot be read ends the decoding as an empty one does.\<close>

definition body_text :: "raw_request \<Rightarrow> string" where
  "body_text r = (case whole_body r of None \<Rightarrow> [] | Some b \<Rightarrow> b)"

definition login_body :: "raw_request \<Rightarrow> login_request option" where
  "login_body r = decode_stream login_fields \<lparr>lr_email = [], lr_password = []\<rparr> (body_text r)"

definition handle_auth_login :: "'u admin_handler" where
  "handle_auth_login r sv =
     (case login_body r of
        None \<Rightarrow> (sv, json_reply 400 [(''error'', JStr ''invalid JSON'')])
      | Some q \<Rightarrow>
          if lr_email q = [] \<or> lr_password q = []
          then (sv, json_reply 400 [(''error'', JStr ''email and password required'')])
          else if \<not> (lr_email q \<in> set (api_keys sv) \<or> lr_password q \<in> set (api_keys sv)) \<and> api_keys sv \<noteq> []
          then (sv, json_reply 401 [(''error'', JStr ''invalid credentials'')])
          else
            (case api_keys sv of
               [] \<Rightarrow> (sv, Died IndexOutOfRange)
             | token # _ \<Rightarrow>
                 (sv, json_reply 200 [(''token'', JStr token),
                    (''user'', JObj [(''id'', JStr (lr_email q)), (''email'', JStr (lr_email q)), (''name'', JStr (lr_email q)),
                       (''role'', JStr ''admin'')])])))"

definition handle_auth_me :: "'u admin_handler" where
  "handle_auth_me r sv =
     (let auth = header_get (raw_http r) ''Authorization''; token = trim_prefix auth ''Bearer '' in
      if token = auth then (sv, json_reply 401 [(''error'', JStr ''unauthorized'')])
      else (sv, json_reply 200 [(''id'', JStr token), (''email'', JStr token), (''name'', JStr ''Admin''), (''role'', JStr ''admin'')]))"

section \<open>Handlers\<close>

text \<open>The build, and how the libraries show durations, times and numbers.\<close>

record admin_env =
  ae_version :: string
  ae_commit :: string
  ae_build_date :: string
  ae_started :: gotime
  ae_now :: gotime
  ae_duration :: "duration \<Rightarrow> string"
  ae_time :: "gotime \<Rightarrow> string"
  ae_float :: "rat \<Rightarrow> string"

definition uptime :: "admin_env \<Rightarrow> duration" where
  "uptime a = time_sub (ae_now a) (ae_started a)"

definition per_second :: "admin_env \<Rightarrow> 'u server \<Rightarrow> rat" where
  "per_second a sv =
     (let secs = Fract (uptime a) second in if 0 < secs then of_int (ct_total (sv_ct sv)) / secs else 0)"

definition handle_health :: "admin_env \<Rightarrow> 'u admin_handler" where
  "handle_health a r sv =
     (sv, json_reply 200 [(''status'', JStr ''healthy''), (''version'', JStr (ae_version a)), (''commit'', JStr (ae_commit a)),
        (''uptime'', JStr (ae_duration a (uptime a))), (''timestamp'', JStr (ae_time a (ae_now a)))])"

text \<open>The version and the commit contain no character that \<^verbatim>\<open>%q\<close> would escape.\<close>

definition metric :: "string \<Rightarrow> string \<Rightarrow> string \<Rightarrow> string \<Rightarrow> string list" where
  "metric name help kind v = [''# HELP '' @ name @ '' '' @ help, ''# TYPE '' @ name @ '' '' @ kind, name @ '' '' @ v]"

definition handle_metrics :: "admin_env \<Rightarrow> 'u admin_handler" where
  "handle_metrics a r sv =
     (let ct = sv_ct sv in
      (sv, Replied 200 [(''Content-Type'', ''text/plain; version=0.0.4; charset=utf-8'')]
         (Page (lines_text (
            metric ''fortresswaf_requests_total'' ''Total number of requests'' ''counter'' (itoa (ct_total ct)) @
            metric ''fortresswaf_requests_allowed'' ''Total allowed requests'' ''counter'' (itoa (ct_allowed ct)) @
            metric ''fortresswaf_requests_blocked'' ''Total blocked requests'' ''counter'' (itoa (ct_blocked ct)) @
            metric ''fortresswaf_requests_challenged'' ''Total challenged requests'' ''counter'' (itoa (ct_challenged ct)) @
            metric ''fortresswaf_requests_rate_limited'' ''Total rate-limited requests'' ''counter'' (itoa (ct_limited ct)) @
            metric ''fortresswaf_requests_monitored'' ''Total monitored requests'' ''counter'' (itoa (ct_monitored ct)) @
            metric ''fortresswaf_active_connections'' ''Current active connections'' ''gauge'' (itoa (ct_active ct)) @
            metric ''fortresswaf_uptime_seconds'' ''Uptime in seconds'' ''gauge'' (ae_float a (Fract (uptime a) second)) @
            metric ''fortresswaf_requests_per_second'' ''Current requests per second'' ''gauge'' (ae_float a (per_second a sv)) @
            [''# HELP fortresswaf_version_info FortressWAF version info'', ''# TYPE fortresswaf_version_info gauge'',
             ''fortresswaf_version_info{version='' @ quoted ''`'' @ ae_version a @ quoted ''`,commit=`'' @ ae_commit a @ quoted ''`} 1''])))))"

definition handle_ready :: "'u admin_handler" where
  "handle_ready r sv =
     (sv, if cf_sites (cm_config (sv_mgr sv)) = []
          then json_reply 503 [(''status'', JStr ''not_ready''), (''reason'', JStr ''no sites configured'')]
          else json_reply 200 [(''status'', JStr ''ready'')])"

definition handle_live :: "'u admin_handler" where
  "handle_live r sv = (sv, json_reply 200 [(''status'', JStr ''alive'')])"

definition jint :: "int \<Rightarrow> json" where
  "jint i = JNum (itoa i)"

definition handle_status :: "admin_env \<Rightarrow> 'u admin_handler" where
  "handle_status a r sv =
     (let ct = sv_ct sv in
      (sv, json_reply 200
         [(''version'', JStr (ae_version a)), (''commit'', JStr (ae_commit a)), (''build_date'', JStr (ae_build_date a)),
          (''uptime'', JStr (ae_duration a (uptime a))), (''uptime_seconds'', jint (go_div (uptime a) second)),
          (''requests_per_sec'', JNum (ae_float a (per_second a sv))), (''total_requests'', jint (ct_total ct)),
          (''blocked_requests'', jint (ct_blocked ct)), (''allowed_requests'', jint (ct_allowed ct)),
          (''active_connections'', jint (ct_active ct)), (''challenged'', jint (ct_challenged ct)),
          (''rate_limited'', jint (ct_limited ct)), (''monitored'', jint (ct_monitored ct))]))"

definition jstrs :: "string list \<Rightarrow> json" where
  "jstrs xs = JArr (map JStr xs)"

definition handle_get_config :: "'u admin_handler" where
  "handle_get_config r sv =
     (let c = cm_config (sv_mgr sv) in
      (sv, json_reply 200
         [(''sites_count'', jint (int (length (cf_sites c)))), (''rules_count'', jint (int (length (cf_rules c)))),
          (''ml_enabled'', JBool (ml_enabled (cf_ml c))), (''redis_enabled'', JBool (rd_enabled (cf_redis c))),
          (''admin_port'', jint (ad_port (cf_admin c))),
          (''sites'', JArr (map (\<lambda>s. JObj [(''name'', JStr (st_name s)), (''domains'', jstrs (st_domains s)),
             (''upstream'', JStr (st_upstream s)), (''waf_enabled'', JBool (st_waf_enabled s))]) (cf_sites c)))]))"

definition handle_reload :: "'u proxy_env \<Rightarrow> rt_env \<Rightarrow> disk \<Rightarrow> 'u admin_handler" where
  "handle_reload env rt dk r sv =
     (case server_reload env dk sv of
        (sv', Some e) \<Rightarrow> (sv', json_reply 500 [(''error'', JStr ''reload_failed''), (''detail'', JStr (rt_render rt e))])
      | (sv', None) \<Rightarrow>
          (sv', json_reply 200 [(''status'', JStr ''reloaded''), (''sites'', jint (int (length (cf_sites (cm_config (sv_mgr sv')))))),
             (''rules'', jint (int (length (cf_rules (cm_config (sv_mgr sv'))))))]))"

definition handle_list_sites :: "'u admin_handler" where
  "handle_list_sites r sv =
     (let sites = cf_sites (cm_config (sv_mgr sv)) in
      (sv, json_reply 200
         [(''sites'', JArr (map (\<lambda>s. JObj [(''name'', JStr (st_name s)), (''domains'', jstrs (st_domains s)),
             (''upstream'', JStr (st_upstream s)), (''port'', jint (st_port s)), (''tls'', JBool (st_tls s)),
             (''waf_enabled'', JBool (st_waf_enabled s))]) sites)),
          (''count'', jint (int (length sites)))]))"

definition handle_list_rules :: "'u admin_handler" where
  "handle_list_rules r sv =
     (let rules = cf_rules (cm_config (sv_mgr sv)) in
      (sv, json_reply 200
         [(''rules'', JArr (map (\<lambda>g. JObj [(''id'', JStr (rg_id g)), (''name'', JStr (rg_name g)),
             (''description'', JStr (rg_description g)), (''enabled'', JBool (rg_enabled g)), (''severity'', JStr (rg_severity g)),
             (''action'', JStr (rg_action g)), (''tags'', jstrs (rg_tags g))]) rules)),
          (''count'', jint (int (length rules)))]))"

section \<open>The server\<close>

fun route_handler :: "'u proxy_env \<Rightarrow> admin_env \<Rightarrow> rt_env \<Rightarrow> disk \<Rightarrow> admin_route \<Rightarrow> 'u admin_handler" where
  "route_handler env a rt dk RHealth = handle_health a"
| "route_handler env a rt dk RMetrics = handle_metrics a"
| "route_handler env a rt dk RReady = handle_ready"
| "route_handler env a rt dk RLive = handle_live"
| "route_handler env a rt dk RLogin = handle_auth_login"
| "route_handler env a rt dk RMe = handle_auth_me"
| "route_handler env a rt dk PHealth = admin_auth_middleware (handle_health a)"
| "route_handler env a rt dk PStatus = admin_auth_middleware (handle_status a)"
| "route_handler env a rt dk PConfig = admin_auth_middleware handle_get_config"
| "route_handler env a rt dk PReload = admin_auth_middleware (handle_reload env rt dk)"
| "route_handler env a rt dk PSites = admin_auth_middleware handle_list_sites"
| "route_handler env a rt dk PRules = admin_auth_middleware handle_list_rules"

definition admin_serve :: "'u proxy_env \<Rightarrow> admin_env \<Rightarrow> rt_env \<Rightarrow> disk \<Rightarrow> admin_route \<Rightarrow> 'u admin_handler" where
  "admin_serve env a rt dk route = cors_middleware (route_handler env a rt dk route)"

section \<open>Who gets in\<close>

fun reply_status :: "'u reply \<Rightarrow> int option" where
  "reply_status (Replied st h b) = Some st"
| "reply_status r = None"

lemma add_headers_status [simp]: "reply_status (add_headers hs rep) = reply_status rep"
  by (cases rep) auto

lemma json_reply_status [simp]: "reply_status (json_reply st ms) = Some st"
  by (simp add: json_reply_def)

lemma has_prefix_split: "has_prefix s p \<Longrightarrow> s = p @ drop (length p) s"
  by (induction s p rule: has_prefix.induct) auto

lemma trim_prefix_key: "trim_prefix auth p \<noteq> auth \<Longrightarrow> auth = p @ trim_prefix auth p"
  using has_prefix_split [of auth p] by (auto simp: trim_prefix_def split: if_splits)

lemma auth_refused:
  assumes "api_keys sv \<noteq> []" and "\<forall>k\<in>set (api_keys sv). header_get (raw_http r) ''Authorization'' \<noteq> ''Bearer '' @ k"
  shows "\<exists>st ms. admin_auth_middleware next r sv = (sv, json_reply st ms) \<and> (st = 401 \<or> st = 403)"
proof -
  let ?auth = "header_get (raw_http r) ''Authorization''"
  have "trim_prefix ?auth ''Bearer '' = ?auth \<or> trim_prefix ?auth ''Bearer '' \<notin> set (api_keys sv)"
    using trim_prefix_key [of ?auth "''Bearer ''"] assms(2) by metis
  with assms(1) show ?thesis by (auto simp: admin_auth_middleware_def Let_def)
qed

lemma protected_handler:
  "route \<in> set protected_routes \<Longrightarrow> \<exists>next. route_handler env a rt dk route = admin_auth_middleware next"
  by (auto simp: protected_routes_def)

text \<open>
  Property C29. Once a key is configured, a request for a protected route whose \<^verbatim>\<open>Authorization\<close> header is not
  \<^verbatim>\<open>Bearer\<close> with one of the keys is refused and changes nothing.
\<close>

theorem protected_needs_key:
  assumes "route \<in> set protected_routes" and "api_keys sv \<noteq> []" and "raw_method r \<noteq> ''OPTIONS''"
    and "\<forall>k\<in>set (api_keys sv). header_get (raw_http r) ''Authorization'' \<noteq> ''Bearer '' @ k"
  shows "\<exists>rep. admin_serve env a rt dk route r sv = (sv, rep) \<and> (reply_status rep = Some 401 \<or> reply_status rep = Some 403)"
proof -
  obtain next' where "route_handler env a rt dk route = admin_auth_middleware next'" using protected_handler [OF assms(1)] by blast
  with auth_refused [OF assms(2,4), of next'] assms(3) show ?thesis
    by (auto simp: admin_serve_def cors_middleware_def)
qed

text \<open>Without a key, as in the default configuration, the protected routes are open to everybody.\<close>

lemma open_without_keys: "api_keys sv = [] \<Longrightarrow> admin_auth_middleware next r sv = next r sv"
  by (simp add: admin_auth_middleware_def)

lemma default_has_no_keys: "ad_api_keys (cf_admin default_config) = []"
  by (simp add: default_config_def)

text \<open>The log-in handler crashes exactly on a complete request when no key is configured.\<close>

lemma login_crash_iff:
  "snd (handle_auth_login r sv) = Died p \<longleftrightarrow>
     p = IndexOutOfRange \<and> api_keys sv = [] \<and> (\<exists>q. login_body r = Some q \<and> lr_email q \<noteq> [] \<and> lr_password q \<noteq> [])"
  by (auto simp: handle_auth_login_def json_reply_def split: option.splits list.splits)

text \<open>
  Whoever knows any key, as e-mail address or as password and with anything in the other field, is given the first
  key, which opens every protected route.
\<close>

lemma any_key_gets_first_key:
  assumes "api_keys sv = first # others" and "login_body r = Some q" and "lr_email q \<noteq> []" and "lr_password q \<noteq> []"
    and "key \<in> set (api_keys sv)" and "lr_email q = key \<or> lr_password q = key"
    and "header_get (raw_http r2) ''Authorization'' = ''Bearer '' @ first" and "first \<noteq> []"
  shows "(\<exists>ms. handle_auth_login r sv = (sv, json_reply 200 ((''token'', JStr first) # ms))) \<and>
    admin_auth_middleware next r2 sv = next r2 sv"
  using assms by (auto simp: handle_auth_login_def admin_auth_middleware_def trim_prefix_def Let_def)

text \<open>Who asks for the current user is believed whatever follows \<^verbatim>\<open>Bearer\<close>: no key is looked at.\<close>

lemma me_accepts_any_token:
  "header_get (raw_http r) ''Authorization'' = ''Bearer '' @ t \<Longrightarrow>
     \<exists>ms. handle_auth_me r sv = (sv, json_reply 200 ((''id'', JStr t) # ms))"
  by (auto simp: handle_auth_me_def trim_prefix_def Let_def)

section \<open>Witnesses\<close>

definition keyed_server :: "waf_state \<Rightarrow> string list \<Rightarrow> string server" where
  "keyed_server insp keys =
     \<lparr>sv_mgr = \<lparr>cm_config = demo_config\<lparr>cf_admin := (cf_admin demo_config)\<lparr>ad_api_keys := keys\<rparr>\<rparr>, cm_on_change = []\<rparr>,
      sv_proxies = Map.empty,
      sv_engine = \<lparr>e_shadow = False, e_learning = False, e_perf = None, e_learner = new_learner, e_conf = Map.empty,
        e_named = Map.empty, e_slots = []\<rparr>,
      sv_insp = insp, sv_dev = False, sv_ct = no_counts\<rparr>"

lemma keyed_server_keys [simp]: "api_keys (keyed_server insp keys) = keys"
  by (simp add: keyed_server_def api_keys_def)

definition bearer :: "string \<Rightarrow> raw_request" where
  "bearer t = demo_raw\<lparr>raw_http := (raw_http demo_raw)\<lparr>rq_header := [(''Authorization'', [''Bearer '' @ t])]\<rparr>\<rparr>"

lemma bearer_header [simp]: "header_get (raw_http (bearer t)) ''Authorization'' = ''Bearer '' @ t"
  by (simp add: bearer_def header_get_def header_values_def al_get_def)

theorem protected_needs_key_witness:
  "\<forall>insp a. \<exists>rep. admin_serve demo_proxy a demo_rt Map.empty PReload (bearer ''x'') (keyed_server insp [''k'']) = (keyed_server insp [''k''], rep)"
proof -
  have "PReload \<in> set protected_routes" by (simp add: protected_routes_def)
  moreover have "raw_method (bearer ''x'') \<noteq> ''OPTIONS''" by (simp add: bearer_def demo_raw_def)
  ultimately show ?thesis
    using protected_needs_key [of PReload "keyed_server insp [''k'']" "bearer ''x''" demo_proxy a demo_rt Map.empty for insp a] by auto
qed

end
