(* ===== verification/JsonText.thy ===== *)
theory JsonText
  imports Json
begin

text \<open>
  Writing JSON as \<^verbatim>\<open>json.Marshal\<close> does: without spaces, with the letters that matter to HTML as escapes. The members of an object
  are given in the order in which they are written, which for a map is that of its keys. Reading gives back what was written.
\<close>

section \<open>Texts\<close>

definition hex_nibble :: "nat \<Rightarrow> char" where
  "hex_nibble n = (if n < 10 then char_of (48 + n) else char_of (87 + n))"

definition escape_char :: "char \<Rightarrow> string" where
  "escape_char c =
     (if c = CHR 0x22 \<or> c = CHR 0x5C then [CHR 0x5C, c]
      else if c = CHR 0x08 then [CHR 0x5C, CHR ''b''] else if c = CHR 0x0C then [CHR 0x5C, CHR ''f'']
      else if c = CHR 0x0A then [CHR 0x5C, CHR ''n''] else if c = CHR 0x0D then [CHR 0x5C, CHR ''r'']
      else if c = CHR 0x09 then [CHR 0x5C, CHR ''t'']
      else if c < CHR '' '' \<or> c = CHR ''<'' \<or> c = CHR ''>'' \<or> c = CHR ''&''
      then [CHR 0x5C, CHR ''u'', CHR ''0'', CHR ''0'', hex_nibble (of_char c div 16), hex_nibble (of_char c mod 16)]
      else [c])"

text \<open>An invalid byte and the separators U+2028 and U+2029 become escapes, all other runes stay.\<close>

definition escape_rune :: "string \<Rightarrow> string" where
  "escape_rune s =
     (let bs = map of_char s :: nat list; r = rune_head bs in
      if rune_width bs = 1 then CHR 0x5C # ''ufffd''
      else if r = 0x2028 then CHR 0x5C # ''u2028'' else if r = 0x2029 then CHR 0x5C # ''u2029''
      else take (rune_width bs) s)"

function json_escape :: "string \<Rightarrow> string" where
  "json_escape [] = []"
| "json_escape (c # cs) =
     (if (of_char c :: nat) < 0x80 then escape_char c @ json_escape cs
      else escape_rune (c # cs) @ json_escape (drop (rune_width (map of_char (c # cs))) (c # cs)))"
  by pat_completeness auto
termination
proof (relation "measure length", goal_cases)
  case (3 c cs)
  then show ?case using rune_width_pos [of "map of_char (c # cs)"] by (simp del: rune_width_pos)
qed auto

definition json_quote :: "string \<Rightarrow> string" where
  "json_quote s = CHR 0x22 # json_escape s @ [CHR 0x22]"

section \<open>Values\<close>

fun comma_list :: "string list \<Rightarrow> string" where
  "comma_list [] = []"
| "comma_list [x] = x"
| "comma_list (x # xs) = x @ '','' @ comma_list xs"

fun marshal_json :: "json \<Rightarrow> string" where
  "marshal_json JNull = ''null''"
| "marshal_json (JBool b) = (if b then ''true'' else ''false'')"
| "marshal_json (JNum n) = n"
| "marshal_json (JStr s) = json_quote s"
| "marshal_json (JArr vs) = ''['' @ comma_list (map marshal_json vs) @ '']''"
| "marshal_json (JObj ms) = ''{'' @ comma_list (map (\<lambda>(k, v). json_quote k @ '':'' @ marshal_json v) ms) @ ''}''"

section \<open>Reading what was written\<close>

definition ascii_text :: "string \<Rightarrow> bool" where
  "ascii_text s = list_all (\<lambda>c. (of_char c :: nat) < 0x80) s"

lemma hex_nibble_value: "n < 16 \<Longrightarrow> json_hex_value (hex_nibble n) = Some n"
proof -
  assume "n < 16"
  then have "n \<in> {0, 1, 2, 3, 4, 5, 6, 7, 8, 9, 10, 11, 12, 13, 14, 15}" unfolding insert_iff empty_iff by presburger
  then show ?thesis by (elim insertE emptyE) (simp_all add: hex_nibble_def json_hex_value_def is_digit_def less_eq_char_def)
qed

lemma hex4_escape:
  "n < 256 \<Longrightarrow> hex4 (CHR ''0'' # CHR ''0'' # hex_nibble (n div 16) # hex_nibble (n mod 16) # s) = Some (n, s)"
proof -
  assume n: "n < 256"
  have "json_hex_value CHR ''0'' = Some 0" by (simp add: json_hex_value_def is_digit_def less_eq_char_def)
  then show ?thesis using n hex_nibble_value [of "n div 16"] hex_nibble_value [of "n mod 16"] by (simp add: less_mult_imp_div_less)
qed

lemma of_char_less: "(of_char (c :: char) :: nat) < 256"
  by (metis of_char_mod_256 mod_less_divisor zero_less_numeral)

lemma chars_unicode:
  assumes "n < 256"
  shows "json_chars (CHR 0x5C # CHR ''u'' # CHR ''0'' # CHR ''0'' # hex_nibble (n div 16) # hex_nibble (n mod 16) # s) =
    map_option (apfst ((#) n)) (json_chars s)"
  using assms
  by (subst json_chars.simps) (simp add: hex4_escape join_surrogates_def less_char_def del: hex4.simps)

lemma chars_simple:
  assumes "simple_escape e = Some r" and "e \<noteq> CHR ''u''"
  shows "json_chars (CHR 0x5C # e # s) = map_option (apfst ((#) r)) (json_chars s)"
  using assms by (subst json_chars.simps) (simp add: less_char_def)

lemma chars_plain:
  assumes "c \<noteq> CHR 0x22" "c \<noteq> CHR 0x5C" "\<not> c < CHR '' ''" "(of_char c :: nat) < 0x80"
  shows "json_chars (c # s) = map_option (apfst ((#) (of_char c))) (json_chars s)"
  using assms by (subst json_chars.simps) (simp add: rune_width_ascii rune_head_def Let_def)

lemma escape_char_read:
  assumes "(of_char c :: nat) < 0x80"
  shows "json_chars (escape_char c @ s) = map_option (apfst ((#) (of_char c))) (json_chars s)"
proof (cases "c \<in> {CHR 0x22, CHR 0x5C, CHR 0x08, CHR 0x0C, CHR 0x0A, CHR 0x0D, CHR 0x09}")
  case True
  then show ?thesis by (auto simp: escape_char_def chars_simple simple_escape_def)
next
  case False
  show ?thesis
  proof (cases "c < CHR '' '' \<or> c = CHR ''<'' \<or> c = CHR ''>'' \<or> c = CHR ''&''")
    case True
    then have "escape_char c = [CHR 0x5C, CHR ''u'', CHR ''0'', CHR ''0'', hex_nibble (of_char c div 16), hex_nibble (of_char c mod 16)]"
      using False by (simp add: escape_char_def)
    then show ?thesis using chars_unicode [OF of_char_less [of c]] by simp
  next
    case plain: False
    then have "escape_char c = [c]" using False by (simp add: escape_char_def)
    then show ?thesis using chars_plain [of c s] plain False assms by simp
  qed
qed

lemma escape_read:
  "ascii_text s \<Longrightarrow> json_chars (json_escape s @ CHR 0x22 # rest) = Some (map of_char s, rest)"
proof (induction s)
  case Nil
  then show ?case by (simp add: json_chars.simps)
next
  case (Cons c s)
  then show ?case by (simp add: ascii_text_def escape_char_read)
qed

lemma string_read: "ascii_text s \<Longrightarrow> json_string (json_escape s @ CHR 0x22 # rest) = Some (s, rest)"
  using runes_to_string_ascii [of s] by (simp add: json_string_def escape_read) (simp add: ascii_text_def list_all_iff)

text \<open>What may follow a number.\<close>

definition json_stop :: "string \<Rightarrow> bool" where
  "json_stop rest = (rest = [] \<or> hd rest \<in> {CHR '','', CHR '']'', CHR ''}''})"

lemma stop_not_number:
  assumes "json_stop rest"
  shows "takeWhile is_digit rest = []" "dropWhile is_digit rest = rest" "json_frac rest = Some ([], rest)" "json_exp rest = Some ([], rest)"
  using assms by (cases rest; auto simp: json_stop_def json_frac_def json_exp_def is_digit_def less_eq_char_def)+

lemma utoa_first:
  assumes "utoa n = c # cs" and "0 < n"
  shows "c \<noteq> CHR ''0''"
  using assms
proof (induction n arbitrary: c cs rule: utoa.induct)
  case (1 n)
  show ?case
  proof (cases "n < 10")
    case True
    then have "of_char c = 48 + n" using 1(2) of_char_digit_char by (auto simp: utoa.simps [of n])
    then show ?thesis using 1(3) by auto
  next
    case False
    then obtain d ds where d: "utoa (n div 10) = d # ds" using utoa_nonempty by (cases "utoa (n div 10)") auto
    with False 1(2) have "c = d" by (simp add: utoa.simps [of n])
    then show ?thesis using 1(1) [OF False d] False by simp
  qed
qed

lemma int_read:
  assumes "json_stop rest"
  shows "json_int (utoa n @ rest) = Some (utoa n, rest)"
proof (cases "n = 0")
  case True
  have "digit_char 0 = CHR ''0''" by code_simp
  with True show ?thesis by (simp add: utoa.simps [of 0] json_int_def)
next
  case False
  obtain c cs where u: "utoa n = c # cs" using utoa_nonempty by (cases "utoa n") auto
  have "takeWhile is_digit (utoa n @ rest) = utoa n" "dropWhile is_digit (utoa n @ rest) = rest"
    using utoa_digits stop_not_number(1,2) [OF assms] by (simp_all add: takeWhile_append2 dropWhile_append2)
  then show ?thesis using utoa_first [OF u] False u by (simp add: json_int_def json_digits_def)
qed

lemma number_read:
  assumes "json_stop rest"
  shows "json_number (itoa i @ rest) = Some (itoa i, rest)"
proof (cases "i < 0")
  case True
  then show ?thesis using int_read [OF assms] stop_not_number [OF assms] by (simp add: json_number_def itoa_def)
next
  case False
  obtain c cs where u: "utoa (nat i) = c # cs" using utoa_nonempty by (cases "utoa (nat i)") auto
  then have "c \<noteq> CHR ''-''" using utoa_hd_not_dash by blast
  then show ?thesis
    using int_read [OF assms, of "nat i"] stop_not_number [OF assms] False u by (simp add: json_number_def itoa_def)
qed

text \<open>
  Values that can be read at some depth: texts are ASCII, numbers are integers, and the nesting stays within the limit of the
  decoder.
\<close>

fun readable_at :: "nat \<Rightarrow> json \<Rightarrow> bool" where
  "readable_at d (JNum n) = (\<exists>i. n = itoa i)"
| "readable_at d (JStr s) = ascii_text s"
| "readable_at d (JArr vs) = (int d < max_json_depth \<and> list_all (readable_at (Suc d)) vs)"
| "readable_at d (JObj ms) = (int d < max_json_depth \<and> list_all (\<lambda>(k, v). ascii_text k \<and> readable_at (Suc d) v) ms)"
| "readable_at d v = True"

definition reads_at :: "nat \<Rightarrow> json \<Rightarrow> bool" where
  "reads_at d v = (\<forall>rest. json_stop rest \<longrightarrow> json_value d (marshal_json v @ rest) = Some (v, rest))"

definition starts_plain :: "string \<Rightarrow> bool" where
  "starts_plain s = (s \<noteq> [] \<and> \<not> json_space (hd s) \<and> hd s \<notin> {CHR '']'', CHR ''}''})"

lemma starts_plain_append: "starts_plain s \<Longrightarrow> starts_plain (s @ t)"
  by (simp add: starts_plain_def)

lemma skip_ws_plain: "starts_plain s \<Longrightarrow> skip_ws s = s"
  by (cases s) (simp_all add: starts_plain_def skip_ws_def)

lemma skip_ws_char: "\<not> json_space c \<Longrightarrow> skip_ws (c # s) = c # s"
  by (simp add: skip_ws_def)

lemma json_space_simps [simp]:
  "\<not> json_space CHR '',''" "\<not> json_space CHR '']''" "\<not> json_space CHR ''}''" "\<not> json_space CHR ''[''" "\<not> json_space CHR ''{''"
  "\<not> json_space CHR '':''" "\<not> json_space CHR 0x22" "\<not> json_space CHR ''n''" "\<not> json_space CHR ''t''" "\<not> json_space CHR ''f''"
  by (simp_all add: json_space_def)

lemma itoa_start: "\<exists>c cs. itoa i = c # cs \<and> (is_digit c \<or> c = CHR ''-'')"
proof (cases "i < 0")
  case False
  obtain c cs where u: "utoa (nat i) = c # cs" using utoa_nonempty by (cases "utoa (nat i)") auto
  then have "is_digit c" using utoa_digits [of c "nat i"] by simp
  with u False show ?thesis by (simp add: itoa_def)
qed (simp add: itoa_def)

lemma digit_not_syntax:
  "is_digit c \<or> c = CHR ''-'' \<Longrightarrow> \<not> json_space c \<and> c \<noteq> CHR 0x22 \<and> c \<noteq> CHR ''['' \<and> c \<noteq> CHR ''{'' \<and> c \<noteq> CHR '']'' \<and> c \<noteq> CHR ''}'' \<and>
    c \<noteq> CHR ''t'' \<and> c \<noteq> CHR ''f'' \<and> c \<noteq> CHR ''n''"
  by (auto simp: is_digit_def json_space_def less_eq_char_def)

lemma marshal_starts: "readable_at d v \<Longrightarrow> starts_plain (marshal_json v)"
proof (cases v)
  case (JNum n)
  moreover assume "readable_at d v"
  ultimately obtain i where "n = itoa i" by auto
  moreover obtain c cs where "itoa i = c # cs" "is_digit c \<or> c = CHR ''-''" using itoa_start [of i] by blast
  moreover from this(2) have "\<not> json_space c \<and> c \<noteq> CHR '']'' \<and> c \<noteq> CHR ''}''" using digit_not_syntax by blast
  ultimately show ?thesis using JNum by (simp add: starts_plain_def)
qed (simp_all add: starts_plain_def json_quote_def)

lemma value_string: "json_value d (CHR 0x22 # s) = map_option (apfst JStr) (json_string s)"
  by (subst json_value.simps) (simp add: skip_ws_char)

lemma reads_number: "reads_at d (JNum (itoa i))"
  unfolding reads_at_def
proof (intro allI impI)
  fix rest assume stop: "json_stop rest"
  obtain c cs where c: "itoa i = c # cs" "is_digit c \<or> c = CHR ''-''" using itoa_start by blast
  note no = digit_not_syntax [OF c(2)]
  have "json_value d (itoa i @ rest) = json_literal (itoa i @ rest)"
    using no by (subst json_value.simps) (simp add: c(1) skip_ws_char)
  also have "\<dots> = Some (JNum (itoa i), rest)"
    using number_read [OF stop, of i] no by (simp add: json_literal_def c(1))
  finally show "json_value d (marshal_json (JNum (itoa i)) @ rest) = Some (JNum (itoa i), rest)" by simp
qed

lemma elems_read:
  assumes "\<forall>v\<in>set vs. reads_at d v" and "vs \<noteq> []"
  shows "json_elems d (comma_list (map marshal_json vs) @ CHR '']'' # rest) = Some (vs, rest)"
  using assms
proof (induction vs)
  case (Cons v vs)
  show ?case
  proof (cases vs)
    case Nil
    have "json_value d (marshal_json v @ CHR '']'' # rest) = Some (v, CHR '']'' # rest)"
      using Cons.prems(1) by (simp add: reads_at_def json_stop_def)
    with Nil show ?thesis by (subst json_elems.simps) (simp add: skip_ws_char)
  next
    case (Cons u us)
    let ?rest = "comma_list (map marshal_json vs) @ CHR '']'' # rest"
    have "json_value d (marshal_json v @ CHR '','' # ?rest) = Some (v, CHR '','' # ?rest)"
      using Cons.prems(1) by (simp add: reads_at_def json_stop_def)
    moreover have "json_elems d ?rest = Some (vs, rest)" using Cons.IH Cons.prems(1) Cons by simp
    moreover have "comma_list (map marshal_json (v # vs)) @ CHR '']'' # rest = marshal_json v @ CHR '','' # ?rest"
      using Cons by simp
    ultimately show ?thesis by (subst json_elems.simps) (simp add: skip_ws_char)
  qed
qed simp

definition member_text :: "string \<times> json \<Rightarrow> string" where
  "member_text m = json_quote (fst m) @ '':'' @ marshal_json (snd m)"

lemma members_read:
  assumes "\<forall>(k, v)\<in>set ms. ascii_text k \<and> reads_at d v" and "ms \<noteq> []"
  shows "json_members d (comma_list (map member_text ms) @ CHR ''}'' # rest) = Some (ms, rest)"
  using assms
proof (induction ms)
  case (Cons m ms)
  obtain k v where m: "m = (k, v)" by fastforce
  have k: "ascii_text k" and v: "reads_at d v" using Cons.prems(1) m by auto
  have one: "json_string (json_escape k @ CHR 0x22 # CHR '':'' # x) = Some (k, CHR '':'' # x)" for x by (rule string_read [OF k])
  show ?case
  proof (cases ms)
    case Nil
    have "json_value d (marshal_json v @ CHR ''}'' # rest) = Some (v, CHR ''}'' # rest)"
      using v by (simp add: reads_at_def json_stop_def)
    with Nil m one show ?thesis by (subst json_members.simps) (simp add: skip_ws_char member_text_def json_quote_def)
  next
    case (Cons u us)
    let ?rest = "comma_list (map member_text ms) @ CHR ''}'' # rest"
    have "json_value d (marshal_json v @ CHR '','' # ?rest) = Some (v, CHR '','' # ?rest)"
      using v by (simp add: reads_at_def json_stop_def)
    moreover have "json_members d ?rest = Some (ms, rest)" using Cons.IH Cons.prems(1) Cons by simp
    moreover have "comma_list (map member_text (m # ms)) @ CHR ''}'' # rest
        = CHR 0x22 # json_escape k @ CHR 0x22 # CHR '':'' # marshal_json v @ CHR '','' # ?rest"
      using Cons m by (simp add: member_text_def json_quote_def)
    ultimately show ?thesis using m one by (subst json_members.simps) (simp add: skip_ws_char)
  qed
qed simp

lemma comma_list_starts: "xs \<noteq> [] \<Longrightarrow> starts_plain (hd xs) \<Longrightarrow> starts_plain (comma_list xs @ s)"
  by (cases xs rule: comma_list.cases) (auto simp: starts_plain_def)

lemma not_prefix_plain: "starts_plain s \<Longrightarrow> \<not> has_prefix s '']'' \<and> \<not> has_prefix s ''}''"
  by (cases s) (auto simp: starts_plain_def)

lemma member_text_fun: "(\<lambda>(k, v). json_quote k @ CHR '':'' # marshal_json v) = member_text"
  by (auto simp: fun_eq_iff member_text_def)

lemma readable_reads: "readable_at d v \<Longrightarrow> reads_at d v"
proof (induction v arbitrary: d)
  case JNull
  then show ?case by (simp add: reads_at_def json_value.simps [of d "_ # _"] skip_ws_char json_literal_def)
next
  case (JBool b)
  then show ?case by (cases b) (simp_all add: reads_at_def json_value.simps [of d "_ # _"] skip_ws_char json_literal_def)
next
  case (JNum n)
  then show ?case using reads_number by auto
next
  case (JStr s)
  then show ?case by (simp add: reads_at_def json_quote_def value_string string_read)
next
  case (JArr vs)
  have d: "\<not> max_json_depth \<le> int d" and vs: "\<forall>v\<in>set vs. readable_at (Suc d) v" using JArr.prems by (auto simp: list_all_iff)
  show ?case unfolding reads_at_def
  proof (intro allI impI)
    fix rest
    show "json_value d (marshal_json (JArr vs) @ rest) = Some (JArr vs, rest)"
    proof (cases vs)
      case Nil
      with d show ?thesis by (subst json_value.simps) (simp add: skip_ws_char)
    next
      case (Cons u us)
      let ?t = "comma_list (map marshal_json vs) @ CHR '']'' # rest"
      have t: "starts_plain ?t" using vs Cons marshal_starts by (intro comma_list_starts) auto
      have "json_elems (Suc d) ?t = Some (vs, rest)" using JArr.IH vs Cons by (intro elems_read) auto
      with d t show ?thesis by (subst json_value.simps) (simp add: skip_ws_char skip_ws_plain not_prefix_plain)
    qed
  qed
next
  case (JObj ms)
  have d: "\<not> max_json_depth \<le> int d" and ms: "\<forall>(k, v)\<in>set ms. ascii_text k \<and> readable_at (Suc d) v"
    using JObj.prems by (auto simp: list_all_iff)
  show ?case unfolding reads_at_def
  proof (intro allI impI)
    fix rest
    show "json_value d (marshal_json (JObj ms) @ rest) = Some (JObj ms, rest)"
    proof (cases ms)
      case Nil
      with d show ?thesis by (subst json_value.simps) (simp add: skip_ws_char)
    next
      case (Cons u us)
      let ?t = "comma_list (map member_text ms) @ CHR ''}'' # rest"
      have t: "starts_plain ?t"
        using Cons by (intro comma_list_starts) (simp_all add: member_text_def json_quote_def starts_plain_def)
      have "\<forall>(k, v)\<in>set ms. ascii_text k \<and> reads_at (Suc d) v" using JObj.IH ms by fastforce
      then have "json_members (Suc d) ?t = Some (ms, rest)" using Cons by (intro members_read) auto
      with d t show ?thesis
        by (subst json_value.simps) (simp add: member_text_fun skip_ws_char skip_ws_plain not_prefix_plain)
    qed
  qed
qed

text \<open>
  What is written as JSON is read back as it was, whatever may follow: objects, arrays, texts with any ASCII
  character and integers, nested as deep as the decoder allows.
\<close>

theorem marshal_then_read:
  assumes "readable_at d v" and "json_stop rest"
  shows "json_value d (marshal_json v @ rest) = Some (v, rest)"
  using readable_reads [OF assms(1)] assms(2) by (simp add: reads_at_def)

lemma parse_marshal: "readable_at 0 v \<Longrightarrow> json_parse (marshal_json v) = Some v"
  using marshal_then_read [of 0 v "[]"] by (simp add: json_parse_def json_stop_def skip_ws_def)

lemma unmarshal_marshal:
  "readable_at 0 (JObj ms) \<Longrightarrow> json_any_ok (JObj ms) \<Longrightarrow> unmarshal_map (marshal_json (JObj ms)) = Some ms"
  using parse_marshal [of "JObj ms"] by (simp add: unmarshal_map_def as_map_def del: marshal_json.simps)

lemma marshal_then_read_witness:
  "json_value 0 (marshal_json (JObj [(''a<'', JArr [JNum (itoa (-7)), JStr [CHR 0x22], JNull])]) @ []) =
    Some (JObj [(''a<'', JArr [JNum (itoa (-7)), JStr [CHR 0x22], JNull])], [])"
  by (rule marshal_then_read) (auto simp: max_json_depth_def ascii_text_def json_stop_def)

end
