(* ===== verification/Stripe.thy ===== *)
theory Stripe
  imports License JsonText
begin

text \<open>
  The webhook of the payment provider, \<^verbatim>\<open>internal/billing/stripe.go\<close>: its events create, update and end subscriptions and
  licences. \<^verbatim>\<open>BillingDB\<close> is an interface without an implementation in the repository; its calls are parameters that work on a
  state \<open>'d\<close>. Mails are collected in the order in which they are sent. The clock is read once per call.
\<close>

section \<open>Data\<close>

record subscription =
  su_id :: string
  su_org :: string
  su_customer :: string
  su_stripe_id :: string
  su_tier :: string
  su_status :: string
  su_period_end :: gotime
  su_created :: gotime
  su_updated :: gotime

record license_record =
  lc_id :: string
  lc_org :: string
  lc_token :: string
  lc_tier :: string
  lc_status :: string
  lc_stripe_id :: string
  lc_expires :: gotime
  lc_grace :: gotime
  lc_created :: gotime

text \<open>A look-up gives an error, or a pointer that may be nil.\<close>

record 'd billing_db =
  bd_create_sub :: "subscription \<Rightarrow> 'd \<Rightarrow> 'd \<times> gotext option"
  bd_get_sub :: "string \<Rightarrow> 'd \<Rightarrow> gotext + subscription option"
  bd_update_sub :: "subscription \<Rightarrow> 'd \<Rightarrow> 'd \<times> gotext option"
  bd_create_license :: "license_record \<Rightarrow> 'd \<Rightarrow> 'd \<times> gotext option"
  bd_get_license :: "string \<Rightarrow> 'd \<Rightarrow> gotext + license_record option"
  bd_update_license :: "license_record \<Rightarrow> 'd \<Rightarrow> 'd \<times> gotext option"

record mail =
  ma_to :: string
  ma_subject :: string
  ma_body :: string

type_synonym 'd billing = "'d \<times> mail list"

text \<open>
  The database, the licence code with its randomness, and the conversions of numbers: \<^verbatim>\<open>ParseFloat\<close>'s rounding and what a
  conversion to \<^verbatim>\<open>int64\<close> gives for a value out of range.
\<close>

record ('d, 'sk, 'pk) stripe =
  sh_secret :: string
  sh_license :: "('sk, 'pk) license"
  sh_env :: "('sk, 'pk) license_env"
  sh_random :: nat
  sh_db :: "'d billing_db"
  sh_round :: "rat \<Rightarrow> rat"
  sh_wild :: "rat \<Rightarrow> int"

section \<open>Fields of an event\<close>

definition get_str :: "json_map \<Rightarrow> string \<Rightarrow> string" where
  "get_str m k = (case json_str (json_get m k) of None \<Rightarrow> [] | Some s \<Rightarrow> s)"

definition get_int :: "('d, 'sk, 'pk) stripe \<Rightarrow> json_map \<Rightarrow> string \<Rightarrow> int" where
  "get_int h m k =
     (case json_get m k of
        Some (JNum n) \<Rightarrow>
          (let v = sh_round h (num_value n); i = (if v < 0 then - \<lfloor>- v\<rfloor> else \<lfloor>v\<rfloor>) in
           if - 9223372036854775808 \<le> i \<and> i \<le> 9223372036854775807 then i else sh_wild h v)
      | _ \<Rightarrow> 0)"

definition get_map :: "json_map \<Rightarrow> string \<Rightarrow> json_map option" where
  "get_map m k = (case json_get m k of Some (JObj ms) \<Rightarrow> Some ms | _ \<Rightarrow> None)"

text \<open>\<^verbatim>\<open>obj, _ := data["object"].(map[string]interface{})\<close>: a nil map, which reads as an empty one, without it.\<close>

definition object_of :: "json_map \<Rightarrow> json_map" where
  "object_of data = (case get_map data ''object'' of None \<Rightarrow> [] | Some ms \<Rightarrow> ms)"

section \<open>Events\<close>

definition verify_webhook_signature :: "('d, 'sk, 'pk) stripe \<Rightarrow> string \<Rightarrow> string \<Rightarrow> gotext option" where
  "verify_webhook_signature h body sig = (if sh_secret h = [] then None else None)"

definition send_email :: "string \<Rightarrow> string \<Rightarrow> string \<Rightarrow> 'd billing \<Rightarrow> 'd billing" where
  "send_email to subject body b = (fst b, snd b @ [\<lparr>ma_to = to, ma_subject = subject, ma_body = body\<rparr>])"

definition store :: "('a \<Rightarrow> 'd \<Rightarrow> 'd \<times> gotext option) \<Rightarrow> 'a \<Rightarrow> 'd billing \<Rightarrow> 'd billing" where
  "store call x b = (fst (call x (fst b)), snd b)"

text \<open>
  \<^verbatim>\<open>time.Unix\<close> keeps the seconds since the year 1 as an \<^verbatim>\<open>int64\<close>, which wraps; \<^verbatim>\<open>Add\<close> stops at the last second there is.
\<close>

definition unix_time :: "int \<Rightarrow> gotime" where
  "unix_time s = (int64 (s + 62135596800) - 62135596800) * second"

definition week_after :: "gotime \<Rightarrow> gotime" where
  "week_after t = min (t + 7 * 24 * hour) ((9223372036854775807 - 62135596800) * second)"

lemma unix_time_small: "\<bar>s\<bar> < 2 ^ 62 \<Longrightarrow> unix_time s = s * second"
  by (simp add: unix_time_def int64_id)

lemma week_after_small: "\<bar>s\<bar> < 2 ^ 62 \<Longrightarrow> week_after (s * second) = s * second + 7 * 24 * hour"
  by (simp add: week_after_def)

definition new_subscription :: "('d, 'sk, 'pk) stripe \<Rightarrow> gotime \<Rightarrow> json_map \<Rightarrow> subscription" where
  "new_subscription h now obj =
     (let sub = \<lparr>su_id = [], su_org = [], su_customer = get_str obj ''customer'', su_stripe_id = get_str obj ''id'', su_tier = [],
                 su_status = get_str obj ''status'', su_period_end = unix_time (get_int h obj ''current_period_end''),
                 su_created = now, su_updated = now\<rparr> in
      case get_map obj ''metadata'' of
        None \<Rightarrow> sub
      | Some md \<Rightarrow> sub\<lparr>su_org := get_str md ''org'', su_tier := get_str md ''tier''\<rparr>)"

definition new_claims :: "gotime \<Rightarrow> subscription \<Rightarrow> claims" where
  "new_claims now sub =
     \<lparr>cl_tier = su_tier sub, cl_org = su_org sub, cl_seats = 5, cl_features = [], cl_issued = now,
      cl_expires = su_period_end sub, cl_grace = week_after (su_period_end sub), cl_version = ''1.0.0'',
      cl_id = ''FWL-'' @ itoa (int64 now)\<rparr>"

definition handle_subscription_created :: "('d, 'sk, 'pk) stripe \<Rightarrow> gotime \<Rightarrow> json_map \<Rightarrow> 'd billing \<Rightarrow> 'd billing" where
  "handle_subscription_created h now data b =
     (case get_map data ''object'' of
        None \<Rightarrow> b
      | Some obj \<Rightarrow>
          (let sub = new_subscription h now obj; c = new_claims now sub;
               token = (case generate (sh_env h) (sh_random h) (sh_license h) c of Inl e \<Rightarrow> [] | Inr t \<Rightarrow> t);
               lic = \<lparr>lc_id = [], lc_org = su_org sub, lc_token = token, lc_tier = su_tier sub, lc_status = ''active'',
                      lc_stripe_id = su_stripe_id sub, lc_expires = su_period_end sub, lc_grace = cl_grace c, lc_created = now\<rparr>
           in send_email (su_org sub) ''Your FortressWAF License'' (''Your license key: '' @ token)
                (store (bd_create_license (sh_db h)) lic (store (bd_create_sub (sh_db h)) sub b))))"

text \<open>The common start of the other handlers: the subscription with the given identifier; an error ends the handler.\<close>

definition with_subscription ::
  "('d, 'sk, 'pk) stripe \<Rightarrow> string \<Rightarrow> (subscription \<Rightarrow> 'd billing \<Rightarrow> 'd billing) \<Rightarrow> 'd billing \<Rightarrow> go_panic + 'd billing" where
  "with_subscription h sid f b =
     (case bd_get_sub (sh_db h) sid (fst b) of
        Inl e \<Rightarrow> Inr b
      | Inr None \<Rightarrow> Inl NilDeref
      | Inr (Some sub) \<Rightarrow> Inr (f sub b))"

definition handle_subscription_updated :: "('d, 'sk, 'pk) stripe \<Rightarrow> gotime \<Rightarrow> json_map \<Rightarrow> 'd billing \<Rightarrow> go_panic + 'd billing" where
  "handle_subscription_updated h now data b =
     (let obj = object_of data in
      with_subscription h (get_str obj ''id'')
        (\<lambda>sub. store (bd_update_sub (sh_db h))
           (sub\<lparr>su_status := get_str obj ''status'', su_period_end := unix_time (get_int h obj ''current_period_end''), su_updated := now\<rparr>)) b)"

text \<open>\<^verbatim>\<open>lic, _ := GetLicenseByOrg(org)\<close>, and an update of its status when there is one.\<close>

definition set_license_status :: "('d, 'sk, 'pk) stripe \<Rightarrow> string \<Rightarrow> string \<Rightarrow> 'd billing \<Rightarrow> 'd billing" where
  "set_license_status h org status b =
     (case bd_get_license (sh_db h) org (fst b) of
        Inr (Some lic) \<Rightarrow> store (bd_update_license (sh_db h)) (lic\<lparr>lc_status := status\<rparr>) b
      | _ \<Rightarrow> b)"

definition handle_subscription_deleted :: "('d, 'sk, 'pk) stripe \<Rightarrow> gotime \<Rightarrow> json_map \<Rightarrow> 'd billing \<Rightarrow> go_panic + 'd billing" where
  "handle_subscription_deleted h now data b =
     with_subscription h (get_str (object_of data) ''id'')
       (\<lambda>sub b. set_license_status h (su_org sub) ''expired''
          (store (bd_update_sub (sh_db h)) (sub\<lparr>su_status := ''canceled'', su_updated := now\<rparr>) b)) b"

definition handle_payment_failed :: "('d, 'sk, 'pk) stripe \<Rightarrow> json_map \<Rightarrow> 'd billing \<Rightarrow> go_panic + 'd billing" where
  "handle_payment_failed h data b =
     with_subscription h (get_str (object_of data) ''subscription'')
       (\<lambda>sub. send_email (su_org sub) ''Payment Failed - Action Required''
          ''Your payment failed. Please update your payment method within 7 days to avoid service interruption.'') b"

definition handle_invoice_paid :: "('d, 'sk, 'pk) stripe \<Rightarrow> gotime \<Rightarrow> json_map \<Rightarrow> 'd billing \<Rightarrow> go_panic + 'd billing" where
  "handle_invoice_paid h now data b =
     with_subscription h (get_str (object_of data) ''subscription'')
       (\<lambda>sub b. if su_status sub = ''past_due''
          then set_license_status h (su_org sub) ''active''
                 (store (bd_update_sub (sh_db h)) (sub\<lparr>su_status := ''active'', su_updated := now\<rparr>) b)
          else b) b"

definition stripe_event ::
  "('d, 'sk, 'pk) stripe \<Rightarrow> gotime \<Rightarrow> string \<Rightarrow> json_map \<Rightarrow> 'd billing \<Rightarrow> go_panic + 'd billing" where
  "stripe_event h now kind data b =
     (if kind = ''customer.subscription.created'' then Inr (handle_subscription_created h now data b)
      else if kind = ''customer.subscription.updated'' then handle_subscription_updated h now data b
      else if kind = ''customer.subscription.deleted'' then handle_subscription_deleted h now data b
      else if kind = ''invoice.payment_failed'' then handle_payment_failed h data b
      else if kind = ''invoice.paid'' then handle_invoice_paid h now data b
      else Inr b)"

text \<open>The whole request: status, and text of an error. \<open>None\<close> is a body that cannot be read.\<close>

definition handle_webhook ::
  "('d, 'sk, 'pk) stripe \<Rightarrow> gotime \<Rightarrow> string option \<Rightarrow> string \<Rightarrow> 'd billing \<Rightarrow> go_panic + 'd billing \<times> int \<times> string" where
  "handle_webhook h now body sig b =
     (case body of
        None \<Rightarrow> Inr (b, 400, ''bad request'')
      | Some text \<Rightarrow>
          (let ignored = verify_webhook_signature h text sig in
           case unmarshal_map text of
             None \<Rightarrow> Inr (b, 400, ''invalid json'')
           | Some event \<Rightarrow>
               (case json_str (json_get event ''type'') of
                  None \<Rightarrow> Inr (b, 400, ''missing event type'')
                | Some kind \<Rightarrow>
                    (case get_map event ''data'' of
                       None \<Rightarrow> Inr (b, 400, ''missing event data'')
                     | Some data \<Rightarrow>
                         (case stripe_event h now kind data b of
                            Inl p \<Rightarrow> Inl p
                          | Inr b' \<Rightarrow> Inr (b', 200, []))))))"

section \<open>Other operations\<close>

definition cancel_subscription ::
  "('d, 'sk, 'pk) stripe \<Rightarrow> gotime \<Rightarrow> string \<Rightarrow> 'd billing \<Rightarrow> go_panic + 'd billing \<times> gotext option" where
  "cancel_subscription h now sid b =
     (case bd_get_sub (sh_db h) sid (fst b) of
        Inl e \<Rightarrow> Inr (b, Some e)
      | Inr None \<Rightarrow> Inl NilDeref
      | Inr (Some sub) \<Rightarrow>
          (case bd_update_sub (sh_db h) (sub\<lparr>su_status := ''canceled'', su_updated := now\<rparr>) (fst b) of
             (d, err) \<Rightarrow> Inr ((d, snd b), err)))"

text \<open>The link that a customer pays at is made up from the clock; organisation, tier and return addresses are not in it.\<close>

definition create_checkout_session :: "gotime \<Rightarrow> string \<Rightarrow> string \<Rightarrow> string \<Rightarrow> string \<Rightarrow> string \<times> string" where
  "create_checkout_session now org tier success cancel =
     (''https://checkout.stripe.com/pay/'' @ itoa (int64 now), ''cs_'' @ itoa (int64 now))"

definition create_billing_portal_session :: "gotime \<Rightarrow> string \<Rightarrow> string \<Rightarrow> string" where
  "create_billing_portal_session now customer return_url = ''https://billing.stripe.com/p/session/'' @ itoa (int64 now)"

definition parse_stripe_webhook :: "string \<Rightarrow> string \<Rightarrow> json_map option" where
  "parse_stripe_webhook body secret = unmarshal_map body"

definition stripe_event_type :: "json_map \<Rightarrow> string" where
  "stripe_event_type event = get_str event ''type''"

definition stripe_subscription_id :: "json_map \<Rightarrow> string" where
  "stripe_subscription_id event =
     (case get_map event ''data'' of
        None \<Rightarrow> []
      | Some data \<Rightarrow> (case get_map data ''object'' of None \<Rightarrow> [] | Some obj \<Rightarrow> get_str obj ''id''))"

record stripe_usage =
  us_tenant :: string
  us_date :: gotime
  us_requests :: int
  us_blocked :: int

definition build_usage_report :: "(gotime \<Rightarrow> string) \<Rightarrow> stripe_usage list \<Rightarrow> string" where
  "build_usage_report day rs =
     ''Usage Report'' @ [CHR 0x0A] @ ''============'' @ [CHR 0x0A, CHR 0x0A] @
     concat (map (\<lambda>r. ''Tenant: '' @ us_tenant r @ [CHR 0x0A] @ ''Date: '' @ day (us_date r) @ [CHR 0x0A] @
       ''Requests: '' @ itoa (us_requests r) @ [CHR 0x0A] @ ''Blocked: '' @ itoa (us_blocked r) @ [CHR 0x0A, CHR 0x0A]) rs)"

definition is_subscription_active :: "subscription option \<Rightarrow> bool" where
  "is_subscription_active so = (case so of None \<Rightarrow> False | Some sub \<Rightarrow> su_status sub = ''active'' \<or> su_status sub = ''trialing'')"

definition is_license_active :: "gotime \<Rightarrow> license_record option \<Rightarrow> bool" where
  "is_license_active now lo = (case lo of None \<Rightarrow> False | Some lic \<Rightarrow> lc_status lic = ''active'' \<and> now < lc_grace lic)"

definition tier_display_name :: "string \<Rightarrow> string" where
  "tier_display_name tier =
     (if tier = ''community'' then ''Community'' else if tier = ''starter'' then ''Starter''
      else if tier = ''professional'' then ''Professional'' else if tier = ''enterprise'' then ''Enterprise'' else tier)"

definition tier_price :: "string \<Rightarrow> int" where
  "tier_price tier =
     (if tier = ''starter'' then 4999 else if tier = ''professional'' then 14999 else if tier = ''enterprise'' then 49999 else 0)"

definition tier_price_monthly :: "string \<Rightarrow> int" where
  "tier_price_monthly tier =
     (if tier = ''starter'' then 4900 else if tier = ''professional'' then 14900 else if tier = ''enterprise'' then 49900 else 0)"

fun build_feature_list :: "string list \<Rightarrow> string" where
  "build_feature_list [] = []"
| "build_feature_list [f] = f"
| "build_feature_list (f # fs) = f @ '', '' @ build_feature_list fs"

definition validate_webhook_timestamp :: "gotime \<Rightarrow> string \<Rightarrow> gotext option" where
  "validate_webhook_timestamp now ts =
     (case parse_int64 ts of
        None \<Rightarrow> Some (Fmt ''invalid timestamp: %w'' [])
      | Some t \<Rightarrow> if 300 < int64 (unix_seconds now - t) then Some (Lit ''webhook timestamp too old'') else None)"

section \<open>What an event does\<close>

text \<open>
  Property C30. Whoever can reach the webhook issues licences: whatever the secret and the signature, the event of a created
  subscription stores an active licence of the tier that the event names, valid to the end it names and a week of grace (both as far as a time
  can be represented).
\<close>

theorem unsigned_event_issues_license:
  assumes "unmarshal_map text = Some event" and "json_str (json_get event ''type'') = Some ''customer.subscription.created''"
    and "get_map event ''data'' = Some data" and "get_map data ''object'' = Some obj" and "get_map obj ''metadata'' = Some md"
  shows "\<exists>lic sub m. handle_webhook h now (Some text) sig b =
      Inr ((fst (bd_create_license (sh_db h) lic (fst (bd_create_sub (sh_db h) sub (fst b)))), snd b @ [m]), 200, []) \<and>
    lc_status lic = ''active'' \<and> lc_tier lic = get_str md ''tier'' \<and> lc_org lic = get_str md ''org'' \<and>
    lc_grace lic = week_after (unix_time (get_int h obj ''current_period_end'')) \<and>
    (\<bar>get_int h obj ''current_period_end''\<bar> < 2 ^ 62 \<longrightarrow>
       lc_grace lic = get_int h obj ''current_period_end'' * second + 7 * 24 * hour)"
proof -
  let ?sub = "new_subscription h now obj"
  let ?c = "new_claims now ?sub"
  let ?token = "case generate (sh_env h) (sh_random h) (sh_license h) ?c of Inl e \<Rightarrow> [] | Inr t \<Rightarrow> t"
  let ?lic = "\<lparr>lc_id = [], lc_org = su_org ?sub, lc_token = ?token, lc_tier = su_tier ?sub, lc_status = ''active'',
     lc_stripe_id = su_stripe_id ?sub, lc_expires = su_period_end ?sub, lc_grace = cl_grace ?c, lc_created = now\<rparr>"
  let ?m = "\<lparr>ma_to = su_org ?sub, ma_subject = ''Your FortressWAF License'', ma_body = ''Your license key: '' @ ?token\<rparr>"
  have "handle_webhook h now (Some text) sig b =
      Inr ((fst (bd_create_license (sh_db h) ?lic (fst (bd_create_sub (sh_db h) ?sub (fst b)))), snd b @ [?m]), 200, [])"
    using assms
    by (simp add: handle_webhook_def stripe_event_def handle_subscription_created_def store_def send_email_def Let_def)
  moreover have "lc_status ?lic = ''active'' \<and> lc_tier ?lic = get_str md ''tier'' \<and> lc_org ?lic = get_str md ''org'' \<and>
      lc_grace ?lic = week_after (unix_time (get_int h obj ''current_period_end''))"
    using assms(5) by (simp add: new_subscription_def new_claims_def Let_def)
  moreover have "week_after (unix_time s) = s * second + 7 * 24 * hour" if "\<bar>s\<bar> < 2 ^ 62" for s
    using that by (simp only: unix_time_small week_after_small)
  ultimately show ?thesis by (intro exI [of _ ?lic] exI [of _ ?sub] exI [of _ ?m]) (intro conjI impI, simp_all only:)
qed

lemma empty_token_refused: "validate_license env now l [] = Inl InvalidFormat"
  by (simp add: validate_license_def token_parts_def)

text \<open>
  The key that a customer is mailed is never accepted: the validation of the same licence code refuses it at any time.
\<close>

lemma mailed_license_refused:
  assumes "binds_message (sh_env h) (sh_license h)" and "get_map data ''object'' = Some obj"
  shows "\<exists>token e. snd (handle_subscription_created h now data b) =
      snd b @ [\<lparr>ma_to = su_org (new_subscription h now obj), ma_subject = ''Your FortressWAF License'',
                ma_body = ''Your license key: '' @ token\<rparr>] \<and>
    validate_license (sh_env h) later (sh_license h) token = Inl e"
proof (cases "generate (sh_env h) (sh_random h) (sh_license h) (new_claims now (new_subscription h now obj))")
  case (Inl e)
  with assms(2) empty_token_refused show ?thesis
    by (auto simp: handle_subscription_created_def store_def send_email_def Let_def intro!: exI [of _ "[]"])
next
  case (Inr t)
  from issued_license_refused_parts(1) [OF assms(1) Inr] Inr assms(2) show ?thesis
    by (auto simp: handle_subscription_created_def store_def send_email_def Let_def intro!: exI [of _ t])
qed

text \<open>What an update of a subscription has to leave alone in the database.\<close>

definition licenses_apart :: "'d billing_db \<Rightarrow> bool" where
  "licenses_apart db \<longleftrightarrow> (\<forall>sub d org. bd_get_license db org (fst (bd_update_sub db sub d)) = bd_get_license db org d)"

text \<open>
  A renewal does not reach the licence: the event that moves the end of a subscription leaves every licence as it was,
  so a paying customer's licence ends with its first period.
\<close>

lemma renewal_keeps_license:
  assumes "licenses_apart (sh_db h)" and "handle_subscription_updated h now data b = Inr b'"
  shows "bd_get_license (sh_db h) org (fst b') = bd_get_license (sh_db h) org (fst b)"
  using assms
  by (auto simp: handle_subscription_updated_def with_subscription_def store_def licenses_apart_def Let_def
      split: sum.splits option.splits)

text \<open>
  The check of a timestamp refuses what is more than five minutes old, but nothing that lies in the future, and not
  what lies so far in the past that the difference leaves the range of 64 bits.
\<close>

lemma webhook_timestamp_window:
  assumes "parse_int64 ts = Some t" and "- 9223372036854775808 \<le> t" and "t < 9223372036854775808"
    and "0 \<le> unix_seconds now" and "unix_seconds now < 9223372036854775808"
  shows "validate_webhook_timestamp now ts = None \<longleftrightarrow>
    unix_seconds now - t \<le> 300 \<or> 9223372036854775808 \<le> unix_seconds now - t"
proof -
  let ?d = "unix_seconds now - t"
  have "int64 ?d = (if ?d < 9223372036854775808 then ?d else ?d - 18446744073709551616)"
  proof (cases "?d < 9223372036854775808")
    case True
    with assms(3,4) show ?thesis by (simp add: int64_id)
  next
    case False
    have "int64 ?d = int64 (?d + 18446744073709551616 * (-1))" by (rule int64_add_multiple [symmetric])
    also have "\<dots> = ?d - 18446744073709551616" using False assms(2,5) by (subst int64_id) auto
    finally show ?thesis using False by simp
  qed
  with assms(1,2,5) show ?thesis by (auto simp: validate_webhook_timestamp_def)
qed

text \<open>A subscription that was deleted is not revived by the payment of an invoice.\<close>

lemma paid_needs_past_due:
  assumes "bd_get_sub (sh_db h) (get_str (object_of data) ''subscription'') (fst b) = Inr (Some sub)" and "su_status sub \<noteq> ''past_due''"
  shows "handle_invoice_paid h now data b = Inr b"
  using assms by (simp add: handle_invoice_paid_def with_subscription_def)

section \<open>Witnesses\<close>

text \<open>A database of two lists.\<close>

definition list_db :: "(subscription list \<times> license_record list) billing_db" where
  "list_db = \<lparr>bd_create_sub = (\<lambda>s d. ((s # fst d, snd d), None)),
     bd_get_sub = (\<lambda>i d. Inr (find (\<lambda>s. su_stripe_id s = i) (fst d))),
     bd_update_sub = (\<lambda>s d. ((s # fst d, snd d), None)),
     bd_create_license = (\<lambda>l d. ((fst d, l # snd d), None)),
     bd_get_license = (\<lambda>g d. Inr (find (\<lambda>l. lc_org l = g) (snd d))),
     bd_update_license = (\<lambda>l d. ((fst d, l # snd d), None))\<rparr>"

definition demo_stripe :: "(subscription list \<times> license_record list, unit, unit) stripe" where
  "demo_stripe = \<lparr>sh_secret = ''whsec'', sh_license = demo_license, sh_env = demo_license_env, sh_random = 0, sh_db = list_db,
     sh_round = (\<lambda>x. x), sh_wild = (\<lambda>x. 0)\<rparr>"

definition demo_object :: json_map where
  "demo_object = [(''metadata'', JObj [(''tier'', JStr ''enterprise'')])]"

definition demo_members :: json_map where
  "demo_members = [(''type'', JStr ''customer.subscription.created''), (''data'', JObj [(''object'', JObj demo_object)])]"

definition demo_event :: string where
  "demo_event = marshal_json (JObj demo_members)"

lemma demo_event_parsed: "unmarshal_map demo_event = Some demo_members"
  unfolding demo_event_def by (rule unmarshal_marshal) (simp_all add: demo_members_def demo_object_def ascii_text_def max_json_depth_def)

theorem unsigned_event_issues_license_witness:
  "\<exists>lic d m. handle_webhook demo_stripe 0 (Some demo_event) ''forged'' (([], []), []) = Inr ((d, [m]), 200, []) \<and>
     lic \<in> set (snd d) \<and> lc_status lic = ''active'' \<and> lc_tier lic = ''enterprise''"
proof -
  let ?md = "[(''tier'', JStr ''enterprise'')]"
  obtain lic sub m where "handle_webhook demo_stripe 0 (Some demo_event) ''forged'' (([], []), []) =
      Inr ((fst (bd_create_license (sh_db demo_stripe) lic (fst (bd_create_sub (sh_db demo_stripe) sub ([], [])))), [m]), 200, [])"
    and "lc_status lic = ''active''" "lc_tier lic = get_str ?md ''tier''"
    using unsigned_event_issues_license [OF demo_event_parsed [unfolded demo_members_def], of "[(''object'', JObj demo_object)]" demo_object ?md demo_stripe 0
        "''forged''" "(([], []), [])"]
    by (auto simp: get_map_def json_get_def json_str_def demo_object_def)
  then show ?thesis by (auto simp: demo_stripe_def list_db_def get_str_def json_get_def json_str_def)
qed

lemma mailed_license_refused_witness:
  "\<exists>token e. validate_license demo_license_env 0 demo_license token = Inl e \<and>
     ma_body (last (snd (handle_subscription_created demo_stripe 0 [(''object'', JObj demo_object)] (([], []), [])))) =
       ''Your license key: '' @ token"
proof -
  have "binds_message (sh_env demo_stripe) (sh_license demo_stripe)"
    by (simp add: binds_message_def demo_stripe_def demo_license_defs)
  moreover have "get_map [(''object'', JObj demo_object)] ''object'' = Some demo_object"
    by (simp add: get_map_def json_get_def)
  ultimately obtain token e where "snd (handle_subscription_created demo_stripe 0 [(''object'', JObj demo_object)] (([], []), [])) =
      [\<lparr>ma_to = su_org (new_subscription demo_stripe 0 demo_object), ma_subject = ''Your FortressWAF License'',
        ma_body = ''Your license key: '' @ token\<rparr>]"
    "validate_license (sh_env demo_stripe) 0 (sh_license demo_stripe) token = Inl e"
    using mailed_license_refused [of demo_stripe "[(''object'', JObj demo_object)]" demo_object 0 "(([], []), [])" 0] by auto
  then show ?thesis by (auto simp: demo_stripe_def)
qed

definition demo_subscription :: subscription where
  "demo_subscription = \<lparr>su_id = [], su_org = [], su_customer = [], su_stripe_id = [], su_tier = [], su_status = [],
     su_period_end = 0, su_created = 0, su_updated = 0\<rparr>"

lemma renewal_keeps_license_witness:
  "\<exists>b'. handle_subscription_updated demo_stripe 0 [] (([demo_subscription], []), []) = Inr b' \<and>
     bd_get_license list_db ''acme'' (fst b') = Inr None"
proof -
  have "licenses_apart (sh_db demo_stripe)" by (simp add: licenses_apart_def demo_stripe_def list_db_def)
  moreover obtain b' where b': "handle_subscription_updated demo_stripe 0 [] (([demo_subscription], []), []) = Inr b'"
    by (simp add: handle_subscription_updated_def with_subscription_def demo_stripe_def list_db_def object_of_def get_map_def
        json_get_def get_str_def json_str_def demo_subscription_def)
  ultimately have "bd_get_license (sh_db demo_stripe) ''acme'' (fst b') = bd_get_license (sh_db demo_stripe) ''acme'' ([demo_subscription], [])"
    using renewal_keeps_license [of demo_stripe 0 "[]" "(([demo_subscription], []), [])" b' "''acme''"] by simp
  with b' show ?thesis by (auto simp: demo_stripe_def list_db_def)
qed

lemma webhook_timestamp_window_witness: "validate_webhook_timestamp 0 ''-9223372036854775808'' = None"
proof -
  have "parse_int64 ''-9223372036854775808'' = Some (- 9223372036854775808)" by (simp add: parse_int64_def parse_uint_def is_digit_def)
  from webhook_timestamp_window [OF this, of 0] show ?thesis by (simp add: unix_seconds_def)
qed

end
