(* ===== verification/ApiState.thy ===== *)
theory ApiState
  imports Config RulesEngine Json
begin

text \<open>
  The management interface of \<^verbatim>\<open>internal/api\<close>: its state, its requests and answers, and the reading of request bodies. An answer
  is given as the value that is encoded, not as its text.
\<close>

section \<open>Records of the interface\<close>

record log_entry =
  lo_time :: gotime
  lo_request :: string
  lo_site :: string
  lo_action :: string
  lo_severity :: string
  lo_rule_id :: string
  lo_rule_name :: string
  lo_ip :: string
  lo_method :: string
  lo_path :: string
  lo_status :: int
  lo_latency :: int
  lo_agent :: string
  lo_country :: string

record patch_record =
  pt_id :: string
  pt_name :: string
  pt_description :: string
  pt_cve :: string
  pt_severity :: string
  pt_rules :: "rule_config list"
  pt_status :: string
  pt_created :: gotime
  pt_deployed :: gotime

record tenant_record =
  te_id :: string
  te_name :: string
  te_description :: string
  te_enabled :: bool
  te_settings :: "json_map option"
  te_created :: gotime
  te_updated :: gotime

record alert_record =
  al_id :: string
  al_type :: string
  al_severity :: string
  al_message :: string
  al_site :: string
  al_rule_id :: string
  al_acked :: bool
  al_created :: gotime

record alert_config =
  ag_threshold :: int
  ag_interval :: int
  ag_active :: "bool option"
  ag_channels :: "string list option"
  ag_rules :: "string list option"

record alert_channel =
  ah_id :: string
  ah_name :: string
  ah_type :: string
  ah_enabled :: bool
  ah_config :: "(string \<times> string) list"
  ah_created :: gotime

record session_record =
  sx_token :: string
  sx_user :: string
  sx_created :: gotime
  sx_expires :: gotime

record api_key =
  ak_id :: string
  ak_name :: string
  ak_key :: string
  ak_user :: string
  ak_created :: gotime
  ak_expires :: gotime

section \<open>State\<close>

record 'w api =
  ap_mgr :: "'w cfg_manager"
  ap_disk :: disk
  ap_world :: 'w
  ap_rules :: rules_engine
  ap_version :: string
  ap_started :: gotime
  ap_alerts :: "alert_record list"
  ap_alert_config :: alert_config
  ap_channels :: "alert_channel list"
  ap_tenants :: "tenant_record list"
  ap_patches :: "patch_record list"
  ap_logs :: "log_entry list"
  ap_clients :: "(nat \<times> log_entry list) list"
  ap_keys :: "(string \<times> api_key) list"
  ap_sessions :: "string \<rightharpoonup> session_record"

text \<open>
  The environment: configuration and rules, the growth of slices, the value that a decoded JSON value becomes in a
  configuration, \<^verbatim>\<open>encoding/json\<close> and YAML for a whole configuration without defaults, the conversion of a number to an
  \<^verbatim>\<open>int\<close>, RFC 3339 times, and the order in which a map with the given keys is walked through.
\<close>

record api_env =
  ax_cfg :: cfg_env
  ax_rules :: rules_env
  ax_grow :: "nat \<Rightarrow> nat"
  ax_value :: "json \<Rightarrow> yaml_value"
  ax_json_config :: "string \<Rightarrow> config option"
  ax_yaml_config :: "string \<Rightarrow> config option"
  ax_int :: "rat \<Rightarrow> int"
  ax_parse_time :: "string \<Rightarrow> gotime option"
  ax_format_time :: "gotime \<Rightarrow> string"
  ax_order :: "string list \<Rightarrow> string list"

definition new_handlers :: "'w cfg_manager \<Rightarrow> disk \<Rightarrow> 'w \<Rightarrow> rules_engine \<Rightarrow> string \<Rightarrow> gotime \<Rightarrow> 'w api" where
  "new_handlers m dk w re version now =
     \<lparr>ap_mgr = m, ap_disk = dk, ap_world = w, ap_rules = re, ap_version = version, ap_started = now, ap_alerts = [],
      ap_alert_config = \<lparr>ag_threshold = 100, ag_interval = 60, ag_active = Some True, ag_channels = Some [], ag_rules = Some []\<rparr>,
      ap_channels = [], ap_tenants = [], ap_patches = [], ap_logs = [], ap_clients = [], ap_keys = [], ap_sessions = Map.empty\<rparr>"

definition api_config :: "'w api \<Rightarrow> config" where
  "api_config st = cm_config (ap_mgr st)"

text \<open>\<^verbatim>\<open>h.configMgr.UpdateConfig(fn)\<close>.\<close>

definition change_config :: "api_env \<Rightarrow> (config \<Rightarrow> config) \<Rightarrow> 'w api \<Rightarrow> 'w api \<times> gotext option" where
  "change_config env fn st =
     (case update_config (ax_cfg env) fn (ap_mgr st, ap_disk st, ap_world st) of
        ((m, dk, w), err) \<Rightarrow> (st\<lparr>ap_mgr := m, ap_disk := dk, ap_world := w\<rparr>, err))"

lemma change_config_frame:
  assumes "change_config env fn st = (st', err)"
  shows "api_config st' = fn (api_config st)" "ap_rules st' = ap_rules st"
    "err = None \<Longrightarrow> validate (fn (api_config st)) = None" "validate (fn (api_config st)) \<noteq> None \<Longrightarrow> err \<noteq> None"
    "ap_patches st' = ap_patches st" "ap_tenants st' = ap_tenants st" "ap_sessions st' = ap_sessions st" "ap_logs st' = ap_logs st"
  using assms
  by (auto simp: change_config_def update_config_def api_config_def Let_def split: option.splits if_splits prod.splits)

text \<open>The loops that change, or remove, the first element that is looked for.\<close>

fun change_first :: "('a \<Rightarrow> bool) \<Rightarrow> ('a \<Rightarrow> 'a) \<Rightarrow> 'a list \<Rightarrow> 'a list" where
  "change_first P f [] = []"
| "change_first P f (x # xs) = (if P x then f x # xs else x # change_first P f xs)"

fun remove_first :: "('a \<Rightarrow> bool) \<Rightarrow> 'a list \<Rightarrow> 'a list" where
  "remove_first P [] = []"
| "remove_first P (x # xs) = (if P x then xs else x # remove_first P xs)"

section \<open>Requests and answers\<close>

record api_request =
  aq_vars :: "(string \<times> string) list"
  aq_query :: param_map
  aq_body :: string
  aq_authorization :: string
  aq_api_key :: string

definition path_param :: "api_request \<Rightarrow> string \<Rightarrow> string" where
  "path_param q name = al_get (aq_vars q) name []"

definition query_get :: "api_request \<Rightarrow> string \<Rightarrow> string" where
  "query_get q name = (case al_get (aq_query q) name [] of [] \<Rightarrow> [] | v # _ \<Rightarrow> v)"

definition query_int :: "api_request \<Rightarrow> string \<Rightarrow> int \<Rightarrow> int" where
  "query_int q name def =
     (let v = query_get q name in
      if v = [] then def else (case parse_int64 v of None \<Rightarrow> def | Some n \<Rightarrow> n))"

text \<open>An answer: a value with its status, a page of values with total and page number, an error, or no answer after a panic.\<close>

datatype 'a api_reply = Data int 'a | Paged 'a int int | Failed int string gotext | Crashed go_panic

definition ok :: "'a \<Rightarrow> 'a api_reply" where "ok d = Data 200 d"
definition created_reply :: "'a \<Rightarrow> 'a api_reply" where "created_reply d = Data 201 d"
definition bad_request :: "gotext \<Rightarrow> 'a api_reply" where "bad_request msg = Failed 400 ''BAD_REQUEST'' msg"
definition unauthorized :: "'a api_reply" where "unauthorized = Failed 401 ''UNAUTHORIZED'' (Lit ''authentication required'')"
definition not_found_reply :: "gotext \<Rightarrow> 'a api_reply" where "not_found_reply msg = Failed 404 ''NOT_FOUND'' msg"
definition conflict :: "gotext \<Rightarrow> 'a api_reply" where "conflict msg = Failed 409 ''CONFLICT'' msg"
definition internal_error :: "'a api_reply" where "internal_error = Failed 500 ''INTERNAL_ERROR'' (Lit ''internal server error'')"
definition bad_json :: "'a api_reply" where "bad_json = bad_request (Fmt ''invalid JSON: %s'' [])"

lemmas reply_defs = ok_def created_reply_def bad_request_def unauthorized_def not_found_reply_def conflict_def internal_error_def bad_json_def

section \<open>Strict decoding\<close>

text \<open>
  \<^verbatim>\<open>readJSONStrict\<close>: the first value of the body; a member without a field is an error. Fields that are pointers, and slices
  and maps that are compared with nil, are options.
\<close>

fun strict_members :: "'s field list \<Rightarrow> (string \<times> json) list \<Rightarrow> 's \<Rightarrow> 's option" where
  "strict_members fs [] s = Some s"
| "strict_members fs ((k, v) # ms) s =
     (case find (\<lambda>f. field_key (fst f) k) fs of
        None \<Rightarrow> None
      | Some f \<Rightarrow> (case snd f v s of None \<Rightarrow> None | Some s' \<Rightarrow> strict_members fs ms s'))"

definition strict_struct :: "'s field list \<Rightarrow> 's \<Rightarrow> json \<Rightarrow> 's option" where
  "strict_struct fs zero v = (case v of JNull \<Rightarrow> Some zero | JObj ms \<Rightarrow> strict_members fs ms zero | _ \<Rightarrow> None)"

definition read_json_strict :: "'s field list \<Rightarrow> 's \<Rightarrow> api_request \<Rightarrow> 's option" where
  "read_json_strict fs zero q = Option.bind (map_option fst (json_value 0 (aq_body q))) (strict_struct fs zero)"

definition option_field :: "(json \<Rightarrow> 'a option) \<Rightarrow> string \<Rightarrow> ('a option \<Rightarrow> 's \<Rightarrow> 's) \<Rightarrow> 's field" where
  "option_field elem name put =
     (name, \<lambda>v s. case v of JNull \<Rightarrow> Some (put None s) | _ \<Rightarrow> map_option (\<lambda>x. put (Some x) s) (elem v))"

definition json_string_value :: "json \<Rightarrow> string option" where
  "json_string_value v = (case v of JStr s \<Rightarrow> Some s | _ \<Rightarrow> None)"

definition json_int_value :: "json \<Rightarrow> int option" where
  "json_int_value v = (case v of JNum n \<Rightarrow> parse_int64 n | _ \<Rightarrow> None)"

definition json_bool_value :: "json \<Rightarrow> bool option" where
  "json_bool_value v = (case v of JBool b \<Rightarrow> Some b | _ \<Rightarrow> None)"

definition json_strings_value :: "json \<Rightarrow> string list option" where
  "json_strings_value v = (case v of JArr vs \<Rightarrow> all_some (map string_elem vs) | _ \<Rightarrow> None)"

definition json_map_value :: "json \<Rightarrow> json_map option" where
  "json_map_value v = (case v of JObj ms \<Rightarrow> as_map (JObj ms) | _ \<Rightarrow> None)"

definition string_map_value :: "json \<Rightarrow> (string \<times> string) list option" where
  "string_map_value v =
     (case v of
        JObj ms \<Rightarrow> all_some (map (\<lambda>(k, x). map_option (Pair k) (string_elem x)) ms)
      | _ \<Rightarrow> None)"

definition or_empty :: "'a list option \<Rightarrow> 'a list" where
  "or_empty x = (case x of None \<Rightarrow> [] | Some xs \<Rightarrow> xs)"

section \<open>Concrete instances\<close>

definition demo_api_env :: api_env where
  "demo_api_env = \<lparr>ax_cfg = demo_env, ax_rules = demo_rules_env, ax_grow = Suc, ax_value = (\<lambda>v. YNull),
     ax_json_config = (\<lambda>t. Some demo_config), ax_yaml_config = (\<lambda>t. Some demo_config), ax_int = floor, ax_parse_time = (\<lambda>s. None), ax_format_time = (\<lambda>t. itoa t), ax_order = (\<lambda>ks. ks)\<rparr>"

definition demo_api :: "unit api" where
  "demo_api = new_handlers demo_manager Map.empty () (new_rules_engine False) ''1'' 0"

definition demo_call :: "(string \<times> string) list \<Rightarrow> string \<Rightarrow> api_request" where
  "demo_call query body = \<lparr>aq_vars = [(''id'', ''r''), (''name'', ''s'')], aq_query = map (apsnd (\<lambda>v. [v])) query, aq_body = body,
     aq_authorization = [], aq_api_key = []\<rparr>"

lemma demo_api_sel [simp]:
  "ap_logs demo_api = []" "ap_patches demo_api = []" "ap_tenants demo_api = []" "ap_alerts demo_api = []" "ap_keys demo_api = []"
  "ap_sessions demo_api = Map.empty" "ap_rules demo_api = new_rules_engine False" "ap_mgr demo_api = demo_manager"
  "ap_disk demo_api = Map.empty" "ap_world demo_api = ()" "api_config demo_api = demo_config"
  by (simp_all add: demo_api_def new_handlers_def api_config_def demo_manager_def)

lemma demo_change:
  assumes "validate (fn (api_config st)) = None" and "cf_path (fn (api_config st)) = ''c''" and "cm_on_change (ap_mgr st) = []"
  shows "change_config demo_api_env fn st =
    (st\<lparr>ap_mgr := \<lparr>cm_config = fn (api_config st), cm_on_change = []\<rparr>, ap_disk := (ap_disk st)(''c'' \<mapsto> ''x'')\<rparr>, None)"
  using assms
  by (cases "ap_mgr st") (simp add: change_config_def update_config_def demo_api_env_def demo_env_def save_to_file_def notify_def
      api_config_def Let_def)

lemma demo_rules_valid:
  assumes "list_all rule_ok gs"
  shows "validate (demo_config\<lparr>cf_rules := gs\<rparr>) = None"
  using demo_config_valid assms by (simp add: validate_None_iff)

definition demo_log_entry :: "gotime \<Rightarrow> string \<Rightarrow> log_entry" where
  "demo_log_entry t path = \<lparr>lo_time = t, lo_request = [], lo_site = ''s'', lo_action = ''block'', lo_severity = ''high'', lo_rule_id = [],
     lo_rule_name = [], lo_ip = ''192.0.2.1'', lo_method = ''GET'', lo_path = path, lo_status = 403, lo_latency = 1, lo_agent = [],
     lo_country = []\<rparr>"

end
