(* ===== verification/ApiSites.thy ===== *)
theory ApiSites
  imports ApiState
begin

text \<open>
  The handlers for sites and rules of \<^verbatim>\<open>internal/api/handlers.go\<close>: each changes the configuration through its manager, and the
  rule handlers then bring the rule engine up to date.
\<close>

section \<open>Sites\<close>

datatype site_data = DSites "site_config list" | DSite site_config | DTexts "(string \<times> string) list"

record site_request =
  qs_name :: string
  qs_domains :: "string list"
  qs_origin :: string
  qs_port :: int
  qs_profile :: string
  qs_tls :: bool
  qs_waf :: bool

definition site_fields :: "site_request field list" where
  "site_fields =
     [string_field ''name'' (\<lambda>v q. q\<lparr>qs_name := v\<rparr>), slice_field string_elem ''domains'' (\<lambda>v q. q\<lparr>qs_domains := v\<rparr>),
      string_field ''origin_url'' (\<lambda>v q. q\<lparr>qs_origin := v\<rparr>), int64_field ''port'' (\<lambda>v q. q\<lparr>qs_port := v\<rparr>),
      string_field ''rule_profile'' (\<lambda>v q. q\<lparr>qs_profile := v\<rparr>), bool_field ''tls'' (\<lambda>v q. q\<lparr>qs_tls := v\<rparr>),
      bool_field ''waf_enabled'' (\<lambda>v q. q\<lparr>qs_waf := v\<rparr>)]"

definition no_site_request :: site_request where
  "no_site_request = \<lparr>qs_name = [], qs_domains = [], qs_origin = [], qs_port = 0, qs_profile = [], qs_tls = False, qs_waf = False\<rparr>"

definition list_sites :: "'w api \<Rightarrow> site_data api_reply" where
  "list_sites st = Paged (DSites (cf_sites (api_config st))) (int (length (cf_sites (api_config st)))) 1"

definition requested_site :: "site_request \<Rightarrow> site_config" where
  "requested_site q =
     \<lparr>st_name = qs_name q, st_domains = qs_domains q, st_upstream = qs_origin q,
      st_port = (if qs_port q = 0 then 80 else qs_port q), st_tls = qs_tls q, st_cert_file = [], st_key_file = [],
      st_rate_limit = None, st_waf_enabled = qs_waf q, st_rule_overrides = None\<rparr>"

definition add_site :: "site_config \<Rightarrow> config \<Rightarrow> config" where
  "add_site s c = c\<lparr>cf_sites := cf_sites c @ [s]\<rparr>"

definition create_site :: "api_env \<Rightarrow> api_request \<Rightarrow> 'w api \<Rightarrow> 'w api \<times> site_data api_reply" where
  "create_site env r st =
     (case read_json_strict site_fields no_site_request r of
        None \<Rightarrow> (st, bad_json)
      | Some q \<Rightarrow>
          if qs_name q = [] then (st, bad_request (Lit ''name is required''))
          else if qs_domains q = [] \<and> qs_origin q = [] then (st, bad_request (Lit ''domains or origin_url is required''))
          else if \<exists>s\<in>set (cf_sites (api_config st)). st_name s = qs_name q then (st, conflict (Lit ''site already exists''))
          else
            (case change_config env (add_site (requested_site q)) st of
               (st', Some e) \<Rightarrow> (st', internal_error)
             | (st', None) \<Rightarrow> (st', created_reply (DTexts [(''name'', qs_name q)]))))"

definition get_site_handler :: "api_request \<Rightarrow> 'w api \<Rightarrow> site_data api_reply" where
  "get_site_handler r st =
     (case get_site (path_param r ''id'') (api_config st) of
        None \<Rightarrow> not_found_reply (Lit ''site not found'')
      | Some s \<Rightarrow> ok (DSite s))"

record site_update =
  us_domains :: "string list option"
  us_origin :: "string option"
  us_port :: "int option"
  us_tls :: "bool option"
  us_waf :: "bool option"

definition update_fields :: "site_update field list" where
  "update_fields =
     [option_field json_strings_value ''domains'' (\<lambda>v q. q\<lparr>us_domains := v\<rparr>),
      option_field json_string_value ''origin_url'' (\<lambda>v q. q\<lparr>us_origin := v\<rparr>),
      option_field json_int_value ''port'' (\<lambda>v q. q\<lparr>us_port := v\<rparr>),
      option_field json_bool_value ''tls'' (\<lambda>v q. q\<lparr>us_tls := v\<rparr>),
      option_field json_bool_value ''waf_enabled'' (\<lambda>v q. q\<lparr>us_waf := v\<rparr>)]"

definition no_update :: site_update where
  "no_update = \<lparr>us_domains = None, us_origin = None, us_port = None, us_tls = None, us_waf = None\<rparr>"

definition updated_site :: "site_update \<Rightarrow> site_config \<Rightarrow> site_config" where
  "updated_site u s =
     s\<lparr>st_domains := (case us_domains u of None \<Rightarrow> st_domains s | Some v \<Rightarrow> v),
       st_upstream := (case us_origin u of None \<Rightarrow> st_upstream s | Some v \<Rightarrow> v),
       st_port := (case us_port u of None \<Rightarrow> st_port s | Some v \<Rightarrow> v),
       st_tls := (case us_tls u of None \<Rightarrow> st_tls s | Some v \<Rightarrow> v),
       st_waf_enabled := (case us_waf u of None \<Rightarrow> st_waf_enabled s | Some v \<Rightarrow> v)\<rparr>"

definition change_site :: "string \<Rightarrow> (site_config \<Rightarrow> site_config) \<Rightarrow> config \<Rightarrow> config" where
  "change_site name f c = c\<lparr>cf_sites := change_first (\<lambda>s. st_name s = name) f (cf_sites c)\<rparr>"

definition has_site :: "string \<Rightarrow> 'w api \<Rightarrow> bool" where
  "has_site name st = (\<exists>s\<in>set (cf_sites (api_config st)). st_name s = name)"

text \<open>The common end: an error of the update comes before the answer that there is no such site.\<close>

definition site_outcome :: "bool \<Rightarrow> (string \<times> string) list \<Rightarrow> 'w api \<times> gotext option \<Rightarrow> 'w api \<times> site_data api_reply" where
  "site_outcome found answer res =
     (case res of
        (st', Some e) \<Rightarrow> (st', internal_error)
      | (st', None) \<Rightarrow> (st', if found then ok (DTexts answer) else not_found_reply (Lit ''site not found'')))"

definition update_site :: "api_env \<Rightarrow> api_request \<Rightarrow> 'w api \<Rightarrow> 'w api \<times> site_data api_reply" where
  "update_site env r st =
     (let name = path_param r ''id'' in
      case read_json_strict update_fields no_update r of
        None \<Rightarrow> (st, bad_json)
      | Some u \<Rightarrow> site_outcome (has_site name st) [(''name'', name)] (change_config env (change_site name (updated_site u)) st))"

definition delete_site :: "api_env \<Rightarrow> api_request \<Rightarrow> 'w api \<Rightarrow> 'w api \<times> site_data api_reply" where
  "delete_site env r st =
     (let name = path_param r ''id'' in
      site_outcome (has_site name st) [(''deleted'', name)]
        (change_config env (\<lambda>c. c\<lparr>cf_sites := remove_first (\<lambda>s. st_name s = name) (cf_sites c)\<rparr>) st))"

definition enable_site :: "api_env \<Rightarrow> api_request \<Rightarrow> 'w api \<Rightarrow> 'w api \<times> site_data api_reply" where
  "enable_site env r st =
     (let name = path_param r ''name'' in
      site_outcome (has_site name st) [(''name'', name), (''waf_enabled'', ''true'')]
        (change_config env (change_site name (\<lambda>s. s\<lparr>st_waf_enabled := True\<rparr>)) st))"

definition disable_site :: "api_env \<Rightarrow> api_request \<Rightarrow> 'w api \<Rightarrow> 'w api \<times> site_data api_reply" where
  "disable_site env r st =
     (let name = path_param r ''name'' in
      site_outcome (has_site name st) [(''name'', name), (''waf_enabled'', ''false'')]
        (change_config env (change_site name (\<lambda>s. s\<lparr>st_waf_enabled := False\<rparr>)) st))"

section \<open>Rules\<close>

datatype rule_data =
    DRules "rule_config list" | DRule rule_config | DRuleTexts "(string \<times> string) list" | DTested rule_decision
  | DBulk int int "gotext list" | DReordered string int

record rule_request =
  qr_id :: string
  qr_name :: string
  qr_description :: string
  qr_severity :: string
  qr_action :: string
  qr_phase :: string
  qr_priority :: int
  qr_field :: string
  qr_operator :: string
  qr_value :: string
  qr_transform :: "string list option"
  qr_tags :: "string list option"
  qr_params :: "json_map option"

definition rule_fields :: "rule_request field list" where
  "rule_fields =
     [string_field ''id'' (\<lambda>v q. q\<lparr>qr_id := v\<rparr>), string_field ''name'' (\<lambda>v q. q\<lparr>qr_name := v\<rparr>),
      string_field ''description'' (\<lambda>v q. q\<lparr>qr_description := v\<rparr>), string_field ''severity'' (\<lambda>v q. q\<lparr>qr_severity := v\<rparr>),
      string_field ''action'' (\<lambda>v q. q\<lparr>qr_action := v\<rparr>), string_field ''phase'' (\<lambda>v q. q\<lparr>qr_phase := v\<rparr>),
      int64_field ''priority'' (\<lambda>v q. q\<lparr>qr_priority := v\<rparr>), string_field ''field'' (\<lambda>v q. q\<lparr>qr_field := v\<rparr>),
      string_field ''operator'' (\<lambda>v q. q\<lparr>qr_operator := v\<rparr>), string_field ''value'' (\<lambda>v q. q\<lparr>qr_value := v\<rparr>),
      option_field json_strings_value ''transform'' (\<lambda>v q. q\<lparr>qr_transform := v\<rparr>),
      option_field json_strings_value ''tags'' (\<lambda>v q. q\<lparr>qr_tags := v\<rparr>),
      option_field json_map_value ''params'' (\<lambda>v q. q\<lparr>qr_params := v\<rparr>)]"

definition no_rule_request :: rule_request where
  "no_rule_request = \<lparr>qr_id = [], qr_name = [], qr_description = [], qr_severity = [], qr_action = [], qr_phase = [],
     qr_priority = 0, qr_field = [], qr_operator = [], qr_value = [], qr_transform = None, qr_tags = None, qr_params = None\<rparr>"

definition rule_params :: "api_env \<Rightarrow> json_map option \<Rightarrow> (string \<times> yaml_value) list" where
  "rule_params env ps = map (apsnd (ax_value env)) (or_empty ps)"

definition requested_rule :: "api_env \<Rightarrow> rule_request \<Rightarrow> rule_config" where
  "requested_rule env q =
     \<lparr>rg_id = qr_id q, rg_name = qr_name q, rg_description = qr_description q, rg_enabled = False, rg_severity = qr_severity q,
      rg_action = qr_action q, rg_phase = qr_phase q, rg_priority = qr_priority q, rg_field = qr_field q,
      rg_operator = qr_operator q, rg_value = qr_value q, rg_transform = or_empty (qr_transform q), rg_tags = or_empty (qr_tags q),
      rg_params = rule_params env (qr_params q)\<rparr>"

text \<open>A rule of the configuration as one of the rule engine, which has no parameters in the model.\<close>

definition engine_rule :: "rule_config \<Rightarrow> rule" where
  "engine_rule c =
     \<lparr>ru_id = rg_id c, ru_name = rg_name c, ru_description = rg_description c, ru_enabled = rg_enabled c,
      ru_severity = rg_severity c, ru_action = rg_action c, ru_phase = rg_phase c, ru_priority = rg_priority c,
      ru_field = rg_field c, ru_operator = rg_operator c, ru_value = rg_value c, ru_transform = rg_transform c,
      ru_tags = rg_tags c, ru_compiled = None\<rparr>"

definition keep_rule :: "string \<Rightarrow> string \<Rightarrow> string \<Rightarrow> rule_config \<Rightarrow> bool" where
  "keep_rule severity tag status c =
     ((severity = [] \<or> rg_severity c = severity) \<and> (tag = [] \<or> tag \<in> set (rg_tags c)) \<and>
      (status = ''enabled'' \<longrightarrow> rg_enabled c) \<and> (status = ''disabled'' \<longrightarrow> \<not> rg_enabled c))"

definition list_rules :: "api_request \<Rightarrow> 'w api \<Rightarrow> rule_data api_reply" where
  "list_rules r st =
     (let c = api_config st; site = query_get r ''site'';
          kept = filter (keep_rule (query_get r ''severity'') (query_get r ''tag'') (query_get r ''status'')) (cf_rules c);
          rs = (if site = [] then kept
                else case get_site site c of
                       None \<Rightarrow> kept
                     | Some s \<Rightarrow>
                         (case st_rule_overrides s of
                            None \<Rightarrow> kept
                          | Some os \<Rightarrow> filter (\<lambda>g. rg_id g \<in> fst ` set os) kept))
      in Paged (DRules rs) (int (length rs)) 1)"

text \<open>The engine after an operation of it that may be refused: a refusal is only logged.\<close>

definition with_rules :: "(rules_engine \<Rightarrow> gotext + rules_engine) \<Rightarrow> 'w api \<Rightarrow> 'w api" where
  "with_rules f st = (case f (ap_rules st) of Inl e \<Rightarrow> st | Inr re \<Rightarrow> st\<lparr>ap_rules := re\<rparr>)"

definition add_rule_config :: "rule_config \<Rightarrow> config \<Rightarrow> config" where
  "add_rule_config g c = c\<lparr>cf_rules := cf_rules c @ [g]\<rparr>"

definition create_rule :: "api_env \<Rightarrow> api_request \<Rightarrow> 'w api \<Rightarrow> 'w api \<times> rule_data api_reply" where
  "create_rule env r st =
     (case read_json_strict rule_fields no_rule_request r of
        None \<Rightarrow> (st, bad_json)
      | Some q \<Rightarrow>
          if qr_id q = [] then (st, bad_request (Lit ''id is required''))
          else if qr_field q = [] then (st, bad_request (Lit ''field is required''))
          else if qr_operator q = [] then (st, bad_request (Lit ''operator is required''))
          else if get_rule_config (qr_id q) (api_config st) \<noteq> None then (st, conflict (Lit ''rule already exists''))
          else
            (let g = requested_rule env q in
             case change_config env (add_rule_config g) st of
               (st', Some e) \<Rightarrow> (st', bad_request e)
             | (st', None) \<Rightarrow>
                 (with_rules (add_rule (ax_rules env) (ax_grow env) ((engine_rule g)\<lparr>ru_enabled := False\<rparr>)) st',
                  created_reply (DRule g))))"

definition get_rule_handler :: "api_request \<Rightarrow> 'w api \<Rightarrow> rule_data api_reply" where
  "get_rule_handler r st =
     (case get_rule_config (path_param r ''id'') (api_config st) of
        None \<Rightarrow> not_found_reply (Lit ''rule not found'')
      | Some g \<Rightarrow> ok (DRule g))"

definition unless_empty :: "'a list \<Rightarrow> 'a list \<Rightarrow> 'a list" where
  "unless_empty new old = (if new = [] then old else new)"

definition updated_rule :: "api_env \<Rightarrow> rule_request \<Rightarrow> rule_config \<Rightarrow> rule_config" where
  "updated_rule env q g =
     g\<lparr>rg_name := unless_empty (qr_name q) (rg_name g), rg_description := unless_empty (qr_description q) (rg_description g),
       rg_severity := unless_empty (qr_severity q) (rg_severity g), rg_action := unless_empty (qr_action q) (rg_action g),
       rg_phase := unless_empty (qr_phase q) (rg_phase g), rg_field := unless_empty (qr_field q) (rg_field g),
       rg_operator := unless_empty (qr_operator q) (rg_operator g), rg_value := unless_empty (qr_value q) (rg_value g),
       rg_transform := (case qr_transform q of None \<Rightarrow> rg_transform g | Some v \<Rightarrow> v),
       rg_tags := (case qr_tags q of None \<Rightarrow> rg_tags g | Some v \<Rightarrow> v),
       rg_params := (case qr_params q of None \<Rightarrow> rg_params g | Some v \<Rightarrow> rule_params env (Some v)),
       rg_priority := (if qr_priority q = 0 then rg_priority g else qr_priority q)\<rparr>"

definition change_rule :: "string \<Rightarrow> (rule_config \<Rightarrow> rule_config) \<Rightarrow> config \<Rightarrow> config" where
  "change_rule i f c = c\<lparr>cf_rules := change_first (\<lambda>g. rg_id g = i) f (cf_rules c)\<rparr>"

definition has_rule :: "string \<Rightarrow> 'w api \<Rightarrow> bool" where
  "has_rule i st = (\<exists>g\<in>set (cf_rules (api_config st)). rg_id g = i)"

definition sync_rule :: "api_env \<Rightarrow> string \<Rightarrow> 'w api \<Rightarrow> 'w api" where
  "sync_rule env i st =
     (case get_rule_config i (api_config st) of
        None \<Rightarrow> st
      | Some g \<Rightarrow> with_rules (update_rule (ax_rules env) i ((engine_rule g)\<lparr>ru_description := []\<rparr>)) st)"

definition update_rule_handler :: "api_env \<Rightarrow> api_request \<Rightarrow> 'w api \<Rightarrow> 'w api \<times> rule_data api_reply" where
  "update_rule_handler env r st =
     (let i = path_param r ''id'' in
      case read_json_strict rule_fields no_rule_request r of
        None \<Rightarrow> (st, bad_json)
      | Some q \<Rightarrow>
          (case change_config env (change_rule i (updated_rule env q)) st of
             (st', Some e) \<Rightarrow> (st', bad_request e)
           | (st', None) \<Rightarrow>
               if has_rule i st then (sync_rule env i st', ok (DRuleTexts [(''id'', i), (''updated'', ''true'')]))
               else (st', not_found_reply (Lit ''rule not found''))))"

text \<open>The other changes of one rule: an error of the update is an internal one.\<close>

definition rule_outcome ::
  "bool \<Rightarrow> ('w api \<Rightarrow> 'w api) \<Rightarrow> (string \<times> string) list \<Rightarrow> 'w api \<times> gotext option \<Rightarrow> 'w api \<times> rule_data api_reply" where
  "rule_outcome found finish answer res =
     (case res of
        (st', Some e) \<Rightarrow> (st', internal_error)
      | (st', None) \<Rightarrow> if found then (finish st', ok (DRuleTexts answer)) else (st', not_found_reply (Lit ''rule not found'')))"

definition delete_rule_handler :: "api_env \<Rightarrow> api_request \<Rightarrow> 'w api \<Rightarrow> 'w api \<times> rule_data api_reply" where
  "delete_rule_handler env r st =
     (let i = path_param r ''id'' in
      rule_outcome (has_rule i st) (with_rules (delete_rule i)) [(''id'', i), (''deleted'', ''true'')]
        (change_config env (\<lambda>c. c\<lparr>cf_rules := remove_first (\<lambda>g. rg_id g = i) (cf_rules c)\<rparr>) st))"

definition enable_rule :: "api_env \<Rightarrow> api_request \<Rightarrow> 'w api \<Rightarrow> 'w api \<times> rule_data api_reply" where
  "enable_rule env r st =
     (let i = path_param r ''id'' in
      rule_outcome (has_rule i st) (sync_rule env i) [(''id'', i), (''enabled'', ''true'')]
        (change_config env (change_rule i (\<lambda>g. g\<lparr>rg_enabled := True\<rparr>)) st))"

definition disable_rule :: "api_env \<Rightarrow> api_request \<Rightarrow> 'w api \<Rightarrow> 'w api \<times> rule_data api_reply" where
  "disable_rule env r st =
     (let i = path_param r ''id'' in
      rule_outcome (has_rule i st) (sync_rule env i) [(''id'', i), (''enabled'', ''false'')]
        (change_config env (change_rule i (\<lambda>g. g\<lparr>rg_enabled := False\<rparr>)) st))"

end
