(* ===== verification/ApiRules.thy ===== *)
theory ApiRules
  imports ApiSites
begin

text \<open>
  The handlers that try a rule, import many and reorder one, the reload of the administration server, and what the handlers of
  sites and rules guarantee.
\<close>

section \<open>Trying a rule\<close>

record test_request =
  qt_rule :: rule_request
  qt_field :: string
  qt_value :: string
  qt_path :: string
  qt_method :: string
  qt_ip :: string
  qt_host :: string

definition test_fields :: "test_request field list" where
  "test_fields =
     [(''rule'', \<lambda>v q. case v of JNull \<Rightarrow> Some q | JObj ms \<Rightarrow> map_option (\<lambda>x. q\<lparr>qt_rule := x\<rparr>) (strict_members rule_fields ms (qt_rule q))
        | _ \<Rightarrow> None),
      string_field ''field'' (\<lambda>v q. q\<lparr>qt_field := v\<rparr>), string_field ''value'' (\<lambda>v q. q\<lparr>qt_value := v\<rparr>),
      string_field ''path'' (\<lambda>v q. q\<lparr>qt_path := v\<rparr>), string_field ''method'' (\<lambda>v q. q\<lparr>qt_method := v\<rparr>),
      string_field ''ip'' (\<lambda>v q. q\<lparr>qt_ip := v\<rparr>), string_field ''host'' (\<lambda>v q. q\<lparr>qt_host := v\<rparr>)]"

definition tried_rule :: "rule_request \<Rightarrow> rule" where
  "tried_rule q =
     \<lparr>ru_id = qr_id q, ru_name = qr_name q, ru_description = [], ru_enabled = False, ru_severity = qr_severity q,
      ru_action = qr_action q, ru_phase = qr_phase q, ru_priority = qr_priority q, ru_field = qr_field q,
      ru_operator = qr_operator q, ru_value = qr_value q, ru_transform = or_empty (qr_transform q),
      ru_tags = or_empty (qr_tags q), ru_compiled = None\<rparr>"

definition tried_fields :: "test_request \<Rightarrow> field_value" where
  "tried_fields q =
     \<lparr>fv_query = [], fv_form = [], fv_headers = [(''User-Agent'', qt_value q)], fv_cookies = [], fv_body = None,
      fv_path = qt_path q, fv_method = qt_method q, fv_real_ip = qt_ip q, fv_user_agent = [], fv_content_type = [],
      fv_country = [], fv_asn = 0, fv_session_id = [], fv_user_id = [], fv_host = qt_host q\<rparr>"

definition test_rule_handler :: "api_env \<Rightarrow> api_request \<Rightarrow> rule_data api_reply" where
  "test_rule_handler env r =
     (case read_json_strict test_fields
             \<lparr>qt_rule = no_rule_request, qt_field = [], qt_value = [], qt_path = [], qt_method = [], qt_ip = [], qt_host = []\<rparr> r of
        None \<Rightarrow> bad_json
      | Some q \<Rightarrow>
          (case test_rule (ax_rules env) (tried_rule (qt_rule q)) (tried_fields q) of
             Inl e \<Rightarrow> bad_request (Fmt ''rule test failed: %s'' [])
           | Inr d \<Rightarrow> ok (DTested d)))"

section \<open>Many rules at once\<close>

definition bulk_fields :: "rule_request list field list" where
  "bulk_fields = [slice_field (strict_struct rule_fields no_rule_request) ''rules'' (\<lambda>v q. v)]"

text \<open>The index by identifier is made before the loop; of equal identifiers it keeps the last.\<close>

definition rule_index :: "rule_config list \<Rightarrow> string \<Rightarrow> nat option" where
  "rule_index gs i = map_of (rev (zip (map rg_id gs) [0..<length gs])) i"

fun bulk_loop ::
  "api_env \<Rightarrow> (string \<Rightarrow> nat option) \<Rightarrow> rule_request list \<Rightarrow> rule_config list \<times> int \<times> int \<times> gotext list
     \<Rightarrow> rule_config list \<times> int \<times> int \<times> gotext list" where
  "bulk_loop env idx [] acc = acc"
| "bulk_loop env idx (q # qs) (gs, created, updated, errs) =
     (if qr_id q = [] \<or> qr_field q = [] \<or> qr_operator q = []
      then bulk_loop env idx qs (gs, created, updated, errs @ [Fmt ''rule missing required fields: id=%s'' [AStr (qr_id q)]])
      else
        (case idx (qr_id q) of
           Some i \<Rightarrow> bulk_loop env idx qs (gs[i := requested_rule env q], created, updated + 1, errs)
         | None \<Rightarrow> bulk_loop env idx qs (gs @ [requested_rule env q], created + 1, updated, errs)))"

definition bulk_result :: "api_env \<Rightarrow> rule_request list \<Rightarrow> rule_config list \<Rightarrow> rule_config list \<times> int \<times> int \<times> gotext list" where
  "bulk_result env qs gs = bulk_loop env (rule_index gs) qs (gs, 0, 0, [])"

definition bulk_rules :: "api_env \<Rightarrow> api_request \<Rightarrow> 'w api \<Rightarrow> 'w api \<times> rule_data api_reply" where
  "bulk_rules env r st =
     (case read_json_strict bulk_fields [] r of
        None \<Rightarrow> (st, bad_json)
      | Some qs \<Rightarrow>
          if qs = [] then (st, bad_request (Lit ''rules array is required''))
          else if 500 < length qs then (st, bad_request (Lit ''maximum 500 rules per bulk operation''))
          else
            (case bulk_result env qs (cf_rules (api_config st)) of
               (gs, created, updated, errs) \<Rightarrow>
                 (case change_config env (\<lambda>c. c\<lparr>cf_rules := gs\<rparr>) st of
                    (st', Some e) \<Rightarrow> (st', bad_request e)
                  | (st', None) \<Rightarrow> (fold (\<lambda>q. sync_rule env (qr_id q)) qs st', ok (DBulk created updated errs)))))"

definition reorder_rule_handler :: "api_request \<Rightarrow> 'w api \<Rightarrow> 'w api \<times> rule_data api_reply" where
  "reorder_rule_handler r st =
     (case read_json_strict [int64_field ''priority'' (\<lambda>v _. v)] 0 r of
        None \<Rightarrow> (st, bad_json)
      | Some prio \<Rightarrow>
          if prio < 0 then (st, bad_request (Lit ''priority must be >= 0''))
          else
            (case reorder_rule (path_param r ''id'') prio (ap_rules st) of
               Inl e \<Rightarrow> (st, not_found_reply e)
             | Inr re \<Rightarrow> (st\<lparr>ap_rules := re\<rparr>, ok (DReordered (path_param r ''id'') prio))))"

definition admin_reload :: "api_env \<Rightarrow> 'w api \<Rightarrow> 'w api \<times> rule_data api_reply" where
  "admin_reload env st =
     (case reload (ax_cfg env) (ap_disk st) (ap_mgr st, ap_world st) of
        ((m, w), Some e) \<Rightarrow> (st\<lparr>ap_mgr := m, ap_world := w\<rparr>, bad_request (Fmt ''reload failed: %s'' []))
      | ((m, w), None) \<Rightarrow>
          (st\<lparr>ap_mgr := m, ap_world := w,
              ap_rules := atomic_swap (ax_rules env) (map engine_rule (cf_rules (cm_config m))) (ap_rules st)\<rparr>,
           ok (DRuleTexts [(''status'', ''reloaded'')])))"

section \<open>Names of sites\<close>

datatype site_operation =
  CreateSite api_request | UpdateSite api_request | DeleteSite api_request | EnableSite api_request | DisableSite api_request

fun site_call :: "api_env \<Rightarrow> site_operation \<Rightarrow> 'w api \<Rightarrow> 'w api \<times> site_data api_reply" where
  "site_call env (CreateSite r) = create_site env r"
| "site_call env (UpdateSite r) = update_site env r"
| "site_call env (DeleteSite r) = delete_site env r"
| "site_call env (EnableSite r) = enable_site env r"
| "site_call env (DisableSite r) = disable_site env r"

definition site_run :: "api_env \<Rightarrow> site_operation list \<Rightarrow> 'w api \<Rightarrow> 'w api" where
  "site_run env calls st = fold (\<lambda>call. fst \<circ> site_call env call) calls st"

abbreviation site_names :: "'w api \<Rightarrow> string list" where
  "site_names st \<equiv> map st_name (cf_sites (api_config st))"

lemma map_change_first: "(\<And>x. g (f x) = g x) \<Longrightarrow> map g (change_first P f xs) = map g xs"
  by (induction xs) simp_all

lemma set_remove_first: "set (remove_first P xs) \<subseteq> set xs"
  by (induction xs) auto

lemma distinct_remove_first: "distinct (map g xs) \<Longrightarrow> distinct (map g (remove_first P xs))"
  using set_remove_first by (induction xs) fastforce+

lemma updated_site_name [simp]: "st_name (updated_site u s) = st_name s"
  by (simp add: updated_site_def)

lemma outcome_state [simp]: "fst (site_outcome found answer res) = fst res"
  by (simp add: site_outcome_def split: prod.splits option.splits)

lemma change_config_config: "api_config (fst (change_config env fn st)) = fn (api_config st)"
  using change_config_frame(1) [of env fn st] by (metis prod.collapse)

lemma site_call_names:
  assumes "distinct (site_names st)"
  shows "distinct (site_names (fst (site_call env call st)))"
proof (cases call)
  case (CreateSite r)
  show ?thesis
  proof (cases "read_json_strict site_fields no_site_request r")
    case (Some q)
    obtain st' e where "change_config env (add_site (requested_site q)) st = (st', e)" by fastforce
    with change_config_frame(1) [OF this] Some CreateSite assms show ?thesis
      by (auto simp: create_site_def add_site_def requested_site_def split: option.splits)
  qed (use CreateSite assms in \<open>simp add: create_site_def\<close>)
next
  case (UpdateSite r)
  with assms show ?thesis
    by (auto simp: update_site_def change_config_config change_site_def map_change_first Let_def split: option.splits)
next
  case (DeleteSite r)
  with assms show ?thesis by (simp add: delete_site_def change_config_config distinct_remove_first Let_def)
next
  case (EnableSite r)
  with assms show ?thesis by (simp add: enable_site_def change_config_config change_site_def map_change_first Let_def)
next
  case (DisableSite r)
  with assms show ?thesis by (simp add: disable_site_def change_config_config change_site_def map_change_first Let_def)
qed

text \<open>No sequence of calls of the site handlers gives two sites one name, whether the calls succeed or fail.\<close>

lemma site_names_stay_distinct:
  assumes "distinct (map st_name (cf_sites (api_config st)))"
  shows "distinct (map st_name (cf_sites (api_config (site_run env calls st))))"
  using assms unfolding site_run_def by (induction calls arbitrary: st) (simp_all add: site_call_names)

section \<open>A refused site\<close>

lemma change_first_keeps_bad:
  "(\<And>x. P x \<Longrightarrow> P (f x)) \<Longrightarrow> \<exists>x\<in>set xs. P x \<Longrightarrow> \<exists>x\<in>set (change_first Q f xs). P x"
  by (induction xs) auto

lemma invalid_with_bad_site: "s \<in> set (cf_sites c) \<Longrightarrow> \<not> site_ok s \<Longrightarrow> validate c \<noteq> None"
  by (auto simp: validate_None_iff list_all_iff)

lemma refused_outcome: "\<exists>e. snd res = Some e \<Longrightarrow> snd (site_outcome found answer res) = internal_error"
  by (cases res) (auto simp: site_outcome_def)

lemma change_config_refused: "validate (fn (api_config st)) \<noteq> None \<Longrightarrow> \<exists>e. snd (change_config env fn st) = Some e"
  using change_config_frame(4) [of env fn st] by (metis not_None_eq prod.collapse)

text \<open>
  A site that is created with a domain and no origin is refused with an internal error, but stays in the
  configuration in force; from then on no site can be created, nor the protection of any site switched on or off.
\<close>

lemma refused_site_blocks_changes:
  assumes "read_json_strict site_fields no_site_request r = Some q" and "qs_name q \<noteq> []" and "qs_domains q \<noteq> []"
    and "qs_origin q = []" and "\<forall>s\<in>set (cf_sites (api_config st)). st_name s \<noteq> qs_name q"
  shows "\<exists>st'. create_site env r st = (st', internal_error) \<and> requested_site q \<in> set (cf_sites (api_config st')) \<and>
    snd (enable_site env r2 st') = internal_error \<and> snd (disable_site env r2 st') = internal_error \<and>
    (\<forall>d. snd (create_site env r2 st') \<noteq> created_reply d)"
proof -
  let ?s = "requested_site q"
  have bad: "\<not> site_ok ?s" using assms(4) by (simp add: site_ok_def requested_site_def)
  have upd: "\<not> site_ok s \<Longrightarrow> \<not> site_ok (s\<lparr>st_waf_enabled := b\<rparr>)" for s b by (simp add: site_ok_def)
  obtain st' err where cc: "change_config env (add_site ?s) st = (st', err)" by fastforce
  have c': "cf_sites (api_config st') = cf_sites (api_config st) @ [?s]"
    using change_config_frame(1) [OF cc] by (simp add: add_site_def)
  have "validate (add_site ?s (api_config st)) \<noteq> None" using bad by (intro invalid_with_bad_site) (auto simp: add_site_def)
  then have "err \<noteq> None" using change_config_frame(4) [OF cc] by simp
  with cc assms have first: "create_site env r st = (st', internal_error)" by (auto simp: create_site_def)
  have waf: "\<exists>e. snd (change_config env (change_site n (\<lambda>s. s\<lparr>st_waf_enabled := b\<rparr>)) st') = Some e" for n b
  proof (rule change_config_refused)
    have "\<exists>s\<in>set (change_first (\<lambda>s. st_name s = n) (\<lambda>s. s\<lparr>st_waf_enabled := b\<rparr>) (cf_sites (api_config st'))). \<not> site_ok s"
      using bad upd c' by (intro change_first_keeps_bad) auto
    then obtain s where "s \<in> set (cf_sites (change_site n (\<lambda>s. s\<lparr>st_waf_enabled := b\<rparr>) (api_config st')))" "\<not> site_ok s"
      by (auto simp: change_site_def)
    then show "validate (change_site n (\<lambda>s. s\<lparr>st_waf_enabled := b\<rparr>) (api_config st')) \<noteq> None"
      by (rule invalid_with_bad_site)
  qed
  have more: "\<exists>e. snd (change_config env (add_site s2) st') = Some e" for s2
    using bad c' by (intro change_config_refused invalid_with_bad_site [of ?s]) (auto simp: add_site_def)
  have "snd (create_site env r2 st') \<noteq> created_reply d" for d
  proof (cases "read_json_strict site_fields no_site_request r2")
    case (Some q2)
    obtain st2 e where "change_config env (add_site (requested_site q2)) st' = (st2, Some e)" using more by (metis prod.collapse)
    with Some show ?thesis by (simp add: create_site_def reply_defs)
  qed (simp add: create_site_def reply_defs)
  moreover have "snd (enable_site env r2 st') = internal_error" "snd (disable_site env r2 st') = internal_error"
    unfolding enable_site_def disable_site_def Let_def by (simp_all add: refused_outcome [OF waf])
  ultimately show ?thesis using first c' by auto
qed

section \<open>Rules that never act\<close>

lemma inspect_rules_enabled: "inspect_rules env dry rs f = inspect_rules env dry (filter ru_enabled rs) f"
  by (induction rs) (auto split: sum.splits)

lemma add_disabled_rule:
  assumes "add_rule env grow r e = Inr e'" and "\<not> ru_enabled r" and "table_sorted e"
  shows "rules_inspect env e' f = rules_inspect env e f"
proof -
  let ?r = "compile_rule env r"
  have dis: "\<not> ru_enabled ?r" using assms(2) by (simp add: compile_rule_def)
  from assms(1) have e': "re_rules e' = sort_key rule_key (re_rules e @ [?r])" "re_dry_run e' = re_dry_run e"
    by (auto simp: add_rule_def append_rule_def sort_rules_def Let_def split: if_splits)
  have "filter ru_enabled (re_rules e') = sort_key rule_key (filter ru_enabled (re_rules e @ [?r]))"
    unfolding e'(1) by (rule filter_sort)
  also have "\<dots> = sort_key rule_key (filter ru_enabled (re_rules e))" using dis by simp
  also have "\<dots> = filter ru_enabled (re_rules e)"
    using assms(3) by (intro sort_key_id_if_sorted sorted_filter) (simp add: table_sorted_def)
  finally show ?thesis
    unfolding rules_inspect_def e'(2) using inspect_rules_enabled by metis
qed

text \<open>
  Creating a rule never changes a verdict: the new rule is switched off in the configuration and in the rule
  engine, whatever the request said.
\<close>

lemma created_rule_inert:
  assumes "create_rule env r st = (st', created_reply (DRule g))" and "table_sorted (ap_rules st)"
  shows "\<not> rg_enabled g \<and> g \<in> set (cf_rules (api_config st')) \<and>
    rules_inspect (ax_rules env) (ap_rules st') f = rules_inspect (ax_rules env) (ap_rules st) f"
proof -
  obtain q where q: "read_json_strict rule_fields no_rule_request r = Some q"
    using assms(1) by (auto simp: create_rule_def reply_defs split: option.splits)
  obtain st1 err where cc: "change_config env (add_rule_config (requested_rule env q)) st = (st1, err)" by fastforce
  let ?add = "add_rule (ax_rules env) (ax_grow env) ((engine_rule (requested_rule env q))\<lparr>ru_enabled := False\<rparr>)"
  from assms(1) q cc have g: "g = requested_rule env q" and st': "st' = with_rules ?add st1"
    by (auto simp: create_rule_def reply_defs Let_def split: if_splits option.splits)
  have "ap_rules st1 = ap_rules st" "g \<in> set (cf_rules (api_config st1))"
    using change_config_frame(1,2) [OF cc] g by (simp_all add: add_rule_config_def)
  moreover have "rules_inspect (ax_rules env) (ap_rules (with_rules ?add st1)) f = rules_inspect (ax_rules env) (ap_rules st1) f"
    using add_disabled_rule [of "ax_rules env" "ax_grow env" _ "ap_rules st1"] assms(2) \<open>ap_rules st1 = ap_rules st\<close>
    by (auto simp: with_rules_def split: sum.splits)
  moreover have "api_config (with_rules ?add st1) = api_config st1"
    by (simp add: with_rules_def api_config_def split: sum.splits)
  ultimately show ?thesis using st' g by (simp add: requested_rule_def)
qed

lemma sync_rule_known: "dom (re_by_id (ap_rules (sync_rule env i st))) = dom (re_by_id (ap_rules st))"
  by (auto simp: sync_rule_def with_rules_def update_rule_def store_rule_def sort_rules_def split: option.splits)

lemma sync_all_known: "dom (re_by_id (ap_rules (fold (\<lambda>q. sync_rule env (qr_id q)) qs st))) = dom (re_by_id (ap_rules st))"
  by (induction qs arbitrary: st) (simp_all add: sync_rule_known)

text \<open>
  An import of many rules adds none of them to the rule engine: the engine knows the same identifiers
  afterwards, however many rules the answer counts as created.
\<close>

lemma bulk_adds_nothing_to_engine: "dom (re_by_id (ap_rules (fst (bulk_rules env r st)))) = dom (re_by_id (ap_rules st))"
proof (cases "read_json_strict bulk_fields [] r")
  case (Some qs)
  obtain gs created updated errs where b: "bulk_result env qs (cf_rules (api_config st)) = (gs, created, updated, errs)"
    by (metis prod_cases4)
  obtain st' err where cc: "change_config env (\<lambda>c. c\<lparr>cf_rules := gs\<rparr>) st = (st', err)" by fastforce
  with Some b change_config_frame(2) [OF cc] show ?thesis
    by (cases err) (simp_all add: bulk_rules_def sync_all_known)
qed (simp add: bulk_rules_def)

section \<open>Witnesses\<close>

lemma site_names_stay_distinct_witness:
  "distinct (map st_name (cf_sites (api_config (site_run demo_api_env [DeleteSite (demo_call [] [])] demo_api))))"
  by (rule site_names_stay_distinct) (simp add: demo_config_def)

end
