(* ===== verification/ApiLogs.thy ===== *)
theory ApiLogs
  imports ApiState "HOL-Library.Multiset"
begin

text \<open>
  The store of log entries of \<^verbatim>\<open>internal/api/handlers.go\<close>: the loop that fills it, the queries, exports and live clients that
  read it, and the statistics over it.
\<close>

section \<open>The store and its live clients\<close>

definition keep_entry :: "log_entry list \<Rightarrow> log_entry \<Rightarrow> log_entry list" where
  "keep_entry logs e =
     (let logs' = logs @ [e] in if 100000 < length logs' then drop (length logs' - 50000) logs' else logs')"

text \<open>A client is a channel that holds 100 entries; an entry that does not fit is lost for that client.\<close>

definition offer :: "log_entry \<Rightarrow> nat \<times> log_entry list \<Rightarrow> nat \<times> log_entry list" where
  "offer e ch = (if length (snd ch) < 100 then (fst ch, snd ch @ [e]) else ch)"

definition drain_log_channel :: "log_entry \<Rightarrow> 'w api \<Rightarrow> 'w api" where
  "drain_log_channel e st = st\<lparr>ap_logs := keep_entry (ap_logs st) e, ap_clients := map (offer e) (ap_clients st)\<rparr>"

definition tail_open :: "nat \<Rightarrow> 'w api \<Rightarrow> 'w api" where
  "tail_open ch st = st\<lparr>ap_clients := ap_clients st @ [(ch, [])]\<rparr>"

definition tail_receive :: "nat \<Rightarrow> 'w api \<Rightarrow> 'w api \<times> log_entry option" where
  "tail_receive ch st =
     (case map_of (ap_clients st) ch of
        Some (e # es) \<Rightarrow> (st\<lparr>ap_clients := AList.update ch es (ap_clients st)\<rparr>, Some e)
      | _ \<Rightarrow> (st, None))"

definition tail_close :: "nat \<Rightarrow> 'w api \<Rightarrow> 'w api" where
  "tail_close ch st = st\<lparr>ap_clients := remove_first (\<lambda>c. fst c = ch) (ap_clients st)\<rparr>"

section \<open>Queries\<close>

text \<open>A bound that is missing or cannot be read is the zero time, which bounds nothing.\<close>

definition time_bound :: "api_env \<Rightarrow> string \<Rightarrow> gotime" where
  "time_bound env s = (if s = [] then zero_time else (case ax_parse_time env s of None \<Rightarrow> zero_time | Some t \<Rightarrow> t))"

definition in_period :: "gotime \<Rightarrow> gotime \<Rightarrow> log_entry \<Rightarrow> bool" where
  "in_period from to e =
     (\<not> (from \<noteq> zero_time \<and> lo_time e < from) \<and> \<not> (to \<noteq> zero_time \<and> to < lo_time e))"

definition queried :: "api_env \<Rightarrow> api_request \<Rightarrow> log_entry \<Rightarrow> bool" where
  "queried env r e =
     (let site = query_get r ''site''; action = query_get r ''action''; severity = query_get r ''severity'' in
      (site = [] \<or> lo_site e = site) \<and> (action = [] \<or> lo_action e = action) \<and> (severity = [] \<or> lo_severity e = severity) \<and>
      in_period (time_bound env (query_get r ''from'')) (time_bound env (query_get r ''to'')) e)"

text \<open>\<^verbatim>\<open>xs[from:to]\<close> of a slice without spare capacity.\<close>

definition go_slice :: "'a list \<Rightarrow> int \<Rightarrow> int \<Rightarrow> go_panic + 'a list" where
  "go_slice xs from to =
     (if 0 \<le> from \<and> from \<le> to \<and> to \<le> int (length xs) then Inr (take (nat to - nat from) (drop (nat from) xs))
      else Inl SliceBounds)"

definition query_logs :: "api_env \<Rightarrow> api_request \<Rightarrow> 'w api \<Rightarrow> log_entry list api_reply" where
  "query_logs env r st =
     (let limit = min 1000 (query_int r ''limit'' 100); offset = query_int r ''offset'' 0;
          es = filter (queried env r) (ap_logs st); total = int (length es)
      in if total \<le> offset
         then (if limit = 0 then Crashed DivideByZero else Paged [] total (int64 (go_div offset limit + 1)))
         else
           (let end' = min total (int64 (offset + limit)) in
            case go_slice es offset end' of
              Inl p \<Rightarrow> Crashed p
            | Inr page \<Rightarrow> if limit = 0 then Crashed DivideByZero else Paged page total (int64 (go_div offset limit + 1))))"

section \<open>Export\<close>

datatype log_export = ExportJson "log_entry list" | ExportCsv "string list list" | ExportCef "string list"

definition csv_header :: "string list" where
  "csv_header = [''timestamp'', ''request_id'', ''site'', ''action'', ''severity'', ''rule_id'', ''ip'', ''method'', ''path'',
     ''status'', ''latency_ms'', ''country'']"

definition csv_row :: "api_env \<Rightarrow> log_entry \<Rightarrow> string list" where
  "csv_row env e =
     [ax_format_time env (lo_time e), lo_request e, lo_site e, lo_action e, lo_severity e, lo_rule_id e, lo_ip e, lo_method e,
      lo_path e, itoa (lo_status e), itoa (lo_latency e), lo_country e]"

definition cef_severity :: "string \<Rightarrow> int" where
  "cef_severity s =
     (if s = ''critical'' then 10 else if s = ''high'' then 8 else if s = ''medium'' then 6 else if s = ''low'' then 4 else 0)"

definition cef_line :: "string \<Rightarrow> log_entry \<Rightarrow> string" where
  "cef_line version e =
     (let severity = itoa (cef_severity (lo_severity e)) in
      ''CEF:0|FortressWAF|'' @ version @ ''|'' @ lo_rule_id e @ ''|'' @ severity @ ''|'' @ lo_rule_name e @ ''|'' @ severity @
      ''|src='' @ lo_ip e @ '' dhost='' @ lo_site e @ '' request='' @ lo_method e @ '' '' @ lo_path e @ '' msg='' @ lo_action e)"

definition export_logs :: "api_env \<Rightarrow> api_request \<Rightarrow> 'w api \<Rightarrow> log_export api_reply" where
  "export_logs env r st =
     (let format = (if query_get r ''format'' = [] then ''json'' else query_get r ''format'');
          es = filter (in_period (time_bound env (query_get r ''from'')) (time_bound env (query_get r ''to''))) (ap_logs st)
      in if format = ''json'' then ok (ExportJson es)
         else if format = ''csv'' then ok (ExportCsv (csv_header # map (csv_row env) es))
         else if format = ''cef'' then ok (ExportCef (map (cef_line (ap_version st)) es))
         else bad_request (Fmt ''unsupported format: %s'' [AStr format]))"

section \<open>Statistics\<close>

definition counted_once_more :: "'k \<Rightarrow> ('k \<rightharpoonup> int) \<Rightarrow> ('k \<rightharpoonup> int)" where
  "counted_once_more k m = m(k \<mapsto> map_get m k 0 + 1)"

definition window_start :: "int \<Rightarrow> gotime \<Rightarrow> gotime" where
  "window_start window now = now + int64 (- int64 (window * minute))"

definition since :: "gotime \<Rightarrow> log_entry list \<Rightarrow> log_entry list" where
  "since t es = filter (\<lambda>e. \<not> lo_time e < t) es"

definition truncate_time :: "duration \<Rightarrow> gotime \<Rightarrow> gotime" where
  "truncate_time d t = (if d \<le> 0 then t else t - (t - zero_time) mod d)"

text \<open>A quotient of two float64 values is missing when it is not finite: then nothing at all is encoded.\<close>

record traffic =
  tr_window :: int
  tr_total :: int
  tr_blocked :: int
  tr_rate :: "rat option"
  tr_latency :: rat
  tr_bandwidth :: int
  tr_status :: "int \<rightharpoonup> int"
  tr_method :: "string \<rightharpoonup> int"
  tr_timeline :: "string \<rightharpoonup> int"

definition traffic_stats :: "api_env \<Rightarrow> gotime \<Rightarrow> api_request \<Rightarrow> 'w api \<Rightarrow> traffic api_reply" where
  "traffic_stats env now r st =
     (let window = query_int r ''window'' 60; es = since (window_start window now) (ap_logs st); total = int (length es);
          latency = fold (\<lambda>e a. int64 (a + lo_latency e)) es 0; seconds = int64 (window * 60);
          bucket = (\<lambda>e. ax_format_time env (truncate_time (int64 (go_div window 12 * minute)) (lo_time e)))
      in ok \<lparr>tr_window = window, tr_total = total, tr_blocked = int (length (filter (\<lambda>e. lo_action e = ''block'') es)),
             tr_rate = (if seconds = 0 then None else Some (of_int total / of_int seconds)),
             tr_latency = (if 0 < total then of_int latency / of_int total else 0), tr_bandwidth = 1024 * total,
             tr_status = fold (\<lambda>e. counted_once_more (lo_status e)) es Map.empty,
             tr_method = fold (\<lambda>e. counted_once_more (lo_method e)) es Map.empty,
             tr_timeline = fold (\<lambda>e. counted_once_more (bucket e)) es Map.empty\<rparr>)"

record attacks =
  at_window :: int
  at_type :: "string \<rightharpoonup> int"
  at_country :: "string \<rightharpoonup> int"
  at_endpoint :: "string \<rightharpoonup> int"

definition attack_stats :: "gotime \<Rightarrow> api_request \<Rightarrow> 'w api \<Rightarrow> attacks api_reply" where
  "attack_stats now r st =
     (let window = query_int r ''window'' 60;
          es = filter (\<lambda>e. lo_action e = ''block'' \<or> lo_action e = ''challenge'') (since (window_start window now) (ap_logs st))
      in ok \<lparr>at_window = window, at_type = fold (\<lambda>e. counted_once_more (lo_severity e)) es Map.empty,
             at_country = fold (\<lambda>e. counted_once_more (lo_country e)) (filter (\<lambda>e. lo_country e \<noteq> []) es) Map.empty,
             at_endpoint = fold (\<lambda>e. counted_once_more (lo_path e)) (filter (\<lambda>e. lo_path e \<noteq> []) es) Map.empty\<rparr>)"

text \<open>The two nested loops that exchange elements: the inner one brings the largest key to the front.\<close>

fun exchange_pass :: "('a \<Rightarrow> int) \<Rightarrow> 'a \<Rightarrow> 'a list \<Rightarrow> 'a \<times> 'a list" where
  "exchange_pass key x [] = (x, [])"
| "exchange_pass key x (y # ys) =
     (if key x < key y then (let (m, zs) = exchange_pass key y ys in (m, x # zs))
      else (let (m, zs) = exchange_pass key x ys in (m, y # zs)))"

lemma length_exchange_pass: "length (snd (exchange_pass key x ys)) = length ys"
  by (induction ys arbitrary: x) (simp_all add: split_beta)

function exchange_sort :: "('a \<Rightarrow> int) \<Rightarrow> 'a list \<Rightarrow> 'a list" where
  "exchange_sort key [] = []"
| "exchange_sort key (x # xs) = (case exchange_pass key x xs of (m, ys) \<Rightarrow> m # exchange_sort key ys)"
  by pat_completeness auto
termination
  by (relation "measure (length \<circ> snd)") (auto, metis length_exchange_pass lessI snd_conv)

definition top_list :: "int \<Rightarrow> 'a list \<Rightarrow> 'a list api_reply" where
  "top_list limit rs =
     (if limit < int (length rs)
      then (case go_slice rs 0 limit of Inl p \<Rightarrow> Crashed p | Inr best \<Rightarrow> Paged best (int (length best)) 1)
      else Paged rs (int (length rs)) 1)"

record endpoint_result =
  en_path :: string
  en_total :: int
  en_blocked :: int

definition endpoint_of :: "log_entry list \<Rightarrow> string \<Rightarrow> endpoint_result" where
  "endpoint_of es p =
     \<lparr>en_path = p, en_total = int (length (filter (\<lambda>e. lo_path e = p) es)),
      en_blocked = int (length (filter (\<lambda>e. lo_path e = p \<and> lo_action e = ''block'') es))\<rparr>"

definition top_endpoints :: "api_env \<Rightarrow> gotime \<Rightarrow> api_request \<Rightarrow> 'w api \<Rightarrow> endpoint_result list api_reply" where
  "top_endpoints env now r st =
     (let es = since (window_start (query_int r ''window'' 60) now) (ap_logs st)
      in top_list (query_int r ''limit'' 20)
           (exchange_sort en_blocked (map (endpoint_of es) (ax_order env (remdups (map lo_path es))))))"

record ip_result =
  ti_ip :: string
  ti_total :: int
  ti_blocked :: int
  ti_last :: string
  ti_countries :: "string list"

definition ip_of :: "api_env \<Rightarrow> log_entry list \<Rightarrow> string \<Rightarrow> ip_result" where
  "ip_of env es ip =
     (let mine = filter (\<lambda>e. lo_ip e = ip) es
      in \<lparr>ti_ip = ip, ti_total = int (length mine),
          ti_blocked = int (length (filter (\<lambda>e. lo_action e = ''block'') mine)),
          ti_last = ax_format_time env (fold (\<lambda>e t. if t < lo_time e then lo_time e else t) mine zero_time),
          ti_countries = ax_order env (remdups (filter (\<lambda>c. c \<noteq> []) (map lo_country mine)))\<rparr>)"

definition top_ips :: "api_env \<Rightarrow> gotime \<Rightarrow> api_request \<Rightarrow> 'w api \<Rightarrow> ip_result list api_reply" where
  "top_ips env now r st =
     (let es = since (window_start (query_int r ''window'' 60) now) (ap_logs st)
      in top_list (query_int r ''limit'' 20)
           (exchange_sort ti_blocked (map (ip_of env es) (ax_order env (remdups (map lo_ip es))))))"

record country_stat =
  cs_country :: string
  cs_requests :: int
  cs_blocked :: int
  cs_percent :: rat

definition country_key :: "log_entry \<Rightarrow> string" where
  "country_key e = (if lo_country e = [] then ''unknown'' else lo_country e)"

definition country_of :: "log_entry list \<Rightarrow> string \<Rightarrow> country_stat" where
  "country_of es c =
     (let total = int (length (filter (\<lambda>e. country_key e = c) es));
          blocked = int (length (filter (\<lambda>e. country_key e = c \<and> lo_action e = ''block'') es))
      in \<lparr>cs_country = c, cs_requests = total, cs_blocked = blocked,
          cs_percent = (if 0 < total then of_int blocked / of_int total * 100 else 0)\<rparr>)"

definition geo_stats :: "api_env \<Rightarrow> gotime \<Rightarrow> api_request \<Rightarrow> 'w api \<Rightarrow> (int \<times> country_stat list \<times> (string \<rightharpoonup> int)) api_reply" where
  "geo_stats env now r st =
     (let window = query_int r ''window'' 1440; es = since (window_start window now) (ap_logs st)
      in ok (window, map (country_of es) (ax_order env (remdups (map country_key es))),
             fold (\<lambda>e. counted_once_more (lo_action e)) es Map.empty))"

section \<open>What the store keeps\<close>

definition drained :: "log_entry list \<Rightarrow> 'w api \<Rightarrow> 'w api" where
  "drained es st = fold drain_log_channel es st"

lemma keep_entry_suffix:
  assumes "logs = drop k es" and "length logs \<le> 100000" and "min (length es) 50000 \<le> length logs"
    and "length es \<le> 100000 \<longrightarrow> k = 0"
  shows "\<exists>k'. keep_entry logs e = drop k' (es @ [e]) \<and> length (keep_entry logs e) \<le> 100000 \<and>
    min (length (es @ [e])) 50000 \<le> length (keep_entry logs e) \<and> (length (es @ [e]) \<le> 100000 \<longrightarrow> k' = 0)"
proof (cases "length logs = 100000")
  case True
  then have "k \<le> length es" using assms(1) by simp
  moreover have "keep_entry logs e = drop 50001 (logs @ [e])" using True by (simp add: keep_entry_def)
  ultimately have "keep_entry logs e = drop (50001 + k) (es @ [e])"
    using assms(1) by simp
  moreover have "length (keep_entry logs e) = 50000" using True by (simp add: keep_entry_def)
  moreover have "\<not> length (es @ [e]) \<le> 100000" using True assms(1) by simp
  ultimately show ?thesis by (intro exI [of _ "50001 + k"]) simp
next
  case False
  then have keep: "keep_entry logs e = logs @ [e]" using assms(2) by (simp add: keep_entry_def)
  have "k = 0 \<or> k \<le> length es"
    using assms(1,3,4) by (cases "es = []"; cases "k \<le> length es") (auto simp: min_def split: if_splits)
  then have "logs @ [e] = drop k (es @ [e])" using assms(1) by auto
  then have "keep_entry logs e = drop k (es @ [e]) \<and> (length (es @ [e]) \<le> 100000 \<longrightarrow> k = 0)"
    using keep assms(4) by simp
  moreover have "length (keep_entry logs e) \<le> 100000 \<and> min (length (es @ [e])) 50000 \<le> length (keep_entry logs e)"
    using keep False assms(2,3) by simp
  ultimately show ?thesis by blast
qed

text \<open>
  Property C31. However many entries have come in, the store is the end of their sequence: never more than 100000 entries, at
  least the last 50000, and all of them while there were at most 100000.
\<close>

theorem log_store_keeps_recent:
  assumes "ap_logs st = []"
  shows "\<exists>k. ap_logs (drained es st) = drop k es \<and> length (ap_logs (drained es st)) \<le> 100000 \<and>
    min (length es) 50000 \<le> length (ap_logs (drained es st)) \<and> (length es \<le> 100000 \<longrightarrow> k = 0)"
proof (induction es rule: rev_induct)
  case (snoc e es)
  have "ap_logs (drained (es @ [e]) st) = keep_entry (ap_logs (drained es st)) e"
    by (simp add: drained_def drain_log_channel_def)
  with snoc keep_entry_suffix [where e = e and es = es and logs = "ap_logs (drained es st)"] show ?case by metis
qed (use assms in \<open>simp add: drained_def\<close>)

section \<open>Pages\<close>

abbreviation query_hits :: "api_env \<Rightarrow> api_request \<Rightarrow> 'w api \<Rightarrow> log_entry list" where
  "query_hits env r st \<equiv> filter (queried env r) (ap_logs st)"

lemma parse_int64_range: "parse_int64 s = Some v \<Longrightarrow> - 9223372036854775808 \<le> v \<and> v \<le> 9223372036854775807"
  by (auto simp: parse_int64_def Let_def split: option.splits prod.splits if_splits)

lemma query_int_range: "- 9223372036854775808 \<le> query_int r p d \<and> query_int r p d \<le> 9223372036854775807"
  if "- 9223372036854775808 \<le> d" "d \<le> 9223372036854775807"
  using that parse_int64_range by (auto simp: query_int_def Let_def split: option.splits)

lemma page_slice:
  assumes "0 \<le> from" "from < int (length xs)" "length xs < 9223372036854774000" "- 9223372036854775808 \<le> limit"
  shows "go_slice xs from (min (int (length xs)) (int64 (from + min 1000 limit))) =
    (if limit < 0 then Inl SliceBounds else Inr (take (nat (min 1000 limit)) (drop (nat from) xs)))"
proof -
  have sum: "int64 (from + min 1000 limit) = from + min 1000 limit" using assms by (intro int64_id) auto
  show ?thesis
  proof (cases "limit < 0")
    case False
    let ?e = "min (int (length xs)) (from + min 1000 limit)"
    have "take (nat ?e - nat from) (drop (nat from) xs) = take (nat (min 1000 limit)) (drop (nat from) xs)"
    proof (cases "int (length xs) \<le> from + min 1000 limit")
      case True
      then have "length (drop (nat from) xs) \<le> nat ?e - nat from" "length (drop (nat from) xs) \<le> nat (min 1000 limit)" 
        using assms(1,2) by auto
      then show ?thesis by simp
    next
      case le: False
      then have "nat ?e - nat from = nat (min 1000 limit)" using assms(1) False by (simp add: min_def nat_diff_distrib)
      then show ?thesis by simp
    qed
    then show ?thesis using False assms(1,2) by (simp add: sum go_slice_def)
  qed (use assms(2) sum in \<open>simp add: go_slice_def\<close>)
qed

text \<open>
  A query of the log panics exactly when the limit is zero, or when it is negative, or the offset is, and the
  offset does not lie beyond the hits.
\<close>

lemma log_query_crash_iff:
  assumes "length (ap_logs st) < 9223372036854774000"
  shows "(\<exists>p. query_logs env r st = Crashed p) \<longleftrightarrow>
    query_int r ''limit'' 100 = 0 \<or>
    (query_int r ''limit'' 100 < 0 \<or> query_int r ''offset'' 0 < 0) \<and>
      query_int r ''offset'' 0 < int (length (filter (queried env r) (ap_logs st)))"
proof -
  let ?l = "query_int r ''limit'' 100" and ?o = "query_int r ''offset'' 0" and ?es = "query_hits env r st"
  have n: "length ?es < 9223372036854774000" using assms length_filter_le by (metis le_less_trans)
  have l: "- 9223372036854775808 \<le> ?l" using query_int_range [of 100 r "''limit''"] by simp
  consider (beyond) "int (length ?es) \<le> ?o" | (negative) "?o < 0" "\<not> int (length ?es) \<le> ?o"
    | (inside) "0 \<le> ?o" "?o < int (length ?es)" by linarith
  then show ?thesis
  proof cases
    case beyond
    then show ?thesis by (auto simp: query_logs_def Let_def min_def)
  next
    case negative
    then show ?thesis by (simp add: query_logs_def Let_def go_slice_def)
  next
    case inside
    then show ?thesis by (auto simp: query_logs_def Let_def page_slice [OF inside n l])
  qed
qed

text \<open>The request for page \<open>k\<close> with \<open>n\<close> entries of the query \<open>r\<close>.\<close>

definition page_request :: "api_request \<Rightarrow> nat \<Rightarrow> nat \<Rightarrow> api_request \<Rightarrow> bool" where
  "page_request r n k q =
     (query_int q ''limit'' 100 = int n \<and> query_int q ''offset'' 0 = int k * int n \<and>
      (\<forall>p\<in>set [''site'', ''action'', ''severity'', ''from'', ''to'']. query_get q p = query_get r p))"

lemma concat_pages: "concat (map (\<lambda>k. take n (drop (k * n) xs)) [0..<m]) = take (m * n) xs"
  by (induction m) (simp_all add: take_add add.commute [of n])

lemma page_answer:
  assumes "page_request r n k q" and "1 \<le> n" and "n \<le> 1000" and "length (ap_logs st) < 9223372036854774000"
    and "int k < 9223372036854775807"
  shows "query_logs env q st = Paged (take n (drop (k * n) (query_hits env r st))) (int (length (query_hits env r st))) (int k + 1)"
proof -
  have same: "queried env q = queried env r"
    using assms(1) by (auto simp: page_request_def queried_def fun_eq_iff Let_def)
  have l: "query_int q ''limit'' 100 = int n" and o: "query_int q ''offset'' 0 = int (k * n)"
    using assms(1) by (simp_all add: page_request_def)
  have few: "length (query_hits env r st) < 9223372036854774000" using assms(4) length_filter_le by (metis le_less_trans)
  have page: "int64 (go_div (int (k * n)) (int n) + 1) = int k + 1" using assms(2,5) by (simp add: int64_id)
  have n: "min 1000 (int n) = int n" using assms(3) by simp
  show ?thesis
  proof (cases "int (length (query_hits env r st)) \<le> int (k * n)")
    case True
    then have "drop (k * n) (query_hits env r st) = []" by (simp only: of_nat_le_iff drop_all)
    with True show ?thesis using assms(2) page by (simp add: query_logs_def same l o n Let_def del: of_nat_mult)
  next
    case False
    then have "go_slice (query_hits env r st) (int (k * n)) (min (int (length (query_hits env r st))) (int64 (int (k * n) + min 1000 (int n))))
        = Inr (take n (drop (k * n) (query_hits env r st)))"
      using page_slice [of "int (k * n)" "query_hits env r st" "int n"] few assms(3) by (simp del: of_nat_mult add: n)
    with False show ?thesis using assms(2) page by (simp add: query_logs_def same l o n Let_def del: of_nat_mult)
  qed
qed

text \<open>
  Asking for one page after the other gives every hit of a query once and in order: the pages of any size from 1
  to 1000, numbered from 1, join up to the hits when they are enough.
\<close>

lemma log_pages_cover:
  assumes "\<forall>k<m. page_request r n k (q k)" and "1 \<le> n" and "n \<le> 1000" and "length (ap_logs st) < 9223372036854774000"
    and "length (filter (queried env r) (ap_logs st)) \<le> m * n" and "int m < 9223372036854775807"
  shows "\<exists>pages. length pages = m \<and>
    (\<forall>k<m. query_logs env (q k) st = Paged (pages ! k) (int (length (filter (queried env r) (ap_logs st)))) (int k + 1)) \<and>
    concat pages = filter (queried env r) (ap_logs st)"
proof -
  let ?pages = "map (\<lambda>k. take n (drop (k * n) (query_hits env r st))) [0..<m]"
  have "query_logs env (q k) st = Paged (?pages ! k) (int (length (query_hits env r st))) (int k + 1)" if "k < m" for k
    using page_answer [of r n k "q k" st env] that assms by simp
  moreover have "concat ?pages = query_hits env r st" using assms(5) by (simp add: concat_pages)
  ultimately show ?thesis by (intro exI [of _ ?pages]) simp
qed

section \<open>The most blocked\<close>

lemma exchange_pass_mset: "exchange_pass key x ys = (m, zs) \<Longrightarrow> add_mset m (mset zs) = add_mset x (mset ys)"
proof (induction ys arbitrary: x m zs)
  case (Cons y ys)
  then show ?case by (auto split: if_splits prod.splits)
qed simp

lemma exchange_pass_greatest: "exchange_pass key x ys = (m, zs) \<Longrightarrow> key x \<le> key m \<and> (\<forall>y\<in>set zs. key y \<le> key m)"
proof (induction ys arbitrary: x m zs)
  case (Cons y ys)
  then show ?case by (force split: if_splits prod.splits)
qed simp

lemma exchange_sort_mset: "mset (exchange_sort key xs) = mset xs"
proof (induction key xs rule: exchange_sort.induct)
  case (2 key x xs)
  obtain m ys where p: "exchange_pass key x xs = (m, ys)" by fastforce
  with 2 exchange_pass_mset [OF p] show ?case by simp
qed simp

lemma exchange_sort_sorted: "sorted_wrt (\<lambda>x y. key y \<le> key x) (exchange_sort key xs)"
proof (induction key xs rule: exchange_sort.induct)
  case (2 key x xs)
  obtain m ys where p: "exchange_pass key x xs = (m, ys)" by fastforce
  have "set (exchange_sort key ys) = set ys" using exchange_sort_mset [of key ys] by (metis set_mset_mset)
  with 2 p exchange_pass_greatest [OF p] show ?case by simp
qed simp

lemma top_list_take:
  assumes "0 \<le> limit"
  shows "top_list limit rs = Paged (take (nat limit) rs) (int (length (take (nat limit) rs))) 1"
  using assms by (auto simp: top_list_def go_slice_def)

text \<open>
  Property C32. The most blocked paths: for a limit that is not negative the answer has as many entries as were asked for, or one for every path of the window;
  each path occurs once with its true counts, the entries descend by the number of blocked requests, and no path that is left
  out was blocked more often than one that is listed.
\<close>

theorem top_endpoints_are_most_blocked:
  assumes "\<forall>ks. mset (ax_order env ks) = mset ks" and "0 \<le> query_int r ''limit'' 20"
    and "es = since (window_start (query_int r ''window'' 60) now) (ap_logs st)"
  shows "\<exists>rs. top_endpoints env now r st = Paged rs (int (length rs)) 1 \<and>
    length rs = min (nat (query_int r ''limit'' 20)) (card (lo_path ` set es)) \<and> distinct (map en_path rs) \<and>
    (\<forall>x\<in>set rs. x = endpoint_of es (en_path x)) \<and> sorted_wrt (\<lambda>x y. en_blocked y \<le> en_blocked x) rs \<and>
    (\<forall>p\<in>lo_path ` set es - en_path ` set rs. \<forall>x\<in>set rs. en_blocked (endpoint_of es p) \<le> en_blocked x)"
proof -
  let ?n = "nat (query_int r ''limit'' 20)" and ?keys = "ax_order env (remdups (map lo_path es))"
  define found where "found = exchange_sort en_blocked (map (endpoint_of es) ?keys)"
  have paths: "en_path \<circ> endpoint_of es = id" by (simp add: fun_eq_iff endpoint_of_def)
  have keys: "mset ?keys = mset (remdups (map lo_path es))" using assms(1) by blast
  then have keyset: "set ?keys = lo_path ` set es" and "distinct ?keys"
    by (metis set_mset_mset set_remdups set_map) (metis keys mset_eq_imp_distinct_iff distinct_remdups)
  have m: "mset found = mset (map (endpoint_of es) ?keys)" by (simp only: found_def exchange_sort_mset)
  then have "mset (map en_path found) = mset ?keys" using paths by (metis list.map_id map_map mset_map)
  then have names: "set (map en_path found) = lo_path ` set es" "distinct (map en_path found)"
    using keyset \<open>distinct ?keys\<close> mset_eq_imp_distinct_iff by (metis set_mset_mset, blast)
  have "set found = endpoint_of es ` lo_path ` set es" using m keyset by (metis set_mset_mset set_map)
  then have true: "\<forall>x\<in>set found. x = endpoint_of es (en_path x)" using paths by (auto simp: endpoint_of_def)
  have cut: "sorted_wrt (\<lambda>x y. en_blocked y \<le> en_blocked x) (take ?n found @ drop ?n found)"
    unfolding found_def by (simp add: exchange_sort_sorted)
  have "length found = card (lo_path ` set es)" using names distinct_card by (metis length_map)
  then have "length (take ?n found) = min ?n (card (lo_path ` set es))" by simp
  moreover have "top_endpoints env now r st = Paged (take ?n found) (int (length (take ?n found))) 1"
    using top_list_take [OF assms(2)] by (simp add: top_endpoints_def Let_def found_def assms(3))
  moreover have "distinct (map en_path (take ?n found))" using names(2) by (metis distinct_take take_map)
  moreover have "\<forall>x\<in>set (take ?n found). x = endpoint_of es (en_path x)" using true by (meson in_set_takeD)
  moreover have "en_blocked (endpoint_of es p) \<le> en_blocked x"
    if "p \<in> lo_path ` set es - en_path ` set (take ?n found)" and "x \<in> set (take ?n found)" for p x
  proof -
    have "p \<in> en_path ` set found" using that(1) names(1) by simp
    then obtain y where y: "y \<in> set found" "en_path y = p" by blast
    then have "y \<in> set (drop ?n found)" using that(1) by (metis Diff_iff Un_iff append_take_drop_id imageI set_append)
    then have "en_blocked y \<le> en_blocked x" using cut that(2) unfolding sorted_wrt_append by blast
    with y true show ?thesis by metis
  qed
  moreover have "sorted_wrt (\<lambda>x y. en_blocked y \<le> en_blocked x) (take ?n found)"
    using cut unfolding sorted_wrt_append by blast
  ultimately show ?thesis by blast
qed

section \<open>Witnesses\<close>

abbreviation demo_logged :: "unit api" where
  "demo_logged \<equiv> demo_api\<lparr>ap_logs := [demo_log_entry 0 ''/a'', demo_log_entry 1 ''/b'', demo_log_entry 2 ''/a'']\<rparr>"

lemma log_store_keeps_recent_witness:
  "\<exists>k. ap_logs (drained (replicate 200000 (demo_log_entry 0 ''/'')) demo_api) = drop k (replicate 200000 (demo_log_entry 0 ''/'')) \<and>
    length (ap_logs (drained (replicate 200000 (demo_log_entry 0 ''/'')) demo_api)) \<le> 100000"
  using log_store_keeps_recent [OF demo_api_sel(1), of "replicate 200000 (demo_log_entry 0 ''/'')"] by auto

lemma demo_limit [simp]:
  "query_int (demo_call [(''limit'', ''0'')] []) ''limit'' 100 = 0" "query_int (demo_call [] []) ''limit'' 100 = 100"
  by code_simp+

lemma log_query_crash_iff_witness: "\<exists>p. query_logs demo_api_env (demo_call [(''limit'', ''0'')] []) demo_logged = Crashed p"
  using log_query_crash_iff [of demo_logged demo_api_env "demo_call [(''limit'', ''0'')] []"] by simp

lemma log_pages_cover_witness:
  "\<exists>pages. length pages = 2 \<and> concat pages = filter (queried demo_api_env (demo_call [] [])) (ap_logs demo_logged)"
proof -
  let ?q = "\<lambda>k::nat. demo_call [(''limit'', ''2''), (''offset'', if k = 0 then ''0'' else ''2'')] []" and ?r = "demo_call [] []"
  have "page_request ?r 2 0 (?q 0)" "page_request ?r 2 1 (?q 1)" by code_simp+
  then have pages: "\<forall>k<2. page_request ?r 2 k (?q k)" by (simp add: less_2_cases_iff)
  have "length (filter (queried demo_api_env ?r) (ap_logs demo_logged)) \<le> length (ap_logs demo_logged)" by (rule length_filter_le)
  then show ?thesis using log_pages_cover [OF pages, of demo_logged demo_api_env] by auto
qed

lemma top_endpoints_are_most_blocked_witness:
  "\<exists>rs. top_endpoints demo_api_env 2 (demo_call [] []) demo_logged = Paged rs (int (length rs)) 1 \<and>
    sorted_wrt (\<lambda>x y. en_blocked y \<le> en_blocked x) rs"
proof -
  have "0 \<le> query_int (demo_call [] []) ''limit'' 20" by code_simp
  then show ?thesis
    using top_endpoints_are_most_blocked [of demo_api_env "demo_call [] []" _ 2 demo_logged] by (auto simp: demo_api_env_def)
qed

end
