(* ===== verification/ApiStore.thy ===== *)
theory ApiStore
  imports ApiSites
begin

text \<open>
  The handlers of \<^verbatim>\<open>internal/api/handlers.go\<close> for virtual patches, tenants, alerts and their channels: the lists that the
  handlers keep in memory. Identifiers drawn at random and the time of day are arguments.
\<close>

datatype store_data =
    DPatches "patch_record list" | DPatch patch_record | DTenants "tenant_record list" | DTenant tenant_record
  | DAlerts "alert_record list" | DAlert alert_record | DAlertConfig alert_config
  | DChannels "alert_channel list" | DChannel alert_channel | DGone string

section \<open>Virtual patches\<close>

definition list_patches :: "api_request \<Rightarrow> 'w api \<Rightarrow> store_data api_reply" where
  "list_patches r st =
     (let status = query_get r ''status''; ps = filter (\<lambda>p. status = [] \<or> pt_status p = status) (ap_patches st)
      in Paged (DPatches ps) (int (length ps)) 1)"

record patch_request =
  qp_name :: string
  qp_description :: string
  qp_cve :: string
  qp_severity :: string
  qp_rules :: "rule_request list"

definition patch_fields :: "patch_request field list" where
  "patch_fields =
     [string_field ''name'' (\<lambda>v q. q\<lparr>qp_name := v\<rparr>), string_field ''description'' (\<lambda>v q. q\<lparr>qp_description := v\<rparr>),
      string_field ''cve'' (\<lambda>v q. q\<lparr>qp_cve := v\<rparr>), string_field ''severity'' (\<lambda>v q. q\<lparr>qp_severity := v\<rparr>),
      slice_field (strict_struct rule_fields no_rule_request) ''rules'' (\<lambda>v q. q\<lparr>qp_rules := v\<rparr>)]"

definition no_patch_request :: patch_request where
  "no_patch_request = \<lparr>qp_name = [], qp_description = [], qp_cve = [], qp_severity = [], qp_rules = []\<rparr>"

definition patch_rule :: "rule_request \<Rightarrow> rule_config" where
  "patch_rule q =
     \<lparr>rg_id = qr_id q, rg_name = qr_name q, rg_description = [], rg_enabled = False, rg_severity = qr_severity q,
      rg_action = qr_action q, rg_phase = [], rg_priority = 0, rg_field = qr_field q, rg_operator = qr_operator q,
      rg_value = qr_value q, rg_transform = or_empty (qr_transform q), rg_tags = or_empty (qr_tags q), rg_params = []\<rparr>"

definition create_patch :: "string \<Rightarrow> gotime \<Rightarrow> api_request \<Rightarrow> 'w api \<Rightarrow> 'w api \<times> store_data api_reply" where
  "create_patch uuid now r st =
     (case read_json_strict patch_fields no_patch_request r of
        None \<Rightarrow> (st, bad_json)
      | Some q \<Rightarrow>
          if qp_name q = [] then (st, bad_request (Lit ''name is required''))
          else if qp_rules q = [] then (st, bad_request (Lit ''at least one rule is required''))
          else
            (let p = \<lparr>pt_id = ''PATCH-'' @ take 8 uuid, pt_name = qp_name q, pt_description = qp_description q, pt_cve = qp_cve q,
                      pt_severity = qp_severity q, pt_rules = map patch_rule (qp_rules q), pt_status = ''draft'',
                      pt_created = now, pt_deployed = zero_time\<rparr>
             in (st\<lparr>ap_patches := ap_patches st @ [p]\<rparr>, created_reply (DPatch p))))"

definition find_patch :: "string \<Rightarrow> 'w api \<Rightarrow> patch_record option" where
  "find_patch i st = find (\<lambda>p. pt_id p = i) (ap_patches st)"

definition change_patch :: "string \<Rightarrow> (patch_record \<Rightarrow> patch_record) \<Rightarrow> 'w api \<Rightarrow> 'w api" where
  "change_patch i f st = st\<lparr>ap_patches := change_first (\<lambda>p. pt_id p = i) f (ap_patches st)\<rparr>"

definition get_patch :: "api_request \<Rightarrow> 'w api \<Rightarrow> store_data api_reply" where
  "get_patch r st = (case find_patch (path_param r ''id'') st of None \<Rightarrow> not_found_reply (Lit ''patch not found'') | Some p \<Rightarrow> ok (DPatch p))"

definition add_patch_rules :: "patch_record \<Rightarrow> config \<Rightarrow> config" where
  "add_patch_rules p c = c\<lparr>cf_rules := cf_rules c @ pt_rules p\<rparr>"

definition apply_patch :: "api_env \<Rightarrow> gotime \<Rightarrow> api_request \<Rightarrow> 'w api \<Rightarrow> 'w api \<times> store_data api_reply" where
  "apply_patch env now r st =
     (let i = path_param r ''id'' in
      case find_patch i st of
        None \<Rightarrow> (st, not_found_reply (Lit ''patch not found''))
      | Some p \<Rightarrow>
          if pt_status p = ''deployed'' then (st, conflict (Lit ''patch already deployed''))
          else
            (case change_config env (add_patch_rules p) st of
               (st', Some e) \<Rightarrow> (st', bad_request (Fmt ''failed to deploy patch: %s'' []))
             | (st', None) \<Rightarrow>
                 (let p' = p\<lparr>pt_status := ''deployed'', pt_deployed := now\<rparr>
                  in (change_patch i (\<lambda>_. p') st', ok (DPatch p')))))"

definition drop_patch_rules :: "patch_record \<Rightarrow> config \<Rightarrow> config" where
  "drop_patch_rules p c = c\<lparr>cf_rules := filter (\<lambda>g. rg_id g \<notin> rg_id ` set (pt_rules p)) (cf_rules c)\<rparr>"

definition revoke_patch :: "api_env \<Rightarrow> api_request \<Rightarrow> 'w api \<Rightarrow> 'w api \<times> store_data api_reply" where
  "revoke_patch env r st =
     (let i = path_param r ''id'' in
      case find_patch i st of
        None \<Rightarrow> (st, not_found_reply (Lit ''patch not found''))
      | Some p \<Rightarrow>
          if pt_status p \<noteq> ''deployed'' then (st, bad_request (Lit ''patch is not deployed''))
          else
            (case change_config env (drop_patch_rules p) st of
               (st', Some e) \<Rightarrow> (st', bad_request (Fmt ''failed to revoke patch: %s'' []))
             | (st', None) \<Rightarrow>
                 (let p' = p\<lparr>pt_status := ''revoked''\<rparr>
                  in (change_patch i (\<lambda>_. p') st', ok (DPatch p')))))"

definition delete_patch :: "api_request \<Rightarrow> 'w api \<Rightarrow> 'w api \<times> store_data api_reply" where
  "delete_patch r st =
     (let i = path_param r ''id'' in
      case find_patch i st of
        None \<Rightarrow> (st, not_found_reply (Lit ''patch not found''))
      | Some p \<Rightarrow>
          if pt_status p = ''deployed'' then (st, bad_request (Lit ''cannot delete deployed patch, revoke first''))
          else (st\<lparr>ap_patches := remove_first (\<lambda>p. pt_id p = i) (ap_patches st)\<rparr>, ok (DGone i)))"

definition deploy_patch :: "api_env \<Rightarrow> gotime \<Rightarrow> api_request \<Rightarrow> 'w api \<Rightarrow> 'w api \<times> store_data api_reply" where
  "deploy_patch env now r st = apply_patch env now r st"

record coverage =
  cv_total :: int
  cv_patched :: int
  cv_unpatched :: int
  cv_percent :: rat
  cv_deployed :: "patch_record list"
  cv_draft :: "patch_record list"

text \<open>The items of the two lists show a patch without its rules, which are only counted.\<close>

definition patch_coverage :: "'w api \<Rightarrow> coverage api_reply" where
  "patch_coverage st =
     (let total = int (length (cf_rules (api_config st))); deployed = filter (\<lambda>p. pt_status p = ''deployed'') (ap_patches st);
          patched = int (card (\<Union>p\<in>set deployed. rg_id ` set (pt_rules p)))
      in ok \<lparr>cv_total = total, cv_patched = patched, cv_unpatched = total - patched,
             cv_percent = (if 0 < total then of_int patched / of_int total * 100 else 0), cv_deployed = deployed,
             cv_draft = filter (\<lambda>p. pt_status p \<noteq> ''deployed'') (ap_patches st)\<rparr>)"

section \<open>Tenants\<close>

definition list_tenants :: "'w api \<Rightarrow> store_data api_reply" where
  "list_tenants st = Paged (DTenants (ap_tenants st)) (int (length (ap_tenants st))) 1"

record tenant_request =
  qt_name :: string
  qt_description :: string
  qt_settings :: "json_map option"

definition tenant_fields :: "tenant_request field list" where
  "tenant_fields =
     [string_field ''name'' (\<lambda>v q. q\<lparr>qt_name := v\<rparr>), string_field ''description'' (\<lambda>v q. q\<lparr>qt_description := v\<rparr>),
      option_field json_map_value ''settings'' (\<lambda>v q. q\<lparr>qt_settings := v\<rparr>)]"

definition no_tenant_request :: tenant_request where
  "no_tenant_request = \<lparr>qt_name = [], qt_description = [], qt_settings = None\<rparr>"

definition create_tenant_handler :: "string \<Rightarrow> gotime \<Rightarrow> api_request \<Rightarrow> 'w api \<Rightarrow> 'w api \<times> store_data api_reply" where
  "create_tenant_handler uuid now r st =
     (case read_json_strict tenant_fields no_tenant_request r of
        None \<Rightarrow> (st, bad_json)
      | Some q \<Rightarrow>
          if qt_name q = [] then (st, bad_request (Lit ''name is required''))
          else if \<exists>t\<in>set (ap_tenants st). te_name t = qt_name q then (st, conflict (Lit ''tenant already exists''))
          else
            (let t = \<lparr>te_id = ''TENANT-'' @ take 8 uuid, te_name = qt_name q, te_description = qt_description q, te_enabled = True,
                      te_settings = qt_settings q, te_created = now, te_updated = now\<rparr>
             in (st\<lparr>ap_tenants := ap_tenants st @ [t]\<rparr>, created_reply (DTenant t))))"

definition get_tenant_handler :: "api_request \<Rightarrow> 'w api \<Rightarrow> store_data api_reply" where
  "get_tenant_handler r st =
     (case find (\<lambda>t. te_id t = path_param r ''id'') (ap_tenants st) of
        None \<Rightarrow> not_found_reply (Lit ''tenant not found'')
      | Some t \<Rightarrow> ok (DTenant t))"

definition updated_tenant :: "gotime \<Rightarrow> tenant_request \<Rightarrow> tenant_record \<Rightarrow> tenant_record" where
  "updated_tenant now q t =
     t\<lparr>te_name := unless_empty (qt_name q) (te_name t), te_description := unless_empty (qt_description q) (te_description t),
       te_settings := (case qt_settings q of None \<Rightarrow> te_settings t | Some v \<Rightarrow> Some v), te_updated := now\<rparr>"

definition update_tenant_handler :: "gotime \<Rightarrow> api_request \<Rightarrow> 'w api \<Rightarrow> 'w api \<times> store_data api_reply" where
  "update_tenant_handler now r st =
     (let i = path_param r ''id'' in
      case read_json_strict tenant_fields no_tenant_request r of
        None \<Rightarrow> (st, bad_json)
      | Some q \<Rightarrow>
          (case find (\<lambda>t. te_id t = i) (ap_tenants st) of
             None \<Rightarrow> (st, not_found_reply (Lit ''tenant not found''))
           | Some t \<Rightarrow>
               (st\<lparr>ap_tenants := change_first (\<lambda>t. te_id t = i) (updated_tenant now q) (ap_tenants st)\<rparr>,
                ok (DTenant (updated_tenant now q t)))))"

definition delete_tenant_handler :: "api_request \<Rightarrow> 'w api \<Rightarrow> 'w api \<times> store_data api_reply" where
  "delete_tenant_handler r st =
     (let i = path_param r ''id'' in
      if \<exists>t\<in>set (ap_tenants st). te_id t = i
      then (st\<lparr>ap_tenants := remove_first (\<lambda>t. te_id t = i) (ap_tenants st)\<rparr>, ok (DGone i))
      else (st, not_found_reply (Lit ''tenant not found'')))"

section \<open>Alerts\<close>

text \<open>A limit that cuts the list off, and panics when it is negative.\<close>

definition cut_off :: "int \<Rightarrow> 'a list \<Rightarrow> go_panic + 'a list" where
  "cut_off limit xs =
     (if limit < int (length xs) then (if limit < 0 then Inl SliceBounds else Inr (take (nat limit) xs)) else Inr xs)"

definition keep_alert :: "string \<Rightarrow> string \<Rightarrow> alert_record \<Rightarrow> bool" where
  "keep_alert severity acked a =
     ((severity = [] \<or> al_severity a = severity) \<and> (acked = ''true'' \<longrightarrow> al_acked a) \<and> (acked = ''false'' \<longrightarrow> \<not> al_acked a))"

definition list_alerts :: "api_request \<Rightarrow> 'w api \<Rightarrow> store_data api_reply" where
  "list_alerts r st =
     (case cut_off (query_int r ''limit'' 100) (filter (keep_alert (query_get r ''severity'') (query_get r ''acked'')) (ap_alerts st)) of
        Inl p \<Rightarrow> Crashed p
      | Inr as \<Rightarrow> Paged (DAlerts as) (int (length (ap_alerts st))) 1)"

record alert_request =
  qa_type :: string
  qa_severity :: string
  qa_message :: string
  qa_site :: string
  qa_rule_id :: string

definition alert_fields :: "alert_request field list" where
  "alert_fields =
     [string_field ''type'' (\<lambda>v q. q\<lparr>qa_type := v\<rparr>), string_field ''severity'' (\<lambda>v q. q\<lparr>qa_severity := v\<rparr>),
      string_field ''message'' (\<lambda>v q. q\<lparr>qa_message := v\<rparr>), string_field ''site'' (\<lambda>v q. q\<lparr>qa_site := v\<rparr>),
      string_field ''rule_id'' (\<lambda>v q. q\<lparr>qa_rule_id := v\<rparr>)]"

definition create_alert :: "string \<Rightarrow> gotime \<Rightarrow> api_request \<Rightarrow> 'w api \<Rightarrow> 'w api \<times> store_data api_reply" where
  "create_alert uuid now r st =
     (case read_json_strict alert_fields \<lparr>qa_type = [], qa_severity = [], qa_message = [], qa_site = [], qa_rule_id = []\<rparr> r of
        None \<Rightarrow> (st, bad_json)
      | Some q \<Rightarrow>
          if qa_type q = [] \<or> qa_message q = [] then (st, bad_request (Lit ''type and message are required''))
          else
            (let a = \<lparr>al_id = ''ALERT-'' @ take 8 uuid, al_type = qa_type q, al_severity = qa_severity q, al_message = qa_message q,
                      al_site = qa_site q, al_rule_id = qa_rule_id q, al_acked = False, al_created = now\<rparr>
             in (st\<lparr>ap_alerts := take 10000 (a # ap_alerts st)\<rparr>, created_reply (DAlert a))))"

definition update_alert :: "api_request \<Rightarrow> 'w api \<Rightarrow> 'w api \<times> store_data api_reply" where
  "update_alert r st =
     (let i = path_param r ''id'' in
      case read_json_strict [option_field json_bool_value ''acked'' (\<lambda>v _. v)] None r of
        None \<Rightarrow> (st, bad_json)
      | Some acked \<Rightarrow>
          (let f = (\<lambda>a. case acked of None \<Rightarrow> a | Some b \<Rightarrow> a\<lparr>al_acked := b\<rparr>) in
           case find (\<lambda>a. al_id a = i) (ap_alerts st) of
             None \<Rightarrow> (st, not_found_reply (Lit ''alert not found''))
           | Some a \<Rightarrow> (st\<lparr>ap_alerts := change_first (\<lambda>a. al_id a = i) f (ap_alerts st)\<rparr>, ok (DAlert (f a)))))"

definition alert_config_fields :: "alert_config field list" where
  "alert_config_fields =
     [int64_field ''threshold'' (\<lambda>v q. q\<lparr>ag_threshold := v\<rparr>), int64_field ''interval_seconds'' (\<lambda>v q. q\<lparr>ag_interval := v\<rparr>),
      option_field json_bool_value ''enabled'' (\<lambda>v q. q\<lparr>ag_active := v\<rparr>),
      option_field json_strings_value ''channels'' (\<lambda>v q. q\<lparr>ag_channels := v\<rparr>),
      option_field json_strings_value ''rules'' (\<lambda>v q. q\<lparr>ag_rules := v\<rparr>)]"

definition or_else :: "'a option \<Rightarrow> 'a option \<Rightarrow> 'a option" where
  "or_else new old = (case new of None \<Rightarrow> old | Some v \<Rightarrow> Some v)"

definition update_alert_config :: "api_request \<Rightarrow> 'w api \<Rightarrow> 'w api \<times> store_data api_reply" where
  "update_alert_config r st =
     (case read_json_strict alert_config_fields
             \<lparr>ag_threshold = 0, ag_interval = 0, ag_active = None, ag_channels = None, ag_rules = None\<rparr> r of
        None \<Rightarrow> (st, bad_json)
      | Some q \<Rightarrow>
          (let old = ap_alert_config st;
               new = \<lparr>ag_threshold = (if 0 < ag_threshold q then ag_threshold q else ag_threshold old),
                      ag_interval = (if 0 < ag_interval q then ag_interval q else ag_interval old),
                      ag_active = or_else (ag_active q) (ag_active old), ag_channels = or_else (ag_channels q) (ag_channels old),
                      ag_rules = or_else (ag_rules q) (ag_rules old)\<rparr>
           in (st\<lparr>ap_alert_config := new\<rparr>, ok (DAlertConfig new))))"

section \<open>Channels of alerts\<close>

definition list_alert_channels :: "'w api \<Rightarrow> store_data api_reply" where
  "list_alert_channels st = Paged (DChannels (ap_channels st)) (int (length (ap_channels st))) 1"

record channel_request =
  qc_name :: string
  qc_type :: string
  qc_active :: "bool option"
  qc_config :: "(string \<times> string) list option"

definition channel_fields :: "channel_request field list" where
  "channel_fields =
     [string_field ''name'' (\<lambda>v q. q\<lparr>qc_name := v\<rparr>), string_field ''type'' (\<lambda>v q. q\<lparr>qc_type := v\<rparr>),
      option_field json_bool_value ''enabled'' (\<lambda>v q. q\<lparr>qc_active := v\<rparr>),
      option_field string_map_value ''config'' (\<lambda>v q. q\<lparr>qc_config := v\<rparr>)]"

definition create_alert_channel :: "string \<Rightarrow> gotime \<Rightarrow> api_request \<Rightarrow> 'w api \<Rightarrow> 'w api \<times> store_data api_reply" where
  "create_alert_channel uuid now r st =
     (case read_json_strict channel_fields \<lparr>qc_name = [], qc_type = [], qc_active = None, qc_config = None\<rparr> r of
        None \<Rightarrow> (st, bad_json)
      | Some q \<Rightarrow>
          if qc_name q = [] \<or> qc_type q = [] then (st, bad_request (Lit ''name and type are required''))
          else
            (let c = \<lparr>ah_id = ''CH-'' @ take 8 uuid, ah_name = qc_name q, ah_type = qc_type q, ah_enabled = (qc_active q \<noteq> Some False),
                      ah_config = or_empty (qc_config q), ah_created = now\<rparr>
             in (st\<lparr>ap_channels := ap_channels st @ [c]\<rparr>, created_reply (DChannel c))))"

definition delete_alert_channel :: "api_request \<Rightarrow> 'w api \<Rightarrow> 'w api \<times> store_data api_reply" where
  "delete_alert_channel r st =
     (let i = path_param r ''id'' in
      if \<exists>c\<in>set (ap_channels st). ah_id c = i
      then (st\<lparr>ap_channels := remove_first (\<lambda>c. ah_id c = i) (ap_channels st)\<rparr>, ok (DGone i))
      else (st, not_found_reply (Lit ''alert channel not found'')))"

section \<open>Applying and revoking a patch\<close>

lemma find_change_first: "find P xs = Some x \<Longrightarrow> P y \<Longrightarrow> find P (change_first P (\<lambda>_. y) xs) = Some y"
  by (induction xs) (auto split: if_splits)

lemma change_patch_config [simp]: "api_config (change_patch i f st) = api_config st" "ap_rules (change_patch i f st) = ap_rules st"
  by (simp_all add: change_patch_def api_config_def)

lemma apply_patch_ok:
  assumes "apply_patch env now r st = (st', ok d)"
  obtains p st1 where "find_patch (path_param r ''id'') st = Some p" "change_config env (add_patch_rules p) st = (st1, None)"
    "st' = change_patch (path_param r ''id'') (\<lambda>_. p\<lparr>pt_status := ''deployed'', pt_deployed := now\<rparr>) st1"
    "d = DPatch (p\<lparr>pt_status := ''deployed'', pt_deployed := now\<rparr>)"
  using assms by (auto simp: apply_patch_def reply_defs Let_def split: option.splits if_splits prod.splits)

lemma revoke_patch_ok:
  assumes "revoke_patch env r st = (st', ok d)"
  obtains p st1 where "find_patch (path_param r ''id'') st = Some p" "change_config env (drop_patch_rules p) st = (st1, None)"
    "st' = change_patch (path_param r ''id'') (\<lambda>_. p\<lparr>pt_status := ''revoked''\<rparr>) st1" "d = DPatch (p\<lparr>pt_status := ''revoked''\<rparr>)"
  using assms by (auto simp: revoke_patch_def reply_defs Let_def split: option.splits if_splits prod.splits)

lemma find_patch_changed:
  assumes "find_patch i st = Some p" and "ap_patches st1 = ap_patches st" and "pt_id p' = i"
  shows "find_patch i (change_patch i (\<lambda>_. p') st1) = Some p'"
  using assms by (simp add: find_patch_def change_patch_def find_change_first)

lemma find_patch_id: "find_patch i st = Some p \<Longrightarrow> pt_id p = i"
  by (auto simp: find_patch_def find_Some_iff)

text \<open>
  Property C33. Applying a patch and revoking it again: the rule engine is never told, the configuration loses every rule that
  has an identifier of the patch, and it is the old one exactly when it had no such rule.
\<close>

theorem patch_roundtrip:
  assumes "apply_patch env now r st = (st1, ok (DPatch p))" and "revoke_patch env r2 st1 = (st2, ok (DPatch q))"
    and "path_param r2 ''id'' = path_param r ''id''"
  shows "ap_rules st1 = ap_rules st \<and> ap_rules st2 = ap_rules st \<and> pt_status q = ''revoked'' \<and>
    cf_rules (api_config st1) = cf_rules (api_config st) @ pt_rules p \<and>
    cf_rules (api_config st2) = filter (\<lambda>g. rg_id g \<notin> rg_id ` set (pt_rules p)) (cf_rules (api_config st)) \<and>
    (cf_rules (api_config st2) = cf_rules (api_config st) \<longleftrightarrow>
      rg_id ` set (cf_rules (api_config st)) \<inter> rg_id ` set (pt_rules p) = {})"
proof -
  let ?i = "path_param r ''id''" and ?cs = "cf_rules (api_config st)"
  obtain p0 s1 where a: "find_patch ?i st = Some p0" "change_config env (add_patch_rules p0) st = (s1, None)"
    "st1 = change_patch ?i (\<lambda>_. p0\<lparr>pt_status := ''deployed'', pt_deployed := now\<rparr>) s1"
    and "DPatch p = DPatch (p0\<lparr>pt_status := ''deployed'', pt_deployed := now\<rparr>)"
    by (rule apply_patch_ok [OF assms(1)])
  then have p: "p = p0\<lparr>pt_status := ''deployed'', pt_deployed := now\<rparr>" by simp
  have found: "find_patch ?i st1 = Some p"
    using find_patch_changed [OF a(1) change_config_frame(5) [OF a(2)], of p] find_patch_id [OF a(1)] a(3) p by simp
  obtain p1 s2 where "find_patch ?i st1 = Some p1" and b1: "change_config env (drop_patch_rules p1) st1 = (s2, None)"
    "st2 = change_patch ?i (\<lambda>_. p1\<lparr>pt_status := ''revoked''\<rparr>) s2" and "DPatch q = DPatch (p1\<lparr>pt_status := ''revoked''\<rparr>)"
    by (rule revoke_patch_ok [OF assms(2), unfolded assms(3)])
  then have b: "change_config env (drop_patch_rules p) st1 = (s2, None)" "st2 = change_patch ?i (\<lambda>_. q) s2"
    "q = p\<lparr>pt_status := ''revoked''\<rparr>" using found by simp_all
  have c1: "cf_rules (api_config st1) = ?cs @ pt_rules p" and e1: "ap_rules st1 = ap_rules st"
    using change_config_frame(1,2) [OF a(2)] a(3) p by (simp_all add: add_patch_rules_def)
  have "cf_rules (api_config st2) = filter (\<lambda>g. rg_id g \<notin> rg_id ` set (pt_rules p)) (?cs @ pt_rules p)" and e2: "ap_rules st2 = ap_rules st1"
    using change_config_frame(1,2) [OF b(1)] b(2) c1 by (simp_all add: drop_patch_rules_def)
  then have c2: "cf_rules (api_config st2) = filter (\<lambda>g. rg_id g \<notin> rg_id ` set (pt_rules p)) ?cs"
    by (simp add: filter_empty_conv)
  have "filter (\<lambda>g. rg_id g \<notin> rg_id ` set (pt_rules p)) ?cs = ?cs \<longleftrightarrow> rg_id ` set ?cs \<inter> rg_id ` set (pt_rules p) = {}"
    by (auto simp: filter_id_conv)
  then show ?thesis using c1 c2 e1 e2 b(3) by simp
qed

section \<open>Alerts\<close>

definition alert_run :: "(string \<times> gotime \<times> api_request) list \<Rightarrow> 'w api \<Rightarrow> 'w api" where
  "alert_run calls st = fold (\<lambda>(u, now, r) st. fst (create_alert u now r st)) calls st"

lemma alerts_bounded: "length (ap_alerts st) \<le> 10000 \<Longrightarrow> length (ap_alerts (alert_run calls st)) \<le> 10000"
proof (induction calls arbitrary: st)
  case (Cons c calls)
  have "length (ap_alerts (fst (create_alert u now r st))) \<le> 10000" for u now r
    using Cons.prems by (auto simp: create_alert_def Let_def split: option.splits)
  with Cons show ?case by (auto simp: alert_run_def split: prod.splits)
qed (simp add: alert_run_def)

section \<open>Witness\<close>

definition demo_patch :: "string \<Rightarrow> patch_record" where
  "demo_patch status = \<lparr>pt_id = ''r'', pt_name = ''n'', pt_description = [], pt_cve = [], pt_severity = [],
     pt_rules = [patch_rule (no_rule_request\<lparr>qr_id := ''x'', qr_field := ''ip.addr'', qr_operator := ''ip_match''\<rparr>)],
     pt_status = status, pt_created = 0, pt_deployed = 0\<rparr>"

lemma patch_roundtrip_witness:
  "\<exists>st1 st2 p q. apply_patch demo_api_env 0 (demo_call [] []) (demo_api\<lparr>ap_patches := [demo_patch ''draft'']\<rparr>) = (st1, ok (DPatch p)) \<and>
    revoke_patch demo_api_env (demo_call [] []) st1 = (st2, ok (DPatch q)) \<and> cf_rules (api_config st2) = cf_rules demo_config"
proof -
  let ?r = "demo_call [] []" and ?st = "demo_api\<lparr>ap_patches := [demo_patch ''draft'']\<rparr>" and ?i = "''r''"
  have i: "path_param ?r ''id'' = ?i" by (simp add: path_param_def demo_call_def)
  have status: "pt_status (demo_patch s) = s" for s by (simp add: demo_patch_def)
  have ok: "list_all rule_ok (pt_rules (demo_patch s))" for s
    by (simp add: demo_patch_def patch_rule_def rule_ok_def no_rule_request_def)
  have demo: "cf_rules demo_config = []" "cf_path demo_config = ''c''" "cm_on_change demo_manager = []"
    by (simp_all add: demo_config_def default_config_def demo_manager_def)
  let ?p = "demo_patch ''draft''\<lparr>pt_status := ''deployed'', pt_deployed := 0\<rparr>"
  have "api_config ?st = demo_config" by (simp add: api_config_def demo_manager_def)
  then have "\<exists>st'. change_config demo_api_env (add_patch_rules (demo_patch ''draft'')) ?st = (st', None) \<and>
      ap_patches st' = ap_patches ?st \<and> api_config st' = add_patch_rules (demo_patch ''draft'') demo_config \<and> cm_on_change (ap_mgr st') = []"
    using demo_change [of "add_patch_rules (demo_patch ''draft'')" ?st] demo_rules_valid ok
    by (simp add: add_patch_rules_def demo) (simp add: api_config_def)
  then obtain s1 where s1: "change_config demo_api_env (add_patch_rules (demo_patch ''draft'')) ?st = (s1, None)"
    "ap_patches s1 = [demo_patch ''draft'']" "api_config s1 = add_patch_rules (demo_patch ''draft'') demo_config"
    "cm_on_change (ap_mgr s1) = []" by auto
  let ?s1 = "change_patch ?i (\<lambda>_. ?p) s1"
  have "find_patch ?i ?st = Some (demo_patch ''draft'')" by (simp add: find_patch_def demo_patch_def)
  then have a: "apply_patch demo_api_env 0 ?r ?st = (?s1, ok (DPatch ?p))"
    using s1(1) by (simp add: apply_patch_def i status Let_def)
  have c1: "api_config ?s1 = add_patch_rules (demo_patch ''draft'') demo_config" "cm_on_change (ap_mgr ?s1) = []"
    using s1(3,4) by (simp_all add: change_patch_def api_config_def)
  have "drop_patch_rules ?p (add_patch_rules (demo_patch ''draft'') demo_config) = demo_config"
    by (simp add: drop_patch_rules_def add_patch_rules_def demo filter_empty_conv)
  then obtain s2 where s2: "change_config demo_api_env (drop_patch_rules ?p) ?s1 = (s2, None)"
    using demo_change [of "drop_patch_rules ?p" ?s1] c1 demo demo_config_valid by simp
  have "find_patch ?i ?s1 = Some ?p" using s1(2) by (simp add: find_patch_def change_patch_def demo_patch_def)
  then have "\<exists>st2 q. revoke_patch demo_api_env ?r ?s1 = (st2, ok (DPatch q))"
    using s2 by (auto simp: revoke_patch_def i Let_def)
  then obtain st2 q where b: "revoke_patch demo_api_env ?r ?s1 = (st2, ok (DPatch q))" by blast
  show ?thesis using patch_roundtrip [OF a b refl] a b demo by (auto simp: api_config_def demo_manager_def)
qed

end
