(* ===== verification/ApiServer.thy ===== *)
theory ApiServer
  imports ApiRules ApiLogs ApiStore
begin

text \<open>
  The remaining handlers of \<^verbatim>\<open>internal/api/handlers.go\<close> (configuration, system, sessions, keys and administration) and
  \<^verbatim>\<open>internal/api/server.go\<close>: the routes, and the middleware that admits a request to them.
\<close>

section \<open>Configuration\<close>

text \<open>What of a configuration is shown: of the keys only their number, and neither password nor data source.\<close>

record masked_config =
  mk_sites :: "site_config list"
  mk_rules :: "rule_config list"
  mk_logging :: logging_config
  mk_tls :: tls_config
  mk_admin :: "int \<times> bool \<times> bool \<times> int"
  mk_redis :: "bool \<times> string \<times> int \<times> int \<times> int"
  mk_ml :: ml_config
  mk_db :: "string \<times> int \<times> int"

definition mask_secrets :: "config \<Rightarrow> masked_config" where
  "mask_secrets c =
     (let a = cf_admin c; r = cf_redis c; d = cf_db c
      in \<lparr>mk_sites = cf_sites c, mk_rules = cf_rules c, mk_logging = cf_logging c, mk_tls = cf_tls c,
          mk_admin = (ad_port a, ad_enabled a, ad_mtls a, int (length (ad_api_keys a))),
          mk_redis = (rd_enabled r, rd_addr r, rd_db r, rd_pool_size r, rd_ttl r), mk_ml = cf_ml c,
          mk_db = (db_driver d, db_max_open d, db_max_idle d)\<rparr>)"

datatype setting = SInt int | SBool bool | SText string

datatype config_data =
    DMasked masked_config | DValid bool "gotext list" | DExport string | DImported
  | DDiff bool "(string \<times> setting \<times> setting) list"

definition get_config_handler :: "'w api \<Rightarrow> config_data api_reply" where
  "get_config_handler st = ok (DMasked (mask_secrets (api_config st)))"

text \<open>A member of an object, when it has the wanted type, replaces a setting.\<close>

definition set_text :: "json_map \<Rightarrow> string \<Rightarrow> string \<Rightarrow> string" where
  "set_text m k old = (case json_get m k of Some (JStr v) \<Rightarrow> v | _ \<Rightarrow> old)"

definition set_bool :: "json_map \<Rightarrow> string \<Rightarrow> bool \<Rightarrow> bool" where
  "set_bool m k old = (case json_get m k of Some (JBool v) \<Rightarrow> v | _ \<Rightarrow> old)"

definition set_int :: "api_env \<Rightarrow> json_map \<Rightarrow> string \<Rightarrow> int \<Rightarrow> int" where
  "set_int env m k old = (case json_get m k of Some (JNum v) \<Rightarrow> ax_int env (num_value v) | _ \<Rightarrow> old)"

definition updated_logging :: "json_map \<Rightarrow> logging_config \<Rightarrow> logging_config" where
  "updated_logging m l = l\<lparr>lg_level := set_text m ''level'' (lg_level l), lg_format := set_text m ''format'' (lg_format l),
     lg_verbose := set_bool m ''verbose'' (lg_verbose l)\<rparr>"

definition updated_ml :: "api_env \<Rightarrow> json_map \<Rightarrow> ml_config \<Rightarrow> ml_config" where
  "updated_ml env m l = l\<lparr>ml_enabled := set_bool m ''enabled'' (ml_enabled l), ml_endpoint := set_text m ''endpoint'' (ml_endpoint l),
     ml_timeout_sec := set_int env m ''timeout'' (ml_timeout_sec l)\<rparr>"

definition updated_redis :: "json_map \<Rightarrow> redis_config \<Rightarrow> redis_config" where
  "updated_redis m l = l\<lparr>rd_enabled := set_bool m ''enabled'' (rd_enabled l), rd_addr := set_text m ''addr'' (rd_addr l)\<rparr>"

definition section_of :: "json_map \<Rightarrow> string \<Rightarrow> json_map" where
  "section_of m k = (case json_get m k of Some (JObj ms) \<Rightarrow> ms | _ \<Rightarrow> [])"

definition apply_updates :: "api_env \<Rightarrow> json_map \<Rightarrow> config \<Rightarrow> config" where
  "apply_updates env m c =
     c\<lparr>cf_logging := updated_logging (section_of m ''logging'') (cf_logging c),
       cf_ml := updated_ml env (section_of m ''ml'') (cf_ml c),
       cf_redis := updated_redis (section_of m ''redis'') (cf_redis c)\<rparr>"

definition update_config_handler :: "api_env \<Rightarrow> api_request \<Rightarrow> 'w api \<Rightarrow> 'w api \<times> config_data api_reply" where
  "update_config_handler env r st =
     (case Option.bind (map_option fst (json_value 0 (aq_body r))) as_map of
        None \<Rightarrow> (st, bad_json)
      | Some m \<Rightarrow>
          (case change_config env (apply_updates env m) st of
             (st', Some e) \<Rightarrow> (st', bad_request (Fmt ''validation failed: %s'' []))
           | (st', None) \<Rightarrow> (st', ok (DMasked (mask_secrets (api_config st'))))))"

definition validate_config :: "api_env \<Rightarrow> api_request \<Rightarrow> config_data api_reply" where
  "validate_config env r =
     (case ax_json_config env (aq_body r) of
        None \<Rightarrow> bad_json
      | Some c \<Rightarrow> (case validate c of Some e \<Rightarrow> Data 200 (DValid False [e]) | None \<Rightarrow> Data 200 (DValid True [])))"

definition export_config :: "api_env \<Rightarrow> 'w api \<Rightarrow> config_data api_reply" where
  "export_config env st =
     (case ce_marshal (ax_cfg env) (api_config st) of None \<Rightarrow> internal_error | Some t \<Rightarrow> ok (DExport t))"

definition take_imported :: "config \<Rightarrow> config \<Rightarrow> config" where
  "take_imported new c =
     c\<lparr>cf_sites := cf_sites new, cf_rules := cf_rules new, cf_ml := cf_ml new, cf_redis := cf_redis new, cf_db := cf_db new,
       cf_logging := cf_logging new, cf_tls := cf_tls new, cf_admin := cf_admin new\<rparr>"

definition import_config :: "api_env \<Rightarrow> api_request \<Rightarrow> 'w api \<Rightarrow> 'w api \<times> config_data api_reply" where
  "import_config env r st =
     (case ax_yaml_config env (aq_body r) of
        None \<Rightarrow> (st, bad_request (Fmt ''invalid YAML: %s'' []))
      | Some new \<Rightarrow>
          (case validate new of
             Some e \<Rightarrow> (st, bad_request (Fmt ''config validation failed: %s'' []))
           | None \<Rightarrow>
               (case change_config env (take_imported new) st of
                  (st', Some e) \<Rightarrow> (st', bad_request e)
                | (st', None) \<Rightarrow> (st', ok DImported))))"

definition difference :: "string \<Rightarrow> setting \<Rightarrow> setting \<Rightarrow> (string \<times> setting \<times> setting) list" where
  "difference field old new = (if old = new then [] else [(field, old, new)])"

definition config_diffs :: "config \<Rightarrow> config \<Rightarrow> (string \<times> setting \<times> setting) list" where
  "config_diffs c new =
     difference ''sites.count'' (SInt (int (length (cf_sites c)))) (SInt (int (length (cf_sites new)))) @
     difference ''rules.count'' (SInt (int (length (cf_rules c)))) (SInt (int (length (cf_rules new)))) @
     difference ''ml.enabled'' (SBool (ml_enabled (cf_ml c))) (SBool (ml_enabled (cf_ml new))) @
     difference ''ml.endpoint'' (SText (ml_endpoint (cf_ml c))) (SText (ml_endpoint (cf_ml new))) @
     difference ''redis.enabled'' (SBool (rd_enabled (cf_redis c))) (SBool (rd_enabled (cf_redis new))) @
     difference ''logging.level'' (SText (lg_level (cf_logging c))) (SText (lg_level (cf_logging new)))"

definition diff_config :: "api_env \<Rightarrow> api_request \<Rightarrow> 'w api \<Rightarrow> config_data api_reply" where
  "diff_config env r st =
     (case ax_json_config env (aq_body r) of
        None \<Rightarrow> bad_json
      | Some new \<Rightarrow> (let ds = config_diffs (api_config st) new in ok (DDiff (ds \<noteq> []) ds)))"

section \<open>System\<close>

record status_data =
  sd_version :: string
  sd_uptime :: duration
  sd_sites :: int
  sd_rules :: int
  sd_logs :: int
  sd_alerts :: int
  sd_started :: gotime

datatype system_data =
    DHealth gotime | DStatus status_data | DVersion string | DAdminStatus string duration int int masked_config
  | DToken string gotime | DLoggedOut | DUser string gotime gotime | DKey string string string gotime | DRevoked string

definition health_handler :: "gotime \<Rightarrow> system_data api_reply" where
  "health_handler now = ok (DHealth now)"

definition system_status :: "gotime \<Rightarrow> 'w api \<Rightarrow> system_data api_reply" where
  "system_status now st =
     ok (DStatus \<lparr>sd_version = ap_version st, sd_uptime = time_sub now (ap_started st), sd_sites = int (length (cf_sites (api_config st))),
          sd_rules = int (length (cf_rules (api_config st))), sd_logs = int (length (ap_logs st)),
          sd_alerts = int (length (ap_alerts st)), sd_started = ap_started st\<rparr>)"

definition version_handler :: "'w api \<Rightarrow> system_data api_reply" where
  "version_handler st = ok (DVersion (ap_version st))"

definition admin_status :: "gotime \<Rightarrow> 'w api \<Rightarrow> system_data api_reply" where
  "admin_status now st =
     Data 200 (DAdminStatus (ap_version st) (time_sub now (ap_started st)) (int (length (cf_sites (api_config st))))
       (int (length (cf_rules (api_config st)))) (mask_secrets (api_config st)))"

definition admin_config_handler :: "'w api \<Rightarrow> config_data api_reply" where
  "admin_config_handler st = ok (DMasked (mask_secrets (api_config st)))"

section \<open>Sessions and keys\<close>

record login_record =
  ln_username :: string
  ln_password :: string

definition login_handler :: "string \<Rightarrow> gotime \<Rightarrow> api_request \<Rightarrow> 'w api \<Rightarrow> 'w api \<times> system_data api_reply" where
  "login_handler uuid now r st =
     (case read_json_strict [string_field ''username'' (\<lambda>v q. q\<lparr>ln_username := v\<rparr>), string_field ''password'' (\<lambda>v q. q\<lparr>ln_password := v\<rparr>)]
             \<lparr>ln_username = [], ln_password = []\<rparr> r of
        None \<Rightarrow> (st, bad_json)
      | Some q \<Rightarrow>
          if ln_username q = [] \<or> ln_password q = [] then (st, bad_request (Lit ''username and password are required''))
          else
            (let keys = ad_api_keys (cf_admin (api_config st)) in
             if keys \<noteq> [] \<and> ln_username q \<notin> set keys \<and> ln_password q \<notin> set keys then (st, unauthorized)
             else
               (let token = ''jwt-'' @ uuid; expires = now + 24 * hour
                in (st\<lparr>ap_sessions := (ap_sessions st)(token \<mapsto>
                        \<lparr>sx_token = token, sx_user = ln_username q, sx_created = now, sx_expires = expires\<rparr>)\<rparr>,
                    ok (DToken token expires)))))"

text \<open>
  \<^verbatim>\<open>fmt.Sscanf(auth, "Bearer %s", &token)\<close> on a header value, which has no line breaks: the word, at least one blank, and then the
  text up to the next blank.
\<close>

definition scan_bearer :: "string \<Rightarrow> string" where
  "scan_bearer auth =
     (let rest = drop 6 auth in
      if has_prefix auth ''Bearer'' \<and> rest \<noteq> [] \<and> is_space (hd rest) then takeWhile (\<lambda>c. \<not> is_space c) (dropWhile is_space rest)
      else [])"

definition logout_handler :: "api_request \<Rightarrow> 'w api \<Rightarrow> 'w api \<times> system_data api_reply" where
  "logout_handler r st =
     (let token = scan_bearer (aq_authorization r) in
      if token = [] then (st, unauthorized) else (st\<lparr>ap_sessions := map_del (ap_sessions st) token\<rparr>, ok DLoggedOut))"

definition auth_me :: "gotime \<Rightarrow> api_request \<Rightarrow> 'w api \<Rightarrow> 'w api \<times> system_data api_reply" where
  "auth_me now r st =
     (let token = scan_bearer (aq_authorization r) in
      if token = [] then (st, unauthorized)
      else
        (case ap_sessions st token of
           None \<Rightarrow> (st, unauthorized)
         | Some s \<Rightarrow>
             if sx_expires s < now then (st\<lparr>ap_sessions := map_del (ap_sessions st) token\<rparr>, unauthorized)
             else (st, ok (DUser (sx_user s) (sx_created s) (sx_expires s)))))"

record key_request =
  qk_name :: string
  qk_user :: string
  qk_hours :: int

definition create_api_key :: "string \<Rightarrow> string \<Rightarrow> gotime \<Rightarrow> api_request \<Rightarrow> 'w api \<Rightarrow> 'w api \<times> system_data api_reply" where
  "create_api_key uuid uuid2 now r st =
     (case read_json_strict
             [string_field ''name'' (\<lambda>v q. q\<lparr>qk_name := v\<rparr>), string_field ''user_id'' (\<lambda>v q. q\<lparr>qk_user := v\<rparr>),
              int64_field ''expires_in_hours'' (\<lambda>v q. q\<lparr>qk_hours := v\<rparr>)]
             \<lparr>qk_name = [], qk_user = [], qk_hours = 0\<rparr> r of
        None \<Rightarrow> (st, bad_json)
      | Some q \<Rightarrow>
          if qk_name q = [] then (st, bad_request (Lit ''name is required''))
          else
            (let key = ''fwaf_'' @ uuid;
                 k = \<lparr>ak_id = ''KEY-'' @ take 8 uuid2, ak_name = qk_name q, ak_key = key, ak_user = qk_user q, ak_created = now,
                      ak_expires = (if 0 < qk_hours q then now + int64 (qk_hours q * hour) else zero_time)\<rparr>
             in (st\<lparr>ap_keys := AList.update key k (ap_keys st)\<rparr>, created_reply (DKey (ak_id k) (ak_name k) key (ak_expires k)))))"

definition revoke_api_key :: "api_request \<Rightarrow> 'w api \<Rightarrow> 'w api \<times> system_data api_reply" where
  "revoke_api_key r st =
     (let i = path_param r ''id'' in
      if \<exists>k\<in>set (ap_keys st). ak_id (snd k) = i
      then (st\<lparr>ap_keys := remove_first (\<lambda>k. ak_id (snd k) = i) (ap_keys st)\<rparr>, ok (DRevoked i))
      else (st, not_found_reply (Lit ''API key not found'')))"

section \<open>The server\<close>

record server_config =
  sc_port :: int
  sc_admin_port :: int
  sc_admin_enabled :: bool
  sc_mtls :: bool
  sc_ca_cert :: string
  sc_cert :: string
  sc_key :: string
  sc_api_keys :: "string list"
  sc_jwt_secret :: string
  sc_dev_mode :: bool

datatype endpoint =
    RtListSites | RtCreateSite | RtGetSite | RtUpdateSite | RtDeleteSite
  | RtListRules | RtCreateRule | RtGetRule | RtUpdateRule | RtDeleteRule | RtTestRule | RtReorderRule
  | RtQueryLogs | RtTailLogs | RtExportLogs | RtTraffic | RtAttacks
  | RtListPatches | RtCreatePatch | RtApplyPatch | RtRevokePatch
  | RtExportConfig | RtImportConfig | RtValidateConfig | RtDiffConfig
  | RtHealth | RtListAlerts | RtCreateAlert | RtUpdateAlert
  | RtListTenants | RtCreateTenant | RtGetTenant | RtUpdateTenant | RtDeleteTenant
  | RtAdminStatus | RtAdminConfig | RtAdminReload | RtWebSocket

text \<open>The routes below \<^verbatim>\<open>/api/v1\<close>, those of the administration router, both behind the middleware, and the one of the router itself, for
  every method and behind nothing; matching a path is the router library's.\<close>

definition api_routes :: "(string \<times> string \<times> endpoint) list" where
  "api_routes =
     [(''/sites'', ''GET'', RtListSites), (''/sites'', ''POST'', RtCreateSite), (''/sites/{id}'', ''GET'', RtGetSite),
      (''/sites/{id}'', ''PUT'', RtUpdateSite), (''/sites/{id}'', ''DELETE'', RtDeleteSite),
      (''/rules'', ''GET'', RtListRules), (''/rules'', ''POST'', RtCreateRule), (''/rules/{id}'', ''GET'', RtGetRule),
      (''/rules/{id}'', ''PUT'', RtUpdateRule), (''/rules/{id}'', ''DELETE'', RtDeleteRule),
      (''/rules/{id}/test'', ''POST'', RtTestRule), (''/rules/{id}/reorder'', ''PUT'', RtReorderRule),
      (''/logs'', ''GET'', RtQueryLogs), (''/logs/tail'', ''GET'', RtTailLogs), (''/logs/export'', ''GET'', RtExportLogs),
      (''/analytics/traffic'', ''GET'', RtTraffic), (''/analytics/attacks'', ''GET'', RtAttacks),
      (''/patches'', ''GET'', RtListPatches), (''/patches'', ''POST'', RtCreatePatch),
      (''/patches/{id}/apply'', ''POST'', RtApplyPatch), (''/patches/{id}/revoke'', ''POST'', RtRevokePatch),
      (''/config/export'', ''GET'', RtExportConfig), (''/config/import'', ''POST'', RtImportConfig),
      (''/config/validate'', ''POST'', RtValidateConfig), (''/config/diff'', ''POST'', RtDiffConfig),
      (''/health'', ''GET'', RtHealth), (''/alerts'', ''GET'', RtListAlerts), (''/alerts'', ''POST'', RtCreateAlert),
      (''/alerts/{id}'', ''PUT'', RtUpdateAlert),
      (''/tenants'', ''GET'', RtListTenants), (''/tenants'', ''POST'', RtCreateTenant), (''/tenants/{id}'', ''GET'', RtGetTenant),
      (''/tenants/{id}'', ''PUT'', RtUpdateTenant), (''/tenants/{id}'', ''DELETE'', RtDeleteTenant)]"

definition admin_api_routes :: "(string \<times> string \<times> endpoint) list" where
  "admin_api_routes = [(''/status'', ''GET'', RtAdminStatus), (''/config'', ''GET'', RtAdminConfig), (''/reload'', ''POST'', RtAdminReload)]"

definition root_routes :: "(string \<times> endpoint) list" where
  "root_routes = [(''/ws'', RtWebSocket)]"

datatype served =
    SvSites "site_data api_reply" | SvRules "rule_data api_reply" | SvLogs "log_entry list api_reply" | SvExport "log_export api_reply"
  | SvTraffic "traffic api_reply" | SvAttacks "attacks api_reply" | SvStore "store_data api_reply" | SvConfig "config_data api_reply"
  | SvSystem "system_data api_reply" | SvStream nat | SvSocket "string list option" | SvRefused

text \<open>
  What a request brings along: the time, a random identifier, for a stream a new channel, and for a socket what the socket library
  makes of it: nothing when it refuses the upgrade, else the messages with their types, up to an error of reading, and
  whether one can be written.
\<close>

record arrival =
  ar_now :: gotime
  ar_uuid :: string
  ar_channel :: nat
  ar_socket :: "((int \<times> string) option list \<times> (string \<Rightarrow> bool)) option"

text \<open>
  The web socket sends every message back, as a text whatever its type, until reading or writing fails. It reads neither a key nor the
  origin.
\<close>

fun echo_messages :: "(string \<Rightarrow> bool) \<Rightarrow> (int \<times> string) option list \<Rightarrow> string list" where
  "echo_messages written (Some (kind, msg) # ms) = (if written msg then msg # echo_messages written ms else [])"
| "echo_messages written _ = []"

definition handle_web_socket :: "arrival \<Rightarrow> string list option" where
  "handle_web_socket a = map_option (\<lambda>(ms, written). echo_messages written ms) (ar_socket a)"

fun run_endpoint :: "api_env \<Rightarrow> arrival \<Rightarrow> endpoint \<Rightarrow> api_request \<Rightarrow> 'w api \<Rightarrow> 'w api \<times> served" where
  "run_endpoint env a RtListSites r st = (st, SvSites (list_sites st))"
| "run_endpoint env a RtCreateSite r st = apsnd SvSites (create_site env r st)"
| "run_endpoint env a RtGetSite r st = (st, SvSites (get_site_handler r st))"
| "run_endpoint env a RtUpdateSite r st = apsnd SvSites (update_site env r st)"
| "run_endpoint env a RtDeleteSite r st = apsnd SvSites (delete_site env r st)"
| "run_endpoint env a RtListRules r st = (st, SvRules (list_rules r st))"
| "run_endpoint env a RtCreateRule r st = apsnd SvRules (create_rule env r st)"
| "run_endpoint env a RtGetRule r st = (st, SvRules (get_rule_handler r st))"
| "run_endpoint env a RtUpdateRule r st = apsnd SvRules (update_rule_handler env r st)"
| "run_endpoint env a RtDeleteRule r st = apsnd SvRules (delete_rule_handler env r st)"
| "run_endpoint env a RtTestRule r st = (st, SvRules (test_rule_handler env r))"
| "run_endpoint env a RtReorderRule r st = apsnd SvRules (reorder_rule_handler r st)"
| "run_endpoint env a RtQueryLogs r st = (st, SvLogs (query_logs env r st))"
| "run_endpoint env a RtTailLogs r st = (tail_open (ar_channel a) st, SvStream (ar_channel a))"
| "run_endpoint env a RtExportLogs r st = (st, SvExport (export_logs env r st))"
| "run_endpoint env a RtTraffic r st = (st, SvTraffic (traffic_stats env (ar_now a) r st))"
| "run_endpoint env a RtAttacks r st = (st, SvAttacks (attack_stats (ar_now a) r st))"
| "run_endpoint env a RtListPatches r st = (st, SvStore (list_patches r st))"
| "run_endpoint env a RtCreatePatch r st = apsnd SvStore (create_patch (ar_uuid a) (ar_now a) r st)"
| "run_endpoint env a RtApplyPatch r st = apsnd SvStore (apply_patch env (ar_now a) r st)"
| "run_endpoint env a RtRevokePatch r st = apsnd SvStore (revoke_patch env r st)"
| "run_endpoint env a RtExportConfig r st = (st, SvConfig (export_config env st))"
| "run_endpoint env a RtImportConfig r st = apsnd SvConfig (import_config env r st)"
| "run_endpoint env a RtValidateConfig r st = (st, SvConfig (validate_config env r))"
| "run_endpoint env a RtDiffConfig r st = (st, SvConfig (diff_config env r st))"
| "run_endpoint env a RtHealth r st = (st, SvSystem (health_handler (ar_now a)))"
| "run_endpoint env a RtListAlerts r st = (st, SvStore (list_alerts r st))"
| "run_endpoint env a RtCreateAlert r st = apsnd SvStore (create_alert (ar_uuid a) (ar_now a) r st)"
| "run_endpoint env a RtUpdateAlert r st = apsnd SvStore (update_alert r st)"
| "run_endpoint env a RtListTenants r st = (st, SvStore (list_tenants st))"
| "run_endpoint env a RtCreateTenant r st = apsnd SvStore (create_tenant_handler (ar_uuid a) (ar_now a) r st)"
| "run_endpoint env a RtGetTenant r st = (st, SvStore (get_tenant_handler r st))"
| "run_endpoint env a RtUpdateTenant r st = apsnd SvStore (update_tenant_handler (ar_now a) r st)"
| "run_endpoint env a RtDeleteTenant r st = apsnd SvStore (delete_tenant_handler r st)"
| "run_endpoint env a RtAdminStatus r st = (st, SvSystem (admin_status (ar_now a) st))"
| "run_endpoint env a RtAdminConfig r st = (st, SvConfig (admin_config_handler st))"
| "run_endpoint env a RtAdminReload r st = apsnd SvRules (admin_reload env st)"
| "run_endpoint env a RtWebSocket r st = (st, SvSocket (handle_web_socket a))"

text \<open>\<^verbatim>\<open>authMiddleware\<close>: a configured key, then a session that has not expired, then the development mode.\<close>

definition admitted :: "server_config \<Rightarrow> gotime \<Rightarrow> api_request \<Rightarrow> 'w api \<Rightarrow> bool" where
  "admitted sc now r st =
     (if aq_api_key r \<noteq> [] \<and> aq_api_key r \<in> set (sc_api_keys sc) then True
      else
        (let token = scan_bearer (aq_authorization r) in
         if aq_authorization r \<noteq> [] \<and> token \<noteq> [] \<and>
           (case ap_sessions st token of None \<Rightarrow> False | Some s \<Rightarrow> now < sx_expires s) then True
         else sc_dev_mode sc))"

text \<open>The routers that use \<^verbatim>\<open>authMiddleware\<close> are those of \<^verbatim>\<open>/api/v1\<close> and of the administration.\<close>

definition behind_auth :: "endpoint \<Rightarrow> bool" where
  "behind_auth h = (h \<in> set (map (\<lambda>(path, method, h). h) (api_routes @ admin_api_routes)))"

definition serve_api :: "server_config \<Rightarrow> api_env \<Rightarrow> arrival \<Rightarrow> endpoint \<Rightarrow> api_request \<Rightarrow> 'w api \<Rightarrow> 'w api \<times> served" where
  "serve_api sc env a h r st =
     (if behind_auth h \<and> \<not> admitted sc (ar_now a) r st then (st, SvRefused) else run_endpoint env a h r st)"

text \<open>The states of a running server. Keys are made and revoked too, although no route leads there.\<close>

inductive api_reach :: "server_config \<Rightarrow> api_env \<Rightarrow> 'w api \<Rightarrow> bool" for sc env where
  api_start: "api_reach sc env (new_handlers m dk w re version now)"
| api_serve: "api_reach sc env st \<Longrightarrow> api_reach sc env (fst (serve_api sc env a h r st))"
| api_drain: "api_reach sc env st \<Longrightarrow> api_reach sc env (drain_log_channel e st)"
| api_receive: "api_reach sc env st \<Longrightarrow> api_reach sc env (fst (tail_receive ch st))"
| api_close: "api_reach sc env st \<Longrightarrow> api_reach sc env (tail_close ch st)"
| api_key: "api_reach sc env st \<Longrightarrow> api_reach sc env (fst (create_api_key uuid uuid2 now r st))"
| api_revoke: "api_reach sc env st \<Longrightarrow> api_reach sc env (fst (revoke_api_key r st))"

section \<open>Who is admitted\<close>

lemma change_config_sessions: "ap_sessions (fst (change_config env fn st)) = ap_sessions st"
  using change_config_frame(7) [of env fn st] by (metis prod.collapse)

lemma with_rules_sessions: "ap_sessions (with_rules f st) = ap_sessions st"
  by (simp add: with_rules_def split: sum.splits)

lemma sync_rule_sessions: "ap_sessions (sync_rule env i st) = ap_sessions st"
  by (simp add: sync_rule_def with_rules_sessions split: option.splits)

lemma site_handlers_sessions:
  "ap_sessions (fst (create_site env r st)) = ap_sessions st"
  "ap_sessions (fst (update_site env r st)) = ap_sessions st"
  "ap_sessions (fst (delete_site env r st)) = ap_sessions st"
  using change_config_sessions [of env _ st]
  by (auto simp: create_site_def update_site_def delete_site_def Let_def split: option.splits prod.splits) (metis fst_conv)+

lemma rule_outcome_sessions:
  assumes "\<And>st'. ap_sessions (finish st') = ap_sessions st'"
  shows "ap_sessions (fst (rule_outcome found finish answer res)) = ap_sessions (fst res)"
  using assms by (auto simp: rule_outcome_def split: prod.splits option.splits)

lemma rule_handlers_sessions:
  "ap_sessions (fst (create_rule env r st)) = ap_sessions st"
  "ap_sessions (fst (update_rule_handler env r st)) = ap_sessions st"
  "ap_sessions (fst (delete_rule_handler env r st)) = ap_sessions st"
  "ap_sessions (fst (reorder_rule_handler r st)) = ap_sessions st"
  "ap_sessions (fst (admin_reload env st)) = ap_sessions st"
proof -
  have cc: "ap_sessions st' = ap_sessions st" if "change_config env fn st = (st', e)" for fn st' e
    using change_config_frame(7) [OF that] .
  show "ap_sessions (fst (create_rule env r st)) = ap_sessions st" "ap_sessions (fst (update_rule_handler env r st)) = ap_sessions st"
    by (auto simp: create_rule_def update_rule_handler_def Let_def with_rules_sessions sync_rule_sessions cc split: option.splits prod.splits)
  show "ap_sessions (fst (delete_rule_handler env r st)) = ap_sessions st"
    by (simp add: delete_rule_handler_def Let_def rule_outcome_sessions with_rules_sessions change_config_sessions)
  show "ap_sessions (fst (reorder_rule_handler r st)) = ap_sessions st"
    by (auto simp: reorder_rule_handler_def split: option.splits sum.splits)
  show "ap_sessions (fst (admin_reload env st)) = ap_sessions st"
    by (auto simp: admin_reload_def split: option.splits prod.splits)
qed

lemma store_handlers_sessions:
  "ap_sessions (fst (create_patch u now r st)) = ap_sessions st"
  "ap_sessions (fst (apply_patch env now r st)) = ap_sessions st"
  "ap_sessions (fst (revoke_patch env r st)) = ap_sessions st"
  "ap_sessions (fst (create_alert u now r st)) = ap_sessions st"
  "ap_sessions (fst (update_alert r st)) = ap_sessions st"
  "ap_sessions (fst (create_tenant_handler u now r st)) = ap_sessions st"
  "ap_sessions (fst (update_tenant_handler now r st)) = ap_sessions st"
  "ap_sessions (fst (delete_tenant_handler r st)) = ap_sessions st"
  "ap_sessions (fst (import_config env r st)) = ap_sessions st"
proof -
  have cc: "ap_sessions st' = ap_sessions st" if "change_config env fn st = (st', e)" for fn st' e
    using change_config_frame(7) [OF that] .
  show "ap_sessions (fst (apply_patch env now r st)) = ap_sessions st" "ap_sessions (fst (revoke_patch env r st)) = ap_sessions st"
    "ap_sessions (fst (import_config env r st)) = ap_sessions st"
    by (auto simp: apply_patch_def revoke_patch_def import_config_def change_patch_def Let_def cc split: option.splits prod.splits)
qed (simp_all add: create_patch_def create_alert_def update_alert_def create_tenant_handler_def update_tenant_handler_def
    delete_tenant_handler_def Let_def split: option.splits)

lemma run_endpoint_sessions: "ap_sessions (fst (run_endpoint env a h r st)) = ap_sessions st"
  by (cases h) (simp_all add: site_handlers_sessions rule_handlers_sessions store_handlers_sessions tail_open_def)

lemma api_reach_no_session: "api_reach sc env st \<Longrightarrow> ap_sessions st = Map.empty"
proof (induction rule: api_reach.induct)
  case (api_serve st a h r)
  then show ?case by (simp add: serve_api_def run_endpoint_sessions)
qed (auto simp: new_handlers_def drain_log_channel_def tail_receive_def tail_close_def create_api_key_def revoke_api_key_def Let_def
      split: option.splits list.splits)

lemma behind_auth_iff: "behind_auth h \<longleftrightarrow> h \<noteq> RtWebSocket"
  by (cases h) (simp_all add: behind_auth_def api_routes_def admin_api_routes_def)

text \<open>
  Property C34. In every state of a running server a request to any route but \<^verbatim>\<open>/ws\<close> is refused, and then changes nothing, exactly
  if it has none of the keys of the start and the server is not in development mode: no route opens a session, so a token never
  helps, and a key that was made later opens nothing. The route \<^verbatim>\<open>/ws\<close> is open to everyone: no request to it is refused.
\<close>

theorem only_configured_keys_open:
  assumes "api_reach sc env st"
  shows "(snd (serve_api sc env a h r st) = SvRefused \<longleftrightarrow>
      h \<noteq> RtWebSocket \<and> \<not> sc_dev_mode sc \<and> (aq_api_key r = [] \<or> aq_api_key r \<notin> set (sc_api_keys sc))) \<and>
    (snd (serve_api sc env a h r st) = SvRefused \<longrightarrow> fst (serve_api sc env a h r st) = st) \<and>
    serve_api sc env a RtWebSocket r st = (st, SvSocket (handle_web_socket a))"
proof -
  have run: "snd (run_endpoint env a h r st) \<noteq> SvRefused" by (cases h) simp_all
  have adm: "admitted sc (ar_now a) r st \<longleftrightarrow> sc_dev_mode sc \<or> aq_api_key r \<noteq> [] \<and> aq_api_key r \<in> set (sc_api_keys sc)"
    using api_reach_no_session [OF assms] by (auto simp: admitted_def Let_def)
  show ?thesis using run unfolding serve_api_def behind_auth_iff adm by auto
qed

definition demo_api_server :: server_config where
  "demo_api_server = \<lparr>sc_port = 8081, sc_admin_port = 8082, sc_admin_enabled = True, sc_mtls = False, sc_ca_cert = [], sc_cert = [],
     sc_key = [], sc_api_keys = [''k''], sc_jwt_secret = [], sc_dev_mode = False\<rparr>"

theorem only_configured_keys_open_witness:
  "snd (serve_api demo_api_server demo_api_env \<lparr>ar_now = 0, ar_uuid = [], ar_channel = 0, ar_socket = Some ([Some (1, ''m'')], \<lambda>m. True)\<rparr> RtListSites
      (demo_call [] []) demo_api) = SvRefused \<and>
   snd (serve_api demo_api_server demo_api_env \<lparr>ar_now = 0, ar_uuid = [], ar_channel = 0, ar_socket = Some ([Some (1, ''m'')], \<lambda>m. True)\<rparr> RtWebSocket
      (demo_call [] []) demo_api) = SvSocket (Some [''m''])"
proof -
  have "api_reach demo_api_server demo_api_env demo_api" unfolding demo_api_def by (rule api_start)
  from only_configured_keys_open [OF this, of "\<lparr>ar_now = 0, ar_uuid = [], ar_channel = 0, ar_socket = Some ([Some (1, ''m'')], \<lambda>m. True)\<rparr>" RtListSites
      "demo_call [] []"]
  show ?thesis by (simp add: demo_api_server_def demo_call_def handle_web_socket_def)
qed

end
