(* ===== verification/Siem.thy ===== *)
theory Siem
  imports Config "HOL-Library.Multiset"
begin

text \<open>
  The export of events, \<^verbatim>\<open>internal/siem/siem.go\<close>: the buffer, the loop that empties it, the two exporters and the text form
  of an event. The service at the other end acts on a world \<open>'w\<close>; the encoding of an event as JSON is left to the library, so the
  body of a request is the list of the values that are encoded. Scores are rationals, which always can be encoded.
\<close>

section \<open>Events and settings\<close>

record siem_event =
  ev_time :: gotime
  ev_type :: string
  ev_host :: string
  ev_source :: string
  ev_id :: int
  ev_name :: string
  ev_severity :: int
  ev_src_ip :: string
  ev_dst_ip :: string
  ev_method :: string
  ev_uri :: string
  ev_agent :: string
  ev_attack :: string
  ev_rule_id :: string
  ev_score :: rat
  ev_blocked :: bool
  ev_country :: string
  ev_latency :: rat
  ev_raw :: string
  ev_metadata :: "(string \<times> string) list"

text \<open>The manager's own settings have the same fields as those of the configuration, from which the proxy copies them.\<close>

definition siem_settings :: "config \<Rightarrow> siem_config" where
  "siem_settings c =
     \<lparr>sm_enabled = sm_enabled (cf_siem c), sm_interval = sm_interval (cf_siem c), sm_batch = sm_batch (cf_siem c),
      sm_exporters =
        map (\<lambda>e. \<lparr>se_type = se_type e, se_enabled = se_enabled e, se_url = se_url e, se_token = se_token e, se_index = se_index e,
                  se_username = se_username e, se_password = se_password e, se_verify_ssl = se_verify_ssl e\<rparr>)
          (sm_exporters (cf_siem c))\<rparr>"

section \<open>Exporters\<close>

datatype exporter =
    Splunk (sp_url: string) (sp_token: string) (sp_index: string) (sp_verify: bool)
  | Elastic (el_urls: "string list") (el_index: string) (el_user: string) (el_password: string)

datatype sink_line = HecLine siem_event string string rat | MetaLine string | EventLine siem_event

record sink_request =
  sq_url :: string
  sq_headers :: "(string \<times> string) list"
  sq_auth :: "(string \<times> string) option"
  sq_verify :: bool
  sq_body :: "sink_line list"

text \<open>
  The service: whether a request can be made for an address, the answer to it, and a time as year, month and day. A map is
  walked through in an order that the run-time chooses anew every time.
\<close>

record 'w siem_env =
  sx_url_ok :: "string \<Rightarrow> bool"
  sx_post :: "sink_request \<Rightarrow> 'w \<Rightarrow> 'w \<times> (gotext + int \<times> string)"
  sx_day :: "gotime \<Rightarrow> string"
  sx_order :: "gotime \<Rightarrow> (string \<times> exporter) list \<Rightarrow> (string \<times> exporter) list"

definition walks_maps :: "'w siem_env \<Rightarrow> bool" where
  "walks_maps env \<longleftrightarrow> (\<forall>now xs. mset (sx_order env now xs) = mset xs)"

definition new_splunk_exporter :: "siem_exporter_config \<Rightarrow> exporter" where
  "new_splunk_exporter c = Splunk (se_url c) (se_token c) (se_index c) (se_verify_ssl c)"

definition new_elasticsearch_exporter :: "siem_exporter_config \<Rightarrow> exporter" where
  "new_elasticsearch_exporter c = Elastic (split_char CHR '','' (se_url c)) (se_index c) (se_username c) (se_password c)"

definition post_lines :: "'w siem_env \<Rightarrow> sink_request \<Rightarrow> (int \<Rightarrow> string \<Rightarrow> gotext) \<Rightarrow> 'w \<Rightarrow> 'w \<times> gotext option" where
  "post_lines env q refused w =
     (if \<not> sx_url_ok env (sq_url q) then (w, Some (Fmt ''parse %q'' [AStr (sq_url q)]))
      else
        (case sx_post env q w of
           (w', Inl e) \<Rightarrow> (w', Some e)
         | (w', Inr (status, body)) \<Rightarrow> (w', if status = 200 then None else Some (refused status body))))"

definition splunk_request :: "exporter \<Rightarrow> siem_event list \<Rightarrow> sink_request" where
  "splunk_request x events =
     \<lparr>sq_url = sp_url x, sq_headers = [(''Authorization'', ''Splunk '' @ sp_token x), (''Content-Type'', ''application/json'')],
      sq_auth = None, sq_verify = sp_verify x,
      sq_body = map (\<lambda>e. HecLine e (ev_host e) (sp_index x) (of_int (unix_seconds (ev_time e)))) events\<rparr>"

definition splunk_send :: "'w siem_env \<Rightarrow> exporter \<Rightarrow> siem_event list \<Rightarrow> 'w \<Rightarrow> 'w \<times> gotext option" where
  "splunk_send env x events w =
     (if events = [] then (w, None)
      else post_lines env (splunk_request x events) (\<lambda>status body. Fmt ''splunk returned %d'' [AInt status]) w)"

definition elasticsearch_request :: "string \<Rightarrow> exporter \<Rightarrow> siem_event list \<Rightarrow> sink_request" where
  "elasticsearch_request day x events =
     \<lparr>sq_url = hd (el_urls x) @ ''/_bulk'', sq_headers = [(''Content-Type'', ''application/x-ndjson'')],
      sq_auth = (if el_user x = [] then None else Some (el_user x, el_password x)), sq_verify = True,
      sq_body = concat (map (\<lambda>e. [MetaLine (el_index x @ ''-'' @ day), EventLine e]) events)\<rparr>"

definition elasticsearch_send :: "'w siem_env \<Rightarrow> gotime \<Rightarrow> exporter \<Rightarrow> siem_event list \<Rightarrow> 'w \<Rightarrow> 'w \<times> gotext option" where
  "elasticsearch_send env now x events w =
     (if events = [] then (w, None)
      else post_lines env (elasticsearch_request (sx_day env now) x events)
          (\<lambda>status body. Fmt ''elasticsearch returned %d: %s'' [AInt status, AStr body]) w)"

definition exporter_send :: "'w siem_env \<Rightarrow> gotime \<Rightarrow> exporter \<Rightarrow> siem_event list \<Rightarrow> 'w \<Rightarrow> 'w \<times> gotext option" where
  "exporter_send env now x events w =
     (case x of
        Splunk _ _ _ _ \<Rightarrow> splunk_send env x events w
      | Elastic _ _ _ _ \<Rightarrow> elasticsearch_send env now x events w)"

section \<open>The manager\<close>

record siem =
  sm_conf :: siem_config
  sm_sinks :: "(string \<times> exporter) list"
  sm_buffer :: "siem_event list"
  sm_signal :: bool
  sm_closed :: bool
  sm_running :: bool

datatype siem_fault = BadCapacity | BadInterval | ClosedTwice

definition make_exporter :: "siem_exporter_config \<Rightarrow> exporter option" where
  "make_exporter c =
     (if se_type c = ''splunk'' then Some (new_splunk_exporter c)
      else if se_type c = ''elasticsearch'' then Some (new_elasticsearch_exporter c) else None)"

definition add_exporter :: "siem_exporter_config \<Rightarrow> (string \<times> exporter) list \<Rightarrow> (string \<times> exporter) list" where
  "add_exporter c xs =
     (if \<not> se_enabled c then xs
      else (case make_exporter c of None \<Rightarrow> xs | Some x \<Rightarrow> AList.update (se_type c) x xs))"

text \<open>A negative capacity panics, and so does the loop that is started: a ticker needs a positive interval.\<close>

definition new_siem_manager :: "siem_config \<Rightarrow> siem_fault + siem" where
  "new_siem_manager cfg =
     (if sm_batch cfg < 0 then Inl BadCapacity
      else if sm_interval cfg \<le> 0 then Inl BadInterval
      else Inr \<lparr>sm_conf = cfg, sm_sinks = fold add_exporter (sm_exporters cfg) [], sm_buffer = [], sm_signal = False, sm_closed = False,
                 sm_running = True\<rparr>)"

definition siem_send :: "siem_event \<Rightarrow> siem \<Rightarrow> siem" where
  "siem_send e m =
     (let m' = m\<lparr>sm_buffer := sm_buffer m @ [e]\<rparr>
      in if sm_batch (sm_conf m) \<le> int (length (sm_buffer m')) then m'\<lparr>sm_signal := True\<rparr> else m')"

definition siem_send_batch :: "siem_event list \<Rightarrow> siem \<Rightarrow> siem" where
  "siem_send_batch events m = fold siem_send events m"

text \<open>
  Two goroutines flush: the loop and the caller of \<^verbatim>\<open>Close\<close>. A flush takes the buffer under the lock, and then, without it, hands the batch to
  one exporter after the other, whatever they answer: errors are only logged. In between, events are sent and the other goroutine
  may flush too.
\<close>

datatype worker = Resting | Flushing | Exporting "(string \<times> exporter) list" "siem_event list"

record 'w siem_system =
  sy_siem :: siem
  sy_loop :: worker
  sy_closer :: worker
  sy_world :: 'w

definition siem_flush :: "'w siem_env \<Rightarrow> gotime \<Rightarrow> siem \<Rightarrow> siem \<times> worker" where
  "siem_flush env now m =
     (if sm_buffer m = [] then (m, Resting)
      else (m\<lparr>sm_buffer := []\<rparr>,
            case sx_order env now (sm_sinks m) of [] \<Rightarrow> Resting | x # xs \<Rightarrow> Exporting (x # xs) (sm_buffer m)))"

definition export_next :: "'w siem_env \<Rightarrow> gotime \<Rightarrow> worker \<Rightarrow> 'w \<Rightarrow> worker \<times> 'w" where
  "export_next env now job w =
     (case job of
        Exporting ((name, x) # xs) events \<Rightarrow>
          (if xs = [] then Resting else Exporting xs events, fst (exporter_send env now x events w))
      | _ \<Rightarrow> (job, w))"

text \<open>
  The loop, between two flushes: where several of its cases are ready, any may be taken. It ends when it notices that the manager was
  closed. Closing for a second time panics.
\<close>

definition siem_tick :: "'w siem_system \<Rightarrow> 'w siem_system" where
  "siem_tick y = (if sm_running (sy_siem y) \<and> sy_loop y = Resting then y\<lparr>sy_loop := Flushing\<rparr> else y)"

definition siem_wake :: "'w siem_system \<Rightarrow> 'w siem_system" where
  "siem_wake y =
     (if sm_running (sy_siem y) \<and> sy_loop y = Resting \<and> sm_signal (sy_siem y)
      then y\<lparr>sy_siem := (sy_siem y)\<lparr>sm_signal := False\<rparr>, sy_loop := Flushing\<rparr> else y)"

definition siem_loop_end :: "'w siem_system \<Rightarrow> 'w siem_system" where
  "siem_loop_end y =
     (if sm_closed (sy_siem y) \<and> sy_loop y = Resting then y\<lparr>sy_siem := (sy_siem y)\<lparr>sm_running := False\<rparr>\<rparr> else y)"

definition siem_close :: "'w siem_system \<Rightarrow> siem_fault + 'w siem_system" where
  "siem_close y =
     (if sm_closed (sy_siem y) then Inl ClosedTwice
      else Inr (y\<lparr>sy_siem := (sy_siem y)\<lparr>sm_closed := True\<rparr>, sy_closer := Flushing\<rparr>))"

definition siem_stats :: "siem \<Rightarrow> (string \<times> int) list" where
  "siem_stats m = [(''buffer_size'', int (length (sm_buffer m))), (''exporters'', int (length (sm_sinks m)))]"

section \<open>Text form\<close>

definition format_cef_severity :: "int \<Rightarrow> string" where
  "format_cef_severity level =
     (if 8 \<le> level then ''Very High'' else if 6 \<le> level then ''High'' else if 4 \<le> level then ''Medium''
      else if 2 \<le> level then ''Low'' else ''Unknown'')"

definition cef_part :: "string \<Rightarrow> string \<Rightarrow> string" where
  "cef_part key v = (if v = [] then [] else '' '' @ key @ ''='' @ v)"

definition format_cef :: "siem_event \<Rightarrow> string" where
  "format_cef e =
     ''CEF:0|'' @ ev_host e @ ''|FortressWAF|'' @ ev_name e @ ''|'' @ itoa (ev_severity e) @ ''|'' @ ev_name e @ ''|'' @
     format_cef_severity (ev_severity e) @ '' src='' @ ev_src_ip e @ '' dst='' @ ev_dst_ip e @ '' dpt='' @ ev_host e @
     cef_part ''requestMethod'' (ev_method e) @ cef_part ''request'' (ev_uri e) @ cef_part ''attackType'' (ev_attack e) @
     cef_part ''ruleId'' (ev_rule_id e)"

section \<open>Histories\<close>

text \<open>
  The steps of the senders, of the loop (\<open>False\<close>) and of the caller of \<^verbatim>\<open>Close\<close> (\<open>True\<close>) in any order: \<open>TakeBatch\<close> is the locked part of a
  flush, \<open>ExportNext\<close> the call of one exporter.
\<close>

datatype siem_operation =
    SendEvent siem_event | Tick | Wake | LoopEnds | CloseManager | TakeBatch bool gotime | ExportNext bool gotime

fun siem_step :: "'w siem_env \<Rightarrow> siem_operation \<Rightarrow> 'w siem_system \<Rightarrow> siem_fault + 'w siem_system" where
  "siem_step env (SendEvent e) y = Inr (y\<lparr>sy_siem := siem_send e (sy_siem y)\<rparr>)"
| "siem_step env Tick y = Inr (siem_tick y)"
| "siem_step env Wake y = Inr (siem_wake y)"
| "siem_step env LoopEnds y = Inr (siem_loop_end y)"
| "siem_step env CloseManager y = siem_close y"
| "siem_step env (TakeBatch closer now) y =
     (if (if closer then sy_closer y else sy_loop y) \<noteq> Flushing then Inr y
      else (case siem_flush env now (sy_siem y) of
              (m, job) \<Rightarrow> Inr (if closer then y\<lparr>sy_siem := m, sy_closer := job\<rparr> else y\<lparr>sy_siem := m, sy_loop := job\<rparr>)))"
| "siem_step env (ExportNext closer now) y =
     (case export_next env now (if closer then sy_closer y else sy_loop y) (sy_world y) of
        (job, w) \<Rightarrow> Inr (if closer then y\<lparr>sy_closer := job, sy_world := w\<rparr> else y\<lparr>sy_loop := job, sy_world := w\<rparr>))"

fun siem_run :: "'w siem_env \<Rightarrow> siem_operation list \<Rightarrow> 'w siem_system \<Rightarrow> siem_fault + 'w siem_system" where
  "siem_run env [] y = Inr y"
| "siem_run env (op # ops) y = (case siem_step env op y of Inl p \<Rightarrow> Inl p | Inr y' \<Rightarrow> siem_run env ops y')"

fun events_sent :: "siem_operation list \<Rightarrow> siem_event list" where
  "events_sent [] = []"
| "events_sent (SendEvent e # ops) = e # events_sent ops"
| "events_sent (_ # ops) = events_sent ops"

definition started_siem :: "siem \<Rightarrow> 'w \<Rightarrow> 'w siem_system" where
  "started_siem m w = \<lparr>sy_siem = m, sy_loop = Resting, sy_closer = Resting, sy_world = w\<rparr>"

text \<open>A service that keeps a record of the requests it gets, and otherwise answers as another one does.\<close>

definition recording :: "'w siem_env \<Rightarrow> (sink_request list \<times> 'w) siem_env" where
  "recording env =
     \<lparr>sx_url_ok = sx_url_ok env,
      sx_post = (\<lambda>q (log, w). case sx_post env q w of (w', answer) \<Rightarrow> ((log @ [q], w'), answer)),
      sx_day = sx_day env, sx_order = sx_order env\<rparr>"

text \<open>
  A delivery: the name of an exporter, the exporter, the time and the batch. It is one request at most, none if no request can be made
  for the address.
\<close>

type_synonym delivery = "string \<times> exporter \<times> gotime \<times> siem_event list"

definition delivered :: "'w siem_env \<Rightarrow> delivery \<Rightarrow> sink_request list" where
  "delivered env d =
     (case d of (name, x, now, events) \<Rightarrow>
        let q = (case x of
            Splunk _ _ _ _ \<Rightarrow> splunk_request x events
          | Elastic _ _ _ _ \<Rightarrow> elasticsearch_request (sx_day env now) x events)
        in if sx_url_ok env (sq_url q) then [q] else [])"

fun line_events :: "sink_line list \<Rightarrow> siem_event list" where
  "line_events [] = []"
| "line_events (HecLine e h i t # ls) = e # line_events ls"
| "line_events (EventLine e # ls) = e # line_events ls"
| "line_events (MetaLine d # ls) = line_events ls"

text \<open>What went to an exporter, and what a worker still holds for it.\<close>

definition received :: "string \<Rightarrow> delivery list \<Rightarrow> siem_event list" where
  "received name ds = concat (map (\<lambda>(n, x, now, events). if n = name then events else []) ds)"

definition held_for :: "string \<Rightarrow> worker \<Rightarrow> siem_event list" where
  "held_for name job = (case job of Exporting xs events \<Rightarrow> if name \<in> fst ` set xs then events else [] | _ \<Rightarrow> [])"

lemma received_simps [simp]:
  "received name [] = []"
  "received name (ds @ [(n, x, now, events)]) = received name ds @ (if n = name then events else [])"
  by (simp_all add: received_def)

lemma held_for_simps [simp]:
  "held_for name Resting = []" "held_for name Flushing = []"
  "held_for name (Exporting xs events) = (if name \<in> fst ` set xs then events else [])"
  by (simp_all add: held_for_def)

lemma line_events_batch:
  "line_events (map (\<lambda>e. HecLine e (h e) i (t e)) events) = events"
  "line_events (concat (map (\<lambda>e. [MetaLine d, EventLine e]) events)) = events"
  by (induction events) simp_all

lemma delivered_events: "q \<in> set (delivered env (n, x, now, events)) \<Longrightarrow> line_events (sq_body q) = events"
  by (cases x)
    (auto simp: delivered_def splunk_request_def elasticsearch_request_def line_events_batch Let_def split: if_splits)

text \<open>One call of an exporter with a batch is one delivery.\<close>

lemma recorded_send:
  assumes "events \<noteq> []"
  shows "fst (fst (exporter_send (recording env) now x events w)) = fst w @ delivered env (n, x, now, events)"
  using assms
  by (cases x; cases w)
    (auto simp: exporter_send_def splunk_send_def elasticsearch_send_def post_lines_def delivered_def recording_def Let_def
      split: prod.splits sum.splits)

section \<open>Each event once\<close>

definition job_ok :: "(string \<times> exporter) list \<Rightarrow> worker \<Rightarrow> bool" where
  "job_ok sinks job = (case job of Exporting xs events \<Rightarrow> events \<noteq> [] \<and> distinct (map fst xs) \<and> set xs \<subseteq> set sinks | _ \<Rightarrow> True)"

text \<open>The accounts after \<open>es\<close> were sent and \<open>ds\<close> were delivered.\<close>

definition accounts :: "'w siem_env \<Rightarrow> siem_event list \<Rightarrow> delivery list \<Rightarrow> (sink_request list \<times> 'w) siem_system \<Rightarrow> bool" where
  "accounts env es ds y \<longleftrightarrow>
     distinct (map fst (sm_sinks (sy_siem y))) \<and> job_ok (sm_sinks (sy_siem y)) (sy_loop y) \<and> job_ok (sm_sinks (sy_siem y)) (sy_closer y) \<and>
     fst (sy_world y) = concat (map (delivered env) ds) \<and>
     (\<forall>(n, x, now, events)\<in>set ds. (n, x) \<in> set (sm_sinks (sy_siem y))) \<and>
     (\<forall>n\<in>fst ` set (sm_sinks (sy_siem y)).
        mset (received n ds) + mset (held_for n (sy_loop y)) + mset (held_for n (sy_closer y)) + mset (sm_buffer (sy_siem y)) = mset es) \<and>
     (\<not> sm_closed (sy_siem y) \<longrightarrow> sy_closer y = Resting \<and>
        (\<forall>n\<in>fst ` set (sm_sinks (sy_siem y)). received n ds @ held_for n (sy_loop y) @ sm_buffer (sy_siem y) = es))"

lemma flush_job:
  assumes "walks_maps env" and "distinct (map fst (sm_sinks m))" and "siem_flush (recording env) now m = (m', job)"
  shows "sm_sinks m' = sm_sinks m \<and> sm_closed m' = sm_closed m \<and> sm_buffer m' = [] \<and> job \<noteq> Flushing \<and> job_ok (sm_sinks m) job \<and>
    (\<forall>n\<in>fst ` set (sm_sinks m). held_for n job = sm_buffer m)"
proof (cases "sm_buffer m = []")
  case True
  with assms(3) show ?thesis by (auto simp: siem_flush_def job_ok_def)
next
  case False
  let ?xs = "sx_order env now (sm_sinks m)"
  have perm: "mset ?xs = mset (sm_sinks m)" using assms(1) by (simp add: walks_maps_def)
  then have same: "set ?xs = set (sm_sinks m)" by (rule mset_eq_setD)
  have "mset (map fst ?xs) = mset (map fst (sm_sinks m))" using perm by simp
  then have dist: "distinct (map fst ?xs)" using assms(2) by (metis mset_eq_imp_distinct_iff)
  show ?thesis
  proof (cases ?xs)
    case Nil
    with assms(3) False same show ?thesis by (auto simp: siem_flush_def recording_def job_ok_def)
  next
    case (Cons a as)
    then have "job = Exporting ?xs (sm_buffer m)" "m' = m\<lparr>sm_buffer := []\<rparr>"
      using assms(3) False by (simp_all add: siem_flush_def recording_def)
    with False same dist show ?thesis by (simp add: job_ok_def)
  qed
qed

lemma export_job:
  assumes "job_ok sinks job" and "export_next (recording env) now job w = (job', w')"
  shows "job_ok sinks job' \<and> (job' = Flushing \<longleftrightarrow> job = Flushing) \<and> (job = Resting \<longrightarrow> job' = Resting) \<and>
    (job' = job \<and> w' = w \<or>
     (\<exists>n x events. (n, x) \<in> set sinks \<and> fst w' = fst w @ delivered env (n, x, now, events) \<and>
        held_for n job = events \<and> held_for n job' = [] \<and> (\<forall>k. k \<noteq> n \<longrightarrow> held_for k job' = held_for k job)))"
proof (cases job)
  case (Exporting xs events)
  show ?thesis
  proof (cases xs)
    case Nil
    with assms Exporting show ?thesis by (auto simp: export_next_def)
  next
    case (Cons nx ys)
    obtain n x where nx: "nx = (n, x)" by (cases nx)
    have ev: "events \<noteq> []" using assms(1) Exporting by (simp add: job_ok_def)
    have fresh: "n \<notin> fst ` set ys" using assms(1) Exporting Cons nx by (auto simp: job_ok_def)
    have job': "job' = (if ys = [] then Resting else Exporting ys events)"
      and w': "w' = fst (exporter_send (recording env) now x events w)"
      using assms(2) Exporting Cons nx by (auto simp: export_next_def)
    have "fst w' = fst w @ delivered env (n, x, now, events)" unfolding w' by (rule recorded_send [OF ev])
    moreover have "(n, x) \<in> set sinks" "job_ok sinks job'"
      using assms(1) Exporting Cons nx by (auto simp: job_ok_def job')
    moreover have "held_for n job = events" "held_for n job' = []" using Exporting Cons nx fresh by (auto simp: job')
    moreover have "held_for k job' = held_for k job" if "k \<noteq> n" for k using Exporting Cons nx that by (auto simp: job')
    moreover have "job' \<noteq> Flushing" "job \<noteq> Flushing" "job \<noteq> Resting" using Exporting by (simp_all add: job')
    ultimately show ?thesis by blast
  qed
qed (use assms in \<open>auto simp: export_next_def\<close>)

lemma accounts_flush:
  assumes "walks_maps env" and acc: "accounts env es ds y" and "siem_flush (recording env) now (sy_siem y) = (m, job)"
  shows "sy_loop y = Flushing \<Longrightarrow> accounts env es ds (y\<lparr>sy_siem := m, sy_loop := job\<rparr>)"
    and "sy_closer y = Flushing \<Longrightarrow> accounts env es ds (y\<lparr>sy_siem := m, sy_closer := job\<rparr>)"
proof -
  have dist: "distinct (map fst (sm_sinks (sy_siem y)))" using acc by (simp add: accounts_def)
  from flush_job [OF assms(1) dist assms(3)]
  have m: "sm_sinks m = sm_sinks (sy_siem y)" "sm_closed m = sm_closed (sy_siem y)" "sm_buffer m = []"
    and ok: "job_ok (sm_sinks (sy_siem y)) job"
    and held: "\<And>n. n \<in> fst ` set (sm_sinks (sy_siem y)) \<Longrightarrow> held_for n job = sm_buffer (sy_siem y)" by auto
  show "sy_loop y = Flushing \<Longrightarrow> accounts env es ds (y\<lparr>sy_siem := m, sy_loop := job\<rparr>)"
    using acc m ok held unfolding accounts_def by (simp add: ac_simps)
  show "sy_closer y = Flushing \<Longrightarrow> accounts env es ds (y\<lparr>sy_siem := m, sy_closer := job\<rparr>)"
    using acc m ok held unfolding accounts_def by (auto simp: ac_simps)
qed

lemma accounts_export:
  assumes acc: "accounts env es ds y"
  shows "export_next (recording env) now (sy_loop y) (sy_world y) = (job, w) \<Longrightarrow>
      \<exists>ds'. accounts env es ds' (y\<lparr>sy_loop := job, sy_world := w\<rparr>)"
    and "export_next (recording env) now (sy_closer y) (sy_world y) = (job, w) \<Longrightarrow>
      \<exists>ds'. accounts env es ds' (y\<lparr>sy_closer := job, sy_world := w\<rparr>)"
proof -
  let ?sinks = "sm_sinks (sy_siem y)"
  assume run: "export_next (recording env) now (sy_loop y) (sy_world y) = (job, w)"
  have "job_ok ?sinks (sy_loop y)" using acc by (simp add: accounts_def)
  from export_job [OF this run] have ok: "job_ok ?sinks job"
    and "job = sy_loop y \<and> w = sy_world y \<or> (\<exists>n x events. (n, x) \<in> set ?sinks \<and>
      fst w = fst (sy_world y) @ delivered env (n, x, now, events) \<and> held_for n (sy_loop y) = events \<and> held_for n job = [] \<and>
      (\<forall>k. k \<noteq> n \<longrightarrow> held_for k job = held_for k (sy_loop y)))" by auto
  then show "\<exists>ds'. accounts env es ds' (y\<lparr>sy_loop := job, sy_world := w\<rparr>)"
  proof (elim disjE exE)
    assume "job = sy_loop y \<and> w = sy_world y"
    with acc show ?thesis by (intro exI [of _ ds]) simp
  next
    fix n x events
    assume d: "(n, x) \<in> set ?sinks \<and> fst w = fst (sy_world y) @ delivered env (n, x, now, events) \<and> held_for n (sy_loop y) = events \<and>
      held_for n job = [] \<and> (\<forall>k. k \<noteq> n \<longrightarrow> held_for k job = held_for k (sy_loop y))"
    have each: "received k (ds @ [(n, x, now, events)]) @ held_for k job = received k ds @ held_for k (sy_loop y)" for k
      using d by (cases "k = n") auto
    have each_mset: "mset (received k (ds @ [(n, x, now, events)])) + mset (held_for k job) = mset (received k ds) + mset (held_for k (sy_loop y))" for k
      using each [of k] by (metis mset_append)
    have "accounts env es (ds @ [(n, x, now, events)]) (y\<lparr>sy_loop := job, sy_world := w\<rparr>)"
      using acc ok d each_mset unfolding accounts_def
      by (simp del: received_simps) (simp del: received_simps append_assoc add: append_assoc [symmetric] each)
    then show ?thesis ..
  qed
next
  let ?sinks = "sm_sinks (sy_siem y)"
  assume run: "export_next (recording env) now (sy_closer y) (sy_world y) = (job, w)"
  have "job_ok ?sinks (sy_closer y)" using acc by (simp add: accounts_def)
  from export_job [OF this run] have ok: "job_ok ?sinks job" and rest: "sy_closer y = Resting \<longrightarrow> job = Resting"
    and "job = sy_closer y \<and> w = sy_world y \<or> (\<exists>n x events. (n, x) \<in> set ?sinks \<and>
      fst w = fst (sy_world y) @ delivered env (n, x, now, events) \<and> held_for n (sy_closer y) = events \<and> held_for n job = [] \<and>
      (\<forall>k. k \<noteq> n \<longrightarrow> held_for k job = held_for k (sy_closer y)))" by auto
  then show "\<exists>ds'. accounts env es ds' (y\<lparr>sy_closer := job, sy_world := w\<rparr>)"
  proof (elim disjE exE)
    assume "job = sy_closer y \<and> w = sy_world y"
    with acc show ?thesis by (intro exI [of _ ds]) simp
  next
    fix n x events
    assume d: "(n, x) \<in> set ?sinks \<and> fst w = fst (sy_world y) @ delivered env (n, x, now, events) \<and> held_for n (sy_closer y) = events \<and>
      held_for n job = [] \<and> (\<forall>k. k \<noteq> n \<longrightarrow> held_for k job = held_for k (sy_closer y))"
    have each_mset: "mset (received k (ds @ [(n, x, now, events)])) + mset (held_for k job) = mset (received k ds) + mset (held_for k (sy_closer y))" for k
      using d by (cases "k = n") auto
    have swap: "mset (received k (ds @ [(n, x, now, events)])) + a + mset (held_for k job) = mset (received k ds) + a + mset (held_for k (sy_closer y))" for k a
      using each_mset [of k] by (metis add.commute add.left_commute)
    have closed: "events = []" if "\<not> sm_closed (sy_siem y)" using acc d that by (auto simp: accounts_def)
    have "accounts env es (ds @ [(n, x, now, events)]) (y\<lparr>sy_closer := job, sy_world := w\<rparr>)"
      unfolding accounts_def
    proof (intro conjI)
      show "\<forall>k\<in>fst ` set (sm_sinks (sy_siem (y\<lparr>sy_closer := job, sy_world := w\<rparr>))).
        mset (received k (ds @ [(n, x, now, events)])) + mset (held_for k (sy_loop (y\<lparr>sy_closer := job, sy_world := w\<rparr>))) +
        mset (held_for k (sy_closer (y\<lparr>sy_closer := job, sy_world := w\<rparr>))) + mset (sm_buffer (sy_siem (y\<lparr>sy_closer := job, sy_world := w\<rparr>))) = mset es"
        using acc unfolding accounts_def by (simp del: received_simps add: swap)
      show "\<not> sm_closed (sy_siem (y\<lparr>sy_closer := job, sy_world := w\<rparr>)) \<longrightarrow> sy_closer (y\<lparr>sy_closer := job, sy_world := w\<rparr>) = Resting \<and>
        (\<forall>k\<in>fst ` set (sm_sinks (sy_siem (y\<lparr>sy_closer := job, sy_world := w\<rparr>))). received k (ds @ [(n, x, now, events)]) @
          held_for k (sy_loop (y\<lparr>sy_closer := job, sy_world := w\<rparr>)) @ sm_buffer (sy_siem (y\<lparr>sy_closer := job, sy_world := w\<rparr>)) = es)"
        using acc rest closed unfolding accounts_def by auto
    qed (use acc ok d in \<open>auto simp: accounts_def\<close>)
    then show ?thesis ..
  qed
qed

lemma job_ok_idle [simp]: "job_ok sinks Resting" "job_ok sinks Flushing"
  by (simp_all add: job_ok_def)

lemma accounts_same:
  assumes "accounts env es ds y" and "sm_sinks m = sm_sinks (sy_siem y)" and "sm_closed m = sm_closed (sy_siem y)"
    and "sm_buffer m = sm_buffer (sy_siem y)"
  shows "accounts env es ds (y\<lparr>sy_siem := m\<rparr>)"
    and "sy_loop y = Resting \<Longrightarrow> accounts env es ds (y\<lparr>sy_siem := m, sy_loop := Flushing\<rparr>)"
  using assms by (simp_all add: accounts_def)

lemma accounts_close:
  assumes "accounts env es ds y" and "siem_close y = Inr y'"
  shows "accounts env es ds y'"
proof -
  have y': "\<not> sm_closed (sy_siem y)" "y' = y\<lparr>sy_siem := (sy_siem y)\<lparr>sm_closed := True\<rparr>, sy_closer := Flushing\<rparr>"
    using assms(2) by (simp_all add: siem_close_def split: if_splits)
  moreover have "sy_closer y = Resting" using assms(1) y'(1) by (simp add: accounts_def)
  ultimately show ?thesis using assms(1) by (simp add: accounts_def)
qed

lemma siem_send_sel [simp]:
  "sm_sinks (siem_send e m) = sm_sinks m" "sm_closed (siem_send e m) = sm_closed m" "sm_buffer (siem_send e m) = sm_buffer m @ [e]"
  by (simp_all add: siem_send_def Let_def)

lemma accounts_step:
  assumes "walks_maps env" and acc: "accounts env es ds y" and "siem_step (recording env) op y = Inr y'"
  shows "\<exists>ds'. accounts env (es @ events_sent [op]) ds' y'"
proof (cases op)
  case (SendEvent e)
  have "accounts env (es @ [e]) ds (y\<lparr>sy_siem := siem_send e (sy_siem y)\<rparr>)"
    using acc unfolding accounts_def by (simp del: append_assoc add: append_assoc [symmetric])
  with assms(3) SendEvent show ?thesis by auto
next
  case Tick
  with assms(3) acc accounts_same(2) [OF acc, of "sy_siem y"] show ?thesis
    by (intro exI [of _ ds]) (simp add: siem_tick_def split: if_splits)
next
  case Wake
  with assms(3) acc accounts_same(2) [OF acc, of "(sy_siem y)\<lparr>sm_signal := False\<rparr>"] show ?thesis
    by (intro exI [of _ ds]) (simp add: siem_wake_def split: if_splits)
next
  case LoopEnds
  with assms(3) acc accounts_same(1) [OF acc, of "(sy_siem y)\<lparr>sm_running := False\<rparr>"] show ?thesis
    by (intro exI [of _ ds]) (simp add: siem_loop_end_def split: if_splits)
next
  case CloseManager
  with assms(3) accounts_close [OF acc] show ?thesis by (intro exI [of _ ds]) simp
next
  case (TakeBatch closer now)
  obtain m job where f: "siem_flush (recording env) now (sy_siem y) = (m, job)" by fastforce
  note steps = accounts_flush [OF assms(1) acc f]
  show ?thesis
    using assms(3) acc TakeBatch f steps by (intro exI [of _ ds]) (auto split: if_splits)
next
  case (ExportNext closer now)
  show ?thesis
  proof (cases closer)
    case True
    obtain job w where f: "export_next (recording env) now (sy_closer y) (sy_world y) = (job, w)"
      by (cases "export_next (recording env) now (sy_closer y) (sy_world y)")
    from accounts_export(2) [OF acc f] assms(3) ExportNext True f show ?thesis by auto
  next
    case False
    obtain job w where f: "export_next (recording env) now (sy_loop y) (sy_world y) = (job, w)"
      by (cases "export_next (recording env) now (sy_loop y) (sy_world y)")
    from accounts_export(1) [OF acc f] assms(3) ExportNext False f show ?thesis by auto
  qed
qed

lemma events_sent_Cons: "events_sent (op # ops) = events_sent [op] @ events_sent ops"
  by (cases op) simp_all

lemma accounts_run:
  assumes "walks_maps env"
  shows "accounts env es ds y \<Longrightarrow> siem_run (recording env) ops y = Inr y' \<Longrightarrow> \<exists>ds'. accounts env (es @ events_sent ops) ds' y'"
proof (induction ops arbitrary: y es ds)
  case (Cons op ops)
  then obtain y1 where s: "siem_step (recording env) op y = Inr y1" "siem_run (recording env) ops y1 = Inr y'"
    by (auto split: sum.splits)
  from accounts_step [OF assms Cons.prems(1) s(1)] obtain ds1 where "accounts env (es @ events_sent [op]) ds1 y1" by blast
  from Cons.IH [OF this s(2)] show ?case by (simp only: events_sent_Cons [of op ops] append_assoc)
qed auto

lemma new_siem_sinks: "new_siem_manager cfg = Inr m \<Longrightarrow> distinct (map fst (sm_sinks m)) \<and> sm_buffer m = [] \<and> \<not> sm_closed m"
proof -
  assume new: "new_siem_manager cfg = Inr m"
  have "distinct (map fst xs) \<Longrightarrow> distinct (map fst (fold add_exporter cs xs))" for cs xs
    by (induction cs arbitrary: xs) (auto simp: add_exporter_def distinct_update split: option.split)
  with new show ?thesis by (auto simp: new_siem_manager_def split: if_splits)
qed

text \<open>
  Property C35. However the senders, the loop and a caller of \<^verbatim>\<open>Close\<close> interleave, and whatever the services answer, every event
  reaches each exporter at most once: the requests that went out are those of some deliveries, one at most for each, with exactly the
  events of its batch, and for each exporter what it received, what a goroutine still holds for it, and the buffer are together
  the events that were sent. Until the manager is closed they are so in the order of arrival. Nothing that a service refused
  is sent again.
\<close>

theorem siem_exports_each_event_once:
  assumes "new_siem_manager cfg = Inr m" and "walks_maps env"
    and "siem_run (recording env) ops (started_siem m ([], w)) = Inr y"
  shows "\<exists>ds. fst (sy_world y) = concat (map (delivered env) ds) \<and>
    (\<forall>(n, x, now, events)\<in>set ds. (n, x) \<in> set (sm_sinks (sy_siem y)) \<and> length (delivered env (n, x, now, events)) \<le> 1 \<and>
       (\<forall>q\<in>set (delivered env (n, x, now, events)). line_events (sq_body q) = events)) \<and>
    (\<forall>n\<in>fst ` set (sm_sinks (sy_siem y)).
       mset (received n ds) + mset (held_for n (sy_loop y)) + mset (held_for n (sy_closer y)) + mset (sm_buffer (sy_siem y))
         = mset (events_sent ops) \<and>
       (\<not> sm_closed (sy_siem y) \<longrightarrow> received n ds @ held_for n (sy_loop y) @ sm_buffer (sy_siem y) = events_sent ops))"
proof -
  have "accounts env [] [] (started_siem m ([], w))"
    using new_siem_sinks [OF assms(1)] by (simp add: accounts_def started_siem_def job_ok_def)
  from accounts_run [OF assms(2) this assms(3)] obtain ds where acc: "accounts env (events_sent ops) ds y" by auto
  have one: "length (delivered env d) \<le> 1" for d by (simp add: delivered_def Let_def split: prod.split)
  show ?thesis
    using acc one delivered_events unfolding accounts_def by (intro exI [of _ ds]) fastforce
qed

lemma cef_severity_mono: "format_cef_severity i = ''Very High'' \<Longrightarrow> i \<le> j \<Longrightarrow> format_cef_severity j = ''Very High''"
  by (auto simp: format_cef_severity_def split: if_splits)

section \<open>Witness\<close>

definition demo_siem_event :: siem_event where
  "demo_siem_event = \<lparr>ev_time = 0, ev_type = [], ev_host = ''h'', ev_source = [], ev_id = 1, ev_name = ''n'', ev_severity = 9, ev_src_ip = [],
     ev_dst_ip = [], ev_method = [], ev_uri = [], ev_agent = [], ev_attack = [], ev_rule_id = [], ev_score = 0, ev_blocked = True,
     ev_country = [], ev_latency = 0, ev_raw = [], ev_metadata = []\<rparr>"

text \<open>A service that counts the requests and refuses them all.\<close>

definition demo_siem_env :: "nat siem_env" where
  "demo_siem_env = \<lparr>sx_url_ok = (\<lambda>u. True), sx_post = (\<lambda>q n. (Suc n, Inr (503, []))), sx_day = (\<lambda>t. []),
     sx_order = (\<lambda>t xs. xs)\<rparr>"

definition demo_siem :: siem_config where
  "demo_siem = \<lparr>sm_enabled = True, sm_interval = 1, sm_batch = 2,
     sm_exporters = [\<lparr>se_type = ''splunk'', se_enabled = True, se_url = ''http://s'', se_token = ''t'', se_index = ''i'', se_username = [],
       se_password = [], se_verify_ssl = True\<rparr>]\<rparr>"

definition demo_operations :: "siem_operation list" where
  "demo_operations = [SendEvent demo_siem_event, SendEvent demo_siem_event, Wake, TakeBatch False 0, ExportNext False 0, SendEvent demo_siem_event]"

text \<open>Two events go out in one request, although it is refused, and the third waits.\<close>

lemma siem_exports_each_event_once_witness:
  "\<exists>m y ds. new_siem_manager demo_siem = Inr m \<and>
    siem_run (recording demo_siem_env) demo_operations (started_siem m ([], 0)) = Inr y \<and> length (fst (sy_world y)) = 1 \<and>
    received ''splunk'' ds @ sm_buffer (sy_siem y) = [demo_siem_event, demo_siem_event, demo_siem_event]"
proof -
  let ?x = "Splunk ''http://s'' ''t'' ''i'' True"
  obtain m where m: "new_siem_manager demo_siem = Inr m" "sm_sinks m = [(''splunk'', ?x)]" "sm_batch (sm_conf m) = 2" "sm_buffer m = []"
    "sm_running m" "\<not> sm_closed m"
    by (simp add: new_siem_manager_def demo_siem_def add_exporter_def make_exporter_def new_splunk_exporter_def)
  let ?r = "siem_run (recording demo_siem_env) demo_operations (started_siem m ([], 0))"
  have "\<exists>y. ?r = Inr y \<and> sm_sinks (sy_siem y) = [(''splunk'', ?x)] \<and> \<not> sm_closed (sy_siem y) \<and> sy_loop y = Resting \<and> length (fst (sy_world y)) = 1"
    using m by (simp add: demo_operations_def started_siem_def siem_send_def siem_wake_def siem_flush_def export_next_def exporter_send_def
        splunk_send_def splunk_request_def post_lines_def recording_def demo_siem_env_def Let_def)
  then obtain y where y: "?r = Inr y" "sm_sinks (sy_siem y) = [(''splunk'', ?x)]" "\<not> sm_closed (sy_siem y)" "sy_loop y = Resting"
    "length (fst (sy_world y)) = 1" by blast
  have "walks_maps demo_siem_env" by (simp add: walks_maps_def demo_siem_env_def)
  from siem_exports_each_event_once [OF m(1) this y(1)] obtain ds
    where "received ''splunk'' ds @ sm_buffer (sy_siem y) = events_sent demo_operations" using y by auto
  then show ?thesis using m(1) y(1,5) by (auto simp: demo_operations_def)
qed

end
