(* ===== verification/MlClient.thy ===== *)
theory MlClient
  imports Json Performance
begin

text \<open>
  The client of the machine-learning service, \<^verbatim>\<open>internal/ml/client.go\<close>: requests with retries, the circuit breaker and the result
  that stands in when the service does not answer. The service acts on a world \<open>'w\<close>; the encoding of a request is the library's.
\<close>

section \<open>Results\<close>

record inspection_result =
  in_threat :: rat
  in_malicious :: bool
  in_category :: string
  in_confidence :: rat
  in_features :: "(string \<times> rat) list"
  in_bot :: rat
  in_anomaly :: rat

definition no_inspection :: inspection_result where
  "no_inspection = \<lparr>in_threat = 0, in_malicious = False, in_category = [], in_confidence = 0, in_features = [], in_bot = 0, in_anomaly = 0\<rparr>"

record classification_result =
  cl_label :: string
  cl_score :: rat
  cl_probabilities :: "(string \<times> rat) list"

record fingerprint_result =
  fg_fingerprint :: string
  fg_confidence :: rat
  fg_known :: bool

record bot_score_result =
  bs_score :: rat
  bs_bot :: bool
  bs_type :: string

record ml_inspect_request =
  iq_method :: string
  iq_path :: string
  iq_headers :: "(string \<times> string) list"
  iq_body :: string
  iq_content_type :: string
  iq_real_ip :: string
  iq_agent :: string
  iq_query :: "(string \<times> string list) list"

text \<open>A member of type \<^verbatim>\<open>map[string]float64\<close>; \<open>fl\<close> rounds to a float64.\<close>

definition float_elem :: "(rat \<Rightarrow> rat) \<Rightarrow> json \<Rightarrow> rat option" where
  "float_elem fl v = (case v of JNull \<Rightarrow> Some 0 | JNum n \<Rightarrow> if num_in_range n then Some (fl (num_value n)) else None | _ \<Rightarrow> None)"

definition float_map_field :: "(rat \<Rightarrow> rat) \<Rightarrow> string \<Rightarrow> ((string \<times> rat) list \<Rightarrow> 's \<Rightarrow> 's) \<Rightarrow> 's field" where
  "float_map_field fl name put =
     (name, \<lambda>v s. case v of
        JNull \<Rightarrow> Some (put [] s)
      | JObj ms \<Rightarrow> map_option (\<lambda>xs. put xs s) (all_some (map (\<lambda>(k, x). map_option (Pair k) (float_elem fl x)) ms))
      | _ \<Rightarrow> None)"

definition inspection_fields :: "(rat \<Rightarrow> rat) \<Rightarrow> inspection_result field list" where
  "inspection_fields fl =
     [float_field fl ''threat_score'' (\<lambda>v r. r\<lparr>in_threat := v\<rparr>), bool_field ''is_malicious'' (\<lambda>v r. r\<lparr>in_malicious := v\<rparr>),
      string_field ''category'' (\<lambda>v r. r\<lparr>in_category := v\<rparr>), float_field fl ''confidence'' (\<lambda>v r. r\<lparr>in_confidence := v\<rparr>),
      float_map_field fl ''features'' (\<lambda>v r. r\<lparr>in_features := v\<rparr>), float_field fl ''bot_score'' (\<lambda>v r. r\<lparr>in_bot := v\<rparr>),
      float_field fl ''anomaly_score'' (\<lambda>v r. r\<lparr>in_anomaly := v\<rparr>)]"

definition classification_fields :: "(rat \<Rightarrow> rat) \<Rightarrow> classification_result field list" where
  "classification_fields fl =
     [string_field ''label'' (\<lambda>v r. r\<lparr>cl_label := v\<rparr>), float_field fl ''score'' (\<lambda>v r. r\<lparr>cl_score := v\<rparr>),
      float_map_field fl ''probabilities'' (\<lambda>v r. r\<lparr>cl_probabilities := v\<rparr>)]"

definition fingerprint_fields :: "(rat \<Rightarrow> rat) \<Rightarrow> fingerprint_result field list" where
  "fingerprint_fields fl =
     [string_field ''fingerprint'' (\<lambda>v r. r\<lparr>fg_fingerprint := v\<rparr>), float_field fl ''confidence'' (\<lambda>v r. r\<lparr>fg_confidence := v\<rparr>),
      bool_field ''is_known'' (\<lambda>v r. r\<lparr>fg_known := v\<rparr>)]"

definition bot_score_fields :: "(rat \<Rightarrow> rat) \<Rightarrow> bot_score_result field list" where
  "bot_score_fields fl =
     [float_field fl ''score'' (\<lambda>v r. r\<lparr>bs_score := v\<rparr>), bool_field ''is_bot'' (\<lambda>v r. r\<lparr>bs_bot := v\<rparr>),
      string_field ''bot_type'' (\<lambda>v r. r\<lparr>bs_type := v\<rparr>)]"

section \<open>The client and its breaker\<close>

record ml_breaker =
  br_failures :: int
  br_last_error :: gotime
  br_threshold :: int
  br_cooldown :: duration
  br_open :: bool

record ml_client =
  mc_base_url :: string
  mc_timeout :: duration
  mc_max_retries :: int
  mc_fallback :: string
  mc_available :: bool
  mc_breaker :: ml_breaker

definition new_ml_client :: "string \<Rightarrow> int \<Rightarrow> int \<Rightarrow> string \<Rightarrow> ml_client" where
  "new_ml_client endpoint timeout retries fallback =
     \<lparr>mc_base_url = endpoint, mc_timeout = int64 (timeout * second), mc_max_retries = retries, mc_fallback = fallback,
      mc_available = True,
      mc_breaker = \<lparr>br_failures = 0, br_last_error = zero_time, br_threshold = 5, br_cooldown = 30 * second, br_open = False\<rparr>\<rparr>"

definition is_available :: "gotime \<Rightarrow> ml_client \<Rightarrow> ml_client \<times> bool" where
  "is_available now c =
     (let b = mc_breaker c in
      if \<not> mc_available c then (c, False)
      else if br_open b then
        (if br_cooldown b < time_sub now (br_last_error b) then (c\<lparr>mc_breaker := b\<lparr>br_open := False, br_failures := 0\<rparr>\<rparr>, True)
         else (c, False))
      else (c, True))"

definition ml_record_success :: "ml_client \<Rightarrow> ml_client" where
  "ml_record_success c = c\<lparr>mc_breaker := (mc_breaker c)\<lparr>br_failures := 0\<rparr>\<rparr>"

definition ml_record_failure :: "gotime \<Rightarrow> ml_client \<Rightarrow> ml_client" where
  "ml_record_failure now c =
     (let b = (mc_breaker c)\<lparr>br_failures := br_failures (mc_breaker c) + 1\<rparr> in
      if br_threshold b \<le> br_failures b then c\<lparr>mc_breaker := b\<lparr>br_open := True, br_last_error := now\<rparr>\<rparr> else c\<lparr>mc_breaker := b\<rparr>)"

definition fallback_result :: "ml_client \<Rightarrow> inspection_result" where
  "fallback_result c =
     (if mc_fallback c = ''block'' then no_inspection\<lparr>in_threat := 100, in_malicious := True, in_bot := 100\<rparr>
      else if mc_fallback c = ''monitor'' then no_inspection\<lparr>in_threat := 50, in_bot := 50\<rparr>
      else no_inspection)"

definition set_available :: "bool \<Rightarrow> ml_client \<Rightarrow> ml_client" where
  "set_available b c = c\<lparr>mc_available := b\<rparr>"

section \<open>Calls of the service\<close>

text \<open>
  The outside: whether a request can be made for an address, the answer to a call with some encoded data (an error of the
  connection, or status and body), the rounding of numbers, and the encoding of a request, which never fails.
\<close>

record ('q, 'w) ml_env =
  mv_url_ok :: "string \<Rightarrow> bool"
  mv_call :: "string \<Rightarrow> string \<Rightarrow> 'q \<Rightarrow> 'w \<Rightarrow> 'w \<times> (gotext + int \<times> string)"
  mv_round :: "rat \<Rightarrow> rat"
  mv_encode :: "ml_inspect_request \<Rightarrow> 'q"

definition call_inspect :: "('q, 'w) ml_env \<Rightarrow> ml_client \<Rightarrow> ml_inspect_request \<Rightarrow> 'w \<Rightarrow> 'w \<times> (gotext + inspection_result)" where
  "call_inspect env c q w =
     (if \<not> mv_url_ok env (mc_base_url c @ ''/v1/inspect'') then (w, Inl (Fmt ''create request: %w'' []))
      else
        (case mv_call env ''POST'' (mc_base_url c @ ''/v1/inspect'') (mv_encode env q) w of
           (w', Inl e) \<Rightarrow> (w', Inl (Fmt ''http request: %w'' []))
         | (w', Inr (status, body)) \<Rightarrow>
             (w', if status \<noteq> 200 then Inl (Fmt ''ml service returned %d: %s'' [AInt status, AStr body])
                  else
                    (case decode_stream (inspection_fields (mv_round env)) no_inspection body of
                       None \<Rightarrow> Inl (Fmt ''decode response: %w'' [])
                     | Some r \<Rightarrow> Inr r))))"

text \<open>The loop of \<^verbatim>\<open>Inspect\<close> from attempt \<open>i\<close> on, with the number of attempts left; \<open>t i\<close> is the time at which attempt \<open>i\<close> has ended.\<close>

fun ml_attempts ::
  "('q, 'w) ml_env \<Rightarrow> (nat \<Rightarrow> gotime) \<Rightarrow> ml_inspect_request \<Rightarrow> nat \<Rightarrow> nat \<Rightarrow> gotext option \<Rightarrow> ml_client \<times> 'w
     \<Rightarrow> (ml_client \<times> 'w) \<times> (gotext option + inspection_result)" where
  "ml_attempts env t q i 0 err (c, w) = ((c, w), Inl err)"
| "ml_attempts env t q i (Suc n) err (c, w) =
     (case call_inspect env c q w of
        (w', Inr r) \<Rightarrow> ((ml_record_success c, w'), Inr r)
      | (w', Inl e) \<Rightarrow> ml_attempts env t q (Suc i) n (Some e) (ml_record_failure (t i) c, w'))"

definition ml_inspect ::
  "('q, 'w) ml_env \<Rightarrow> gotime \<Rightarrow> (nat \<Rightarrow> gotime) \<Rightarrow> ml_inspect_request \<Rightarrow> ml_client \<times> 'w
     \<Rightarrow> (ml_client \<times> 'w) \<times> inspection_result \<times> gotext option" where
  "ml_inspect env now t q cw =
     (case cw of (c, w) \<Rightarrow>
        case is_available now c of
          (c', False) \<Rightarrow> ((c', w), fallback_result c', Some (Lit ''ml client unavailable''))
        | (c', True) \<Rightarrow>
            (case ml_attempts env t q 0 (nat (mc_max_retries c' + 1)) None (c', w) of
               ((c'', w'), Inr r) \<Rightarrow> ((c'', w'), r, None)
             | ((c'', w'), Inl err) \<Rightarrow>
                 ((c'', w'), fallback_result c'', Some (Fmt ''ml inspect failed after %d retries: %w'' [AInt (mc_max_retries c'')]))))"

text \<open>The other calls: one attempt, no breaker, and any status is taken for an answer.\<close>

definition ml_call :: "('q, 'w) ml_env \<Rightarrow> string \<Rightarrow> (string \<Rightarrow> 'r option) \<Rightarrow> ml_client \<Rightarrow> 'q \<Rightarrow> 'w \<Rightarrow> 'w \<times> (gotext + 'r)" where
  "ml_call env path decode c q w =
     (if \<not> mv_url_ok env (mc_base_url c @ path) then (w, Inl (Fmt ''parse %q'' [AStr (mc_base_url c @ path)]))
      else
        (case mv_call env ''POST'' (mc_base_url c @ path) q w of
           (w', Inl e) \<Rightarrow> (w', Inl e)
         | (w', Inr (status, body)) \<Rightarrow> (w', case decode body of None \<Rightarrow> Inl (Fmt ''json: %w'' []) | Some r \<Rightarrow> Inr r)))"

definition ml_classify :: "('q, 'w) ml_env \<Rightarrow> ml_client \<Rightarrow> 'q \<Rightarrow> 'w \<Rightarrow> 'w \<times> (gotext + classification_result)" where
  "ml_classify env =
     ml_call env ''/v1/classify''
       (decode_stream (classification_fields (mv_round env)) \<lparr>cl_label = [], cl_score = 0, cl_probabilities = []\<rparr>)"

definition ml_fingerprint :: "('q, 'w) ml_env \<Rightarrow> ml_client \<Rightarrow> 'q \<Rightarrow> 'w \<Rightarrow> 'w \<times> (gotext + fingerprint_result)" where
  "ml_fingerprint env =
     ml_call env ''/v1/fingerprint''
       (decode_stream (fingerprint_fields (mv_round env)) \<lparr>fg_fingerprint = [], fg_confidence = 0, fg_known = False\<rparr>)"

definition ml_bot_score :: "('q, 'w) ml_env \<Rightarrow> ml_client \<Rightarrow> 'q \<Rightarrow> 'w \<Rightarrow> 'w \<times> (gotext + bot_score_result)" where
  "ml_bot_score env =
     ml_call env ''/v1/bot-score'' (decode_stream (bot_score_fields (mv_round env)) \<lparr>bs_score = 0, bs_bot = False, bs_type = []\<rparr>)"

definition ml_health_check :: "('q, 'w) ml_env \<Rightarrow> ml_client \<Rightarrow> 'q \<Rightarrow> 'w \<Rightarrow> 'w \<times> gotext option" where
  "ml_health_check env c nothing w =
     (if \<not> mv_url_ok env (mc_base_url c @ ''/v1/health'') then (w, Some (Fmt ''parse %q'' [AStr (mc_base_url c @ ''/v1/health'')]))
      else
        (case mv_call env ''GET'' (mc_base_url c @ ''/v1/health'') nothing w of
           (w', Inl e) \<Rightarrow> (w', Some e)
         | (w', Inr a) \<Rightarrow> (w', None)))"

section \<open>What an inspection answers\<close>

text \<open>The world after some attempts, and the outcome of an attempt in the world that those before it left.\<close>

definition after_attempts :: "('q, 'w) ml_env \<Rightarrow> ml_client \<Rightarrow> ml_inspect_request \<Rightarrow> nat \<Rightarrow> 'w \<Rightarrow> 'w" where
  "after_attempts env c q k = (\<lambda>w. fst (call_inspect env c q w)) ^^ k"

definition attempt :: "('q, 'w) ml_env \<Rightarrow> ml_client \<Rightarrow> ml_inspect_request \<Rightarrow> nat \<Rightarrow> 'w \<Rightarrow> gotext + inspection_result" where
  "attempt env c q k w = snd (call_inspect env c q (after_attempts env c q k w))"

definition failures_from :: "(nat \<Rightarrow> gotime) \<Rightarrow> nat \<Rightarrow> nat \<Rightarrow> ml_client \<Rightarrow> ml_client" where
  "failures_from t i k c = fold (\<lambda>j. ml_record_failure (t j)) [i..<i + k] c"

lemma after_attempts_simps [simp]:
  "after_attempts env c q 0 w = w"
  "after_attempts env c q (Suc k) w = after_attempts env c q k (fst (call_inspect env c q w))"
  by (simp_all add: after_attempts_def funpow_Suc_right del: funpow.simps)

lemma attempt_simps [simp]:
  "attempt env c q 0 w = snd (call_inspect env c q w)"
  "attempt env c q (Suc k) w = attempt env c q k (fst (call_inspect env c q w))"
  by (simp_all add: attempt_def)

lemma failures_from_simps [simp]:
  "failures_from t i 0 c = c"
  "failures_from t i (Suc k) c = failures_from t (Suc i) k (ml_record_failure (t i) c)"
proof -
  have "[i..<i + Suc k] = i # [Suc i..<Suc i + k]" by (simp add: upt_conv_Cons)
  then show "failures_from t i (Suc k) c = failures_from t (Suc i) k (ml_record_failure (t i) c)" by (simp add: failures_from_def)
qed (simp add: failures_from_def)

lemma record_failure_keeps [simp]:
  "mc_base_url (ml_record_failure now c) = mc_base_url c" "mc_available (ml_record_failure now c) = mc_available c"
  "mc_fallback (ml_record_failure now c) = mc_fallback c" "mc_max_retries (ml_record_failure now c) = mc_max_retries c"
  by (simp_all add: ml_record_failure_def Let_def)

lemma call_inspect_url: "mc_base_url c = mc_base_url d \<Longrightarrow> call_inspect env c = call_inspect env d"
  by (simp add: call_inspect_def fun_eq_iff)

lemma attempts_url:
  assumes "mc_base_url c = mc_base_url d"
  shows "attempt env c = attempt env d" "after_attempts env c = after_attempts env d"
proof -
  show "attempt env c = attempt env d" by (intro ext) (simp only: attempt_def after_attempts_def call_inspect_url [OF assms])
  show "after_attempts env c = after_attempts env d" by (intro ext) (simp only: after_attempts_def call_inspect_url [OF assms])
qed

lemma failures_from_keeps [simp]:
  "mc_base_url (failures_from t i k c) = mc_base_url c" "mc_available (failures_from t i k c) = mc_available c"
  "mc_fallback (failures_from t i k c) = mc_fallback c" "mc_max_retries (failures_from t i k c) = mc_max_retries c"
  by (induction k arbitrary: i c) simp_all

lemma attempts_succeed:
  assumes "\<forall>j<k. \<exists>e. attempt env c q j w = Inl e" and "attempt env c q k w = Inr r"
  shows "ml_attempts env t q i (Suc k + n) err (c, w) = ((ml_record_success (failures_from t i k c), after_attempts env c q (Suc k) w), Inr r)"
  using assms
proof (induction k arbitrary: i c w err)
  case 0
  then show ?case by (cases "call_inspect env c q w") simp
next
  case (Suc k)
  let ?c = "ml_record_failure (t i) c"
  obtain w' e where c: "call_inspect env c q w = (w', Inl e)"
    using Suc.prems(1) by (cases "call_inspect env c q w") fastforce
  have same: "attempt env ?c = attempt env c" "after_attempts env ?c = after_attempts env c"
    by (simp_all add: attempts_url [of ?c c])
  have "\<forall>j<k. \<exists>e. attempt env ?c q j w' = Inl e" using Suc.prems(1) c by (auto simp: same dest: spec [of _ "Suc _"])
  moreover have "attempt env ?c q k w' = Inr r" using Suc.prems(2) c by (simp add: same)
  ultimately show ?case using Suc.IH [of ?c w' "Suc i" "Some e"] c by (simp add: same call_inspect_url [of ?c c])
qed

lemma attempts_fail:
  assumes "\<forall>j<n. \<exists>e. attempt env c q j w = Inl e"
  shows "\<exists>err'. ml_attempts env t q i n err (c, w) = ((failures_from t i n c, after_attempts env c q n w), Inl err')"
  using assms
proof (induction n arbitrary: i c w err)
  case (Suc n)
  let ?c = "ml_record_failure (t i) c"
  obtain w' e where c: "call_inspect env c q w = (w', Inl e)"
    using Suc.prems by (cases "call_inspect env c q w") fastforce
  have same: "attempt env ?c = attempt env c" "after_attempts env ?c = after_attempts env c"
    by (simp_all add: attempts_url [of ?c c])
  have "\<forall>j<n. \<exists>e. attempt env ?c q j w' = Inl e" using Suc.prems c by (auto simp: same dest: spec [of _ "Suc _"])
  then show ?case using Suc.IH [of ?c w' "Suc i" "Some e"] c by (simp add: same)
qed simp

lemma first_success_cases:
  fixes n :: nat and f :: "nat \<Rightarrow> 'a + 'b"
  obtains (success) k r where "k \<le> n" "\<forall>j<k. \<exists>e. f j = Inl e" "f k = Inr r"
    | (failure) "\<forall>j\<le>n. \<exists>e. f j = Inl e"
proof (cases "\<forall>j\<le>n. \<exists>e. f j = Inl e")
  case False
  define P where "P j \<longleftrightarrow> j \<le> n \<and> (\<forall>e. f j \<noteq> Inl e)" for j
  define k where "k = Least P"
  have "\<exists>j. P j" using False by (auto simp: P_def)
  then have k: "k \<le> n" "\<forall>e. f k \<noteq> Inl e" using LeastI_ex [of P] by (simp_all add: k_def P_def)
  have "\<exists>e. f j = Inl e" if "j < k" for j
  proof -
    have "\<not> P j" using not_less_Least that unfolding k_def by blast
    then show ?thesis using k(1) that by (simp add: P_def)
  qed
  moreover obtain r where "f k = Inr r" using k(2) by (cases "f k") auto
  ultimately show ?thesis using k(1) success by blast
qed (use failure in blast)

text \<open>
  Property C36. An inspection that the breaker lets through asks the service until it answers, at most once more than it may
  retry, and returns the first answer; only when all attempts failed does it return the substitute with an error.
\<close>

theorem ml_inspect_first_answer:
  assumes "is_available now c = (c1, True)" and "0 \<le> mc_max_retries c"
  shows "\<exists>k\<le>nat (mc_max_retries c). \<exists>c2 r err.
    ml_inspect env now t q (c, w) = ((c2, after_attempts env c q (Suc k) w), r, err) \<and> (\<forall>j<k. \<exists>e. attempt env c q j w = Inl e) \<and>
    (attempt env c q k w = Inr r \<and> err = None \<or>
     k = nat (mc_max_retries c) \<and> (\<exists>e. attempt env c q k w = Inl e) \<and> r = fallback_result c \<and> err \<noteq> None)"
proof -
  let ?n = "nat (mc_max_retries c)"
  have c1: "mc_base_url c1 = mc_base_url c" "mc_max_retries c1 = mc_max_retries c" "mc_fallback c1 = mc_fallback c"
    using assms(1) by (auto simp: is_available_def Let_def split: if_splits)
  note same = attempts_url [OF c1(1), of env]
  have n: "nat (mc_max_retries c1 + 1) = Suc ?n" using assms(2) c1(2) by simp
  show ?thesis
  proof (cases rule: first_success_cases [of ?n "\<lambda>j. attempt env c q j w"])
    case (success k r)
    have "ml_attempts env t q 0 (Suc k + (?n - k)) None (c1, w) =
        ((ml_record_success (failures_from t 0 k c1), after_attempts env c1 q (Suc k) w), Inr r)"
      by (rule attempts_succeed) (use success in \<open>simp_all add: same\<close>)
    moreover have "Suc k + (?n - k) = Suc ?n" using success(1) by simp
    ultimately have "ml_inspect env now t q (c, w) =
        ((ml_record_success (failures_from t 0 k c1), after_attempts env c q (Suc k) w), r, None)"
      by (simp only: ml_inspect_def prod.case assms(1) n bool.case sum.case same)
    with success show ?thesis by blast
  next
    case failure
    then have "\<forall>j<Suc ?n. \<exists>e. attempt env c1 q j w = Inl e" by (simp add: same less_Suc_eq_le)
    from attempts_fail [OF this] obtain err where
      "ml_attempts env t q 0 (Suc ?n) None (c1, w) = ((failures_from t 0 (Suc ?n) c1, after_attempts env c1 q (Suc ?n) w), Inl err)" by blast
    then have "ml_inspect env now t q (c, w) = ((failures_from t 0 (Suc ?n) c1, after_attempts env c q (Suc ?n) w),
        fallback_result (failures_from t 0 (Suc ?n) c1), Some (Fmt ''ml inspect failed after %d retries: %w'' [AInt (mc_max_retries c)]))"
      using n by (simp only: ml_inspect_def prod.case assms(1) bool.case sum.case same failures_from_keeps c1)
    moreover have "fallback_result (failures_from t 0 (Suc ?n) c1) = fallback_result c" by (simp add: fallback_result_def c1)
    ultimately show ?thesis using failure by (intro exI [of _ ?n]) auto
  qed
qed

section \<open>The breaker\<close>

lemma failures_open:
  "br_threshold (mc_breaker c) \<le> br_failures (mc_breaker c) + int (Suc k) \<Longrightarrow>
    br_open (mc_breaker (failures_from t i (Suc k) c)) \<and> br_last_error (mc_breaker (failures_from t i (Suc k) c)) = t (i + k) \<and>
    br_cooldown (mc_breaker (failures_from t i (Suc k) c)) = br_cooldown (mc_breaker c)"
proof (induction k arbitrary: i c)
  case (Suc k)
  let ?c = "ml_record_failure (t i) c"
  have b: "br_threshold (mc_breaker ?c) = br_threshold (mc_breaker c)" "br_failures (mc_breaker ?c) = br_failures (mc_breaker c) + 1"
    "br_cooldown (mc_breaker ?c) = br_cooldown (mc_breaker c)"
    by (simp_all add: ml_record_failure_def Let_def)
  then have "br_threshold (mc_breaker ?c) \<le> br_failures (mc_breaker ?c) + int (Suc k)" using Suc.prems by simp
  note ih = Suc.IH [OF this, of "Suc i"]
  have "failures_from t i (Suc (Suc k)) c = failures_from t (Suc i) (Suc k) ?c" by (simp only: failures_from_simps)
  then show ?case using ih b(3) by (simp only: add_Suc_shift)
qed (simp add: ml_record_failure_def Let_def)

text \<open>
  Property C37. When attempts reach the threshold before one of the same inspection succeeds, the success leaves the breaker
  open: the answer is returned, but until the cooldown is over every further inspection gets the substitute, and the service is
  not asked.
\<close>

theorem late_success_leaves_breaker_open:
  assumes "is_available now c = (c1, True)" and "int (Suc k) \<le> mc_max_retries c"
    and "\<forall>j<Suc k. \<exists>e. attempt env c q j w = Inl e" and "attempt env c q (Suc k) w = Inr r"
    and "br_threshold (mc_breaker c1) \<le> br_failures (mc_breaker c1) + int (Suc k)"
    and "time_sub later (t k) \<le> br_cooldown (mc_breaker c1)"
  shows "\<exists>c2 w2. ml_inspect env now t q (c, w) = ((c2, w2), r, None) \<and>
    ml_inspect env later t' q' (c2, w2) = ((c2, w2), fallback_result c, Some (Lit ''ml client unavailable''))"
proof -
  have c1: "mc_base_url c1 = mc_base_url c" "mc_max_retries c1 = mc_max_retries c" "mc_fallback c1 = mc_fallback c" "mc_available c1"
    using assms(1) by (auto simp: is_available_def Let_def split: if_splits)
  note same = attempts_url(1) [OF c1(1), of env]
  let ?n = "nat (mc_max_retries c)" and ?c2 = "ml_record_success (failures_from t 0 (Suc k) c1)"
  have n: "nat (mc_max_retries c1 + 1) = Suc (Suc k) + (?n - Suc k)" using assms(2) c1(2) by simp
  have a: "ml_attempts env t q 0 (Suc (Suc k) + (?n - Suc k)) None (c1, w) = ((?c2, after_attempts env c1 q (Suc (Suc k)) w), Inr r)"
    by (rule attempts_succeed) (use assms(3,4) in \<open>simp_all only: same\<close>)
  have first: "ml_inspect env now t q (c, w) = ((?c2, after_attempts env c1 q (Suc (Suc k)) w), r, None)"
    by (simp only: ml_inspect_def prod.case assms(1) n a bool.case sum.case)
  have "br_open (mc_breaker ?c2)" "br_last_error (mc_breaker ?c2) = t k" "br_cooldown (mc_breaker ?c2) = br_cooldown (mc_breaker c1)"
    "mc_available ?c2" "fallback_result ?c2 = fallback_result c"
    using failures_open [OF assms(5), of t 0] c1 by (simp_all only: ml_record_success_def) (simp_all add: fallback_result_def)
  then have "ml_inspect env later t' q' (?c2, w2) = ((?c2, w2), fallback_result c, Some (Lit ''ml client unavailable''))" for w2
    using assms(6) by (simp add: ml_inspect_def is_available_def Let_def)
  with first show ?thesis by blast
qed

section \<open>Witnesses\<close>

text \<open>A service that fails five times.\<close>

definition demo_ml_env :: "(unit, nat) ml_env" where
  "demo_ml_env = \<lparr>mv_url_ok = (\<lambda>u. True), mv_call = (\<lambda>m u q n. (Suc n, if n < 5 then Inr (500, []) else Inr (200, ''{}''))),
     mv_round = (\<lambda>x. x), mv_encode = (\<lambda>q. ())\<rparr>"

definition demo_ml_request :: ml_inspect_request where
  "demo_ml_request = \<lparr>iq_method = ''GET'', iq_path = ''/'', iq_headers = [], iq_body = [], iq_content_type = [], iq_real_ip = [], iq_agent = [],
     iq_query = []\<rparr>"

definition demo_ml_client :: ml_client where
  "demo_ml_client = new_ml_client ''http://ml'' 1 5 ''block''"

lemma demo_ml_call:
  "call_inspect demo_ml_env c q n =
    (Suc n, if n < 5 then Inl (Fmt ''ml service returned %d: %s'' [AInt 500, AStr []]) else Inr no_inspection)"
proof -
  have empty: "json_value 0 ''{}'' = Some (JObj [], [])" by code_simp
  have "decode_stream (inspection_fields (\<lambda>x. x)) no_inspection ''{}'' = Some no_inspection"
    using empty by (simp add: decode_stream_def decode_struct_def)
  then show ?thesis by (simp add: call_inspect_def demo_ml_env_def)
qed

lemma demo_ml_attempt: "attempt demo_ml_env c q j n =
  (if n + j < 5 then Inl (Fmt ''ml service returned %d: %s'' [AInt 500, AStr []]) else Inr no_inspection)"
  by (induction j arbitrary: n) (simp_all add: demo_ml_call)

lemma demo_ml_available: "is_available now demo_ml_client = (demo_ml_client, True)"
  by (simp add: is_available_def demo_ml_client_def new_ml_client_def)

lemma ml_inspect_first_answer_witness:
  "\<exists>k\<le>5. \<exists>c2 r err. ml_inspect demo_ml_env 0 int demo_ml_request (demo_ml_client, 0) = ((c2, after_attempts demo_ml_env demo_ml_client demo_ml_request (Suc k) 0), r, err)"
proof -
  have "0 \<le> mc_max_retries demo_ml_client" "nat (mc_max_retries demo_ml_client) = 5" by (simp_all add: demo_ml_client_def new_ml_client_def)
  note retries = this
  show ?thesis
    using ml_inspect_first_answer [OF demo_ml_available [of 0] retries(1), where env = demo_ml_env and t = int and q = demo_ml_request and w = 0]
    unfolding retries(2) by blast
qed

lemma late_success_leaves_breaker_open_witness:
  "\<exists>c2 w2. ml_inspect demo_ml_env 0 int demo_ml_request (demo_ml_client, 0) = ((c2, w2), no_inspection, None) \<and>
    snd (ml_inspect demo_ml_env 10 int demo_ml_request (c2, w2)) = (fallback_result demo_ml_client, Some (Lit ''ml client unavailable''))"
proof -
  have "\<exists>c2 w2. ml_inspect demo_ml_env 0 int demo_ml_request (demo_ml_client, 0) = ((c2, w2), no_inspection, None) \<and>
    ml_inspect demo_ml_env 10 int demo_ml_request (c2, w2) = ((c2, w2), fallback_result demo_ml_client, Some (Lit ''ml client unavailable''))"
    by (rule late_success_leaves_breaker_open [OF demo_ml_available, where k = 4])
      (simp_all add: demo_ml_attempt demo_ml_client_def new_ml_client_def time_sub_def min_duration_def max_duration_def)
  then show ?thesis by fastforce
qed

end
