(* ===== verification/Ctl.thy ===== *)
theory Ctl
  imports ApiServer JsonText
begin

text \<open>
  The command-line client \<^verbatim>\<open>cmd/ctl/main.go\<close>: the requests that its commands send, what they make of the answers, and how some
  of them fare with the server of \<^verbatim>\<open>ApiServer.thy\<close>. Reading the flags is the library's; a command is given with their values.
\<close>

section \<open>Requests\<close>

record ctl_options =
  co_url :: string
  co_key :: string

record ctl_request =
  cr_method :: string
  cr_url :: string
  cr_headers :: "(string \<times> string) list"
  cr_body :: "string option"

text \<open>
  The outside acts on a world \<open>'w\<close>: environment, whether a URL is valid, the exchange with the server, files (making the
  directory of a file included), the printing of a decoded value, indented or plain, the value that is written again after it was
  decoded (members sorted, numbers as float64), what the JSON decoder left unread of a body that is no object, and texts that
  depend on time and build.
\<close>

record 'w ctl_env =
  ct_getenv :: "string \<Rightarrow> string"
  ct_url_ok :: "string \<Rightarrow> bool"
  ct_send :: "ctl_request \<Rightarrow> 'w \<Rightarrow> 'w \<times> (gotext + int \<times> string)"
  ct_read_file :: "string \<Rightarrow> 'w \<Rightarrow> gotext + string"
  ct_make_dir :: "string \<Rightarrow> 'w \<Rightarrow> 'w \<times> gotext option"
  ct_write_file :: "string \<Rightarrow> string \<Rightarrow> 'w \<Rightarrow> 'w \<times> gotext option"
  ct_pretty :: "json \<Rightarrow> string"
  ct_show :: "json \<Rightarrow> string"
  ct_decoded :: "json \<Rightarrow> json"
  ct_unread :: "string \<Rightarrow> string"
  ct_timestamp :: string
  ct_version :: string
  ct_commit :: string
  ct_build_date :: string
  ct_go_version :: string

text \<open>\<^verbatim>\<open>PersistentPreRunE\<close>: the environment counts where the flag was not given.\<close>

definition effective_options :: "'w ctl_env \<Rightarrow> string option \<Rightarrow> string option \<Rightarrow> ctl_options" where
  "effective_options env url_flag key_flag =
     (let url = (case url_flag of
                   Some u \<Rightarrow> u
                 | None \<Rightarrow> if ct_getenv env ''FORTRESS_API_URL'' = [] then ''localhost:8443'' else ct_getenv env ''FORTRESS_API_URL'');
          key = (case key_flag of Some k \<Rightarrow> k | None \<Rightarrow> ct_getenv env ''FORTRESS_API_KEY'')
      in \<lparr>co_url = (if has_prefix url ''http'' then url else ''http://'' @ url), co_key = key\<rparr>)"

definition new_ctl_request :: "'w ctl_env \<Rightarrow> ctl_options \<Rightarrow> string \<Rightarrow> string \<Rightarrow> string option \<Rightarrow> gotext + ctl_request" where
  "new_ctl_request env opts m path body =
     (let u = co_url opts @ ''/api/v1'' @ path in
      if \<not> ct_url_ok env u then Inl (Fmt ''parse %q'' [AStr u])
      else
        Inr \<lparr>cr_method = m, cr_url = u,
             cr_headers = (if co_key opts = [] then [] else [(''X-API-Key'', co_key opts)]) @
               [(''Content-Type'', ''application/json''), (''Accept'', ''application/json'')],
             cr_body = body\<rparr>)"

definition do_request_raw ::
  "'w ctl_env \<Rightarrow> ctl_options \<Rightarrow> string \<Rightarrow> string \<Rightarrow> string option \<Rightarrow> 'w \<Rightarrow> 'w \<times> (gotext + int \<times> string)" where
  "do_request_raw env opts m path body w =
     (case new_ctl_request env opts m path body of Inl e \<Rightarrow> (w, Inl e) | Inr q \<Rightarrow> ct_send env q w)"

definition do_request ::
  "'w ctl_env \<Rightarrow> ctl_options \<Rightarrow> string \<Rightarrow> string \<Rightarrow> json option \<Rightarrow> 'w \<Rightarrow> 'w \<times> (gotext + int \<times> string)" where
  "do_request env opts m path body = do_request_raw env opts m path (map_option marshal_json body)"

text \<open>The requests with the contents of a file, whose name says what they are.\<close>

definition file_content_type :: "string \<Rightarrow> string" where
  "file_content_type name =
     (if has_suffix (to_lower name) ''.yaml'' \<or> has_suffix (to_lower name) ''.yml'' then ''application/x-yaml'' else ''application/json'')"

definition send_file ::
  "'w ctl_env \<Rightarrow> ctl_options \<Rightarrow> string \<Rightarrow> string \<Rightarrow> string \<Rightarrow> 'w \<Rightarrow> 'w \<times> (gotext + int \<times> string)" where
  "send_file env opts path name data w =
     (case new_ctl_request env opts ''POST'' path (Some data) of
        Inl e \<Rightarrow> (w, Inl e)
      | Inr q \<Rightarrow> ct_send env (q\<lparr>cr_headers := AList.update ''Content-Type'' (file_content_type name) (cr_headers q)\<rparr>) w)"

section \<open>Results\<close>

record ctl_result =
  re_out :: "gotext list"
  re_err :: "gotext list"
  re_code :: int

definition printed :: "gotext list \<Rightarrow> ctl_result" where
  "printed out = \<lparr>re_out = out, re_err = [], re_code = 0\<rparr>"

definition exits :: "gotext \<Rightarrow> ctl_result" where
  "exits msg = \<lparr>re_out = [], re_err = [msg], re_code = 1\<rparr>"

definition required :: "string \<Rightarrow> ctl_result" where
  "required flag = exits (Fmt ''Error: --%s is required'' [AStr flag])"

definition first_map :: "string \<Rightarrow> (json \<times> json_map) option" where
  "first_map body =
     (case json_value 0 body of None \<Rightarrow> None | Some (v, rest) \<Rightarrow> map_option (Pair v) (as_map v))"

definition map_text :: "json_map \<Rightarrow> string \<Rightarrow> string" where
  "map_text m k = (case json_str (json_get m k) of None \<Rightarrow> [] | Some s \<Rightarrow> s)"

definition handle_response :: "'w ctl_env \<Rightarrow> gotext + int \<times> string \<Rightarrow> ctl_result" where
  "handle_response env resp =
     (case resp of
        Inl e \<Rightarrow> exits (Fmt ''Error: %v'' [])
      | Inr (status, body) \<Rightarrow>
          (case first_map body of
             None \<Rightarrow>
               if 400 \<le> status then exits (Fmt ''Error %d: %s'' [AInt status, AStr (ct_unread env body)])
               else printed (if ct_unread env body = [] then [] else [Fmt ''%s'' [AStr (ct_unread env body)]])
           | Some (v, m) \<Rightarrow>
               if 400 \<le> status
               then exits (if map_text m ''detail'' = [] then Fmt ''Error %d: %s'' [AInt status, AStr (map_text m ''error'')]
                           else Fmt ''Error %d: %s - %s'' [AInt status, AStr (map_text m ''error''), AStr (map_text m ''detail'')])
               else printed [Fmt ''%s'' [AStr (ct_pretty env v)]]))"

section \<open>Commands\<close>

datatype ctl_command =
    SiteAdd string string string | SiteList | SiteRemove string
  | RuleCreate string | RuleList string string | RuleDelete string | RuleTest string string
  | LogsTail string int | LogsExport string string
  | PatchApply string | PatchRevoke string
  | ConfigValidate | ConfigExport string | ConfigDiff string | ConfigApply string
  | ShowStatus | ShowVersion

definition answered :: "'w ctl_env \<Rightarrow> 'w \<times> (gotext + int \<times> string) \<Rightarrow> 'w \<times> ctl_result" where
  "answered env wr = apsnd (handle_response env) wr"

definition site_add_body :: "string \<Rightarrow> string \<Rightarrow> string \<Rightarrow> json" where
  "site_add_body name domain origin =
     JObj [(''domains'', JArr (map JStr (split_char CHR '','' domain))), (''name'', JStr name), (''upstream'', JStr origin),
       (''waf_enabled'', JBool True)]"

definition site_add :: "'w ctl_env \<Rightarrow> ctl_options \<Rightarrow> string \<Rightarrow> string \<Rightarrow> string \<Rightarrow> 'w \<Rightarrow> 'w \<times> ctl_result" where
  "site_add env opts name domain origin w =
     (if name = [] then (w, required ''name'')
      else if domain = [] then (w, required ''domain'')
      else if origin = [] then (w, required ''origin'')
      else answered env (do_request env opts ''POST'' ''/sites'' (Some (site_add_body name domain origin)) w))"

definition query_suffix :: "string list \<Rightarrow> string" where
  "query_suffix qs = (if qs = [] then [] else ''?'' @ join_char CHR ''&'' qs)"

definition rule_create :: "'w ctl_env \<Rightarrow> ctl_options \<Rightarrow> string \<Rightarrow> 'w \<Rightarrow> 'w \<times> ctl_result" where
  "rule_create env opts file w =
     (if file = [] then (w, required ''file'')
      else
        (case ct_read_file env file w of
           Inl e \<Rightarrow> (w, exits (Fmt ''Error reading file: %v'' []))
         | Inr data \<Rightarrow> answered env (send_file env opts ''/rules'' file data w)))"

definition rule_list :: "'w ctl_env \<Rightarrow> ctl_options \<Rightarrow> string \<Rightarrow> string \<Rightarrow> 'w \<Rightarrow> 'w \<times> ctl_result" where
  "rule_list env opts severity tag w =
     answered env (do_request env opts ''GET''
       (''/rules'' @ query_suffix ((if severity = [] then [] else [''severity='' @ severity]) @ (if tag = [] then [] else [''tag='' @ tag])))
       None w)"

definition rule_test_body :: "'w ctl_env \<Rightarrow> string \<Rightarrow> json" where
  "rule_test_body env data =
     (case json_parse data of
        Some v \<Rightarrow> if json_any_ok v then ct_decoded env v else JObj [(''request'', JObj [(''raw'', JStr data)])]
      | None \<Rightarrow> JObj [(''request'', JObj [(''raw'', JStr data)])])"

definition rule_test :: "'w ctl_env \<Rightarrow> ctl_options \<Rightarrow> string \<Rightarrow> string \<Rightarrow> 'w \<Rightarrow> 'w \<times> ctl_result" where
  "rule_test env opts i file w =
     (if i = [] then (w, required ''id'')
      else if file = [] then (w, required ''request'')
      else
        (case ct_read_file env file w of
           Inl e \<Rightarrow> (w, exits (Fmt ''Error reading request file: %v'' []))
         | Inr data \<Rightarrow>
             (let v = rule_test_body env data in
              answered env (do_request env opts ''POST'' (''/rules/'' @ i @ ''/test'') (if v = JNull then None else Some v) w))))"

definition log_entries :: "json_map \<Rightarrow> json list option" where
  "log_entries m =
     (case json_get m ''logs'' of
        Some (JArr vs) \<Rightarrow> Some vs
      | _ \<Rightarrow> (case json_get m ''entries'' of Some (JArr vs) \<Rightarrow> Some vs | _ \<Rightarrow> None))"

definition logs_tail :: "'w ctl_env \<Rightarrow> ctl_options \<Rightarrow> string \<Rightarrow> int \<Rightarrow> 'w \<Rightarrow> 'w \<times> ctl_result" where
  "logs_tail env opts site limit w =
     (case do_request env opts ''GET''
             (''/logs/tail'' @ query_suffix ((if site = [] then [] else [''site='' @ site]) @ (if 0 < limit then [''limit='' @ itoa limit] else [])))
             None w of
        (w', Inl e) \<Rightarrow> (w', exits (Fmt ''Error: %v'' []))
      | (w', Inr (status, body)) \<Rightarrow>
          (w', case first_map body of
                 None \<Rightarrow> exits (Fmt ''Error: %s'' [AStr (ct_unread env body)])
               | Some (v, m) \<Rightarrow>
                   (case log_entries m of
                      None \<Rightarrow> printed [Fmt ''%s'' [AStr (ct_pretty env v)]]
                    | Some vs \<Rightarrow> printed (concat (map (\<lambda>x. [Fmt ''%s'' [AStr (ct_pretty env x)], Lit ''---'']) vs)))))"

definition save_body ::
  "'w ctl_env \<Rightarrow> string \<Rightarrow> string \<Rightarrow> gotext \<Rightarrow> 'w \<Rightarrow> 'w \<times> ctl_result" where
  "save_body env file data msg w =
     (case ct_make_dir env file w of
        (w', Some e) \<Rightarrow> (w', exits (Fmt ''Error creating directory: %v'' []))
      | (w', None) \<Rightarrow>
          (case ct_write_file env file data w' of
             (w'', Some e) \<Rightarrow> (w'', exits (Fmt ''Error writing file: %v'' []))
           | (w'', None) \<Rightarrow> (w'', printed [msg])))"

definition logs_export :: "'w ctl_env \<Rightarrow> ctl_options \<Rightarrow> string \<Rightarrow> string \<Rightarrow> 'w \<Rightarrow> 'w \<times> ctl_result" where
  "logs_export env opts format output w =
     (let f = (if format = [] then ''json'' else format);
          file = (if output = [] then ''fortress-logs-'' @ ct_timestamp env @ ''.'' @ f else output) in
      case do_request_raw env opts ''GET'' (''/logs/export?format='' @ f) None w of
        (w', Inl e) \<Rightarrow> (w', exits (Fmt ''Error: %v'' []))
      | (w', Inr (status, body)) \<Rightarrow>
          if 400 \<le> status then (w', exits (Fmt ''Error %d: %s'' [AInt status, AStr body]))
          else save_body env file body (Fmt ''Exported %d bytes to %s'' [AInt (int (length body)), AStr file]) w')"

definition patch_apply :: "'w ctl_env \<Rightarrow> ctl_options \<Rightarrow> string \<Rightarrow> 'w \<Rightarrow> 'w \<times> ctl_result" where
  "patch_apply env opts cve w =
     (if cve = [] then (w, required ''cve'')
      else answered env (do_request env opts ''POST'' (''/patches/'' @ cve @ ''/apply'') (Some (JObj [(''cve'', JStr cve)])) w))"

definition patch_revoke :: "'w ctl_env \<Rightarrow> ctl_options \<Rightarrow> string \<Rightarrow> 'w \<Rightarrow> 'w \<times> ctl_result" where
  "patch_revoke env opts cve w =
     (if cve = [] then (w, required ''cve'')
      else answered env (do_request env opts ''POST'' (''/patches/'' @ cve @ ''/revoke'') None w))"

text \<open>An answer without \<^verbatim>\<open>valid\<close> counts as invalid; the list of errors is printed twice.\<close>

definition config_validate :: "'w ctl_env \<Rightarrow> ctl_options \<Rightarrow> 'w \<Rightarrow> 'w \<times> ctl_result" where
  "config_validate env opts w =
     (case do_request env opts ''POST'' ''/config/validate'' None w of
        (w', Inl e) \<Rightarrow> (w', exits (Fmt ''Error: %v'' []))
      | (w', Inr (status, body)) \<Rightarrow>
          (w', case first_map body of
                 None \<Rightarrow> exits (Fmt ''Error: %s'' [AStr (ct_unread env body)])
               | Some (v, m) \<Rightarrow>
                   if json_get m ''valid'' = Some (JBool True) then printed [Lit ''Configuration is valid'']
                   else
                     \<lparr>re_out = Lit ''Configuration is INVALID'' #
                        (case json_get m ''errors'' of Some (JArr es) \<Rightarrow> map (\<lambda>e. Fmt ''  - %v'' [AStr (ct_show env e)]) es | _ \<Rightarrow> []) @
                        (case json_get m ''errors'' of None \<Rightarrow> [] | Some JNull \<Rightarrow> [] | Some e \<Rightarrow> [Fmt ''  %s'' [AStr (ct_pretty env e)]]),
                      re_err = [], re_code = 1\<rparr>))"

definition config_export :: "'w ctl_env \<Rightarrow> ctl_options \<Rightarrow> string \<Rightarrow> 'w \<Rightarrow> 'w \<times> ctl_result" where
  "config_export env opts file w =
     (case do_request_raw env opts ''GET'' ''/config/export'' None w of
        (w', Inl e) \<Rightarrow> (w', exits (Fmt ''Error: %v'' []))
      | (w', Inr (status, body)) \<Rightarrow>
          if 400 \<le> status then (w', exits (Fmt ''Error %d: %s'' [AInt status, AStr body]))
          else if file = [] then (w', printed [Fmt ''%s'' [AStr body]])
          else save_body env file body (Fmt ''Configuration exported to %s (%d bytes)'' [AStr file, AInt (int (length body))]) w')"

definition config_diff :: "'w ctl_env \<Rightarrow> ctl_options \<Rightarrow> string \<Rightarrow> 'w \<Rightarrow> 'w \<times> ctl_result" where
  "config_diff env opts file w =
     (if file = [] then (w, required ''file'')
      else
        (case ct_read_file env file w of
           Inl e \<Rightarrow> (w, exits (Fmt ''Error reading file: %v'' []))
         | Inr data \<Rightarrow> answered env (send_file env opts ''/config/diff'' file data w)))"

definition config_apply :: "'w ctl_env \<Rightarrow> ctl_options \<Rightarrow> string \<Rightarrow> 'w \<Rightarrow> 'w \<times> ctl_result" where
  "config_apply env opts file w =
     (if file = [] then (w, required ''file'')
      else
        (case ct_read_file env file w of
           Inl e \<Rightarrow> (w, exits (Fmt ''Error reading file: %v'' []))
         | Inr data \<Rightarrow>
             (case send_file env opts ''/config/import'' file data w of
                (w', Inl e) \<Rightarrow> (w', exits (Fmt ''Error: %v'' []))
              | (w', Inr (status, body)) \<Rightarrow>
                  (w', if 400 \<le> status then exits (Fmt ''Error %d: %s'' [AInt status, AStr body])
                       else
                         (case first_map body of
                            None \<Rightarrow> printed [Lit ''Configuration applied successfully'']
                          | Some (v, m) \<Rightarrow> printed [Fmt ''%s'' [AStr (ct_pretty env v)]])))))"

definition version_text :: "'w ctl_env \<Rightarrow> gotext list" where
  "version_text env =
     [Fmt ''fortressctl %s'' [AStr (ct_version env)], Fmt ''  commit:     %s'' [AStr (ct_commit env)],
      Fmt ''  build date: %s'' [AStr (ct_build_date env)], Fmt ''  go version: %s'' [AStr (drop 2 (ct_go_version env))]]"

fun ctl_run :: "'w ctl_env \<Rightarrow> ctl_options \<Rightarrow> ctl_command \<Rightarrow> 'w \<Rightarrow> 'w \<times> ctl_result" where
  "ctl_run env opts (SiteAdd name domain origin) w = site_add env opts name domain origin w"
| "ctl_run env opts SiteList w = answered env (do_request env opts ''GET'' ''/sites'' None w)"
| "ctl_run env opts (SiteRemove name) w =
     (if name = [] then (w, required ''name'') else answered env (do_request env opts ''DELETE'' (''/sites/'' @ name) None w))"
| "ctl_run env opts (RuleCreate file) w = rule_create env opts file w"
| "ctl_run env opts (RuleList severity tag) w = rule_list env opts severity tag w"
| "ctl_run env opts (RuleDelete i) w =
     (if i = [] then (w, required ''id'') else answered env (do_request env opts ''DELETE'' (''/rules/'' @ i) None w))"
| "ctl_run env opts (RuleTest i file) w = rule_test env opts i file w"
| "ctl_run env opts (LogsTail site limit) w = logs_tail env opts site limit w"
| "ctl_run env opts (LogsExport format output) w = logs_export env opts format output w"
| "ctl_run env opts (PatchApply cve) w = patch_apply env opts cve w"
| "ctl_run env opts (PatchRevoke cve) w = patch_revoke env opts cve w"
| "ctl_run env opts ConfigValidate w = config_validate env opts w"
| "ctl_run env opts (ConfigExport file) w = config_export env opts file w"
| "ctl_run env opts (ConfigDiff file) w = config_diff env opts file w"
| "ctl_run env opts (ConfigApply file) w = config_apply env opts file w"
| "ctl_run env opts ShowStatus w = answered env (do_request env opts ''GET'' ''/status'' None w)"
| "ctl_run env opts ShowVersion w = (w, printed (version_text env))"

section \<open>The client and the server\<close>

lemma strict_members_unknown:
  "(k, v) \<in> set ms \<Longrightarrow> find (\<lambda>f. field_key (fst f) k) fs = None \<Longrightarrow> strict_members fs ms s = None"
  by (induction fs ms s rule: strict_members.induct) (auto split: option.splits)

lemma split_char_subset: "x \<in> set (split_char sep s) \<Longrightarrow> set x \<subseteq> set s"
  by (induction sep s arbitrary: x rule: split_char.induct) (force split: list.splits if_splits)+

lemma split_char_ascii: "ascii_text s \<Longrightarrow> list_all ascii_text (split_char sep s)"
  using split_char_subset [of _ sep s] unfolding ascii_text_def list_all_iff by blast

lemma no_upstream_field: "find (\<lambda>f. field_key (fst f) ''upstream'') site_fields = None"
proof -
  have "to_runes ''upstream'' = map of_char ''upstream''" by (rule to_runes_ascii) simp
  then show ?thesis
    by (auto simp: find_None_iff site_fields_def string_field_def slice_field_def int64_field_def bool_field_def field_key_def
        dest!: list_all2_lengthD)
qed

text \<open>
  Property C38. The command that adds a site never succeeds: the origin is sent as a member that the server does not know, so the
  server refuses the body as bad JSON and changes nothing, whatever the name, the domains and the origin, written in ASCII.
\<close>

theorem ctl_site_add_always_refused:
  assumes "ascii_text name" and "ascii_text domain" and "ascii_text origin"
    and "aq_body r = marshal_json (site_add_body name domain origin)"
  shows "create_site aenv r st = (st, bad_json)"
proof -
  let ?v = "site_add_body name domain origin"
  have "readable_at 0 ?v"
    using assms(1-3) split_char_ascii [OF assms(2), of "CHR '',''"]
    by (auto simp: site_add_body_def max_json_depth_def ascii_text_def list_all_iff)
  then have "json_value 0 (marshal_json ?v) = Some (?v, [])"
    using marshal_then_read [of 0 ?v "[]"] by (simp add: json_stop_def)
  moreover have "strict_struct site_fields no_site_request ?v = None"
    unfolding strict_struct_def site_add_body_def json.case
    by (rule strict_members_unknown [OF _ no_upstream_field, of "JStr origin"]) simp
  ultimately have "read_json_strict site_fields no_site_request r = None"
    by (simp add: read_json_strict_def assms(4))
  then show ?thesis by (simp add: create_site_def)
qed

text \<open>The status that the client asks for has no route, and patches are looked up by identifiers that no CVE number is.\<close>

lemma status_has_no_route: "''/status'' \<notin> fst ` set api_routes"
  by (simp add: api_routes_def)

lemma created_patch_id:
  "create_patch uuid now r st = (st', created_reply (DPatch p)) \<Longrightarrow> \<exists>t. pt_id p = ''PATCH-'' @ t"
  by (auto simp: create_patch_def reply_defs Let_def split: option.splits if_splits)

lemma cve_not_applied:
  assumes "\<forall>p\<in>set (ap_patches st). \<exists>t. pt_id p = ''PATCH-'' @ t" and "path_param r ''id'' = ''CVE-'' @ n"
  shows "apply_patch aenv now r st = (st, not_found_reply (Lit ''patch not found''))"
proof -
  have "find_patch (path_param r ''id'') st = None" using assms by (auto simp: find_patch_def find_None_iff)
  then show ?thesis by (simp add: apply_patch_def)
qed

lemma ctl_site_add_always_refused_witness:
  "create_site demo_api_env (demo_call [] (marshal_json (site_add_body ''s'' ''a.org,b.org'' ''http://o''))) demo_api = (demo_api, bad_json)"
  by (rule ctl_site_add_always_refused) (simp_all add: ascii_text_def demo_call_def)

end
