(* ===== verification/Lifecycle.thy ===== *)
theory Lifecycle
  imports Proxy ApiServer
begin

text \<open>
  The life of the process, \<^verbatim>\<open>main\<close> of \<^verbatim>\<open>cmd/proxy/main.go\<close> once the handler is made: the settings of the servers, how the
  proxy listens, the database and the metrics, and the shut-down with its goroutines as a machine whose steps are ordered freely.
  Start and shut-down of the management server (\<^verbatim>\<open>internal/api/server.go\<close>) follow. Sockets and key files are arguments.
\<close>

section \<open>Servers\<close>

record tls_setup =
  ts_min_version :: string
  ts_protos :: "string list"
  ts_get_certificate :: bool
  ts_verify_hook :: bool
  ts_client_ca :: "string option"

record http_server =
  hs_port :: int
  hs_read :: duration
  hs_write :: duration
  hs_idle :: duration
  hs_read_header :: duration
  hs_max_header :: int
  hs_tls :: "tls_setup option"

text \<open>
  The outside: the set-up that the ACME manager makes for e-mail address, domains and cache, whether a port can be bound, whether a
  key pair loads, whether the request multiplexer accepts a pattern (it panics otherwise), and a file.
\<close>

record listen_env =
  le_acme :: "string \<Rightarrow> string list \<Rightarrow> string \<Rightarrow> tls_setup"
  le_bind :: "int \<Rightarrow> gotext option"
  le_key_pair :: "string \<Rightarrow> string \<Rightarrow> gotext option"
  le_pattern_ok :: "string \<Rightarrow> bool"
  le_read_file :: "string \<Rightarrow> gotext + string"

definition proxy_tls :: "listen_env \<Rightarrow> tls_config \<Rightarrow> tls_setup option" where
  "proxy_tls env t =
     (if \<not> tl_enabled t then None
      else if tl_acme t \<and> tl_acme_email t \<noteq> []
      then Some ((le_acme env (tl_acme_email t) (tl_acme_domains t) (tl_acme_cache t))\<lparr>ts_min_version := ''1.2''\<rparr>)
      else if tl_cert_file t \<noteq> [] \<and> tl_key_file t \<noteq> []
      then Some \<lparr>ts_min_version = ''1.2'', ts_protos = (if tl_http2 t then [''h2'', ''http/1.1''] else []),
                 ts_get_certificate = False, ts_verify_hook = tl_ocsp t, ts_client_ca = None\<rparr>
      else None)"

definition proxy_server :: "listen_env \<Rightarrow> config \<Rightarrow> int \<Rightarrow> http_server" where
  "proxy_server env c port =
     \<lparr>hs_port = port, hs_read = 30 * second, hs_write = 60 * second, hs_idle = 120 * second, hs_read_header = 10 * second,
      hs_max_header = 1048576, hs_tls = proxy_tls env (cf_tls c)\<rparr>"

definition admin_server :: "int \<Rightarrow> http_server" where
  "admin_server port =
     \<lparr>hs_port = port, hs_read = 15 * second, hs_write = 15 * second, hs_idle = 60 * second, hs_read_header = 10 * second,
      hs_max_header = 1048576, hs_tls = None\<rparr>"

section \<open>Listening\<close>

datatype listening = PlainText | Encrypted tls_setup | NoListener gotext

text \<open>
  \<^verbatim>\<open>ListenAndServe\<close> and \<^verbatim>\<open>ListenAndServeTLS\<close> of the standard library: a key pair is loaded unless certificates come from the
  set-up and no file is named, and the two versions of HTTP are added to the protocols on offer.
\<close>

definition listen_plain :: "listen_env \<Rightarrow> http_server \<Rightarrow> listening" where
  "listen_plain env h = (case le_bind env (hs_port h) of Some e \<Rightarrow> NoListener e | None \<Rightarrow> PlainText)"

definition offered :: "string list \<Rightarrow> string list" where
  "offered ps = fold (\<lambda>p ps. if p \<in> set ps then ps else ps @ [p]) [''h2'', ''http/1.1''] ps"

definition no_tls_setup :: tls_setup where
  "no_tls_setup = \<lparr>ts_min_version = ''1.2'', ts_protos = [], ts_get_certificate = False, ts_verify_hook = False, ts_client_ca = None\<rparr>"

definition listen_tls :: "listen_env \<Rightarrow> http_server \<Rightarrow> string \<Rightarrow> string \<Rightarrow> listening" where
  "listen_tls env h cert key =
     (case le_bind env (hs_port h) of
        Some e \<Rightarrow> NoListener e
      | None \<Rightarrow>
          (let t = (case hs_tls h of None \<Rightarrow> no_tls_setup | Some t \<Rightarrow> t);
               t' = t\<lparr>ts_protos := offered (ts_protos t)\<rparr> in
           if ts_get_certificate t \<and> cert = [] \<and> key = [] then Encrypted t'
           else (case le_key_pair env cert key of Some e \<Rightarrow> NoListener e | None \<Rightarrow> Encrypted t')))"

definition proxy_listens :: "listen_env \<Rightarrow> config \<Rightarrow> int \<Rightarrow> listening" where
  "proxy_listens env c port =
     (let t = cf_tls c in
      if tl_enabled t \<and> (tl_cert_file t \<noteq> [] \<or> tl_acme t)
      then listen_tls env (proxy_server env c port) (tl_cert_file t) (tl_key_file t)
      else listen_plain env (proxy_server env c port))"

definition admin_listens :: "listen_env \<Rightarrow> int \<Rightarrow> listening" where
  "admin_listens env port = listen_plain env (admin_server port)"

text \<open>The server of the metrics is of its own: a bad path ends the whole process, other errors are logged.\<close>

datatype metrics_start = MetricsOff | MetricsCrash | MetricsListen string listening

definition start_metrics :: "listen_env \<Rightarrow> config \<Rightarrow> metrics_start" where
  "start_metrics env c =
     (let p = cf_prometheus c in
      if \<not> pm_enabled p then MetricsOff
      else if \<not> le_pattern_ok env (pm_path p) then MetricsCrash
      else
        MetricsListen (pm_path p)
          (listen_plain env \<lparr>hs_port = pm_port p, hs_read = 0, hs_write = 0, hs_idle = 0, hs_read_header = 0, hs_max_header = 0,
             hs_tls = None\<rparr>))"

lemma offered_versions: "''h2'' \<in> set (offered ps) \<and> ''http/1.1'' \<in> set (offered ps)"
  by (simp add: offered_def)

text \<open>
  With encryption switched on the proxy still listens in plain text if neither a certificate nor ACME is named. With ACME and no
  e-mail address it does not start without a key pair. The setting for HTTP/2 makes no difference.
\<close>

lemma encrypted_proxy_listens:
  assumes "tl_enabled (cf_tls c)" and "le_bind env port = None"
    and acme: "\<And>e ds d. ts_get_certificate (le_acme env e ds d)"
  shows "proxy_listens env c port = PlainText \<longleftrightarrow> tl_cert_file (cf_tls c) = [] \<and> \<not> tl_acme (cf_tls c)"
    and "(\<exists>t. proxy_listens env c port = Encrypted t) \<longleftrightarrow>
      (tl_cert_file (cf_tls c) \<noteq> [] \<or> tl_acme (cf_tls c)) \<and>
      (le_key_pair env (tl_cert_file (cf_tls c)) (tl_key_file (cf_tls c)) = None \<or>
       tl_acme (cf_tls c) \<and> tl_acme_email (cf_tls c) \<noteq> [] \<and> tl_cert_file (cf_tls c) = [] \<and> tl_key_file (cf_tls c) = [])"
    and "proxy_listens env c port = Encrypted t \<Longrightarrow> ''h2'' \<in> set (ts_protos t)"
  using assms
  by (auto simp: proxy_listens_def listen_tls_def listen_plain_def proxy_server_def proxy_tls_def no_tls_setup_def offered_versions Let_def
      split: option.splits if_splits)

section \<open>The database\<close>

text \<open>The steps of \<^verbatim>\<open>initDatabase\<close>, each with its error; a connection that is ready is kept open for ever, and nothing uses it.\<close>

record database_env =
  dx_open :: "string \<Rightarrow> string \<Rightarrow> gotext option"
  dx_ping :: "int \<Rightarrow> int \<Rightarrow> gotext option"
  dx_schema :: "gotext option"

datatype database_start = NoDatabase | OpenFailed gotext | PingFailed gotext | SchemaFailed gotext | KeptOpen bool

definition init_database :: "database_env \<Rightarrow> string \<Rightarrow> string \<Rightarrow> int \<Rightarrow> int \<Rightarrow> database_start" where
  "init_database env driver dsn max_open max_idle =
     (case dx_open env driver dsn of
        Some e \<Rightarrow> OpenFailed e
      | None \<Rightarrow>
          (case dx_ping env max_open max_idle of
             Some e \<Rightarrow> PingFailed e
           | None \<Rightarrow>
               if driver = ''postgres''
               then (case dx_schema env of Some e \<Rightarrow> SchemaFailed e | None \<Rightarrow> KeptOpen True) else KeptOpen False))"

definition start_database :: "database_env \<Rightarrow> config \<Rightarrow> database_start" where
  "start_database env c =
     (let d = cf_db c in
      if db_driver d = ''postgres'' \<and> db_dsn d \<noteq> [] then init_database env (db_driver d) (db_dsn d) (db_max_open d) (db_max_idle d)
      else NoDatabase)"

section \<open>Goroutines of the shut-down\<close>

text \<open>
  A server with its goroutine: how far \<^verbatim>\<open>ListenAndServe\<close> is, whether its error lies in the channel, how far \<^verbatim>\<open>Shutdown\<close> is, and
  the requests in work, each with whether its context is cancelled.
\<close>

datatype serve_state = Starting | Accepting | Ended

datatype shut_state = NotAsked | Closing | ShutDone

record service =
  vc_serve :: serve_state
  vc_failed :: bool
  vc_shut :: shut_state
  vc_requests :: "(nat \<times> bool) list"

datatype main_state = Waiting | Draining | Exited

record process =
  ps_proxy :: service
  ps_admin :: service
  ps_cancelled :: bool
  ps_main :: main_state

definition new_service :: service where
  "new_service = \<lparr>vc_serve = Starting, vc_failed = False, vc_shut = NotAsked, vc_requests = []\<rparr>"

definition new_process :: process where
  "new_process = \<lparr>ps_proxy = new_service, ps_admin = new_service, ps_cancelled = False, ps_main = Waiting\<rparr>"

datatype server_event = Listens | Fails | Takes nat | Finishes nat | Closes | Drained | TimedOut | Returns

datatype life_event = Proxy_does server_event | Admin_does server_event | Signalled | Notices | Exits

text \<open>
  What a server may do next. The context of a request comes from the one that a signal cancels. A connection that was accepted
  before the shut-down may still bring its first request during it, and after it has given up waiting.
\<close>

fun service_step :: "bool \<Rightarrow> main_state \<Rightarrow> server_event \<Rightarrow> service \<Rightarrow> service option" where
  "service_step cancelled m Listens v = (if vc_serve v = Starting \<and> vc_shut v = NotAsked then Some (v\<lparr>vc_serve := Accepting\<rparr>) else None)"
| "service_step cancelled m Fails v =
     (if vc_serve v \<noteq> Ended \<and> vc_shut v = NotAsked then Some (v\<lparr>vc_serve := Ended, vc_failed := True\<rparr>) else None)"
| "service_step cancelled m (Takes i) v =
     (if vc_serve v \<noteq> Starting then Some (v\<lparr>vc_requests := vc_requests v @ [(i, cancelled)]\<rparr>) else None)"
| "service_step cancelled m (Finishes i) v =
     (if i \<in> fst ` set (vc_requests v) then Some (v\<lparr>vc_requests := filter (\<lambda>(j, _). j \<noteq> i) (vc_requests v)\<rparr>) else None)"
| "service_step cancelled m Closes v = (if m = Draining \<and> vc_shut v = NotAsked then Some (v\<lparr>vc_shut := Closing\<rparr>) else None)"
| "service_step cancelled m Drained v = (if vc_shut v = Closing \<and> vc_requests v = [] then Some (v\<lparr>vc_shut := ShutDone\<rparr>) else None)"
| "service_step cancelled m TimedOut v = (if vc_shut v = Closing then Some (v\<lparr>vc_shut := ShutDone\<rparr>) else None)"
| "service_step cancelled m Returns v = (if vc_serve v \<noteq> Ended \<and> vc_shut v \<noteq> NotAsked then Some (v\<lparr>vc_serve := Ended\<rparr>) else None)"

definition cut_requests :: "service \<Rightarrow> service" where
  "cut_requests v = v\<lparr>vc_requests := map (\<lambda>(i, _). (i, True)) (vc_requests v)\<rparr>"

definition stopping :: "process \<Rightarrow> bool" where
  "stopping p \<longleftrightarrow> ps_cancelled p \<or> vc_failed (ps_proxy p) \<or> vc_failed (ps_admin p)"

definition all_shut :: "process \<Rightarrow> bool" where
  "all_shut p \<longleftrightarrow> (\<forall>v\<in>{ps_proxy p, ps_admin p}. vc_shut v = ShutDone \<and> vc_serve v = Ended)"

text \<open>Only the first signal is received; the main goroutine waits for an error or the signal, then for both servers.\<close>

fun life_step :: "life_event \<Rightarrow> process \<Rightarrow> process option" where
  "life_step (Proxy_does e) p =
     (if ps_main p = Exited then None
      else map_option (\<lambda>v. p\<lparr>ps_proxy := v\<rparr>) (service_step (ps_cancelled p) (ps_main p) e (ps_proxy p)))"
| "life_step (Admin_does e) p =
     (if ps_main p = Exited then None
      else map_option (\<lambda>v. p\<lparr>ps_admin := v\<rparr>) (service_step (ps_cancelled p) (ps_main p) e (ps_admin p)))"
| "life_step Signalled p =
     (if ps_main p = Exited then None
      else if ps_cancelled p then Some p
      else Some (p\<lparr>ps_cancelled := True, ps_proxy := cut_requests (ps_proxy p), ps_admin := cut_requests (ps_admin p)\<rparr>))"
| "life_step Notices p = (if ps_main p = Waiting \<and> stopping p then Some (p\<lparr>ps_main := Draining\<rparr>) else None)"
| "life_step Exits p = (if ps_main p = Draining \<and> all_shut p then Some (p\<lparr>ps_main := Exited\<rparr>) else None)"

fun life_run :: "life_event list \<Rightarrow> process \<Rightarrow> process option" where
  "life_run [] p = Some p"
| "life_run (e # es) p = Option.bind (life_step e p) (life_run es)"

text \<open>The steps of the process itself, as against those of clients and of the operator.\<close>

fun own_event :: "server_event \<Rightarrow> bool" where
  "own_event (Takes _) = False"
| "own_event (Finishes _) = False"
| "own_event _ = True"

fun own_step :: "life_event \<Rightarrow> bool" where
  "own_step (Proxy_does e) = own_event e"
| "own_step (Admin_does e) = own_event e"
| "own_step Signalled = False"
| "own_step _ = True"

section \<open>The shut-down ends\<close>

definition service_rank :: "service \<Rightarrow> nat" where
  "service_rank v =
     (case vc_serve v of Starting \<Rightarrow> 2 | Accepting \<Rightarrow> 1 | Ended \<Rightarrow> 0) + (case vc_shut v of NotAsked \<Rightarrow> 2 | Closing \<Rightarrow> 1 | ShutDone \<Rightarrow> 0)"

definition life_rank :: "process \<Rightarrow> nat" where
  "life_rank p =
     service_rank (ps_proxy p) + service_rank (ps_admin p) + (case ps_main p of Waiting \<Rightarrow> 2 | Draining \<Rightarrow> 1 | Exited \<Rightarrow> 0)"

lemma service_step_rank:
  "service_step cancelled m e v = Some v' \<Longrightarrow> service_rank v' + (if own_event e then 1 else 0) \<le> service_rank v"
  by (cases e; cases "vc_serve v"; cases "vc_shut v") (auto simp: service_rank_def split: if_splits)

lemma cut_requests_rank [simp]: "service_rank (cut_requests v) = service_rank v"
  by (simp add: service_rank_def cut_requests_def)

lemma life_step_rank: "life_step e p = Some p' \<Longrightarrow> life_rank p' + (if own_step e then 1 else 0) \<le> life_rank p"
  by (cases e) (auto simp: life_rank_def dest!: service_step_rank split: if_splits)

lemma life_run_rank: "life_run es p = Some p' \<Longrightarrow> life_rank p' + length (filter own_step es) \<le> life_rank p"
proof (induction es arbitrary: p)
  case (Cons e es)
  then obtain p1 where s: "life_step e p = Some p1" "life_run es p1 = Some p'" by (auto simp: bind_eq_Some_conv)
  show ?case using Cons.IH [OF s(2)] life_step_rank [OF s(1)] by (simp split: if_splits)
qed simp

lemma service_goes_on:
  assumes "\<not> (vc_shut v = ShutDone \<and> vc_serve v = Ended)"
  shows "\<exists>e. own_event e \<and> service_step cancelled Draining e v \<noteq> None"
proof (cases "vc_shut v")
  case NotAsked
  then show ?thesis by (intro exI [of _ Closes]) simp
next
  case Closing
  then show ?thesis by (intro exI [of _ TimedOut]) simp
next
  case ShutDone
  then show ?thesis using assms by (intro exI [of _ Returns]) simp
qed

lemma process_goes_on:
  assumes "stopping p" and "ps_main p \<noteq> Exited"
  shows "\<exists>e. own_step e \<and> life_step e p \<noteq> None"
proof (cases "ps_main p = Waiting")
  case True
  then show ?thesis using assms by (intro exI [of _ Notices]) simp
next
  case False
  then have m: "ps_main p = Draining" using assms(2) by (cases "ps_main p") auto
  consider "all_shut p" | "\<not> (vc_shut (ps_proxy p) = ShutDone \<and> vc_serve (ps_proxy p) = Ended)"
    | "\<not> (vc_shut (ps_admin p) = ShutDone \<and> vc_serve (ps_admin p) = Ended)" by (auto simp: all_shut_def)
  then show ?thesis
  proof cases
    case 1
    then show ?thesis using m by (intro exI [of _ Exits]) simp
  next
    case 2
    from service_goes_on [OF this] obtain e where "own_event e" "service_step (ps_cancelled p) Draining e (ps_proxy p) \<noteq> None" by blast
    then show ?thesis using m by (intro exI [of _ "Proxy_does e"]) auto
  next
    case 3
    from service_goes_on [OF this] obtain e where "own_event e" "service_step (ps_cancelled p) Draining e (ps_admin p) \<noteq> None" by blast
    then show ?thesis using m by (intro exI [of _ "Admin_does e"]) auto
  qed
qed

text \<open>
  Property C39. However the steps are ordered, the process takes at most ten of its own in its life, and after a signal or the
  failure of a server one of them is always possible until the process has ended: the shut-down neither hangs nor goes on for ever.
\<close>

theorem shutdown_always_ends:
  assumes "life_run es new_process = Some p"
  shows "length (filter own_step es) \<le> 10 \<and>
    (stopping p \<and> ps_main p \<noteq> Exited \<longrightarrow> (\<exists>e. own_step e \<and> life_step e p \<noteq> None))"
proof
  show "length (filter own_step es) \<le> 10"
    using life_run_rank [OF assms] by (simp add: life_rank_def service_rank_def new_process_def new_service_def)
qed (use process_goes_on in blast)

section \<open>What a signal does to the requests\<close>

definition all_cut :: "service \<Rightarrow> bool" where
  "all_cut v \<longleftrightarrow> (\<forall>(i, c)\<in>set (vc_requests v). c)"

definition life_inv :: "process \<Rightarrow> bool" where
  "life_inv p \<longleftrightarrow>
     (ps_cancelled p \<longrightarrow> all_cut (ps_proxy p) \<and> all_cut (ps_admin p)) \<and> (ps_main p \<noteq> Waiting \<longrightarrow> stopping p) \<and>
     (ps_main p = Exited \<longrightarrow> all_shut p)"

lemma service_step_cut: "service_step True m e v = Some v' \<Longrightarrow> all_cut v \<Longrightarrow> all_cut v'"
  by (cases e) (auto simp: all_cut_def split: if_splits)

lemma service_step_failed: "service_step c m e v = Some v' \<Longrightarrow> vc_failed v \<Longrightarrow> vc_failed v'"
  by (cases e) (auto split: if_splits)

lemma cut_requests_simps [simp]: "all_cut (cut_requests v)" "vc_failed (cut_requests v) = vc_failed v"
  by (auto simp: all_cut_def cut_requests_def)

lemma life_step_inv: "life_step e p = Some p' \<Longrightarrow> life_inv p \<Longrightarrow> life_inv p'"
proof (induction e p rule: life_step.induct)
  case (1 e p)
  then obtain v where v: "service_step (ps_cancelled p) (ps_main p) e (ps_proxy p) = Some v" "p' = p\<lparr>ps_proxy := v\<rparr>" "ps_main p \<noteq> Exited"
    by (auto split: if_splits)
  have "all_cut v" if "ps_cancelled p" using service_step_cut [of _ e] v(1) that "1.prems"(2) by (auto simp: life_inv_def)
  then show ?case using "1.prems"(2) v service_step_failed [OF v(1)] by (auto simp: life_inv_def stopping_def)
next
  case (2 e p)
  then obtain v where v: "service_step (ps_cancelled p) (ps_main p) e (ps_admin p) = Some v" "p' = p\<lparr>ps_admin := v\<rparr>" "ps_main p \<noteq> Exited"
    by (auto split: if_splits)
  have "all_cut v" if "ps_cancelled p" using service_step_cut [of _ e] v(1) that "2.prems"(2) by (auto simp: life_inv_def)
  then show ?case using "2.prems"(2) v service_step_failed [OF v(1)] by (auto simp: life_inv_def stopping_def)
qed (auto simp: life_inv_def stopping_def all_shut_def split: if_splits)

lemma life_run_inv: "life_run es p = Some p' \<Longrightarrow> life_inv p \<Longrightarrow> life_inv p'"
  by (induction es arbitrary: p) (auto simp: bind_eq_Some_conv intro: life_step_inv)

text \<open>
  Property C40. Once the shut-down has begun and no server has failed, the context of every request still in work is cancelled:
  nothing is drained. The process ends only after both servers were shut down and their goroutines have returned.
\<close>

theorem signal_cuts_requests:
  assumes "life_run es new_process = Some p" and "ps_main p \<noteq> Waiting"
    and "\<not> vc_failed (ps_proxy p)" and "\<not> vc_failed (ps_admin p)"
  shows "all_cut (ps_proxy p) \<and> all_cut (ps_admin p) \<and> (ps_main p = Exited \<longrightarrow> all_shut p)"
proof -
  have "life_inv new_process" by (simp add: life_inv_def new_process_def)
  then have "life_inv p" by (rule life_run_inv [OF assms(1)])
  then show ?thesis using assms(2-4) by (auto simp: life_inv_def stopping_def)
qed

section \<open>The management server\<close>

text \<open>Start and shut-down; what becomes of the listeners is only logged. A second shut-down closes a closed channel.\<close>

record api_server =
  as_srv :: "http_server option"
  as_admin :: "http_server option"
  as_context :: "bool option"
  as_done :: bool

definition new_server :: api_server where
  "new_server = \<lparr>as_srv = None, as_admin = None, as_context = None, as_done = False\<rparr>"

definition api_http_server :: "int \<Rightarrow> tls_setup option \<Rightarrow> http_server" where
  "api_http_server port t =
     \<lparr>hs_port = port, hs_read = 15 * second, hs_write = 15 * second, hs_idle = 60 * second, hs_read_header = 0, hs_max_header = 0,
      hs_tls = t\<rparr>"

definition start_mtls_server :: "listen_env \<Rightarrow> server_config \<Rightarrow> http_server \<Rightarrow> http_server \<times> listening" where
  "start_mtls_server env sc h =
     (case le_read_file env (sc_ca_cert sc) of
        Inl e \<Rightarrow> (h, NoListener (Fmt ''read ca cert: %w'' []))
      | Inr pem \<Rightarrow>
          (let h' = h\<lparr>hs_tls := Some (no_tls_setup\<lparr>ts_client_ca := Some pem\<rparr>)\<rparr>
           in (h', listen_tls env h' (sc_cert sc) (sc_key sc))))"

definition start_server_api :: "listen_env \<Rightarrow> server_config \<Rightarrow> api_server \<Rightarrow> api_server \<times> listening \<times> listening option" where
  "start_server_api env sc s =
     (let h = api_http_server (sc_port sc) None; a = api_http_server (sc_admin_port sc) None;
          (a', l) = (if sc_mtls sc then start_mtls_server env sc a else (a, listen_plain env a)) in
      (s\<lparr>as_context := Some True, as_srv := Some h, as_admin := (if sc_admin_enabled sc then Some a' else as_admin s)\<rparr>,
       listen_plain env h, if sc_admin_enabled sc then Some l else None))"

text \<open>\<open>d1\<close> and \<open>d2\<close> are what the shut-downs of the two servers answer; requests lose their context before that.\<close>

definition shutdown_api :: "gotext option \<Rightarrow> gotext option \<Rightarrow> api_server \<Rightarrow> (api_server \<times> gotext option) option" where
  "shutdown_api d1 d2 s =
     (let errs = (case (as_srv s, d1) of (Some _, Some e) \<Rightarrow> [Fmt ''api server shutdown: %w'' []] | _ \<Rightarrow> []) @
                 (case (as_admin s, d2) of (Some _, Some e) \<Rightarrow> [Fmt ''admin server shutdown: %w'' []] | _ \<Rightarrow> []) in
      if as_done s then None
      else Some (s\<lparr>as_context := map_option (\<lambda>_. False) (as_context s), as_done := True\<rparr>,
                 case errs of [] \<Rightarrow> None | e # _ \<Rightarrow> Some e))"

lemma shutdown_once: "shutdown_api d1 d2 s = Some (s', e) \<Longrightarrow> shutdown_api d3 d4 s' = None"
  by (auto simp: shutdown_api_def Let_def split: if_splits)

section \<open>Witnesses\<close>

definition demo_life :: "life_event list" where
  "demo_life =
     [Proxy_does Listens, Proxy_does (Takes 1), Signalled, Proxy_does (Takes 2), Notices, Proxy_does Closes, Proxy_does Returns]"

definition demo_process :: process where
  "demo_process =
     \<lparr>ps_proxy = \<lparr>vc_serve = Ended, vc_failed = False, vc_shut = Closing, vc_requests = [(1, True), (2, True)]\<rparr>,
      ps_admin = new_service, ps_cancelled = True, ps_main = Draining\<rparr>"

lemma demo_life_run: "life_run demo_life new_process = Some demo_process"
  by (simp add: demo_life_def demo_process_def new_process_def new_service_def cut_requests_def stopping_def)

lemma shutdown_always_ends_witness:
  "length (filter own_step demo_life) \<le> 10 \<and> (\<exists>e. own_step e \<and> life_step e demo_process \<noteq> None)"
proof -
  have "stopping demo_process \<and> ps_main demo_process \<noteq> Exited" by (simp add: demo_process_def stopping_def)
  with shutdown_always_ends [OF demo_life_run] show ?thesis by blast
qed

lemma signal_cuts_requests_witness: "all_cut (ps_proxy demo_process) \<and> all_cut (ps_admin demo_process)"
  using signal_cuts_requests [OF demo_life_run] by (simp add: demo_process_def new_service_def)

end
