(* ===== verification/Masking.thy ===== *)
theory Masking
  imports AuditLog Regex
begin

text \<open>
  The expressions of the masking of personal data, \<^verbatim>\<open>initPatterns\<close> of \<^verbatim>\<open>internal/compliance/pii.go\<close>, and the matcher that
  \<open>AuditLog.thy\<close> leaves open: what the masking cuts out of a text is long enough for it never to fail.
\<close>

section \<open>Patterns\<close>

definition dash_dot :: rx where
  "dash_dot = Cls False [(0x2D, 0x2D), (0x2E, 0x2E), (0x09, 0x0A), (0x0C, 0x0D), (0x20, 0x20)]"

definition url_rune :: rx where
  "url_rune = Cls False [(0x61, 0x7A), (0x41, 0x5A), (0x30, 0x39), (0x5F, 0x5F), (0x2D, 0x2D)]"

definition assign_rune :: rx where
  "assign_rune = Cls False [(0x27, 0x27), (0x22, 0x22), (0x3A, 0x3A), (0x09, 0x0A), (0x0C, 0x0D), (0x20, 0x20), (0x3D, 0x3D)]"

definition local_rune :: rx where
  "local_rune =
     Cls False [(0x61, 0x7A), (0x41, 0x5A), (0x30, 0x39), (0x2E, 0x2E), (0x5F, 0x5F), (0x25, 0x25), (0x2B, 0x2B), (0x2D, 0x2D)]"

definition email_re :: rx where
  "email_re =
     Seqs [Some1 local_rune, Txt ''@'', Some1 (Cls False [(0x61, 0x7A), (0x41, 0x5A), (0x30, 0x39), (0x2E, 0x2E), (0x2D, 0x2D)]),
       Txt ''.'', Times 2 (Cls False [(0x61, 0x7A), (0x41, 0x5A)]), Many (Cls False [(0x61, 0x7A), (0x41, 0x5A)])]"

definition credit_card_re :: rx where
  "credit_card_re =
     Seqs [Bound, Times 13 (Seq Digit (ManyLazy (Chars '' -''))), UpTo 3 (Seq Digit (ManyLazy (Chars '' -''))), Bound]"

definition ssn_re :: rx where
  "ssn_re = Seqs [Bound, Times 3 Digit, Opt (Chars ''- ''), Times 2 Digit, Opt (Chars ''- ''), Times 4 Digit, Bound]"

definition phone_re :: rx where
  "phone_re =
     Seqs [Bound, Opt (Seqs [Opt (Txt ''+''), Txt ''1'', Opt dash_dot]), Opt (Txt ''(''), Times 3 Digit, Opt (Txt '')''), Opt dash_dot,
       Times 3 Digit, Opt dash_dot, Times 4 Digit, Bound]"

definition ip_re :: rx where
  "ip_re = Seqs [Bound, Times 3 (Seqs [Digit, UpTo 2 Digit, Txt ''.'']), Digit, UpTo 2 Digit, Bound]"

definition api_key_re :: rx where
  "api_key_re =
     Seqs [Alts [Seqs [Txt ''api'', Opt (Chars ''_-''), Txt ''key''], Txt ''apikey'', Seqs [Txt ''secret'', Opt (Chars ''_-''), Txt ''key'']],
       Some1 assign_rune, Times 20 url_rune, Many url_rune]"

definition password_re :: rx where
  "password_re =
     Seqs [Words [''password'', ''passwd'', ''pwd''], Some1 assign_rune, Times 6 (Cls True [(0x09, 0x0A), (0x0C, 0x0D), (0x20, 0x20)]),
       Many (Cls True [(0x09, 0x0A), (0x0C, 0x0D), (0x20, 0x20)])]"

definition jwt_re :: rx where
  "jwt_re = Seqs [Txt ''eyJ'', Many url_rune, Txt ''.eyJ'', Many url_rune, Txt ''.'', Many url_rune]"

text \<open>The patterns by name, with whether they ignore case.\<close>

definition pii_patterns :: "(string \<times> bool \<times> rx) list" where
  "pii_patterns =
     [(''email'', False, email_re), (''credit_card'', False, credit_card_re), (''ssn'', False, ssn_re), (''phone'', False, phone_re),
      (''ip'', False, ip_re), (''api_key'', True, api_key_re), (''password'', True, password_re), (''jwt'', False, jwt_re)]"

section \<open>Pieces of a text\<close>

text \<open>The matches from left to right and what lies between them, with the number of their runes.\<close>

function rx_pieces :: "bool \<Rightarrow> rx \<Rightarrow> rpos \<Rightarrow> (bool \<times> nat) list" where
  "rx_pieces ic r p =
     (case rx_find ic r (fst p) (snd p) of
        None \<Rightarrow> [(False, length (snd p))]
      | Some (a, b) \<Rightarrow>
          if length (snd b) < length (snd p)
          then (False, length (snd p) - length (snd a)) # (True, length (snd a) - length (snd b)) # rx_pieces ic r b
          else [(False, length (snd p))])"
  by pat_completeness auto
termination
  by (relation "measure (\<lambda>(ic, r, p). length (snd p))") auto

declare rx_pieces.simps [simp del]

text \<open>The bytes of the first runes, and a text cut into pieces.\<close>

fun bytes_of_runes :: "nat \<Rightarrow> nat list \<Rightarrow> nat" where
  "bytes_of_runes 0 xs = 0"
| "bytes_of_runes (Suc n) xs = (if xs = [] then 0 else rune_width xs + bytes_of_runes n (drop (rune_width xs) xs))"

definition byte_count :: "nat \<Rightarrow> string \<Rightarrow> nat" where
  "byte_count n s = bytes_of_runes n (map of_char s)"

fun cut_pieces :: "(bool \<times> nat) list \<Rightarrow> string \<Rightarrow> (bool \<times> string) list" where
  "cut_pieces [] s = []"
| "cut_pieces ((m, n) # ps) s = (m, take (byte_count n s) s) # cut_pieces ps (drop (byte_count n s) s)"

definition pii_matcher :: matcher where
  "pii_matcher ty s =
     (case map_of pii_patterns ty of
        None \<Rightarrow> [(False, s)]
      | Some (ic, r) \<Rightarrow> cut_pieces (rx_pieces ic r ([], to_runes s)) s)"

section \<open>Positions in bytes and in runes\<close>

lemma rune_width_le: "xs \<noteq> [] \<Longrightarrow> rune_width xs \<le> length xs"
  by (induction xs rule: rune_width.induct) auto

lemma range_runes_Cons: "xs \<noteq> [] \<Longrightarrow> range_runes xs = rune_head xs # range_runes (drop (rune_width xs) xs)"
  by (subst range_runes.simps) simp

lemma range_runes_Nil [simp]: "range_runes [] = []"
  by (simp add: range_runes.simps)

lemma runes_drop: "range_runes (drop (bytes_of_runes n xs) xs) = drop n (range_runes xs)"
proof (induction n xs rule: bytes_of_runes.induct)
  case (2 n xs)
  have "drop (rune_width xs + k) xs = drop k (drop (rune_width xs) xs)" for k by (simp add: add.commute)
  with 2 show ?case by (cases "xs = []") (simp_all add: range_runes_Cons del: drop_drop)
qed simp

lemma bytes_at_least: "n \<le> length (range_runes xs) \<Longrightarrow> n \<le> length (take (bytes_of_runes n xs) xs)"
proof (induction n xs rule: bytes_of_runes.induct)
  case (2 n xs)
  show ?case
  proof (cases "xs = []")
    case False
    then have "n \<le> length (take (bytes_of_runes n (drop (rune_width xs) xs)) (drop (rune_width xs) xs))"
      using 2 by (simp add: range_runes_Cons)
    then show ?thesis using False rune_width_le [OF False] rune_width_pos [of xs] by (simp del: rune_width_pos) linarith
  qed (use 2 in simp)
qed simp

lemma to_runes_drop: "to_runes (drop (byte_count n s) s) = drop n (to_runes s)"
  by (simp add: to_runes_def byte_count_def drop_map [symmetric] runes_drop)

lemma byte_count_at_least: "n \<le> length (to_runes s) \<Longrightarrow> n \<le> length (take (byte_count n s) s)"
  using bytes_at_least [of n "map of_char s"] by (simp add: to_runes_def byte_count_def)

lemma to_runes_ascii_hd: "s \<noteq> [] \<Longrightarrow> (of_char (hd s) :: nat) < 0x80 \<Longrightarrow> hd (to_runes s) = of_char (hd s)"
  by (cases s) (simp_all add: to_runes_ascii_Cons)

section \<open>What a match is\<close>

lemma rx_find_Some: "rx_find ic r bef aft = Some (a, b) \<Longrightarrow> moves (bef, aft) a \<and> rx_rel ic r a b"
proof (induction aft arbitrary: bef)
  case Nil
  then show ?case using rx_ends_iff [of b ic r a] by (auto split: list.splits)
next
  case (Cons c cs)
  show ?case
  proof (cases "rx_ends ic r (bef, c # cs)")
    case Nil
    with Cons have "moves (c # bef, cs) a \<and> rx_rel ic r a b" by simp
    moreover have "moves (bef, c # cs) (c # bef, cs)" by (simp add: moves_def)
    ultimately show ?thesis using moves_trans by blast
  next
    case (Cons q qs)
    then show ?thesis using Cons.prems rx_ends_iff [of b ic r a] by simp
  qed
qed

text \<open>A matching piece is the text of a match, whose length is known in runes.\<close>

lemma cut_matches:
  "(True, w) \<in> set (cut_pieces (rx_pieces ic r p) s) \<Longrightarrow> to_runes s = snd p \<Longrightarrow>
   \<exists>a b t. rx_rel ic r a b \<and> to_runes t = snd a \<and> w = take (byte_count (length (snd a) - length (snd b)) t) t"
proof (induction ic r p arbitrary: s rule: rx_pieces.induct)
  case (1 ic r p)
  show ?case
  proof (cases "rx_find ic r (fst p) (snd p)")
    case None
    then show ?thesis using "1.prems"(1) by (subst (asm) rx_pieces.simps) simp
  next
    case (Some ab)
    obtain a b where ab: "ab = (a, b)" by (cases ab)
    have m: "moves p a" "rx_rel ic r a b" using rx_find_Some [of ic r "fst p" "snd p" a b] Some ab by simp_all
    show ?thesis
    proof (cases "length (snd b) < length (snd p)")
      case True
      define s1 where "s1 = drop (byte_count (length (snd p) - length (snd a)) s) s"
      define s2 where "s2 = drop (byte_count (length (snd a) - length (snd b)) s1) s1"
      have a: "to_runes s1 = snd a" using m(1) "1.prems"(2) by (auto simp: s1_def to_runes_drop moves_def)
      have b: "to_runes s2 = snd b" using rx_rel_moves [OF m(2)] a by (auto simp: s2_def to_runes_drop moves_def)
      have "rx_pieces ic r p = (False, length (snd p) - length (snd a)) # (True, length (snd a) - length (snd b)) # rx_pieces ic r b"
        using Some ab True by (subst rx_pieces.simps) simp
      then consider "w = take (byte_count (length (snd a) - length (snd b)) s1) s1" | "(True, w) \<in> set (cut_pieces (rx_pieces ic r b) s2)"
        using "1.prems"(1) by (auto simp: s1_def s2_def)
      then show ?thesis
      proof cases
        case 1
        then show ?thesis using m(2) a by blast
      next
        case 2
        show ?thesis by (rule "1.IH" [OF Some ab [symmetric] True 2 b])
      qed
    next
      case False
      then show ?thesis using "1.prems"(1) Some ab by (subst (asm) rx_pieces.simps) simp
    qed
  qed
qed

text \<open>The least number of runes that an expression takes.\<close>

primrec rx_min :: "rx \<Rightarrow> nat" where
  "rx_min (Cls neg rs) = 1"
| "rx_min Emp = 0"
| "rx_min (Seq a b) = rx_min a + rx_min b"
| "rx_min (Alt a b) = min (rx_min a) (rx_min b)"
| "rx_min (Rep g a) = 0"
| "rx_min (Look l) = 0"

lemma rx_min_length: "rx_rel ic r p q \<Longrightarrow> length (snd q) + rx_min r \<le> length (snd p)"
proof (induction r arbitrary: p q)
  case (Seq a b)
  then obtain u where u: "rx_rel ic a p u" "rx_rel ic b u q" by (metis relcomppE rx_rel.simps(3))
  then have "length (snd u) + rx_min a \<le> length (snd p)" "length (snd q) + rx_min b \<le> length (snd u)" using Seq.IH by blast+
  then show ?case by simp
next
  case (Alt a b)
  then show ?case by (fastforce simp: min_def)
next
  case (Rep g a)
  then show ?case using moves_length [OF rx_rel_moves [OF Rep.prems]] by simp
qed auto

lemma match_length: "(True, w) \<in> set (cut_pieces (rx_pieces ic r p) s) \<Longrightarrow> to_runes s = snd p \<Longrightarrow> rx_min r \<le> length w"
proof -
  assume "(True, w) \<in> set (cut_pieces (rx_pieces ic r p) s)" "to_runes s = snd p"
  then obtain a b t where m: "rx_rel ic r a b" "to_runes t = snd a" "w = take (byte_count (length (snd a) - length (snd b)) t) t"
    using cut_matches by blast
  have "length (snd a) - length (snd b) \<le> length w" unfolding m(3) by (rule byte_count_at_least) (simp add: m(2))
  then show ?thesis using rx_min_length [OF m(1)] by simp
qed

lemma email_starts: "rx_rel False email_re a b \<Longrightarrow> snd a \<noteq> [] \<and> hd (snd a) \<noteq> 0x40"
  by (auto simp: email_re_def Some1_def local_rune_def in_cls_def in_ranges_def orbit_def)

lemma minimal_lengths:
  "1 \<le> rx_min email_re" "4 \<le> rx_min credit_card_re" "4 \<le> rx_min ssn_re" "4 \<le> rx_min phone_re" "4 \<le> rx_min ip_re"
  by (simp_all add: email_re_def credit_card_re_def ssn_re_def phone_re_def ip_re_def Some1_def Opt_def Digit_def Chars_def dash_dot_def
      numeral_eq_Suc Txt.simps)

lemma pii_matches_long: "matches_long pii_matcher"
proof -
  have long: "rx_min r \<le> length w" if "map_of pii_patterns ty = Some (ic, r)" "(True, w) \<in> set (pii_matcher ty s)" for ty ic r w s
    using that match_length [of w ic r "([], to_runes s)" s] by (simp add: pii_matcher_def)
  have hd: "hd w \<noteq> CHR ''@''" if w: "(True, w) \<in> set (pii_matcher ''email'' s)" for w s
  proof -
    have re: "map_of pii_patterns ''email'' = Some (False, email_re)" by (simp add: pii_patterns_def)
    have "w \<noteq> []" using long [OF re w] minimal_lengths(1) by auto
    have "(True, w) \<in> set (cut_pieces (rx_pieces False email_re ([], to_runes s)) s)" using w by (simp add: pii_matcher_def re)
    from cut_matches [OF this] obtain a b t where m: "rx_rel False email_re a b" "to_runes t = snd a"
      "w = take (byte_count (length (snd a) - length (snd b)) t) t" by auto
    then have "t \<noteq> []" "hd t = hd w" using \<open>w \<noteq> []\<close> by (auto simp: hd_take)
    then show ?thesis using email_starts [OF m(1)] to_runes_ascii_hd [of t] m(2) by auto
  qed
  show ?thesis
    unfolding matches_long_def
  proof (intro allI impI conjI)
    fix ty s w
    assume w: "(True, w) \<in> set (pii_matcher ty s)"
    show "w \<noteq> []" if "ty = ''email''" using long [of ty False email_re w s] w that minimal_lengths(1) by (auto simp: pii_patterns_def)
    show "hd w \<noteq> CHR ''@''" if "ty = ''email''" using hd w that by blast
    show "4 \<le> length w" if "ty \<in> {''credit_card'', ''ssn'', ''phone'', ''ip''}"
      using that long [of ty False _ w s] w minimal_lengths(2-5) by (auto simp: pii_patterns_def dest: order_trans)
  qed
qed

text \<open>
  Property C17. Masking never fails: in whatever order the patterns are visited and whatever the text, valid UTF-8 or not, no slice that the
  masking of a match takes is out of range.
\<close>

theorem masking_never_fails: "pii_mask pii_matcher names enabled s \<noteq> None"
  by (rule mask_total [OF pii_matches_long])

end
