(* ===== verification/Spec2Isabelle.thy ===== *)
theory Spec2Isabelle
  imports EngineCore RateLimit Performance Scoring SessionStore NetIP RulesEngine WebSocket DDoS Credential
    ParserHardener License Usage Tenant Compliance AuditLog Sqli Rce Xss
    GraphQL Middleware Protocol Bot ApiProtect Adaptive Ja3 Desync Upload Behavioral Auth
    Rewrite Reputation Geo Mtls Config Wasm Ebpf Pipeline Proxy Admin Stripe ApiServer
    Siem MlClient Ctl Lifecycle Masking
begin

text \<open>
  FortressWAF is a web application firewall in Go: a reverse proxy that hands every request to a pipeline of inspectors before it
  forwards it. This development models the two programs of the repository, the proxy (\<^verbatim>\<open>cmd/proxy\<close>) and the command-line client
  (\<^verbatim>\<open>cmd/ctl\<close>), with all packages under \<^verbatim>\<open>internal\<close>. Paths below are relative to \<^verbatim>\<open>src\<close>.

  \<^bold>\<open>How the parts interact.\<close> \<^verbatim>\<open>main\<close> loads the configuration, builds the engine from it and starts the proxy and the administration
  server. The proxy finds the site of a request, makes a request context and calls \<^verbatim>\<open>Engine.Inspect\<close>, which asks the inspectors one
  by one through the performance manager and its circuit breakers, adds up their scores and decides. The verdict is acted on: a
  request is forwarded, blocked, challenged or limited. The administration server reads the configuration and reloads it; a reload
  rebuilds the table of reverse proxies but not the engine. A second, larger management interface (\<^verbatim>\<open>internal/api\<close>), licences,
  payments, usage, tenants, compliance, sessions, reputation and geography stand beside this path and are used by it little or not
  at all.

  \<^bold>\<open>Conventions.\<close> A struct is a record, an enumeration a datatype, a method a definition that takes the state and returns the new
  one. A lock that only protects an operation is left out, for the operation is one step; where locks or goroutines matter they are
  modelled: in \<open>Performance\<close>, in \<open>Siem\<close> (the export runs outside the lock, and the loop and the caller of \<^verbatim>\<open>Close\<close> flush at the same time) and in
  \<open>Lifecycle\<close>. Errors are the left side of a sum or an option of a \<open>gotext\<close> (a format with its
  arguments), panics a value of their own or \<open>None\<close>. Strings are lists of bytes. \<^verbatim>\<open>int\<close> is an unbounded integer except where the
  program can leave 64 bits: there a word or \<open>int64\<close> wraps around. float64 is exact, or passes through a rounding argument (the token bucket, with a bound on the error of one rounding).
  The time is an argument. A map is an association list or a partial map; where the order of its keys shows, the order is an
  argument or the statement holds for every order. Third-party and system code (YAML, TLS, cryptography, sockets, HTTP exchanges,
  regular expressions that come from the configuration, WebAssembly, databases) is an argument, collected in \<open>_env\<close> records.

  \<^bold>\<open>The theories\<close>
  \<^item> Shared: \<open>Prelude\<close> (time, durations, list and map lemmas), \<open>GoStrings\<close>, \<open>Utf8\<close>, \<open>Base64\<close>, \<open>NetIP\<close>, \<open>Regex\<close>, \<open>Json\<close> and \<open>JsonText\<close>
    model what is used of Go's packages \<^verbatim>\<open>strings\<close>, \<^verbatim>\<open>strconv\<close>, \<^verbatim>\<open>unicode/utf8\<close>, \<^verbatim>\<open>encoding/base64\<close>, \<^verbatim>\<open>net\<close>, \<^verbatim>\<open>regexp\<close> and
    \<^verbatim>\<open>encoding/json\<close>. The matcher of \<open>Regex\<close> backtracks in the order of preference, and \<open>rx_ends_iff\<close> says that it finds what the
    relation of an expression says; \<open>marshal_then_read\<close> says that written JSON is read back. \<open>WafTypes\<close> holds request, context and
    decision (\<^verbatim>\<open>engine.go\<close>) and the locale \<open>inspector\<close>, the contract that every inspector is shown to keep: it changes of the context
    nothing but what it is allowed to, and its scores are in range. \<open>WindowCounter\<close> has the locales of sliding and fixed windows, \<open>Targets\<close> the parts of a request
    that the injection detectors read.
  \<^item> The pipeline (\<^verbatim>\<open>internal/engine\<close>): \<open>EngineCore\<close> (\<^verbatim>\<open>engine.go\<close>), \<open>Performance\<close> (\<^verbatim>\<open>performance.go\<close>), \<open>Scoring\<close> (\<^verbatim>\<open>confidence.go\<close>,
    \<^verbatim>\<open>shadow.go\<close>) and \<open>Pipeline\<close> (\<^verbatim>\<open>engine.New\<close> and \<^verbatim>\<open>buildEngineConfig\<close>). The specification that the engine is compared with
    is \<open>ask_all\<close>: every installed inspector is asked, in order, without any early return, and the verdict is read off the list of answers. What an
    allow verdict means, which block decides, what shadow mode does, the account of scores; when a breaker refuses, that every exit
    gives back its worker, when the statistics hang. A stack overflow ends the process, other panics are recovered.
  \<^item> Detectors of \<^verbatim>\<open>internal/engine\<close>: \<open>Sqli\<close>, \<open>Xss\<close>, \<open>Rce\<close>, \<open>GraphQL\<close>, \<open>Protocol\<close>, \<open>ApiProtect\<close>, \<open>Desync\<close>, \<open>Upload\<close>, \<open>ParserHardener\<close>,
    \<open>WebSocket\<close>, \<open>Middleware\<close>, \<open>Bot\<close>, \<open>Adaptive\<close>, \<open>Behavioral\<close>, \<open>Ja3\<close>, \<open>Credential\<close>, \<open>DDoS\<close>, \<open>Wasm\<close> and \<open>Ebpf\<close>, each from the file of
    that name (\<open>ParserHardener\<close> from \<^verbatim>\<open>parser.go\<close>, \<open>ApiProtect\<close> from \<^verbatim>\<open>api_protect.go\<close>); \<open>Auth\<close> and \<open>Mtls\<close> for tokens and client
    certificates, \<open>Rewrite\<close> for rewriting. Patterns are written out as terms, text by text. Their lemmas say what is always found,
    what never is, and where an inspector panics or does not return.
  \<^item> Proxy and administration (\<^verbatim>\<open>cmd/proxy/main.go\<close>): \<open>Proxy\<close> (handler, counters, reloads; a reachability predicate over runs of the
    whole server), \<open>Admin\<close> (key check, log-in, routes), \<open>Lifecycle\<close> (listeners, database, metrics, and the shut-down as a machine
    whose steps are freely interleaved: it always ends, and what a signal does to requests), \<open>Config\<close> (\<^verbatim>\<open>internal/config\<close>: data,
    validation, loading, updating, saving).
  \<^item> Management interface (\<^verbatim>\<open>internal/api\<close>): \<open>ApiState\<close> (state, requests, answers), \<open>ApiSites\<close> and \<open>ApiRules\<close>, \<open>ApiLogs\<close> (log store,
    queries, statistics), \<open>ApiStore\<close> (patches, tenants, alerts), \<open>ApiServer\<close> (remaining handlers, routes, access); \<open>Ctl\<close> is the client
    \<^verbatim>\<open>cmd/ctl\<close>, with lemmas on how client and server fit.
  \<^item> Services: \<open>RateLimit\<close> (\<^verbatim>\<open>internal/ratelimit\<close>), \<open>SessionStore\<close> (\<^verbatim>\<open>internal/session\<close>), \<open>RulesEngine\<close> (\<^verbatim>\<open>internal/rules\<close>),
    \<open>Reputation\<close>, \<open>Geo\<close>, \<open>Siem\<close>, \<open>MlClient\<close> (\<^verbatim>\<open>internal/ml\<close>), \<open>License\<close>, \<open>Usage\<close> and \<open>Stripe\<close> (\<^verbatim>\<open>internal/billing\<close>), \<open>Tenant\<close>
    (\<^verbatim>\<open>internal/tenant\<close>), \<open>Compliance\<close>, \<open>AuditLog\<close> and \<open>Masking\<close> (\<^verbatim>\<open>internal/compliance\<close>).

  \<^bold>\<open>Kinds of statements.\<close> Invariants over all histories (sessions, log store, counters, scores), bounds (token bucket, windows,
  slices of the masking), refinement (the cache of reputations against a specification without one), equivalence (the measured depth
  of a query against the largest surplus of braces), round trips (frames, configurations, patches, JSON), error behaviour (panics
  characterised exactly), termination and progress (decoding of header values, retries, shut-down), and safety of the composed server
  (what is forwarded was inspected, what is protected needs a key). Statements describe the code as it is: several say that
  something which looks intended does not happen, such as a licence that is accepted or a rule that takes effect.

  \<^bold>\<open>Bounds and fuel.\<close> Recursion is structural or comes with a measure (the rest of a text for tokenizers, matchers and JSON, the
  number of attempts for retries). The repetition of an expression is bounded by the length of the rest, which is enough because
  an iteration that consumes nothing is not tried (\<open>rep_ends_complete\<close>). JSON nesting is bounded by 10000 as in the library. The one
  loop of the program that may not end, \<^verbatim>\<open>decodePathValue\<close>, is a partial function, and \<open>decoding_diverges_iff_stuck\<close> says when it ends.

  \<^bold>\<open>Idealisations.\<close> \<^verbatim>\<open>strings.ToLower\<close> and \<^verbatim>\<open>TrimSpace\<close> work on ASCII. Signatures are symbolic: \<open>binds_message\<close> says that a signature
  belongs to one message, as documented of the algorithms up to negligible probability. A time has no least or greatest value except
  where a number from outside becomes one (\<open>unix_time\<close> in \<open>Stripe\<close>).

  \<^bold>\<open>Not modelled.\<close> Log lines and the usage text of the programs; texts that only formatting makes (amounts and dates of \<^verbatim>\<open>stripe.go\<close>,
  \<^verbatim>\<open>Serialize\<close> of sessions); closing of tickers, files and connections that has no other effect; data races between requests that share
  an inspector, since each request is a step. Outside Go: the dashboard (TypeScript), the machine-learning service (Python),
  deployment files, the rule files and the documentation. They are data or other programs that the
  modelled code reads or calls only through the interfaces that are arguments here.
\<close>

end
